(* ===== verification/Float64.thy ===== *)
theory Float64
  imports Complex_Main "HOL-Library.Log_Nat"
begin

text \<open>
  IEEE double arithmetic as the code uses it: an operation is the exact rational result rounded
  to the nearest value with a 53-bit significand, ties to even. The arguments the code passes
  are ordinary magnitudes (crash multipliers, rates, odds), so the exponent is not bounded here.
\<close>

definition half_even :: "rat \<Rightarrow> int" where
  "half_even z =
     (let n = \<lfloor>z\<rfloor>; d = z - of_int n
      in if d < 1 / 2 then n else if d > 1 / 2 then n + 1 else if even n then n else n + 1)"

definition float_exp :: "rat \<Rightarrow> int" where
  "float_exp x =
     (case quotient_of x of (p, q) \<Rightarrow>
        let e = bitlen p - bitlen q
        in if 2 powi e \<le> x then e else e - 1)"

definition fl_pos :: "rat \<Rightarrow> rat" where
  "fl_pos x = (let u = 2 powi (float_exp x - 52) in of_int (half_even (x / u)) * u)"

definition fl :: "rat \<Rightarrow> rat" where
  "fl x = (if x = 0 then 0 else if x < 0 then - fl_pos (- x) else fl_pos x)"

lemma half_even_error: "\<bar>of_int (half_even z) - z\<bar> \<le> 1 / 2"
proof -
  have "of_int \<lfloor>z\<rfloor> \<le> z" "z < of_int \<lfloor>z\<rfloor> + 1" by linarith+
  then show ?thesis by (auto simp: half_even_def Let_def abs_le_iff; linarith)
qed

lemma half_even_ge: "of_int n \<le> z \<Longrightarrow> n \<le> half_even z"
  unfolding half_even_def Let_def by (auto simp: le_floor_iff intro: order_trans [of _ "\<lfloor>z\<rfloor>"])

lemma half_even_int [simp]: "half_even (of_int n) = n"
  by (simp add: half_even_def)

lemma bitlen_powi:
  assumes "0 < p"
  shows "2 powi (bitlen p - 1) \<le> (of_int p :: rat)" "(of_int p :: rat) < 2 powi (bitlen p)"
proof -
  have b: "1 \<le> bitlen p" using assms bitlen_eq_zero_iff [of p] bitlen_nonneg [of p] by linarith
  have e: "(of_int (2 ^ nat k) :: rat) = 2 powi k" if "0 \<le> k" for k
    using that by (simp add: power_int_def)
  have "(of_int (2 ^ nat (bitlen p - 1)) :: rat) \<le> of_int p" "(of_int p :: rat) < of_int (2 ^ nat (bitlen p))"
    using bitlen_bounds [OF assms] by (simp_all only: of_int_le_iff of_int_less_iff)
  then show "2 powi (bitlen p - 1) \<le> (of_int p :: rat)" "(of_int p :: rat) < 2 powi (bitlen p)"
    using b by (simp_all only: e)
qed

lemma float_exp_bounds:
  assumes "0 < x"
  shows "2 powi (float_exp x) \<le> x" "x < 2 powi (float_exp x + 1)"
proof -
  obtain p q where pq: "quotient_of x = (p, q)" by (cases "quotient_of x")
  then have q: "0 < q" and x: "x = of_int p / of_int q"
    by (auto simp: quotient_of_denom_pos quotient_of_div)
  from assms x q have p: "0 < p" by (simp add: zero_less_divide_iff)
  let ?e = "bitlen p - bitlen q"
  have q': "(0::rat) < of_int q" using q by simp
  have "2 powi (?e - 1) * of_int q \<le> 2 powi (?e - 1) * (2 powi (bitlen q) :: rat)"
    using bitlen_powi(2) [OF q] by (intro mult_left_mono) auto
  also have "\<dots> = 2 powi (bitlen p - 1)" by (simp flip: power_int_add)
  also have "\<dots> \<le> of_int p" by (rule bitlen_powi(1) [OF p])
  finally have lo: "2 powi (?e - 1) \<le> x" using q' by (simp add: x pos_le_divide_eq)
  have "of_int p < (2 powi (bitlen p) :: rat)" by (rule bitlen_powi(2) [OF p])
  also have "\<dots> = 2 powi (?e + 1) * 2 powi (bitlen q - 1)" by (simp flip: power_int_add)
  also have "\<dots> \<le> 2 powi (?e + 1) * of_int q"
    using bitlen_powi(1) [OF q] by (intro mult_left_mono) auto
  finally have hi: "x < 2 powi (?e + 1)" using q' by (simp add: x pos_divide_less_eq)
  show "2 powi (float_exp x) \<le> x" "x < 2 powi (float_exp x + 1)"
    using lo hi by (auto simp: float_exp_def pq Let_def)
qed

lemma fl_pos_eq: "0 < x \<Longrightarrow> fl x = fl_pos x"
  by (simp add: fl_def)

lemma fl_error:
  assumes "0 < x" shows "\<bar>fl x - x\<bar> \<le> x / 2 ^ 53"
proof -
  let ?u = "2 powi (float_exp x - 52) :: rat"
  have u: "0 < ?u" by simp
  have "\<bar>of_int (half_even (x / ?u)) - x / ?u\<bar> \<le> 1 / 2" by (rule half_even_error)
  then have "\<bar>of_int (half_even (x / ?u)) - x / ?u\<bar> * ?u \<le> 1 / 2 * ?u"
    using u by (intro mult_right_mono) auto
  also have "\<bar>of_int (half_even (x / ?u)) - x / ?u\<bar> * ?u = \<bar>fl x - x\<bar>"
  proof -
    have "(of_int (half_even (x / ?u)) - x / ?u) * ?u = fl x - x"
      using u assms by (simp add: fl_pos_eq fl_pos_def Let_def left_diff_distrib)
    then show ?thesis using u by (metis abs_mult abs_of_pos)
  qed
  also have "1 / 2 * ?u = 2 powi (float_exp x) / 2 ^ 53" by (simp add: power_int_diff)
  also have "\<dots> \<le> x / 2 ^ 53" using float_exp_bounds(1) [OF assms] by (simp add: divide_right_mono)
  finally show ?thesis .
qed

lemma fl_ge_nat:
  assumes "of_nat n \<le> x" "0 < n" "n \<le> 2 ^ 52" shows "of_nat n \<le> fl x"
proof -
  have x: "0 < x" using assms by (metis of_nat_0_less_iff order_less_le_trans)
  let ?e = "float_exp x" and ?u = "2 powi (float_exp x - 52) :: rat"
  have u: "0 < ?u" by simp
  have f: "fl x = of_int (half_even (x / ?u)) * ?u" using x by (simp add: fl_pos_eq fl_pos_def Let_def)
  show ?thesis
  proof (cases "?e \<le> 52")
    case True
    have "(2::rat) ^ nat (52 - ?e) * ?u = 2 powi (52 - ?e) * ?u" using True by (simp add: power_int_def)
    also have "\<dots> = 1" by (simp flip: power_int_add)
    finally have k: "(2::rat) ^ nat (52 - ?e) * ?u = 1" .
    have m: "of_nat n = of_int (int n * 2 ^ nat (52 - ?e)) * ?u"
      by (simp only: of_int_mult of_int_of_nat_eq of_int_power of_int_numeral mult.assoc k mult_1_right)
    have "of_int (int n * 2 ^ nat (52 - ?e)) * ?u \<le> (x / ?u) * ?u"
      unfolding m [symmetric] using assms(1) u by simp
    then have "of_int (int n * 2 ^ nat (52 - ?e)) \<le> x / ?u" using u by (simp only: mult_le_cancel_right)
    then have "int n * 2 ^ nat (52 - ?e) \<le> half_even (x / ?u)" by (rule half_even_ge)
    then have "of_int (int n * 2 ^ nat (52 - ?e)) * ?u \<le> of_int (half_even (x / ?u)) * ?u"
      using u by (intro mult_right_mono) (auto simp only: of_int_le_iff)
    then show ?thesis by (simp only: m f)
  next
    case False
    have "of_int (2 ^ 52) \<le> x / ?u"
      using float_exp_bounds(1) [OF x] u by (simp add: power_int_diff field_simps)
    then have "2 ^ 52 \<le> half_even (x / ?u)" by (rule half_even_ge)
    then have "of_int (2 ^ 52) * ?u \<le> fl x" unfolding f using u
      by (intro mult_right_mono) (auto simp only: of_int_le_iff)
    moreover have "1 \<le> ?u" using False by simp
    then have "of_int (2 ^ 52) * 1 \<le> of_int (2 ^ 52) * ?u" by (intro mult_left_mono) auto
    moreover have "(of_nat n :: rat) \<le> of_nat (2 ^ 52)" using assms by (simp only: of_nat_le_iff)
    ultimately show ?thesis by simp
  qed
qed

lemma fl_nat:
  assumes "0 < n" "n \<le> 2 ^ 52" shows "fl (of_nat n) = of_nat n"
proof -
  let ?x = "of_nat n :: rat"
  let ?e = "float_exp ?x" and ?u = "2 powi (float_exp ?x - 52) :: rat"
  have x: "0 < ?x" using assms by simp
  have "(2::rat) powi ?e \<le> ?x" by (rule float_exp_bounds(1) [OF x])
  also have "?x \<le> of_nat (2 ^ 52)" using assms(2) by (simp only: of_nat_le_iff)
  finally have "(2::rat) powi ?e \<le> 2 powi 52" by simp
  then have e: "?e \<le> 52" by (simp add: power_int_le_imp_le_exp [of "2::rat"])
  have "(2::rat) ^ nat (52 - ?e) = 2 powi (52 - ?e)" using e by (simp add: power_int_def)
  also have "\<dots> = 1 / ?u" by (simp add: power_int_diff)
  finally have "?x / ?u = of_int (int n * 2 ^ nat (52 - ?e))" by simp
  then have "half_even (?x / ?u) = int n * 2 ^ nat (52 - ?e)" by (simp only: half_even_int)
  then have "fl ?x = of_int (int n * 2 ^ nat (52 - ?e)) * ?u"
    using x by (simp only: fl_pos_eq fl_pos_def Let_def)
  also have "\<dots> = ?x / ?u * ?u" using \<open>?x / ?u = _\<close> by (simp only:)
  finally show ?thesis by simp
qed

lemma abs_relative:
  fixes a b c :: rat
  assumes "\<bar>a - b\<bar> \<le> b * c" shows "a \<le> b * (1 + c)" "b * (1 - c) \<le> a"
  using assms by (simp_all add: abs_le_iff algebra_simps)

end
