(* ===== verification/Prelude.thy ===== *)
theory Prelude
  imports Float64
begin

text \<open>
  Shared vocabulary of the development: the types that stand for the Go types every package
  uses, the parameters that stand for code outside the repository, and the generic lemmas on
  result values, tables and rounding that the component theories share.

  \<^item> \<open>decimal\<close>: a \<open>decimal.Decimal\<close> is the rational number it denotes. The library's
    \<open>Add\<close>, \<open>Sub\<close>, \<open>Mul\<close>, \<open>Neg\<close>, \<open>Abs\<close> and its comparisons are documented
    as exact, so they are the operations of \<open>rat\<close>. \<open>Round\<close> and \<open>Div\<close> are not
    determined by that and are fields of the parameter record \<open>libs\<close>.
  \<^item> \<open>uuid\<close>, \<open>time\<close>, \<open>duration\<close>: identifiers are opaque numbers, instants are
    nanoseconds since the Unix epoch, durations nanoseconds. What \<open>uuid.New()\<close> and
    \<open>time.Now()\<close> return is an argument of the operation that calls them.
  \<^item> \<open>sql_numeric\<close>: what the database stores when a value is written to a
    \<open>DECIMAL(p,s)\<close> column, \<open>None\<close> for a numeric field overflow.
\<close>

named_theorems tables "how the statements of the repositories act on a table"
named_theorems outcome "when a chain of fallible steps returns a result"
named_theorems money "exactness, sign and order facts about rounded amounts"

type_synonym decimal = rat
type_synonym uuid = nat
type_synonym time = int
type_synonym duration = int

abbreviation Millisecond :: duration where "Millisecond \<equiv> 1000000"
abbreviation Second :: duration where "Second \<equiv> 1000000000"
abbreviation Minute :: duration where "Minute \<equiv> 60000000000"
abbreviation Hour :: duration where "Hour \<equiv> 3600000000000"

text \<open>The zero value of \<open>time.Time\<close>: 1 January of year 1.\<close>

definition zero_time :: time where
  "zero_time = - 62135596800 * Second"

text \<open>\<open>Truncate\<close> rounds down to a multiple of the duration since the zero time.\<close>

definition time_truncate :: "time \<Rightarrow> duration \<Rightarrow> time" where
  "time_truncate t d = t - (t - zero_time) mod d"

section \<open>Libraries outside the repository\<close>

record libs =
  dec_round :: "decimal \<Rightarrow> nat \<Rightarrow> decimal"
  dec_div :: "decimal \<Rightarrow> decimal \<Rightarrow> decimal"
  sql_numeric :: "nat \<Rightarrow> nat \<Rightarrow> decimal \<Rightarrow> decimal option"
  uuid_string :: "uuid \<Rightarrow> string"
  dec_of_float :: "rat \<Rightarrow> decimal"

text \<open>A value with at most \<open>k\<close> digits after the decimal point.\<close>

definition has_scale :: "nat \<Rightarrow> decimal \<Rightarrow> bool" where
  "has_scale k x \<longleftrightarrow> of_int \<lfloor>x * 10 ^ k\<rfloor> = x * 10 ^ k"

text \<open>\<open>y\<close> is a value with \<open>k\<close> digits nearest to \<open>x\<close>; how a tie goes is left open.\<close>

definition nearest_at :: "nat \<Rightarrow> decimal \<Rightarrow> decimal \<Rightarrow> bool" where
  "nearest_at k x y \<longleftrightarrow> has_scale k y \<and> \<bar>y - x\<bar> * 10 ^ k \<le> 1 / 2"

text \<open>
  The documented behaviour the code relies on. \<open>Round(k)\<close> rounds to \<open>k\<close> places;
  \<open>Div\<close> rounds the quotient to \<open>DivisionPrecision = 16\<close> places; a numeric column rounds
  to its scale and accepts every value that is clearly within its precision. \<open>NewFromFloat\<close>
  gives the shortest decimal that denotes the double, so it undoes the rounding of an amount
  with two decimals.
\<close>

definition libs_ok :: "libs \<Rightarrow> bool" where
  "libs_ok L \<longleftrightarrow>
     (\<forall>x k. nearest_at k x (dec_round L x k)) \<and>
     (\<forall>x y. y \<noteq> 0 \<longrightarrow> nearest_at 16 (x / y) (dec_div L x y)) \<and>
     (\<forall>p s x y. sql_numeric L p s x = Some y \<longrightarrow> nearest_at s x y) \<and>
     (\<forall>p s x. \<bar>x\<bar> \<le> 10 ^ (p - s) - 1 \<longrightarrow> sql_numeric L p s x \<noteq> None) \<and>
     (\<forall>n. 0 < n \<and> n \<le> 10 ^ 12 \<longrightarrow> dec_of_float L (fl (of_nat n / 100)) = of_nat n / 100)"

text \<open>The decimal digits of a natural number, as \<open>%d\<close> and \<open>strconv\<close> print it.\<close>

definition digit :: "nat \<Rightarrow> char" where
  "digit d = char_of (48 + d)"

fun show_nat :: "nat \<Rightarrow> string" where
  "show_nat n = (if n < 10 then [digit n] else show_nat (n div 10) @ [digit (n mod 10)])"

declare show_nat.simps [simp del]

text \<open>\<open>strconv.FormatInt(n, 10)\<close>.\<close>

definition FormatInt :: "int \<Rightarrow> string" where
  "FormatInt n = (if n < 0 then CHR ''-'' # show_nat (nat (- n)) else show_nat (nat n))"

text \<open>The digits determine the number.\<close>

definition digits_value :: "string \<Rightarrow> nat" where
  "digits_value s = foldl (\<lambda>a c. 10 * a + (of_char c - 48)) 0 s"

lemma digits_value_snoc [simp]: "digits_value (s @ [c]) = 10 * digits_value s + (of_char c - 48)"
  by (simp add: digits_value_def)

lemma of_char_digit [simp]: "d < 10 \<Longrightarrow> of_char (digit d) = 48 + d"
  by (simp add: digit_def)

lemma digits_value_show [simp]: "digits_value (show_nat n) = n"
proof (induction n rule: show_nat.induct)
  case (1 n)
  show ?case
  proof (cases "n < 10")
    case True
    then show ?thesis by (simp add: show_nat.simps [of n] digits_value_def)
  next
    case False
    then show ?thesis using 1 by (simp add: show_nat.simps [of n])
  qed
qed

lemma show_nat_inject [simp]: "show_nat m = show_nat n \<longleftrightarrow> m = n"
  by (metis digits_value_show)

text \<open>A concrete instance, used where a statement is evaluated: ties go away from zero.\<close>

definition round_away :: "decimal \<Rightarrow> nat \<Rightarrow> decimal" where
  "round_away x k =
     (if x < 0 then - (of_int \<lfloor>- x * 10 ^ k + 1 / 2\<rfloor> / 10 ^ k)
      else of_int \<lfloor>x * 10 ^ k + 1 / 2\<rfloor> / 10 ^ k)"

definition std_libs :: libs where
  "std_libs = \<lparr>
     dec_round = round_away,
     dec_div = (\<lambda>x y. round_away (x / y) 16),
     sql_numeric = (\<lambda>p s x. let y = round_away x s in
        if \<bar>y\<bar> < 10 ^ (p - s) then Some y else None),
     uuid_string = show_nat,
     dec_of_float = (\<lambda>x. round_away x 2)\<rparr>"

section \<open>Facts about scales and rounding\<close>

lemma has_scaleI: "x * 10 ^ k = of_int n \<Longrightarrow> has_scale k x"
  by (simp add: has_scale_def)

lemma has_scaleE: "has_scale k x \<Longrightarrow> \<exists>n. x * 10 ^ k = of_int n"
  unfolding has_scale_def by metis

lemma has_scale_of_int [simp]: "has_scale k (of_int n)"
  by (rule has_scaleI [where n = "n * 10 ^ k"]) simp

lemma has_scale_0 [simp]: "has_scale k 0"
  by (simp add: has_scale_def)

lemma has_scale_add [money]:
  assumes "has_scale k x" and "has_scale k y" shows "has_scale k (x + y)"
proof -
  from assms obtain m n where "x * 10 ^ k = of_int m" "y * 10 ^ k = of_int n"
    by (blast dest: has_scaleE)
  then show ?thesis by (intro has_scaleI [where n = "m + n"]) (simp add: distrib_right)
qed

lemma has_scale_neg [simp]: "has_scale k (- x) \<longleftrightarrow> has_scale k x"
proof -
  have "has_scale k (- z)" if "has_scale k z" for z
    using has_scaleE [OF that] by (auto intro: has_scaleI [where n = "- _"])
  from this [of x] this [of "- x"] show ?thesis by auto
qed

lemma has_scale_diff [money]: "has_scale k x \<Longrightarrow> has_scale k y \<Longrightarrow> has_scale k (x - y)"
  using has_scale_add [of k x "- y"] by simp

text \<open>Two scaled values closer than one unit in the last place are equal.\<close>

lemma scaled_close_eq:
  assumes "has_scale k x" "has_scale k y" "\<bar>x - y\<bar> * 10 ^ k < 1"
  shows "x = y"
proof -
  from assms obtain m n where m: "x * 10 ^ k = of_int m" and n: "y * 10 ^ k = of_int n"
    by (blast dest: has_scaleE)
  have "\<bar>of_int m - of_int n :: rat\<bar> < 1"
    using assms(3) by (simp add: m [symmetric] n [symmetric] abs_mult flip: left_diff_distrib)
  then have "\<bar>m - n\<bar> < 1" by linarith
  then have "x * 10 ^ k = y * 10 ^ k" using m n by simp
  then show ?thesis by simp
qed

lemma nearest_at_exact [money]:
  assumes "nearest_at k x y" "has_scale k x" shows "y = x"
  using assms by (intro scaled_close_eq [of k]) (auto simp: nearest_at_def)

text \<open>Rounding to nearest is monotone, against scaled bounds and between two roundings.\<close>

lemma nearest_at_le:
  assumes "nearest_at k x y" "x \<le> z" "has_scale k z" shows "y \<le> z"
proof (rule ccontr)
  assume "\<not> y \<le> z"
  then have "z < y" by simp
  have "y - z \<le> y - x" using \<open>x \<le> z\<close> by simp
  then have "\<bar>y - z\<bar> \<le> \<bar>y - x\<bar>" using \<open>z < y\<close> by linarith
  then have "\<bar>y - z\<bar> * 10 ^ k \<le> \<bar>y - x\<bar> * 10 ^ k" by (simp add: mult_right_mono)
  also have "\<dots> \<le> 1 / 2" using assms(1) by (simp add: nearest_at_def)
  finally have "\<bar>y - z\<bar> * 10 ^ k < 1" by simp
  then have "y = z" using assms by (auto simp: nearest_at_def intro: scaled_close_eq)
  with \<open>z < y\<close> show False by simp
qed

lemma nearest_at_neg: "nearest_at k x y \<Longrightarrow> nearest_at k (- x) (- y)"
  by (simp add: nearest_at_def abs_minus_commute)

lemma nearest_at_ge:
  assumes "nearest_at k x y" "z \<le> x" "has_scale k z" shows "z \<le> y"
  using nearest_at_le [OF nearest_at_neg [OF assms(1)], of "- z"] assms by simp

lemma nearest_at_nonneg: "nearest_at k x y \<Longrightarrow> 0 \<le> x \<Longrightarrow> 0 \<le> y"
  by (rule nearest_at_ge) simp_all

lemma nearest_at_mono:
  assumes "nearest_at k x y" "nearest_at k x' y'" "x < x'" shows "y \<le> y'"
proof (rule ccontr)
  assume "\<not> y \<le> y'"
  then have "y' < y" by simp
  have e: "\<bar>y - x\<bar> * 10 ^ k \<le> 1 / 2" "\<bar>y' - x'\<bar> * 10 ^ k \<le> 1 / 2"
    using assms by (auto simp: nearest_at_def)
  have "\<bar>y - y'\<bar> < \<bar>y - x\<bar> + \<bar>y' - x'\<bar>" using \<open>y' < y\<close> assms(3) by linarith
  then have "\<bar>y - y'\<bar> * 10 ^ k < (\<bar>y - x\<bar> + \<bar>y' - x'\<bar>) * 10 ^ k" by simp
  also have "\<dots> \<le> 1" using e by (simp add: distrib_right)
  finally have "\<bar>y - y'\<bar> * 10 ^ k < 1" .
  then have "y = y'" using assms by (auto simp: nearest_at_def intro: scaled_close_eq)
  with \<open>y' < y\<close> show False by simp
qed

lemma nearest_at_error: "nearest_at k x y \<Longrightarrow> \<bar>y - x\<bar> \<le> 1 / (2 * 10 ^ k)"
  by (simp add: nearest_at_def field_simps)

lemma libs_okD:
  assumes "libs_ok L"
  shows dec_round_nearest: "nearest_at k x (dec_round L x k)"
    and dec_div_nearest: "y \<noteq> 0 \<Longrightarrow> nearest_at 16 (x / y) (dec_div L x y)"
    and sql_numeric_nearest: "sql_numeric L p s x = Some z \<Longrightarrow> nearest_at s x z"
    and sql_numeric_fits: "\<bar>x\<bar> \<le> 10 ^ (p - s) - 1 \<Longrightarrow> \<exists>z. sql_numeric L p s x = Some z"
    and dec_of_float_cents: "0 < n \<Longrightarrow> n \<le> 10 ^ 12 \<Longrightarrow> dec_of_float L (fl (of_nat n / 100)) = of_nat n / 100"
  using assms by (auto simp: libs_ok_def)

lemma sql_numeric_exact [money]:
  assumes "libs_ok L" "has_scale s x" "sql_numeric L p s x = Some z" shows "z = x"
  using assms by (auto intro: nearest_at_exact sql_numeric_nearest)

lemma sql_numeric_nonneg [money]:
  "libs_ok L \<Longrightarrow> sql_numeric L p s x = Some z \<Longrightarrow> 0 \<le> x \<Longrightarrow> 0 \<le> z"
  by (blast intro: nearest_at_nonneg sql_numeric_nearest)

lemma dec_round_nonneg [money]: "libs_ok L \<Longrightarrow> 0 \<le> x \<Longrightarrow> 0 \<le> dec_round L x k"
  by (blast intro: nearest_at_nonneg dec_round_nearest)

lemma dec_round_scale [money]: "libs_ok L \<Longrightarrow> has_scale k (dec_round L x k)"
  using dec_round_nearest [of L k x] by (simp add: nearest_at_def)

lemma dec_div_exact [money]:
  "libs_ok L \<Longrightarrow> y \<noteq> 0 \<Longrightarrow> has_scale 16 (x / y) \<Longrightarrow> dec_div L x y = x / y"
  by (blast intro: nearest_at_exact dec_div_nearest)

lemma floor_half_close: "\<bar>of_int \<lfloor>z + 1 / 2\<rfloor> - (z::rat)\<bar> \<le> 1 / 2"
  by linarith

lemma round_away_nearest: "nearest_at k x (round_away x k)"
proof -
  have s: "has_scale k (of_int n / 10 ^ k)" for n
    by (rule has_scaleI [where n = n]) simp
  have e: "\<bar>of_int \<lfloor>z * 10 ^ k + 1 / 2\<rfloor> / 10 ^ k - z\<bar> * 10 ^ k \<le> 1 / 2" for z :: rat
  proof -
    have "(of_int \<lfloor>z * 10 ^ k + 1 / 2\<rfloor> / 10 ^ k - z) * 10 ^ k
        = of_int \<lfloor>z * 10 ^ k + 1 / 2\<rfloor> - z * 10 ^ k" by (simp add: left_diff_distrib)
    then have "\<bar>of_int \<lfloor>z * 10 ^ k + 1 / 2\<rfloor> / 10 ^ k - z\<bar> * 10 ^ k
        = \<bar>of_int \<lfloor>z * 10 ^ k + 1 / 2\<rfloor> - z * 10 ^ k\<bar>"
      by (metis abs_mult abs_of_pos zero_less_numeral zero_less_power)
    then show ?thesis using floor_half_close by simp
  qed
  show ?thesis
  proof (cases "x < 0")
    case True
    have "nearest_at k (- x) (of_int \<lfloor>- x * 10 ^ k + 1 / 2\<rfloor> / 10 ^ k)"
      using s e [of "- x"] by (simp add: nearest_at_def)
    from nearest_at_neg [OF this] True show ?thesis by (simp add: round_away_def)
  next
    case False
    then show ?thesis using s e [of x] by (simp add: nearest_at_def round_away_def)
  qed
qed

lemma std_libs_ok: "libs_ok std_libs"
proof -
  have "\<bar>round_away x s\<bar> < 10 ^ (p - s)" if "\<bar>x\<bar> \<le> 10 ^ (p - s) - 1" for x p s
  proof -
    let ?y = "round_away x s"
    have "\<bar>?y - x\<bar> \<le> 1 / (2 * 10 ^ s)" by (rule nearest_at_error [OF round_away_nearest])
    also have "\<dots> \<le> (1 / 2 :: rat)" by (simp add: field_simps)
    finally have "\<bar>?y\<bar> \<le> \<bar>x\<bar> + 1 / 2" by linarith
    then show ?thesis using that by linarith
  qed
  moreover have "round_away (fl (of_nat n / 100)) 2 = of_nat n / 100"
    if n: "0 < n" "n \<le> 10 ^ 12" for n :: nat
  proof (rule scaled_close_eq)
    let ?x = "of_nat n / 100 :: rat"
    show "has_scale 2 (round_away (fl ?x) 2)"
      using round_away_nearest [of 2 "fl ?x"] by (simp add: nearest_at_def)
    show "has_scale 2 ?x" by (rule has_scaleI [where n = "int n"]) simp
    have "\<bar>round_away (fl ?x) 2 - fl ?x\<bar> \<le> 1 / 200"
      using nearest_at_error [OF round_away_nearest, of "fl ?x" 2] by simp
    moreover have "\<bar>fl ?x - ?x\<bar> \<le> ?x / 2 ^ 53" using n by (intro fl_error) simp
    moreover have "of_nat n \<le> (of_nat (10 ^ 12) :: rat)" using n by (simp only: of_nat_le_iff)
    then have "?x / 2 ^ 53 < 1 / 400" by (simp add: field_simps)
    ultimately have "\<bar>round_away (fl ?x) 2 - ?x\<bar> < 1 / 100" by linarith
    then show "\<bar>round_away (fl ?x) 2 - ?x\<bar> * 10 ^ 2 < 1" by simp
  qed
  ultimately show ?thesis
    by (auto simp: libs_ok_def std_libs_def round_away_nearest Let_def split: if_splits)
qed

section \<open>Tables\<close>

text \<open>
  A table is the list of its rows in the order a sequential scan returns them. The repositories
  use three statement shapes: a single-row \<open>SELECT\<close> read with \<open>QueryRow\<close> (the first
  matching row), an \<open>UPDATE ... WHERE\<close> (every matching row, with the number of rows
  affected) and an \<open>INSERT\<close> (a row at the end).
\<close>

definition select_row :: "('r \<Rightarrow> bool) \<Rightarrow> 'r list \<Rightarrow> 'r option" where
  "select_row P t = find P t"

definition update_where :: "('r \<Rightarrow> bool) \<Rightarrow> ('r \<Rightarrow> 'r) \<Rightarrow> 'r list \<Rightarrow> 'r list" where
  "update_where P g t = map (\<lambda>r. if P r then g r else r) t"

definition rows_affected :: "('r \<Rightarrow> bool) \<Rightarrow> 'r list \<Rightarrow> nat" where
  "rows_affected P t = length (filter P t)"

lemma select_row_Some [tables]: "select_row P t = Some r \<Longrightarrow> r \<in> set t \<and> P r"
  unfolding select_row_def by (metis find_Some_iff in_set_conv_nth)

lemma select_row_None [tables]: "select_row P t = None \<longleftrightarrow> (\<forall>r \<in> set t. \<not> P r)"
  by (auto simp: select_row_def find_None_iff)

lemma select_row_Cons [tables]:
  "select_row P (r # t) = (if P r then Some r else select_row P t)"
  "select_row P [] = None"
  by (simp_all add: select_row_def)

lemma rows_affected_0 [tables]: "rows_affected P t = 0 \<longleftrightarrow> (\<forall>r \<in> set t. \<not> P r)"
  by (simp add: rows_affected_def filter_empty_conv)

lemma update_where_none [tables]: "\<forall>r \<in> set t. \<not> P r \<Longrightarrow> update_where P g t = t"
  by (induction t) (auto simp: update_where_def)

lemma length_update_where [tables, simp]: "length (update_where P g t) = length t"
  by (simp add: update_where_def)

lemma update_where_Cons [tables]:
  "update_where P g (r # t) = (if P r then g r else r) # update_where P g t"
  "update_where P g [] = []"
  by (simp_all add: update_where_def)

lemma set_update_where [tables]:
  "set (update_where P g t) = g ` {r \<in> set t. P r} \<union> {r \<in> set t. \<not> P r}"
  by (auto simp: update_where_def)

lemma update_where_keys [tables]:
  "(\<And>r. key (g r) = key r) \<Longrightarrow> map key (update_where P g t) = map key t"
  by (induction t) (auto simp: update_where_def)

text \<open>A lookup by key after an update that keeps keys finds the updated row.\<close>

lemma select_row_update_where [tables]:
  assumes "\<And>r. Q (g r) = Q r"
  shows "select_row Q (update_where P g t) =
    map_option (\<lambda>r. if P r then g r else r) (select_row Q t)"
  using assms by (induction t) (auto simp: update_where_def select_row_def)

lemma select_row_append [tables]:
  "select_row P (t @ u) = (case select_row P t of Some r \<Rightarrow> Some r | None \<Rightarrow> select_row P u)"
  by (induction t) (auto simp: select_row_def)

text \<open>An \<open>UPDATE\<close> whose new values may not fit their columns fails as a whole.\<close>

definition update_try :: "('r \<Rightarrow> bool) \<Rightarrow> ('r \<Rightarrow> 'r option) \<Rightarrow> 'r list \<Rightarrow> 'r list option" where
  "update_try P g t = those (map (\<lambda>r. if P r then g r else Some r) t)"

lemma those_Some: "those xs = Some ys \<longleftrightarrow> xs = map Some ys"
  by (induction xs arbitrary: ys) (auto split: option.splits simp: Cons_eq_map_conv)

lemma those_map_Some [simp]: "those (map Some xs) = Some xs"
  by (simp add: those_Some)

lemma those_replace:
  assumes "those (map h (us @ r # vs)) = Some t" "\<forall>s \<in> set us \<union> set vs. h s = Some s"
  shows "\<exists>r'. h r = Some r' \<and> t = us @ r' # vs"
  using assms
proof (induction us arbitrary: t)
  case Nil
  then have "map h vs = map Some vs" by simp
  with Nil show ?case by (auto split: option.splits)
next
  case (Cons u us)
  then obtain t' where "those (map h (us @ r # vs)) = Some t'" "t = u # t'"
    by (auto split: option.splits)
  with Cons show ?case by auto
qed

text \<open>With distinct keys, an update that selects by key changes exactly one row.\<close>

lemma update_where_unique:
  assumes "distinct (map key t)" "r \<in> set t" "P r" "\<And>r'. P r' \<Longrightarrow> key r' = key r"
  shows "\<exists>us vs. t = us @ r # vs \<and> update_where P g t = us @ g r # vs"
proof -
  obtain us vs where t: "t = us @ r # vs" using assms(2) by (meson split_list)
  have "\<not> P s" if "s \<in> set us \<union> set vs" for s
    using assms(1,4) that unfolding t by (force simp: image_iff)
  then have "update_where P g us = us" "update_where P g vs = vs"
    by (auto intro: update_where_none)
  then show ?thesis using t assms(3) by (auto simp: update_where_def)
qed

text \<open>
  The statements of one operation that may fail for a reason outside the program (a lost
  connection, a cancelled context). Which of them fail is an argument of the operation.
\<close>

datatype db_call =
    BeginTx | QueryCall | UpdateCall | RowsAffectedCall | CreditCall | InsertCall | LedgerCall | CommitCall

type_synonym faults = "db_call \<Rightarrow> bool"

abbreviation no_faults :: faults where "no_faults \<equiv> (\<lambda>_. False)"

section \<open>Integer division\<close>

text \<open>Go's \<open>/\<close> on integers truncates toward zero.\<close>

definition go_quot :: "int \<Rightarrow> int \<Rightarrow> int" where
  "go_quot a b = (if 0 \<le> a then a div b else - ((- a) div b))"

lemma go_quot_nonneg [simp]: "0 \<le> a \<Longrightarrow> go_quot a b = a div b"
  by (simp add: go_quot_def)

lemma go_quot_mono: "0 < b \<Longrightarrow> a \<le> a' \<Longrightarrow> go_quot a b \<le> go_quot a' b"
  by (auto simp: go_quot_def intro: zdiv_mono1 order_trans [of _ 0] simp: pos_imp_zdiv_nonneg_iff)

section \<open>Chains of fallible steps\<close>

text \<open>
  An operation returns \<open>(state, Inl error)\<close> from every early return. A chain of them returns a
  result exactly when no early return was taken; these rules peel the chain from the front.
\<close>

lemma outcome_if [outcome]:
  "(if c then (a, Inl e) else F) = (b, Inr r) \<longleftrightarrow> \<not> c \<and> F = (b, Inr r)"
  "(if c then F else (a, Inl e)) = (b, Inr r) \<longleftrightarrow> c \<and> F = (b, Inr r)"
  "(if c then Inl e else G) = Inr r \<longleftrightarrow> \<not> c \<and> G = Inr r"
  "(if c then None else H) = Some r \<longleftrightarrow> \<not> c \<and> H = Some r"
  by auto

lemma outcome_option [outcome]:
  "(case x of None \<Rightarrow> (a, Inl e) | Some y \<Rightarrow> F y) = (b, Inr r) \<longleftrightarrow> (\<exists>y. x = Some y \<and> F y = (b, Inr r))"
  "(case x of None \<Rightarrow> F' | Some e' \<Rightarrow> (a, Inl (h e'))) = (b, Inr r) \<longleftrightarrow> x = None \<and> F' = (b, Inr r)"
  "(case x of None \<Rightarrow> Inl e | Some y \<Rightarrow> G y) = Inr r \<longleftrightarrow> (\<exists>y. x = Some y \<and> G y = Inr r)"
  "(case x of None \<Rightarrow> None | Some y \<Rightarrow> H y) = Some r \<longleftrightarrow> (\<exists>y. x = Some y \<and> H y = Some r)"
  by (auto split: option.splits)

lemma outcome_sum [outcome]:
  "(case x of Inl e \<Rightarrow> (g e, Inl (h e)) | Inr y \<Rightarrow> F y) = (b, Inr r) \<longleftrightarrow> (\<exists>y. x = Inr y \<and> F y = (b, Inr r))"
  "(case x of Inl e \<Rightarrow> Inl (h' e) | Inr y \<Rightarrow> G y) = Inr r \<longleftrightarrow> (\<exists>y. x = Inr y \<and> G y = Inr r)"
  "(case p of (a, Inl e) \<Rightarrow> (g' a e, Inl (k a e)) | (a, Inr y) \<Rightarrow> F' a y) = (b, Inr r) \<longleftrightarrow>
     (\<exists>a y. p = (a, Inr y) \<and> F' a y = (b, Inr r))"
  by (auto split: sum.splits prod.splits)

section \<open>Systems that run in steps\<close>

text \<open>
  The components keep their state through operations that arrive in any order. What such a
  component promises has one of two shapes: a property of the state that every operation keeps,
  or an order that every operation moves along. The components interpret these contracts on
  their own step relations.
\<close>

locale step_system =
  fixes step :: "'s \<Rightarrow> 's \<Rightarrow> bool" and inv :: "'s \<Rightarrow> bool"
  assumes step_keeps: "step s s' \<Longrightarrow> inv s \<Longrightarrow> inv s'"
begin

lemma run_keeps: "step\<^sup>*\<^sup>* s s' \<Longrightarrow> inv s \<Longrightarrow> inv s'"
  by (induction rule: rtranclp_induct) (auto intro: step_keeps)

end

locale ordered_steps = step_system +
  fixes below :: "'a \<Rightarrow> 'a \<Rightarrow> bool"
  assumes below_refl: "inv s \<Longrightarrow> below s s"
    and below_trans: "below s t \<Longrightarrow> below t u \<Longrightarrow> below s u"
    and step_below: "step s s' \<Longrightarrow> inv s \<Longrightarrow> below s s'"
begin

lemma run_below: "step\<^sup>*\<^sup>* s s' \<Longrightarrow> inv s \<Longrightarrow> below s s'"
proof (induction rule: rtranclp_induct)
  case (step t u)
  from below_trans [OF step.IH [OF step.prems] step_below [OF step.hyps(2) run_keeps [OF step.hyps(1) step.prems]]]
  show ?case .
qed (rule below_refl)

end

end
