(* ===== verification/Domain.thy ===== *)
theory Domain
  imports Prelude
begin

text \<open>
  The entities of \<open>internal/core/domain\<close>: bets and selections, crash games and their bets,
  matches with markets and outcomes, M-Pesa deposits and payments, wallets and transactions,
  users. Structs are records with the source's fields (a prefix per struct keeps them apart), a
  nil-able pointer is an option, and the string enumerations are datatypes whose constructors are
  the declared constants. \<open>BetType\<close> keeps a constructor for any other string, because the code
  has a \<open>default\<close> branch for it.
\<close>

section \<open>Bets\<close>

datatype BetType = BetTypeSingle | BetTypeMulti | BetTypeSystem | BetTypeOther string

datatype BetStatus =
  BetStatusPending | BetStatusWon | BetStatusLost | BetStatusVoid | BetStatusCashout

datatype SelectionStatus =
  SelectionStatusPending | SelectionStatusWon | SelectionStatusLost | SelectionStatusVoid

record Selection =
  sel_ID :: uuid
  sel_BetID :: uuid
  sel_MarketID :: string
  sel_EventID :: string
  sel_EventName :: string
  sel_MarketName :: string
  sel_OutcomeName :: string
  sel_Odds :: decimal
  sel_Status :: SelectionStatus
  sel_SettledAt :: "time option"

record Bet =
  bet_ID :: uuid
  bet_UserID :: uuid
  bet_CountryCode :: string
  bet_BetType :: BetType
  bet_Stake :: decimal
  bet_Currency :: string
  bet_PotentialWin :: decimal
  bet_TotalOdds :: decimal
  bet_Status :: BetStatus
  bet_ActualWin :: decimal
  bet_SettledAt :: "time option"
  bet_Selections :: "Selection list"
  bet_PlacedAt :: time
  bet_IPAddress :: string
  bet_DeviceID :: string
  bet_TaxAmount :: decimal
  bet_TaxPaid :: bool

definition CalculatePotentialWin :: "Bet \<Rightarrow> decimal" where
  "CalculatePotentialWin b =
     (case bet_BetType b of
        BetTypeSingle \<Rightarrow> bet_Stake b * bet_TotalOdds b
      | BetTypeMulti \<Rightarrow> bet_Stake b * bet_TotalOdds b
      | BetTypeSystem \<Rightarrow> bet_Stake b * bet_TotalOdds b
      | BetTypeOther _ \<Rightarrow> 0)"

definition CalculateTax :: "Bet \<Rightarrow> string \<Rightarrow> decimal" where
  "CalculateTax b countryCode =
     (if countryCode \<noteq> ''KE'' then 0
      else let profit = bet_ActualWin b - bet_Stake b in
        if profit \<le> 0 then 0 else profit * (20 / 100))"

record SportBet =
  sb_ID :: string
  sb_UserID :: string
  sb_CountryCode :: string
  sb_EventID :: string
  sb_MarketID :: string
  sb_OutcomeID :: string
  sb_Amount :: decimal
  sb_Odds :: decimal
  sb_Currency :: string
  sb_Status :: BetStatus
  sb_Payout :: decimal
  sb_NetPayout :: decimal
  sb_SettledAt :: "time option"
  sb_SettlementReason :: string
  sb_PlacedAt :: time
  sb_UpdatedAt :: time

section \<open>Crash games\<close>

datatype GameType = GameTypeCrash | GameTypeVirtual | GameTypeSlot

datatype GameStatus = GameStatusWaiting | GameStatusRunning | GameStatusCrashed

record Game =
  game_ID :: uuid
  game_GameType :: GameType
  game_RoundNumber :: int
  game_ServerSeed :: string
  game_ServerSeedHash :: string
  game_ClientSeed :: string
  game_CrashPoint :: decimal
  game_Status :: GameStatus
  game_StartedAt :: time
  game_CrashedAt :: "time option"
  game_CountryCode :: string
  game_MinBet :: decimal
  game_MaxBet :: decimal
  game_MaxMultiplier :: decimal

datatype GameBetStatus =
  GameBetStatusActive | GameBetStatusWon | GameBetStatusLost | GameBetStatusCashedOut

record GameBet =
  gb_ID :: uuid
  gb_GameID :: uuid
  gb_UserID :: uuid
  gb_Amount :: decimal
  gb_Currency :: string
  gb_CashedOut :: bool
  gb_CashoutAt :: "decimal option"
  gb_Payout :: decimal
  gb_Status :: GameBetStatus
  gb_PlacedAt :: time
  gb_CashedOutAt :: "time option"

definition CalculatePayout :: "GameBet \<Rightarrow> decimal \<Rightarrow> decimal" where
  "CalculatePayout gb multiplier = gb_Amount gb * multiplier"

section \<open>Matches\<close>

datatype OutcomeStatus =
  OutcomeStatusPending | OutcomeStatusWon | OutcomeStatusLost | OutcomeStatusVoid

record Outcome =
  oc_ID :: string
  oc_MarketID :: string
  oc_Name :: string
  oc_Odds :: decimal
  oc_Price :: decimal
  oc_Status :: OutcomeStatus

datatype MarketStatus =
  MarketStatusOpen | MarketStatusSuspended | MarketStatusClosed | MarketStatusSettled

text \<open>
  The odds feeds convert arbitrary strings to \<open>MarketType\<close>, \<open>Sport\<close> and
  \<open>MatchStatus\<close>, so these are the strings themselves.
\<close>

type_synonym MarketType = string
type_synonym Sport = string
type_synonym MatchStatus = string

definition MatchStatusLive :: MatchStatus where "MatchStatusLive = ''LIVE''"
definition MatchStatusFinished :: MatchStatus where "MatchStatusFinished = ''FINISHED''"

record Market =
  mk_ID :: string
  mk_MatchID :: string
  mk_Type :: MarketType
  mk_Name :: string
  mk_Outcomes :: "Outcome list"
  mk_Status :: MarketStatus
  mk_SuspendedAt :: "time option"

record MatchScore =
  HomeScore :: int
  AwayScore :: int
  HomeScoreHT :: "int option"
  AwayScoreHT :: "int option"
  HomeScoreFT :: "int option"
  AwayScoreFT :: "int option"
  HomeSets :: "int option"
  AwaySets :: "int option"

record Match =
  match_ID :: string
  match_Sport :: Sport
  match_League :: string
  match_HomeTeam :: string
  match_AwayTeam :: string
  match_StartTime :: time
  match_Status :: MatchStatus
  match_Score :: "MatchScore option"
  match_Markets :: "Market list"
  match_CountryCode :: string
  match_UpdatedAt :: time

definition IsLive :: "Match \<Rightarrow> bool" where
  "IsLive m \<longleftrightarrow> match_Status m = MatchStatusLive"

definition IsFinished :: "Match \<Rightarrow> bool" where
  "IsFinished m \<longleftrightarrow> match_Status m = MatchStatusFinished"

definition GetMarketByType :: "Match \<Rightarrow> MarketType \<Rightarrow> Market option" where
  "GetMarketByType m marketType = select_row (\<lambda>market. mk_Type market = marketType) (match_Markets m)"

definition GetOutcomeByName :: "Match \<Rightarrow> MarketType \<Rightarrow> string \<Rightarrow> Outcome option" where
  "GetOutcomeByName m marketType outcomeName =
     (case GetMarketByType m marketType of
        None \<Rightarrow> None
      | Some market \<Rightarrow>
          select_row (\<lambda>outcome. oc_Name outcome = outcomeName) (mk_Outcomes market))"

lemma GetOutcomeByName_Some:
  "GetOutcomeByName m ty nm = Some oc \<Longrightarrow>
     \<exists>mk \<in> set (match_Markets m). mk_Type mk = ty \<and> oc \<in> set (mk_Outcomes mk) \<and> oc_Name oc = nm"
  unfolding GetOutcomeByName_def GetMarketByType_def
  by (auto split: option.splits dest!: select_row_Some)

section \<open>Deposits and payments\<close>

datatype MPesaDepositStatus =
    MPesaDepositStatusPending
  | MPesaDepositStatusCompleted
  | MPesaDepositStatusFailed
  | MPesaDepositStatusCancelled

record MPesaDeposit =
  md_ID :: uuid
  md_MerchantRequestID :: string
  md_CheckoutRequestID :: string
  md_UserID :: uuid
  md_PhoneNumber :: string
  md_Amount :: decimal
  md_Currency :: string
  md_Status :: MPesaDepositStatus
  md_Reference :: string
  md_Description :: string
  md_MpesaReceiptNumber :: "string option"
  md_TransactionDate :: "time option"
  md_ResultCode :: "string option"
  md_ResultDesc :: "string option"
  md_CreatedAt :: time
  md_UpdatedAt :: time
  md_CompletedAt :: "time option"

definition MPesaDeposit_IsCompleted :: "MPesaDeposit \<Rightarrow> bool" where
  "MPesaDeposit_IsCompleted d \<longleftrightarrow>
     md_Status d = MPesaDepositStatusCompleted \<or>
     md_Status d = MPesaDepositStatusFailed \<or>
     md_Status d = MPesaDepositStatusCancelled"

definition MPesaDeposit_IsSuccessful :: "MPesaDeposit \<Rightarrow> bool" where
  "MPesaDeposit_IsSuccessful d \<longleftrightarrow> md_Status d = MPesaDepositStatusCompleted"

definition MPesaDeposit_MarkCompleted :: "time \<Rightarrow> MPesaDeposit \<Rightarrow> string \<Rightarrow> time \<Rightarrow> MPesaDeposit" where
  "MPesaDeposit_MarkCompleted now d receiptNumber transactionDate =
     d\<lparr>md_Status := MPesaDepositStatusCompleted,
       md_MpesaReceiptNumber := Some receiptNumber,
       md_TransactionDate := Some transactionDate,
       md_CompletedAt := Some now,
       md_UpdatedAt := now\<rparr>"

definition MPesaDeposit_MarkFailed :: "time \<Rightarrow> MPesaDeposit \<Rightarrow> string \<Rightarrow> string \<Rightarrow> MPesaDeposit" where
  "MPesaDeposit_MarkFailed now d resultCode resultDesc =
     d\<lparr>md_Status := MPesaDepositStatusFailed,
       md_ResultCode := Some resultCode,
       md_ResultDesc := Some resultDesc,
       md_CompletedAt := Some now,
       md_UpdatedAt := now\<rparr>"

datatype TransactionType =
    TransactionTypeDeposit
  | TransactionTypeWithdrawal
  | TransactionTypeBetPlaced
  | TransactionTypeBetWon
  | TransactionTypeBetRefund
  | TransactionTypeBonus
  | TransactionTypeTax

datatype PaymentStatus =
  PaymentStatusPending | PaymentStatusCompleted | PaymentStatusFailed | PaymentStatusCancelled

datatype PaymentMethod =
  PaymentMethodCard | PaymentMethodBankTransfer | PaymentMethodUSSD | PaymentMethodMobileMoney

text \<open>The free-form \<open>Meta\<close> map is never read by the code; it is kept as an opaque string.\<close>

record Payment =
  pay_ID :: string
  pay_UserID :: string
  pay_Type :: TransactionType
  pay_Amount :: decimal
  pay_Currency :: string
  pay_Status :: PaymentStatus
  pay_PaymentMethod :: PaymentMethod
  pay_ProviderName :: string
  pay_ProviderTxnID :: string
  pay_ReferenceID :: "string option"
  pay_ReferenceType :: "string option"
  pay_Description :: string
  pay_Meta :: string
  pay_CreatedAt :: time
  pay_CompletedAt :: "time option"
  pay_ProcessedAt :: "time option"
  pay_FailureReason :: "string option"

definition Payment_IsCompleted :: "Payment \<Rightarrow> bool" where
  "Payment_IsCompleted p \<longleftrightarrow>
     pay_Status p = PaymentStatusCompleted \<or>
     pay_Status p = PaymentStatusFailed \<or>
     pay_Status p = PaymentStatusCancelled"

definition Payment_IsSuccessful :: "Payment \<Rightarrow> bool" where
  "Payment_IsSuccessful p \<longleftrightarrow> pay_Status p = PaymentStatusCompleted"

definition Payment_MarkCompleted :: "time \<Rightarrow> Payment \<Rightarrow> Payment" where
  "Payment_MarkCompleted now p =
     p\<lparr>pay_Status := PaymentStatusCompleted,
       pay_CompletedAt := Some now,
       pay_ProcessedAt := Some now\<rparr>"

definition Payment_MarkFailed :: "time \<Rightarrow> Payment \<Rightarrow> string \<Rightarrow> Payment" where
  "Payment_MarkFailed now p reason =
     p\<lparr>pay_Status := PaymentStatusFailed,
       pay_ProcessedAt := Some now,
       pay_FailureReason := Some reason\<rparr>"

definition Payment_MarkCancelled :: "time \<Rightarrow> Payment \<Rightarrow> string \<Rightarrow> Payment" where
  "Payment_MarkCancelled now p reason =
     p\<lparr>pay_Status := PaymentStatusCancelled,
       pay_ProcessedAt := Some now,
       pay_FailureReason := Some reason\<rparr>"

section \<open>Wallets and transactions\<close>

record Wallet =
  w_ID :: uuid
  w_UserID :: uuid
  w_Currency :: string
  w_Balance :: decimal
  w_Version :: int
  w_BonusBalance :: decimal
  w_TodayDeposit :: decimal
  w_LastDepositReset :: time
  w_UpdatedAt :: time

datatype TransactionStatus =
    TransactionStatusPending
  | TransactionStatusCompleted
  | TransactionStatusFailed
  | TransactionStatusCancelled

record Transaction =
  t_ID :: uuid
  t_WalletID :: uuid
  t_UserID :: uuid
  t_Type :: TransactionType
  t_Amount :: decimal
  t_Currency :: string
  t_BalanceBefore :: decimal
  t_BalanceAfter :: decimal
  t_ReferenceID :: "uuid option"
  t_ReferenceType :: string
  t_ProviderTxnID :: string
  t_ProviderName :: string
  t_Status :: TransactionStatus
  t_Description :: string
  t_CreatedAt :: time
  t_CompletedAt :: "time option"
  t_CountryCode :: string

definition CanWithdraw :: "Wallet \<Rightarrow> decimal \<Rightarrow> bool" where
  "CanWithdraw w amount \<longleftrightarrow> w_Balance w \<ge> amount \<and> amount > 0"

text \<open>\<open>limit\<close> is the \<open>*int64\<close> argument; the clock is read once, for \<open>time.Since\<close>.\<close>

definition CanDeposit :: "time \<Rightarrow> Wallet \<Rightarrow> decimal \<Rightarrow> int option \<Rightarrow> bool" where
  "CanDeposit now w amount limit =
     (case limit of
        None \<Rightarrow> True
      | Some l \<Rightarrow>
          if now - w_LastDepositReset w \<ge> 24 * Hour then True
          else let maxDeposit = of_int l; newTotal = w_TodayDeposit w + amount
               in newTotal \<le> maxDeposit)"

section \<open>Users\<close>

datatype UserStatus = UserStatusActive | UserStatusSuspended | UserStatusBanned | UserStatusPending

record User =
  u_ID :: uuid
  u_PhoneNumber :: string
  u_Email :: string
  u_PasswordHash :: string
  u_CountryCode :: string
  u_Currency :: string
  u_NationalID :: string
  u_KRAPin :: string
  u_FullName :: string
  u_DateOfBirth :: time
  u_IsVerified :: bool
  u_SelfExcluded :: bool
  u_SelfExcludedUntil :: "time option"
  u_DailyDepositLimit :: "int option"
  u_CreatedAt :: time
  u_UpdatedAt :: time
  u_LastLoginAt :: "time option"
  u_Status :: UserStatus

definition CanPlaceBet :: "time \<Rightarrow> User \<Rightarrow> bool" where
  "CanPlaceBet now u =
     (if u_Status u \<noteq> UserStatusActive then False
      else if u_SelfExcluded u \<and>
              (case u_SelfExcludedUntil u of None \<Rightarrow> False | Some until \<Rightarrow> now < until) then False
      else if \<not> u_IsVerified u then False
      else True)"

lemma CanPlaceBet_iff:
  "CanPlaceBet now u \<longleftrightarrow>
     u_Status u = UserStatusActive \<and> u_IsVerified u \<and>
     (u_SelfExcluded u \<longrightarrow> (\<forall>until. u_SelfExcludedUntil u = Some until \<longrightarrow> until \<le> now))"
  by (auto simp: CanPlaceBet_def split: option.splits)

lemma CalculateTax_bounds:
  "0 \<le> CalculateTax b cc" "0 \<le> bet_Stake b \<Longrightarrow> 0 \<le> bet_ActualWin b \<Longrightarrow> CalculateTax b cc \<le> bet_ActualWin b"
  by (auto simp: CalculateTax_def Let_def)

end
