(* ===== verification/Tax.thy ===== *)
theory Tax
  imports Domain
begin

text \<open>
  \<open>internal/core/usecase/tax\<close>: the country-aware tax engine. An engine is a map from country
  codes to regimes; \<open>ApplyStakeTax\<close> and \<open>ApplyPayoutTax\<close> are the two calculations every bet
  goes through. The map the Go code builds with \<open>m[r.CountryCode] = r\<close> lets a later regime
  replace an earlier one, as the model's fold does.
\<close>

record Regime =
  r_CountryCode :: string
  r_StakeTaxRate :: decimal
  r_WinningsTaxRate :: decimal
  r_WinningsThreshold :: decimal
  r_Currency :: string

record StakeBreakdown =
  sk_GrossStake :: decimal
  sk_StakeTax :: decimal
  sk_NetStake :: decimal

record PayoutBreakdown =
  po_GrossWinnings :: decimal
  po_Winnings :: decimal
  po_TaxableAmount :: decimal
  po_WinningsTax :: decimal
  po_NetPayout :: decimal

datatype tax_error = ErrUnknownCountry | ErrInvalidTaxRate | ErrNegativeStake | ErrNegativePayout

type_synonym Engine = "string \<rightharpoonup> Regime"

definition validateRegime :: "Regime \<Rightarrow> tax_error option" where
  "validateRegime r =
     (if r_StakeTaxRate r < 0 \<or> r_StakeTaxRate r \<ge> 1 then Some ErrInvalidTaxRate
      else if r_WinningsTaxRate r < 0 \<or> r_WinningsTaxRate r \<ge> 1 then Some ErrInvalidTaxRate
      else if r_WinningsThreshold r < 0 then Some ErrInvalidTaxRate
      else None)"

fun new_loop :: "Engine \<Rightarrow> Regime list \<Rightarrow> tax_error + Engine" where
  "new_loop m [] = Inr m"
| "new_loop m (r # rs) =
     (case validateRegime r of
        Some e \<Rightarrow> Inl e
      | None \<Rightarrow> new_loop (m(r_CountryCode r \<mapsto> r)) rs)"

definition New :: "Regime list \<Rightarrow> tax_error + Engine" where
  "New regimes = new_loop Map.empty regimes"

definition Default_regime :: Regime where
  "Default_regime = \<lparr>
     r_CountryCode = ''KE'',
     r_StakeTaxRate = 15 / 100,
     r_WinningsTaxRate = 20 / 100,
     r_WinningsThreshold = 0,
     r_Currency = ''KES''\<rparr>"

definition Default :: "tax_error + Engine" where
  "Default = New [Default_regime]"

definition Engine_Regime :: "Engine \<Rightarrow> string \<Rightarrow> Regime option" where
  "Engine_Regime e countryCode = e countryCode"

definition ApplyStakeTax :: "libs \<Rightarrow> Engine \<Rightarrow> string \<Rightarrow> decimal \<Rightarrow> tax_error + StakeBreakdown" where
  "ApplyStakeTax L e countryCode gross =
     (if gross < 0 then Inl ErrNegativeStake
      else case e countryCode of
        None \<Rightarrow> Inl ErrUnknownCountry
      | Some r \<Rightarrow>
          let tax = dec_round L (gross * r_StakeTaxRate r) 2;
              netStake = gross - tax
          in if netStake < 0 then Inl ErrInvalidTaxRate
             else Inr \<lparr>sk_GrossStake = gross, sk_StakeTax = tax, sk_NetStake = netStake\<rparr>)"

definition ApplyPayoutTax ::
  "libs \<Rightarrow> Engine \<Rightarrow> string \<Rightarrow> decimal \<Rightarrow> decimal \<Rightarrow> tax_error + PayoutBreakdown" where
  "ApplyPayoutTax L e countryCode grossPayout stake =
     (if grossPayout < 0 then Inl ErrNegativePayout
      else if stake < 0 then Inl ErrNegativeStake
      else case e countryCode of
        None \<Rightarrow> Inl ErrUnknownCountry
      | Some r \<Rightarrow>
          let winnings0 = grossPayout - stake;
              winnings = (if winnings0 < 0 then 0 else winnings0);
              b = \<lparr>po_GrossWinnings = grossPayout, po_Winnings = winnings, po_TaxableAmount = 0,
                   po_WinningsTax = 0, po_NetPayout = grossPayout\<rparr>
          in if winnings = 0 then Inr b
             else
               let taxable0 = winnings - r_WinningsThreshold r;
                   taxable = (if taxable0 < 0 then 0 else taxable0);
                   tax = dec_round L (taxable * r_WinningsTaxRate r) 2
               in Inr (b\<lparr>po_TaxableAmount := taxable, po_WinningsTax := tax,
                         po_NetPayout := grossPayout - tax\<rparr>))"

section \<open>Engines only hold valid regimes\<close>

definition engine_ok :: "Engine \<Rightarrow> bool" where
  "engine_ok e \<longleftrightarrow> (\<forall>c r. e c = Some r \<longrightarrow> validateRegime r = None \<and> r_CountryCode r = c)"

lemma engine_ok_empty [simp]: "engine_ok Map.empty"
  by (simp add: engine_ok_def)

lemma new_loop_ok: "new_loop m rs = Inr e \<Longrightarrow> engine_ok m \<Longrightarrow> engine_ok e"
proof (induction rs arbitrary: m)
  case (Cons r rs)
  then have v: "validateRegime r = None" by (auto split: option.splits)
  have "engine_ok (m(r_CountryCode r \<mapsto> r))" using Cons.prems v by (auto simp: engine_ok_def)
  with Cons v show ?case by simp
qed simp

lemma validateRegime_None:
  "validateRegime r = None \<longleftrightarrow> 0 \<le> r_StakeTaxRate r \<and> r_StakeTaxRate r < 1 \<and>
     0 \<le> r_WinningsTaxRate r \<and> r_WinningsTaxRate r < 1 \<and> 0 \<le> r_WinningsThreshold r"
  by (auto simp: validateRegime_def)

lemma engine_okD:
  assumes "engine_ok e" "e c = Some r"
  shows "0 \<le> r_StakeTaxRate r" "r_StakeTaxRate r < 1" "0 \<le> r_WinningsTaxRate r"
    "r_WinningsTaxRate r < 1" "0 \<le> r_WinningsThreshold r"
  using assms by (auto simp: engine_ok_def validateRegime_None)

lemma New_ok: "New rs = Inr e \<Longrightarrow> engine_ok e"
  unfolding New_def by (erule new_loop_ok) simp

lemma Default_eq: "Default = Inr [''KE'' \<mapsto> Default_regime]"
  by (simp add: Default_def New_def Default_regime_def validateRegime_def)

lemma new_loop_lookup:
  "new_loop m rs = Inr e \<Longrightarrow>
     e c = (case find (\<lambda>r. r_CountryCode r = c) (rev rs) of Some r \<Rightarrow> Some r | None \<Rightarrow> m c)"
proof (induction rs arbitrary: m)
  case (Cons r rs)
  have app: "find P (xs @ [y]) = (case find P xs of Some z \<Rightarrow> Some z | None \<Rightarrow> if P y then Some y else None)"
    for P :: "Regime \<Rightarrow> bool" and xs y by (induction xs) auto
  from Cons.prems have "new_loop (m(r_CountryCode r \<mapsto> r)) rs = Inr e"
    by (auto split: option.splits)
  from Cons.IH [OF this] show ?case by (auto simp: app split: option.splits)
qed simp

section \<open>Stake tax\<close>

lemma ApplyStakeTax_cases:
  assumes "ApplyStakeTax L e c g = Inr b"
  obtains r where "e c = Some r" "0 \<le> g" "b = \<lparr>sk_GrossStake = g,
    sk_StakeTax = dec_round L (g * r_StakeTaxRate r) 2,
    sk_NetStake = g - dec_round L (g * r_StakeTaxRate r) 2\<rparr>"
    "0 \<le> g - dec_round L (g * r_StakeTaxRate r) 2"
  using assms by (auto simp: ApplyStakeTax_def Let_def not_less split: if_splits option.splits)

lemma ApplyStakeTax_split:
  assumes "libs_ok L" "engine_ok e" "ApplyStakeTax L e c g = Inr b"
  shows "sk_NetStake b + sk_StakeTax b = g" "0 \<le> sk_StakeTax b" "0 \<le> sk_NetStake b"
    "has_scale 2 (sk_StakeTax b)" "sk_GrossStake b = g"
  using assms
  by (auto elim!: ApplyStakeTax_cases simp: money dest: engine_okD intro!: dec_round_nonneg)

text \<open>
  For a stake in whole cents the guard against a negative net stake never fires: the tax is rounded
  from a value below the stake.
\<close>

lemma ApplyStakeTax_total:
  assumes L: "libs_ok L" and e: "engine_ok e" and r: "e c = Some r"
    and g: "0 \<le> g" "has_scale 2 g"
  shows "\<exists>b. ApplyStakeTax L e c g = Inr b"
proof -
  have "g * r_StakeTaxRate r \<le> g * 1" using engine_okD [OF e r] g by (intro mult_left_mono) auto
  then have "dec_round L (g * r_StakeTaxRate r) 2 \<le> g"
    using dec_round_nearest [OF L] g(2) by (auto intro: nearest_at_le)
  then show ?thesis using r g by (simp add: ApplyStakeTax_def Let_def)
qed

section \<open>Payout tax\<close>

text \<open>The taxable part of a payout, as the source computes it.\<close>

definition taxable_winnings :: "Regime \<Rightarrow> decimal \<Rightarrow> decimal \<Rightarrow> decimal" where
  "taxable_winnings r gross stake = max 0 (max 0 (gross - stake) - r_WinningsThreshold r)"

lemma ApplyPayoutTax_spec:
  assumes L: "libs_ok L" and e: "engine_ok e" and r: "e c = Some r"
    and pos: "0 \<le> gross" "0 \<le> stake"
  shows "ApplyPayoutTax L e c gross stake = Inr \<lparr>po_GrossWinnings = gross,
    po_Winnings = max 0 (gross - stake),
    po_TaxableAmount = taxable_winnings r gross stake,
    po_WinningsTax = dec_round L (taxable_winnings r gross stake * r_WinningsTaxRate r) 2,
    po_NetPayout = gross - dec_round L (taxable_winnings r gross stake * r_WinningsTaxRate r) 2\<rparr>"
proof -
  have z: "dec_round L 0 2 = 0"
    using dec_round_nearest [OF L, of 2 0] by (auto intro: nearest_at_exact)
  show ?thesis
    using r pos z engine_okD(5) [OF e r]
    by (auto simp: ApplyPayoutTax_def Let_def taxable_winnings_def max_def not_less)
qed

lemma taxable_winnings_bounds:
  "0 \<le> taxable_winnings r gross stake"
  "0 \<le> r_WinningsThreshold r \<Longrightarrow> 0 \<le> gross \<Longrightarrow> 0 \<le> stake \<Longrightarrow> taxable_winnings r gross stake \<le> gross"
  by (auto simp: taxable_winnings_def max_def)

lemma ApplyPayoutTax_fail:
  assumes "ApplyPayoutTax L e c gross stake = Inl err"
  shows "err = ErrNegativePayout \<and> gross < 0 \<or> err = ErrNegativeStake \<and> stake < 0 \<or>
    err = ErrUnknownCountry \<and> e c = None"
  using assms by (auto simp: ApplyPayoutTax_def Let_def split: if_splits option.splits)

lemma taxed_amount_bounds:
  assumes "engine_ok e" "e c = Some r"
  shows "0 \<le> taxable_winnings r gross stake * r_WinningsTaxRate r"
    "taxable_winnings r gross stake * r_WinningsTaxRate r \<le> max 0 (gross - stake)"
proof -
  note v = engine_okD [OF assms]
  show "0 \<le> taxable_winnings r gross stake * r_WinningsTaxRate r"
    using v taxable_winnings_bounds(1) by simp
  have "taxable_winnings r gross stake * r_WinningsTaxRate r \<le> taxable_winnings r gross stake * 1"
    using v taxable_winnings_bounds(1) by (intro mult_left_mono) auto
  also have "\<dots> \<le> max 0 (gross - stake)" using v by (auto simp: taxable_winnings_def)
  finally show "taxable_winnings r gross stake * r_WinningsTaxRate r \<le> max 0 (gross - stake)" .
qed

lemma ApplyPayoutTax_Inr:
  assumes L: "libs_ok L" and e: "engine_ok e" and b: "ApplyPayoutTax L e c gross stake = Inr b"
  shows "po_NetPayout b + po_WinningsTax b = gross" "0 \<le> po_WinningsTax b"
    "has_scale 2 (po_WinningsTax b)"
    "has_scale 2 (gross - stake) \<Longrightarrow> po_WinningsTax b \<le> max 0 (gross - stake)"
    "0 \<le> gross" "0 \<le> stake" "po_GrossWinnings b = gross" "po_Winnings b = max 0 (gross - stake)"
proof -
  from b obtain r where r: "e c = Some r" and pos: "0 \<le> gross" "0 \<le> stake"
    by (auto simp: ApplyPayoutTax_def not_less split: if_splits option.splits)
  let ?x = "taxable_winnings r gross stake * r_WinningsTaxRate r"
  note tx = taxed_amount_bounds [OF e r, of gross stake]
  have b': "po_WinningsTax b = dec_round L ?x 2" "po_NetPayout b = gross - dec_round L ?x 2"
      "po_GrossWinnings b = gross" "po_Winnings b = max 0 (gross - stake)"
    using b ApplyPayoutTax_spec [OF L e r pos] by auto
  show "po_NetPayout b + po_WinningsTax b = gross" "0 \<le> po_WinningsTax b"
    "has_scale 2 (po_WinningsTax b)" "0 \<le> gross" "0 \<le> stake"
    "po_GrossWinnings b = gross" "po_Winnings b = max 0 (gross - stake)"
    using b' pos dec_round_nonneg [OF L tx(1)] dec_round_scale [OF L] by auto
  assume "has_scale 2 (gross - stake)"
  then have "has_scale 2 (max 0 (gross - stake))" by (simp add: max_def)
  then show "po_WinningsTax b \<le> max 0 (gross - stake)"
    using b'(1) tx(2) dec_round_nearest [OF L] by (auto intro: nearest_at_le)
qed

section \<open>Properties\<close>

text \<open>The stake tax splits a stake and loses nothing. For every engine \<open>New\<close> accepts and
  every non-negative stake in whole cents in a configured country the calculation succeeds; net
  stake and tax add up to the stake, both are non-negative amounts, and the tax is the regime's
  rate times the stake to within half a cent.\<close>

theorem ApplyStakeTax_splits:
  assumes L: "libs_ok L" and e: "New regimes = Inr e" and r: "Engine_Regime e c = Some r"
    and g: "0 \<le> g" "has_scale 2 g"
  shows "\<exists>b. ApplyStakeTax L e c g = Inr b \<and> sk_NetStake b + sk_StakeTax b = g \<and>
    0 \<le> sk_StakeTax b \<and> 0 \<le> sk_NetStake b \<and> has_scale 2 (sk_NetStake b) \<and>
    \<bar>sk_StakeTax b - g * r_StakeTaxRate r\<bar> \<le> 1 / 200"
proof -
  note ok = New_ok [OF e]
  have r: "e c = Some r" using r by (simp add: Engine_Regime_def)
  obtain b where b: "ApplyStakeTax L e c g = Inr b" using ApplyStakeTax_total [OF L ok r g] by blast
  note sp = ApplyStakeTax_split [OF L ok b]
  have "sk_NetStake b = g - sk_StakeTax b" using sp(1) by linarith
  then have "has_scale 2 (sk_NetStake b)" using g(2) sp(4) by (simp add: has_scale_diff)
  moreover have "sk_StakeTax b = dec_round L (g * r_StakeTaxRate r) 2"
    using b r by (auto elim!: ApplyStakeTax_cases)
  then have "\<bar>sk_StakeTax b - g * r_StakeTaxRate r\<bar> \<le> 1 / 200"
    using nearest_at_error [OF dec_round_nearest [OF L], of "g * r_StakeTaxRate r" 2] by simp
  ultimately show ?thesis using b sp by blast
qed

theorem ApplyStakeTax_splits_witness:
  "\<exists>b. ApplyStakeTax std_libs [''KE'' \<mapsto> Default_regime] ''KE'' 100 = Inr b \<and> sk_NetStake b + sk_StakeTax b = 100"
  using ApplyStakeTax_splits [OF std_libs_ok, of "[Default_regime]" _ "''KE''" Default_regime 100]
    Default_eq
  by (auto simp: Default_def Engine_Regime_def has_scale_def)

text \<open>C6: the payout tax splits a payout and only touches winnings. Whenever it returns a breakdown
  for a payout whose winnings are in whole cents, net payout and tax add up to the gross payout,
  the tax is non-negative, in cents and at most the winnings, so the player never gets back less
  than the smaller of payout and stake; a losing or break-even payout is paid in full.\<close>

theorem ApplyPayoutTax_splits:
  assumes L: "libs_ok L" and e: "New regimes = Inr e"
    and b: "ApplyPayoutTax L e c gross stake = Inr b" and sc: "has_scale 2 (gross - stake)"
  shows "po_NetPayout b + po_WinningsTax b = gross \<and> 0 \<le> po_WinningsTax b \<and>
    has_scale 2 (po_WinningsTax b) \<and> po_WinningsTax b \<le> max 0 (gross - stake) \<and>
    min gross stake \<le> po_NetPayout b \<and> (gross \<le> stake \<longrightarrow> po_NetPayout b = gross)"
proof -
  note t = ApplyPayoutTax_Inr [OF L New_ok [OF e] b]
  from t(1) t(2) t(4) [OF sc] have "min gross stake \<le> po_NetPayout b" "gross \<le> stake \<Longrightarrow> po_NetPayout b = gross"
    by (auto simp: min_def max_def split: if_splits)
  with t sc show ?thesis by blast
qed

theorem ApplyPayoutTax_splits_witness:
  "\<exists>b. ApplyPayoutTax std_libs [''KE'' \<mapsto> Default_regime] ''KE'' 250 100 = Inr b \<and>
     po_NetPayout b + po_WinningsTax b = 250 \<and> 100 \<le> po_NetPayout b"
proof -
  have e: "New [Default_regime] = Inr [''KE'' \<mapsto> Default_regime]"
    using Default_eq by (simp add: Default_def)
  obtain b where b: "ApplyPayoutTax std_libs [''KE'' \<mapsto> Default_regime] ''KE'' 250 100 = Inr b"
    by (simp add: ApplyPayoutTax_def Let_def)
  have "has_scale 2 (250 - 100 :: rat)" by (simp add: has_scale_def)
  from ApplyPayoutTax_splits [OF std_libs_ok e b this] b show ?thesis by auto
qed

text \<open>C7: a larger payout never pays the player less. In one country and for one stake, the net
  payout is monotone in the gross payout in whole cents, rounding of the tax included.\<close>

theorem ApplyPayoutTax_monotone:
  assumes L: "libs_ok L" and e: "New regimes = Inr e"
    and b: "ApplyPayoutTax L e c g stake = Inr b" "ApplyPayoutTax L e c g' stake = Inr b'"
    and sc: "has_scale 2 (g' - g)" and le: "g \<le> g'"
  shows "po_NetPayout b \<le> po_NetPayout b'"
proof (cases "g = g'")
  case False
  from b(1) obtain r where r: "e c = Some r" and pos: "0 \<le> g" "0 \<le> stake"
    by (auto simp: ApplyPayoutTax_def not_less split: if_splits option.splits)
  note ok = New_ok [OF e] and v = engine_okD [OF New_ok [OF e] r]
  let ?x = "\<lambda>g. taxable_winnings r g stake * r_WinningsTaxRate r"
  have tx: "po_NetPayout b = g - dec_round L (?x g) 2" "po_NetPayout b' = g' - dec_round L (?x g') 2"
    using b ApplyPayoutTax_spec [OF L ok r _ pos(2)] pos le by auto
  have d: "0 \<le> taxable_winnings r g' stake - taxable_winnings r g stake"
      "taxable_winnings r g' stake - taxable_winnings r g stake \<le> g' - g"
    using le by (auto simp: taxable_winnings_def max_def)
  have "?x g' - ?x g < g' - g"
  proof (cases "taxable_winnings r g' stake = taxable_winnings r g stake")
    case True then show ?thesis using le False by simp
  next
    case neq: False
    then have "(taxable_winnings r g' stake - taxable_winnings r g stake) * r_WinningsTaxRate r
        < (taxable_winnings r g' stake - taxable_winnings r g stake) * 1"
      using d v by (intro mult_strict_left_mono) auto
    then show ?thesis using d by (simp add: left_diff_distrib)
  qed
  then have lt: "?x g' < ?x g + (g' - g)" by linarith
  have "nearest_at 2 (?x g + (g' - g)) (dec_round L (?x g) 2 + (g' - g))"
    using dec_round_nearest [OF L, of 2 "?x g"] sc by (simp add: nearest_at_def has_scale_add)
  from nearest_at_mono [OF dec_round_nearest [OF L] this lt] tx show ?thesis by linarith
qed (use b in simp)

theorem ApplyPayoutTax_monotone_witness:
  "\<exists>b b'. ApplyPayoutTax std_libs [''KE'' \<mapsto> Default_regime] ''KE'' 250 100 = Inr b \<and>
     ApplyPayoutTax std_libs [''KE'' \<mapsto> Default_regime] ''KE'' 300 100 = Inr b' \<and>
     po_NetPayout b \<le> po_NetPayout b'"
proof -
  have e: "New [Default_regime] = Inr [''KE'' \<mapsto> Default_regime]"
    using Default_eq by (simp add: Default_def)
  obtain b b' where b: "ApplyPayoutTax std_libs [''KE'' \<mapsto> Default_regime] ''KE'' 250 100 = Inr b"
      "ApplyPayoutTax std_libs [''KE'' \<mapsto> Default_regime] ''KE'' 300 100 = Inr b'"
    by (simp add: ApplyPayoutTax_def Let_def)
  have "has_scale 2 (300 - 250 :: rat)" by (simp add: has_scale_def)
  from ApplyPayoutTax_monotone [OF std_libs_ok e b this] b show ?thesis by auto
qed

end
