(* ===== verification/Database.thy ===== *)
theory Database
  imports Domain
begin

text \<open>
  The PostgreSQL tables the repositories read and write, as one record. Rows are the domain
  structs, except where a column can hold \<open>NULL\<close> while the struct field cannot: the provider
  columns of \<open>transactions\<close> and the reason of \<open>sport_bets\<close>. The column types of
  \<open>migrations/\<close> round every amount that is written (\<open>money_col\<close>, \<open>odds_col\<close>).
\<close>

definition money_col :: "libs \<Rightarrow> decimal \<Rightarrow> decimal option" where
  "money_col L = sql_numeric L 15 2"

definition odds_col :: "libs \<Rightarrow> decimal \<Rightarrow> decimal option" where
  "odds_col L = sql_numeric L 10 3"

record TxnRow =
  tr_ID :: uuid
  tr_WalletID :: uuid
  tr_UserID :: uuid
  tr_Type :: TransactionType
  tr_Amount :: decimal
  tr_Currency :: string
  tr_BalanceBefore :: decimal
  tr_BalanceAfter :: decimal
  tr_ReferenceID :: "uuid option"
  tr_ReferenceType :: string
  tr_ProviderTxnID :: "string option"
  tr_ProviderName :: "string option"
  tr_Status :: TransactionStatus
  tr_Description :: string
  tr_CreatedAt :: time
  tr_CompletedAt :: "time option"
  tr_CountryCode :: string

record db =
  wallets :: "Wallet list"
  transactions :: "TxnRow list"
  bets :: "Bet list"
  games :: "Game list"
  game_bets :: "GameBet list"
  mpesa_deposits :: "MPesaDeposit list"

text \<open>The signed change a ledger row records.\<close>

definition tr_delta :: "TxnRow \<Rightarrow> decimal" where
  "tr_delta t = tr_BalanceAfter t - tr_BalanceBefore t"

definition ledger_sum :: "TxnRow list \<Rightarrow> uuid \<Rightarrow> decimal" where
  "ledger_sum ts wid = sum_list (map tr_delta (filter (\<lambda>t. tr_WalletID t = wid) ts))"

text \<open>
  Well-formed wallets: the primary key is distinct, balances are non-negative amounts in cents.
  Balanced books: every wallet holds its opening balance plus the changes its ledger rows record.
\<close>

definition wallets_ok :: "db \<Rightarrow> bool" where
  "wallets_ok s \<longleftrightarrow> distinct (map w_ID (wallets s)) \<and>
     (\<forall>w \<in> set (wallets s). 0 \<le> w_Balance w \<and> has_scale 2 (w_Balance w))"

definition books_ok :: "(uuid \<Rightarrow> decimal) \<Rightarrow> db \<Rightarrow> bool" where
  "books_ok opening s \<longleftrightarrow>
     (\<forall>w \<in> set (wallets s). w_Balance w = opening (w_ID w) + ledger_sum (transactions s) (w_ID w))"

text \<open>The balance of the wallet row the services read for a user.\<close>

definition user_wallet :: "db \<Rightarrow> uuid \<Rightarrow> Wallet option" where
  "user_wallet s u = select_row (\<lambda>w. w_UserID w = u) (wallets s)"

definition user_balance :: "db \<Rightarrow> uuid \<Rightarrow> decimal" where
  "user_balance s u = (case user_wallet s u of None \<Rightarrow> 0 | Some w \<Rightarrow> w_Balance w)"

lemma money_col_nearest: "libs_ok L \<Longrightarrow> money_col L x = Some z \<Longrightarrow> nearest_at 2 x z"
  unfolding money_col_def by (rule sql_numeric_nearest)

lemma money_col_exact [money]: "libs_ok L \<Longrightarrow> has_scale 2 x \<Longrightarrow> money_col L x = Some z \<Longrightarrow> z = x"
  unfolding money_col_def by (rule sql_numeric_exact)

lemma money_col_scale [money]: "libs_ok L \<Longrightarrow> money_col L x = Some z \<Longrightarrow> has_scale 2 z"
  using money_col_nearest by (auto simp: nearest_at_def)

lemma money_col_nonneg [money]: "libs_ok L \<Longrightarrow> money_col L x = Some z \<Longrightarrow> 0 \<le> x \<Longrightarrow> 0 \<le> z"
  unfolding money_col_def by (rule sql_numeric_nonneg)

lemma money_col_fits:
  "libs_ok L \<Longrightarrow> has_scale 2 x \<Longrightarrow> \<bar>x\<bar> \<le> 10 ^ 13 - 1 \<Longrightarrow> money_col L x = Some x"
  using sql_numeric_fits [of L x 15 2] money_col_exact [of L x] by (auto simp: money_col_def)

lemma ledger_sum_append [simp]:
  "ledger_sum (ts @ us) wid = ledger_sum ts wid + ledger_sum us wid"
  by (simp add: ledger_sum_def)

lemma ledger_sum_single [simp]:
  "ledger_sum [t] wid = (if tr_WalletID t = wid then tr_delta t else 0)"
  "ledger_sum [] wid = 0"
  by (simp_all add: ledger_sum_def)

lemma wallets_ok_row:
  "wallets_ok s \<Longrightarrow> w \<in> set (wallets s) \<Longrightarrow> 0 \<le> w_Balance w \<and> has_scale 2 (w_Balance w)"
  by (simp add: wallets_ok_def)

text \<open>
  One wallet row replaced by another with the same identity, and at most one ledger row appended:
  the shape every balance change of the code has. Both invariants follow from the numbers alone.
\<close>

lemma wallets_ok_replace:
  assumes "wallets_ok s" "wallets s = us @ w # vs" "wallets s' = us @ w' # vs"
    and "w_ID w' = w_ID w" "0 \<le> w_Balance w'" "has_scale 2 (w_Balance w')"
  shows "wallets_ok s'"
  using assms by (auto simp: wallets_ok_def)

lemma books_ok_replace:
  assumes "books_ok opening s" "wallets s = us @ w # vs" "wallets s' = us @ w' # vs"
    and "distinct (map w_ID (wallets s))" "w_ID w' = w_ID w"
    and "transactions s' = transactions s @ [t]" "tr_WalletID t = w_ID w"
    and "w_Balance w' = w_Balance w + tr_delta t"
  shows "books_ok opening s'"
  using assms by (auto simp: books_ok_def)

lemma user_wallet_Some: "user_wallet s u = Some w \<Longrightarrow> w \<in> set (wallets s) \<and> w_UserID w = u"
  unfolding user_wallet_def by (rule select_row_Some)

lemma user_wallet_split:
  assumes "user_wallet s u = Some w"
  obtains us vs where "wallets s = us @ w # vs" "\<forall>v \<in> set us. w_UserID v \<noteq> u" "w_UserID w = u"
  using assms unfolding user_wallet_def select_row_def find_Some_iff
  by (metis id_take_nth_drop in_set_conv_nth length_take min.absorb4 nth_take)

lemma user_balance_replace:
  assumes s: "wallets s = us @ w # vs" and s': "wallets s' = us @ w' # vs"
    and u: "w_UserID w' = w_UserID w" "\<forall>v \<in> set us. w_UserID v \<noteq> w_UserID w"
  shows "user_balance s' = (user_balance s)(w_UserID w := w_Balance w')"
proof
  fix v
  have "select_row (\<lambda>x. w_UserID x = v) us = None" if "v = w_UserID w"
    using u that by (simp add: select_row_None)
  then show "user_balance s' v = ((user_balance s)(w_UserID w := w_Balance w')) v"
    using u unfolding user_balance_def user_wallet_def s s'
    by (auto simp: select_row_append select_row_Cons split: option.split)
qed

section \<open>A small database for concrete runs\<close>

definition sample_wallet :: "uuid \<Rightarrow> uuid \<Rightarrow> decimal \<Rightarrow> Wallet" where
  "sample_wallet i u b = \<lparr>w_ID = i, w_UserID = u, w_Currency = ''KES'', w_Balance = b, w_Version = 1,
     w_BonusBalance = 0, w_TodayDeposit = 0, w_LastDepositReset = 0, w_UpdatedAt = 0\<rparr>"

definition sample_db :: db where
  "sample_db = \<lparr>wallets = [sample_wallet 1 7 100, sample_wallet 2 8 50], transactions = [],
     bets = [], games = [], game_bets = [], mpesa_deposits = []\<rparr>"

end
