(* ===== verification/WalletService.thy ===== *)
theory WalletService
  imports Database "HOL-Library.Multiset"
begin

text \<open>
  \<open>internal/core/usecase/wallet\<close>: the service every balance change goes through, and the wallet
  repository of \<open>internal/infrastructure/repository/postgres/wallet_repository.go\<close>.

  An operation takes the database and returns the database with a result. \<open>faults\<close> says which
  of its statements fail for a reason outside the program, \<open>now\<close> and \<open>tid\<close> are what
  \<open>time.Now()\<close> and \<open>uuid.New()\<close> return, and \<open>other\<close> is what other sessions commit
  between the read of the wallet row and the guarded update. \<open>Apply\<close> holds the row lock of
  \<open>SELECT ... FOR UPDATE\<close> in a transaction of its own, so nothing intervenes there.
\<close>

datatype wallet_error =
    ErrWalletNotFound
  | ErrInsufficientFunds
  | ErrInvalidAmount
  | ErrOptimisticConflict
  | ErrStatement db_call

record Movement =
  m_UserID :: uuid
  m_Amount :: decimal
  m_Type :: TransactionType
  m_ReferenceID :: "uuid option"
  m_ReferenceType :: string
  m_Description :: string
  m_ProviderName :: string
  m_ProviderTxnID :: string
  m_CountryCode :: string

definition createTransactionRecord ::
  "uuid \<Rightarrow> uuid \<Rightarrow> string \<Rightarrow> decimal \<Rightarrow> decimal \<Rightarrow> Movement \<Rightarrow> time \<Rightarrow> Transaction" where
  "createTransactionRecord tid walletID currency balanceBefore balanceAfter m now = \<lparr>
     t_ID = tid,
     t_WalletID = walletID,
     t_UserID = m_UserID m,
     t_Type = m_Type m,
     t_Amount = \<bar>m_Amount m\<bar>,
     t_Currency = currency,
     t_BalanceBefore = balanceBefore,
     t_BalanceAfter = balanceAfter,
     t_ReferenceID = m_ReferenceID m,
     t_ReferenceType = m_ReferenceType m,
     t_ProviderTxnID = m_ProviderTxnID m,
     t_ProviderName = m_ProviderName m,
     t_Status = TransactionStatusCompleted,
     t_Description = m_Description m,
     t_CreatedAt = now,
     t_CompletedAt = Some now,
     t_CountryCode = m_CountryCode m\<rparr>"

text \<open>The \<open>INSERT INTO transactions\<close>: the three amounts go through their columns.\<close>

definition txn_row :: "libs \<Rightarrow> Transaction \<Rightarrow> TxnRow option" where
  "txn_row L t =
     (case (money_col L (t_Amount t), money_col L (t_BalanceBefore t), money_col L (t_BalanceAfter t)) of
        (Some a, Some b, Some c) \<Rightarrow> Some \<lparr>
          tr_ID = t_ID t, tr_WalletID = t_WalletID t, tr_UserID = t_UserID t, tr_Type = t_Type t,
          tr_Amount = a, tr_Currency = t_Currency t, tr_BalanceBefore = b, tr_BalanceAfter = c,
          tr_ReferenceID = t_ReferenceID t, tr_ReferenceType = t_ReferenceType t,
          tr_ProviderTxnID = Some (t_ProviderTxnID t), tr_ProviderName = Some (t_ProviderName t),
          tr_Status = t_Status t, tr_Description = t_Description t, tr_CreatedAt = t_CreatedAt t,
          tr_CompletedAt = t_CompletedAt t, tr_CountryCode = t_CountryCode t\<rparr>
      | _ \<Rightarrow> None)"

text \<open>A column rounds, and may overflow, only where an \<open>UPDATE\<close> has a row to write.\<close>

definition money_for_rows :: "libs \<Rightarrow> ('r \<Rightarrow> bool) \<Rightarrow> 'r list \<Rightarrow> decimal \<Rightarrow> decimal option" where
  "money_for_rows L P t x = (if rows_affected P t = 0 then Some x else money_col L x)"

definition ApplyTx ::
  "libs \<Rightarrow> (db \<Rightarrow> db) \<Rightarrow> faults \<Rightarrow> time \<Rightarrow> uuid \<Rightarrow> db \<Rightarrow> Movement \<Rightarrow> db \<times> (wallet_error + Transaction)" where
  "ApplyTx L other f now tid s m =
     (if m_Amount m = 0 then (s, Inl ErrInvalidAmount)
      else if f QueryCall then (s, Inl (ErrStatement QueryCall))
      else case user_wallet s (m_UserID m) of
        None \<Rightarrow> (s, Inl ErrWalletNotFound)
      | Some w \<Rightarrow>
          let newBalance = w_Balance w + m_Amount m in
          if newBalance < 0 then (s, Inl ErrInsufficientFunds)
          else
            let s1 = other s;
                guard = (\<lambda>v. w_ID v = w_ID w \<and> w_Version v = w_Version w) in
            case (if f UpdateCall then None else money_for_rows L guard (wallets s1) newBalance) of
              None \<Rightarrow> (s1, Inl (ErrStatement UpdateCall))
            | Some stored \<Rightarrow>
                let s2 = s1\<lparr>wallets := update_where guard
                      (\<lambda>v. v\<lparr>w_Balance := stored, w_Version := w_Version v + 1, w_UpdatedAt := now\<rparr>)
                      (wallets s1)\<rparr> in
                if f RowsAffectedCall then (s2, Inl (ErrStatement RowsAffectedCall))
                else if rows_affected guard (wallets s1) = 0 then (s2, Inl ErrOptimisticConflict)
                else
                  let rec = createTransactionRecord tid (w_ID w) (w_Currency w) (w_Balance w)
                              newBalance m now in
                  case (if f InsertCall then None else txn_row L rec) of
                    None \<Rightarrow> (s2, Inl (ErrStatement InsertCall))
                  | Some row \<Rightarrow> (s2\<lparr>transactions := transactions s2 @ [row]\<rparr>, Inr rec))"

text \<open>
  \<open>Apply\<close> owns its transaction: the working copy is published by the commit, and every other
  path, the deferred \<open>Rollback\<close> included, leaves the database as it was.
\<close>

definition Apply ::
  "libs \<Rightarrow> faults \<Rightarrow> time \<Rightarrow> uuid \<Rightarrow> db \<Rightarrow> Movement \<Rightarrow> db \<times> (wallet_error + Transaction)" where
  "Apply L f now tid s m =
     (if f BeginTx then (s, Inl (ErrStatement BeginTx))
      else case ApplyTx L id f now tid s m of
        (s', Inl e) \<Rightarrow> (s, Inl e)
      | (s', Inr rec) \<Rightarrow>
          if f CommitCall then (s, Inl (ErrStatement CommitCall)) else (s', Inr rec))"

definition Debit ::
  "libs \<Rightarrow> faults \<Rightarrow> time \<Rightarrow> uuid \<Rightarrow> db \<Rightarrow> uuid \<Rightarrow> decimal \<Rightarrow> Movement \<Rightarrow> db \<times> (wallet_error + Transaction)" where
  "Debit L f now tid s userID amount m =
     (if \<not> amount > 0 then (s, Inl ErrInvalidAmount)
      else Apply L f now tid s (m\<lparr>m_UserID := userID, m_Amount := - amount\<rparr>))"

definition Credit ::
  "libs \<Rightarrow> faults \<Rightarrow> time \<Rightarrow> uuid \<Rightarrow> db \<Rightarrow> uuid \<Rightarrow> decimal \<Rightarrow> Movement \<Rightarrow> db \<times> (wallet_error + Transaction)" where
  "Credit L f now tid s userID amount m =
     (if \<not> amount > 0 then (s, Inl ErrInvalidAmount)
      else Apply L f now tid s (m\<lparr>m_UserID := userID, m_Amount := amount\<rparr>))"

definition Balance :: "faults \<Rightarrow> db \<Rightarrow> uuid \<Rightarrow> wallet_error + decimal \<times> decimal" where
  "Balance f s userID =
     (if f QueryCall then Inl (ErrStatement QueryCall)
      else case user_wallet s userID of
        None \<Rightarrow> Inl ErrWalletNotFound
      | Some w \<Rightarrow> Inr (w_Balance w, w_BonusBalance w))"

section \<open>The wallet repository\<close>

definition WalletRepository_Create :: "libs \<Rightarrow> faults \<Rightarrow> db \<Rightarrow> Wallet \<Rightarrow> db \<times> (wallet_error + unit)" where
  "WalletRepository_Create L f s w =
     (case (money_col L (w_Balance w), money_col L (w_BonusBalance w), money_col L (w_TodayDeposit w)) of
        (Some b, Some bb, Some td) \<Rightarrow>
          if f InsertCall \<or> w_ID w \<in> w_ID ` set (wallets s) \<or>
             (\<exists>v \<in> set (wallets s). w_UserID v = w_UserID w \<and> w_Currency v = w_Currency w)
          then (s, Inl (ErrStatement InsertCall))
          else (s\<lparr>wallets := wallets s @
                  [w\<lparr>w_Balance := b, w_BonusBalance := bb, w_TodayDeposit := td\<rparr>]\<rparr>, Inr ())
      | _ \<Rightarrow> (s, Inl (ErrStatement InsertCall)))"

definition GetByUserID :: "faults \<Rightarrow> db \<Rightarrow> uuid \<Rightarrow> wallet_error + Wallet" where
  "GetByUserID f s userID =
     (if f QueryCall then Inl (ErrStatement QueryCall)
      else case user_wallet s userID of
        None \<Rightarrow> Inl ErrWalletNotFound
      | Some w \<Rightarrow> Inr w)"

definition GetBalance :: "faults \<Rightarrow> db \<Rightarrow> uuid \<Rightarrow> wallet_error + decimal \<times> decimal" where
  "GetBalance f s userID =
     (if f QueryCall then Inl (ErrStatement QueryCall)
      else case user_wallet s userID of
        None \<Rightarrow> Inl ErrWalletNotFound
      | Some w \<Rightarrow> Inr (w_Balance w, w_BonusBalance w))"

text \<open>
  \<open>UpdateBalance\<close> runs its two statements outside a transaction, so the lock of the first is
  gone before the second starts and \<open>other\<close> sessions may commit in between.
\<close>

definition UpdateBalance ::
  "libs \<Rightarrow> (db \<Rightarrow> db) \<Rightarrow> faults \<Rightarrow> time \<Rightarrow> db \<Rightarrow> uuid \<Rightarrow> decimal \<Rightarrow> decimal \<Rightarrow> db \<times> (wallet_error + unit)" where
  "UpdateBalance L other f now s userID newBalance newBonusBalance =
     (if f QueryCall then (s, Inl ErrWalletNotFound)
      else case user_wallet s userID of
        None \<Rightarrow> (s, Inl ErrWalletNotFound)
      | Some w \<Rightarrow>
          let s1 = other s;
              guard = (\<lambda>v. w_UserID v = userID \<and> w_Version v = w_Version w) in
          case (if f UpdateCall then None else money_for_rows L guard (wallets s1) newBalance,
                money_for_rows L guard (wallets s1) newBonusBalance) of
            (Some b, Some bb) \<Rightarrow>
              let s2 = s1\<lparr>wallets := update_where guard
                    (\<lambda>v. v\<lparr>w_Balance := b, w_BonusBalance := bb, w_UpdatedAt := now,
                           w_Version := w_Version v + 1\<rparr>) (wallets s1)\<rparr> in
              if f RowsAffectedCall then (s2, Inl (ErrStatement RowsAffectedCall))
              else if rows_affected guard (wallets s1) = 0 then (s2, Inl ErrOptimisticConflict)
              else (s2, Inr ())
          | _ \<Rightarrow> (s1, Inl (ErrStatement UpdateCall)))"

definition CreateTransaction :: "libs \<Rightarrow> faults \<Rightarrow> db \<Rightarrow> Transaction \<Rightarrow> db \<times> (wallet_error + unit)" where
  "CreateTransaction L f s t =
     (case (if f InsertCall then None else txn_row L t) of
        None \<Rightarrow> (s, Inl (ErrStatement InsertCall))
      | Some row \<Rightarrow> (s\<lparr>transactions := transactions s @ [row]\<rparr>, Inr ()))"

text \<open>
  \<open>rows.Scan\<close> reads the provider columns into Go strings, which fails on \<open>NULL\<close>; the
  reference and the completion time go through nullable types.
\<close>

definition scan_txn :: "TxnRow \<Rightarrow> Transaction option" where
  "scan_txn r =
     (case (tr_ProviderTxnID r, tr_ProviderName r) of
        (Some pid, Some pname) \<Rightarrow> Some \<lparr>
          t_ID = tr_ID r, t_WalletID = tr_WalletID r, t_UserID = tr_UserID r, t_Type = tr_Type r,
          t_Amount = tr_Amount r, t_Currency = tr_Currency r, t_BalanceBefore = tr_BalanceBefore r,
          t_BalanceAfter = tr_BalanceAfter r, t_ReferenceID = tr_ReferenceID r,
          t_ReferenceType = tr_ReferenceType r, t_ProviderTxnID = pid, t_ProviderName = pname,
          t_Status = tr_Status r, t_Description = tr_Description r, t_CreatedAt = tr_CreatedAt r,
          t_CompletedAt = tr_CompletedAt r, t_CountryCode = tr_CountryCode r\<rparr>
      | _ \<Rightarrow> None)"

fun scan_rows :: "('r \<Rightarrow> 'a option) \<Rightarrow> 'r list \<Rightarrow> 'a list option" where
  "scan_rows scan [] = Some []"
| "scan_rows scan (r # rs) =
     (case scan r of
        None \<Rightarrow> None
      | Some x \<Rightarrow> map_option ((#) x) (scan_rows scan rs))"

definition page :: "nat \<Rightarrow> nat \<Rightarrow> 'r list \<Rightarrow> 'r list" where
  "page limit offset rs = take limit (drop offset rs)"

definition GetTransactionsByUserID ::
  "faults \<Rightarrow> db \<Rightarrow> uuid \<Rightarrow> nat \<Rightarrow> nat \<Rightarrow> wallet_error + Transaction list" where
  "GetTransactionsByUserID f s userID limit offset =
     (if f QueryCall then Inl (ErrStatement QueryCall)
      else case scan_rows scan_txn (page limit offset
             (rev (sort_key tr_CreatedAt (filter (\<lambda>t. tr_UserID t = userID) (transactions s))))) of
        None \<Rightarrow> Inl (ErrStatement QueryCall)
      | Some ts \<Rightarrow> Inr ts)"

text \<open>
  \<open>UpdateTransactionStatus\<close> also writes a column \<open>updated_at\<close>; \<open>columns\<close> are the columns the table
  has, which in the migrated schema do not include it.
\<close>

definition UpdateTransactionStatus ::
  "string list \<Rightarrow> faults \<Rightarrow> db \<Rightarrow> uuid \<Rightarrow> TransactionStatus \<Rightarrow> db \<times> (wallet_error + unit)" where
  "UpdateTransactionStatus columns f s i status =
     (if f UpdateCall \<or> ''updated_at'' \<notin> set columns then (s, Inl (ErrStatement UpdateCall))
      else (s\<lparr>transactions := update_where (\<lambda>t. tr_ID t = i) (\<lambda>t. t\<lparr>tr_Status := status\<rparr>) (transactions s)\<rparr>,
            Inr ()))"

definition migrated_transaction_columns :: "string list" where
  "migrated_transaction_columns = [''id'', ''wallet_id'', ''user_id'', ''type'', ''amount'', ''currency'',
     ''balance_before'', ''balance_after'', ''reference_id'', ''reference_type'', ''provider_txn_id'',
     ''provider_name'', ''status'', ''description'', ''created_at'', ''completed_at'', ''country_code'']"

lemma update_transaction_status_fails:
  "UpdateTransactionStatus migrated_transaction_columns f s i status = (s, Inl (ErrStatement UpdateCall))"
  by (simp add: UpdateTransactionStatus_def migrated_transaction_columns_def)

section \<open>What a movement does\<close>

lemma txn_row_Some:
  assumes "txn_row L t = Some r"
  shows "money_col L (t_BalanceBefore t) = Some (tr_BalanceBefore r)"
    "money_col L (t_BalanceAfter t) = Some (tr_BalanceAfter r)"
    "money_col L (t_Amount t) = Some (tr_Amount r)"
    "tr_WalletID r = t_WalletID t" "tr_UserID r = t_UserID t" "tr_Type r = t_Type t"
    "tr_ProviderTxnID r = Some (t_ProviderTxnID t)" "tr_ProviderName r = Some (t_ProviderName t)"
    "tr_ReferenceID r = t_ReferenceID t"
  using assms by (auto simp: txn_row_def split: option.splits)

lemma scan_txn_row: "txn_row L t = Some r \<Longrightarrow> scan_txn r \<noteq> None"
  by (auto simp: txn_row_def scan_txn_def split: option.splits)

definition applied :: "decimal \<Rightarrow> time \<Rightarrow> Wallet \<Rightarrow> Wallet" where
  "applied z now w = w\<lparr>w_Balance := z, w_Version := w_Version w + 1, w_UpdatedAt := now\<rparr>"

lemma applied_fields [simp]:
  "w_ID (applied z now w) = w_ID w" "w_UserID (applied z now w) = w_UserID w"
  "w_Balance (applied z now w) = z" "w_Version (applied z now w) = w_Version w + 1"
  "w_Currency (applied z now w) = w_Currency w" "w_BonusBalance (applied z now w) = w_BonusBalance w"
  by (simp_all add: applied_def)

text \<open>A successful \<open>ApplyTx\<close>, with any interference, pinned down field by field.\<close>

lemma ApplyTx_Inr:
  assumes ok: "ApplyTx L other f now tid s m = (s', Inr rec)"
    and keys: "distinct (map w_ID (wallets (other s)))"
  obtains w us v vs z row where
    "m_Amount m \<noteq> 0" "user_wallet s (m_UserID m) = Some w" "0 \<le> w_Balance w + m_Amount m"
    "money_col L (w_Balance w + m_Amount m) = Some z"
    "wallets (other s) = us @ v # vs" "w_ID v = w_ID w" "w_Version v = w_Version w"
    "rec = createTransactionRecord tid (w_ID w) (w_Currency w) (w_Balance w) (w_Balance w + m_Amount m) m now"
    "txn_row L rec = Some row"
    "s' = (other s)\<lparr>wallets := us @ applied z now v # vs, transactions := transactions (other s) @ [row]\<rparr>"
proof -
  obtain w where amt: "m_Amount m \<noteq> 0" and w: "user_wallet s (m_UserID m) = Some w"
      and nn: "0 \<le> w_Balance w + m_Amount m"
    using ok by (auto simp: ApplyTx_def Let_def not_less split: if_splits option.splits)
  define guard where "guard v \<longleftrightarrow> w_ID v = w_ID w \<and> w_Version v = w_Version w" for v :: Wallet
  have g: "(\<lambda>v. w_ID v = w_ID w \<and> w_Version v = w_Version w) = guard"
    by (simp add: guard_def fun_eq_iff)
  have nn': "\<not> w_Balance w + m_Amount m < 0" using nn by simp
  note ok1 = ok [unfolded ApplyTx_def w option.case Let_def g, folded applied_def]
  have nf: "\<not> f QueryCall" "\<not> f UpdateCall" "\<not> f RowsAffectedCall" "\<not> f InsertCall"
    and na: "rows_affected guard (wallets (other s)) \<noteq> 0"
    using ok1 amt nn by (simp_all split: if_splits option.splits)
  then obtain z where z: "money_col L (w_Balance w + m_Amount m) = Some z"
    using ok1 amt nn by (simp add: money_for_rows_def split: if_splits option.splits)
  let ?rec = "createTransactionRecord tid (w_ID w) (w_Currency w) (w_Balance w) (w_Balance w + m_Amount m) m now"
  note ok2 = ok1 [simplified amt nn' nf na z money_for_rows_def if_False option.case simp_thms]
  from ok2 obtain row where row': "txn_row L ?rec = Some row"
    by (cases "txn_row L ?rec") (simp_all only: option.case prod.inject sum.simps simp_thms)
  from ok2 have rec: "rec = ?rec"
      and s': "s' = (other s)\<lparr>wallets := update_where guard (applied z now) (wallets (other s)),
                   transactions := transactions (other s) @ [row]\<rparr>"
    unfolding row' option.case prod.inject sum.inject db.simps by simp_all
  then have row: "txn_row L rec = Some row" using row' by simp
  from na obtain v where v: "v \<in> set (wallets (other s))" "guard v"
    by (auto simp: rows_affected_0)
  have "\<And>r. guard r \<Longrightarrow> w_ID r = w_ID v" using v(2) by (simp add: guard_def)
  from update_where_unique [where P = guard and g = "applied z now", OF keys v this]
  obtain us vs where split: "wallets (other s) = us @ v # vs"
      "update_where guard (applied z now) (wallets (other s)) = us @ applied z now v # vs" by blast
  have "w_ID v = w_ID w" "w_Version v = w_Version w" using v(2) by (simp_all add: guard_def)
  from that [OF amt w nn z split(1) this rec row s' [unfolded split(2)]] show thesis .
qed

text \<open>The same for the service's own transaction, where the row read is the row written.\<close>

lemma ApplyTx_own_Inr:
  assumes ok: "ApplyTx L id f now tid s m = (s', Inr rec)" and s: "wallets_ok s"
  obtains w us vs z row where
    "m_Amount m \<noteq> 0" "w_UserID w = m_UserID m" "0 \<le> w_Balance w + m_Amount m"
    "money_col L (w_Balance w + m_Amount m) = Some z"
    "wallets s = us @ w # vs" "\<forall>v \<in> set us. w_UserID v \<noteq> m_UserID m"
    "rec = createTransactionRecord tid (w_ID w) (w_Currency w) (w_Balance w) (w_Balance w + m_Amount m) m now"
    "txn_row L rec = Some row"
    "s' = s\<lparr>wallets := us @ applied z now w # vs, transactions := transactions s @ [row]\<rparr>"
proof -
  have keys: "distinct (map w_ID (wallets (id s)))" using s by (simp add: wallets_ok_def)
  from ok keys show thesis
  proof (rule ApplyTx_Inr)
    fix w us v vs z row
    assume a: "m_Amount m \<noteq> 0" "user_wallet s (m_UserID m) = Some w" "0 \<le> w_Balance w + m_Amount m"
      "money_col L (w_Balance w + m_Amount m) = Some z" "wallets (id s) = us @ v # vs"
      "w_ID v = w_ID w" "w_Version v = w_Version w"
      "rec = createTransactionRecord tid (w_ID w) (w_Currency w) (w_Balance w) (w_Balance w + m_Amount m) m now"
      "txn_row L rec = Some row"
      "s' = (id s)\<lparr>wallets := us @ applied z now v # vs, transactions := transactions (id s) @ [row]\<rparr>"
    obtain us' vs' where w: "wallets s = us' @ w # vs'" "\<forall>v \<in> set us'. w_UserID v \<noteq> m_UserID m"
        "w_UserID w = m_UserID m"
      using user_wallet_split [OF a(2)] .
    have e: "us' @ w # vs' = us @ v # vs" using w(1) a(5) by simp
    have d: "distinct (map w_ID (us' @ w # vs'))" using keys w(1) by simp
    have "v \<in> set (us' @ w # vs')" unfolding e by simp
    with d a(6) have vw: "v = w" by (auto simp: image_iff)
    have "distinct (us' @ w # vs')" using d by (simp only: distinct_map)
    then have "us' = us \<and> vs' = vs" using e vw by (metis not_distinct_conv_prefix append_Cons_eq_iff
        distinct.simps(2) distinct_append disjoint_insert(2) list.simps(15))
    with vw have "us' = us \<and> w = v \<and> vs' = vs" by simp
    then show thesis using that [OF a(1) w(3) a(3,4) w(1,2) a(8,9)] a(10) by simp
  qed
qed

text \<open>
  The transaction of \<open>Apply\<close> seen from outside: a failure leaves the database alone, and a
  success is one wallet row and one ledger row.
\<close>

lemma Apply_fail: "Apply L f now tid s m = (s', Inl e) \<Longrightarrow> s' = s"
  by (auto simp: Apply_def split: if_splits prod.splits sum.splits)

lemma Apply_Inr_ApplyTx: "Apply L f now tid s m = (s', Inr rec) \<Longrightarrow> ApplyTx L id f now tid s m = (s', Inr rec)"
  by (auto simp: Apply_def split: if_splits prod.splits sum.splits)

lemma txn_row_record:
  assumes "libs_ok L" "has_scale 2 (w_Balance w)" "money_col L x = Some z"
    "txn_row L (createTransactionRecord tid (w_ID w) cur (w_Balance w) x m now) = Some row"
  shows "tr_WalletID row = w_ID w" "tr_UserID row = m_UserID m" "tr_BalanceBefore row = w_Balance w"
    "tr_BalanceAfter row = z" "tr_delta row = z - w_Balance w" "tr_Type row = m_Type m"
    "tr_ReferenceID row = m_ReferenceID m"
proof -
  note t = txn_row_Some [OF assms(4)]
  show "tr_WalletID row = w_ID w" "tr_UserID row = m_UserID m" "tr_Type row = m_Type m"
      "tr_ReferenceID row = m_ReferenceID m"
    using t by (simp_all add: createTransactionRecord_def)
  show b: "tr_BalanceBefore row = w_Balance w"
    using t(1) assms(1,2) by (auto simp: createTransactionRecord_def dest: money_col_exact)
  show a: "tr_BalanceAfter row = z"
    using t(2) assms(3) by (simp add: createTransactionRecord_def)
  show "tr_delta row = z - w_Balance w" using a b by (simp add: tr_delta_def)
qed

lemma ApplyTx_books:
  assumes L: "libs_ok L" and s: "wallets_ok s" and ok: "ApplyTx L id f now tid s m = (s', Inr rec)"
  shows "wallets_ok s'" and "books_ok opening s \<Longrightarrow> books_ok opening s'"
    and "money_col L (user_balance s (m_UserID m) + m_Amount m) = Some z \<Longrightarrow>
      user_balance s' = (user_balance s)(m_UserID m := z)"
    and "\<exists>z row. money_col L (user_balance s (m_UserID m) + m_Amount m) = Some z \<and>
      0 \<le> user_balance s (m_UserID m) + m_Amount m \<and> m_Amount m \<noteq> 0 \<and>
      transactions s' = transactions s @ [row] \<and> tr_UserID row = m_UserID m \<and> tr_Type row = m_Type m \<and>
      tr_BalanceBefore row = user_balance s (m_UserID m) \<and> tr_BalanceAfter row = z"
proof -
  obtain w us vs z row where *: "m_Amount m \<noteq> 0" "w_UserID w = m_UserID m"
      "0 \<le> w_Balance w + m_Amount m"
    and z: "money_col L (w_Balance w + m_Amount m) = Some z"
    and w: "wallets s = us @ w # vs" "\<forall>v \<in> set us. w_UserID v \<noteq> m_UserID m"
    and r: "rec = createTransactionRecord tid (w_ID w) (w_Currency w) (w_Balance w)
              (w_Balance w + m_Amount m) m now" "txn_row L rec = Some row"
    and s': "s' = s\<lparr>wallets := us @ applied z now w # vs, transactions := transactions s @ [row]\<rparr>"
    using ApplyTx_own_Inr [OF ok s] by metis
  have wb: "0 \<le> w_Balance w" "has_scale 2 (w_Balance w)" using wallets_ok_row [OF s, of w] w(1) by simp_all
  note row = txn_row_record [OF L wb(2) z r(2) [unfolded r(1)]]
  have ub: "user_balance s (m_UserID m) = w_Balance w"
    using w *(2) by (auto simp: user_balance_def user_wallet_def select_row_append select_row_None
        select_row_Cons split: option.split dest!: select_row_Some)
  show "wallets_ok s'"
    using money_col_nonneg [OF L z *(3)] money_col_scale [OF L z]
    by (intro wallets_ok_replace [OF s w(1), of s' "applied z now w"]) (simp_all add: s')
  show "books_ok opening s'" if "books_ok opening s"
    using s row by (intro books_ok_replace [OF that w(1), of s' "applied z now w" row]) (auto simp: s' wallets_ok_def)
  show "user_balance s' = (user_balance s)(m_UserID m := y)"
    if "money_col L (user_balance s (m_UserID m) + m_Amount m) = Some y" for y
    using user_balance_replace [OF w(1), of s' "applied z now w"] z w(2) *(2) that by (simp add: s' ub)
  show "\<exists>z row. money_col L (user_balance s (m_UserID m) + m_Amount m) = Some z \<and>
      0 \<le> user_balance s (m_UserID m) + m_Amount m \<and> m_Amount m \<noteq> 0 \<and>
      transactions s' = transactions s @ [row] \<and> tr_UserID row = m_UserID m \<and> tr_Type row = m_Type m \<and>
      tr_BalanceBefore row = user_balance s (m_UserID m) \<and> tr_BalanceAfter row = z"
    using z *(1,3) row by (auto simp: ub s')
qed

lemmas Apply_books = ApplyTx_books [OF _ _ Apply_Inr_ApplyTx]

text \<open>For an amount in cents the column rounds nothing and the balance moves by exactly the amount.\<close>

lemma ApplyTx_exact:
  assumes L: "libs_ok L" and s: "wallets_ok s" and a: "has_scale 2 (m_Amount m)"
    and ok: "ApplyTx L id f now tid s m = (s', Inr rec)"
  shows "user_balance s' = (user_balance s)(m_UserID m := user_balance s (m_UserID m) + m_Amount m)"
    and "0 \<le> user_balance s (m_UserID m) + m_Amount m"
proof -
  have "has_scale 2 (user_balance s (m_UserID m))"
    using s by (auto simp: user_balance_def wallets_ok_def split: option.split dest: user_wallet_Some)
  with a have sc: "has_scale 2 (user_balance s (m_UserID m) + m_Amount m)" by (rule has_scale_add [rotated])
  obtain z where z: "money_col L (user_balance s (m_UserID m) + m_Amount m) = Some z"
      "0 \<le> user_balance s (m_UserID m) + m_Amount m"
    using ApplyTx_books(4) [OF L s ok] by blast
  show "user_balance s' = (user_balance s)(m_UserID m := user_balance s (m_UserID m) + m_Amount m)"
    using ApplyTx_books(3) [OF L s ok z(1)] money_col_exact [OF L sc z(1)] by simp
  show "0 \<le> user_balance s (m_UserID m) + m_Amount m" by (rule z(2))
qed

lemmas Apply_exact = ApplyTx_exact [OF _ _ _ Apply_Inr_ApplyTx]

text \<open>A movement touches no other table.\<close>

lemma ApplyTx_frame:
  assumes "ApplyTx L id f now tid s m = (s', r)"
  shows "bets s' = bets s" "games s' = games s" "game_bets s' = game_bets s"
    "mpesa_deposits s' = mpesa_deposits s"
  using assms by (auto simp: ApplyTx_def Let_def split: if_splits option.splits)

lemma Apply_frame:
  assumes "Apply L f now tid s m = (s', r)"
  shows "bets s' = bets s" "games s' = games s" "game_bets s' = game_bets s"
    "mpesa_deposits s' = mpesa_deposits s"
  using assms by (auto simp: Apply_def split: if_splits prod.splits sum.splits dest: ApplyTx_frame)

text \<open>When no statement fails, the amounts decide whether a movement succeeds.\<close>

lemma ApplyTx_succeeds:
  assumes L: "libs_ok L" and s: "wallets_ok s" and a: "has_scale 2 (m_Amount m)" "m_Amount m \<noteq> 0"
    and w: "user_wallet s (m_UserID m) = Some w" and nn: "0 \<le> w_Balance w + m_Amount m"
    and fits: "w_Balance w + \<bar>m_Amount m\<bar> \<le> 10 ^ 13 - 1"
  shows "\<exists>s'. ApplyTx L id no_faults now tid s m = (s', Inr (createTransactionRecord tid (w_ID w)
    (w_Currency w) (w_Balance w) (w_Balance w + m_Amount m) m now))"
proof -
  let ?g = "\<lambda>v. w_ID v = w_ID w \<and> w_Version v = w_Version w"
  have ws: "w \<in> set (wallets s)" using user_wallet_Some [OF w] by simp
  with s have b: "0 \<le> w_Balance w" "has_scale 2 (w_Balance w)" by (auto simp: wallets_ok_def)
  have n: "rows_affected ?g (wallets s) \<noteq> 0" using ws by (auto simp: rows_affected_0)
  have "money_col L (w_Balance w + m_Amount m) = Some (w_Balance w + m_Amount m)"
    using b fits L a nn by (intro money_col_fits has_scale_add) auto
  moreover have "money_col L (w_Balance w) = Some (w_Balance w)"
    using b fits L by (intro money_col_fits) auto
  moreover have "money_col L \<bar>m_Amount m\<bar> = Some \<bar>m_Amount m\<bar>"
    using b fits L a by (intro money_col_fits) (auto simp: abs_if)
  ultimately show ?thesis using w n a nn
    by (simp add: ApplyTx_def Let_def money_for_rows_def txn_row_def createTransactionRecord_def)
qed

lemma ApplyTx_users:
  assumes "ApplyTx L id f now tid s m = (s', Inr rec)" "wallets_ok s"
  shows "user_wallet s' u = None \<longleftrightarrow> user_wallet s u = None"
proof -
  obtain w us vs z row where "wallets s = us @ w # vs"
      "s' = s\<lparr>wallets := us @ applied z now w # vs, transactions := transactions s @ [row]\<rparr>"
    using ApplyTx_own_Inr [OF assms] by metis
  then show ?thesis by (auto simp: user_wallet_def select_row_None)
qed

section \<open>The contract other services use\<close>

text \<open>
  The credit and debit calls that jackpots, bet editing, virtual sports and the payment callbacks
  make. \<open>'env\<close> is what the outside world contributes to one call (clock, identifiers,
  failing statements). A failing call changes nothing, a successful one moves exactly the amount.
\<close>

locale wallet_service =
  fixes credit debit :: "'env \<Rightarrow> 's \<Rightarrow> uuid \<Rightarrow> decimal \<Rightarrow> Movement \<Rightarrow> 's \<times> ('e + 'r)"
    and inv :: "'s \<Rightarrow> bool" and bal :: "'s \<Rightarrow> uuid \<Rightarrow> decimal"
  assumes credit_Inr: "inv s \<Longrightarrow> has_scale 2 a \<Longrightarrow> credit env s u a m = (s', Inr r) \<Longrightarrow>
      inv s' \<and> bal s' = (bal s)(u := bal s u + a) \<and> 0 < a"
    and debit_Inr: "inv s \<Longrightarrow> has_scale 2 a \<Longrightarrow> debit env s u a m = (s', Inr r) \<Longrightarrow>
      inv s' \<and> bal s' = (bal s)(u := bal s u - a) \<and> 0 < a \<and> a \<le> bal s u"
    and credit_Inl: "credit env s u a m = (s', Inl e) \<Longrightarrow> s' = s"
    and debit_Inl: "debit env s u a m = (s', Inl e) \<Longrightarrow> s' = s"
begin

lemma credit_inv: "inv s \<Longrightarrow> has_scale 2 a \<Longrightarrow> credit env s u a m = (s', r) \<Longrightarrow> inv s'"
  by (cases r) (auto dest: credit_Inr credit_Inl)

lemma debit_inv: "inv s \<Longrightarrow> has_scale 2 a \<Longrightarrow> debit env s u a m = (s', r) \<Longrightarrow> inv s'"
  by (cases r) (auto dest: debit_Inr debit_Inl)

lemma credit_bal:
  "inv s \<Longrightarrow> has_scale 2 a \<Longrightarrow> credit env s u a m = (s', r) \<Longrightarrow>
    bal s' = (bal s)(u := bal s u + (if isl r then 0 else a))"
  by (cases r) (auto dest: credit_Inr credit_Inl)

lemma debit_bal:
  "inv s \<Longrightarrow> has_scale 2 a \<Longrightarrow> debit env s u a m = (s', r) \<Longrightarrow>
    bal s' = (bal s)(u := bal s u - (if isl r then 0 else a))"
  by (cases r) (auto dest: debit_Inr debit_Inl)

lemma debit_nonneg:
  "inv s \<Longrightarrow> has_scale 2 a \<Longrightarrow> 0 \<le> bal s u \<Longrightarrow> debit env s u a m = (s', r) \<Longrightarrow> 0 \<le> bal s' u"
  by (cases r) (auto dest: debit_Inr debit_Inl)

text \<open>A debit undone by a credit of the same amount restores every balance.\<close>

lemma debit_credit_back:
  assumes "inv s" "has_scale 2 a" "debit env s u a m = (s1, Inr r)" "credit env' s1 u a m' = (s2, Inr r')"
  shows "bal s2 = bal s"
  using debit_Inr [OF assms(1-3)] credit_Inr [OF _ assms(2,4)] by auto

end

interpretation ws: wallet_service
  "\<lambda>(f, now, tid). Credit L f now tid" "\<lambda>(f, now, tid). Debit L f now tid"
  "\<lambda>s. libs_ok L \<and> wallets_ok s" user_balance for L
proof (unfold_locales, goal_cases)
  case (1 s a env u m s' r)
  obtain f now tid where "env = (f, now, tid)" by (cases env)
  with 1 have "Apply L f now tid s (m\<lparr>m_UserID := u, m_Amount := a\<rparr>) = (s', Inr r)" "0 < a"
    by (auto simp: Credit_def split: if_splits)
  with 1 show ?case
    using Apply_exact(1) [where L = L and s = s and m = "m\<lparr>m_UserID := u, m_Amount := a\<rparr>"]
      Apply_books(1) [where L = L and s = s and m = "m\<lparr>m_UserID := u, m_Amount := a\<rparr>"] by simp
next
  case (2 s a env u m s' r)
  obtain f now tid where "env = (f, now, tid)" by (cases env)
  with 2 have "Apply L f now tid s (m\<lparr>m_UserID := u, m_Amount := - a\<rparr>) = (s', Inr r)" "0 < a"
    by (auto simp: Debit_def split: if_splits)
  with 2 show ?case
    using Apply_exact [where L = L and s = s and m = "m\<lparr>m_UserID := u, m_Amount := - a\<rparr>"]
      Apply_books(1) [where L = L and s = s and m = "m\<lparr>m_UserID := u, m_Amount := - a\<rparr>"] by simp
next
  case (3 env s u a m s' e)
  then show ?case by (cases env) (auto simp: Credit_def split: if_splits dest: Apply_fail)
next
  case (4 env s u a m s' e)
  then show ?case by (cases env) (auto simp: Debit_def split: if_splits dest: Apply_fail)
qed

section \<open>Everything the service can do to the database\<close>

inductive wallet_step :: "libs \<Rightarrow> db \<Rightarrow> db \<Rightarrow> bool" for L where
  step_apply: "Apply L f now tid s m = (s', r) \<Longrightarrow> wallet_step L s s'"
| step_credit: "Credit L f now tid s u a m = (s', r) \<Longrightarrow> wallet_step L s s'"
| step_debit: "Debit L f now tid s u a m = (s', r) \<Longrightarrow> wallet_step L s s'"
| step_caller_tx: "ApplyTx L id f now tid s m = (s', Inr r) \<Longrightarrow> wallet_step L s s'"

inductive_cases wallet_stepE: "wallet_step L s s'"

lemma wallet_step_cases:
  assumes "wallet_step L s s'"
  obtains "s' = s" | f now tid m r where "ApplyTx L id f now tid s m = (s', Inr r)"
proof -
  have *: "s' = s \<or> (\<exists>f now tid m r. ApplyTx L id f now tid s m = (s', Inr r))"
    if "Apply L f now tid s m = (s', r)" for f now tid m r
    using that by (cases r) (auto dest: Apply_fail Apply_Inr_ApplyTx)
  from assms have "s' = s \<or> (\<exists>f now tid m r. ApplyTx L id f now tid s m = (s', Inr r))"
    by (rule wallet_stepE) (auto simp: Credit_def Debit_def split: if_splits dest: *)
  then show thesis using that by blast
qed

interpretation wallet_run: step_system "wallet_step L" "\<lambda>s. libs_ok L \<and> wallets_ok s \<and> books_ok b0 s" for L b0
  by unfold_locales (auto elim!: wallet_step_cases dest: ApplyTx_books(1,2))

lemma wallet_steps_keep:
  assumes "(wallet_step L)\<^sup>*\<^sup>* s s'" "libs_ok L" "wallets_ok s" "books_ok opening s"
  shows "wallets_ok s' \<and> books_ok opening s'"
  using wallet_run.run_keeps [OF assms(1)] assms(2-4) by blast

section \<open>Properties\<close>

definition sample_move :: "decimal \<Rightarrow> Movement" where
  "sample_move a = \<lparr>m_UserID = 7, m_Amount = a, m_Type = TransactionTypeDeposit, m_ReferenceID = None,
     m_ReferenceType = ''DEPOSIT'', m_Description = '''', m_ProviderName = ''MPESA'',
     m_ProviderTxnID = ''T1'', m_CountryCode = ''KE''\<rparr>"

text \<open>C1: \<open>Apply\<close> moves exactly the amount. With an amount in cents a successful call changes the
  balance of the one user by exactly that amount, changes no other user's balance, leaves the
  result non-negative, and appends one ledger row for the user whose snapshots are the balance
  before and after.\<close>

theorem Apply_moves_exactly:
  assumes "libs_ok L" "wallets_ok s" "has_scale 2 (m_Amount m)" "Apply L f now tid s m = (s', Inr rec)"
  shows "user_balance s' = (user_balance s)(m_UserID m := user_balance s (m_UserID m) + m_Amount m)
    \<and> 0 \<le> user_balance s' (m_UserID m) \<and> m_Amount m \<noteq> 0
    \<and> (\<exists>row. transactions s' = transactions s @ [row] \<and> tr_UserID row = m_UserID m \<and> tr_Type row = m_Type m
         \<and> tr_BalanceBefore row = user_balance s (m_UserID m)
         \<and> tr_BalanceAfter row = user_balance s' (m_UserID m))"
proof -
  note e = Apply_exact [OF assms]
  obtain z row where "money_col L (user_balance s (m_UserID m) + m_Amount m) = Some z" "m_Amount m \<noteq> 0"
      "transactions s' = transactions s @ [row]" "tr_UserID row = m_UserID m" "tr_Type row = m_Type m"
      "tr_BalanceBefore row = user_balance s (m_UserID m)" "tr_BalanceAfter row = z"
    using Apply_books(4) [OF assms(1,2,4)] by blast
  moreover from this have "user_balance s' (m_UserID m) = z"
    using Apply_books(3) [OF assms(1,2,4)] by simp
  ultimately show ?thesis using e by auto
qed

theorem Apply_moves_exactly_witness:
  "user_balance (fst (Apply std_libs no_faults 0 5 sample_db (sample_move (- 40)))) 7 = 60"
proof -
  have "Apply std_libs no_faults 0 5 sample_db (sample_move (- 40)) =
      (fst (Apply std_libs no_faults 0 5 sample_db (sample_move (- 40))),
       Inr (projr (snd (Apply std_libs no_faults 0 5 sample_db (sample_move (- 40))))))"
    by code_simp
  moreover have "wallets_ok sample_db" "has_scale 2 (m_Amount (sample_move (- 40)))" by code_simp+
  ultimately have e: "user_balance (fst (Apply std_libs no_faults 0 5 sample_db (sample_move (- 40)))) =
      (user_balance sample_db)(m_UserID (sample_move (- 40)) :=
         user_balance sample_db (m_UserID (sample_move (- 40))) + m_Amount (sample_move (- 40)))"
    using Apply_moves_exactly [OF std_libs_ok] by blast
  show ?thesis unfolding e by code_simp
qed



text \<open>C2: solvency and balanced books are invariant. From well-formed wallets, any sequence of
  movements, applied by the service or inside a caller's transaction, succeeding or failing
  anywhere, keeps every balance a non-negative amount in cents and equal to its opening balance
  plus what the ledger records for that wallet.\<close>

theorem wallet_reachable_books:
  assumes "libs_ok L" "wallets_ok s" "books_ok opening s" "(wallet_step L)\<^sup>*\<^sup>* s s'"
  shows "wallets_ok s' \<and> books_ok opening s'"
  using assms by (intro wallet_steps_keep)

theorem wallet_reachable_books_witness:
  "wallets_ok (fst (Debit std_libs no_faults 0 5 sample_db 7 40 (sample_move 1))) \<and>
   books_ok (\<lambda>i. if i = 1 then 100 else 50) (fst (Debit std_libs no_faults 0 5 sample_db 7 40 (sample_move 1)))"
proof -
  have "wallet_step std_libs sample_db (fst (Debit std_libs no_faults 0 5 sample_db 7 40 (sample_move 1)))"
    by (rule step_debit [OF prod.collapse [symmetric]])
  then show ?thesis
    by (intro wallet_reachable_books [OF std_libs_ok, of sample_db])
      (auto simp: sample_db_def sample_wallet_def wallets_ok_def books_ok_def has_scale_def)
qed

text \<open>C10: the outcome of a movement is decided by the request and the balance. When no statement
  fails, \<open>Apply\<close> refuses a zero amount, an unknown user and an overdraft with the error the
  code names, in that order, and succeeds in every other case; under its row lock it never
  reports an optimistic conflict.\<close>

theorem Apply_decides:
  assumes "libs_ok L" "wallets_ok s" "has_scale 2 (m_Amount m)"
    and "\<forall>w \<in> set (wallets s). w_Balance w + \<bar>m_Amount m\<bar> \<le> 10 ^ 13 - 1"
  shows "snd (Apply L no_faults now tid s m) =
    (if m_Amount m = 0 then Inl ErrInvalidAmount
     else case user_wallet s (m_UserID m) of
       None \<Rightarrow> Inl ErrWalletNotFound
     | Some w \<Rightarrow>
         if w_Balance w + m_Amount m < 0 then Inl ErrInsufficientFunds
         else Inr (createTransactionRecord tid (w_ID w) (w_Currency w) (w_Balance w)
                     (w_Balance w + m_Amount m) m now))"
proof (cases "user_wallet s (m_UserID m)")
  case None
  then show ?thesis by (simp add: Apply_def ApplyTx_def)
next
  case (Some w)
  have w: "w \<in> set (wallets s)" using user_wallet_Some [OF Some] by simp
  have pay: "\<exists>s'. ApplyTx L id no_faults now tid s m = (s', Inr (createTransactionRecord tid (w_ID w)
      (w_Currency w) (w_Balance w) (w_Balance w + m_Amount m) m now))"
    if "m_Amount m \<noteq> 0" "\<not> w_Balance w + m_Amount m < 0"
    using that w assms Some by (intro ApplyTx_succeeds) auto
  consider "m_Amount m = 0" | "m_Amount m \<noteq> 0" "w_Balance w + m_Amount m < 0"
    | "m_Amount m \<noteq> 0" "\<not> w_Balance w + m_Amount m < 0" by blast
  then show ?thesis
  proof cases
    case 3
    with pay show ?thesis using Some by (auto simp: Apply_def)
  qed (simp_all add: Apply_def ApplyTx_def Some)
qed

theorem Apply_decides_witness:
  "snd (Apply std_libs no_faults 0 5 sample_db (sample_move (- 130))) = Inl ErrInsufficientFunds"
proof -
  have "wallets_ok sample_db" "has_scale 2 (m_Amount (sample_move (- 130)))"
    "\<forall>w \<in> set (wallets sample_db). w_Balance w + \<bar>m_Amount (sample_move (- 130))\<bar> \<le> 10 ^ 13 - 1"
    by code_simp+
  from Apply_decides [OF std_libs_ok this] show ?thesis
    by (simp add: sample_db_def sample_wallet_def sample_move_def user_wallet_def tables)
qed

text \<open>C12: the version guard of \<open>UpdateBalance\<close> prevents lost updates. The read and the write are
  separate statements, so other sessions may commit in between. If they raised the version of
  every wallet row of the user, the call reports a conflict and writes nothing over their work;
  if it reports success, the row it overwrote still had the version that was read.\<close>

theorem UpdateBalance_guarded:
  assumes "user_wallet s u = Some w"
  shows "((\<forall>v \<in> set (wallets (other s)). w_UserID v = u \<longrightarrow> w_Version v \<noteq> w_Version w) \<longrightarrow>
      UpdateBalance L other no_faults now s u b bb = (other s, Inl ErrOptimisticConflict)) \<and>
    (snd (UpdateBalance L other f now s u b bb) = Inr () \<longrightarrow>
      (\<exists>v \<in> set (wallets (other s)). w_UserID v = u \<and> w_Version v = w_Version w))"
proof (intro conjI impI)
  assume "\<forall>v \<in> set (wallets (other s)). w_UserID v = u \<longrightarrow> w_Version v \<noteq> w_Version w"
  then have "\<forall>v \<in> set (wallets (other s)). \<not> (w_UserID v = u \<and> w_Version v = w_Version w)" by blast
  then show "UpdateBalance L other no_faults now s u b bb = (other s, Inl ErrOptimisticConflict)"
    using assms by (simp add: UpdateBalance_def money_for_rows_def rows_affected_0 update_where_none)
next
  assume "snd (UpdateBalance L other f now s u b bb) = Inr ()"
  then have "rows_affected (\<lambda>v. w_UserID v = u \<and> w_Version v = w_Version w) (wallets (other s)) \<noteq> 0"
    using assms by (auto simp: UpdateBalance_def Let_def split: if_splits option.splits)
  then show "\<exists>v \<in> set (wallets (other s)). w_UserID v = u \<and> w_Version v = w_Version w"
    by (auto simp: rows_affected_0)
qed

theorem UpdateBalance_guarded_witness:
  "UpdateBalance std_libs (\<lambda>s. fst (Debit std_libs no_faults 0 5 s 7 40 (sample_move 1))) no_faults 0
     sample_db 7 500 0 =
   (fst (Debit std_libs no_faults 0 5 sample_db 7 40 (sample_move 1)), Inl ErrOptimisticConflict)"
proof (rule UpdateBalance_guarded [THEN conjunct1, THEN mp])
  show "user_wallet sample_db 7 = Some (sample_wallet 1 7 100)"
    by (simp add: user_wallet_def sample_db_def sample_wallet_def tables)
  show "\<forall>v\<in>set (wallets (fst (Debit std_libs no_faults 0 5 sample_db 7 40 (sample_move 1)))).
       w_UserID v = 7 \<longrightarrow> w_Version v \<noteq> w_Version (sample_wallet 1 7 100)"
    by code_simp
qed

lemma scan_rows_map: "\<forall>r \<in> set rs. scan r \<noteq> None \<Longrightarrow> scan_rows scan rs = Some (map (\<lambda>r. the (scan r)) rs)"
  by (induction rs) auto

lemma scan_rows_None: "r \<in> set rs \<Longrightarrow> scan r = None \<Longrightarrow> scan_rows scan rs = None"
  by (induction rs) (auto split: option.splits)

lemma scan_txn_created: "scan_txn r = Some t \<Longrightarrow> t_CreatedAt t = tr_CreatedAt r"
  by (auto simp: scan_txn_def split: option.splits)

text \<open>The transaction history pages correctly. When every row of the user has its provider
  columns set, as every row written by the service has, there is one list of all the user's
  transactions, newest first, and each call returns the slice its limit and offset name; so
  consecutive pages neither skip nor repeat a transaction.\<close>

theorem GetTransactions_pages:
  assumes "\<forall>t \<in> set (transactions s). tr_UserID t = u \<longrightarrow> scan_txn t \<noteq> None"
  shows "\<exists>ts. mset (map Some ts) = image_mset scan_txn (filter_mset (\<lambda>t. tr_UserID t = u) (mset (transactions s)))
    \<and> sorted_wrt (\<lambda>a b. t_CreatedAt b \<le> t_CreatedAt a) ts
    \<and> (\<forall>limit offset. GetTransactionsByUserID no_faults s u limit offset = Inr (take limit (drop offset ts)))"
proof -
  let ?rows = "rev (sort_key tr_CreatedAt (filter (\<lambda>t. tr_UserID t = u) (transactions s)))"
  let ?ts = "map (\<lambda>r. the (scan_txn r)) ?rows"
  have all: "\<forall>r \<in> set ?rows. scan_txn r \<noteq> None" using assms by auto
  have "map Some ?ts = map scan_txn ?rows" using all by (auto simp: o_def simp del: set_rev)
  then have "mset (map Some ?ts) = mset (map scan_txn ?rows)" by (rule arg_cong)
  then have m: "mset (map Some ?ts) = image_mset scan_txn (filter_mset (\<lambda>t. tr_UserID t = u) (mset (transactions s)))"
    by (simp only: mset_map mset_rev mset_sort mset_filter)
  have "sorted_wrt (\<lambda>a b. tr_CreatedAt b \<le> tr_CreatedAt a) ?rows"
    using sorted_sort_key [of tr_CreatedAt "filter (\<lambda>t. tr_UserID t = u) (transactions s)"]
    by (simp add: sorted_wrt_rev sorted_map)
  then have "sorted_wrt (\<lambda>a b. t_CreatedAt (the (scan_txn b)) \<le> t_CreatedAt (the (scan_txn a))) ?rows"
    by (rule sorted_wrt_mono_rel [rotated]) (use all scan_txn_created in fastforce)
  then have srt: "sorted_wrt (\<lambda>a b. t_CreatedAt b \<le> t_CreatedAt a) ?ts" by (simp add: sorted_wrt_map)
  have "GetTransactionsByUserID no_faults s u limit offset = Inr (take limit (drop offset ?ts))" for limit offset
  proof -
    have "\<forall>r \<in> set (page limit offset ?rows). scan_txn r \<noteq> None"
      using all by (auto simp: page_def dest!: in_set_takeD in_set_dropD)
    from scan_rows_map [OF this] show ?thesis
      by (simp add: GetTransactionsByUserID_def page_def take_map drop_map)
  qed
  with m srt show ?thesis by blast
qed

theorem GetTransactions_pages_witness:
  "\<exists>ts. length ts = 1 \<and> (\<forall>limit offset. GetTransactionsByUserID no_faults
     (fst (Debit std_libs no_faults 0 5 sample_db 7 40 (sample_move 1))) 7 limit offset =
     Inr (take limit (drop offset ts)))"
proof -
  let ?s = "fst (Debit std_libs no_faults 0 5 sample_db 7 40 (sample_move 1))"
  have "\<forall>t \<in> set (transactions ?s). tr_UserID t = 7 \<longrightarrow> scan_txn t \<noteq> None" by code_simp
  from GetTransactions_pages [OF this] obtain ts where
    "mset (map Some ts) = image_mset scan_txn (filter_mset (\<lambda>t. tr_UserID t = 7) (mset (transactions ?s)))"
    "\<forall>limit offset. GetTransactionsByUserID no_faults ?s 7 limit offset = Inr (take limit (drop offset ts))"
    by blast
  moreover from arg_cong [OF this(1), of size] have "length ts = length (filter (\<lambda>t. tr_UserID t = 7) (transactions ?s))"
    by (simp only: size_image_mset size_mset mset_map flip: mset_filter)
  moreover have "length (filter (\<lambda>t. tr_UserID t = 7) (transactions ?s)) = 1" by code_simp
  ultimately show ?thesis by metis
qed

end
