(* ===== verification/PlaceBet.thy ===== *)
theory PlaceBet
  imports Tax WalletService
begin

text \<open>
  \<open>internal/core/usecase/place_bet.go\<close>, its validator and the bet repository: a bet is checked,
  taxed, paid for and stored in one database transaction.

  The user store behind \<open>UserRepository\<close> is the argument \<open>users\<close>. The record
  \<open>PlaceEnv\<close> holds what the outside contributes to one call: the clock and the identifiers
  each step reads, and which statements of each of the two wallet movements fail.
\<close>

datatype place_error =
    ErrUserNotEligible
  | ErrInvalidBet
  | ErrStakeTooLow
  | ErrStakeTooHigh
  | ErrLoadUser
  | ErrTax tax_error
  | ErrWallet wallet_error
  | ErrStore db_call

record PlaceBetInput =
  in_UserID :: uuid
  in_BetType :: BetType
  in_Stake :: decimal
  in_Selections :: "Selection list"
  in_IPAddress :: string
  in_DeviceID :: string
  in_CountryCode :: string

record PlaceBetValidator =
  v_minStake :: decimal
  v_maxStake :: decimal

definition NewPlaceBetValidator :: "decimal \<Rightarrow> decimal \<Rightarrow> PlaceBetValidator" where
  "NewPlaceBetValidator lo hi = \<lparr>v_minStake = lo, v_maxStake = hi\<rparr>"

definition Validate :: "PlaceBetValidator \<Rightarrow> PlaceBetInput \<Rightarrow> place_error option" where
  "Validate v inp =
     (if in_Stake inp < v_minStake v then Some ErrStakeTooLow
      else if in_Stake inp > v_maxStake v then Some ErrStakeTooHigh
      else if length (in_Selections inp) = 0 then Some ErrInvalidBet
      else if in_BetType inp = BetTypeSingle \<and> length (in_Selections inp) \<noteq> 1 then Some ErrInvalidBet
      else None)"

definition ValidateUserEligibility :: "time \<Rightarrow> User \<Rightarrow> place_error option" where
  "ValidateUserEligibility now user = (if \<not> CanPlaceBet now user then Some ErrUserNotEligible else None)"

section \<open>The bet repository\<close>

text \<open>The row an \<open>INSERT INTO bets\<close> stores: the selections are not among its columns.\<close>

definition bet_row :: "libs \<Rightarrow> Bet \<Rightarrow> Bet option" where
  "bet_row L b =
     (case (money_col L (bet_Stake b), money_col L (bet_PotentialWin b), odds_col L (bet_TotalOdds b),
            money_col L (bet_ActualWin b), money_col L (bet_TaxAmount b)) of
        (Some st, Some pw, Some od, Some aw, Some tx) \<Rightarrow>
          Some (b\<lparr>bet_Stake := st, bet_PotentialWin := pw, bet_TotalOdds := od, bet_ActualWin := aw,
                  bet_TaxAmount := tx, bet_Selections := []\<rparr>)
      | _ \<Rightarrow> None)"

definition InsertTx :: "libs \<Rightarrow> faults \<Rightarrow> db \<Rightarrow> Bet \<Rightarrow> db \<times> (place_error + unit)" where
  "InsertTx L f s b =
     (case (if f InsertCall \<or> bet_ID b \<in> bet_ID ` set (bets s) then None else bet_row L b) of
        None \<Rightarrow> (s, Inl (ErrStore InsertCall))
      | Some row \<Rightarrow> (s\<lparr>bets := bets s @ [row]\<rparr>, Inr ()))"

definition BetRepository_Create :: "libs \<Rightarrow> faults \<Rightarrow> db \<Rightarrow> Bet \<Rightarrow> db \<times> (place_error + unit)" where
  "BetRepository_Create L f s b =
     (case (if f InsertCall \<or> bet_ID b \<in> bet_ID ` set (bets s) then None else bet_row L b) of
        None \<Rightarrow> (s, Inl (ErrStore InsertCall))
      | Some row \<Rightarrow> (s\<lparr>bets := bets s @ [row]\<rparr>, Inr ()))"

definition BetRepository_GetByID :: "faults \<Rightarrow> db \<Rightarrow> uuid \<Rightarrow> place_error + Bet" where
  "BetRepository_GetByID f s i =
     (case (if f QueryCall then None else select_row (\<lambda>b. bet_ID b = i) (bets s)) of
        None \<Rightarrow> Inl (ErrStore QueryCall)
      | Some b \<Rightarrow> Inr b)"

definition BetRepository_GetByUserID :: "faults \<Rightarrow> db \<Rightarrow> uuid \<Rightarrow> nat \<Rightarrow> nat \<Rightarrow> place_error + Bet list" where
  "BetRepository_GetByUserID f s u limit offset =
     (if f QueryCall then Inl (ErrStore QueryCall)
      else Inr (page limit offset (rev (sort_key bet_PlacedAt (filter (\<lambda>b. bet_UserID b = u) (bets s))))))"

definition GetPendingBets :: "faults \<Rightarrow> db \<Rightarrow> place_error + Bet list" where
  "GetPendingBets f s =
     (if f QueryCall then Inl (ErrStore QueryCall)
      else Inr (sort_key bet_PlacedAt (filter (\<lambda>b. bet_Status b = BetStatusPending) (bets s))))"

definition UpdateStatus ::
  "libs \<Rightarrow> faults \<Rightarrow> time \<Rightarrow> db \<Rightarrow> uuid \<Rightarrow> BetStatus \<Rightarrow> decimal \<Rightarrow> db \<times> (place_error + unit)" where
  "UpdateStatus L f now s i status actualWin =
     (let P = (\<lambda>b. bet_ID b = i) in
      case (if f UpdateCall then None else money_for_rows L P (bets s) actualWin) of
        None \<Rightarrow> (s, Inl (ErrStore UpdateCall))
      | Some aw \<Rightarrow>
          (s\<lparr>bets := update_where P
               (\<lambda>b. b\<lparr>bet_Status := status, bet_ActualWin := aw, bet_SettledAt := Some now\<rparr>) (bets s)\<rparr>,
           Inr ()))"

definition UpdateTaxPaid :: "libs \<Rightarrow> faults \<Rightarrow> db \<Rightarrow> uuid \<Rightarrow> decimal \<Rightarrow> db \<times> (place_error + unit)" where
  "UpdateTaxPaid L f s i taxAmount =
     (let P = (\<lambda>b. bet_ID b = i) in
      case (if f UpdateCall then None else money_for_rows L P (bets s) taxAmount) of
        None \<Rightarrow> (s, Inl (ErrStore UpdateCall))
      | Some tx \<Rightarrow>
          (s\<lparr>bets := update_where P (\<lambda>b. b\<lparr>bet_TaxAmount := tx, bet_TaxPaid := True\<rparr>) (bets s)\<rparr>, Inr ()))"

section \<open>Placing a bet\<close>

record PlaceBetUseCase =
  uc_users :: "uuid \<Rightarrow> User option"
  uc_tax :: Engine
  uc_minStake :: decimal
  uc_maxStake :: decimal

definition NewPlaceBetUseCase :: "(uuid \<Rightarrow> User option) \<Rightarrow> Engine \<Rightarrow> PlaceBetUseCase" where
  "NewPlaceBetUseCase users taxEngine =
     \<lparr>uc_users = users, uc_tax = taxEngine, uc_minStake = 10, uc_maxStake = 100000\<rparr>"

definition calculateTotalOdds :: "BetType \<Rightarrow> Selection list \<Rightarrow> decimal" where
  "calculateTotalOdds betType selections =
     (case betType of
        BetTypeSingle \<Rightarrow> (case selections of [] \<Rightarrow> 1 | sel # _ \<Rightarrow> sel_Odds sel)
      | BetTypeMulti \<Rightarrow> foldl (\<lambda>total sel. total * sel_Odds sel) 1 selections
      | BetTypeSystem \<Rightarrow> foldl (\<lambda>total sel. total * sel_Odds sel) 1 selections
      | BetTypeOther _ \<Rightarrow> 1)"

record PlaceEnv =
  pe_check_time :: time
  pe_placed_time :: time
  pe_debit_time :: time
  pe_tax_time :: time
  pe_bet_id :: uuid
  pe_debit_id :: uuid
  pe_tax_id :: uuid
  pe_debit_faults :: faults
  pe_tax_faults :: faults
  pe_faults :: faults

definition new_bet :: "libs \<Rightarrow> PlaceEnv \<Rightarrow> PlaceBetInput \<Rightarrow> User \<Rightarrow> StakeBreakdown \<Rightarrow> Bet" where
  "new_bet L env inp user brk =
     (let totalOdds = calculateTotalOdds (in_BetType inp) (in_Selections inp) in
      \<lparr>bet_ID = pe_bet_id env, bet_UserID = in_UserID inp, bet_CountryCode = in_CountryCode inp,
       bet_BetType = in_BetType inp, bet_Stake = in_Stake inp, bet_Currency = u_Currency user,
       bet_PotentialWin = dec_round L (sk_NetStake brk * totalOdds) 2, bet_TotalOdds = totalOdds,
       bet_Status = BetStatusPending, bet_ActualWin = 0, bet_SettledAt = None,
       bet_Selections = in_Selections inp, bet_PlacedAt = pe_placed_time env,
       bet_IPAddress = in_IPAddress inp, bet_DeviceID = in_DeviceID inp,
       bet_TaxAmount = sk_StakeTax brk, bet_TaxPaid = True\<rparr>)"

definition stake_movement :: "libs \<Rightarrow> PlaceBetInput \<Rightarrow> uuid \<Rightarrow> StakeBreakdown \<Rightarrow> Movement" where
  "stake_movement L inp bid brk = \<lparr>
     m_UserID = in_UserID inp, m_Amount = - sk_NetStake brk, m_Type = TransactionTypeBetPlaced,
     m_ReferenceID = Some bid, m_ReferenceType = ''BET'',
     m_Description = ''bet '' @ uuid_string L bid, m_ProviderName = '''', m_ProviderTxnID = '''',
     m_CountryCode = in_CountryCode inp\<rparr>"

definition tax_movement :: "libs \<Rightarrow> PlaceBetInput \<Rightarrow> uuid \<Rightarrow> StakeBreakdown \<Rightarrow> Movement" where
  "tax_movement L inp bid brk = \<lparr>
     m_UserID = in_UserID inp, m_Amount = - sk_StakeTax brk, m_Type = TransactionTypeTax,
     m_ReferenceID = Some bid, m_ReferenceType = ''BET'',
     m_Description = ''stake tax for bet '' @ uuid_string L bid, m_ProviderName = '''',
     m_ProviderTxnID = '''', m_CountryCode = in_CountryCode inp\<rparr>"

text \<open>
  The database part, run on the working copy of the transaction; \<open>Execute\<close> publishes it on
  commit and otherwise returns the database it was given.
\<close>

definition reserve_and_insert ::
  "libs \<Rightarrow> PlaceEnv \<Rightarrow> db \<Rightarrow> PlaceBetInput \<Rightarrow> StakeBreakdown \<Rightarrow> Bet \<Rightarrow> db \<times> (place_error + unit)" where
  "reserve_and_insert L env s inp brk bet =
     (case ApplyTx L id (pe_debit_faults env) (pe_debit_time env) (pe_debit_id env) s
             (stake_movement L inp (bet_ID bet) brk) of
        (s1, Inl e) \<Rightarrow> (s1, Inl (ErrWallet e))
      | (s1, Inr _) \<Rightarrow>
          (case (if sk_StakeTax brk > 0
                 then (case ApplyTx L id (pe_tax_faults env) (pe_tax_time env) (pe_tax_id env) s1
                              (tax_movement L inp (bet_ID bet) brk) of
                         (s2, Inl e) \<Rightarrow> (s2, Inl (ErrWallet e))
                       | (s2, Inr _) \<Rightarrow> (s2, Inr ()))
                 else (s1, Inr ())) of
             (s2, Inl e) \<Rightarrow> (s2, Inl e)
           | (s2, Inr _) \<Rightarrow> InsertTx L (pe_faults env) s2 bet))"

definition Execute ::
  "libs \<Rightarrow> PlaceBetUseCase \<Rightarrow> PlaceEnv \<Rightarrow> db \<Rightarrow> PlaceBetInput \<Rightarrow> db \<times> (place_error + Bet)" where
  "Execute L uc env s inp =
     (case uc_users uc (in_UserID inp) of
        None \<Rightarrow> (s, Inl ErrLoadUser)
      | Some user \<Rightarrow>
          if \<not> CanPlaceBet (pe_check_time env) user then (s, Inl ErrUserNotEligible)
          else case Validate (NewPlaceBetValidator (uc_minStake uc) (uc_maxStake uc)) inp of
            Some e \<Rightarrow> (s, Inl e)
          | None \<Rightarrow>
              (case ApplyStakeTax L (uc_tax uc) (in_CountryCode inp) (in_Stake inp) of
                 Inl e \<Rightarrow> (s, Inl (ErrTax e))
               | Inr brk \<Rightarrow>
                   let bet = new_bet L env inp user brk in
                   if pe_faults env BeginTx then (s, Inl (ErrStore BeginTx))
                   else case reserve_and_insert L env s inp brk bet of
                     (s', Inl e) \<Rightarrow> (s, Inl e)
                   | (s', Inr _) \<Rightarrow>
                       if pe_faults env CommitCall then (s, Inl (ErrStore CommitCall))
                       else (s', Inr bet)))"

section \<open>What a placed bet does\<close>

lemma ApplyTx_returns:
  assumes "libs_ok L" "wallets_ok s" "has_scale 2 (m_Amount m)" "m_Amount m \<noteq> 0"
    "user_wallet s (m_UserID m) = Some w" "0 \<le> w_Balance w + m_Amount m"
    "w_Balance w + \<bar>m_Amount m\<bar> \<le> 10 ^ 13 - 1"
  shows "\<exists>s' r. ApplyTx L id no_faults now tid s m = (s', Inr r)"
  using ApplyTx_succeeds [OF assms] by blast

lemma Validate_None:
  "Validate (NewPlaceBetValidator lo hi) inp = None \<longleftrightarrow>
     lo \<le> in_Stake inp \<and> in_Stake inp \<le> hi \<and> in_Selections inp \<noteq> [] \<and>
     (in_BetType inp = BetTypeSingle \<longrightarrow> length (in_Selections inp) = 1)"
  by (auto simp: Validate_def NewPlaceBetValidator_def)

lemma InsertTx_Inr:
  "InsertTx L f s b = (s', Inr u) \<Longrightarrow>
     \<exists>row. bet_row L b = Some row \<and> s' = s\<lparr>bets := bets s @ [row]\<rparr> \<and> bet_ID b \<notin> bet_ID ` set (bets s)"
  by (auto simp: InsertTx_def split: if_splits option.splits)

lemma reserve_and_insert_Inr:
  assumes "reserve_and_insert L env s inp brk bet = (s', Inr u)"
  obtains s1 s2 r row where
    "ApplyTx L id (pe_debit_faults env) (pe_debit_time env) (pe_debit_id env) s
       (stake_movement L inp (bet_ID bet) brk) = (s1, Inr r)"
    "if 0 < sk_StakeTax brk
     then \<exists>r'. ApplyTx L id (pe_tax_faults env) (pe_tax_time env) (pe_tax_id env) s1
       (tax_movement L inp (bet_ID bet) brk) = (s2, Inr r')
     else s2 = s1"
    "bet_row L bet = Some row" "s' = s2\<lparr>bets := bets s2 @ [row]\<rparr>"
proof -
  obtain s1 r where 1: "ApplyTx L id (pe_debit_faults env) (pe_debit_time env) (pe_debit_id env) s
       (stake_movement L inp (bet_ID bet) brk) = (s1, Inr r)"
    using assms by (auto simp: reserve_and_insert_def split: prod.splits sum.splits)
  obtain s2 where 2: "if 0 < sk_StakeTax brk
     then \<exists>r'. ApplyTx L id (pe_tax_faults env) (pe_tax_time env) (pe_tax_id env) s1
       (tax_movement L inp (bet_ID bet) brk) = (s2, Inr r')
     else s2 = s1" "InsertTx L (pe_faults env) s2 bet = (s', Inr u)"
    using assms by (auto simp: reserve_and_insert_def 1 split: prod.splits sum.splits if_splits)
  from InsertTx_Inr [OF 2(2)] show thesis using that [OF 1 2(1)] by blast
qed

lemma user_balance_bets [simp]: "user_balance (s\<lparr>bets := x\<rparr>) = user_balance s"
  by (rule ext) (simp add: user_balance_def user_wallet_def)

lemma wallets_ok_bets [simp]: "wallets_ok (s\<lparr>bets := x\<rparr>) = wallets_ok s"
  by (simp add: wallets_ok_def)

lemma books_ok_bets [simp]: "books_ok opening (s\<lparr>bets := x\<rparr>) = books_ok opening s"
  by (simp add: books_ok_def)

lemma movement_fields [simp]:
  "m_UserID (stake_movement L inp b brk) = in_UserID inp"
  "m_Amount (stake_movement L inp b brk) = - sk_NetStake brk"
  "m_UserID (tax_movement L inp b brk) = in_UserID inp"
  "m_Amount (tax_movement L inp b brk) = - sk_StakeTax brk"
  by (simp_all add: stake_movement_def tax_movement_def)

lemma reserve_and_insert_books:
  assumes L: "libs_ok L" and s: "wallets_ok s"
    and sc: "has_scale 2 (sk_NetStake brk)" "has_scale 2 (sk_StakeTax brk)" "0 \<le> sk_StakeTax brk"
    and ok: "reserve_and_insert L env s inp brk bet = (s', Inr u)"
  shows "wallets_ok s'" "books_ok opening s \<Longrightarrow> books_ok opening s'"
    "user_balance s' = (user_balance s)(in_UserID inp :=
       user_balance s (in_UserID inp) - (sk_NetStake brk + sk_StakeTax brk))"
    "0 \<le> user_balance s (in_UserID inp) - (sk_NetStake brk + sk_StakeTax brk)"
    "\<exists>row. bet_row L bet = Some row \<and> bets s' = bets s @ [row]"
proof -
  obtain s1 s2 r row where a: "ApplyTx L id (pe_debit_faults env) (pe_debit_time env) (pe_debit_id env) s
       (stake_movement L inp (bet_ID bet) brk) = (s1, Inr r)"
    and t: "if 0 < sk_StakeTax brk
     then \<exists>r'. ApplyTx L id (pe_tax_faults env) (pe_tax_time env) (pe_tax_id env) s1
       (tax_movement L inp (bet_ID bet) brk) = (s2, Inr r')
     else s2 = s1"
    and row: "bet_row L bet = Some row" and s': "s' = s2\<lparr>bets := bets s2 @ [row]\<rparr>"
    using ok by (rule reserve_and_insert_Inr)
  have s1: "wallets_ok s1" by (rule ApplyTx_books(1) [OF L s a])
  have b1: "user_balance s1 = (user_balance s)(in_UserID inp := user_balance s (in_UserID inp) - sk_NetStake brk)"
      "0 \<le> user_balance s (in_UserID inp) - sk_NetStake brk"
    using ApplyTx_exact [OF L s _ a] sc by simp_all
  have 2: "wallets_ok s2 \<and> (books_ok opening s1 \<longrightarrow> books_ok opening s2) \<and> bets s2 = bets s1 \<and>
      user_balance s2 = (user_balance s1)(in_UserID inp := user_balance s1 (in_UserID inp) - sk_StakeTax brk) \<and>
      0 \<le> user_balance s1 (in_UserID inp) - sk_StakeTax brk"
  proof (cases "0 < sk_StakeTax brk")
    case True
    with t obtain r' where r': "ApplyTx L id (pe_tax_faults env) (pe_tax_time env) (pe_tax_id env) s1
       (tax_movement L inp (bet_ID bet) brk) = (s2, Inr r')" by auto
    show ?thesis
      using ApplyTx_books(1,2) [OF L s1 r'] ApplyTx_exact [OF L s1 _ r'] ApplyTx_frame(1) [OF r'] sc
      by simp
  next
    case False
    then show ?thesis using t sc s1 b1 by auto
  qed
  show "wallets_ok s'" "books_ok opening s \<Longrightarrow> books_ok opening s'"
    using 2 ApplyTx_books(2) [OF L s a] by (simp_all add: s')
  show "user_balance s' = (user_balance s)(in_UserID inp :=
       user_balance s (in_UserID inp) - (sk_NetStake brk + sk_StakeTax brk))"
    using 2 b1 by (simp add: s' algebra_simps)
  show "0 \<le> user_balance s (in_UserID inp) - (sk_NetStake brk + sk_StakeTax brk)"
    using 2 b1 by (simp add: algebra_simps)
  show "\<exists>row. bet_row L bet = Some row \<and> bets s' = bets s @ [row]"
    using row 2 ApplyTx_frame(1) [OF a] by (simp add: s')
qed

lemma Execute_Inr:
  assumes "Execute L uc env s inp = (s', Inr bet)"
  obtains user brk where
    "uc_users uc (in_UserID inp) = Some user" "CanPlaceBet (pe_check_time env) user"
    "Validate (NewPlaceBetValidator (uc_minStake uc) (uc_maxStake uc)) inp = None"
    "ApplyStakeTax L (uc_tax uc) (in_CountryCode inp) (in_Stake inp) = Inr brk"
    "bet = new_bet L env inp user brk"
    "reserve_and_insert L env s inp brk bet = (s', Inr ())"
proof -
  obtain user where u: "uc_users uc (in_UserID inp) = Some user" "CanPlaceBet (pe_check_time env) user"
    and v: "Validate (NewPlaceBetValidator (uc_minStake uc) (uc_maxStake uc)) inp = None"
    using assms by (auto simp: Execute_def split: option.splits if_splits)
  moreover obtain brk where "ApplyStakeTax L (uc_tax uc) (in_CountryCode inp) (in_Stake inp) = Inr brk"
    using assms u v by (auto simp: Execute_def split: sum.splits)
  ultimately show thesis using assms that
    by (auto simp: Execute_def Let_def split: if_splits prod.splits sum.splits)
qed

section \<open>Properties\<close>

text \<open>C5: placing a bet is all or nothing. For a stake in whole cents and an accepted tax engine,
  \<open>Execute\<close> either reports an error and leaves the database exactly as it was, or returns a
  pending bet, stores exactly that bet (without its selections, amounts as the columns round them)
  and takes exactly the gross stake from the player: net stake and stake tax together, never more
  than the balance, no other balance touched, balances and ledger still in step.\<close>

theorem Execute_all_or_nothing:
  assumes L: "libs_ok L" and e: "New regimes = Inr (uc_tax uc)" and s: "wallets_ok s"
    and sc: "has_scale 2 (in_Stake inp)" and ex: "Execute L uc env s inp = (s', r)"
  shows "(\<exists>err. r = Inl err \<and> s' = s) \<or>
    (\<exists>bet row. r = Inr bet \<and> bet_Status bet = BetStatusPending \<and> bet_Stake bet = in_Stake inp \<and>
       bet_row L bet = Some row \<and> bets s' = bets s @ [row] \<and> in_Stake inp \<le> user_balance s (in_UserID inp) \<and>
       user_balance s' = (user_balance s)(in_UserID inp := user_balance s (in_UserID inp) - in_Stake inp) \<and>
       wallets_ok s' \<and> (\<forall>opening. books_ok opening s \<longrightarrow> books_ok opening s'))"
proof (cases r)
  case (Inl err)
  then have "s' = s" using ex
    by (auto simp: Execute_def Let_def split: option.splits if_splits sum.splits prod.splits)
  with Inl show ?thesis by blast
next
  case (Inr bet)
  then obtain user brk where v: "Validate (NewPlaceBetValidator (uc_minStake uc) (uc_maxStake uc)) inp = None"
    and t: "ApplyStakeTax L (uc_tax uc) (in_CountryCode inp) (in_Stake inp) = Inr brk"
    and bet: "bet = new_bet L env inp user brk" "reserve_and_insert L env s inp brk bet = (s', Inr ())"
    using ex by (auto elim: Execute_Inr)
  note sp = ApplyStakeTax_split [OF L New_ok [OF e] t]
  have "sk_NetStake brk = in_Stake inp - sk_StakeTax brk" using sp(1) by linarith
  then have "has_scale 2 (sk_NetStake brk)" using sc sp(4) by (simp add: has_scale_diff)
  note b = reserve_and_insert_books [OF L s this sp(4) sp(2) bet(2)]
  then show ?thesis using Inr bet(1) sp(1)
    by (auto simp: new_bet_def Let_def)
qed

definition sample_user :: User where
  "sample_user = \<lparr>u_ID = 7, u_PhoneNumber = '''', u_Email = '''', u_PasswordHash = '''',
     u_CountryCode = ''KE'', u_Currency = ''KES'', u_NationalID = '''', u_KRAPin = '''', u_FullName = '''',
     u_DateOfBirth = 0, u_IsVerified = True, u_SelfExcluded = False, u_SelfExcludedUntil = None,
     u_DailyDepositLimit = None, u_CreatedAt = 0, u_UpdatedAt = 0, u_LastLoginAt = None,
     u_Status = UserStatusActive\<rparr>"

definition sample_uc :: PlaceBetUseCase where
  "sample_uc = NewPlaceBetUseCase (\<lambda>u. if u = 7 then Some sample_user else None) [''KE'' \<mapsto> Default_regime]"

definition sample_selection :: Selection where
  "sample_selection = \<lparr>sel_ID = 1, sel_BetID = 0, sel_MarketID = ''m'', sel_EventID = ''e'',
     sel_EventName = '''', sel_MarketName = '''', sel_OutcomeName = '''', sel_Odds = 25 / 10,
     sel_Status = SelectionStatusPending, sel_SettledAt = None\<rparr>"

definition sample_bet_input :: PlaceBetInput where
  "sample_bet_input = \<lparr>in_UserID = 7, in_BetType = BetTypeSingle, in_Stake = 40,
     in_Selections = [sample_selection], in_IPAddress = ''10.0.0.1'', in_DeviceID = '''',
     in_CountryCode = ''KE''\<rparr>"

definition sample_place_env :: PlaceEnv where
  "sample_place_env = \<lparr>pe_check_time = 0, pe_placed_time = 1, pe_debit_time = 2, pe_tax_time = 3,
     pe_bet_id = 90, pe_debit_id = 91, pe_tax_id = 92, pe_debit_faults = no_faults,
     pe_tax_faults = no_faults, pe_faults = no_faults\<rparr>"

theorem Execute_all_or_nothing_witness:
  "user_balance (fst (Execute std_libs sample_uc sample_place_env sample_db sample_bet_input)) 7 = 60"
proof -
  let ?x = "Execute std_libs sample_uc sample_place_env sample_db sample_bet_input"
  have e: "New [Default_regime] = Inr (uc_tax sample_uc)"
    using Default_eq by (simp add: Default_def sample_uc_def NewPlaceBetUseCase_def)
  have "wallets_ok sample_db" "has_scale 2 (in_Stake sample_bet_input)" by code_simp+
  from Execute_all_or_nothing [OF std_libs_ok e this, of sample_place_env "fst ?x" "snd ?x"]
  have "isl (snd ?x) \<or> user_balance (fst ?x) = (user_balance sample_db)(in_UserID sample_bet_input :=
      user_balance sample_db (in_UserID sample_bet_input) - in_Stake sample_bet_input)" by auto
  moreover have "\<not> isl (snd ?x)" by code_simp
  moreover have "user_balance sample_db 7 = 100" by code_simp
  ultimately show ?thesis by (simp add: sample_bet_input_def)
qed

text \<open>C8: only eligible players and well-formed bets get through. A bet that was placed belongs to a
  known, active, verified user who is not inside a dated self-exclusion; its stake lies between the
  configured limits; it has a selection, and exactly one when it is a single; and the potential
  win is the net stake at the accumulated odds, to within half a cent.\<close>

theorem Execute_gates:
  assumes L: "libs_ok L" and ex: "Execute L (NewPlaceBetUseCase users eng) env s inp = (s', Inr bet)"
  shows "(\<exists>user. users (in_UserID inp) = Some user \<and> u_Status user = UserStatusActive \<and> u_IsVerified user \<and>
      (\<forall>until. u_SelfExcluded user \<and> u_SelfExcludedUntil user = Some until \<longrightarrow> until \<le> pe_check_time env)) \<and>
    10 \<le> in_Stake inp \<and> in_Stake inp \<le> 100000 \<and> in_Selections inp \<noteq> [] \<and>
    (in_BetType inp = BetTypeSingle \<longrightarrow> length (in_Selections inp) = 1) \<and>
    bet_TotalOdds bet = (case in_BetType inp of BetTypeOther _ \<Rightarrow> 1 | _ \<Rightarrow> prod_list (map sel_Odds (in_Selections inp))) \<and>
    \<bar>bet_PotentialWin bet - (in_Stake inp - bet_TaxAmount bet) * bet_TotalOdds bet\<bar> \<le> 1 / 200"
proof -
  let ?uc = "NewPlaceBetUseCase users eng"
  obtain user brk where u: "users (in_UserID inp) = Some user" "CanPlaceBet (pe_check_time env) user"
    and v: "Validate (NewPlaceBetValidator 10 100000) inp = None"
    and t: "ApplyStakeTax L eng (in_CountryCode inp) (in_Stake inp) = Inr brk"
    and bet: "bet = new_bet L env inp user brk"
    by (rule Execute_Inr [OF ex]) (rule that, simp_all add: NewPlaceBetUseCase_def)
  have n: "sk_NetStake brk = in_Stake inp - sk_StakeTax brk" using t by (auto elim!: ApplyStakeTax_cases)
  have f: "foldl (\<lambda>total sel. total * sel_Odds sel) x sels = x * prod_list (map sel_Odds sels)" for x sels
    by (induction sels arbitrary: x) (simp_all add: mult.assoc)
  have o: "calculateTotalOdds (in_BetType inp) (in_Selections inp) =
      (case in_BetType inp of BetTypeOther _ \<Rightarrow> 1 | _ \<Rightarrow> prod_list (map sel_Odds (in_Selections inp)))"
    using v by (auto simp: calculateTotalOdds_def f Validate_None split: BetType.splits list.splits)
  have "\<bar>bet_PotentialWin bet - (in_Stake inp - bet_TaxAmount bet) * bet_TotalOdds bet\<bar> \<le> 1 / 200"
    using nearest_at_error [OF dec_round_nearest [OF L], of "sk_NetStake brk * bet_TotalOdds bet" 2]
    by (simp add: bet new_bet_def Let_def n)
  moreover have "bet_TotalOdds bet = calculateTotalOdds (in_BetType inp) (in_Selections inp)"
    by (simp add: bet new_bet_def Let_def)
  ultimately show ?thesis using u v o by (auto simp: Validate_None CanPlaceBet_iff)
qed

theorem Execute_gates_witness:
  "\<exists>s' bet. Execute std_libs sample_uc sample_place_env sample_db sample_bet_input = (s', Inr bet) \<and>
     bet_TotalOdds bet = 25 / 10"
proof -
  let ?x = "Execute std_libs sample_uc sample_place_env sample_db sample_bet_input"
  have "\<not> isl (snd ?x)" by code_simp
  then obtain s' bet where x: "?x = (s', Inr bet)" by (metis isl_def prod.collapse sum.collapse(2))
  have "bet_TotalOdds bet = prod_list (map sel_Odds (in_Selections sample_bet_input))"
    using Execute_gates [OF std_libs_ok x [unfolded sample_uc_def]] by (simp add: sample_bet_input_def)
  then show ?thesis using x by (simp add: sample_bet_input_def sample_selection_def)
qed



end
