(* ===== verification/GameBets.thy ===== *)
theory GameBets
  imports WalletService
begin

text \<open>
  \<open>game_repository.go\<close>, \<open>game_bet_repository.go\<close> and \<open>game_bet_transaction.go\<close> under
  \<open>internal/infrastructure/repository/postgres\<close>: the tables of the crash game, the cashout
  guarded by the status of the bet, and the two transactions that change a wallet together with
  a bet. These transactions write the wallet and the ledger with statements of their own, not
  through the wallet service: they touch every wallet row of the user and no version.
\<close>

datatype game_db_error =
    ErrBegin
  | ErrStatementFailed db_call
  | ErrNoRow
  | ErrBalanceOrWallet
  | ErrBetCreation
  | ErrTransactionRecording
  | ErrTransactionCommit
  | ErrWalletCredit

section \<open>The games table\<close>

definition game_row :: "libs \<Rightarrow> Game \<Rightarrow> Game option" where
  "game_row L g =
     (case (odds_col L (game_CrashPoint g), money_col L (game_MinBet g), money_col L (game_MaxBet g),
            odds_col L (game_MaxMultiplier g)) of
        (Some cp, Some mn, Some mx, Some mm) \<Rightarrow>
          Some (g\<lparr>game_CrashPoint := cp, game_MinBet := mn, game_MaxBet := mx, game_MaxMultiplier := mm\<rparr>)
      | _ \<Rightarrow> None)"

definition GameRepository_Create :: "libs \<Rightarrow> faults \<Rightarrow> db \<Rightarrow> Game \<Rightarrow> db \<times> (game_db_error + unit)" where
  "GameRepository_Create L f s g =
     (case (if f InsertCall \<or> game_ID g \<in> game_ID ` set (games s) then None else game_row L g) of
        None \<Rightarrow> (s, Inl (ErrStatementFailed InsertCall))
      | Some row \<Rightarrow> (s\<lparr>games := games s @ [row]\<rparr>, Inr ()))"

definition GameRepository_UpdateStatus ::
  "faults \<Rightarrow> time \<Rightarrow> db \<Rightarrow> uuid \<Rightarrow> GameStatus \<Rightarrow> db \<times> (game_db_error + unit)" where
  "GameRepository_UpdateStatus f now s i status =
     (if f UpdateCall then (s, Inl (ErrStatementFailed UpdateCall))
      else let crashedAt = (if status = GameStatusCrashed then Some now else None) in
        (s\<lparr>games := update_where (\<lambda>g. game_ID g = i)
             (\<lambda>g. g\<lparr>game_Status := status, game_CrashedAt := crashedAt\<rparr>) (games s)\<rparr>, Inr ()))"

definition GameRepository_GetByID :: "faults \<Rightarrow> db \<Rightarrow> uuid \<Rightarrow> game_db_error + Game" where
  "GameRepository_GetByID f s i =
     (if f QueryCall then Inl (ErrStatementFailed QueryCall)
      else case select_row (\<lambda>g. game_ID g = i) (games s) of None \<Rightarrow> Inl ErrNoRow | Some g \<Rightarrow> Inr g)"

definition GetActive :: "faults \<Rightarrow> db \<Rightarrow> game_db_error + Game list" where
  "GetActive f s =
     (if f QueryCall then Inl (ErrStatementFailed QueryCall)
      else Inr (rev (sort_key game_StartedAt
             (filter (\<lambda>g. game_Status g = GameStatusWaiting \<or> game_Status g = GameStatusRunning) (games s)))))"

section \<open>The bets table\<close>

definition opt_col :: "(decimal \<Rightarrow> decimal option) \<Rightarrow> decimal option \<Rightarrow> decimal option option" where
  "opt_col c x = (case x of None \<Rightarrow> Some None | Some y \<Rightarrow> map_option Some (c y))"

definition game_bet_row :: "libs \<Rightarrow> GameBet \<Rightarrow> GameBet option" where
  "game_bet_row L b =
     (case (money_col L (gb_Amount b), opt_col (odds_col L) (gb_CashoutAt b), money_col L (gb_Payout b)) of
        (Some a, Some c, Some p) \<Rightarrow> Some (b\<lparr>gb_Amount := a, gb_CashoutAt := c, gb_Payout := p\<rparr>)
      | _ \<Rightarrow> None)"

definition GameBetRepository_Create :: "libs \<Rightarrow> faults \<Rightarrow> db \<Rightarrow> GameBet \<Rightarrow> db \<times> (game_db_error + unit)" where
  "GameBetRepository_Create L f s b =
     (case (if f InsertCall \<or> gb_ID b \<in> gb_ID ` set (game_bets s) then None else game_bet_row L b) of
        None \<Rightarrow> (s, Inl (ErrStatementFailed InsertCall))
      | Some row \<Rightarrow> (s\<lparr>game_bets := game_bets s @ [row]\<rparr>, Inr ()))"

definition GetActiveByGame :: "faults \<Rightarrow> db \<Rightarrow> uuid \<Rightarrow> game_db_error + GameBet list" where
  "GetActiveByGame f s gameID =
     (if f QueryCall then Inl (ErrStatementFailed QueryCall)
      else Inr (filter (\<lambda>b. gb_GameID b = gameID \<and> gb_Status b = GameBetStatusActive) (game_bets s)))"

definition GameBetRepository_GetByID :: "faults \<Rightarrow> db \<Rightarrow> uuid \<Rightarrow> game_db_error + GameBet" where
  "GameBetRepository_GetByID f s i =
     (if f QueryCall then Inl (ErrStatementFailed QueryCall)
      else case select_row (\<lambda>b. gb_ID b = i) (game_bets s) of None \<Rightarrow> Inl ErrNoRow | Some b \<Rightarrow> Inr b)"

definition GameBetRepository_UpdateStatus ::
  "faults \<Rightarrow> db \<Rightarrow> uuid \<Rightarrow> GameBetStatus \<Rightarrow> db \<times> (game_db_error + unit)" where
  "GameBetRepository_UpdateStatus f s i status =
     (if f UpdateCall then (s, Inl (ErrStatementFailed UpdateCall))
      else (s\<lparr>game_bets := update_where (\<lambda>b. gb_ID b = i) (\<lambda>b. b\<lparr>gb_Status := status\<rparr>) (game_bets s)\<rparr>, Inr ()))"

definition cashed_out :: "time \<Rightarrow> decimal \<Rightarrow> decimal \<Rightarrow> GameBet \<Rightarrow> GameBet" where
  "cashed_out now c p b = b\<lparr>gb_CashedOut := True, gb_CashoutAt := Some c, gb_Payout := p,
     gb_Status := GameBetStatusCashedOut, gb_CashedOutAt := Some now\<rparr>"

text \<open>The \<open>UPDATE game_bets\<close> the three cashout operations share, \<open>None\<close> when a value overflows.\<close>

definition update_cashout ::
  "libs \<Rightarrow> time \<Rightarrow> (GameBet \<Rightarrow> bool) \<Rightarrow> decimal \<Rightarrow> decimal \<Rightarrow> GameBet list \<Rightarrow> GameBet list option" where
  "update_cashout L now P cashoutAt payout t =
     (if rows_affected P t = 0 then Some t
      else case (odds_col L cashoutAt, money_col L payout) of
        (Some c, Some p) \<Rightarrow> Some (update_where P (cashed_out now c p) t)
      | _ \<Rightarrow> None)"

definition UpdateCashout ::
  "libs \<Rightarrow> faults \<Rightarrow> time \<Rightarrow> db \<Rightarrow> uuid \<Rightarrow> decimal \<Rightarrow> decimal \<Rightarrow> db \<times> (game_db_error + unit)" where
  "UpdateCashout L f now s i cashoutAt payout =
     (case (if f UpdateCall then None
            else update_cashout L now (\<lambda>b. gb_ID b = i) cashoutAt payout (game_bets s)) of
        None \<Rightarrow> (s, Inl (ErrStatementFailed UpdateCall))
      | Some t \<Rightarrow> (s\<lparr>game_bets := t\<rparr>, Inr ()))"

definition AtomicCashout ::
  "libs \<Rightarrow> faults \<Rightarrow> time \<Rightarrow> db \<Rightarrow> uuid \<Rightarrow> decimal \<Rightarrow> decimal \<Rightarrow> db \<times> (game_db_error + bool)" where
  "AtomicCashout L f now s i cashoutAt payout =
     (let P = (\<lambda>b. gb_ID b = i \<and> gb_Status b = GameBetStatusActive) in
      case (if f UpdateCall then None else update_cashout L now P cashoutAt payout (game_bets s)) of
        None \<Rightarrow> (s, Inl (ErrStatementFailed UpdateCall))
      | Some t \<Rightarrow>
          if f RowsAffectedCall then (s\<lparr>game_bets := t\<rparr>, Inl (ErrStatementFailed RowsAffectedCall))
          else (s\<lparr>game_bets := t\<rparr>, Inr (rows_affected P (game_bets s) > 0)))"

section \<open>Transactions over wallet, bet and ledger\<close>

text \<open>
  \<open>INSERT INTO transactions ... SELECT ... FROM wallets WHERE user_id\<close> makes one row per wallet
  of the user, all with the same identifier; the provider columns are not listed and stay \<open>NULL\<close>.
  \<open>delta\<close> is what the statement adds to the balance it reads to get the balance before.
\<close>

definition ledger_row ::
  "libs \<Rightarrow> uuid \<Rightarrow> TransactionType \<Rightarrow> decimal \<Rightarrow> decimal \<Rightarrow> string \<Rightarrow> uuid \<Rightarrow> string \<Rightarrow> string \<Rightarrow> time \<Rightarrow>
   Wallet \<Rightarrow> TxnRow option" where
  "ledger_row L tid ty amount delta currency refid descr country now w =
     (case (money_col L amount, money_col L (w_Balance w + delta), money_col L (w_Balance w)) of
        (Some a, Some b, Some c) \<Rightarrow> Some \<lparr>
          tr_ID = tid, tr_WalletID = w_ID w, tr_UserID = w_UserID w, tr_Type = ty,
          tr_Amount = a, tr_Currency = currency, tr_BalanceBefore = b, tr_BalanceAfter = c,
          tr_ReferenceID = Some refid, tr_ReferenceType = ''BET'', tr_ProviderTxnID = None,
          tr_ProviderName = None, tr_Status = TransactionStatusCompleted, tr_Description = descr,
          tr_CreatedAt = now, tr_CompletedAt = None, tr_CountryCode = country\<rparr>
      | _ \<Rightarrow> None)"

definition insert_ledger :: "(Wallet \<Rightarrow> TxnRow option) \<Rightarrow> uuid \<Rightarrow> db \<Rightarrow> db option" where
  "insert_ledger mk u s =
     (case those (map mk (filter (\<lambda>w. w_UserID w = u) (wallets s))) of
        None \<Rightarrow> None
      | Some rows \<Rightarrow>
          if distinct (map tr_ID rows) \<and> (\<forall>r \<in> set rows. tr_ID r \<notin> tr_ID ` set (transactions s))
          then Some (s\<lparr>transactions := transactions s @ rows\<rparr>) else None)"

definition CreateBetWithWalletUpdate ::
  "libs \<Rightarrow> faults \<Rightarrow> time \<Rightarrow> uuid \<Rightarrow> db \<Rightarrow> GameBet \<Rightarrow> uuid \<Rightarrow> decimal \<Rightarrow> db \<times> (game_db_error + uuid)" where
  "CreateBetWithWalletUpdate L f now tid s bet userID amount =
     (if f BeginTx then (s, Inl ErrBegin)
      else
        let P = (\<lambda>w. w_UserID w = userID \<and> w_Balance w \<ge> amount) in
        case (if f UpdateCall \<or> rows_affected P (wallets s) = 0 then None
              else update_try P (\<lambda>w. map_option (\<lambda>b. w\<lparr>w_Balance := b, w_UpdatedAt := now\<rparr>)
                                       (money_col L (w_Balance w - amount))) (wallets s)) of
          None \<Rightarrow> (s, Inl ErrBalanceOrWallet)
        | Some ws \<Rightarrow>
            let s1 = s\<lparr>wallets := ws\<rparr> in
            case (if f InsertCall \<or> gb_ID bet \<in> gb_ID ` set (game_bets s1) then None else game_bet_row L bet) of
              None \<Rightarrow> (s, Inl ErrBetCreation)
            | Some row \<Rightarrow>
                let s2 = s1\<lparr>game_bets := game_bets s1 @ [row]\<rparr> in
                case (if f LedgerCall then None
                      else insert_ledger (ledger_row L tid TransactionTypeBetPlaced amount amount (gb_Currency bet)
                             (gb_ID bet) ''Bet placed'' ''US'' now) userID s2) of
                  None \<Rightarrow> (s, Inl ErrTransactionRecording)
                | Some s3 \<Rightarrow>
                    if f CommitCall then (s, Inl ErrTransactionCommit) else (s3, Inr (gb_ID bet)))"

definition AtomicAutoCashoutWithCredit ::
  "libs \<Rightarrow> faults \<Rightarrow> time \<Rightarrow> uuid \<Rightarrow> db \<Rightarrow> uuid \<Rightarrow> uuid \<Rightarrow> decimal \<Rightarrow> decimal \<Rightarrow> string \<Rightarrow>
   db \<times> (game_db_error + bool)" where
  "AtomicAutoCashoutWithCredit L f now tid s i userID cashoutAt payout country =
     (if f BeginTx then (s, Inl ErrBegin)
      else
        let P = (\<lambda>b. gb_ID b = i \<and> gb_Status b = GameBetStatusActive) in
        case (if f UpdateCall then None else update_cashout L now P cashoutAt payout (game_bets s)) of
          None \<Rightarrow> (s, Inl (ErrStatementFailed UpdateCall))
        | Some t \<Rightarrow>
            if f RowsAffectedCall then (s, Inl (ErrStatementFailed RowsAffectedCall))
            else if rows_affected P (game_bets s) = 0 then (s, Inr False)
            else
              let s1 = s\<lparr>game_bets := t\<rparr>; Q = (\<lambda>w. w_UserID w = userID) in
              case (if f CreditCall \<or> rows_affected Q (wallets s1) = 0 then None
                    else update_try Q (\<lambda>w. case (money_col L (w_Balance w + payout), money_col L (w_BonusBalance w + 0)) of
                             (Some b, Some bb) \<Rightarrow> Some (w\<lparr>w_Balance := b, w_BonusBalance := bb, w_UpdatedAt := now\<rparr>)
                           | _ \<Rightarrow> None) (wallets s1)) of
                None \<Rightarrow> (s, Inl ErrWalletCredit)
              | Some ws \<Rightarrow>
                  let s2 = s1\<lparr>wallets := ws\<rparr> in
                  case (if f LedgerCall then None
                        else insert_ledger (ledger_row L tid TransactionTypeBetWon payout (- payout) ''KES''
                               i ''Auto cashout payout'' country now) userID s2) of
                    None \<Rightarrow> (s, Inl ErrTransactionRecording)
                  | Some s3 \<Rightarrow>
                      if f CommitCall then (s, Inl ErrTransactionCommit) else (s3, Inr True))"

section \<open>One wallet per player\<close>

lemma update_try_keys:
  assumes "update_try P g t = Some t'" "\<And>r r'. g r = Some r' \<Longrightarrow> key r' = key r"
  shows "map key t' = map key t"
  using assms(1)
proof (induction t arbitrary: t')
  case (Cons r t)
  then obtain r' t'' where "(if P r then g r else Some r) = Some r'" "update_try P g t = Some t''"
      "t' = r' # t''"
    by (auto simp: update_try_def split: option.splits)
  with Cons.IH show ?case by (auto split: if_splits dest: assms(2))
qed (simp add: update_try_def)

lemma filter_single_split:
  assumes "length (filter Q xs) = 1" "x \<in> set xs" "Q x"
  obtains us vs where "xs = us @ x # vs" "\<forall>y \<in> set us \<union> set vs. \<not> Q y"
proof -
  obtain us vs where xs: "xs = us @ x # vs" using assms(2) by (meson split_list)
  then have "filter Q us = []" "filter Q vs = []" using assms(1,3) by simp_all
  then show thesis using that [OF xs] by (auto simp: filter_empty_conv)
qed

lemma insert_ledger_Some:
  assumes "insert_ledger mk u s = Some s'" "\<And>w r. mk w = Some r \<Longrightarrow> tr_ID r = tid"
    and "\<exists>w \<in> set (wallets s). w_UserID w = u"
  obtains w row where "filter (\<lambda>w. w_UserID w = u) (wallets s) = [w]" "mk w = Some row"
    "s' = s\<lparr>transactions := transactions s @ [row]\<rparr>"
proof -
  obtain rows where r: "map mk (filter (\<lambda>w. w_UserID w = u) (wallets s)) = map Some rows"
    and d: "distinct (map tr_ID rows)" and s': "s' = s\<lparr>transactions := transactions s @ rows\<rparr>"
    using assms(1) by (auto simp: insert_ledger_def those_Some split: option.splits if_splits)
  have ids: "\<forall>x \<in> set rows. tr_ID x = tid"
  proof
    fix x assume "x \<in> set rows"
    then have "Some x \<in> set (map mk (filter (\<lambda>w. w_UserID w = u) (wallets s)))" by (simp add: r)
    then obtain w where "mk w = Some x" by auto
    then show "tr_ID x = tid" by (rule assms(2))
  qed
  have "distinct (map (\<lambda>_. tid) rows)" using d ids by (metis (mono_tags, lifting) map_cong)
  then have "length rows \<le> 1" by (cases rows; cases "tl rows") auto
  moreover have "length rows = length (filter (\<lambda>w. w_UserID w = u) (wallets s))" using r by (metis length_map)
  moreover have "filter (\<lambda>w. w_UserID w = u) (wallets s) \<noteq> []" using assms(3) by (auto simp: filter_empty_conv)
  ultimately obtain w row where "filter (\<lambda>w. w_UserID w = u) (wallets s) = [w]" "rows = [row]"
    by (auto simp: le_Suc_eq length_Suc_conv)
  then show thesis using that r s' by auto
qed

text \<open>
  An update of the user's wallets followed by the ledger insert succeeds only for a user with a
  single wallet, and then changes that row alone.
\<close>

lemma update_and_ledger:
  assumes up: "update_try P g (wallets s) = Some ws" and n: "rows_affected P (wallets s) \<noteq> 0"
    and P: "\<And>w. P w \<Longrightarrow> w_UserID w = u" and g: "\<And>w w'. g w = Some w' \<Longrightarrow> w_UserID w' = w_UserID w"
    and led: "insert_ledger mk u (s\<lparr>wallets := ws, game_bets := gbs\<rparr>) = Some s'"
    and mk: "\<And>w r. mk w = Some r \<Longrightarrow> tr_ID r = tid"
  obtains us w vs w' row where "wallets s = us @ w # vs" "P w" "g w = Some w'" "mk w' = Some row"
    "\<forall>v \<in> set us \<union> set vs. w_UserID v \<noteq> u"
    "s' = s\<lparr>wallets := us @ w' # vs, game_bets := gbs, transactions := transactions s @ [row]\<rparr>"
proof -
  have keys: "map w_UserID ws = map w_UserID (wallets s)" using up g by (rule update_try_keys)
  obtain w where w: "w \<in> set (wallets s)" "P w" using n by (auto simp: rows_affected_0)
  have uw: "w_UserID w = u" using P w by simp
  have "u \<in> set (map w_UserID ws)" unfolding keys using w uw by auto
  then have "\<exists>v \<in> set (wallets (s\<lparr>wallets := ws, game_bets := gbs\<rparr>)). w_UserID v = u" by auto
  with led mk obtain w' row where
    f: "filter (\<lambda>w. w_UserID w = u) (wallets (s\<lparr>wallets := ws, game_bets := gbs\<rparr>)) = [w']" and row: "mk w' = Some row"
    and s1: "s' = s\<lparr>wallets := ws, game_bets := gbs\<rparr>\<lparr>transactions :=
        transactions (s\<lparr>wallets := ws, game_bets := gbs\<rparr>) @ [row]\<rparr>"
    by (rule insert_ledger_Some)
  have f: "filter (\<lambda>w. w_UserID w = u) ws = [w']"
    and s': "s' = s\<lparr>wallets := ws, game_bets := gbs, transactions := transactions s @ [row]\<rparr>"
    using f s1 by simp_all
  have "length (filter (\<lambda>w. w_UserID w = u) (wallets s)) = length (filter ((=) u) (map w_UserID (wallets s)))"
    by (simp add: filter_map o_def eq_commute)
  also have "\<dots> = length (filter (\<lambda>w. w_UserID w = u) ws)"
    unfolding keys [symmetric] by (simp add: filter_map o_def eq_commute)
  finally have one: "length (filter (\<lambda>w. w_UserID w = u) (wallets s)) = 1" using f by simp
  obtain us vs where sp: "wallets s = us @ w # vs" "\<forall>v \<in> set us \<union> set vs. w_UserID v \<noteq> u"
    using filter_single_split [OF one w(1)] uw by auto
  have "\<forall>v \<in> set us \<union> set vs. (if P v then g v else Some v) = Some v" using sp(2) P by auto
  from those_replace [OF up [unfolded update_try_def sp(1)] this] obtain w'' where
    w'': "g w = Some w''" "ws = us @ w'' # vs" using w(2) by auto
  have "filter (\<lambda>w. w_UserID w = u) ws = [w'']"
    using sp(2) g [OF w''(1)] uw by (auto simp: w''(2) filter_empty_conv)
  with f have "w'' = w'" by simp
  then show thesis using that sp w(2) w'' row s' by blast
qed

lemma ledger_row_Some:
  assumes "ledger_row L tid ty amount delta cur refid descr country now w = Some r"
  shows "tr_ID r = tid" "tr_WalletID r = w_ID w" "tr_UserID r = w_UserID w" "tr_Type r = ty"
    "money_col L (w_Balance w + delta) = Some (tr_BalanceBefore r)" "tr_ReferenceID r = Some refid"
    "money_col L (w_Balance w) = Some (tr_BalanceAfter r)" "tr_ProviderTxnID r = None"
  using assms by (auto simp: ledger_row_def split: option.splits)

lemma CreateBet_Inr:
  assumes "CreateBetWithWalletUpdate L f now tid s bet u amount = (s', Inr r)"
  obtains us w vs z row lrow where
    "wallets s = us @ w # vs" "w_UserID w = u" "amount \<le> w_Balance w"
    "\<forall>v \<in> set us \<union> set vs. w_UserID v \<noteq> u" "money_col L (w_Balance w - amount) = Some z"
    "game_bet_row L bet = Some row" "gb_ID bet \<notin> gb_ID ` set (game_bets s)"
    "ledger_row L tid TransactionTypeBetPlaced amount amount (gb_Currency bet) (gb_ID bet) ''Bet placed'' ''US''
       now (w\<lparr>w_Balance := z, w_UpdatedAt := now\<rparr>) = Some lrow"
    "s' = s\<lparr>wallets := us @ w\<lparr>w_Balance := z, w_UpdatedAt := now\<rparr> # vs,
            game_bets := game_bets s @ [row], transactions := transactions s @ [lrow]\<rparr>" "r = gb_ID bet"
proof -
  let ?P = "\<lambda>w. w_UserID w = u \<and> w_Balance w \<ge> amount"
  let ?g = "\<lambda>w. map_option (\<lambda>b. w\<lparr>w_Balance := b, w_UpdatedAt := now\<rparr>) (money_col L (w_Balance w - amount))"
  let ?mk = "ledger_row L tid TransactionTypeBetPlaced amount amount (gb_Currency bet) (gb_ID bet) ''Bet placed'' ''US'' now"
  obtain ws row where up: "update_try ?P ?g (wallets s) = Some ws" and n: "rows_affected ?P (wallets s) \<noteq> 0"
    and row: "game_bet_row L bet = Some row" "gb_ID bet \<notin> gb_ID ` set (game_bets s)"
    and led: "insert_ledger ?mk u (s\<lparr>wallets := ws, game_bets := game_bets s @ [row]\<rparr>) = Some s'"
    and r: "r = gb_ID bet"
    using assms unfolding CreateBetWithWalletUpdate_def Let_def outcome by auto
  have P: "\<And>w. ?P w \<Longrightarrow> w_UserID w = u" by simp
  have g: "\<And>w w'. ?g w = Some w' \<Longrightarrow> w_UserID w' = w_UserID w" by auto
  have mk: "\<And>w r. ?mk w = Some r \<Longrightarrow> tr_ID r = tid" by (rule ledger_row_Some(1))
  obtain us w vs w' lrow where *: "wallets s = us @ w # vs" "?P w" "?g w = Some w'" "?mk w' = Some lrow"
    "\<forall>v \<in> set us \<union> set vs. w_UserID v \<noteq> u"
    "s' = s\<lparr>wallets := us @ w' # vs, game_bets := game_bets s @ [row], transactions := transactions s @ [lrow]\<rparr>"
    by (rule update_and_ledger [OF up n P g led mk])
  then obtain z where z: "money_col L (w_Balance w - amount) = Some z" "w' = w\<lparr>w_Balance := z, w_UpdatedAt := now\<rparr>"
    by auto
  show thesis
    using that [OF *(1) _ _ *(5) z(1) row _ _ r] * z by simp
qed

lemma CreateBet_books:
  assumes L: "libs_ok L" and s: "wallets_ok s"
    and ok: "CreateBetWithWalletUpdate L f now tid s bet u amount = (s', Inr r)"
  shows "wallets_ok s'" "amount \<le> user_balance s u" "r = gb_ID bet"
    "\<exists>row. game_bet_row L bet = Some row \<and> game_bets s' = game_bets s @ [row] \<and> gb_ID bet \<notin> gb_ID ` set (game_bets s)"
    "games s' = games s"
    "has_scale 2 amount \<Longrightarrow> user_balance s' = (user_balance s)(u := user_balance s u - amount)"
    "has_scale 2 amount \<Longrightarrow> books_ok opening s \<Longrightarrow> books_ok opening s'"
proof -
  obtain us w vs z row lrow where w: "wallets s = us @ w # vs" "w_UserID w = u" "amount \<le> w_Balance w"
      "\<forall>v \<in> set us \<union> set vs. w_UserID v \<noteq> u"
    and z: "money_col L (w_Balance w - amount) = Some z"
    and row: "game_bet_row L bet = Some row" "gb_ID bet \<notin> gb_ID ` set (game_bets s)"
    and led: "ledger_row L tid TransactionTypeBetPlaced amount amount (gb_Currency bet) (gb_ID bet) ''Bet placed'' ''US''
       now (w\<lparr>w_Balance := z, w_UpdatedAt := now\<rparr>) = Some lrow"
    and s': "s' = s\<lparr>wallets := us @ w\<lparr>w_Balance := z, w_UpdatedAt := now\<rparr> # vs,
            game_bets := game_bets s @ [row], transactions := transactions s @ [lrow]\<rparr>"
    and r: "r = gb_ID bet"
    using ok by (rule CreateBet_Inr)
  let ?w = "w\<lparr>w_Balance := z, w_UpdatedAt := now\<rparr>"
  have wb: "0 \<le> w_Balance w" "has_scale 2 (w_Balance w)" using wallets_ok_row [OF s, of w] w(1) by simp_all
  have zb: "0 \<le> z" "has_scale 2 z"
    using money_col_nonneg [OF L z] money_col_scale [OF L z] w(3) by simp_all
  have ub: "user_balance s u = w_Balance w"
    using w by (auto simp: user_balance_def user_wallet_def select_row_append select_row_None
        select_row_Cons split: option.split dest!: select_row_Some)
  have ws': "wallets s' = us @ ?w # vs" "transactions s' = transactions s @ [lrow]" by (simp_all add: s')
  show "wallets_ok s'" using zb by (intro wallets_ok_replace [OF s w(1) ws'(1)]) simp_all
  show "amount \<le> user_balance s u" "r = gb_ID bet" "games s' = games s"
    "\<exists>row. game_bet_row L bet = Some row \<and> game_bets s' = game_bets s @ [row] \<and> gb_ID bet \<notin> gb_ID ` set (game_bets s)"
    using w(3) ub row r by (simp_all add: s')
  assume sc: "has_scale 2 amount"
  have zz: "z = w_Balance w - amount" using money_col_exact [OF L _ z] has_scale_diff [OF wb(2) sc] by simp
  show "user_balance s' = (user_balance s)(u := user_balance s u - amount)"
    using user_balance_replace [OF w(1) ws'(1)] w(2,4) by (simp add: ub zz)
  note l = ledger_row_Some [OF led]
  have "tr_BalanceBefore lrow = z + amount" "tr_BalanceAfter lrow = z"
    using l(5,7) zb sc by (auto simp: has_scale_add dest: money_col_exact [OF L, rotated])
  then have "tr_delta lrow = - amount" by (simp add: tr_delta_def)
  then show "books_ok opening s'" if "books_ok opening s"
    using s l(2) zz by (intro books_ok_replace [OF that w(1) ws'(1) _ _ ws'(2)]) (auto simp: wallets_ok_def)
qed

lemma AutoCashout_Inr:
  assumes "AtomicAutoCashoutWithCredit L f now tid s i u cashoutAt payout country = (s', Inr True)"
  obtains us w vs z bb c p lrow where
    "rows_affected (\<lambda>b. gb_ID b = i \<and> gb_Status b = GameBetStatusActive) (game_bets s) \<noteq> 0"
    "wallets s = us @ w # vs" "w_UserID w = u" "\<forall>v \<in> set us \<union> set vs. w_UserID v \<noteq> u"
    "money_col L (w_Balance w + payout) = Some z" "odds_col L cashoutAt = Some c" "money_col L payout = Some p"
    "ledger_row L tid TransactionTypeBetWon payout (- payout) ''KES'' i ''Auto cashout payout'' country
       now (w\<lparr>w_Balance := z, w_BonusBalance := bb, w_UpdatedAt := now\<rparr>) = Some lrow"
    "s' = s\<lparr>wallets := us @ w\<lparr>w_Balance := z, w_BonusBalance := bb, w_UpdatedAt := now\<rparr> # vs,
            game_bets := update_where (\<lambda>b. gb_ID b = i \<and> gb_Status b = GameBetStatusActive)
              (cashed_out now c p) (game_bets s), transactions := transactions s @ [lrow]\<rparr>"
proof -
  let ?P = "\<lambda>b. gb_ID b = i \<and> gb_Status b = GameBetStatusActive" and ?Q = "\<lambda>w. w_UserID w = u"
  let ?g = "\<lambda>w. case (money_col L (w_Balance w + payout), money_col L (w_BonusBalance w + 0)) of
     (Some b, Some bb) \<Rightarrow> Some (w\<lparr>w_Balance := b, w_BonusBalance := bb, w_UpdatedAt := now\<rparr>) | _ \<Rightarrow> None"
  let ?mk = "ledger_row L tid TransactionTypeBetWon payout (- payout) ''KES'' i ''Auto cashout payout'' country now"
  have "\<exists>t ws. update_cashout L now ?P cashoutAt payout (game_bets s) = Some t \<and>
      rows_affected ?P (game_bets s) \<noteq> 0 \<and> rows_affected ?Q (wallets s) \<noteq> 0 \<and>
      update_try ?Q ?g (wallets s) = Some ws \<and>
      insert_ledger ?mk u (s\<lparr>game_bets := t\<rparr>\<lparr>wallets := ws\<rparr>) = Some s'"
  proof (cases "rows_affected ?P (game_bets s) = 0")
    case True
    then show ?thesis using assms unfolding AtomicAutoCashoutWithCredit_def Let_def outcome by auto
  next
    case False
    then show ?thesis using assms unfolding AtomicAutoCashoutWithCredit_def Let_def outcome by (auto simp: outcome)
  qed
  then obtain t ws where t: "update_cashout L now ?P cashoutAt payout (game_bets s) = Some t"
    and n: "rows_affected ?P (game_bets s) \<noteq> 0" "rows_affected ?Q (wallets s) \<noteq> 0"
    and up: "update_try ?Q ?g (wallets s) = Some ws"
    and led0: "insert_ledger ?mk u (s\<lparr>game_bets := t\<rparr>\<lparr>wallets := ws\<rparr>) = Some s'" by blast
  have "s\<lparr>game_bets := t\<rparr>\<lparr>wallets := ws\<rparr> = s\<lparr>wallets := ws, game_bets := t\<rparr>" by simp
  with led0 have led: "insert_ledger ?mk u (s\<lparr>wallets := ws, game_bets := t\<rparr>) = Some s'" by (simp only:)
  obtain c p where c: "odds_col L cashoutAt = Some c" "money_col L payout = Some p"
      "t = update_where ?P (cashed_out now c p) (game_bets s)"
    using t n(1) by (auto simp: update_cashout_def split: option.splits)
  have P: "\<And>w. ?Q w \<Longrightarrow> w_UserID w = u" by simp
  have g: "\<And>w w'. ?g w = Some w' \<Longrightarrow> w_UserID w' = w_UserID w" by (auto split: option.splits)
  have mk: "\<And>w r. ?mk w = Some r \<Longrightarrow> tr_ID r = tid" by (rule ledger_row_Some(1))
  obtain us w vs w' lrow where *: "wallets s = us @ w # vs" "?Q w" "?g w = Some w'" "?mk w' = Some lrow"
    "\<forall>v \<in> set us \<union> set vs. w_UserID v \<noteq> u"
    "s' = s\<lparr>wallets := us @ w' # vs, game_bets := t, transactions := transactions s @ [lrow]\<rparr>"
    by (rule update_and_ledger [OF up n(2) P g led mk])
  obtain z bb where z: "money_col L (w_Balance w + payout) = Some z"
      "w' = w\<lparr>w_Balance := z, w_BonusBalance := bb, w_UpdatedAt := now\<rparr>"
    using *(3) by (auto split: option.splits)
  show thesis using that [OF n(1) *(1,2,5) z(1) c(1,2)] * z(2) c(3) by simp
qed

lemma AutoCashout_books:
  assumes L: "libs_ok L" and s: "wallets_ok s" and p: "0 \<le> payout"
    and ok: "AtomicAutoCashoutWithCredit L f now tid s i u cashoutAt payout country = (s', Inr True)"
  shows "wallets_ok s'" "games s' = games s"
    "\<exists>c p. odds_col L cashoutAt = Some c \<and> money_col L payout = Some p \<and>
      game_bets s' = update_where (\<lambda>b. gb_ID b = i \<and> gb_Status b = GameBetStatusActive) (cashed_out now c p) (game_bets s)"
    "\<exists>b \<in> set (game_bets s). gb_ID b = i \<and> gb_Status b = GameBetStatusActive"
    "has_scale 2 payout \<Longrightarrow> user_balance s' = (user_balance s)(u := user_balance s u + payout)"
    "has_scale 2 payout \<Longrightarrow> books_ok opening s \<Longrightarrow> books_ok opening s'"
proof -
  obtain us w vs z bb c q lrow where
    n: "rows_affected (\<lambda>b. gb_ID b = i \<and> gb_Status b = GameBetStatusActive) (game_bets s) \<noteq> 0"
    and w: "wallets s = us @ w # vs" "w_UserID w = u" "\<forall>v \<in> set us \<union> set vs. w_UserID v \<noteq> u"
    and z: "money_col L (w_Balance w + payout) = Some z"
    and c: "odds_col L cashoutAt = Some c" "money_col L payout = Some q"
    and led: "ledger_row L tid TransactionTypeBetWon payout (- payout) ''KES'' i ''Auto cashout payout'' country
       now (w\<lparr>w_Balance := z, w_BonusBalance := bb, w_UpdatedAt := now\<rparr>) = Some lrow"
    and s': "s' = s\<lparr>wallets := us @ w\<lparr>w_Balance := z, w_BonusBalance := bb, w_UpdatedAt := now\<rparr> # vs,
            game_bets := update_where (\<lambda>b. gb_ID b = i \<and> gb_Status b = GameBetStatusActive)
              (cashed_out now c q) (game_bets s), transactions := transactions s @ [lrow]\<rparr>"
    using ok by (rule AutoCashout_Inr)
  let ?w = "w\<lparr>w_Balance := z, w_BonusBalance := bb, w_UpdatedAt := now\<rparr>"
  have wb: "0 \<le> w_Balance w" "has_scale 2 (w_Balance w)" using wallets_ok_row [OF s, of w] w(1) by simp_all
  have zb: "0 \<le> z" "has_scale 2 z"
    using money_col_nonneg [OF L z] money_col_scale [OF L z] wb p by simp_all
  have ub: "user_balance s u = w_Balance w"
    using w by (auto simp: user_balance_def user_wallet_def select_row_append select_row_None
        select_row_Cons split: option.split dest!: select_row_Some)
  have ws': "wallets s' = us @ ?w # vs" "transactions s' = transactions s @ [lrow]" by (simp_all add: s')
  show "wallets_ok s'" using zb by (intro wallets_ok_replace [OF s w(1) ws'(1)]) simp_all
  show "games s' = games s" by (simp add: s')
  show "\<exists>c p. odds_col L cashoutAt = Some c \<and> money_col L payout = Some p \<and>
      game_bets s' = update_where (\<lambda>b. gb_ID b = i \<and> gb_Status b = GameBetStatusActive) (cashed_out now c p) (game_bets s)"
    using c by (simp add: s')
  show "\<exists>b \<in> set (game_bets s). gb_ID b = i \<and> gb_Status b = GameBetStatusActive"
    using n by (simp add: rows_affected_0)
  assume sc: "has_scale 2 payout"
  have zz: "z = w_Balance w + payout" using money_col_exact [OF L _ z] has_scale_add [OF wb(2) sc] by simp
  show "user_balance s' = (user_balance s)(u := user_balance s u + payout)"
    using user_balance_replace [OF w(1) ws'(1)] w(2,3) by (simp add: ub zz)
  note l = ledger_row_Some [OF led]
  have "tr_BalanceBefore lrow = z - payout" "tr_BalanceAfter lrow = z"
    using l(5,7) zb sc by (auto simp: has_scale_diff dest: money_col_exact [OF L, rotated])
  then have "tr_delta lrow = payout" by (simp add: tr_delta_def)
  then show "books_ok opening s'" if "books_ok opening s"
    using s l(2) zz by (intro books_ok_replace [OF that w(1) ws'(1) _ _ ws'(2)]) (auto simp: wallets_ok_def)
qed

text \<open>Every path without a result leaves the database alone.\<close>

lemma CreateBet_Inl: "CreateBetWithWalletUpdate L f now tid s bet u amount = (s', Inl e) \<Longrightarrow> s' = s"
  by (auto simp: CreateBetWithWalletUpdate_def Let_def split: if_splits option.splits)

lemma AutoCashout_not_True:
  "AtomicAutoCashoutWithCredit L f now tid s i u c p country = (s', r) \<Longrightarrow> r \<noteq> Inr True \<Longrightarrow> s' = s"
  by (auto simp: AtomicAutoCashoutWithCredit_def Let_def split: if_splits option.splits)

section \<open>A bet is cashed out at most once\<close>

text \<open>The operations that write \<open>game_bets\<close>, as the engine calls them.\<close>

datatype bet_op =
    OpPlace faults time uuid GameBet uuid decimal
  | OpCashout faults time uuid decimal decimal
  | OpAutoCashout faults time uuid uuid uuid decimal decimal string
  | OpLost faults uuid

fun bet_step :: "libs \<Rightarrow> bet_op \<Rightarrow> db \<Rightarrow> db" where
  "bet_step L (OpPlace f now tid bet u a) s = fst (CreateBetWithWalletUpdate L f now tid s bet u a)"
| "bet_step L (OpCashout f now i c p) s = fst (AtomicCashout L f now s i c p)"
| "bet_step L (OpAutoCashout f now tid i u c p country) s =
     fst (AtomicAutoCashoutWithCredit L f now tid s i u c p country)"
| "bet_step L (OpLost f i) s = fst (GameBetRepository_UpdateStatus f s i GameBetStatusLost)"

text \<open>Does the operation report a cashout of bet \<open>i\<close>?\<close>

fun reports_cashout :: "libs \<Rightarrow> uuid \<Rightarrow> bet_op \<Rightarrow> db \<Rightarrow> bool" where
  "reports_cashout L i (OpCashout f now j c p) s \<longleftrightarrow> j = i \<and> snd (AtomicCashout L f now s j c p) = Inr True"
| "reports_cashout L i (OpAutoCashout f now tid j u c p country) s \<longleftrightarrow>
     j = i \<and> snd (AtomicAutoCashoutWithCredit L f now tid s j u c p country) = Inr True"
| "reports_cashout L i _ s \<longleftrightarrow> False"

fun cashouts :: "libs \<Rightarrow> uuid \<Rightarrow> bet_op list \<Rightarrow> db \<Rightarrow> nat" where
  "cashouts L i [] s = 0"
| "cashouts L i (op # ops) s = (if reports_cashout L i op s then 1 else 0) + cashouts L i ops (bet_step L op s)"

definition bet_closed :: "uuid \<Rightarrow> db \<Rightarrow> bool" where
  "bet_closed i s \<longleftrightarrow> (\<exists>b \<in> set (game_bets s). gb_ID b = i) \<and>
     (\<forall>b \<in> set (game_bets s). gb_ID b = i \<longrightarrow> gb_Status b \<noteq> GameBetStatusActive)"

lemma cashed_out_fields [simp]:
  "gb_ID (cashed_out now c p b) = gb_ID b" "gb_Status (cashed_out now c p b) = GameBetStatusCashedOut"
  by (simp_all add: cashed_out_def)

lemma update_cashout_cases:
  assumes "update_cashout L now P c p t = Some t'"
  shows "\<exists>c' p'. t' = update_where P (cashed_out now c' p') t"
  using assms by (auto simp: update_cashout_def update_where_none rows_affected_0 split: if_splits option.splits)

lemma game_bet_row_ID: "game_bet_row L b = Some r \<Longrightarrow> gb_ID r = gb_ID b"
  by (auto simp: game_bet_row_def split: option.splits)

lemma AtomicCashout_bets:
  "\<exists>c' p'. game_bets (fst (AtomicCashout L f now s i c p)) = game_bets s \<or>
     game_bets (fst (AtomicCashout L f now s i c p)) =
       update_where (\<lambda>b. gb_ID b = i \<and> gb_Status b = GameBetStatusActive) (cashed_out now c' p') (game_bets s)"
  by (auto simp: AtomicCashout_def Let_def dest!: update_cashout_cases split: option.split)

lemma AtomicCashout_True:
  assumes "snd (AtomicCashout L f now s i c p) = Inr True"
  shows "\<exists>c' p'. game_bets (fst (AtomicCashout L f now s i c p)) =
      update_where (\<lambda>b. gb_ID b = i \<and> gb_Status b = GameBetStatusActive) (cashed_out now c' p') (game_bets s)"
    and "\<exists>b \<in> set (game_bets s). gb_ID b = i \<and> gb_Status b = GameBetStatusActive"
proof -
  obtain t where t: "update_cashout L now (\<lambda>b. gb_ID b = i \<and> gb_Status b = GameBetStatusActive) c p (game_bets s) = Some t"
      "game_bets (fst (AtomicCashout L f now s i c p)) = t"
      "0 < rows_affected (\<lambda>b. gb_ID b = i \<and> gb_Status b = GameBetStatusActive) (game_bets s)"
    using assms by (auto simp: AtomicCashout_def Let_def split: option.splits if_splits)
  show "\<exists>c' p'. game_bets (fst (AtomicCashout L f now s i c p)) =
      update_where (\<lambda>b. gb_ID b = i \<and> gb_Status b = GameBetStatusActive) (cashed_out now c' p') (game_bets s)"
    using update_cashout_cases [OF t(1)] t(2) by blast
  show "\<exists>b \<in> set (game_bets s). gb_ID b = i \<and> gb_Status b = GameBetStatusActive"
    using t(3) rows_affected_0 [of "\<lambda>b. gb_ID b = i \<and> gb_Status b = GameBetStatusActive" "game_bets s"] by auto
qed

lemma AutoCashout_bets:
  "\<exists>c' p'. game_bets (fst (AtomicAutoCashoutWithCredit L f now tid s i u c p country)) = game_bets s \<or>
     game_bets (fst (AtomicAutoCashoutWithCredit L f now tid s i u c p country)) =
       update_where (\<lambda>b. gb_ID b = i \<and> gb_Status b = GameBetStatusActive) (cashed_out now c' p') (game_bets s)"
proof (cases "AtomicAutoCashoutWithCredit L f now tid s i u c p country")
  case (Pair s' r)
  show ?thesis
  proof (cases "r = Inr True")
    case True
    with Pair have ok: "AtomicAutoCashoutWithCredit L f now tid s i u c p country = (s', Inr True)" by simp
    obtain c' p' where "game_bets s' = update_where (\<lambda>b. gb_ID b = i \<and> gb_Status b = GameBetStatusActive)
        (cashed_out now c' p') (game_bets s)"
      by (rule AutoCashout_Inr [OF ok]) simp
    then show ?thesis unfolding Pair fst_conv by blast
  qed (use Pair AutoCashout_not_True [OF Pair] in simp)
qed

lemma CreateBet_bets:
  "game_bets (fst (CreateBetWithWalletUpdate L f now tid s bet u a)) = game_bets s \<or>
   (\<exists>row. game_bets (fst (CreateBetWithWalletUpdate L f now tid s bet u a)) = game_bets s @ [row] \<and>
      gb_ID row \<notin> gb_ID ` set (game_bets s))"
proof (cases "CreateBetWithWalletUpdate L f now tid s bet u a")
  case (Pair s' r)
  show ?thesis
  proof (cases r)
    case (Inl e)
    with Pair show ?thesis by (auto dest: CreateBet_Inl)
  next
    case (Inr x)
    with Pair show ?thesis by (auto elim!: CreateBet_Inr dest: game_bet_row_ID)
  qed
qed

text \<open>A bet that is no longer active never becomes active again, and reports no cashout.\<close>

lemma bet_ids_update:
  assumes "\<And>b. gb_ID (h b) = gb_ID b" "game_bets s' = update_where P h (game_bets s)"
  shows "gb_ID ` set (game_bets s') = gb_ID ` set (game_bets s)"
proof -
  have "map gb_ID (update_where P h (game_bets s)) = map gb_ID (game_bets s)"
    using assms(1) by (rule update_where_keys)
  then show ?thesis unfolding assms(2) by (metis list.set_map)
qed

lemma bet_closed_iff: "bet_closed i s \<longleftrightarrow> i \<in> gb_ID ` set (game_bets s) \<and>
    (\<forall>b \<in> set (game_bets s). gb_ID b = i \<longrightarrow> gb_Status b \<noteq> GameBetStatusActive)"
  by (auto simp: bet_closed_def)

lemma bet_closed_update:
  assumes "\<And>b. gb_ID (h b) = gb_ID b" "\<And>b. gb_Status (h b) \<noteq> GameBetStatusActive"
    and "game_bets s' = game_bets s \<or> game_bets s' = update_where P h (game_bets s)" "bet_closed i s"
  shows "bet_closed i s'"
proof (cases "game_bets s' = game_bets s")
  case True
  then show ?thesis using assms(4) by (simp add: bet_closed_def)
next
  case False
  with assms(3) have u: "game_bets s' = update_where P h (game_bets s)" by blast
  have "i \<in> gb_ID ` set (game_bets s')"
    using assms(4) bet_ids_update [OF assms(1) u] by (simp only: bet_closed_iff)
  moreover have "gb_Status b \<noteq> GameBetStatusActive" if "b \<in> set (game_bets s')" "gb_ID b = i" for b
  proof -
    from that(1) consider b' where "b = h b'" | "b \<in> set (game_bets s)"
      unfolding u set_update_where by blast
    then show ?thesis
      by cases (use assms(2) assms(4) that(2) in \<open>simp_all only: bet_closed_iff, blast+\<close>)
  qed
  ultimately show ?thesis unfolding bet_closed_iff by blast
qed

lemma bet_closed_cashout:
  assumes "\<exists>b \<in> set (game_bets s). gb_ID b = i \<and> gb_Status b = GameBetStatusActive"
    and u: "game_bets s' = update_where (\<lambda>b. gb_ID b = i \<and> gb_Status b = GameBetStatusActive)
      (cashed_out now c p) (game_bets s)"
  shows "bet_closed i s'"
proof -
  have "i \<in> gb_ID ` set (game_bets s')"
    unfolding bet_ids_update [OF cashed_out_fields(1) u] using assms(1) by blast
  moreover have "gb_Status b \<noteq> GameBetStatusActive" if "b \<in> set (game_bets s')" "gb_ID b = i" for b
  proof -
    from that(1) consider b' where "b = cashed_out now c p b'"
      | "\<not> (gb_ID b = i \<and> gb_Status b = GameBetStatusActive)"
      unfolding u set_update_where by blast
    then show ?thesis by cases (use that(2) in simp_all)
  qed
  ultimately show ?thesis unfolding bet_closed_iff by blast
qed

lemma bet_closed_step:
  assumes "bet_closed i s" shows "bet_closed i (bet_step L op s)"
proof (cases op)
  case (OpPlace f now tid bet u a)
  from CreateBet_bets [of L f now tid s bet u a] show ?thesis
  proof
    assume "game_bets (fst (CreateBetWithWalletUpdate L f now tid s bet u a)) = game_bets s"
    then show ?thesis using assms OpPlace by (simp add: bet_closed_def)
  next
    assume "\<exists>row. game_bets (fst (CreateBetWithWalletUpdate L f now tid s bet u a)) = game_bets s @ [row] \<and>
      gb_ID row \<notin> gb_ID ` set (game_bets s)"
    then obtain row where r: "game_bets (bet_step L op s) = game_bets s @ [row]" "gb_ID row \<notin> gb_ID ` set (game_bets s)"
      using OpPlace by auto
    from assms have i: "i \<in> gb_ID ` set (game_bets s)"
      and a: "\<forall>b \<in> set (game_bets s). gb_ID b = i \<longrightarrow> gb_Status b \<noteq> GameBetStatusActive"
      by (simp_all add: bet_closed_iff)
    from i r(2) have "gb_ID row \<noteq> i" by blast
    then show ?thesis using i a unfolding bet_closed_iff r(1) by simp
  qed
next
  case (OpCashout f now j c p)
  obtain c' p' where "game_bets (bet_step L op s) = game_bets s \<or> game_bets (bet_step L op s) =
      update_where (\<lambda>b. gb_ID b = j \<and> gb_Status b = GameBetStatusActive) (cashed_out now c' p') (game_bets s)"
    using AtomicCashout_bets [of L f now s j c p] OpCashout by auto
  from bet_closed_update [OF _ _ this assms] show ?thesis by simp
next
  case (OpAutoCashout f now tid j u c p country)
  obtain c' p' where "game_bets (bet_step L op s) = game_bets s \<or> game_bets (bet_step L op s) =
      update_where (\<lambda>b. gb_ID b = j \<and> gb_Status b = GameBetStatusActive) (cashed_out now c' p') (game_bets s)"
    using AutoCashout_bets [of L f now tid s j u c p country] OpAutoCashout by auto
  from bet_closed_update [OF _ _ this assms] show ?thesis by simp
next
  case (OpLost f j)
  then have "game_bets (bet_step L op s) = game_bets s \<or> game_bets (bet_step L op s) =
      update_where (\<lambda>b. gb_ID b = j) (\<lambda>b. b\<lparr>gb_Status := GameBetStatusLost\<rparr>) (game_bets s)"
    by (simp add: GameBetRepository_UpdateStatus_def)
  from bet_closed_update [OF _ _ this assms] show ?thesis by simp
qed

lemma reports_cashout_open:
  assumes "reports_cashout L i op s"
  shows "\<exists>b \<in> set (game_bets s). gb_ID b = i \<and> gb_Status b = GameBetStatusActive"
    and "bet_closed i (bet_step L op s)"
proof -
  have *: "(\<exists>b \<in> set (game_bets s). gb_ID b = i \<and> gb_Status b = GameBetStatusActive) \<and>
    (\<exists>now c' p'. game_bets (bet_step L op s) =
       update_where (\<lambda>b. gb_ID b = i \<and> gb_Status b = GameBetStatusActive) (cashed_out now c' p') (game_bets s))"
  proof (cases op)
    case (OpCashout f now j c p)
    with assms have j: "j = i" "snd (AtomicCashout L f now s i c p) = Inr True" by auto
    with AtomicCashout_True [OF j(2)] OpCashout show ?thesis by auto
  next
    case (OpAutoCashout f now tid j u c p country)
    with assms have j: "j = i" "AtomicAutoCashoutWithCredit L f now tid s i u c p country =
        (bet_step L op s, Inr True)" by (auto simp: prod_eq_iff)
    have o: "\<exists>b \<in> set (game_bets s). gb_ID b = i \<and> gb_Status b = GameBetStatusActive"
      by (rule AutoCashout_Inr [OF j(2)]) (simp add: rows_affected_0)
    obtain c' p' where "game_bets (bet_step L op s) =
        update_where (\<lambda>b. gb_ID b = i \<and> gb_Status b = GameBetStatusActive) (cashed_out now c' p') (game_bets s)"
      by (rule AutoCashout_Inr [OF j(2)]) simp
    with o show ?thesis by blast
  qed (use assms in auto)
  then show o: "\<exists>b \<in> set (game_bets s). gb_ID b = i \<and> gb_Status b = GameBetStatusActive" by blast
  from * obtain now c' p' where "game_bets (bet_step L op s) =
     update_where (\<lambda>b. gb_ID b = i \<and> gb_Status b = GameBetStatusActive) (cashed_out now c' p') (game_bets s)"
    by blast
  with o show "bet_closed i (bet_step L op s)" by (rule bet_closed_cashout)
qed

lemma cashouts_closed: "bet_closed i s \<Longrightarrow> cashouts L i ops s = 0"
proof (induction ops arbitrary: s)
  case (Cons op ops)
  then show ?case using reports_cashout_open(1) [of L i op s] bet_closed_step [OF Cons.prems]
    by (auto simp: bet_closed_def [of _ s])
qed simp

lemma cashouts_at_most_once: "cashouts L i ops s \<le> 1"
proof (induction ops arbitrary: s)
  case (Cons op ops)
  then show ?case using cashouts_closed [OF reports_cashout_open(2)] by auto
qed simp

section \<open>Properties\<close>

text \<open>C15: a crash bet is bought all or nothing. For an amount in cents
  \<open>CreateBetWithWalletUpdate\<close> either fails and changes nothing, or takes exactly the amount from
  the one player, who could pay it, and stores exactly the one bet; solvency and the balanced books
  survive.\<close>

theorem game_bet_all_or_nothing:
  assumes "libs_ok L" "wallets_ok s" "has_scale 2 amount"
    and "CreateBetWithWalletUpdate L f now tid s bet u amount = (s', r)"
  shows "(\<exists>e. r = Inl e \<and> s' = s) \<or>
    (r = Inr (gb_ID bet) \<and> amount \<le> user_balance s u \<and>
     user_balance s' = (user_balance s)(u := user_balance s u - amount) \<and>
     (\<exists>row. game_bet_row L bet = Some row \<and> game_bets s' = game_bets s @ [row]) \<and>
     wallets_ok s' \<and> (\<forall>opening. books_ok opening s \<longrightarrow> books_ok opening s'))"
proof (cases r)
  case (Inl e)
  then show ?thesis using CreateBet_Inl assms(4) by blast
next
  case (Inr x)
  with assms(4) have ok: "CreateBetWithWalletUpdate L f now tid s bet u amount = (s', Inr x)" by simp
  note b = CreateBet_books [OF assms(1,2) ok]
  show ?thesis using b(1-4) b(6,7) [OF assms(3)] Inr by blast
qed

definition sample_game_bet :: GameBet where
  "sample_game_bet = \<lparr>gb_ID = 70, gb_GameID = 60, gb_UserID = 7, gb_Amount = 40, gb_Currency = '''',
     gb_CashedOut = False, gb_CashoutAt = None, gb_Payout = 0, gb_Status = GameBetStatusActive,
     gb_PlacedAt = 0, gb_CashedOutAt = None\<rparr>"

definition sample_bet_db :: db where
  "sample_bet_db = fst (CreateBetWithWalletUpdate std_libs no_faults 1 9 sample_db sample_game_bet 7 40)"

theorem game_bet_all_or_nothing_witness:
  "user_balance sample_bet_db 7 = 60 \<and> wallets_ok sample_bet_db"
proof -
  let ?x = "CreateBetWithWalletUpdate std_libs no_faults 1 9 sample_db sample_game_bet 7 40"
  have s: "wallets_ok sample_db" "has_scale 2 (40 :: decimal)" by code_simp+
  have n: "\<not> isl (snd ?x)" by code_simp
  have "user_balance (fst ?x) = (user_balance sample_db)(7 := user_balance sample_db 7 - 40) \<and> wallets_ok (fst ?x)"
    using game_bet_all_or_nothing [OF std_libs_ok s prod.collapse [symmetric], of no_faults 1 9 sample_game_bet 7] n
    by auto
  moreover have "user_balance sample_db 7 = 100" by code_simp
  ultimately show ?thesis by (simp add: sample_bet_db_def)
qed

text \<open>An automatic cashout pays once and atomically. For a non-negative payout in cents
  \<open>AtomicAutoCashoutWithCredit\<close> either leaves the database as it was (every failure, and the
  report that the bet was no longer active), or an active bet became a cashed-out one and the
  player received exactly the payout, with balances and books intact.\<close>

theorem auto_cashout_all_or_nothing:
  assumes "libs_ok L" "wallets_ok s" "has_scale 2 payout" "0 \<le> payout"
    and "AtomicAutoCashoutWithCredit L f now tid s i u cashoutAt payout country = (s', r)"
  shows "(r \<noteq> Inr True \<and> s' = s) \<or>
    (r = Inr True \<and> (\<exists>b \<in> set (game_bets s). gb_ID b = i \<and> gb_Status b = GameBetStatusActive) \<and>
     user_balance s' = (user_balance s)(u := user_balance s u + payout) \<and> bet_closed i s' \<and>
     wallets_ok s' \<and> (\<forall>opening. books_ok opening s \<longrightarrow> books_ok opening s'))"
proof (cases "r = Inr True")
  case True
  with assms(5) have ok: "AtomicAutoCashoutWithCredit L f now tid s i u cashoutAt payout country = (s', Inr True)"
    by simp
  note b = AutoCashout_books [OF assms(1,2,4) ok]
  obtain c p where "game_bets s' = update_where (\<lambda>b. gb_ID b = i \<and> gb_Status b = GameBetStatusActive)
      (cashed_out now c p) (game_bets s)"
    using b(3) by blast
  with b(4) have "bet_closed i s'" by (rule bet_closed_cashout)
  then show ?thesis using True b(1,4) b(5,6) [OF assms(3)] by blast
qed (use assms(5) AutoCashout_not_True in blast)

theorem auto_cashout_all_or_nothing_witness:
  "user_balance (fst (AtomicAutoCashoutWithCredit std_libs no_faults 2 10 sample_bet_db 70 7 2 72 ''KE'')) 7 = 132"
proof -
  let ?x = "AtomicAutoCashoutWithCredit std_libs no_faults 2 10 sample_bet_db 70 7 2 72 ''KE''"
  have s: "wallets_ok sample_bet_db" "has_scale 2 (72 :: decimal)" by code_simp+
  have n: "snd ?x = Inr True" by code_simp
  have "user_balance (fst ?x) = (user_balance sample_bet_db)(7 := user_balance sample_bet_db 7 + 72)"
    using auto_cashout_all_or_nothing [OF std_libs_ok s _ prod.collapse [symmetric], of no_faults 2 10 70 7 2 "''KE''"] n
    by auto
  moreover have "user_balance sample_bet_db 7 = 60" by code_simp
  ultimately show ?thesis by simp
qed

text \<open>C14: no bet is ever cashed out twice. Whatever sequence of placements, manual cashouts,
  automatic cashouts and losses reaches the repository, in whatever order, with whatever failures
  and values, at most one operation reports a cashout of any one bet.\<close>

theorem at_most_one_cashout: "cashouts L i ops s \<le> 1"
  by (rule cashouts_at_most_once)

section \<open>Where the shared tables disagree\<close>

text \<open>
  A debit by \<open>CreateBetWithWalletUpdate\<close> does not raise the wallet's version, so it is invisible to
  the guard of \<open>UpdateBalance\<close>: the debit committed between its two statements is lost.
\<close>

lemma game_bet_lost_update:
  "let other = (\<lambda>s. fst (CreateBetWithWalletUpdate std_libs no_faults 1 9 s sample_game_bet 7 40));
       x = UpdateBalance std_libs other no_faults 2 sample_db 7 100 0
   in user_balance (other sample_db) 7 = 60 \<and> snd x = Inr () \<and> user_balance (fst x) 7 = 100"
  by code_simp

text \<open>Its ledger row has \<open>NULL\<close> provider columns, after which the player's history cannot be listed.\<close>

lemma game_bet_breaks_history:
  "GetTransactionsByUserID no_faults sample_bet_db 7 20 0 = Inl (ErrStatement QueryCall)"
  by code_simp

text \<open>A player with wallets in two currencies can never buy a crash bet.\<close>

lemma game_bet_two_wallets:
  assumes "length (filter (\<lambda>w. w_UserID w = u) (wallets s)) \<noteq> 1"
  shows "\<exists>e. CreateBetWithWalletUpdate L f now tid s bet u amount = (s, Inl e)"
proof (cases "CreateBetWithWalletUpdate L f now tid s bet u amount")
  case (Pair s' r)
  show ?thesis
  proof (cases r)
    case (Inl e)
    then show ?thesis using Pair CreateBet_Inl [of L f now tid s bet u amount s' e] by simp
  next
    case (Inr x)
    then have ok: "CreateBetWithWalletUpdate L f now tid s bet u amount = (s', Inr x)" using Pair by simp
    obtain us w vs where "wallets s = us @ w # vs" "w_UserID w = u" "\<forall>v \<in> set us \<union> set vs. w_UserID v \<noteq> u"
      by (rule CreateBet_Inr [OF ok])
    then have "filter (\<lambda>w. w_UserID w = u) (wallets s) = [w]" by (simp add: filter_empty_conv)
    with assms show ?thesis by simp
  qed
qed

end
