(* ===== verification/Sha256.thy ===== *)
theory Sha256
  imports "HOL-Library.Word"
begin

text \<open>
  The part of Go's standard library the fairness service calls: \<open>crypto/sha256\<close>,
  \<open>crypto/hmac\<close>, \<open>encoding/binary\<close> (big endian) and \<open>encoding/hex\<close>. The round
  constants are computed from their definition (fractional parts of roots of the first primes).
\<close>

unbundle bit_operations_syntax

type_synonym bytes = "8 word list"

text \<open>The largest \<open>r < 2 ^ b\<close> above \<open>acc\<close> whose \<open>k\<close>-th power does not exceed \<open>n\<close>.\<close>

fun root_bits :: "nat \<Rightarrow> int \<Rightarrow> nat \<Rightarrow> int \<Rightarrow> int" where
  "root_bits k n 0 acc = acc"
| "root_bits k n (Suc b) acc =
     root_bits k n b (if (acc + 2 ^ b) ^ k \<le> n then acc + 2 ^ b else acc)"

definition frac_root32 :: "nat \<Rightarrow> int \<Rightarrow> 32 word" where
  "frac_root32 k p = of_int (root_bits k (p * 2 ^ (32 * k)) 40 0)"

definition small_primes :: "int list" where
  "small_primes = filter (\<lambda>n. list_all (\<lambda>d. n mod d \<noteq> 0) [2..n - 1]) [2..311]"

definition sha256_K :: "32 word list" where
  "sha256_K = map (frac_root32 3) small_primes"

definition sha256_init :: "32 word list" where
  "sha256_init = map (frac_root32 2) [2, 3, 5, 7, 11, 13, 17, 19]"

definition be_word :: "bytes \<Rightarrow> 'a::len word" where
  "be_word bs = foldl (\<lambda>a b. push_bit 8 a OR ucast b) 0 bs"

definition be_bytes :: "nat \<Rightarrow> 'a::len word \<Rightarrow> bytes" where
  "be_bytes n w = map (\<lambda>i. ucast (drop_bit (8 * (n - 1 - i)) w)) [0..<n]"

fun chunks :: "nat \<Rightarrow> nat \<Rightarrow> 'b list \<Rightarrow> 'b list list" where
  "chunks 0 k xs = []"
| "chunks (Suc m) k xs = take k xs # chunks m k (drop k xs)"

definition rot :: "nat \<Rightarrow> 32 word \<Rightarrow> 32 word" where
  "rot n w = drop_bit n w OR push_bit (32 - n) w"

fun schedule :: "nat \<Rightarrow> 32 word list \<Rightarrow> 32 word list" where
  "schedule 0 ws = ws"
| "schedule (Suc m) ws =
     (let t = length ws; a = ws ! (t - 2); b = ws ! (t - 15);
          s1 = (rot 17 a XOR rot 19 a) XOR drop_bit 10 a;
          s0 = (rot 7 b XOR rot 18 b) XOR drop_bit 3 b
      in schedule m (ws @ [s1 + ws ! (t - 7) + s0 + ws ! (t - 16)]))"

definition sha_round :: "32 word \<times> 32 word \<Rightarrow> 32 word list \<Rightarrow> 32 word list" where
  "sha_round kw st =
     (case (kw, st) of ((k, w), [a, b, c, d, e, f, g, h]) \<Rightarrow>
        let t1 = h + ((rot 6 e XOR rot 11 e) XOR rot 25 e) + ((e AND f) XOR (NOT e AND g)) + k + w;
            t2 = ((rot 2 a XOR rot 13 a) XOR rot 22 a) + (((a AND b) XOR (a AND c)) XOR (b AND c))
        in [t1 + t2, a, b, c, d + t1, e, f, g]
      | _ \<Rightarrow> st)"

primrec rounds :: "(32 word \<times> 32 word) list \<Rightarrow> 32 word list \<Rightarrow> 32 word list" where
  "rounds [] st = st"
| "rounds (kw # rest) st = rounds rest (sha_round kw st)"

definition compress :: "32 word list \<Rightarrow> bytes \<Rightarrow> 32 word list" where
  "compress st block =
     map2 (+) st (rounds (zip sha256_K (schedule 48 (map be_word (chunks 16 4 block)))) st)"

definition sha256_pad :: "bytes \<Rightarrow> bytes" where
  "sha256_pad msg =
     msg @ 0x80 # replicate ((119 - length msg mod 64) mod 64) 0 @
     be_bytes 8 (of_nat (8 * length msg) :: 64 word)"

definition Sum256 :: "bytes \<Rightarrow> bytes" where
  "Sum256 msg =
     (let p = sha256_pad msg
      in concat (map (be_bytes 4) (foldl compress sha256_init (chunks (length p div 64) 64 p))))"

definition hmac_sha256 :: "bytes \<Rightarrow> bytes \<Rightarrow> bytes" where
  "hmac_sha256 key msg =
     (let k0 = (if length key > 64 then Sum256 key else key);
          k = k0 @ replicate (64 - length k0) 0
      in Sum256 (map ((XOR) 0x5c) k @ Sum256 (map ((XOR) 0x36) k @ msg)))"

definition string_bytes :: "string \<Rightarrow> bytes" where
  "string_bytes s = map of_char s"

definition hex_digit :: "nat \<Rightarrow> char" where
  "hex_digit d = char_of (if d < 10 then 48 + d else 87 + d)"

definition hex_encode :: "bytes \<Rightarrow> string" where
  "hex_encode bs = concat (map (\<lambda>b. [hex_digit (unat b div 16), hex_digit (unat b mod 16)]) bs)"

lemma length_chunks [simp]: "length (chunks m k xs) = m"
  by (induction m k xs rule: chunks.induct) auto

lemma length_sha_round: "length (sha_round kw st) = length st"
  by (simp add: sha_round_def Let_def split: list.split prod.split)

lemma length_rounds: "length st = 8 \<Longrightarrow> length (rounds kw st) = 8"
  by (induction kw arbitrary: st) (simp_all add: length_sha_round)

lemma length_compress: "length st = 8 \<Longrightarrow> length (compress st b) = 8"
  by (simp add: compress_def length_rounds)

lemma length_fold_compress: "length st = 8 \<Longrightarrow> length (foldl compress st bs) = 8"
  by (induction bs arbitrary: st) (auto simp: length_compress)

lemma length_concat_const: "\<forall>x \<in> set xs. length (f x) = n \<Longrightarrow> length (concat (map f xs)) = n * length xs"
  by (induction xs) auto

lemma length_Sum256 [simp]: "length (Sum256 msg) = 32"
proof -
  have "length sha256_init = 8" by (simp add: sha256_init_def)
  then show ?thesis
    unfolding Sum256_def Let_def
    by (subst length_concat_const [where n = 4]) (auto simp: be_bytes_def length_fold_compress)
qed

lemma length_hmac_sha256 [simp]: "length (hmac_sha256 key msg) = 32"
  by (simp add: hmac_sha256_def Let_def)

lemma hex_digit_inj: "d < 16 \<Longrightarrow> d' < 16 \<Longrightarrow> hex_digit d = hex_digit d' \<Longrightarrow> d = d'"
proof -
  assume d: "d < 16" "d' < 16" and e: "hex_digit d = hex_digit d'"
  from e have "(of_char (hex_digit d) :: nat) = of_char (hex_digit d')" by simp
  with d show ?thesis by (simp add: hex_digit_def of_char_of split: if_splits)
qed

text \<open>Hexadecimal printing loses nothing.\<close>

lemma hex_encode_inj: "hex_encode xs = hex_encode ys \<Longrightarrow> xs = ys"
proof (induction xs arbitrary: ys)
  case Nil
  then show ?case by (cases ys) (auto simp: hex_encode_def)
next
  case (Cons x xs)
  then obtain y ys' where ys: "ys = y # ys'" by (cases ys) (auto simp: hex_encode_def)
  have b: "unat (z :: 8 word) < 256" for z using unsigned_less [of z, where ?'a = nat] by simp
  have "hex_digit (unat x div 16) = hex_digit (unat y div 16)" "hex_digit (unat x mod 16) = hex_digit (unat y mod 16)"
    and r: "hex_encode xs = hex_encode ys'"
    using Cons.prems ys by (auto simp: hex_encode_def)
  then have "unat x div 16 = unat y div 16" "unat x mod 16 = unat y mod 16"
    using b [of x] b [of y] by (auto intro: hex_digit_inj)
  then have "unat x = unat y" by (metis div_mult_mod_eq)
  then have "x = y" by (simp only: word_unat_eq_iff)
  then show ?case using Cons.IH [OF r] ys by simp
qed

end
