(* ===== verification/ProvablyFair.thy ===== *)
theory ProvablyFair
  imports Prelude Sha256
begin

text \<open>
  \<open>internal/core/usecase/provably_fair.go\<close>: the commitment to a round's server seed and the crash
  point derived from it. The 32 random bytes of \<open>crypto/rand\<close> are an argument (\<open>None\<close>
  when the read fails); the double arithmetic of the crash formula is that of \<open>Float64\<close>.
\<close>

definition HouseEdgePercent :: int where "HouseEdgePercent = 3"

definition MaxCrashMultiplier :: rat where "MaxCrashMultiplier = 10000"

definition GenerateServerSeed :: "bytes option \<Rightarrow> string option" where
  "GenerateServerSeed rnd = map_option hex_encode rnd"

definition HashServerSeed :: "string \<Rightarrow> string" where
  "HashServerSeed serverSeed = hex_encode (Sum256 (string_bytes serverSeed))"

definition CalculateCrashPoint :: "libs \<Rightarrow> string \<Rightarrow> string \<Rightarrow> int \<Rightarrow> decimal" where
  "CalculateCrashPoint L serverSeed clientSeed roundNumber =
     (let msg = FormatInt roundNumber @ '':'' @ clientSeed;
          sum = hmac_sha256 (string_bytes serverSeed) (string_bytes msg) in
      if uint (be_word (take 4 (drop 28 sum)) :: 32 word) mod 100 < HouseEdgePercent then 1
      else
        let r = drop_bit 12 (be_word (take 8 sum) :: 64 word) in
        if r = 0 then MaxCrashMultiplier
        else
          let crash0 = fl (of_int \<lfloor>fl (fl (2 ^ 52 / of_nat (unat r)) * 100)\<rfloor> / 100);
              crash1 = (if crash0 < 1 then 1 else crash0);
              crash = (if crash1 > MaxCrashMultiplier then MaxCrashMultiplier else crash1)
          in dec_of_float L crash)"

definition VerifyCrashPoint :: "libs \<Rightarrow> string \<Rightarrow> string \<Rightarrow> int \<Rightarrow> decimal \<Rightarrow> bool" where
  "VerifyCrashPoint L serverSeed clientSeed roundNumber claimedCrash \<longleftrightarrow>
     CalculateCrashPoint L serverSeed clientSeed roundNumber = claimedCrash"

section \<open>The crash formula\<close>

lemma fl_cap: "fl (1000000 / 100) = 10000" "fl 10000 = 10000"
  using fl_nat [of 10000] by simp_all

definition raw_cents :: "nat \<Rightarrow> int" where
  "raw_cents r = \<lfloor>fl (fl (2 ^ 52 / of_nat r) * 100)\<rfloor>"

text \<open>For every admissible \<open>r\<close> the multiplier before the cap is at least 1.00.\<close>

lemma raw_cents_ge:
  assumes "0 < r" "r < 2 ^ 52" shows "100 \<le> raw_cents r"
proof -
  have "(of_nat r :: rat) \<le> of_nat (2 ^ 52)" using assms by (simp only: of_nat_le_iff)
  then have "of_nat 1 \<le> (2 ^ 52 / of_nat r :: rat)" using assms by (simp add: pos_le_divide_eq)
  then have "of_nat 1 \<le> fl (2 ^ 52 / of_nat r)" by (rule fl_ge_nat) simp_all
  then have "of_nat 100 \<le> fl (2 ^ 52 / of_nat r) * 100" by simp
  then have "of_nat 100 \<le> fl (fl (2 ^ 52 / of_nat r) * 100)" by (rule fl_ge_nat) simp_all
  then show ?thesis by (simp add: raw_cents_def le_floor_iff)
qed

text \<open>The two roundings move the value by less than one part in \<open>2 ^ 51\<close>.\<close>

lemma raw_cents_close:
  assumes "0 < r"
  shows "of_int (raw_cents r) \<le> (2 ^ 52 / of_nat r * 100 * (1 + 1 / 2 ^ 51) :: rat)"
    "(2 ^ 52 / of_nat r * 100 * (1 - 1 / 2 ^ 51) - 1 :: rat) < of_int (raw_cents r)"
proof -
  let ?x = "2 ^ 52 / of_nat r :: rat"
  let ?y = "fl ?x * 100" and ?c = "1 / 2 ^ 53 :: rat"
  have x: "0 < ?x" using assms by simp
  have e: "\<bar>fl ?x - ?x\<bar> \<le> ?x * ?c" using fl_error [OF x] by simp
  have y: "?x * 100 * (1 - ?c) \<le> ?y" "?y \<le> ?x * 100 * (1 + ?c)"
    using abs_relative [OF e] by simp_all
  have "0 < ?x * 100 * (1 - ?c)" using x by simp
  then have y0: "0 < ?y" using y by linarith
  have e2: "\<bar>fl ?y - ?y\<bar> \<le> ?y * ?c" using fl_error [OF y0] by simp
  have "fl ?y \<le> ?y * (1 + ?c)" by (rule abs_relative(1) [OF e2])
  also have "\<dots> \<le> ?x * 100 * (1 + ?c) * (1 + ?c)" using y by (intro mult_right_mono) auto
  also have "\<dots> \<le> ?x * 100 * (1 + 1 / 2 ^ 51)"
    using x by (simp only: mult.assoc) (intro mult_left_mono, auto)
  finally have hi: "fl ?y \<le> ?x * 100 * (1 + 1 / 2 ^ 51)" .
  have "?x * 100 * (1 - 1 / 2 ^ 51) \<le> ?x * 100 * (1 - ?c) * (1 - ?c)"
    using x by (simp only: mult.assoc) (intro mult_left_mono, auto)
  also have "\<dots> \<le> ?y * (1 - ?c)" using y by (intro mult_right_mono) auto
  also have "\<dots> \<le> fl ?y" by (rule abs_relative(2) [OF e2])
  finally have lo: "?x * 100 * (1 - 1 / 2 ^ 51) \<le> fl ?y" .
  show "of_int (raw_cents r) \<le> ?x * 100 * (1 + 1 / 2 ^ 51)"
    using hi of_int_floor_le [of "fl ?y"] unfolding raw_cents_def by linarith
  show "?x * 100 * (1 - 1 / 2 ^ 51) - 1 < of_int (raw_cents r)"
    using lo floor_correct [of "fl ?y"] unfolding raw_cents_def by linarith
qed

definition crash_of :: "libs \<Rightarrow> nat \<Rightarrow> decimal" where
  "crash_of L r =
     (let crash0 = fl (of_int (raw_cents r) / 100);
          crash1 = (if crash0 < 1 then 1 else crash0);
          crash = (if crash1 > MaxCrashMultiplier then MaxCrashMultiplier else crash1)
      in dec_of_float L crash)"

lemma crash_of_eq:
  assumes L: "libs_ok L" and r: "0 < r" "r < 2 ^ 52"
  shows "crash_of L r = min 10000 (of_int (raw_cents r) / 100)"
proof -
  define n where "n = nat (raw_cents r)"
  have n: "100 \<le> n" "(of_int (raw_cents r) :: rat) = of_nat n"
    using raw_cents_ge [OF r] by (simp_all add: n_def)
  have c: "dec_of_float L (fl (of_nat n / 100)) = of_nat n / 100" if "n \<le> 1000000"
    using dec_of_float_cents [OF L, of n] n(1) that by simp
  have cap: "dec_of_float L 10000 = 10000"
    using dec_of_float_cents [OF L, of 1000000] by (simp add: fl_cap)
  have n': "(100::rat) \<le> of_nat n" using n(1) by (metis of_nat_le_iff of_nat_numeral)
  then have ge1: "1 \<le> fl (of_nat n / 100)"
    using fl_ge_nat [of 1 "of_nat n / 100"] by simp
  show ?thesis
  proof (cases "n \<le> 1000000")
    case True
    then have le: "(of_nat n :: rat) \<le> 1000000" by (metis of_nat_le_iff of_nat_numeral)
    show ?thesis
    proof (cases "fl (of_nat n / 100) > 10000")
      case False
      then show ?thesis using ge1 c [OF True] le cap
        by (simp add: crash_of_def Let_def n(2) MaxCrashMultiplier_def min_def fl_cap del: of_nat_le_iff)
    next
      case gt: True
      have "\<bar>fl (of_nat n / 100) - of_nat n / 100\<bar> \<le> of_nat n / 100 / 2 ^ 53"
        using n' by (intro fl_error) simp
      moreover have "of_nat n / 100 / 2 ^ 53 \<le> (10000 / 2 ^ 53 :: rat)" using le by simp
      moreover have "(10000 / 2 ^ 53 :: rat) < 1 / 100" by simp
      ultimately have "\<not> of_nat n / 100 \<le> (999999 / 100 :: rat)" using gt by linarith
      then have "(999999 :: rat) < of_nat n" by simp
      then have "999999 < n" by (metis of_nat_less_iff of_nat_numeral)
      with True have "n = 1000000" by simp
      with gt fl_cap show ?thesis by simp
    qed
  next
    case False
    then have "(1000000 :: rat) \<le> of_nat n" by (metis of_nat_le_iff of_nat_numeral nat_le_linear)
    then have ge: "of_nat 10000 \<le> (of_nat n / 100 :: rat)" by simp
    have "10000 \<le> fl (of_nat n / 100)" using fl_ge_nat [OF ge] by simp
    then show ?thesis using ge cap
      by (auto simp: crash_of_def Let_def n(2) MaxCrashMultiplier_def min_def)
  qed
qed

text \<open>The crash point of a round is one of three cases, decided by two disjoint parts of the MAC.\<close>

definition bust_word :: "string \<Rightarrow> string \<Rightarrow> int \<Rightarrow> int" where
  "bust_word serverSeed clientSeed n = uint (be_word (take 4 (drop 28
     (hmac_sha256 (string_bytes serverSeed) (string_bytes (FormatInt n @ '':'' @ clientSeed))))) :: 32 word)"

definition round_r :: "string \<Rightarrow> string \<Rightarrow> int \<Rightarrow> nat" where
  "round_r serverSeed clientSeed n = unat (drop_bit 12 (be_word (take 8
     (hmac_sha256 (string_bytes serverSeed) (string_bytes (FormatInt n @ '':'' @ clientSeed)))) :: 64 word))"

lemma round_r_less: "round_r s c n < 2 ^ 52"
  using unsigned_less [of "be_word (take 8 (hmac_sha256 (string_bytes s)
    (string_bytes (FormatInt n @ '':'' @ c)))) :: 64 word", where ?'a = nat]
  by (simp add: round_r_def drop_bit_eq_div unat_div less_mult_imp_div_less)

lemma CalculateCrashPoint_cases:
  "CalculateCrashPoint L s c n =
     (if bust_word s c n mod 100 < 3 then 1
      else if round_r s c n = 0 then 10000
      else crash_of L (round_r s c n))"
  by (simp add: CalculateCrashPoint_def Let_def bust_word_def round_r_def crash_of_def raw_cents_def
      HouseEdgePercent_def MaxCrashMultiplier_def unat_eq_zero)

section \<open>Properties\<close>

lemma crash_point_range:
  assumes "libs_ok L"
  shows "1 \<le> CalculateCrashPoint L s c n \<and> CalculateCrashPoint L s c n \<le> 10000 \<and>
    has_scale 2 (CalculateCrashPoint L s c n)"
proof -
  have "1 \<le> crash_of L r \<and> crash_of L r \<le> 10000 \<and> has_scale 2 (crash_of L r)"
    if r: "0 < r" "r < 2 ^ 52" for r
  proof -
    have "(100 :: rat) \<le> of_int (raw_cents r)"
      using raw_cents_ge [OF r] by (metis of_int_le_iff of_int_numeral)
    moreover have "has_scale 2 (of_int (raw_cents r) / 100)"
      by (rule has_scaleI [where n = "raw_cents r"]) simp
    moreover have "has_scale 2 (10000 :: decimal)" using has_scale_of_int [of 2 10000] by simp
    ultimately show ?thesis by (auto simp: crash_of_eq [OF assms r] min_def)
  qed
  moreover have "has_scale 2 (10000 :: decimal)" "has_scale 2 (1 :: decimal)"
    using has_scale_of_int [of 2 10000] has_scale_of_int [of 2 1] by simp_all
  ultimately show ?thesis using round_r_less [of s c n] by (auto simp: CalculateCrashPoint_cases)
qed



text \<open>C18: the crash point is the published formula. With the house edge's share of the last four MAC
  bytes the round busts at 1.00; a zero \<open>r\<close> gives the cap; in every other case the double
  arithmetic computes \<open>2^52 / r\<close> cut to two decimals and capped: the result exceeds the exact
  quotient by less than one part in \<open>2^51\<close>, and falls short of it by at most a hundredth more,
  unless it is the cap.\<close>

theorem CrashPoint_formula:
  assumes L: "libs_ok L"
  shows "if bust_word s c n mod 100 < 3 then CalculateCrashPoint L s c n = 1
    else if round_r s c n = 0 then CalculateCrashPoint L s c n = 10000
    else (let x = 2 ^ 52 / of_nat (round_r s c n) in
      CalculateCrashPoint L s c n \<le> x * (1 + 1 / 2 ^ 51) \<and>
      (CalculateCrashPoint L s c n = 10000 \<or> x * (1 - 1 / 2 ^ 51) - 1 / 100 < CalculateCrashPoint L s c n))"
proof -
  have *: "crash_of L r \<le> 2 ^ 52 / of_nat r * (1 + 1 / 2 ^ 51) \<and>
      (crash_of L r = 10000 \<or> 2 ^ 52 / of_nat r * (1 - 1 / 2 ^ 51) - 1 / 100 < crash_of L r)"
    if r: "0 < r" "r < 2 ^ 52" for r
  proof -
    have "of_int (raw_cents r) / 100 \<le> (2 ^ 52 / of_nat r * (1 + 1 / 2 ^ 51) :: rat)"
      "(2 ^ 52 / of_nat r * (1 - 1 / 2 ^ 51) - 1 / 100 :: rat) < of_int (raw_cents r) / 100"
      using raw_cents_close [OF r(1)] by (simp_all add: field_simps)
    then show ?thesis unfolding crash_of_eq [OF L r] by (auto simp: min_def)
  qed
  consider "bust_word s c n mod 100 < 3" | "\<not> bust_word s c n mod 100 < 3" "round_r s c n = 0"
    | "\<not> bust_word s c n mod 100 < 3" "0 < round_r s c n" by blast
  then show ?thesis
  proof cases
    case 3
    from 3(2) have "round_r s c n \<noteq> 0" by simp
    with * [OF 3(2) round_r_less] 3(1) show ?thesis
      by (simp only: CalculateCrashPoint_cases Let_def if_False simp_thms)
  qed (simp_all add: CalculateCrashPoint_cases)
qed

theorem CrashPoint_formula_witness:
  "if bust_word ''ab'' '''' 1 mod 100 < 3 then CalculateCrashPoint std_libs ''ab'' '''' 1 = 1
   else if round_r ''ab'' '''' 1 = 0 then CalculateCrashPoint std_libs ''ab'' '''' 1 = 10000
   else CalculateCrashPoint std_libs ''ab'' '''' 1 \<le> 2 ^ 52 / of_nat (round_r ''ab'' '''' 1) * (1 + 1 / 2 ^ 51)"
  using CrashPoint_formula [OF std_libs_ok, of "''ab''" "''''" 1] by (auto simp: Let_def split: if_splits)

text \<open>The published hash pins the seed down to a SHA-256 collision.\<close>

lemma commitment_binding:
  "HashServerSeed s = HashServerSeed s' \<Longrightarrow> Sum256 (string_bytes s) = Sum256 (string_bytes s')"
  by (auto simp: HashServerSeed_def dest: hex_encode_inj)

end
