(* ===== verification/CrashGame.thy ===== *)
theory CrashGame
  imports GameBets ProvablyFair Tax
begin

text \<open>
  \<open>internal/core/usecase/games\<close>: the crash game engine. Its state is a record; the manager
  goroutine (\<open>Run\<close>) and the goroutines started by \<open>go e.gameLoop\<close> are the rules of a step
  relation, interleaved arbitrarily at the granularity of a handler, a tick or a crash check.

  \<open>CrashEnv\<close> is what the outside contributes to one step: successive clock readings,
  identifiers, the random seed bytes, and the faults of successive database calls. The command
  channel has the capacity of the code; a send on the full channel blocks the sender.
\<close>

datatype command = START | STOP | CRASH

record GameState =
  gs_GameID :: uuid
  gs_RoundNumber :: int
  gs_Status :: GameStatus
  gs_CurrentOdds :: decimal
  gs_MaxOdds :: decimal
  gs_StartedAt :: time
  gs_ActivePlayers :: int
  gs_IsCrashed :: bool
  gs_CrashOdds :: decimal

record BetRequest =
  br_GameID :: uuid
  br_UserID :: uuid
  br_Amount :: decimal
  br_AutoCashoutAt :: "decimal option"

record CashoutRequest =
  cr_BetID :: uuid
  cr_UserID :: uuid

record CashoutResponse =
  cs_Success :: bool
  cs_Message :: string
  cs_CashoutOdds :: decimal
  cs_Payout :: decimal

text \<open>
  A game loop has not yet read the crash point, is about to tick, or is about to check. The
  context of its round may have been cancelled.
\<close>

datatype loop_pc = AtStart | AtTick decimal | AtCheck decimal

record GameLoop =
  lp_id :: nat
  lp_pc :: loop_pc
  lp_cancelled :: bool

record CrashGameEngine =
  e_currentGame :: "Game option"
  e_roundNumber :: int
  e_commandChan :: "command list"
  e_gameCancel :: "nat option"
  e_latestState :: "GameState option"
  e_broadcasts :: "GameState list"
  e_loops :: "GameLoop list"
  e_nextLoop :: nat
  e_managerBlocked :: bool
  e_panicked :: bool
  e_db :: db

record CrashEnv =
  ce_now :: "nat \<Rightarrow> time"
  ce_id :: "nat \<Rightarrow> uuid"
  ce_rand :: "bytes option"
  ce_faults :: "nat \<Rightarrow> faults"
  ce_players :: int

definition chan_capacity :: nat where "chan_capacity = 10"

definition NewCrashGameEngine :: "db \<Rightarrow> CrashGameEngine" where
  "NewCrashGameEngine s = \<lparr>e_currentGame = None, e_roundNumber = 0, e_commandChan = [],
     e_gameCancel = None, e_latestState = None, e_broadcasts = [], e_loops = [], e_nextLoop = 0,
     e_managerBlocked = False, e_panicked = False, e_db = s\<rparr>"

definition empty_state :: "GameStatus \<Rightarrow> GameState" where
  "empty_state st = \<lparr>gs_GameID = 0, gs_RoundNumber = 0, gs_Status = st, gs_CurrentOdds = 0,
     gs_MaxOdds = 0, gs_StartedAt = 0, gs_ActivePlayers = 0, gs_IsCrashed = False, gs_CrashOdds = 0\<rparr>"

section \<open>Odds\<close>

definition calculateCurrentOdds :: "libs \<Rightarrow> time \<Rightarrow> time \<Rightarrow> decimal" where
  "calculateCurrentOdds L now startedAt =
     (let elapsed = go_quot (now - startedAt) Millisecond;
          seconds = dec_div L (of_int elapsed) 1000
      in 1 + seconds * (1 / 10))"

definition getCurrentOdds :: "libs \<Rightarrow> time \<Rightarrow> CrashGameEngine \<Rightarrow> decimal" where
  "getCurrentOdds L now e =
     (case e_currentGame e of None \<Rightarrow> 1 | Some g \<Rightarrow> calculateCurrentOdds L now (game_StartedAt g))"

definition getGameState :: "libs \<Rightarrow> CrashEnv \<Rightarrow> CrashGameEngine \<Rightarrow> GameState" where
  "getGameState L env e =
     (case e_latestState e of
        Some st \<Rightarrow> st
      | None \<Rightarrow>
          (case e_currentGame e of
             None \<Rightarrow> empty_state GameStatusWaiting
           | Some g \<Rightarrow> (empty_state (game_Status g))\<lparr>gs_GameID := game_ID g,
               gs_RoundNumber := e_roundNumber e, gs_StartedAt := game_StartedAt g,
               gs_CurrentOdds := calculateCurrentOdds L (ce_now env 0) (game_StartedAt g),
               gs_ActivePlayers := ce_players env\<rparr>))"

definition running :: "Game option \<Rightarrow> bool" where
  "running g = (case g of None \<Rightarrow> False | Some g \<Rightarrow> game_Status g = GameStatusRunning)"

section \<open>Settlement\<close>

text \<open>One iteration of the loop over active bets: the database after it.\<close>

definition auto_cashout_one :: "libs \<Rightarrow> Engine \<Rightarrow> faults \<Rightarrow> time \<Rightarrow> uuid \<Rightarrow> decimal \<Rightarrow> db \<Rightarrow> GameBet \<Rightarrow> db" where
  "auto_cashout_one L tx f now tid currentOdds s bet =
     (case gb_CashoutAt bet of
        None \<Rightarrow> s
      | Some target \<Rightarrow>
          if currentOdds \<ge> target then
            (case ApplyPayoutTax L tx ''KE'' (gb_Amount bet * target) (gb_Amount bet) of
               Inl _ \<Rightarrow> s
             | Inr brk \<Rightarrow> fst (AtomicAutoCashoutWithCredit L f now tid s (gb_ID bet) (gb_UserID bet) target
                               (po_NetPayout brk) ''KE''))
          else s)"

fun auto_cashout_loop :: "libs \<Rightarrow> Engine \<Rightarrow> CrashEnv \<Rightarrow> nat \<Rightarrow> decimal \<Rightarrow> GameBet list \<Rightarrow> db \<Rightarrow> db" where
  "auto_cashout_loop L tx env n odds [] s = s"
| "auto_cashout_loop L tx env n odds (b # bs) s =
     auto_cashout_loop L tx env (Suc n) odds bs
       (auto_cashout_one L tx (ce_faults env n) (ce_now env n) (ce_id env n) odds s b)"

definition checkAutoCashouts :: "libs \<Rightarrow> Engine \<Rightarrow> CrashEnv \<Rightarrow> decimal \<Rightarrow> CrashGameEngine \<Rightarrow> CrashGameEngine" where
  "checkAutoCashouts L tx env currentOdds e =
     (case e_currentGame e of
        None \<Rightarrow> e
      | Some g \<Rightarrow>
          (case GetActiveByGame (ce_faults env 0) (e_db e) (game_ID g) of
             Inl _ \<Rightarrow> e
           | Inr bs \<Rightarrow> e\<lparr>e_db := auto_cashout_loop L tx env 1 currentOdds bs (e_db e)\<rparr>))"

fun settle_loop :: "CrashEnv \<Rightarrow> nat \<Rightarrow> GameBet list \<Rightarrow> db \<Rightarrow> db" where
  "settle_loop env n [] s = s"
| "settle_loop env n (b # bs) s =
     settle_loop env (Suc n) bs (fst (GameBetRepository_UpdateStatus (ce_faults env n) s (gb_ID b) GameBetStatusLost))"

definition settleBets :: "CrashEnv \<Rightarrow> CrashGameEngine \<Rightarrow> CrashGameEngine" where
  "settleBets env e =
     (case e_currentGame e of
        None \<Rightarrow> e
      | Some g \<Rightarrow>
          (case GetActiveByGame (ce_faults env 1) (e_db e) (game_ID g) of
             Inl _ \<Rightarrow> e
           | Inr bs \<Rightarrow> e\<lparr>e_db := settle_loop env 2 bs (e_db e)\<rparr>))"

section \<open>Ticks and crashes\<close>

definition broadcast :: "GameState \<Rightarrow> CrashGameEngine \<Rightarrow> CrashGameEngine" where
  "broadcast st e = e\<lparr>e_broadcasts := e_broadcasts e @ [st]\<rparr>"

text \<open>\<open>tick\<close>; \<open>None\<close> when the send of \<open>CRASH\<close> blocks because the channel is full.\<close>

definition tick :: "libs \<Rightarrow> Engine \<Rightarrow> CrashEnv \<Rightarrow> CrashGameEngine \<Rightarrow> CrashGameEngine option" where
  "tick L tx env e =
     (case e_currentGame e of
        None \<Rightarrow> Some e
      | Some g \<Rightarrow>
          if game_Status g \<noteq> GameStatusRunning then Some e
          else
            let currentOdds = calculateCurrentOdds L (ce_now env 0) (game_StartedAt g);
                maxOdds = dec_div L (game_CrashPoint g) 100 in
            if currentOdds \<ge> maxOdds then
              (if length (e_commandChan e) < chan_capacity
               then Some (e\<lparr>e_commandChan := e_commandChan e @ [CRASH]\<rparr>) else None)
            else
              let e1 = checkAutoCashouts L tx env currentOdds e;
                  st = (empty_state (game_Status g))\<lparr>gs_GameID := game_ID g, gs_RoundNumber := e_roundNumber e1,
                    gs_StartedAt := game_StartedAt g, gs_CurrentOdds := currentOdds, gs_MaxOdds := maxOdds,
                    gs_ActivePlayers := ce_players env\<rparr>
              in Some (broadcast st (e1\<lparr>e_latestState := Some st\<rparr>)))"

definition shouldCrash :: "libs \<Rightarrow> time \<Rightarrow> decimal \<Rightarrow> CrashGameEngine \<Rightarrow> bool" where
  "shouldCrash L now crashPoint e =
     (case e_currentGame e of
        None \<Rightarrow> True
      | Some g \<Rightarrow> if game_Status g \<noteq> GameStatusRunning then True
                   else calculateCurrentOdds L now (game_StartedAt g) \<ge> crashPoint)"

definition crashGame :: "CrashEnv \<Rightarrow> decimal \<Rightarrow> CrashGameEngine \<Rightarrow> CrashGameEngine" where
  "crashGame env crashOdds e =
     (case e_currentGame e of
        None \<Rightarrow> e
      | Some g \<Rightarrow>
          let g' = g\<lparr>game_Status := GameStatusCrashed, game_CrashedAt := Some (ce_now env 1)\<rparr>;
              e1 = e\<lparr>e_currentGame := Some g'\<rparr>;
              e2 = e1\<lparr>e_db := fst (GameRepository_UpdateStatus (ce_faults env 0) (ce_now env 2) (e_db e1)
                                   (game_ID g') GameStatusCrashed)\<rparr>;
              st = (empty_state GameStatusCrashed)\<lparr>gs_GameID := game_ID g', gs_CrashOdds := crashOdds,
                     gs_IsCrashed := True\<rparr>;
              e3 = broadcast st e2
          in e3\<lparr>e_currentGame := None\<rparr>)"

text \<open>Calling the cancel function of a round marks its loop; calling it again has no effect.\<close>

definition cancel_loop :: "CrashGameEngine \<Rightarrow> CrashGameEngine" where
  "cancel_loop e =
     (case e_gameCancel e of
        None \<Rightarrow> e
      | Some k \<Rightarrow> e\<lparr>e_loops := map (\<lambda>l. if lp_id l = k then l\<lparr>lp_cancelled := True\<rparr> else l) (e_loops e)\<rparr>)"

definition crashGameInternal :: "libs \<Rightarrow> CrashEnv \<Rightarrow> CrashGameEngine \<Rightarrow> CrashGameEngine" where
  "crashGameInternal L env e =
     (case e_currentGame e of
        None \<Rightarrow> e
      | Some g \<Rightarrow>
          let currentOdds = calculateCurrentOdds L (ce_now env 0) (game_StartedAt g);
              e1 = crashGame env currentOdds e;
              e2 = settleBets env e1;
              st = empty_state GameStatusWaiting;
              e3 = broadcast st (e2\<lparr>e_latestState := Some st\<rparr>);
              e4 = (cancel_loop e3)\<lparr>e_gameCancel := None\<rparr>
          in e4\<lparr>e_currentGame := None\<rparr>)"

definition stopGameInternal :: "CrashGameEngine \<Rightarrow> CrashGameEngine" where
  "stopGameInternal e = (cancel_loop e)\<lparr>e_gameCancel := None, e_currentGame := None\<rparr>"

section \<open>Rounds\<close>

definition createGame :: "libs \<Rightarrow> CrashEnv \<Rightarrow> int \<Rightarrow> db \<Rightarrow> db \<times> Game option" where
  "createGame L env roundNumber s =
     (case GenerateServerSeed (ce_rand env) of
        None \<Rightarrow> (s, None)
      | Some seed \<Rightarrow>
          let g = \<lparr>game_ID = ce_id env 0, game_GameType = GameTypeCrash, game_RoundNumber = roundNumber,
                game_ServerSeed = seed, game_ServerSeedHash = HashServerSeed seed, game_ClientSeed = '''',
                game_CrashPoint = CalculateCrashPoint L seed '''' roundNumber,
                game_Status = GameStatusRunning, game_StartedAt = ce_now env 0, game_CrashedAt = None,
                game_CountryCode = '''', game_MinBet = 0, game_MaxBet = 0, game_MaxMultiplier = 0\<rparr>
          in case GameRepository_Create L (ce_faults env 0) s g of
               (s', Inl _) \<Rightarrow> (s', None)
             | (s', Inr _) \<Rightarrow> (s', Some g))"

definition startGameInternal :: "libs \<Rightarrow> CrashEnv \<Rightarrow> CrashGameEngine \<Rightarrow> CrashGameEngine" where
  "startGameInternal L env e =
     (let e1 = cancel_loop e;
          n = e_roundNumber e1 + 1;
          e2 = e1\<lparr>e_roundNumber := n\<rparr>;
          (s', created) = createGame L env n (e_db e2);
          e3 = e2\<lparr>e_db := s'\<rparr>
      in case created of
           None \<Rightarrow> e3
         | Some g \<Rightarrow>
             let k = e_nextLoop e3;
                 st = (empty_state GameStatusRunning)\<lparr>gs_GameID := game_ID g, gs_RoundNumber := n,
                        gs_StartedAt := game_StartedAt g, gs_CurrentOdds := 1,
                        gs_MaxOdds := dec_div L (game_CrashPoint g) 100\<rparr>
             in broadcast st (e3\<lparr>e_currentGame := Some g, e_gameCancel := Some k, e_nextLoop := Suc k,
                  e_loops := e_loops e3 @ [\<lparr>lp_id = k, lp_pc = AtStart, lp_cancelled = False\<rparr>],
                  e_latestState := Some st\<rparr>))"

definition handleCommand :: "libs \<Rightarrow> CrashEnv \<Rightarrow> command \<Rightarrow> CrashGameEngine \<Rightarrow> CrashGameEngine" where
  "handleCommand L env cmd e =
     (case cmd of
        START \<Rightarrow> startGameInternal L env e
      | CRASH \<Rightarrow> crashGameInternal L env e
      | STOP \<Rightarrow> stopGameInternal e)"

section \<open>Requests\<close>

datatype bet_reply = BetPlaced | GameNotActive | BetFailed game_db_error

definition new_game_bet :: "CrashEnv \<Rightarrow> BetRequest \<Rightarrow> Game \<Rightarrow> GameBet" where
  "new_game_bet env req g = \<lparr>gb_ID = ce_id env 0, gb_GameID = game_ID g, gb_UserID = br_UserID req,
     gb_Amount = br_Amount req, gb_Currency = '''', gb_CashedOut = False, gb_CashoutAt = None,
     gb_Payout = 0, gb_Status = GameBetStatusActive, gb_PlacedAt = ce_now env 0, gb_CashedOutAt = None\<rparr>"

definition handlePlaceBet :: "libs \<Rightarrow> CrashEnv \<Rightarrow> BetRequest \<Rightarrow> CrashGameEngine \<Rightarrow> CrashGameEngine \<times> bet_reply" where
  "handlePlaceBet L env req e =
     (case e_currentGame e of
        None \<Rightarrow> (e, GameNotActive)
      | Some g \<Rightarrow>
          if game_Status g \<noteq> GameStatusRunning then (e, GameNotActive)
          else
            let bet = new_game_bet env req g
            in case CreateBetWithWalletUpdate L (ce_faults env 0) (ce_now env 1) (ce_id env 1) (e_db e) bet
                      (br_UserID req) (br_Amount req) of
                 (s', Inl err) \<Rightarrow> (e\<lparr>e_db := s'\<rparr>, BetFailed err)
               | (s', Inr _) \<Rightarrow> (e\<lparr>e_db := s'\<rparr>, BetPlaced))"

definition cashout_failed :: "string \<Rightarrow> CashoutResponse" where
  "cashout_failed msg = \<lparr>cs_Success = False, cs_Message = msg, cs_CashoutOdds = 0, cs_Payout = 0\<rparr>"

definition handleCashout :: "libs \<Rightarrow> CrashEnv \<Rightarrow> CashoutRequest \<Rightarrow> CrashGameEngine \<Rightarrow> CrashGameEngine \<times> CashoutResponse" where
  "handleCashout L env req e =
     (case e_currentGame e of
        None \<Rightarrow> (e, cashout_failed ''No active game'')
      | Some g \<Rightarrow>
          let currentOdds = getCurrentOdds L (ce_now env 0) e in
          case GameBetRepository_GetByID (ce_faults env 0) (e_db e) (cr_BetID req) of
            Inl _ \<Rightarrow> (e, cashout_failed ''Bet not found'')
          | Inr bet \<Rightarrow>
              let payout = gb_Amount bet * currentOdds in
              case AtomicCashout L (ce_faults env 1) (ce_now env 1) (e_db e) (cr_BetID req) currentOdds payout of
                (s', Inl _) \<Rightarrow> (e\<lparr>e_db := s'\<rparr>, cashout_failed ''Database error during cashout'')
              | (s', Inr success) \<Rightarrow>
                  if \<not> success then (e\<lparr>e_db := s'\<rparr>, cashout_failed ''Bet already cashed out or not found'')
                  else (e\<lparr>e_db := s'\<rparr>, \<lparr>cs_Success = True, cs_Message = ''Cashout processed'',
                         cs_CashoutOdds = currentOdds, cs_Payout = payout\<rparr>))"

text \<open>
  The public calls check the request and hand it to the manager. A call that is accepted may still
  time out before or after the manager has served it; \<open>served\<close> says which happened.
\<close>

datatype delivery = Served | LostInTransit | ServedTooLate

definition amount_allowed :: "BetRequest \<Rightarrow> bool" where
  "amount_allowed req \<longleftrightarrow> \<not> (br_Amount req < 10 \<or> br_Amount req > 10000)"

definition CrashPlaceBet ::
  "libs \<Rightarrow> CrashEnv \<Rightarrow> delivery \<Rightarrow> BetRequest \<Rightarrow> CrashGameEngine \<Rightarrow> CrashGameEngine \<times> bool" where
  "CrashPlaceBet L env d req e =
     (if \<not> amount_allowed req then (e, False)
      else case d of
        LostInTransit \<Rightarrow> (e, False)
      | ServedTooLate \<Rightarrow> (fst (handlePlaceBet L env req e), False)
      | Served \<Rightarrow> (case handlePlaceBet L env req e of (e', r) \<Rightarrow> (e', r = BetPlaced)))"

definition StartGame :: "CrashGameEngine \<Rightarrow> CrashGameEngine \<times> bool" where
  "StartGame e =
     (if running (e_currentGame e) then (e, False)
      else if length (e_commandChan e) < chan_capacity
      then (e\<lparr>e_commandChan := e_commandChan e @ [START]\<rparr>, True) else (e, False))"

section \<open>The engine as a transition system\<close>

text \<open>
  \<open>gameLoop\<close>: the loop reads the crash point of whatever game is current when it starts, which
  dereferences a nil pointer if there is none. Then it alternates ticks and checks until a check
  succeeds or it sees that its context is cancelled.
\<close>

definition loop_start :: "nat \<Rightarrow> CrashGameEngine \<Rightarrow> CrashGameEngine" where
  "loop_start k e =
     (case e_currentGame e of
        None \<Rightarrow> e\<lparr>e_panicked := True\<rparr>
      | Some g \<Rightarrow> e\<lparr>e_loops := (e_loops e)[k := (e_loops e ! k)\<lparr>lp_pc := AtTick (game_CrashPoint g)\<rparr>]\<rparr>)"

definition loop_tick :: "libs \<Rightarrow> Engine \<Rightarrow> CrashEnv \<Rightarrow> nat \<Rightarrow> decimal \<Rightarrow> CrashGameEngine \<Rightarrow> CrashGameEngine option" where
  "loop_tick L tx env k cp e =
     map_option (\<lambda>e'. e'\<lparr>e_loops := (e_loops e')[k := (e_loops e' ! k)\<lparr>lp_pc := AtCheck cp\<rparr>]\<rparr>) (tick L tx env e)"

definition loop_end :: "nat \<Rightarrow> CrashGameEngine \<Rightarrow> CrashGameEngine" where
  "loop_end k e = e\<lparr>e_loops := take k (e_loops e) @ drop (Suc k) (e_loops e)\<rparr>"

definition loop_check :: "libs \<Rightarrow> CrashEnv \<Rightarrow> nat \<Rightarrow> decimal \<Rightarrow> CrashGameEngine \<Rightarrow> CrashGameEngine" where
  "loop_check L env k cp e =
     (if shouldCrash L (ce_now env 0) cp e then loop_end k (crashGame env cp e)
      else e\<lparr>e_loops := (e_loops e)[k := (e_loops e ! k)\<lparr>lp_pc := AtTick cp\<rparr>]\<rparr>)"

inductive crash_step :: "libs \<Rightarrow> Engine \<Rightarrow> CrashGameEngine \<Rightarrow> CrashGameEngine \<Rightarrow> bool" for L tx where
  request_start: "crash_step L tx e (fst (StartGame e))"
| manager_bet: "\<not> e_managerBlocked e \<Longrightarrow> crash_step L tx e (fst (CrashPlaceBet L env d req e))"
| manager_cashout: "\<not> e_managerBlocked e \<Longrightarrow> crash_step L tx e (fst (handleCashout L env req e))"
| manager_command: "\<not> e_managerBlocked e \<Longrightarrow> e_commandChan e = cmd # cmds \<Longrightarrow>
    crash_step L tx e (handleCommand L env cmd (e\<lparr>e_commandChan := cmds\<rparr>))"
| manager_tick: "\<not> e_managerBlocked e \<Longrightarrow> tick L tx env e = Some e' \<Longrightarrow> crash_step L tx e e'"
| manager_blocks: "\<not> e_managerBlocked e \<Longrightarrow> tick L tx env e = None \<Longrightarrow>
    crash_step L tx e (e\<lparr>e_managerBlocked := True\<rparr>)"
| manager_unblocks: "e_managerBlocked e \<Longrightarrow> length (e_commandChan e) < chan_capacity \<Longrightarrow>
    crash_step L tx e (e\<lparr>e_managerBlocked := False, e_commandChan := e_commandChan e @ [CRASH]\<rparr>)"
| loop_starts: "k < length (e_loops e) \<Longrightarrow> lp_pc (e_loops e ! k) = AtStart \<Longrightarrow> crash_step L tx e (loop_start k e)"
| loop_ticks: "k < length (e_loops e) \<Longrightarrow> lp_pc (e_loops e ! k) = AtTick cp \<Longrightarrow>
    loop_tick L tx env k cp e = Some e' \<Longrightarrow> crash_step L tx e e'"
| loop_checks: "k < length (e_loops e) \<Longrightarrow> lp_pc (e_loops e ! k) = AtCheck cp \<Longrightarrow>
    crash_step L tx e (loop_check L env k cp e)"
| loop_exits: "k < length (e_loops e) \<Longrightarrow> lp_pc (e_loops e ! k) = AtTick cp \<Longrightarrow> lp_cancelled (e_loops e ! k) \<Longrightarrow>
    crash_step L tx e (loop_end k e)"

inductive_cases crash_stepE: "crash_step L tx e e'"

section \<open>Invariants\<close>

text \<open>The stored round is verifiable: commitment and crash point are those of its seed.\<close>

definition fair_game :: "libs \<Rightarrow> Game \<Rightarrow> bool" where
  "fair_game L g \<longleftrightarrow> game_ServerSeedHash g = HashServerSeed (game_ServerSeed g) \<and>
     game_ClientSeed g = '''' \<and>
     VerifyCrashPoint L (game_ServerSeed g) (game_ClientSeed g) (game_RoundNumber g) (game_CrashPoint g)"

definition game_bet_ok :: "GameBet \<Rightarrow> bool" where
  "game_bet_ok b \<longleftrightarrow> 10 \<le> gb_Amount b \<and> gb_Status b \<noteq> GameBetStatusLost \<and>
     (gb_Status b = GameBetStatusActive \<longrightarrow> gb_CashoutAt b = None)"

definition db_inv :: "libs \<Rightarrow> db \<Rightarrow> bool" where
  "db_inv L s \<longleftrightarrow> wallets_ok s \<and> (\<forall>g \<in> set (games s). fair_game L g) \<and> (\<forall>b \<in> set (game_bets s). game_bet_ok b)"

definition engine_inv :: "libs \<Rightarrow> CrashGameEngine \<Rightarrow> bool" where
  "engine_inv L e \<longleftrightarrow> db_inv L (e_db e) \<and>
     (\<forall>n \<in> set (map game_RoundNumber (games (e_db e))). n \<le> e_roundNumber e) \<and>
     distinct (map game_RoundNumber (games (e_db e))) \<and>
     (\<forall>g. e_currentGame e = Some g \<longrightarrow> game_Status g = GameStatusRunning \<and> game_ID g \<in> game_ID ` set (games (e_db e)))"

text \<open>What one step may do: keep the invariant, never lower the round number, never pay anyone.\<close>

definition advances :: "libs \<Rightarrow> CrashGameEngine \<Rightarrow> CrashGameEngine \<Rightarrow> bool" where
  "advances L e e' \<longleftrightarrow> engine_inv L e' \<and> e_roundNumber e \<le> e_roundNumber e' \<and>
     (\<forall>u. user_balance (e_db e') u \<le> user_balance (e_db e) u)"

lemma advances_trans: "advances L e e' \<Longrightarrow> advances L e' e'' \<Longrightarrow> advances L e e''"
  unfolding advances_def by (meson order_trans)

lemma advances_refl: "engine_inv L e \<Longrightarrow> advances L e e"
  by (simp add: advances_def)

text \<open>A step that touches neither the database nor the rounds.\<close>

lemma advances_same:
  assumes "engine_inv L e" "e_db e' = e_db e" "e_roundNumber e' = e_roundNumber e"
    "e_currentGame e' = e_currentGame e \<or> e_currentGame e' = None"
  shows "advances L e e'"
  using assms by (auto simp: advances_def engine_inv_def)

lemma auto_cashout_loop_id:
  "\<forall>b \<in> set bs. gb_CashoutAt b = None \<Longrightarrow> auto_cashout_loop L tx env n odds bs s = s"
  by (induction bs arbitrary: n) (auto simp: auto_cashout_one_def)

lemma checkAutoCashouts_id:
  assumes "\<forall>b \<in> set (game_bets (e_db e)). game_bet_ok b" shows "checkAutoCashouts L tx env odds e = e"
proof (cases "e_currentGame e")
  case (Some g)
  have "gb_CashoutAt b = None"
    if "b \<in> set (filter (\<lambda>b. gb_GameID b = game_ID g \<and> gb_Status b = GameBetStatusActive) (game_bets (e_db e)))" for b
    using that assms by (auto simp: game_bet_ok_def)
  then show ?thesis using Some
    by (simp add: checkAutoCashouts_def GetActiveByGame_def auto_cashout_loop_id)
qed (simp add: checkAutoCashouts_def)

lemma tick_advances:
  assumes "engine_inv L e" "tick L tx env e = Some e'"
  shows "advances L e e'" "e_loops e' = e_loops e"
proof -
  have db: "\<forall>b \<in> set (game_bets (e_db e)). game_bet_ok b" using assms(1) by (simp add: engine_inv_def db_inv_def)
  have "e_db e' = e_db e \<and> e_roundNumber e' = e_roundNumber e \<and> e_currentGame e' = e_currentGame e \<and>
      e_loops e' = e_loops e"
    using assms(2) unfolding tick_def Let_def checkAutoCashouts_id [OF db]
    by (auto simp: broadcast_def split: option.splits if_splits)
  then show "advances L e e'" "e_loops e' = e_loops e" using advances_same [OF assms(1)] by simp_all
qed

lemma user_balance_wallets: "wallets s' = wallets s \<Longrightarrow> user_balance s' = user_balance s"
  by (rule ext) (simp add: user_balance_def user_wallet_def)

lemma wallets_ok_wallets: "wallets s' = wallets s \<Longrightarrow> wallets_ok s' = wallets_ok s"
  by (simp add: wallets_ok_def)

lemma fair_game_status [simp]: "fair_game L (g\<lparr>game_Status := st, game_CrashedAt := c\<rparr>) = fair_game L g"
  by (simp add: fair_game_def)

lemma UpdateStatus_db:
  assumes "GameRepository_UpdateStatus f now s i st = (s', r)"
  shows "wallets s' = wallets s" "game_bets s' = game_bets s"
    "(\<forall>g \<in> set (games s). fair_game L g) \<Longrightarrow> \<forall>g \<in> set (games s'). fair_game L g"
    "map game_RoundNumber (games s') = map game_RoundNumber (games s)"
  using assms
  by (auto simp: GameRepository_UpdateStatus_def Let_def set_update_where update_where_def split: if_splits)

lemma crashGame_fields:
  "e_currentGame (crashGame env odds e) = None" "e_roundNumber (crashGame env odds e) = e_roundNumber e"
  "e_loops (crashGame env odds e) = e_loops e"
  by (auto simp: crashGame_def Let_def broadcast_def split: option.splits)

lemma crashGame_advances:
  assumes "engine_inv L e" shows "advances L e (crashGame env odds e)"
proof (cases "e_currentGame e")
  case None
  then show ?thesis using assms by (simp add: crashGame_def advances_refl)
next
  case (Some g)
  obtain s' r where u: "GameRepository_UpdateStatus (ce_faults env 0) (ce_now env 2) (e_db e) (game_ID g) GameStatusCrashed = (s', r)"
    by fastforce
  have db: "e_db (crashGame env odds e) = s'"
    using u by (simp add: crashGame_def Some Let_def broadcast_def)
  note k = UpdateStatus_db [OF u]
  have i: "db_inv L (e_db e)" "\<forall>n \<in> set (map game_RoundNumber (games (e_db e))). n \<le> e_roundNumber e"
      "distinct (map game_RoundNumber (games (e_db e)))"
    using assms unfolding engine_inv_def by blast+
  have "db_inv L s'" using i(1) k(2) k(3) [of L] wallets_ok_wallets [OF k(1)] by (simp add: db_inv_def)
  then show ?thesis using i(2,3) user_balance_wallets [OF k(1)]
    unfolding advances_def engine_inv_def db crashGame_fields k(4) by simp
qed

lemma settleBets_None: "e_currentGame e = None \<Longrightarrow> settleBets env e = e"
  by (simp add: settleBets_def)

lemma cancel_loop_fields [simp]:
  "e_currentGame (cancel_loop e) = e_currentGame e" "e_db (cancel_loop e) = e_db e"
  "e_roundNumber (cancel_loop e) = e_roundNumber e"
  by (simp_all add: cancel_loop_def split: option.splits)

lemma crashGameInternal_advances:
  assumes "engine_inv L e" shows "advances L e (crashGameInternal L env e)"
proof (cases "e_currentGame e")
  case None
  then show ?thesis using assms by (simp add: crashGameInternal_def advances_refl)
next
  case (Some g)
  let ?e1 = "crashGame env (calculateCurrentOdds L (ce_now env 0) (game_StartedAt g)) e"
  have a: "advances L e ?e1" by (rule crashGame_advances [OF assms])
  have "settleBets env ?e1 = ?e1" by (rule settleBets_None [OF crashGame_fields(1)])
  then have "advances L ?e1 (crashGameInternal L env e)"
    using a by (intro advances_same) (simp_all add: advances_def crashGameInternal_def Some Let_def broadcast_def)
  with a show ?thesis by (rule advances_trans)
qed

lemma has_scale_Suc: "has_scale k x \<Longrightarrow> has_scale (Suc k) x"
proof -
  assume "has_scale k x"
  then obtain n where "x * 10 ^ k = of_int n" by (blast dest: has_scaleE)
  then have "x * 10 ^ Suc k = of_int (n * 10)" by (simp add: mult.left_commute mult.commute)
  then show ?thesis by (rule has_scaleI)
qed

lemma createGame_db:
  assumes L: "libs_ok L" and c: "createGame L env n s = (s', created)"
  obtains "created = None" "s' = s"
  | g row where "created = Some g" "s' = s\<lparr>games := games s @ [row]\<rparr>" "fair_game L row"
      "game_RoundNumber row = n" "game_ID row = game_ID g" "game_Status g = GameStatusRunning"
proof (cases created)
  case None
  then have "s' = s" using c
    by (auto simp: createGame_def Let_def GameRepository_Create_def split: option.splits prod.splits sum.splits if_splits)
  with None that(1) show thesis by simp
next
  case (Some g)
  then obtain seed row where seed: "GenerateServerSeed (ce_rand env) = Some seed"
    and g: "g = \<lparr>game_ID = ce_id env 0, game_GameType = GameTypeCrash, game_RoundNumber = n,
                game_ServerSeed = seed, game_ServerSeedHash = HashServerSeed seed, game_ClientSeed = '''',
                game_CrashPoint = CalculateCrashPoint L seed '''' n,
                game_Status = GameStatusRunning, game_StartedAt = ce_now env 0, game_CrashedAt = None,
                game_CountryCode = '''', game_MinBet = 0, game_MaxBet = 0, game_MaxMultiplier = 0\<rparr>"
    and row: "game_row L g = Some row" "s' = s\<lparr>games := games s @ [row]\<rparr>"
    using c
    by (auto simp: createGame_def Let_def GameRepository_Create_def split: option.splits prod.splits sum.splits if_splits)
  obtain cp where cp: "odds_col L (game_CrashPoint g) = Some cp" "game_CrashPoint row = cp"
      "game_RoundNumber row = n" "game_ID row = game_ID g" "game_ServerSeed row = seed"
      "game_ServerSeedHash row = HashServerSeed seed" "game_ClientSeed row = ''''"
    using row(1) by (auto simp: game_row_def g split: option.splits)
  have "has_scale 3 (game_CrashPoint g)"
    using crash_point_range [OF L] has_scale_Suc [of 2] by (simp add: g numeral_3_eq_3)
  then have "cp = game_CrashPoint g"
    using cp(1) sql_numeric_exact [OF L] by (auto simp: odds_col_def)
  then have "fair_game L row" using cp by (simp add: fair_game_def VerifyCrashPoint_def g)
  moreover have "game_Status g = GameStatusRunning" by (simp add: g)
  ultimately show thesis using that(2) [OF Some row(2)] cp(3,4) by blast
qed

lemma startGameInternal_advances:
  assumes L: "libs_ok L" and e: "engine_inv L e"
  shows "advances L e (startGameInternal L env e)"
proof -
  obtain s' created where c: "createGame L env (e_roundNumber e + 1) (e_db e) = (s', created)" by fastforce
  have i: "db_inv L (e_db e)" "\<forall>n \<in> set (map game_RoundNumber (games (e_db e))). n \<le> e_roundNumber e"
      "distinct (map game_RoundNumber (games (e_db e)))"
      "\<forall>g. e_currentGame e = Some g \<longrightarrow> game_Status g = GameStatusRunning \<and> game_ID g \<in> game_ID ` set (games (e_db e))"
    using e unfolding engine_inv_def by blast+
  from L c show ?thesis
  proof (cases rule: createGame_db)
    case 1
    have "e_db (startGameInternal L env e) = e_db e \<and> e_currentGame (startGameInternal L env e) = e_currentGame e \<and>
        e_roundNumber (startGameInternal L env e) = e_roundNumber e + 1"
      using c 1 by (simp add: startGameInternal_def Let_def)
    then show ?thesis using i by (auto simp: advances_def engine_inv_def)
  next
    case (2 g row)
    have f: "e_db (startGameInternal L env e) = (e_db e)\<lparr>games := games (e_db e) @ [row]\<rparr>"
        "e_currentGame (startGameInternal L env e) = Some g"
        "e_roundNumber (startGameInternal L env e) = e_roundNumber e + 1"
      using c 2 by (simp_all add: startGameInternal_def Let_def broadcast_def)
    have "e_roundNumber e + 1 \<notin> set (map game_RoundNumber (games (e_db e)))" using i(2) by force
    then show ?thesis using i 2
      by (auto simp: advances_def engine_inv_def db_inv_def f user_balance_def user_wallet_def wallets_ok_def)
  qed
qed

lemma stopGameInternal_advances:
  "engine_inv L e \<Longrightarrow> advances L e (stopGameInternal e)"
  by (rule advances_same) (simp_all add: stopGameInternal_def)

lemma handleCommand_advances:
  "libs_ok L \<Longrightarrow> engine_inv L e \<Longrightarrow> advances L e (handleCommand L env cmd e)"
  by (cases cmd) (simp_all add: handleCommand_def startGameInternal_advances stopGameInternal_advances
      crashGameInternal_advances)

text \<open>A debit of at least one cent never raises a balance, rounding included.\<close>

lemma CreateBet_balance_le:
  assumes L: "libs_ok L" and s: "wallets_ok s" and a: "0 \<le> amount"
    and ok: "CreateBetWithWalletUpdate L f now tid s bet u amount = (s', Inr r)"
  shows "user_balance s' v \<le> user_balance s v"
proof -
  obtain us w vs z row lrow where w: "wallets s = us @ w # vs" "w_UserID w = u"
      "\<forall>v \<in> set us \<union> set vs. w_UserID v \<noteq> u"
    and z: "money_col L (w_Balance w - amount) = Some z"
    and s': "s' = s\<lparr>wallets := us @ w\<lparr>w_Balance := z, w_UpdatedAt := now\<rparr> # vs,
            game_bets := game_bets s @ [row], transactions := transactions s @ [lrow]\<rparr>"
    using ok by (rule CreateBet_Inr)
  have "has_scale 2 (w_Balance w)" using wallets_ok_row [OF s, of w] w(1) by simp
  then have "z \<le> w_Balance w" using money_col_nearest [OF L z] a by (auto intro: nearest_at_le)
  moreover have "user_balance s' = (user_balance s)(w_UserID w := z)"
    using user_balance_replace [OF w(1), of s' "w\<lparr>w_Balance := z, w_UpdatedAt := now\<rparr>"] w(2,3) by (simp add: s')
  moreover have "user_balance s (w_UserID w) = w_Balance w"
    using w by (auto simp: user_balance_def user_wallet_def select_row_append select_row_None
        select_row_Cons split: option.split dest!: select_row_Some)
  ultimately show ?thesis by simp
qed

lemma handlePlaceBet_db:
  assumes "e_currentGame e = Some g" "game_Status g = GameStatusRunning"
  shows "fst (handlePlaceBet L env req e) = e\<lparr>e_db := fst (CreateBetWithWalletUpdate L (ce_faults env 0)
    (ce_now env 1) (ce_id env 1) (e_db e) (new_game_bet env req g) (br_UserID req) (br_Amount req))\<rparr>"
  using assms by (auto simp: handlePlaceBet_def Let_def split: prod.split sum.split)

lemma handlePlaceBet_none:
  assumes "\<not> running (e_currentGame e)" shows "handlePlaceBet L env req e = (e, GameNotActive)"
  using assms by (auto simp: handlePlaceBet_def running_def split: option.splits)

lemma handlePlaceBet_advances:
  assumes L: "libs_ok L" and e: "engine_inv L e" and a: "amount_allowed req"
  shows "advances L e (fst (handlePlaceBet L env req e))"
proof (cases "running (e_currentGame e)")
  case True
  then obtain g where g: "e_currentGame e = Some g" "game_Status g = GameStatusRunning"
    by (auto simp: running_def split: option.splits)
  let ?bet = "new_game_bet env req g"
  have b: "gb_Amount ?bet = br_Amount req" "gb_Status ?bet = GameBetStatusActive" "gb_CashoutAt ?bet = None"
    by (simp_all add: new_game_bet_def)
  obtain s' r where c: "CreateBetWithWalletUpdate L (ce_faults env 0) (ce_now env 1) (ce_id env 1) (e_db e) ?bet
        (br_UserID req) (br_Amount req) = (s', r)" by fastforce
  have h: "fst (handlePlaceBet L env req e) = e\<lparr>e_db := s'\<rparr>" using handlePlaceBet_db [OF g] c by simp
    show ?thesis
    proof (cases r)
      case (Inl err)
      with c have "s' = e_db e" by (auto dest: CreateBet_Inl)
      then show ?thesis using h advances_same [OF e] by simp
    next
      case (Inr x)
      have s: "wallets_ok (e_db e)" using e by (simp add: engine_inv_def db_inv_def)
      have a10: "10 \<le> br_Amount req" using a by (simp add: amount_allowed_def)
      note ok = c [unfolded Inr]
      obtain row where row: "game_bet_row L ?bet = Some row" "game_bets s' = game_bets (e_db e) @ [row]"
        using CreateBet_books(4) [OF L s ok] by blast
      obtain am where am: "money_col L (br_Amount req) = Some am" "gb_Amount row = am"
          "gb_Status row = GameBetStatusActive" "gb_CashoutAt row = None"
        using row(1) b by (auto simp: game_bet_row_def opt_col_def split: option.splits)
      have "10 \<le> am"
        using money_col_nearest [OF L am(1)] a10 has_scale_of_int [of 2 10] by (auto intro: nearest_at_ge)
      then have "game_bet_ok row" using am by (simp add: game_bet_ok_def)
      then show ?thesis
        using e CreateBet_books(1,5) [OF L s ok] CreateBet_balance_le [OF L s _ ok] a10 row(2)
        unfolding h by (auto simp: advances_def engine_inv_def db_inv_def)
    qed
qed (simp add: handlePlaceBet_none advances_refl [OF e])

lemma game_bet_ok_cashed_out [simp]: "game_bet_ok b \<Longrightarrow> game_bet_ok (cashed_out now c p b)"
  by (simp add: game_bet_ok_def cashed_out_def)

lemma AtomicCashout_frame:
  "wallets (fst (AtomicCashout L f now s i c p)) = wallets s"
  "games (fst (AtomicCashout L f now s i c p)) = games s"
  by (simp_all add: AtomicCashout_def Let_def split: option.split)

lemma handleCashout_db:
  "fst (handleCashout L env req e) = e \<or>
   (\<exists>odds p. fst (handleCashout L env req e) = e\<lparr>e_db := fst (AtomicCashout L (ce_faults env 1) (ce_now env 1)
      (e_db e) (cr_BetID req) odds p)\<rparr>)"
proof (cases "e_currentGame e")
  case (Some g)
  let ?odds = "getCurrentOdds L (ce_now env 0) e"
  show ?thesis
  proof (cases "GameBetRepository_GetByID (ce_faults env 0) (e_db e) (cr_BetID req)")
    case (Inr bet)
    obtain s' r where a: "AtomicCashout L (ce_faults env 1) (ce_now env 1) (e_db e) (cr_BetID req) ?odds
        (gb_Amount bet * ?odds) = (s', r)" by fastforce
    then have "fst (handleCashout L env req e) = e\<lparr>e_db := s'\<rparr>"
      using Some Inr by (cases r) (simp_all add: handleCashout_def Let_def)
    then show ?thesis using a by (metis fst_conv)
  qed (simp add: handleCashout_def Some)
qed (simp add: handleCashout_def)

lemma handleCashout_advances:
  assumes e: "engine_inv L e"
  shows "advances L e (fst (handleCashout L env req e))"
  using handleCashout_db [of L env req e]
proof (elim disjE exE)
  fix odds p
  let ?s = "fst (AtomicCashout L (ce_faults env 1) (ce_now env 1) (e_db e) (cr_BetID req) odds p)"
  assume h: "fst (handleCashout L env req e) = e\<lparr>e_db := ?s\<rparr>"
  have i: "\<forall>b \<in> set (game_bets (e_db e)). game_bet_ok b" using e by (simp add: engine_inv_def db_inv_def)
  obtain c' p' where u: "game_bets ?s = game_bets (e_db e) \<or> game_bets ?s =
      update_where (\<lambda>b. gb_ID b = cr_BetID req \<and> gb_Status b = GameBetStatusActive)
        (cashed_out (ce_now env 1) c' p') (game_bets (e_db e))"
    using AtomicCashout_bets [of L "ce_faults env 1" "ce_now env 1" "e_db e" "cr_BetID req" odds p] by blast
  have "game_bet_ok b" if "b \<in> set (game_bets ?s)" for b
    using u
  proof
    assume "game_bets ?s = game_bets (e_db e)"
    then show ?thesis using i that by simp
  next
    assume v: "game_bets ?s = update_where (\<lambda>b. gb_ID b = cr_BetID req \<and> gb_Status b = GameBetStatusActive)
        (cashed_out (ce_now env 1) c' p') (game_bets (e_db e))"
    from that [unfolded v set_update_where] consider b' where "b = cashed_out (ce_now env 1) c' p' b'" "b' \<in> set (game_bets (e_db e))"
      | "b \<in> set (game_bets (e_db e))" by blast
    then show ?thesis by cases (use i in simp_all)
  qed
  then have "\<forall>b \<in> set (game_bets ?s). game_bet_ok b" by blast
  then show ?thesis using e user_balance_wallets [OF AtomicCashout_frame(1)] wallets_ok_wallets [OF AtomicCashout_frame(1)]
    unfolding h by (simp add: advances_def engine_inv_def db_inv_def AtomicCashout_frame)
qed (simp add: advances_refl [OF e])

lemma CrashPlaceBet_advances:
  assumes "libs_ok L" "engine_inv L e" shows "advances L e (fst (CrashPlaceBet L env d req e))"
proof (cases "amount_allowed req")
  case True
  have "fst (CrashPlaceBet L env d req e) = e \<or> fst (CrashPlaceBet L env d req e) = fst (handlePlaceBet L env req e)"
    by (cases d) (simp_all add: CrashPlaceBet_def split: prod.split)
  then show ?thesis using handlePlaceBet_advances [OF assms True] advances_refl [OF assms(2)] by auto
qed (simp add: CrashPlaceBet_def advances_refl [OF assms(2)])

lemma StartGame_fields:
  "e_db (fst (StartGame e)) = e_db e" "e_roundNumber (fst (StartGame e)) = e_roundNumber e"
  "e_currentGame (fst (StartGame e)) = e_currentGame e"
  by (simp_all add: StartGame_def)

lemma loop_end_fields:
  "e_db (loop_end k e) = e_db e" "e_roundNumber (loop_end k e) = e_roundNumber e"
  "e_currentGame (loop_end k e) = e_currentGame e"
  by (simp_all add: loop_end_def)

lemma engine_inv_ext:
  "engine_inv L e \<Longrightarrow> e_db e' = e_db e \<Longrightarrow> e_roundNumber e' = e_roundNumber e \<Longrightarrow>
   e_currentGame e' = e_currentGame e \<Longrightarrow> engine_inv L e'"
  by (simp add: engine_inv_def)

lemma crash_step_advances:
  assumes L: "libs_ok L" and e: "engine_inv L e" and st: "crash_step L tx e e'"
  shows "advances L e e'"
  using st
proof (cases rule: crash_step.cases)
  case request_start
  then show ?thesis by (simp add: advances_same [OF e] StartGame_fields)
next
  case (manager_command cmd cmds env)
  let ?e = "e\<lparr>e_commandChan := cmds\<rparr>"
  have "advances L e ?e" by (rule advances_same [OF e]) simp_all
  moreover have "engine_inv L ?e" by (rule engine_inv_ext [OF e]) simp_all
  ultimately show ?thesis
    using handleCommand_advances [OF L] manager_command(1) advances_trans by blast
next
  case (manager_tick env)
  then show ?thesis using tick_advances(1) [OF e] by blast
next
  case (loop_starts k)
  then show ?thesis by (auto simp: loop_start_def intro!: advances_same [OF e] split: option.splits)
next
  case (loop_ticks k cp env)
  then obtain e1 where t: "tick L tx env e = Some e1"
      "e' = e1\<lparr>e_loops := (e_loops e1)[k := (e_loops e1 ! k)\<lparr>lp_pc := AtCheck cp\<rparr>]\<rparr>"
    by (auto simp: loop_tick_def)
  have a: "advances L e e1" by (rule tick_advances(1) [OF e t(1)])
  then have "advances L e1 e'" by (intro advances_same) (simp_all add: advances_def t(2))
  with a show ?thesis by (rule advances_trans)
next
  case (loop_checks k cp env)
  show ?thesis
  proof (cases "shouldCrash L (ce_now env 0) cp e")
    case True
    have a: "advances L e (crashGame env cp e)" by (rule crashGame_advances [OF e])
    then have "advances L (crashGame env cp e) (loop_end k (crashGame env cp e))"
      by (intro advances_same) (simp_all add: advances_def loop_end_fields)
    with a show ?thesis using loop_checks True by (simp add: loop_check_def advances_trans)
  next
    case False
    then show ?thesis using loop_checks by (auto simp: loop_check_def intro!: advances_same [OF e])
  qed
qed (auto simp: CrashPlaceBet_advances [OF L e] handleCashout_advances [OF e] loop_end_fields
      intro!: advances_same [OF e])

interpretation crash_run: ordered_steps "crash_step L tx" "\<lambda>e. libs_ok L \<and> engine_inv L e" "advances L" for L tx
proof (unfold_locales, goal_cases)
  case (1 e e')
  then show ?case using crash_step_advances by (auto simp: advances_def)
qed (blast intro: advances_refl advances_trans crash_step_advances)+

lemma crash_reach_advances:
  "(crash_step L tx)\<^sup>*\<^sup>* e e' \<Longrightarrow> libs_ok L \<Longrightarrow> engine_inv L e \<Longrightarrow> advances L e e'"
  by (blast intro: crash_run.run_below)

lemma engine_inv_new:
  assumes "wallets_ok s" "games s = []" "game_bets s = []"
  shows "engine_inv L (NewCrashGameEngine s)"
  using assms by (simp add: engine_inv_def db_inv_def NewCrashGameEngine_def)

lemma crash_reachable_inv:
  assumes "libs_ok L" "wallets_ok s" "games s = []" "game_bets s = []"
    and "(crash_step L tx)\<^sup>*\<^sup>* (NewCrashGameEngine s) e"
  shows "engine_inv L e"
  using crash_run.run_keeps [OF assms(5)] assms(1) engine_inv_new [OF assms(2-4)] by blast

section \<open>Properties\<close>


definition sample_crash_env :: CrashEnv where
  "sample_crash_env = \<lparr>ce_now = (\<lambda>_. 0), ce_id = (\<lambda>n. 60 + n), ce_rand = Some (replicate 32 171), ce_faults = (\<lambda>_. no_faults), ce_players = 0\<rparr>"

definition sample_started :: CrashGameEngine where
  "sample_started = startGameInternal std_libs sample_crash_env (NewCrashGameEngine sample_db)"

lemma sample_started_reachable:
  "(crash_step std_libs Map.empty)\<^sup>*\<^sup>* (NewCrashGameEngine sample_db) sample_started"
proof -
  let ?e = "fst (StartGame (NewCrashGameEngine sample_db))"
  have "crash_step std_libs Map.empty (NewCrashGameEngine sample_db) ?e" by (rule request_start)
  moreover have "crash_step std_libs Map.empty ?e (handleCommand std_libs sample_crash_env START (?e\<lparr>e_commandChan := []\<rparr>))"
    by (rule manager_command) (simp_all add: StartGame_def NewCrashGameEngine_def running_def chan_capacity_def)
  moreover have "?e\<lparr>e_commandChan := []\<rparr> = NewCrashGameEngine sample_db"
    by (simp add: StartGame_def NewCrashGameEngine_def running_def chan_capacity_def)
  ultimately show ?thesis by (simp add: handleCommand_def sample_started_def)
qed

lemma sample_db_ok: "wallets_ok sample_db" "games sample_db = []" "game_bets sample_db = []"
  by code_simp+


text \<open>C16: the engine takes stakes and never pays. In every reachable state no bet has been settled as
  lost, no active bet carries an automatic cashout target, and no player's balance is above what it
  was when the engine started: the cashout handler marks the bet but credits nothing, and the
  targets of the requests never reach the stored bets.\<close>

theorem crash_engine_never_pays:
  assumes "libs_ok L" "wallets_ok s" "games s = []" "game_bets s = []"
    and "(crash_step L tx)\<^sup>*\<^sup>* (NewCrashGameEngine s) e"
  shows "(\<forall>u. user_balance (e_db e) u \<le> user_balance s u) \<and>
    (\<forall>b \<in> set (game_bets (e_db e)). gb_Status b \<noteq> GameBetStatusLost \<and>
       (gb_Status b = GameBetStatusActive \<longrightarrow> gb_CashoutAt b = None))"
proof -
  have "advances L (NewCrashGameEngine s) e"
    using crash_reach_advances [OF assms(5,1) engine_inv_new [OF assms(2-4)]] .
  then show ?thesis
    by (auto simp: advances_def engine_inv_def db_inv_def game_bet_ok_def NewCrashGameEngine_def)
qed

theorem crash_engine_never_pays_witness:
  "user_balance (e_db sample_started) 7 \<le> user_balance sample_db 7"
  using crash_engine_never_pays [OF std_libs_ok sample_db_ok sample_started_reachable] by blast

text \<open>The odds grow linearly with the elapsed milliseconds; the division of the code is exact.\<close>

lemma odds_linear:
  assumes "libs_ok L" "startedAt \<le> now"
  shows "calculateCurrentOdds L now startedAt = 1 + of_int ((now - startedAt) div 1000000) / 10000"
proof -
  let ?n = "(now - startedAt) div 1000000"
  have "has_scale 16 (of_int ?n / 1000 :: decimal)"
    by (rule has_scaleI [where n = "?n * 10 ^ 13"]) simp
  then have "dec_div L (of_int ?n) 1000 = of_int ?n / 1000" by (intro dec_div_exact [OF assms(1)]) simp_all
  then show ?thesis using assms(2) by (simp add: calculateCurrentOdds_def)
qed

text \<open>What a tick does. With a running game, bets as the engine stores them and room in
  the command channel, a tick computes the
  odds \<open>1 + ms / 10000\<close> exactly; at or above a hundredth of the crash point it only queues
  \<open>CRASH\<close>, below it only publishes those odds: neither touches a wallet, a bet or a game row.\<close>

theorem tick_contract:
  assumes "libs_ok L" "\<forall>b \<in> set (game_bets (e_db e)). game_bet_ok b"
    and "e_currentGame e = Some g" "game_Status g = GameStatusRunning" "has_scale 2 (game_CrashPoint g)"
    and "game_StartedAt g \<le> ce_now env 0" "length (e_commandChan e) < chan_capacity"
  shows "\<exists>e'. tick L tx env e = Some e' \<and> e_db e' = e_db e \<and> e_currentGame e' = Some g \<and>
    (let odds = 1 + of_int ((ce_now env 0 - game_StartedAt g) div 1000000) / 10000
     in if odds \<ge> game_CrashPoint g / 100
        then e_commandChan e' = e_commandChan e @ [CRASH] \<and> e_broadcasts e' = e_broadcasts e
        else e_commandChan e' = e_commandChan e \<and>
          (\<exists>st. e_broadcasts e' = e_broadcasts e @ [st] \<and> e_latestState e' = Some st \<and>
             gs_CurrentOdds st = odds \<and> gs_MaxOdds st = game_CrashPoint g / 100 \<and> gs_GameID st = game_ID g))"
proof -
  obtain n where n: "game_CrashPoint g * 10 ^ 2 = of_int n" using has_scaleE [OF assms(5)] by blast
  then have "has_scale 16 (game_CrashPoint g / 100)"
    by (intro has_scaleI [where n = "n * 10 ^ 12"]) (simp add: field_simps)
  then have m: "dec_div L (game_CrashPoint g) 100 = game_CrashPoint g / 100"
    by (intro dec_div_exact [OF assms(1)]) simp_all
  show ?thesis
    using assms(3,4,7) odds_linear [OF assms(1,6)] m checkAutoCashouts_id [OF assms(2)]
    by (simp add: tick_def Let_def broadcast_def)
qed

definition sample_game :: Game where
  "sample_game = \<lparr>game_ID = 60, game_GameType = GameTypeCrash, game_RoundNumber = 1,
     game_ServerSeed = '''', game_ServerSeedHash = HashServerSeed '''', game_ClientSeed = '''',
     game_CrashPoint = 250, game_Status = GameStatusRunning, game_StartedAt = 0, game_CrashedAt = None,
     game_CountryCode = '''', game_MinBet = 0, game_MaxBet = 0, game_MaxMultiplier = 0\<rparr>"

theorem tick_contract_witness:
  "\<exists>e'. tick std_libs Map.empty sample_crash_env
       ((NewCrashGameEngine sample_db)\<lparr>e_currentGame := Some sample_game\<rparr>) = Some e' \<and>
     e_commandChan e' = [] \<and> e_db e' = sample_db"
proof -
  let ?e = "(NewCrashGameEngine sample_db)\<lparr>e_currentGame := Some sample_game\<rparr>"
  have "has_scale 2 (game_CrashPoint sample_game)"
    using has_scale_of_int [of 2 250] by (simp add: sample_game_def)
  from tick_contract [OF std_libs_ok _ _ _ this, of ?e sample_crash_env Map.empty] show ?thesis
    by (auto simp: NewCrashGameEngine_def sample_game_def sample_crash_env_def chan_capacity_def sample_db_ok)
qed

section \<open>The two thresholds of the engine\<close>

text \<open>
  \<open>tick\<close> compares the odds, which start at 1, with a hundredth of the crash point, while the loop's
  own check compares them with the crash point itself. Any round whose crash point is at most
  100, that is practically every round, is therefore ordered to crash by its first tick.
\<close>

lemma first_tick_crashes:
  assumes "libs_ok L" "\<forall>b \<in> set (game_bets (e_db e)). game_bet_ok b"
    and "e_currentGame e = Some g" "game_Status g = GameStatusRunning" "has_scale 2 (game_CrashPoint g)"
    and "game_StartedAt g \<le> ce_now env 0" "game_CrashPoint g \<le> 100"
  shows "tick L tx env e =
    (if length (e_commandChan e) < chan_capacity then Some (e\<lparr>e_commandChan := e_commandChan e @ [CRASH]\<rparr>) else None)"
proof -
  have "dec_div L (game_CrashPoint g) 100 \<le> 1"
    using dec_div_nearest [OF assms(1), of 100 "game_CrashPoint g"] assms(7) has_scale_of_int [of 16 1]
    by (auto intro: nearest_at_le)
  moreover have "1 \<le> calculateCurrentOdds L (ce_now env 0) (game_StartedAt g)"
    using odds_linear [OF assms(1,6)] assms(6) by (simp add: pos_imp_zdiv_nonneg_iff)
  ultimately show ?thesis using assms(3,4) by (simp add: tick_def Let_def)
qed

end
