(* ===== verification/Snowflake.thy ===== *)
theory Snowflake
  imports Prelude
begin

text \<open>
  \<open>internal/infrastructure/id/snowflake.go\<close>: identifiers made of the local second, the number
  of the worker and a sequence number within the second. The clock is the only input: the
  \<open>n\<close>-th reading of \<open>time.Now()\<close> is an argument, and so are the readings of the busy wait.
  \<open>offset\<close> is the local time zone of the process, the seconds added to a Unix time.
  The calendar is the algorithm of Go's \<open>time\<close> package: the day count is split into cycles of
  400, 100, 4 and 1 years, then the day of the year into a month and a day.
\<close>

section \<open>The calendar of the standard library\<close>

definition pad :: "nat \<Rightarrow> nat \<Rightarrow> string" where
  "pad k n = replicate (k - length (show_nat n)) (CHR ''0'') @ show_nat n"

definition is_leap :: "int \<Rightarrow> bool" where
  "is_leap y \<longleftrightarrow> y mod 4 = 0 \<and> (y mod 100 \<noteq> 0 \<or> y mod 400 = 0)"

definition months :: "int \<Rightarrow> int list" where
  "months y = [31, if is_leap y then 29 else 28, 31, 30, 31, 30, 31, 31, 30, 31, 30, 31]"

text \<open>Year and day of the year, from the days since 1 January of year 1.\<close>

definition year_yday :: "int \<Rightarrow> int \<times> int" where
  "year_yday d =
     (let n400 = d div 146097; d1 = d mod 146097;
          n100 = min (d1 div 36524) 3; d2 = d1 - 36524 * n100;
          n4 = d2 div 1461; d3 = d2 mod 1461;
          n1 = min (d3 div 365) 3; d4 = d3 - 365 * n1
      in (400 * n400 + 100 * n100 + 4 * n4 + n1 + 1, d4))"

text \<open>Month and day, counted from the month number given.\<close>

fun month_day :: "int list \<Rightarrow> nat \<Rightarrow> int \<Rightarrow> nat \<times> int" where
  "month_day [] m d = (m, d + 1)"
| "month_day (l # ls) m d = (if d < l then (m, d + 1) else month_day ls (m + 1) (d - l))"

text \<open>Days from 1 January of year 1 to 1 January 1970.\<close>

definition epoch_days :: int where
  "epoch_days = 719162"

definition format_second :: "int \<Rightarrow> string" where
  "format_second t =
     (let days = t div 86400; r = t mod 86400;
          (y, yd) = year_yday (days + epoch_days);
          (m, d) = month_day (months y) 1 yd
      in pad 4 (nat y) @ pad 2 m @ pad 2 (nat d) @
         pad 2 (nat (r div 3600)) @ pad 2 (nat (r mod 3600 div 60)) @ pad 2 (nat (r mod 60)))"

section \<open>The generator\<close>

definition maxWorkerID :: int where
  "maxWorkerID = 65535"

definition sequenceMask :: nat where
  "sequenceMask = 1023"

record SnowflakeGenerator =
  workerID :: int
  lastTime :: int
  sequence :: nat

datatype id_error =
    ErrWorkerID
  | ErrIDLength
  | ClockMovedBackwards int
  | WaitNotOver

definition NewSnowflakeGenerator :: "int \<Rightarrow> id_error + SnowflakeGenerator" where
  "NewSnowflakeGenerator w =
     (if w < 0 \<or> w > maxWorkerID then Inl ErrWorkerID
      else Inr \<lparr>workerID = w, lastTime = 0, sequence = 0\<rparr>)"

text \<open>
  The busy wait reads the clock until it is past \<open>lastTime\<close>; the readings it makes are a
  list, and \<open>None\<close> says that the list ended before the wait did.
\<close>

fun waitNextSecond :: "int \<Rightarrow> int list \<Rightarrow> int option" where
  "waitNextSecond lt [] = None"
| "waitNextSecond lt (t # ts) = (if t \<le> lt then waitNextSecond lt ts else Some t)"

text \<open>
  One call: \<open>timestamp\<close> is the reading of \<open>time.Now()\<close>, \<open>ts\<close> the readings of the wait. The
  sequence is masked by \<open>sequenceMask\<close>, and the text is that of the first reading.
\<close>

definition GenerateID ::
  "(int \<Rightarrow> int) \<Rightarrow> int \<Rightarrow> int list \<Rightarrow> SnowflakeGenerator \<Rightarrow> SnowflakeGenerator \<times> (id_error + string)" where
  "GenerateID offset timestamp ts g =
     (if timestamp < lastTime g then (g, Inl (ClockMovedBackwards (lastTime g - timestamp)))
      else
        let sq = (if timestamp = lastTime g then (sequence g + 1) mod (sequenceMask + 1) else 0) in
        case (if timestamp = lastTime g \<and> sq = 0 then waitNextSecond (lastTime g) ts else Some timestamp) of
          None \<Rightarrow> (g\<lparr>sequence := sq\<rparr>, Inl WaitNotOver)
        | Some t \<Rightarrow>
            (g\<lparr>sequence := sq, lastTime := t\<rparr>,
             Inr (format_second (timestamp + offset timestamp) @ pad 4 (nat (workerID g)) @ pad 3 sq)))"

definition ParseSnowflakeID :: "string \<Rightarrow> id_error + string \<times> string \<times> string" where
  "ParseSnowflakeID i =
     (if length i \<noteq> 21 then Inl ErrIDLength
      else Inr (take 14 i, take 4 (drop 14 i), drop 18 i))"

text \<open>The polynomial hash of the characters, reduced at every step.\<close>

definition UserSpecificGenerator :: "string \<Rightarrow> id_error + SnowflakeGenerator" where
  "UserSpecificGenerator userID =
     NewSnowflakeGenerator (foldl (\<lambda>w c. (w * 31 + of_char c) mod 10000) 0 userID)"

definition CountrySpecificGenerator :: "string \<Rightarrow> id_error + SnowflakeGenerator" where
  "CountrySpecificGenerator countryCode =
     NewSnowflakeGenerator
       (case map_of [(''KE'', 1000), (''NG'', 2000), (''GH'', 3000)] countryCode of
          Some w \<Rightarrow> w | None \<Rightarrow> 9999)"

definition ServiceTypeGenerator :: "string \<Rightarrow> id_error + SnowflakeGenerator" where
  "ServiceTypeGenerator serviceType =
     NewSnowflakeGenerator
       (case map_of [(''wallet'', 5000), (''betting'', 6000), (''jackpot'', 7000),
                     (''payment'', 8000), (''compliance'', 9000)] serviceType of
          Some w \<Rightarrow> w | None \<Rightarrow> 9998)"

section \<open>Reading the text back\<close>

lemma digits_value_pad [simp]: "digits_value (pad k n) = n"
proof -
  have "foldl (\<lambda>a c. 10 * a + (of_char c - 48)) (0::nat) (replicate j (CHR ''0'')) = 0" for j
    by (induction j) simp_all
  then have "digits_value (replicate j (CHR ''0'') @ s) = digits_value s" for j s
    by (simp add: digits_value_def)
  then show ?thesis by (simp add: pad_def)
qed

lemma pad_inject [simp]: "pad k m = pad k n \<longleftrightarrow> m = n"
  by (metis digits_value_pad)

lemma length_show_nat_le: "n < 10 ^ k \<Longrightarrow> 0 < k \<Longrightarrow> length (show_nat n) \<le> k"
proof (induction k arbitrary: n)
  case (Suc k)
  show ?case
  proof (cases "n < 10")
    case True
    then show ?thesis by (simp add: show_nat.simps [of n])
  next
    case False
    with Suc.prems have "n div 10 < 10 ^ k" "0 < k" by (auto intro: ccontr)
    with Suc.IH [of "n div 10"] show ?thesis using False by (simp add: show_nat.simps [of n])
  qed
qed simp

lemma length_pad [simp]: "n < 10 ^ k \<Longrightarrow> 0 < k \<Longrightarrow> length (pad k n) = k"
  using length_show_nat_le [of n k] by (simp add: pad_def)

lemma pad_append_inject:
  "m < 10 ^ k \<Longrightarrow> n < 10 ^ k \<Longrightarrow> 0 < k \<Longrightarrow> pad k m @ s = pad k n @ s' \<longleftrightarrow> m = n \<and> s = s'"
  by (subst append_eq_append_conv) simp_all

text \<open>A day count is determined by its calendar date.\<close>

definition yday_of :: "int list \<Rightarrow> nat \<Rightarrow> nat \<times> int \<Rightarrow> int" where
  "yday_of ls m0 md = sum_list (take (fst md - m0) ls) + snd md - 1"

lemma month_day_from: "m \<le> fst (month_day ls m d)"
  by (induction ls m d rule: month_day.induct) auto

lemma month_day_inverse: "yday_of ls m (month_day ls m d) = d"
proof (induction ls m d rule: month_day.induct)
  case (2 l ls m d)
  have "Suc m \<le> fst (month_day ls (Suc m) (d - l))" by (rule month_day_from)
  then have "fst (month_day ls (Suc m) (d - l)) - m = Suc (fst (month_day ls (Suc m) (d - l)) - Suc m)"
    by simp
  then show ?case using 2 by (auto simp: yday_of_def)
qed (simp add: yday_of_def)

lemma month_day_bounds:
  assumes "0 \<le> d" "d < sum_list ls" "\<forall>l \<in> set ls. l \<le> 31"
  shows "fst (month_day ls m d) < m + length ls \<and> 1 \<le> snd (month_day ls m d) \<and> snd (month_day ls m d) \<le> 31"
  using assms by (induction ls m d rule: month_day.induct) auto

text \<open>The five steps of \<open>year_yday\<close>, with the range of each quotient.\<close>

lemma year_yday_parts:
  obtains a b c e :: int where
    "d = 146097 * a + 36524 * b + 1461 * c + 365 * e + snd (year_yday d)"
    "fst (year_yday d) = 400 * a + 100 * b + 4 * c + e + 1"
    "0 \<le> b" "b \<le> 3" "0 \<le> c" "c \<le> 24" "0 \<le> e" "e \<le> 3"
    "0 \<le> snd (year_yday d)" "snd (year_yday d) \<le> 365"
    "snd (year_yday d) = 365 \<Longrightarrow> e = 3 \<and> (c = 24 \<longrightarrow> b = 3)"
proof -
  define d1 where "d1 = d mod 146097"
  define b where "b = min (d1 div 36524) 3"
  define d2 where "d2 = d1 - 36524 * b"
  define c where "c = d2 div 1461"
  define d3 where "d3 = d2 mod 1461"
  define e where "e = min (d3 div 365) 3"
  have y: "fst (year_yday d) = 400 * (d div 146097) + 100 * b + 4 * c + e + 1"
    "snd (year_yday d) = d3 - 365 * e"
    by (simp_all only: year_yday_def Let_def fst_conv snd_conv d1_def b_def d2_def c_def d3_def e_def)
  have d1: "0 \<le> d1" "d1 \<le> 146096" by (simp_all add: d1_def)
  have b: "0 \<le> b" "b \<le> 3" "0 \<le> d2" "d2 \<le> 36524" "d2 = 36524 \<Longrightarrow> b = 3"
    using d1 unfolding b_def d2_def by (auto simp: min_def split: if_splits)
  have c: "0 \<le> c" "c \<le> 24" using b by (simp_all add: c_def)
  have cd: "d2 = 1461 * c + d3" "0 \<le> d3" "d3 \<le> 1460" by (simp_all add: c_def d3_def)
  have e: "0 \<le> e" "e \<le> 3" "0 \<le> d3 - 365 * e" "d3 - 365 * e \<le> 365" "d3 - 365 * e = 365 \<Longrightarrow> e = 3 \<and> d3 = 1460"
    using cd unfolding e_def by (auto simp: min_def split: if_splits)
  have D: "d = 146097 * (d div 146097) + 36524 * b + 1461 * c + 365 * e + snd (year_yday d)"
    using cd(1) mult_div_mod_eq [of 146097 d] unfolding y(2) d2_def d1_def by linarith
  have L: "e = 3 \<and> (c = 24 \<longrightarrow> b = 3)" if "snd (year_yday d) = 365"
    using e(5) b(4,5) cd(1) that unfolding y by auto
  show thesis by (rule that [OF D y(1) b(1,2) c e(1,2) e(3,4) [folded y(2)] L])
qed

text \<open>A date has one year and one day of the year, and the day is one of the year's.\<close>

lemma year_yday_inject: "year_yday d = year_yday d' \<longleftrightarrow> d = d'"
proof
  assume eq: "year_yday d = year_yday d'"
  obtain a b c e where p: "d = 146097 * a + 36524 * b + 1461 * c + 365 * e + snd (year_yday d)"
    "fst (year_yday d) = 400 * a + 100 * b + 4 * c + e + 1"
    "0 \<le> b" "b \<le> 3" "0 \<le> c" "c \<le> 24" "0 \<le> e" "e \<le> 3"
    by (rule year_yday_parts [of d]) blast
  obtain a' b' c' e' where p': "d' = 146097 * a' + 36524 * b' + 1461 * c' + 365 * e' + snd (year_yday d')"
    "fst (year_yday d') = 400 * a' + 100 * b' + 4 * c' + e' + 1"
    "0 \<le> b'" "b' \<le> 3" "0 \<le> c'" "c' \<le> 24" "0 \<le> e'" "e' \<le> 3"
    by (rule year_yday_parts [of d']) blast
  have "400 * a + 100 * b + 4 * c + e = 400 * a' + 100 * b' + 4 * c' + e'"
    using p(2) p'(2) eq by simp
  moreover from this have "a = a'" using p(3-8) p'(3-8) by linarith
  moreover from calculation have "b = b'" using p(3-8) p'(3-8) by linarith
  moreover from calculation have "c = c'" using p(3-8) p'(3-8) by linarith
  ultimately show "d = d'" using p(1) p'(1) eq by simp
qed simp

lemma year_yday_in_months:
  assumes "year_yday d = (y, yd)" shows "0 \<le> yd \<and> yd < sum_list (months y)"
proof -
  have y: "fst (year_yday d) = y" "snd (year_yday d) = yd" using assms by simp_all
  obtain a b c e where p: "y = 400 * a + 100 * b + 4 * c + e + 1"
    "0 \<le> b" "b \<le> 3" "0 \<le> c" "c \<le> 24" "0 \<le> e" "e \<le> 3" "0 \<le> yd" "yd \<le> 365"
    "yd = 365 \<Longrightarrow> e = 3 \<and> (c = 24 \<longrightarrow> b = 3)"
    by (rule year_yday_parts [of d, unfolded y]) (rule that; assumption)
  have "is_leap y" if "yd = 365"
  proof (cases "c = 24")
    case True
    then have "y = 400 * (a + 1)" using p that by simp
    then show ?thesis by (simp add: is_leap_def)
  next
    case False
    then have c: "0 \<le> c" "c < 24" using p by simp_all
    have y: "y = 4 * (100 * a + 25 * b + c + 1)" using p that by simp
    have "y = 4 * c + 4 + 100 * (4 * a + b)" using p(1) p(10) [OF that] by simp
    then have "y mod 100 = (4 * c + 4) mod 100" by (simp only: mod_mult_self2)
    also have "\<dots> = 4 * c + 4" using c by simp
    finally have "y mod 100 \<noteq> 0" using c by linarith
    then show ?thesis using y by (simp add: is_leap_def)
  qed
  moreover have "sum_list (months y) = (if is_leap y then 366 else 365)" by (simp add: months_def)
  ultimately show ?thesis using p(8,9) by (cases "yd = 365") auto
qed

text \<open>From year 1 to year 9999 the text of a second has 14 characters.\<close>

definition four_digit_second :: "int \<Rightarrow> bool" where
  "four_digit_second t \<longleftrightarrow> 0 \<le> fst (year_yday (t div 86400 + epoch_days)) \<and>
     fst (year_yday (t div 86400 + epoch_days)) \<le> 9999"

lemma format_second_parts:
  assumes "four_digit_second t"
  obtains y yd m d where "year_yday (t div 86400 + epoch_days) = (y, yd)" "0 \<le> y" "y \<le> 9999"
    "month_day (months y) 1 yd = (m, d)" "m < 100" "1 \<le> d" "d < 100"
    "format_second t = pad 4 (nat y) @ pad 2 m @ pad 2 (nat d) @ pad 2 (nat (t mod 86400 div 3600))
       @ pad 2 (nat (t mod 86400 mod 3600 div 60)) @ pad 2 (nat (t mod 86400 mod 60))"
proof -
  obtain y yd where y: "year_yday (t div 86400 + epoch_days) = (y, yd)" by force
  obtain m d where md: "month_day (months y) 1 yd = (m, d)" by force
  have "m < 1 + length (months y) \<and> 1 \<le> d \<and> d \<le> 31"
    using month_day_bounds [of yd "months y" 1] year_yday_in_months [OF y] md by (simp add: months_def)
  then have "m < 100" "1 \<le> d" "d < 100" by (simp_all add: months_def)
  with assms y md show thesis by (intro that) (simp_all add: four_digit_second_def format_second_def Let_def)
qed

lemma clock_fields:
  shows "nat (t mod 86400 div 3600) < 10 ^ 2" "nat (t mod 86400 mod 3600 div 60) < 10 ^ 2" "nat (t mod 86400 mod 60) < 10 ^ 2"
proof -
  have "0 \<le> t mod 86400" "t mod 86400 < 86400" by simp_all
  then have "t mod 86400 div 3600 < 100" using zdiv_mono1 [of "t mod 86400" 86399 3600] by simp
  then show "nat (t mod 86400 div 3600) < 10 ^ 2" by simp
  have "t mod 86400 mod 3600 < 3600" by simp
  then have "t mod 86400 mod 3600 div 60 < 100" using zdiv_mono1 [of "t mod 86400 mod 3600" 3599 60] by simp
  then show "nat (t mod 86400 mod 3600 div 60) < 10 ^ 2" by simp
  have "t mod 86400 mod 60 < 60" by (rule pos_mod_bound) simp
  then show "nat (t mod 86400 mod 60) < 10 ^ 2" by simp
qed

lemma length_format_second: "four_digit_second t \<Longrightarrow> length (format_second t) = 14"
proof (elim format_second_parts)
  fix y d :: int and m :: nat
  assume "0 \<le> y" "y \<le> 9999" "m < 100" "1 \<le> d" "d < 100"
  then have "nat y < 10 ^ 4" "m < 10 ^ 2" "nat d < 10 ^ 2" by simp_all
  note fields = this clock_fields [of t]
  assume "format_second t = pad 4 (nat y) @ pad 2 m @ pad 2 (nat d) @ pad 2 (nat (t mod 86400 div 3600))
       @ pad 2 (nat (t mod 86400 mod 3600 div 60)) @ pad 2 (nat (t mod 86400 mod 60))"
  then have "length (format_second t) = 4 + (2 + (2 + (2 + (2 + 2))))"
    by (simp only: length_append length_pad fields zero_less_numeral)
  then show "length (format_second t) = 14" by simp
qed

lemma format_second_inject:
  assumes "four_digit_second t" "four_digit_second u" "format_second t = format_second u"
  shows "t = u"
proof -
  obtain y yd m d where t: "year_yday (t div 86400 + epoch_days) = (y, yd)" "0 \<le> y" "y \<le> 9999"
    "month_day (months y) 1 yd = (m, d)" "m < 100" "1 \<le> d" "d < 100"
    "format_second t = pad 4 (nat y) @ pad 2 m @ pad 2 (nat d) @ pad 2 (nat (t mod 86400 div 3600))
       @ pad 2 (nat (t mod 86400 mod 3600 div 60)) @ pad 2 (nat (t mod 86400 mod 60))"
    by (rule format_second_parts [OF assms(1)])
  obtain y' yd' m' d' where u: "year_yday (u div 86400 + epoch_days) = (y', yd')" "0 \<le> y'" "y' \<le> 9999"
    "month_day (months y') 1 yd' = (m', d')" "m' < 100" "1 \<le> d'" "d' < 100"
    "format_second u = pad 4 (nat y') @ pad 2 m' @ pad 2 (nat d') @ pad 2 (nat (u mod 86400 div 3600))
       @ pad 2 (nat (u mod 86400 mod 3600 div 60)) @ pad 2 (nat (u mod 86400 mod 60))"
    by (rule format_second_parts [OF assms(2)])
  have "nat y < 10 ^ 4" "nat y' < 10 ^ 4" "m < 10 ^ 2" "m' < 10 ^ 2" "nat d < 10 ^ 2" "nat d' < 10 ^ 2"
    using t(2,3,5,6,7) u(2,3,5,6,7) by simp_all
  note fields = this clock_fields [of t] clock_fields [of u]
  have p: "nat y = nat y'" "m = m'" "nat d = nat d'"
    "nat (t mod 86400 div 3600) = nat (u mod 86400 div 3600)"
    "nat (t mod 86400 mod 3600 div 60) = nat (u mod 86400 mod 3600 div 60)"
    "nat (t mod 86400 mod 60) = nat (u mod 86400 mod 60)"
    using assms(3) unfolding t(8) u(8)
    by (simp_all only: pad_append_inject fields pad_inject zero_less_numeral)
  have "y = y'" "m = m'" "d = d'" using p(1-3) t(2,6) u(2,6) by simp_all
  then have "yday_of (months y) 1 (month_day (months y) 1 yd) = yday_of (months y) 1 (month_day (months y) 1 yd')"
    using t(4) u(4) by simp
  then have "yd = yd'" by (simp only: month_day_inverse)
  then have "year_yday (t div 86400 + epoch_days) = year_yday (u div 86400 + epoch_days)"
    using \<open>y = y'\<close> unfolding t(1) u(1) by simp
  then have days: "t div 86400 = u div 86400" by (simp add: year_yday_inject)
  have nn: "0 \<le> z mod 86400 div 3600" "0 \<le> z mod 86400 mod 3600 div 60" "0 \<le> z mod 86400 mod 60" for z :: int
    by (simp_all add: pos_imp_zdiv_nonneg_iff)
  have eqs: "t mod 86400 div 3600 = u mod 86400 div 3600"
    "t mod 86400 mod 3600 div 60 = u mod 86400 mod 3600 div 60" "t mod 86400 mod 60 = u mod 86400 mod 60"
    by (rule eq_nat_nat_iff [THEN iffD1, OF nn(1) nn(1) p(4)] eq_nat_nat_iff [THEN iffD1, OF nn(2) nn(2) p(5)]
      eq_nat_nat_iff [THEN iffD1, OF nn(3) nn(3) p(6)])+
  have hms: "3600 * (z div 3600) + 60 * (z mod 3600 div 60) + z mod 60 = z" for z :: int
  proof -
    have "z mod 3600 mod 60 = z mod 60" by (simp add: mod_mod_cancel)
    then show ?thesis using mult_div_mod_eq [of 3600 z] mult_div_mod_eq [of 60 "z mod 3600"] by linarith
  qed
  have "t mod 86400 = 3600 * (t mod 86400 div 3600) + 60 * (t mod 86400 mod 3600 div 60) + t mod 86400 mod 60"
    by (rule hms [symmetric])
  also have "\<dots> = u mod 86400" unfolding eqs by (rule hms)
  finally have "t mod 86400 = u mod 86400" .
  with days show ?thesis by (metis mult_div_mod_eq)
qed

section \<open>Runs of a generator\<close>

text \<open>One identifier per clock reading, the generator threaded through.\<close>

fun generate_all :: "(int \<Rightarrow> int) \<Rightarrow> int list \<Rightarrow> SnowflakeGenerator \<Rightarrow> (id_error + string) list" where
  "generate_all offset [] g = []"
| "generate_all offset (t # ts) g =
     (let (g', r) = GenerateID offset t [] g in r # generate_all offset ts g')"

definition id_text :: "int \<Rightarrow> int \<Rightarrow> int \<times> nat \<Rightarrow> string" where
  "id_text z w k = format_second (fst k + z) @ pad 4 (nat w) @ pad 3 (snd k)"

text \<open>The second of each reading with the number of earlier readings in that second.\<close>

fun id_keys :: "int list \<Rightarrow> int list \<Rightarrow> (int \<times> nat) list" where
  "id_keys ps [] = []"
| "id_keys ps (t # ts) = (t, count_list ps t) # id_keys (ps @ [t]) ts"

lemma id_keys_least: "(t, n) \<in> set (id_keys ps ts) \<Longrightarrow> t \<in> set ts \<and> count_list ps t \<le> n"
  by (induction ps ts rule: id_keys.induct) (auto split: if_splits)

lemma id_keys_distinct: "distinct (id_keys ps ts)"
proof (induction ps ts rule: id_keys.induct)
  case (2 ps t ts)
  have "(t, count_list ps t) \<notin> set (id_keys (ps @ [t]) ts)"
    using id_keys_least [of t "count_list ps t" "ps @ [t]" ts] by auto
  with 2 show ?case by simp
qed simp

text \<open>The generator remembers the newest second and how many identifiers it gave in it.\<close>

definition in_step :: "int list \<Rightarrow> SnowflakeGenerator \<Rightarrow> bool" where
  "in_step ps g \<longleftrightarrow> 0 \<le> lastTime g \<and> (\<forall>p \<in> set ps. p \<le> lastTime g) \<and>
     (0 < lastTime g \<longrightarrow> count_list ps (lastTime g) = Suc (sequence g))"

lemma GenerateID_in_step:
  assumes "in_step ps g" "lastTime g \<le> t" "0 < t" "count_list ps t < 1024" "\<And>u. offset u = z"
  shows "\<exists>g'. GenerateID offset t us g = (g', Inr (id_text z (workerID g) (t, count_list ps t))) \<and>
    in_step (ps @ [t]) g' \<and> workerID g' = workerID g \<and> lastTime g' = t"
proof (cases "t = lastTime g")
  case True
  then show ?thesis
    using assms by (auto simp: GenerateID_def in_step_def sequenceMask_def id_text_def)
next
  case False
  with assms have "t \<notin> set ps" "\<forall>p \<in> set ps. p \<le> t" by (auto simp: in_step_def)
  with False assms show ?thesis
    by (auto simp: GenerateID_def in_step_def id_text_def count_list_0_iff)
qed

lemma generate_all_keys:
  assumes "in_step ps g" "sorted ts" "\<forall>t \<in> set ts. lastTime g \<le> t \<and> 0 < t \<and> count_list (ps @ ts) t \<le> 1024"
    and "\<And>u. offset u = z"
  shows "generate_all offset ts g = map (\<lambda>k. Inr (id_text z (workerID g) k)) (id_keys ps ts)"
  using assms
proof (induction ts arbitrary: ps g)
  case (Cons t ts)
  then have "count_list ps t < 1024" by auto
  with GenerateID_in_step [OF Cons.prems(1), of t offset z "[]"] Cons.prems obtain g' where
    g': "GenerateID offset t [] g = (g', Inr (id_text z (workerID g) (t, count_list ps t)))"
      "in_step (ps @ [t]) g'" "workerID g' = workerID g" "lastTime g' = t" by auto
  have "generate_all offset ts g' = map (\<lambda>k. Inr (id_text z (workerID g') k)) (id_keys (ps @ [t]) ts)"
    using Cons.prems g' by (intro Cons.IH) auto
  with g' show ?case by simp
qed simp

lemma id_text_inject:
  assumes "four_digit_second (fst j + z)" "four_digit_second (fst k + z)" "id_text z w j = id_text z w k"
  shows "j = k"
proof -
  have "length (format_second (fst j + z)) = length (format_second (fst k + z))"
    using assms by (simp add: length_format_second)
  with assms(3) have "format_second (fst j + z) = format_second (fst k + z)" "snd j = snd k"
    by (simp_all add: id_text_def append_eq_append_conv)
  moreover from this(1) have "fst j + z = fst k + z" using assms(1,2) by (rule format_second_inject [rotated 2])
  ultimately show ?thesis by (simp add: prod_eq_iff)
qed

lemma length_show_nat_gt: "10 ^ k \<le> n \<Longrightarrow> k < length (show_nat n)"
proof (induction k arbitrary: n)
  case 0
  then show ?case by (simp add: show_nat.simps [of n])
next
  case (Suc k)
  have "1 \<le> (10::nat) ^ k" by simp
  moreover have p: "10 * 10 ^ k \<le> n" using Suc.prems by simp
  ultimately have "\<not> n < 10" by linarith
  moreover from p have "10 ^ k \<le> n div 10" by (simp add: less_eq_div_iff_mult_less_eq)
  ultimately have "10 ^ k \<le> n div 10" "\<not> n < 10" by blast+
  with Suc.IH [of "n div 10"] show ?case by (simp add: show_nat.simps [of n])
qed

lemma length_pad_eq: "0 < k \<Longrightarrow> length (pad k n) = k \<longleftrightarrow> n < 10 ^ k"
  using length_show_nat_gt [of k n] by (cases "n < 10 ^ k") (auto simp: pad_def dest: length_show_nat_le)

lemma length_pad_ge: "k \<le> length (pad k n)"
  by (simp add: pad_def)

text \<open>
  When the sequence overflows, the call waits for the next second but still prints the old one:
  the identifier is the first one that was given in that second.
\<close>

lemma overflow_duplicates:
  assumes "lastTime g = t" "sequence g = sequenceMask" "GenerateID offset t ts g = (g', Inr i)"
    and "lastTime g0 < t" "workerID g0 = workerID g"
  shows "snd (GenerateID offset t us g0) = Inr i"
  using assms by (auto simp: GenerateID_def Let_def split: option.splits)

section \<open>Properties\<close>

text \<open>C20: identifiers are unique. A new generator, in a time zone whose offset does not change, asked
  at seconds that never go back, at most 1024 times in any one second, returns an identifier every
  time and never the same one twice.\<close>

theorem snowflake_ids_distinct:
  assumes "NewSnowflakeGenerator w = Inr g" "sorted ts" "\<And>u. offset u = z"
    and "\<forall>t \<in> set ts. 0 < t \<and> count_list ts t \<le> 1024 \<and> four_digit_second (t + z)"
  shows "\<exists>ids. generate_all offset ts g = map Inr ids \<and> distinct ids"
proof -
  have g: "workerID g = w" "lastTime g = 0" "in_step [] g"
    using assms(1) by (auto simp: NewSnowflakeGenerator_def in_step_def split: if_splits)
  have "generate_all offset ts g = map Inr (map (id_text z w) (id_keys [] ts))"
    using generate_all_keys [OF g(3) assms(2), of offset z] assms(3,4) g by (force simp: o_def)
  moreover have "inj_on (id_text z w) (set (id_keys [] ts))"
  proof (rule inj_onI)
    fix j k assume jk: "j \<in> set (id_keys [] ts)" "k \<in> set (id_keys [] ts)" "id_text z w j = id_text z w k"
    have "fst x \<in> set ts" if "x \<in> set (id_keys [] ts)" for x
      using id_keys_least [of "fst x" "snd x"] that by simp
    with jk(1,2) assms(4) show "j = k" by (intro id_text_inject [OF _ _ jk(3)]) simp_all
  qed
  ultimately show ?thesis using id_keys_distinct distinct_map by blast
qed

theorem snowflake_ids_distinct_witness:
  "\<exists>ids. generate_all (\<lambda>_. 10800) [1776657530, 1776657530, 1776657531] \<lparr>workerID = 7000, lastTime = 0, sequence = 0\<rparr> =
     map Inr ids \<and> distinct ids"
proof (rule snowflake_ids_distinct [of 7000])
  show "\<forall>t \<in> set [1776657530, 1776657530, 1776657531]. 0 < t \<and>
      count_list [1776657530, 1776657530, 1776657531] t \<le> 1024 \<and> four_digit_second (t + 10800)"
    by code_simp
qed (simp_all add: NewSnowflakeGenerator_def maxWorkerID_def)

text \<open>Parsing inverts generation exactly where the documented layout holds. An identifier splits
  back into its second, its worker and its sequence number when the worker has at most four
  digits and the sequence number three; the generator also accepts workers and sequence numbers
  that print longer, and then the parser refuses the identifier.\<close>

theorem ParseSnowflakeID_GenerateID:
  assumes "GenerateID offset t ts g = (g', Inr i)" "four_digit_second (t + offset t)" "0 \<le> workerID g"
  shows "ParseSnowflakeID i =
    (if workerID g \<le> 9999 \<and> sequence g' \<le> 999
     then Inr (format_second (t + offset t), pad 4 (nat (workerID g)), pad 3 (sequence g'))
     else Inl ErrIDLength)"
proof -
  have i: "i = format_second (t + offset t) @ pad 4 (nat (workerID g)) @ pad 3 (sequence g')"
    using assms(1) by (auto simp: GenerateID_def Let_def split: if_splits option.splits)
  note len = length_format_second [OF assms(2)]
  have "length (pad 4 (nat (workerID g))) = 4 \<longleftrightarrow> workerID g \<le> 9999"
    using length_pad_eq [of 4 "nat (workerID g)"] assms(3) by auto
  moreover have "length (pad 3 (sequence g')) = 3 \<longleftrightarrow> sequence g' \<le> 999"
    using length_pad_eq [of 3 "sequence g'"] by auto
  moreover have "4 \<le> length (pad 4 (nat (workerID g)))" "3 \<le> length (pad 3 (sequence g'))"
    by (rule length_pad_ge)+
  ultimately show ?thesis using len by (auto simp: i ParseSnowflakeID_def)
qed

theorem ParseSnowflakeID_GenerateID_witness:
  "ParseSnowflakeID ''202604200358509988000'' = Inr (''20260420035850'', ''9988'', ''000'')"
proof -
  let ?g = "\<lparr>workerID = 9988, lastTime = 0, sequence = 0\<rparr>"
  have w: "pad 4 9988 = ''9988''" by (simp add: pad_def show_nat.simps digit_def) code_simp
  have q: "format_second 1776657530 = ''20260420035850''" "pad 3 0 = ''000''" by code_simp+
  have g: "GenerateID (\<lambda>_. 0) 1776657530 [] ?g =
      (\<lparr>workerID = 9988, lastTime = 1776657530, sequence = 0\<rparr>, Inr ''202604200358509988000'')"
    by (simp add: GenerateID_def w q)
  have "four_digit_second 1776657530" by code_simp
  then show ?thesis using ParseSnowflakeID_GenerateID [OF g] w q by simp
qed

end
