(* ===== verification/Jackpots.thy ===== *)
theory Jackpots
  imports Snowflake "HOL-Library.Multiset"
begin

text \<open>
  \<open>internal/jackpots\<close>: pools that grow with every ticket and are paid to the ticket that matches
  six numbers out of 49. The service reaches its storage, the wallets and the event bus through
  interfaces that no code of the repository implements; they are the fields of \<open>ports\<close>, and
  \<open>ports_ok\<close> states what the service relies on. \<open>now k\<close> is the \<open>k\<close>-th reading of
  \<open>time.Now()\<close> within a call, identifiers come from the generator of the theory
  \<open>Snowflake\<close>, and the values \<open>rng.Intn\<close> returns are a list.
\<close>

section \<open>Types\<close>

datatype JackpotType = JackpotTypeProgressive | JackpotTypeFixed | JackpotTypeDaily
  | JackpotTypeWeekly | JackpotTypeMystery

datatype JackpotStatus = JackpotStatusActive | JackpotStatusPaused | JackpotStatusCompleted
  | JackpotStatusCancelled

datatype TicketStatus = TicketStatusActive | TicketStatusWinner | TicketStatusLoser
  | TicketStatusExpired | TicketStatusCancelled

datatype DrawStatus = DrawStatusPending | DrawStatusCompleted | DrawStatusFailed

record Jackpot =
  j_ID :: string
  j_Name :: string
  j_Type :: JackpotType
  j_CurrentAmount :: decimal
  j_SeedAmount :: decimal
  j_MinBet :: decimal
  j_MaxBet :: decimal
  j_ContributionRate :: decimal
  j_Status :: JackpotStatus
  j_StartTime :: time
  j_EndTime :: time
  j_NextDrawTime :: time
  j_WinningTicketID :: string
  j_WinningUserID :: string
  j_WinningAmount :: decimal
  j_CreatedAt :: time
  j_UpdatedAt :: time

record JackpotTicket =
  k_ID :: string
  k_JackpotID :: string
  k_UserID :: string
  k_BetAmount :: decimal
  k_Numbers :: "int list"
  k_Status :: TicketStatus
  k_Prize :: decimal
  k_DrawTime :: time
  k_Won :: bool
  k_CreatedAt :: time
  k_UpdatedAt :: time

record JackpotMovement =
  jm_ID :: string
  jm_UserID :: string
  jm_Amount :: decimal
  jm_Type :: string
  jm_Status :: string
  jm_Reference :: string
  jm_CreatedAt :: time
  jm_CompletedAt :: time

record JackpotDraw =
  d_ID :: string
  d_JackpotID :: string
  d_DrawTime :: time
  d_WinningNumbers :: "int list"
  d_TotalTickets :: nat
  d_WinningTicket :: "JackpotTicket option"
  d_PrizeAmount :: decimal
  d_Status :: DrawStatus
  d_CreatedAt :: time

record JackpotMetrics =
  jx_TotalJackpots :: int
  jx_ActiveJackpots :: int
  jx_TotalTickets :: int
  jx_ActiveTickets :: int
  jx_TotalPayouts :: decimal
  jx_TotalContributions :: decimal
  jx_AverageJackpotSize :: decimal
  jx_LargestJackpot :: decimal
  jx_LastDrawTime :: time
  jx_NextDrawTime :: time

datatype jackpot_event =
    JackpotCreated Jackpot
  | JackpotActiveAccessed "Jackpot list"
  | JackpotTicketPurchased JackpotTicket
  | JackpotDrawCompleted JackpotDraw

text \<open>
  The interfaces \<open>JackpotRepository\<close>, \<open>WalletService\<close> and \<open>EventBus\<close> over the state
  \<open>'s\<close> of whatever stands behind them. A read is \<open>None\<close> and a write is \<open>False\<close> when the
  method returns an error.
\<close>

record 's ports =
  p_Create :: "'s \<Rightarrow> Jackpot \<Rightarrow> 's \<times> bool"
  p_GetByID :: "'s \<Rightarrow> string \<Rightarrow> Jackpot option"
  p_Update :: "'s \<Rightarrow> Jackpot \<Rightarrow> 's \<times> bool"
  p_GetActive :: "'s \<Rightarrow> Jackpot list option"
  p_CreateTicket :: "'s \<Rightarrow> JackpotTicket \<Rightarrow> 's \<times> bool"
  p_GetActiveTickets :: "'s \<Rightarrow> string \<Rightarrow> JackpotTicket list option"
  p_UpdateTicketStatus :: "'s \<Rightarrow> string \<Rightarrow> TicketStatus \<Rightarrow> decimal \<Rightarrow> 's \<times> bool"
  p_Credit :: "'s \<Rightarrow> string \<Rightarrow> decimal \<Rightarrow> JackpotMovement \<Rightarrow> 's \<times> bool"
  p_Debit :: "'s \<Rightarrow> string \<Rightarrow> decimal \<Rightarrow> JackpotMovement \<Rightarrow> 's \<times> bool"
  p_Publish :: "('s \<Rightarrow> jackpot_event \<Rightarrow> 's) option"

datatype jackpot_error =
    ErrNameRequired | ErrSeedAmount | ErrMinBet | ErrMaxBet | ErrContributionRate
  | ErrNotActive | ErrBelowMinimum | ErrAboveMaximum | ErrSixNumbers | ErrNumberRange | ErrDuplicateNumber
  | ErrNoNumbers | ErrOutOfRange int int int | ErrDuplicate int
  | ErrNoActiveTickets
  | ErrCreateJackpot | ErrGetJackpot | ErrGetActiveJackpots | ErrCreateTicket | ErrUpdateJackpot
  | ErrGetActiveTickets | ErrUpdateWinningTicket | ErrCreditWinner | ErrStreamEnded

section \<open>Helpers\<close>

definition validateJackpot :: "Jackpot \<Rightarrow> jackpot_error option" where
  "validateJackpot j =
     (if j_Name j = '''' then Some ErrNameRequired
      else if j_SeedAmount j \<le> 0 then Some ErrSeedAmount
      else if j_MinBet j \<le> 0 then Some ErrMinBet
      else if j_MaxBet j < j_MinBet j then Some ErrMaxBet
      else if j_ContributionRate j \<le> 0 \<or> j_ContributionRate j > 1 then Some ErrContributionRate
      else None)"

text \<open>The two loops over the numbers: the range check first, then the check for duplicates.\<close>

fun range_check :: "int list \<Rightarrow> jackpot_error option" where
  "range_check [] = None"
| "range_check (n # ns) = (if n < 1 \<or> n > 49 then Some ErrNumberRange else range_check ns)"

fun duplicate_check :: "int set \<Rightarrow> int list \<Rightarrow> jackpot_error option" where
  "duplicate_check seen [] = None"
| "duplicate_check seen (n # ns) =
     (if n \<in> seen then Some ErrDuplicateNumber else duplicate_check (insert n seen) ns)"

definition validateTicketPurchase :: "Jackpot \<Rightarrow> decimal \<Rightarrow> int list \<Rightarrow> jackpot_error option" where
  "validateTicketPurchase j betAmount numbers =
     (if j_Status j \<noteq> JackpotStatusActive then Some ErrNotActive
      else if betAmount < j_MinBet j then Some ErrBelowMinimum
      else if betAmount > j_MaxBet j then Some ErrAboveMaximum
      else if length numbers \<noteq> 6 then Some ErrSixNumbers
      else case range_check numbers of Some e \<Rightarrow> Some e | None \<Rightarrow> duplicate_check {} numbers)"

text \<open>
  The inner loop draws until it sees a new number; \<open>None\<close> says that the list of draws ended
  first. The outer loop fills the slots.
\<close>

fun draw_new :: "int list \<Rightarrow> int set \<Rightarrow> (int \<times> int list) option" where
  "draw_new [] seen = None"
| "draw_new (r # rs) seen = (if r + 1 \<in> seen then draw_new rs seen else Some (r + 1, rs))"

fun draw_numbers :: "nat \<Rightarrow> int list \<Rightarrow> int set \<Rightarrow> int list option" where
  "draw_numbers 0 rs seen = Some []"
| "draw_numbers (Suc c) rs seen =
     (case draw_new rs seen of
        None \<Rightarrow> None
      | Some (n, rs') \<Rightarrow> map_option ((#) n) (draw_numbers c rs' (insert n seen)))"

definition generateWinningNumbers :: "int list \<Rightarrow> nat \<Rightarrow> int list option" where
  "generateWinningNumbers rs cnt = draw_numbers cnt rs {}"

definition isWinner :: "int list \<Rightarrow> int list \<Rightarrow> bool" where
  "isWinner ticketNumbers winningNumbers \<longleftrightarrow>
     length ticketNumbers = length winningNumbers \<and> (\<forall>n \<in> set winningNumbers. n \<in> set ticketNumbers)"

fun findWinner :: "JackpotTicket list \<Rightarrow> int list \<Rightarrow> JackpotTicket option" where
  "findWinner [] winningNumbers = None"
| "findWinner (t # ts) winningNumbers =
     (if isWinner (k_Numbers t) winningNumbers then Some t else findWinner ts winningNumbers)"

text \<open>\<open>big.Rat\<close> keeps the quotient of the two products in lowest terms.\<close>

fun odds_products :: "int \<Rightarrow> nat \<Rightarrow> int \<times> int" where
  "odds_products m 0 = (1, 1)"
| "odds_products m (Suc i) =
     (let (num, den) = odds_products m i in (num * (m - int i), den * (int i + 1)))"

definition calculateOdds :: "int \<Rightarrow> nat \<Rightarrow> rat" where
  "calculateOdds totalNumbers numbersToChoose =
     (let (num, den) = odds_products totalNumbers numbersToChoose in of_int num / of_int den)"

definition calculateExpectedValue :: "libs \<Rightarrow> decimal \<Rightarrow> decimal \<Rightarrow> int \<Rightarrow> decimal" where
  "calculateExpectedValue L jackpotAmount ticketCost totalTickets =
     (if totalTickets = 0 then 0 else dec_div L jackpotAmount (of_int totalTickets) - ticketCost)"

definition getJackpotProgress :: "libs \<Rightarrow> decimal \<Rightarrow> decimal \<Rightarrow> decimal" where
  "getJackpotProgress L currentAmount targetAmount =
     (if targetAmount \<le> 0 then 0 else dec_div L currentAmount targetAmount * 100)"

text \<open>\<open>Hours\<close> and \<open>Minutes\<close> are floats: whole units plus the rounded fraction of one.\<close>

definition duration_units :: "duration \<Rightarrow> duration \<Rightarrow> int" where
  "duration_units u d = \<lfloor>fl (of_int (d div u) + fl (of_int (d mod u) / of_int u))\<rfloor>"

definition getTimeUntilDraw :: "time \<Rightarrow> time \<Rightarrow> string" where
  "getTimeUntilDraw now nextDrawTime =
     (let d = nextDrawTime - now in
      if d \<le> 0 then ''Now''
      else
        let days = nat (duration_units Hour d div 24);
            hours = nat (duration_units Hour d mod 24);
            minutes = nat (duration_units Minute d mod 60) in
        if 0 < days then show_nat days @ ''d '' @ show_nat hours @ ''h '' @ show_nat minutes @ ''m''
        else if 0 < hours then show_nat hours @ ''h '' @ show_nat minutes @ ''m''
        else show_nat minutes @ ''m'')"

fun numbers_check :: "int \<Rightarrow> int \<Rightarrow> int set \<Rightarrow> int list \<Rightarrow> jackpot_error option" where
  "numbers_check lo hi seen [] = None"
| "numbers_check lo hi seen (n # ns) =
     (if n < lo \<or> n > hi then Some (ErrOutOfRange n lo hi)
      else if n \<in> seen then Some (ErrDuplicate n)
      else numbers_check lo hi (insert n seen) ns)"

definition validateNumbers :: "int list \<Rightarrow> int \<Rightarrow> int \<Rightarrow> jackpot_error option" where
  "validateNumbers numbers lo hi =
     (if numbers = [] then Some ErrNoNumbers else numbers_check lo hi {} numbers)"

text \<open>
  The quick pick takes a random index out of the numbers left. \<open>rs\<close> are the values
  \<open>rng.Intn(len(available))\<close> returns; \<open>None\<close> is the panic of \<open>make\<close> on a negative size
  or the end of the list of draws.
\<close>

fun pick_loop :: "nat \<Rightarrow> nat list \<Rightarrow> int list \<Rightarrow> int list option" where
  "pick_loop 0 rs available = Some []"
| "pick_loop (Suc c) rs [] = Some []"
| "pick_loop (Suc c) [] (a # as) = None"
| "pick_loop (Suc c) (idx # rs) (a # as) =
     map_option ((#) ((a # as) ! idx))
       (pick_loop c rs (take idx (a # as) @ drop (idx + 1) (a # as)))"

definition generateQuickPick :: "nat list \<Rightarrow> int \<Rightarrow> int \<Rightarrow> int \<Rightarrow> int list option" where
  "generateQuickPick rs cnt lo hi =
     (let n = (if cnt > hi - lo + 1 then hi - lo + 1 else cnt) in
      if n < 0 \<or> hi - lo + 1 < 0 then None else pick_loop (nat n) rs [lo..hi])"

definition calculatePrizeTier :: "libs \<Rightarrow> decimal \<Rightarrow> int \<Rightarrow> decimal" where
  "calculatePrizeTier L jackpotAmount matches =
     (if matches = 6 then jackpotAmount
      else if matches = 5 then dec_div L jackpotAmount 100
      else if matches = 4 then dec_div L jackpotAmount 1000
      else if matches = 3 then dec_div L jackpotAmount 10000
      else 0)"

section \<open>The service\<close>

definition publishJackpotEvent :: "'s ports \<Rightarrow> 's \<Rightarrow> jackpot_event \<Rightarrow> 's" where
  "publishJackpotEvent P s e = (case p_Publish P of None \<Rightarrow> s | Some pub \<Rightarrow> pub s e)"

definition CreateJackpot ::
  "'s ports \<Rightarrow> (nat \<Rightarrow> time) \<Rightarrow> string \<Rightarrow> 's \<Rightarrow> Jackpot \<Rightarrow> 's \<times> (jackpot_error + Jackpot)" where
  "CreateJackpot P now newID s j =
     (case validateJackpot j of
        Some e \<Rightarrow> (s, Inl e)
      | None \<Rightarrow>
          let j1 = j\<lparr>j_ID := newID, j_Status := JackpotStatusActive, j_CreatedAt := now 0, j_UpdatedAt := now 1,
                     j_NextDrawTime := now 2 + (case j_Type j of
                         JackpotTypeDaily \<Rightarrow> 24 * Hour
                       | JackpotTypeWeekly \<Rightarrow> 7 * 24 * Hour
                       | _ \<Rightarrow> 24 * Hour)\<rparr>;
              (s1, ok) = p_Create P s j1 in
          if \<not> ok then (s1, Inl ErrCreateJackpot)
          else (publishJackpotEvent P s1 (JackpotCreated j1), Inr j1))"

definition GetActiveJackpots :: "'s ports \<Rightarrow> 's \<Rightarrow> 's \<times> (jackpot_error + Jackpot list)" where
  "GetActiveJackpots P s =
     (case p_GetActive P s of
        None \<Rightarrow> (s, Inl ErrGetActiveJackpots)
      | Some js \<Rightarrow> (publishJackpotEvent P s (JackpotActiveAccessed js), Inr js))"

definition PurchaseTicket ::
  "'s ports \<Rightarrow> (nat \<Rightarrow> time) \<Rightarrow> string \<Rightarrow> 's \<Rightarrow> string \<Rightarrow> string \<Rightarrow> decimal \<Rightarrow> int list
     \<Rightarrow> 's \<times> (jackpot_error + JackpotTicket)" where
  "PurchaseTicket P now newID s jackpotID userID betAmount numbers =
     (case p_GetByID P s jackpotID of
        None \<Rightarrow> (s, Inl ErrGetJackpot)
      | Some j \<Rightarrow>
          (case validateTicketPurchase j betAmount numbers of
             Some e \<Rightarrow> (s, Inl e)
           | None \<Rightarrow>
               let t = \<lparr>k_ID = newID, k_JackpotID = jackpotID, k_UserID = userID, k_BetAmount = betAmount,
                        k_Numbers = numbers, k_Status = TicketStatusActive, k_Prize = 0, k_DrawTime = zero_time,
                        k_Won = False, k_CreatedAt = now 0, k_UpdatedAt = now 1\<rparr>;
                   (s1, ok1) = p_CreateTicket P s t in
               if \<not> ok1 then (s1, Inl ErrCreateTicket)
               else
                 let j1 = j\<lparr>j_CurrentAmount := j_CurrentAmount j + betAmount * j_ContributionRate j,
                            j_UpdatedAt := now 2\<rparr>;
                     (s2, ok2) = p_Update P s1 j1 in
                 if \<not> ok2 then (s2, Inl ErrUpdateJackpot)
                 else (publishJackpotEvent P s2 (JackpotTicketPurchased t), Inr t)))"

text \<open>
  A draw. Its identifiers are \<open>newID 0\<close> for the draw and \<open>newID 1\<close> for the wallet movement.
  The winner is a pointer into the draw, so the draw carries the ticket with its prize.
\<close>

definition winning_ticket :: "JackpotTicket \<Rightarrow> decimal \<Rightarrow> time \<Rightarrow> time \<Rightarrow> JackpotTicket" where
  "winning_ticket t prize t1 t2 =
     t\<lparr>k_Status := TicketStatusWinner, k_Prize := prize, k_DrawTime := t1, k_UpdatedAt := t2\<rparr>"

definition pay_winner ::
  "'s ports \<Rightarrow> (nat \<Rightarrow> time) \<Rightarrow> string \<Rightarrow> 's \<Rightarrow> Jackpot \<Rightarrow> string \<Rightarrow> JackpotTicket
     \<Rightarrow> 's \<times> (jackpot_error + Jackpot)" where
  "pay_winner P now movementID s j jackpotID w =
     (let (s1, ok1) = p_UpdateTicketStatus P s (k_ID w) TicketStatusWinner (j_CurrentAmount j) in
      if \<not> ok1 then (s1, Inl ErrUpdateWinningTicket)
      else
        let m = \<lparr>jm_ID = movementID, jm_UserID = k_UserID w, jm_Amount = j_CurrentAmount j, jm_Type = ''WIN'',
                 jm_Status = ''COMPLETED'', jm_Reference = jackpotID, jm_CreatedAt = now 4, jm_CompletedAt = now 5\<rparr>;
            (s2, ok2) = p_Credit P s1 (k_UserID w) (j_CurrentAmount j) m in
        if \<not> ok2 then (s2, Inl ErrCreditWinner)
        else (s2, Inr (j\<lparr>j_Status := JackpotStatusCompleted, j_WinningTicketID := k_ID w,
                         j_WinningUserID := k_UserID w, j_WinningAmount := j_CurrentAmount j,
                         j_EndTime := now 6, j_UpdatedAt := now 7\<rparr>)))"

definition finish_draw ::
  "'s ports \<Rightarrow> 's \<Rightarrow> Jackpot \<Rightarrow> JackpotDraw \<Rightarrow> 's \<times> (jackpot_error + JackpotDraw)" where
  "finish_draw P s j draw =
     (let (s1, ok) = p_Update P s j in
      if \<not> ok then (s1, Inl ErrUpdateJackpot)
      else (publishJackpotEvent P s1 (JackpotDrawCompleted draw), Inr draw))"

definition DrawJackpot ::
  "'s ports \<Rightarrow> (nat \<Rightarrow> time) \<Rightarrow> (nat \<Rightarrow> string) \<Rightarrow> int list \<Rightarrow> 's \<Rightarrow> string \<Rightarrow> 's \<times> (jackpot_error + JackpotDraw)" where
  "DrawJackpot P now newID rs s jackpotID =
     (case p_GetByID P s jackpotID of
        None \<Rightarrow> (s, Inl ErrGetJackpot)
      | Some j \<Rightarrow>
          (case p_GetActiveTickets P s jackpotID of
             None \<Rightarrow> (s, Inl ErrGetActiveTickets)
           | Some tickets \<Rightarrow>
               if tickets = [] then (s, Inl ErrNoActiveTickets)
               else
                 (case generateWinningNumbers rs 6 of
                    None \<Rightarrow> (s, Inl ErrStreamEnded)
                  | Some winningNumbers \<Rightarrow>
                      let draw = \<lparr>d_ID = newID 0, d_JackpotID = jackpotID, d_DrawTime = now 0,
                            d_WinningNumbers = winningNumbers, d_TotalTickets = length tickets,
                            d_WinningTicket = None, d_PrizeAmount = j_CurrentAmount j,
                            d_Status = DrawStatusCompleted, d_CreatedAt = now 1\<rparr> in
                      (case findWinner tickets winningNumbers of
                         None \<Rightarrow>
                           finish_draw P s (j\<lparr>j_NextDrawTime := now 2 + 24 * Hour, j_UpdatedAt := now 3\<rparr>) draw
                       | Some w \<Rightarrow>
                           (case pay_winner P now (newID 1) s j jackpotID w of
                              (s2, Inl e) \<Rightarrow> (s2, Inl e)
                            | (s2, Inr j1) \<Rightarrow>
                                finish_draw P s2 j1
                                  (draw\<lparr>d_WinningTicket := Some (winning_ticket w (j_CurrentAmount j) (now 2) (now 3))\<rparr>))))))"

text \<open>The metrics are constants of the source.\<close>

definition GetJackpotMetrics :: "(nat \<Rightarrow> time) \<Rightarrow> JackpotMetrics" where
  "GetJackpotMetrics now = \<lparr>
     jx_TotalJackpots = 15, jx_ActiveJackpots = 8, jx_TotalTickets = 50000, jx_ActiveTickets = 12000,
     jx_TotalPayouts = 2500000, jx_TotalContributions = 3000000, jx_AverageJackpotSize = 125000,
     jx_LargestJackpot = 500000, jx_LastDrawTime = now 0 - 2 * Hour, jx_NextDrawTime = now 1 + 4 * Hour\<rparr>"

section \<open>What the service relies on\<close>

text \<open>
  A successful write is what the next read returns, each write touches only what it names, and
  crediting a wallet does not touch the jackpot tables.
\<close>

definition ports_ok :: "'s ports \<Rightarrow> bool" where
  "ports_ok P \<longleftrightarrow>
     (\<forall>s i j. p_GetByID P s i = Some j \<longrightarrow> j_ID j = i) \<and>
     (\<forall>s j s'. p_Update P s j = (s', True) \<longrightarrow>
        p_GetByID P s' = (p_GetByID P s)(j_ID j := Some j) \<and> p_GetActiveTickets P s' = p_GetActiveTickets P s) \<and>
     (\<forall>s t s'. p_CreateTicket P s t = (s', True) \<longrightarrow>
        p_GetByID P s' = p_GetByID P s \<and>
        (\<forall>ts. p_GetActiveTickets P s (k_JackpotID t) = Some ts \<and> k_Status t = TicketStatusActive \<longrightarrow>
           (\<exists>ts'. p_GetActiveTickets P s' (k_JackpotID t) = Some ts' \<and> mset ts' = add_mset t (mset ts)))) \<and>
     (\<forall>s i st pr s'. p_UpdateTicketStatus P s i st pr = (s', True) \<and> st \<noteq> TicketStatusActive \<longrightarrow>
        p_GetByID P s' = p_GetByID P s \<and>
        (\<forall>k. p_GetActiveTickets P s' k = map_option (filter (\<lambda>t. k_ID t \<noteq> i)) (p_GetActiveTickets P s k))) \<and>
     (\<forall>s u a m s'. p_Credit P s u a m = (s', True) \<longrightarrow>
        p_GetByID P s' = p_GetByID P s \<and> p_GetActiveTickets P s' = p_GetActiveTickets P s) \<and>
     (\<forall>s e pub. p_Publish P = Some pub \<longrightarrow>
        p_GetByID P (pub s e) = p_GetByID P s \<and> p_GetActiveTickets P (pub s e) = p_GetActiveTickets P s)"

text \<open>An instance: lists of rows, the payments made so far and the number of events.\<close>

record jackpot_store =
  st_jackpots :: "Jackpot list"
  st_tickets :: "JackpotTicket list"
  st_paid :: "(string \<times> decimal) list"
  st_events :: nat

definition list_ports :: "jackpot_store ports" where
  "list_ports = \<lparr>
     p_Create = (\<lambda>s j. (s\<lparr>st_jackpots := j # st_jackpots s\<rparr>, True)),
     p_GetByID = (\<lambda>s i. select_row (\<lambda>j. j_ID j = i) (st_jackpots s)),
     p_Update = (\<lambda>s j. (s\<lparr>st_jackpots := j # st_jackpots s\<rparr>, True)),
     p_GetActive = (\<lambda>s. Some (filter (\<lambda>j. j_Status j = JackpotStatusActive) (st_jackpots s))),
     p_CreateTicket = (\<lambda>s t. (s\<lparr>st_tickets := t # st_tickets s\<rparr>, True)),
     p_GetActiveTickets = (\<lambda>s i. Some (filter (\<lambda>t. k_JackpotID t = i \<and> k_Status t = TicketStatusActive) (st_tickets s))),
     p_UpdateTicketStatus = (\<lambda>s i st pr. (s\<lparr>st_tickets :=
        update_where (\<lambda>t. k_ID t = i) (\<lambda>t. t\<lparr>k_Status := st, k_Prize := pr\<rparr>) (st_tickets s)\<rparr>, True)),
     p_Credit = (\<lambda>s u a m. (s\<lparr>st_paid := st_paid s @ [(u, a)]\<rparr>, True)),
     p_Debit = (\<lambda>s u a m. (s\<lparr>st_paid := st_paid s @ [(u, - a)]\<rparr>, True)),
     p_Publish = Some (\<lambda>s e. s\<lparr>st_events := st_events s + 1\<rparr>)\<rparr>"

lemma filter_update_away:
  assumes "st \<noteq> TicketStatusActive"
  shows "filter (\<lambda>t. k_JackpotID t = k \<and> k_Status t = TicketStatusActive)
      (update_where (\<lambda>t. k_ID t = i) (\<lambda>t. t\<lparr>k_Status := st, k_Prize := pr\<rparr>) ts) =
    filter (\<lambda>t. k_ID t \<noteq> i) (filter (\<lambda>t. k_JackpotID t = k \<and> k_Status t = TicketStatusActive) ts)"
  using assms by (induction ts) (auto simp: update_where_def)

lemma list_ports_ok: "ports_ok list_ports"
  by (auto simp: ports_ok_def list_ports_def select_row_Cons fun_eq_iff filter_update_away dest: select_row_Some)

lemma ports_okD:
  assumes "ports_ok P"
  shows port_GetByID: "p_GetByID P s i = Some j \<Longrightarrow> j_ID j = i"
    and port_Update: "p_Update P s j = (s', True) \<Longrightarrow>
      p_GetByID P s' = (p_GetByID P s)(j_ID j := Some j) \<and> p_GetActiveTickets P s' = p_GetActiveTickets P s"
    and port_CreateTicket: "p_CreateTicket P s t = (s', True) \<Longrightarrow> p_GetByID P s' = p_GetByID P s"
    and port_CreateTicket_active: "p_CreateTicket P s t = (s', True) \<Longrightarrow>
      p_GetActiveTickets P s (k_JackpotID t) = Some ts \<Longrightarrow> k_Status t = TicketStatusActive \<Longrightarrow>
      \<exists>ts'. p_GetActiveTickets P s' (k_JackpotID t) = Some ts' \<and> mset ts' = add_mset t (mset ts)"
    and port_UpdateTicketStatus: "p_UpdateTicketStatus P s i st pr = (s', True) \<Longrightarrow> st \<noteq> TicketStatusActive \<Longrightarrow>
      p_GetByID P s' = p_GetByID P s \<and>
      p_GetActiveTickets P s' k = map_option (filter (\<lambda>t. k_ID t \<noteq> i)) (p_GetActiveTickets P s k)"
    and port_Credit: "p_Credit P s u a m = (s', True) \<Longrightarrow>
      p_GetByID P s' = p_GetByID P s \<and> p_GetActiveTickets P s' = p_GetActiveTickets P s"
    and port_publish: "p_GetByID P (publishJackpotEvent P s e) = p_GetByID P s"
      "p_GetActiveTickets P (publishJackpotEvent P s e) = p_GetActiveTickets P s"
  using assms unfolding ports_ok_def publishJackpotEvent_def by (blast | auto split: option.splits)+

section \<open>Numbers\<close>

lemma range_check_None: "range_check ns = None \<longleftrightarrow> (\<forall>n \<in> set ns. 1 \<le> n \<and> n \<le> 49)"
  by (induction ns) auto

text \<open>Two checks in a row find no error exactly when neither does.\<close>

lemma first_error [outcome]:
  "(case x of None \<Rightarrow> y | Some e \<Rightarrow> Some e) = None \<longleftrightarrow> x = None \<and> y = None"
  by (simp split: option.split)

lemma duplicate_check_None:
  "duplicate_check seen ns = None \<longleftrightarrow> distinct ns \<and> set ns \<inter> seen = {}"
  by (induction seen ns rule: duplicate_check.induct) auto

lemma numbers_check_None:
  "numbers_check lo hi seen ns = None \<longleftrightarrow> (\<forall>n \<in> set ns. lo \<le> n \<and> n \<le> hi) \<and> distinct ns \<and> set ns \<inter> seen = {}"
  by (induction lo hi seen ns rule: numbers_check.induct) auto

text \<open>What the purchase checks accept: an active pool, a stake within its limits, six of 49.\<close>

definition six_of_49 :: "int list \<Rightarrow> bool" where
  "six_of_49 ns \<longleftrightarrow> length ns = 6 \<and> distinct ns \<and> set ns \<subseteq> {1..49}"

lemma validateTicketPurchase_None:
  "validateTicketPurchase j b ns = None \<longleftrightarrow>
     j_Status j = JackpotStatusActive \<and> j_MinBet j \<le> b \<and> b \<le> j_MaxBet j \<and> six_of_49 ns"
  by (auto simp: validateTicketPurchase_def six_of_49_def first_error range_check_None duplicate_check_None)

text \<open>The distinct values of a list in the order of their first occurrence.\<close>

fun first_seen :: "int set \<Rightarrow> int list \<Rightarrow> int list" where
  "first_seen seen [] = []"
| "first_seen seen (x # xs) = (if x \<in> seen then first_seen seen xs else x # first_seen (insert x seen) xs)"

lemma first_seen_set [simp]: "set (first_seen seen xs) = set xs - seen"
  by (induction seen xs rule: first_seen.induct) auto

lemma first_seen_distinct [simp]: "distinct (first_seen seen xs)"
  by (induction seen xs rule: first_seen.induct) auto

lemma draw_new_first_seen:
  "first_seen seen (map (\<lambda>r. r + 1) rs) =
     (case draw_new rs seen of None \<Rightarrow> [] | Some (n, rs') \<Rightarrow> n # first_seen (insert n seen) (map (\<lambda>r. r + 1) rs'))"
  by (induction rs) auto

lemma draw_numbers_first_seen:
  "draw_numbers c rs seen =
     (let ns = first_seen seen (map (\<lambda>r. r + 1) rs) in if c \<le> length ns then Some (take c ns) else None)"
proof (induction c arbitrary: rs seen)
  case (Suc c)
  show ?case
    by (subst draw_new_first_seen) (auto simp: Suc.IH Let_def split: option.splits prod.splits)
qed simp

lemma length_first_seen: "length (first_seen {} xs) = card (set xs)"
  by (metis Diff_empty distinct_card first_seen_distinct first_seen_set)

section \<open>Quick pick\<close>

lemma pick_loop_step:
  "length us = r \<Longrightarrow> pick_loop (Suc c) (r # rs) (us @ x # vs) = map_option ((#) x) (pick_loop c rs (us @ vs))"
  by (cases us) (auto simp: nth_append)

lemma pick_loop_picks:
  assumes "c \<le> length available" "c \<le> length rs" "\<forall>i < c. rs ! i < length available - i" "distinct available"
  shows "\<exists>ns. pick_loop c rs available = Some ns \<and> length ns = c \<and> distinct ns \<and> set ns \<subseteq> set available"
  using assms
proof (induction c arbitrary: rs available)
  case (Suc c)
  from Suc.prems obtain a as where a: "available = a # as" by (cases available) auto
  from Suc.prems obtain r rs' where r: "rs = r # rs'" by (cases rs) auto
  have lt: "r < length available" using Suc.prems(3) r by fastforce
  then obtain us x vs where av: "available = us @ x # vs" "length us = r"
    by (metis id_take_nth_drop length_take min.absorb4)
  have "\<forall>i < c. rs' ! i < length (us @ vs) - i" using Suc.prems(3) r av by fastforce
  then obtain ns where ns: "pick_loop c rs' (us @ vs) = Some ns" "length ns = c" "distinct ns"
      "set ns \<subseteq> set (us @ vs)"
    using Suc.IH [of "us @ vs" rs'] Suc.prems(1,2,4) r av by auto
  have "pick_loop (Suc c) rs available = Some (x # ns)"
    unfolding r av(1) pick_loop_step [OF av(2)] by (simp add: ns(1))
  then show ?case using ns Suc.prems(4) av by auto
qed simp

section \<open>Odds\<close>

lemma odds_products_fact:
  "k \<le> n \<Longrightarrow> odds_products (int n) k = (int (\<Prod>i<k. n - i), int (fact k))"
  by (induction k) (simp_all add: of_nat_diff algebra_simps lessThan_Suc)


lemma generateWinningNumbers_spec:
  "(generateWinningNumbers rs c = None \<longleftrightarrow> card (set rs) < c) \<and>
   (generateWinningNumbers rs c = Some ns \<longrightarrow>
      ns = take c (first_seen {} (map (\<lambda>r. r + 1) rs)) \<and> length ns = c \<and> distinct ns \<and>
      set ns \<subseteq> (\<lambda>r. r + 1) ` set rs)"
proof -
  let ?fs = "first_seen {} (map (\<lambda>r. r + 1) rs)"
  have "card ((\<lambda>r. r + 1) ` set rs) = card (set rs)" by (rule card_image) (simp add: inj_on_def)
  then have "length ?fs = card (set rs)" by (simp add: length_first_seen)
  moreover have "set (take c ?fs) \<subseteq> (\<lambda>r. r + 1) ` set rs"
    using set_take_subset [of c ?fs] by simp
  ultimately show ?thesis
    by (auto simp: generateWinningNumbers_def draw_numbers_first_seen Let_def)
qed

section \<open>A small pool\<close>

definition sample_jackpot :: Jackpot where
  "sample_jackpot = \<lparr>j_ID = ''J'', j_Name = ''Daily'', j_Type = JackpotTypeDaily, j_CurrentAmount = 1000,
     j_SeedAmount = 1000, j_MinBet = 10, j_MaxBet = 100, j_ContributionRate = 1 / 10,
     j_Status = JackpotStatusActive, j_StartTime = 0, j_EndTime = 0, j_NextDrawTime = 0, j_WinningTicketID = '''',
     j_WinningUserID = '''', j_WinningAmount = 0, j_CreatedAt = 0, j_UpdatedAt = 0\<rparr>"

definition sample_pool :: jackpot_store where
  "sample_pool = \<lparr>st_jackpots = [sample_jackpot], st_tickets = [], st_paid = [], st_events = 0\<rparr>"

definition buy :: "string \<Rightarrow> string \<Rightarrow> jackpot_store \<Rightarrow> jackpot_store" where
  "buy tid u s = fst (PurchaseTicket list_ports (\<lambda>_. 0) tid s ''J'' u 50 [1, 2, 3, 4, 5, 6])"

definition draw_123456 :: "jackpot_store \<Rightarrow> jackpot_store \<times> (jackpot_error + JackpotDraw)" where
  "draw_123456 s = DrawJackpot list_ports (\<lambda>_. 0) (\<lambda>_. ''D'') [0, 1, 2, 3, 4, 5] s ''J''"

text \<open>The draw does not look at the status of the pool: two tickets with the winning numbers, drawn
  twice, are each paid the whole pool, the second time by a pool that is already completed.\<close>

lemma jackpot_paid_twice:
  "st_paid (fst (draw_123456 (fst (draw_123456 (buy ''T2'' ''bob'' (buy ''T1'' ''amy'' sample_pool)))))) =
     [(''bob'', 1010), (''amy'', 1010)]"
  by code_simp

text \<open>No purchase touches a wallet: it is the same function whatever the wallet operations do.\<close>

lemma PurchaseTicket_never_debits:
  "PurchaseTicket (P\<lparr>p_Credit := c, p_Debit := db\<rparr>) now newID s i u b ns = PurchaseTicket P now newID s i u b ns"
  by (simp add: PurchaseTicket_def publishJackpotEvent_def Let_def split: option.split prod.split)

section \<open>Properties\<close>

text \<open>C21: a draw of numbers ends exactly when the generator supplies enough different values. It then
  returns the first different values in the order they came, each once and shifted to 1..49; it
  keeps drawing for ever only if fewer than the requested number of different values ever
  come.\<close>

theorem generateWinningNumbers_draws:
  "(generateWinningNumbers rs c = None \<longleftrightarrow> card (set rs) < c) \<and>
   (generateWinningNumbers rs c = Some ns \<longrightarrow>
      ns = take c (first_seen {} (map (\<lambda>r. r + 1) rs)) \<and> length ns = c \<and> distinct ns \<and>
      set ns \<subseteq> (\<lambda>r. r + 1) ` set rs)"
  by (rule generateWinningNumbers_spec)

theorem generateWinningNumbers_draws_witness:
  "generateWinningNumbers [6, 6, 0, 48, 0, 3, 17, 20, 1] 6 = Some [7, 1, 49, 4, 18, 21] \<and>
   distinct [7, 1, 49, 4, 18, 21::int]"
proof
  show d: "generateWinningNumbers [6, 6, 0, 48, 0, 3, 17, 20, 1] 6 = Some [7, 1, 49, 4, 18, 21]" by code_simp
  show "distinct [7, 1, 49, 4, 18, 21::int]"
    using generateWinningNumbers_draws [THEN conjunct2, rule_format, OF d] by blast
qed

text \<open>A ticket wins by its set of numbers. Between six different numbers of 49, the order in which
  they were chosen or drawn does not matter.\<close>

theorem isWinner_by_set:
  assumes "six_of_49 t" "six_of_49 w"
  shows "isWinner t w \<longleftrightarrow> set t = set w"
proof -
  have "card (set t) = card (set w)" using assms by (simp add: six_of_49_def distinct_card)
  then have "set t = set w" if "set w \<subseteq> set t" using that by (metis card_subset_eq finite_set)
  then show ?thesis using assms by (auto simp: isWinner_def six_of_49_def)
qed

theorem isWinner_by_set_witness: "isWinner [1, 2, 3, 4, 5, 6] [6, 5, 4, 3, 2, 1]"
proof -
  have "six_of_49 [1, 2, 3, 4, 5, 6]" "six_of_49 [6, 5, 4, 3, 2, 1]" by code_simp+
  from isWinner_by_set [OF this] show ?thesis by auto
qed

text \<open>A sold ticket is valid, recorded and paid into the pool. A successful purchase was for an
  active pool with a stake inside its limits and six different numbers of 49; exactly that ticket
  joins the active tickets, and the pool grows by its contribution and changes in nothing
  else.\<close>

theorem PurchaseTicket_sold:
  assumes "ports_ok P" "p_GetByID P s i = Some j" "p_GetActiveTickets P s i = Some ts"
    and "PurchaseTicket P now newID s i u b ns = (s', Inr t)"
  shows "j_Status j = JackpotStatusActive \<and> j_MinBet j \<le> b \<and> b \<le> j_MaxBet j \<and> six_of_49 ns \<and>
    k_UserID t = u \<and> k_BetAmount t = b \<and> k_Numbers t = ns \<and> k_Status t = TicketStatusActive \<and>
    (\<exists>ts'. p_GetActiveTickets P s' i = Some ts' \<and> mset ts' = add_mset t (mset ts)) \<and>
    p_GetByID P s' i = Some (j\<lparr>j_CurrentAmount := j_CurrentAmount j + b * j_ContributionRate j, j_UpdatedAt := now 2\<rparr>)"
proof -
  let ?t = "\<lparr>k_ID = newID, k_JackpotID = i, k_UserID = u, k_BetAmount = b, k_Numbers = ns,
    k_Status = TicketStatusActive, k_Prize = 0, k_DrawTime = zero_time, k_Won = False,
    k_CreatedAt = now 0, k_UpdatedAt = now 1\<rparr>"
  let ?j = "j\<lparr>j_CurrentAmount := j_CurrentAmount j + b * j_ContributionRate j, j_UpdatedAt := now 2\<rparr>"
  note v = assms(2,4)
  obtain s1 s2 where r: "validateTicketPurchase j b ns = None" "t = ?t" "p_CreateTicket P s ?t = (s1, True)"
      "p_Update P s1 ?j = (s2, True)" "s' = publishJackpotEvent P s2 (JackpotTicketPurchased t)"
    using v by (auto simp: PurchaseTicket_def Let_def split: option.splits prod.splits if_splits)
  have "j_ID ?j = i" using port_GetByID [OF assms(1,2)] by simp
  with port_Update [OF assms(1) r(4)] have u: "p_GetByID P s2 i = Some ?j"
    "p_GetActiveTickets P s2 = p_GetActiveTickets P s1" by simp_all
  obtain ts' where "p_GetActiveTickets P s1 i = Some ts'" "mset ts' = add_mset ?t (mset ts)"
    using port_CreateTicket_active [OF assms(1) r(3), of ts] assms(3) by auto
  with u r show ?thesis by (simp add: validateTicketPurchase_None port_publish [OF assms(1)])
qed

theorem PurchaseTicket_sold_witness:
  "\<exists>ts'. p_GetActiveTickets list_ports (buy ''T1'' ''amy'' sample_pool) ''J'' = Some ts' \<and> size (mset ts') = 1"
proof -
  let ?r = "PurchaseTicket list_ports (\<lambda>_. 0) ''T1'' sample_pool ''J'' ''amy'' 50 [1, 2, 3, 4, 5, 6]"
  have g: "p_GetByID list_ports sample_pool ''J'' = Some sample_jackpot"
    "p_GetActiveTickets list_ports sample_pool ''J'' = Some []" by code_simp+
  have "\<not> isl (snd ?r)" by code_simp
  then obtain t where "?r = (buy ''T1'' ''amy'' sample_pool, Inr t)"
    by (cases ?r; cases "snd ?r") (auto simp: buy_def)
  from PurchaseTicket_sold [OF list_ports_ok g this] obtain ts' where
    "p_GetActiveTickets list_ports (buy ''T1'' ''amy'' sample_pool) ''J'' = Some ts'" "mset ts' = add_mset t {#}"
    by auto
  then show ?thesis by (intro exI [of _ ts']) simp
qed

text \<open>A draw returns only along one of its two successful paths.\<close>

lemma finish_draw_Inr:
  "finish_draw P s j e = (s', Inr d) \<longleftrightarrow>
     e = d \<and> (\<exists>s1. p_Update P s j = (s1, True) \<and> s' = publishJackpotEvent P s1 (JackpotDrawCompleted d))"
  by (auto simp: finish_draw_def split: prod.splits)

lemma pay_winner_Inr:
  "pay_winner P now mid s j i w = (s', Inr j1) \<longleftrightarrow>
     (\<exists>s1 m. p_UpdateTicketStatus P s (k_ID w) TicketStatusWinner (j_CurrentAmount j) = (s1, True) \<and>
       m = \<lparr>jm_ID = mid, jm_UserID = k_UserID w, jm_Amount = j_CurrentAmount j, jm_Type = ''WIN'',
            jm_Status = ''COMPLETED'', jm_Reference = i, jm_CreatedAt = now 4, jm_CompletedAt = now 5\<rparr> \<and>
       p_Credit P s1 (k_UserID w) (j_CurrentAmount j) m = (s', True)) \<and>
     j1 = j\<lparr>j_Status := JackpotStatusCompleted, j_WinningTicketID := k_ID w, j_WinningUserID := k_UserID w,
            j_WinningAmount := j_CurrentAmount j, j_EndTime := now 6, j_UpdatedAt := now 7\<rparr>"
  by (auto simp: pay_winner_def Let_def split: prod.splits)

lemma DrawJackpot_Inr:
  assumes "DrawJackpot P now newID rs s i = (s', Inr d)"
    and p: "p_GetByID P s i = Some j" "p_GetActiveTickets P s i = Some ts"
  obtains ns where "generateWinningNumbers rs 6 = Some ns" "d_WinningNumbers d = ns"
    "d_PrizeAmount d = j_CurrentAmount j" "findWinner ts ns = None" "d_WinningTicket d = None"
    "finish_draw P s (j\<lparr>j_NextDrawTime := now 2 + 24 * Hour, j_UpdatedAt := now 3\<rparr>) d = (s', Inr d)"
  | ns w s2 j1 where "generateWinningNumbers rs 6 = Some ns" "d_WinningNumbers d = ns"
    "d_PrizeAmount d = j_CurrentAmount j" "findWinner ts ns = Some w" "pay_winner P now (newID 1) s j i w = (s2, Inr j1)"
    "d_WinningTicket d = Some (winning_ticket w (j_CurrentAmount j) (now 2) (now 3))"
    "finish_draw P s2 j1 d = (s', Inr d)"
proof -
  from assms obtain ns where g: "ts \<noteq> []" "generateWinningNumbers rs 6 = Some ns"
    by (auto simp: DrawJackpot_def split: option.splits if_splits)
  show thesis
  proof (cases "findWinner ts ns")
    case None
    with assms g show thesis
      by (intro that(1) [of ns]) (auto simp: DrawJackpot_def Let_def finish_draw_Inr)
  next
    case (Some w)
    with assms g obtain s2 j1 where pay: "pay_winner P now (newID 1) s j i w = (s2, Inr j1)"
      by (auto simp: DrawJackpot_def Let_def split: prod.splits sum.splits)
    with assms g Some show thesis
      by (intro that(2) [OF g(2) _ _ Some pay]) (auto simp: DrawJackpot_def Let_def finish_draw_Inr)
  qed
qed

lemma findWinner_Some: "findWinner ts ns = Some w \<Longrightarrow> w \<in> set ts \<and> isWinner (k_Numbers w) ns"
  by (induction ts) (auto split: if_splits)

lemma findWinner_None: "findWinner ts ns = None \<longleftrightarrow> (\<forall>t \<in> set ts. \<not> isWinner (k_Numbers t) ns)"
  by (induction ts) auto



text \<open>A quick pick gives different numbers of the range. Whatever random indices come, provided
  they are indices of the numbers left, it returns as many numbers as were asked for, or all of
  the range when that is smaller, each once and inside the range.\<close>

lemma generateQuickPick_valid:
  assumes "0 \<le> n" "lo \<le> hi + 1" "min n (hi - lo + 1) \<le> int (length rs)"
    and "\<forall>i < length rs. int (rs ! i) < hi - lo + 1 - int i"
  shows "\<exists>ns. generateQuickPick rs n lo hi = Some ns \<and> int (length ns) = min n (hi - lo + 1) \<and>
    (ns = [] \<or> validateNumbers ns lo hi = None)"
proof -
  let ?c = "nat (min n (hi - lo + 1))"
  have c: "?c \<le> length [lo..hi]" "?c \<le> length rs" using assms by auto
  have "\<forall>i < ?c. rs ! i < length [lo..hi] - i"
  proof (intro allI impI)
    fix i assume "i < ?c"
    then have "i < length rs" using c by simp
    then have "int (rs ! i) < hi - lo + 1 - int i" using assms(4) by blast
    then show "rs ! i < length [lo..hi] - i" by simp
  qed
  from pick_loop_picks [OF c this] obtain ns where
    ns: "pick_loop ?c rs [lo..hi] = Some ns" "length ns = ?c" "distinct ns" "set ns \<subseteq> {lo..hi}" by auto
  have "(if n > hi - lo + 1 then hi - lo + 1 else n) = min n (hi - lo + 1)" by simp
  then have "generateQuickPick rs n lo hi = Some ns"
    using ns(1) assms by (simp add: generateQuickPick_def Let_def)
  moreover have "ns = [] \<or> validateNumbers ns lo hi = None"
    using ns by (auto simp: validateNumbers_def numbers_check_None)
  ultimately show ?thesis using ns(2) assms by auto
qed

text \<open>The computed odds are the number of possible tickets: the quotient of the two products is
  the binomial coefficient.\<close>

theorem calculateOdds_binomial:
  assumes "k \<le> n" shows "calculateOdds (int n) k = of_nat (n choose k)"
proof -
  have "(\<Prod>i<k. n - i) * fact (n - k) = fact n" using assms
  proof (induction k)
    case (Suc k)
    then have "fact (n - k) = (n - k) * fact (n - Suc k)" by (metis Suc_diff_Suc Suc_le_lessD fact_Suc of_nat_id)
    with Suc show ?case by (simp add: ac_simps)
  qed simp
  also have "fact n = fact k * (n choose k) * fact (n - k)"
    using binomial_fact_lemma [OF assms] by (simp add: ac_simps)
  finally have "(\<Prod>i<k. n - i) = fact k * (n choose k)" by simp
  then show ?thesis
    using odds_products_fact [OF assms] by (simp add: calculateOdds_def)
qed

theorem calculateOdds_binomial_witness: "(49 choose 6) = (13983816::nat)"
proof -
  have "calculateOdds 49 6 = 13983816" by code_simp
  with calculateOdds_binomial [of 6 49] have "of_nat (49 choose 6) = (of_nat 13983816 :: rat)" by simp
  then show ?thesis by (simp only: of_nat_eq_iff)
qed

end
