(* ===== verification/SportsDb.thy ===== *)
theory SportsDb
  imports WalletService
begin

text \<open>
  The sports repositories of \<open>internal/infrastructure/repository/postgres\<close>: bets
  (\<open>sport_bet_*.go\<close>), matches (\<open>match_*.go\<close>), markets and outcomes, over the tables of
  \<open>migrations/20240429000006_create_sports_betting_tables.up.sql\<close>.

  \<open>sql_env\<close> collects what an operation depends on beside the tables: the numeric columns, which
  strings the server reads as a UUID, which users exist, the columns of \<open>sport_bets\<close> that are
  \<open>NOT NULL\<close> without a default, and whether the statement fails for a reason outside the
  program. A \<open>Scan\<close> fails on a \<open>NULL\<close> read into a plain Go variable and whenever the number of
  its destinations is not the number of selected columns. Lengths of strings and the microsecond
  resolution of timestamps are not modelled.
\<close>

record sql_env =
  se_libs :: libs
  se_is_uuid :: "string \<Rightarrow> bool"
  se_user_exists :: "string \<Rightarrow> bool"
  se_required :: "string list"
  se_fault :: bool

datatype sql_error = NoRows | ScanError | ConstraintError | StatementError | ScoreOverflow | NilScorePanic

record SportBetRow =
  sr_bet :: SportBet
  sr_reason :: "string option"

record EventRow =
  ev_ID :: string
  ev_EventID :: string
  ev_Sport :: string
  ev_Tournament :: string
  ev_HomeTeam :: string
  ev_AwayTeam :: string
  ev_StartTime :: time
  ev_Status :: string
  ev_HomeScore :: "int option"
  ev_AwayScore :: "int option"
  ev_CreatedAt :: time
  ev_UpdatedAt :: time

record MarketRow =
  mr_ID :: string
  mr_MarketID :: string
  mr_EventID :: string
  mr_Type :: string
  mr_Name :: string
  mr_Status :: MarketStatus
  mr_SuspendedAt :: "time option"
  mr_CreatedAt :: time
  mr_UpdatedAt :: time

record OutcomeRow =
  or_ID :: string
  or_OutcomeID :: string
  or_MarketID :: string
  or_Name :: string
  or_Odds :: decimal
  or_Price :: decimal
  or_Status :: OutcomeStatus
  or_SettledAt :: "time option"
  or_CreatedAt :: time
  or_UpdatedAt :: time

record sports_db =
  sport_bets :: "SportBetRow list"
  sport_events :: "EventRow list"
  betting_markets :: "MarketRow list"
  market_outcomes :: "OutcomeRow list"

definition odds4 :: "libs \<Rightarrow> decimal \<Rightarrow> decimal option" where
  "odds4 L = sql_numeric L 10 4"

definition positive :: "decimal option \<Rightarrow> decimal option" where
  "positive x = (case x of Some y \<Rightarrow> if 0 < y then Some y else None | None \<Rightarrow> None)"

lemma positive_Some [simp]: "positive x = Some y \<longleftrightarrow> x = Some y \<and> 0 < y"
  by (auto simp: positive_def split: option.splits)

section \<open>Sport bets\<close>

record BetFilters =
  bf_UserID :: "string option"
  bf_EventID :: "string option"
  bf_MarketID :: "string option"
  bf_OutcomeID :: "string option"
  bf_Status :: "BetStatus option"
  bf_Currency :: "string option"
  bf_MinAmount :: "decimal option"
  bf_MaxAmount :: "decimal option"
  bf_MinOdds :: "decimal option"
  bf_MaxOdds :: "decimal option"
  bf_From :: "time option"
  bf_To :: "time option"
  bf_Limit :: int
  bf_Offset :: int
  bf_OrderBy :: string
  bf_OrderDir :: string

text \<open>
  The table's own checks on a row: known user, event, market and outcome, positive amount and odds
  that fit their columns, and one of the statuses of the \<open>CHECK\<close> constraint.
\<close>

definition references_ok :: "sql_env \<Rightarrow> sports_db \<Rightarrow> SportBet \<Rightarrow> bool" where
  "references_ok E s b \<longleftrightarrow> se_user_exists E (sb_UserID b) \<and>
     (\<exists>e \<in> set (sport_events s). ev_ID e = sb_EventID b) \<and>
     (\<exists>m \<in> set (betting_markets s). mr_ID m = sb_MarketID b) \<and>
     (\<exists>x \<in> set (market_outcomes s). or_ID x = sb_OutcomeID b) \<and>
     sb_Status b \<noteq> BetStatusCashout"

definition stored_bet :: "sql_env \<Rightarrow> SportBet \<Rightarrow> SportBet option" where
  "stored_bet E b =
     (case (positive (money_col (se_libs E) (sb_Amount b)), positive (odds4 (se_libs E) (sb_Odds b)),
            money_col (se_libs E) (sb_Payout b), money_col (se_libs E) (sb_NetPayout b)) of
        (Some a, Some o', Some p, Some n) \<Rightarrow> Some (b\<lparr>sb_Amount := a, sb_Odds := o', sb_Payout := p, sb_NetPayout := n\<rparr>)
      | _ \<Rightarrow> None)"

text \<open>The \<open>NOT NULL\<close> columns without a default in the migration, and the columns the statement names.\<close>

definition migrated_required :: "string list" where
  "migrated_required = [''bet_id'', ''user_id'', ''event_id'', ''market_id'', ''outcome_id'', ''amount'', ''odds'']"

definition bet_insert_columns :: "string list" where
  "bet_insert_columns = [''id'', ''user_id'', ''event_id'', ''market_id'', ''outcome_id'', ''amount'', ''odds'',
     ''currency'', ''status'', ''payout'', ''net_payout'', ''settled_at'', ''settlement_reason'', ''placed_at'',
     ''updated_at'']"

definition SportBetRepository_Create ::
  "sql_env \<Rightarrow> time \<Rightarrow> sports_db \<Rightarrow> SportBet \<Rightarrow> sports_db \<times> (sql_error + unit)" where
  "SportBetRepository_Create E now s bet =
     (if se_fault E then (s, Inl StatementError)
      else if \<not> set (se_required E) \<subseteq> set bet_insert_columns then (s, Inl ConstraintError)
      else if \<not> se_is_uuid E (sb_ID bet) then (s, Inl StatementError)
      else if sb_ID bet \<in> (\<lambda>r. sb_ID (sr_bet r)) ` set (sport_bets s) \<or> \<not> references_ok E s bet
      then (s, Inl ConstraintError)
      else case stored_bet E bet of
        None \<Rightarrow> (s, Inl ConstraintError)
      | Some b \<Rightarrow> (s\<lparr>sport_bets := sport_bets s @
            [\<lparr>sr_bet = b\<lparr>sb_Currency := ''KES'', sb_UpdatedAt := now\<rparr>, sr_reason = Some ''''\<rparr>]\<rparr>, Inr ()))"

text \<open>
  Reading a row: the currency, the country and the reason stay empty in the struct, and a
  \<open>NULL\<close> settlement time becomes a pointer to the zero time.
\<close>

definition scan_bet :: "SportBetRow \<Rightarrow> SportBet option" where
  "scan_bet r =
     (case sr_reason r of
        None \<Rightarrow> None
      | Some _ \<Rightarrow> Some ((sr_bet r)\<lparr>sb_CountryCode := '''', sb_Currency := '''', sb_SettlementReason := '''',
          sb_SettledAt := Some (case sb_SettledAt (sr_bet r) of None \<Rightarrow> zero_time | Some t \<Rightarrow> t)\<rparr>))"

definition SportBetRepository_GetByID :: "sql_env \<Rightarrow> sports_db \<Rightarrow> string \<Rightarrow> sql_error + SportBet" where
  "SportBetRepository_GetByID E s i =
     (if se_fault E \<or> \<not> se_is_uuid E i then Inl StatementError
      else case select_row (\<lambda>r. sb_ID (sr_bet r) = i) (sport_bets s) of
        None \<Rightarrow> Inl NoRows
      | Some r \<Rightarrow> (case scan_bet r of None \<Rightarrow> Inl ScanError | Some b \<Rightarrow> Inr b))"

definition SportBetRepository_Update ::
  "sql_env \<Rightarrow> time \<Rightarrow> sports_db \<Rightarrow> SportBet \<Rightarrow> sports_db \<times> (sql_error + unit)" where
  "SportBetRepository_Update E now s bet =
     (let settledAt = (case sb_SettledAt bet of Some t \<Rightarrow> if t = zero_time then None else Some t | None \<Rightarrow> None);
          reason = (if sb_SettlementReason bet = '''' then None else Some (sb_SettlementReason bet));
          P = (\<lambda>r. sb_ID (sr_bet r) = sb_ID bet) in
      if se_fault E \<or> \<not> se_is_uuid E (sb_ID bet) then (s, Inl StatementError)
      else if rows_affected P (sport_bets s) = 0 then (s, Inr ())
      else if \<not> references_ok E s bet then (s, Inl ConstraintError)
      else case stored_bet E bet of
        None \<Rightarrow> (s, Inl ConstraintError)
      | Some b \<Rightarrow> (s\<lparr>sport_bets := update_where P
            (\<lambda>r. r\<lparr>sr_bet := (sr_bet r)\<lparr>sb_UserID := sb_UserID b, sb_EventID := sb_EventID b,
                      sb_MarketID := sb_MarketID b, sb_OutcomeID := sb_OutcomeID b, sb_Amount := sb_Amount b,
                      sb_Odds := sb_Odds b, sb_Status := sb_Status b, sb_Payout := sb_Payout b,
                      sb_NetPayout := sb_NetPayout b, sb_SettledAt := settledAt, sb_UpdatedAt := now\<rparr>,
                    sr_reason := reason\<rparr>) (sport_bets s)\<rparr>, Inr ()))"

definition SportBetRepository_Delete :: "sql_env \<Rightarrow> sports_db \<Rightarrow> string \<Rightarrow> sports_db \<times> (sql_error + unit)" where
  "SportBetRepository_Delete E s i =
     (if se_fault E \<or> \<not> se_is_uuid E i then (s, Inl StatementError)
      else (s\<lparr>sport_bets := filter (\<lambda>r. sb_ID (sr_bet r) \<noteq> i) (sport_bets s)\<rparr>, Inr ()))"

text \<open>
  The list queries share their shape: a condition, the optional bounds on the time of placing,
  newest first, and a page only when a positive limit is given.
\<close>

definition limit_page :: "BetFilters option \<Rightarrow> 'r list \<Rightarrow> 'r list" where
  "limit_page filters rs =
     (case filters of
        None \<Rightarrow> rs
      | Some f \<Rightarrow> if bf_Limit f > 0
          then take (nat (bf_Limit f)) (if bf_Offset f > 0 then drop (nat (bf_Offset f)) rs else rs)
          else rs)"

definition placed_within :: "BetFilters option \<Rightarrow> SportBetRow \<Rightarrow> bool" where
  "placed_within filters r =
     (case filters of
        None \<Rightarrow> True
      | Some f \<Rightarrow> (case bf_From f of None \<Rightarrow> True | Some t \<Rightarrow> t \<le> sb_PlacedAt (sr_bet r)) \<and>
                  (case bf_To f of None \<Rightarrow> True | Some t \<Rightarrow> sb_PlacedAt (sr_bet r) \<le> t))"

definition has_status :: "BetFilters option \<Rightarrow> SportBetRow \<Rightarrow> bool" where
  "has_status filters r =
     (case filters of
        None \<Rightarrow> True
      | Some f \<Rightarrow> (case bf_Status f of None \<Rightarrow> True | Some st \<Rightarrow> sb_Status (sr_bet r) = st))"

definition newest_first :: "SportBetRow list \<Rightarrow> SportBetRow list" where
  "newest_first rs = rev (sort_key (\<lambda>r. sb_PlacedAt (sr_bet r)) rs)"

definition scanBets :: "SportBetRow list \<Rightarrow> sql_error + SportBet list" where
  "scanBets rs = (case scan_rows scan_bet rs of None \<Rightarrow> Inl ScanError | Some bs \<Rightarrow> Inr bs)"

definition query_bets :: "sql_env \<Rightarrow> sports_db \<Rightarrow> (SportBetRow \<Rightarrow> bool) \<Rightarrow> BetFilters option \<Rightarrow> sql_error + SportBet list" where
  "query_bets E s P filters =
     (if se_fault E then Inl StatementError
      else scanBets (limit_page filters (newest_first (filter P (sport_bets s)))))"

definition SportBetRepository_GetByUserID ::
  "sql_env \<Rightarrow> sports_db \<Rightarrow> string \<Rightarrow> BetFilters option \<Rightarrow> sql_error + SportBet list" where
  "SportBetRepository_GetByUserID E s userID filters =
     (if \<not> se_is_uuid E userID then Inl StatementError
      else query_bets E s (\<lambda>r. sb_UserID (sr_bet r) = userID \<and> has_status filters r \<and> placed_within filters r) filters)"

definition SportBetRepository_GetByEventID ::
  "sql_env \<Rightarrow> sports_db \<Rightarrow> string \<Rightarrow> BetFilters option \<Rightarrow> sql_error + SportBet list" where
  "SportBetRepository_GetByEventID E s eventID filters =
     (if \<not> se_is_uuid E eventID then Inl StatementError
      else query_bets E s (\<lambda>r. sb_EventID (sr_bet r) = eventID \<and> has_status filters r \<and> placed_within filters r) filters)"

definition GetByStatus :: "sql_env \<Rightarrow> sports_db \<Rightarrow> BetStatus \<Rightarrow> BetFilters option \<Rightarrow> sql_error + SportBet list" where
  "GetByStatus E s status filters =
     query_bets E s (\<lambda>r. sb_Status (sr_bet r) = status \<and> placed_within filters r) filters"

definition SportBetRepository_GetPendingBets :: "sql_env \<Rightarrow> sports_db \<Rightarrow> BetFilters option \<Rightarrow> sql_error + SportBet list" where
  "SportBetRepository_GetPendingBets E s filters = GetByStatus E s BetStatusPending filters"

definition GetSettledBets :: "sql_env \<Rightarrow> sports_db \<Rightarrow> BetFilters option \<Rightarrow> sql_error + SportBet list" where
  "GetSettledBets E s filters =
     query_bets E s (\<lambda>r. sb_Status (sr_bet r) \<in> {BetStatusWon, BetStatusLost, BetStatusVoid} \<and> placed_within filters r) filters"

text \<open>The settlement statements write whatever row has the id, settled or not.\<close>

definition settle_bet ::
  "sql_env \<Rightarrow> sports_db \<Rightarrow> string \<Rightarrow> decimal option \<Rightarrow> (decimal \<Rightarrow> SportBetRow \<Rightarrow> SportBetRow) \<Rightarrow> sports_db \<times> (sql_error + unit)" where
  "settle_bet E s betID payout g =
     (let P = (\<lambda>r. sb_ID (sr_bet r) = betID) in
      if se_fault E \<or> \<not> se_is_uuid E betID then (s, Inl StatementError)
      else if rows_affected P (sport_bets s) = 0 then (s, Inr ())
      else case payout of
        None \<Rightarrow> (s, Inl StatementError)
      | Some p \<Rightarrow> (s\<lparr>sport_bets := update_where P (g p) (sport_bets s)\<rparr>, Inr ()))"

definition settled_as :: "BetStatus \<Rightarrow> time \<Rightarrow> decimal \<Rightarrow> SportBetRow \<Rightarrow> SportBetRow" where
  "settled_as status now p r = r\<lparr>sr_bet := (sr_bet r)\<lparr>sb_Status := status, sb_Payout := p, sb_NetPayout := p,
     sb_SettledAt := Some now, sb_UpdatedAt := now\<rparr>\<rparr>"

definition MarkAsWon :: "sql_env \<Rightarrow> time \<Rightarrow> sports_db \<Rightarrow> string \<Rightarrow> decimal \<Rightarrow> sports_db \<times> (sql_error + unit)" where
  "MarkAsWon E now s betID payout =
     settle_bet E s betID (money_col (se_libs E) payout) (settled_as BetStatusWon now)"

definition MarkAsLost :: "sql_env \<Rightarrow> time \<Rightarrow> sports_db \<Rightarrow> string \<Rightarrow> sports_db \<times> (sql_error + unit)" where
  "MarkAsLost E now s betID = settle_bet E s betID (Some 0) (settled_as BetStatusLost now)"

definition MarkAsVoid :: "sql_env \<Rightarrow> time \<Rightarrow> sports_db \<Rightarrow> string \<Rightarrow> string \<Rightarrow> sports_db \<times> (sql_error + unit)" where
  "MarkAsVoid E now s betID reason =
     settle_bet E s betID (Some 0) (\<lambda>p r. (settled_as BetStatusVoid now p r)\<lparr>sr_reason := Some reason\<rparr>)"

section \<open>Matches\<close>

text \<open>The conversion \<open>int32(x)\<close> keeps the low 32 bits; only the upper bound is checked before it.\<close>

definition int32 :: "int \<Rightarrow> int" where
  "int32 x = (x + 2 ^ 31) mod 2 ^ 32 - 2 ^ 31"

definition fits_int32 :: "int \<Rightarrow> bool" where
  "fits_int32 x \<longleftrightarrow> - (2 ^ 31) \<le> x \<and> x < 2 ^ 31"

lemma int32_id [simp]: "fits_int32 x \<Longrightarrow> int32 x = x"
  by (simp add: int32_def fits_int32_def)

definition event_statuses :: "string list" where
  "event_statuses = [''SCHEDULED'', ''LIVE'', ''FINISHED'', ''POSTPONED'', ''CANCELLED'']"

definition plain_score :: "int \<Rightarrow> int \<Rightarrow> MatchScore" where
  "plain_score h a = \<lparr>HomeScore = h, AwayScore = a, HomeScoreHT = None, AwayScoreHT = None,
     HomeScoreFT = None, AwayScoreFT = None, HomeSets = None, AwaySets = None\<rparr>"

definition MatchRepository_Create ::
  "sql_env \<Rightarrow> time \<Rightarrow> time \<Rightarrow> sports_db \<Rightarrow> Match \<Rightarrow> sports_db \<times> (sql_error + unit)" where
  "MatchRepository_Create E t1 t2 s m =
     (case match_Score m of
        None \<Rightarrow> (s, Inl NilScorePanic)
      | Some sc \<Rightarrow>
          if se_fault E \<or> \<not> se_is_uuid E (match_ID m) \<or> \<not> fits_int32 (HomeScore sc) \<or> \<not> fits_int32 (AwayScore sc)
          then (s, Inl StatementError)
          else if (\<exists>e \<in> set (sport_events s). ev_ID e = match_ID m \<or> ev_EventID e = match_ID m) \<or>
                  match_Status m \<notin> set event_statuses
          then (s, Inl ConstraintError)
          else (s\<lparr>sport_events := sport_events s @
                 [\<lparr>ev_ID = match_ID m, ev_EventID = match_ID m, ev_Sport = match_Sport m,
                   ev_Tournament = match_League m, ev_HomeTeam = match_HomeTeam m, ev_AwayTeam = match_AwayTeam m,
                   ev_StartTime = match_StartTime m, ev_Status = match_Status m,
                   ev_HomeScore = Some (HomeScore sc), ev_AwayScore = Some (AwayScore sc),
                   ev_CreatedAt = t1, ev_UpdatedAt = t2\<rparr>]\<rparr>, Inr ()))"

text \<open>\<open>GetByID\<close> reads the scores into plain integers and never copies the team names.\<close>

definition MatchRepository_GetByID :: "sql_env \<Rightarrow> sports_db \<Rightarrow> string \<Rightarrow> sql_error + Match" where
  "MatchRepository_GetByID E s i =
     (if se_fault E \<or> \<not> se_is_uuid E i then Inl StatementError
      else case select_row (\<lambda>e. ev_ID e = i) (sport_events s) of
        None \<Rightarrow> Inl NoRows
      | Some e \<Rightarrow>
          (case (ev_HomeScore e, ev_AwayScore e) of
             (Some h, Some a) \<Rightarrow> Inr
               \<lparr>match_ID = ev_ID e, match_Sport = ev_Sport e, match_League = ev_Tournament e,
                match_HomeTeam = '''', match_AwayTeam = '''', match_StartTime = ev_StartTime e,
                match_Status = ev_Status e,
                match_Score = (if h > 0 \<or> a > 0 then Some (plain_score h a) else None),
                match_Markets = [], match_CountryCode = '''', match_UpdatedAt = zero_time\<rparr>
           | _ \<Rightarrow> Inl ScanError))"

definition scan_match :: "EventRow \<Rightarrow> Match" where
  "scan_match e =
     \<lparr>match_ID = ev_ID e, match_Sport = ev_Sport e, match_League = ev_Tournament e,
      match_HomeTeam = ev_HomeTeam e, match_AwayTeam = ev_AwayTeam e, match_StartTime = ev_StartTime e,
      match_Status = ev_Status e,
      match_Score = (case (ev_HomeScore e, ev_AwayScore e) of
          (Some h, Some a) \<Rightarrow> Some (plain_score h a)
        | _ \<Rightarrow> None),
      match_Markets = [], match_CountryCode = '''', match_UpdatedAt = zero_time\<rparr>"

definition MatchRepository_GetByEventID :: "sql_env \<Rightarrow> sports_db \<Rightarrow> string \<Rightarrow> sql_error + Match" where
  "MatchRepository_GetByEventID E s eventID =
     (if se_fault E then Inl StatementError
      else case select_row (\<lambda>e. ev_EventID e = eventID) (sport_events s) of
        None \<Rightarrow> Inl NoRows
      | Some e \<Rightarrow> Inr (scan_match e))"

definition by_start :: "EventRow list \<Rightarrow> EventRow list" where
  "by_start es = sort_key ev_StartTime es"

definition scanMatches :: "EventRow list \<Rightarrow> Match list" where
  "scanMatches es = map scan_match es"

definition MatchRepository_GetLiveMatches :: "sql_env \<Rightarrow> sports_db \<Rightarrow> sql_error + Match list" where
  "MatchRepository_GetLiveMatches E s =
     (if se_fault E then Inl StatementError
      else Inr (scanMatches (by_start (filter (\<lambda>e. ev_Status e = ''LIVE'') (sport_events s)))))"

definition GetBySport :: "sql_env \<Rightarrow> sports_db \<Rightarrow> Sport \<Rightarrow> sql_error + Match list" where
  "GetBySport E s sport =
     (if se_fault E then Inl StatementError
      else Inr (scanMatches (by_start (filter (\<lambda>e. ev_Sport e = sport) (sport_events s)))))"

text \<open>The score as two nullable columns: \<open>Inl\<close> is the overflow error.\<close>

definition score_columns :: "MatchScore option \<Rightarrow> sql_error + int option \<times> int option" where
  "score_columns sc =
     (case sc of
        None \<Rightarrow> Inr (None, None)
      | Some x \<Rightarrow>
          if HomeScore x > 2147483647 \<or> AwayScore x > 2147483647 then Inl ScoreOverflow
          else Inr (Some (int32 (HomeScore x)), Some (int32 (AwayScore x))))"

definition update_event ::
  "sql_env \<Rightarrow> sports_db \<Rightarrow> string \<Rightarrow> (EventRow \<Rightarrow> EventRow) \<Rightarrow> bool \<Rightarrow> sports_db \<times> (sql_error + unit)" where
  "update_event E s i g ok =
     (if se_fault E \<or> \<not> se_is_uuid E i then (s, Inl StatementError)
      else if rows_affected (\<lambda>e. ev_ID e = i) (sport_events s) = 0 then (s, Inr ())
      else if \<not> ok then (s, Inl ConstraintError)
      else (s\<lparr>sport_events := update_where (\<lambda>e. ev_ID e = i) g (sport_events s)\<rparr>, Inr ()))"

definition MatchRepository_Update :: "sql_env \<Rightarrow> time \<Rightarrow> sports_db \<Rightarrow> Match \<Rightarrow> sports_db \<times> (sql_error + unit)" where
  "MatchRepository_Update E now s m =
     (case score_columns (match_Score m) of
        Inl e \<Rightarrow> (s, Inl e)
      | Inr (h, a) \<Rightarrow> update_event E s (match_ID m)
          (\<lambda>e. e\<lparr>ev_Sport := match_Sport m, ev_Tournament := match_League m, ev_HomeTeam := match_HomeTeam m,
                 ev_AwayTeam := match_AwayTeam m, ev_StartTime := match_StartTime m, ev_Status := match_Status m,
                 ev_HomeScore := h, ev_AwayScore := a, ev_UpdatedAt := now\<rparr>)
          (match_Status m \<in> set event_statuses))"

definition MatchRepository_UpdateStatus ::
  "sql_env \<Rightarrow> time \<Rightarrow> sports_db \<Rightarrow> string \<Rightarrow> MatchStatus \<Rightarrow> sports_db \<times> (sql_error + unit)" where
  "MatchRepository_UpdateStatus E now s i status =
     update_event E s i (\<lambda>e. e\<lparr>ev_Status := status, ev_UpdatedAt := now\<rparr>) (status \<in> set event_statuses)"

definition UpdateScore ::
  "sql_env \<Rightarrow> time \<Rightarrow> sports_db \<Rightarrow> string \<Rightarrow> MatchScore option \<Rightarrow> sports_db \<times> (sql_error + unit)" where
  "UpdateScore E now s i score =
     (case score_columns score of
        Inl e \<Rightarrow> (s, Inl e)
      | Inr (h, a) \<Rightarrow>
          update_event E s i (\<lambda>e. e\<lparr>ev_HomeScore := h, ev_AwayScore := a, ev_UpdatedAt := now\<rparr>) True)"

text \<open>Deleting an event deletes its markets, their outcomes and the bets on any of them.\<close>

definition drop_markets :: "(MarketRow \<Rightarrow> bool) \<Rightarrow> sports_db \<Rightarrow> sports_db" where
  "drop_markets P s =
     (let gone = map mr_ID (filter P (betting_markets s));
          goneo = map or_ID (filter (\<lambda>x. or_MarketID x \<in> set gone) (market_outcomes s)) in
      s\<lparr>betting_markets := filter (\<lambda>m. \<not> P m) (betting_markets s),
        market_outcomes := filter (\<lambda>x. or_MarketID x \<notin> set gone) (market_outcomes s),
        sport_bets := filter (\<lambda>r. sb_MarketID (sr_bet r) \<notin> set gone \<and> sb_OutcomeID (sr_bet r) \<notin> set goneo)
          (sport_bets s)\<rparr>)"

definition MatchRepository_Delete :: "sql_env \<Rightarrow> sports_db \<Rightarrow> string \<Rightarrow> sports_db \<times> (sql_error + unit)" where
  "MatchRepository_Delete E s i =
     (if se_fault E \<or> \<not> se_is_uuid E i then (s, Inl StatementError)
      else
        let s1 = drop_markets (\<lambda>m. mr_EventID m = i) s in
        (s1\<lparr>sport_events := filter (\<lambda>e. ev_ID e \<noteq> i) (sport_events s1),
            sport_bets := filter (\<lambda>r. sb_EventID (sr_bet r) \<noteq> i) (sport_bets s1)\<rparr>, Inr ()))"

section \<open>Markets\<close>

definition BettingMarketRepository_Create ::
  "sql_env \<Rightarrow> time \<Rightarrow> time \<Rightarrow> sports_db \<Rightarrow> Market \<Rightarrow> sports_db \<times> (sql_error + unit)" where
  "BettingMarketRepository_Create E t1 t2 s m =
     (if se_fault E \<or> \<not> se_is_uuid E (mk_ID m) \<or> \<not> se_is_uuid E (mk_MatchID m) then (s, Inl StatementError)
      else if (\<exists>r \<in> set (betting_markets s). mr_ID r = mk_ID m \<or> mr_MarketID r = mk_ID m) \<or>
              \<not> (\<exists>e \<in> set (sport_events s). ev_ID e = mk_MatchID m)
      then (s, Inl ConstraintError)
      else (s\<lparr>betting_markets := betting_markets s @
             [\<lparr>mr_ID = mk_ID m, mr_MarketID = mk_ID m, mr_EventID = mk_MatchID m, mr_Type = mk_Type m,
               mr_Name = mk_Name m, mr_Status = mk_Status m, mr_SuspendedAt = mk_SuspendedAt m,
               mr_CreatedAt = t1, mr_UpdatedAt = t2\<rparr>]\<rparr>, Inr ()))"

text \<open>
  The query selects ten columns and \<open>Scan\<close> is given nine destinations, so it returns an error
  for every row; the same holds for the reads of outcomes below.
\<close>

definition scan_market :: "MarketRow \<Rightarrow> Market option" where
  "scan_market r = None"

definition read_row :: "('r \<Rightarrow> 'a option) \<Rightarrow> 'r option \<Rightarrow> sql_error + 'a" where
  "read_row scan x =
     (case x of None \<Rightarrow> Inl NoRows | Some r \<Rightarrow> (case scan r of None \<Rightarrow> Inl ScanError | Some y \<Rightarrow> Inr y))"

definition read_rows :: "('r \<Rightarrow> 'a option) \<Rightarrow> 'r list \<Rightarrow> sql_error + 'a list" where
  "read_rows scan rs = (case scan_rows scan rs of None \<Rightarrow> Inl ScanError | Some ys \<Rightarrow> Inr ys)"

definition BettingMarketRepository_GetByID :: "sql_env \<Rightarrow> sports_db \<Rightarrow> string \<Rightarrow> sql_error + Market" where
  "BettingMarketRepository_GetByID E s i =
     (if se_fault E \<or> \<not> se_is_uuid E i then Inl StatementError
      else read_row scan_market (select_row (\<lambda>m. mr_ID m = i) (betting_markets s)))"

definition GetByMatch :: "sql_env \<Rightarrow> sports_db \<Rightarrow> string \<Rightarrow> sql_error + Market list" where
  "GetByMatch E s matchID =
     (if se_fault E \<or> \<not> se_is_uuid E matchID then Inl StatementError
      else read_rows scan_market
        (sort_key mr_CreatedAt (filter (\<lambda>m. mr_EventID m = matchID) (betting_markets s))))"

definition GetActiveMarkets :: "sql_env \<Rightarrow> sports_db \<Rightarrow> sql_error + Market list" where
  "GetActiveMarkets E s =
     (if se_fault E then Inl StatementError
      else read_rows scan_market
        (sort_key mr_CreatedAt (filter (\<lambda>m. mr_Status m = MarketStatusOpen) (betting_markets s))))"

definition update_market :: "sql_env \<Rightarrow> sports_db \<Rightarrow> string \<Rightarrow> (MarketRow \<Rightarrow> MarketRow) \<Rightarrow> sports_db \<times> (sql_error + unit)" where
  "update_market E s i g =
     (if se_fault E \<or> \<not> se_is_uuid E i then (s, Inl StatementError)
      else (s\<lparr>betting_markets := update_where (\<lambda>m. mr_ID m = i) g (betting_markets s)\<rparr>, Inr ()))"

definition BettingMarketRepository_Update ::
  "sql_env \<Rightarrow> time \<Rightarrow> sports_db \<Rightarrow> Market \<Rightarrow> sports_db \<times> (sql_error + unit)" where
  "BettingMarketRepository_Update E now s m = update_market E s (mk_ID m)
     (\<lambda>r. r\<lparr>mr_Type := mk_Type m, mr_Name := mk_Name m, mr_Status := mk_Status m,
            mr_SuspendedAt := mk_SuspendedAt m, mr_UpdatedAt := now\<rparr>)"

definition BettingMarketRepository_UpdateStatus ::
  "sql_env \<Rightarrow> time \<Rightarrow> sports_db \<Rightarrow> string \<Rightarrow> MarketStatus \<Rightarrow> sports_db \<times> (sql_error + unit)" where
  "BettingMarketRepository_UpdateStatus E now s i status =
     update_market E s i (\<lambda>r. r\<lparr>mr_Status := status, mr_UpdatedAt := now\<rparr>)"

definition BettingMarketRepository_Delete :: "sql_env \<Rightarrow> sports_db \<Rightarrow> string \<Rightarrow> sports_db \<times> (sql_error + unit)" where
  "BettingMarketRepository_Delete E s i =
     (if se_fault E \<or> \<not> se_is_uuid E i then (s, Inl StatementError)
      else (drop_markets (\<lambda>m. mr_ID m = i) s, Inr ()))"

section \<open>Outcomes\<close>

definition outcome_settled_at :: "OutcomeStatus \<Rightarrow> time \<Rightarrow> time option" where
  "outcome_settled_at st now = (if st = OutcomeStatusWon \<or> st = OutcomeStatusLost then Some now else None)"

definition MarketOutcomeRepository_Create ::
  "sql_env \<Rightarrow> (nat \<Rightarrow> time) \<Rightarrow> sports_db \<Rightarrow> Outcome \<Rightarrow> sports_db \<times> (sql_error + unit)" where
  "MarketOutcomeRepository_Create E now s x =
     (if se_fault E \<or> \<not> se_is_uuid E (oc_ID x) \<or> \<not> se_is_uuid E (oc_MarketID x) then (s, Inl StatementError)
      else if (\<exists>r \<in> set (market_outcomes s). or_ID r = oc_ID x \<or> or_OutcomeID r = oc_ID x) \<or>
              \<not> (\<exists>m \<in> set (betting_markets s). mr_ID m = oc_MarketID x)
      then (s, Inl ConstraintError)
      else case (positive (odds4 (se_libs E) (oc_Odds x)), positive (odds4 (se_libs E) (oc_Price x))) of
        (Some o', Some p) \<Rightarrow> (s\<lparr>market_outcomes := market_outcomes s @
             [\<lparr>or_ID = oc_ID x, or_OutcomeID = oc_ID x, or_MarketID = oc_MarketID x, or_Name = oc_Name x,
               or_Odds = o', or_Price = p, or_Status = oc_Status x,
               or_SettledAt = outcome_settled_at (oc_Status x) (now 0), or_CreatedAt = now 1, or_UpdatedAt = now 2\<rparr>]\<rparr>,
             Inr ())
      | _ \<Rightarrow> (s, Inl ConstraintError))"

definition scan_outcome :: "OutcomeRow \<Rightarrow> Outcome option" where
  "scan_outcome r = None"

definition MarketOutcomeRepository_GetByID :: "sql_env \<Rightarrow> sports_db \<Rightarrow> string \<Rightarrow> sql_error + Outcome" where
  "MarketOutcomeRepository_GetByID E s i =
     (if se_fault E \<or> \<not> se_is_uuid E i then Inl StatementError
      else read_row scan_outcome (select_row (\<lambda>x. or_ID x = i) (market_outcomes s)))"

definition GetByMarket :: "sql_env \<Rightarrow> sports_db \<Rightarrow> string \<Rightarrow> sql_error + Outcome list" where
  "GetByMarket E s marketID =
     (if se_fault E \<or> \<not> se_is_uuid E marketID then Inl StatementError
      else read_rows scan_outcome
        (sort_key or_CreatedAt (filter (\<lambda>x. or_MarketID x = marketID) (market_outcomes s))))"

definition GetActiveOutcomes :: "sql_env \<Rightarrow> sports_db \<Rightarrow> sql_error + Outcome list" where
  "GetActiveOutcomes E s =
     (if se_fault E then Inl StatementError
      else read_rows scan_outcome
        (sort_key or_CreatedAt (filter (\<lambda>x. or_Status x = OutcomeStatusPending) (market_outcomes s))))"

definition update_outcome ::
  "sql_env \<Rightarrow> sports_db \<Rightarrow> string \<Rightarrow> (OutcomeRow \<Rightarrow> OutcomeRow option) \<Rightarrow> sports_db \<times> (sql_error + unit)" where
  "update_outcome E s i g =
     (if se_fault E \<or> \<not> se_is_uuid E i then (s, Inl StatementError)
      else case update_try (\<lambda>x. or_ID x = i) g (market_outcomes s) of
        None \<Rightarrow> (s, Inl ConstraintError)
      | Some xs \<Rightarrow> (s\<lparr>market_outcomes := xs\<rparr>, Inr ()))"

definition MarketOutcomeRepository_Update ::
  "sql_env \<Rightarrow> (nat \<Rightarrow> time) \<Rightarrow> sports_db \<Rightarrow> Outcome \<Rightarrow> sports_db \<times> (sql_error + unit)" where
  "MarketOutcomeRepository_Update E now s x = update_outcome E s (oc_ID x)
     (\<lambda>r. case (positive (odds4 (se_libs E) (oc_Odds x)), positive (odds4 (se_libs E) (oc_Price x))) of
         (Some o', Some p) \<Rightarrow> Some (r\<lparr>or_Name := oc_Name x, or_Odds := o', or_Price := p, or_Status := oc_Status x,
            or_SettledAt := outcome_settled_at (oc_Status x) (now 0), or_UpdatedAt := now 1\<rparr>)
       | _ \<Rightarrow> None)"

definition MarketOutcomeRepository_UpdateStatus ::
  "sql_env \<Rightarrow> time \<Rightarrow> sports_db \<Rightarrow> string \<Rightarrow> OutcomeStatus \<Rightarrow> sports_db \<times> (sql_error + unit)" where
  "MarketOutcomeRepository_UpdateStatus E now s i status =
     update_outcome E s i (\<lambda>r. Some (r\<lparr>or_Status := status, or_UpdatedAt := now\<rparr>))"

definition UpdateOdds :: "sql_env \<Rightarrow> time \<Rightarrow> sports_db \<Rightarrow> string \<Rightarrow> decimal \<Rightarrow> sports_db \<times> (sql_error + unit)" where
  "UpdateOdds E now s i odds =
     update_outcome E s i (\<lambda>r. map_option (\<lambda>o'. r\<lparr>or_Odds := o', or_UpdatedAt := now\<rparr>) (positive (odds4 (se_libs E) odds)))"

definition MarketOutcomeRepository_Delete :: "sql_env \<Rightarrow> sports_db \<Rightarrow> string \<Rightarrow> sports_db \<times> (sql_error + unit)" where
  "MarketOutcomeRepository_Delete E s i =
     (if se_fault E \<or> \<not> se_is_uuid E i then (s, Inl StatementError)
      else (s\<lparr>market_outcomes := filter (\<lambda>x. or_ID x \<noteq> i) (market_outcomes s),
              sport_bets := filter (\<lambda>r. sb_OutcomeID (sr_bet r) \<noteq> i) (sport_bets s)\<rparr>, Inr ()))"

section \<open>Keys and references\<close>

text \<open>
  Primary keys are distinct and every reference of a market, an outcome or a bet points at a row.
  Stakes and odds of bets and outcomes are positive.
\<close>

definition sports_ok :: "sports_db \<Rightarrow> bool" where
  "sports_ok s \<longleftrightarrow>
     distinct (map (\<lambda>r. sb_ID (sr_bet r)) (sport_bets s)) \<and> distinct (map ev_ID (sport_events s)) \<and>
     distinct (map mr_ID (betting_markets s)) \<and> distinct (map or_ID (market_outcomes s)) \<and>
     (\<forall>m \<in> set (betting_markets s). mr_EventID m \<in> ev_ID ` set (sport_events s)) \<and>
     (\<forall>x \<in> set (market_outcomes s). or_MarketID x \<in> mr_ID ` set (betting_markets s) \<and> 0 < or_Odds x \<and> 0 < or_Price x) \<and>
     (\<forall>r \<in> set (sport_bets s). sb_EventID (sr_bet r) \<in> ev_ID ` set (sport_events s) \<and>
        sb_MarketID (sr_bet r) \<in> mr_ID ` set (betting_markets s) \<and>
        sb_OutcomeID (sr_bet r) \<in> or_ID ` set (market_outcomes s) \<and>
        0 < sb_Amount (sr_bet r) \<and> 0 < sb_Odds (sr_bet r))"

text \<open>Every statement the repositories can execute, whatever it returns.\<close>

inductive sports_step :: "sql_env \<Rightarrow> sports_db \<Rightarrow> sports_db \<Rightarrow> bool" for E where
  "SportBetRepository_Create E now s b = (s', r) \<Longrightarrow> sports_step E s s'"
| "SportBetRepository_Update E now s b = (s', r) \<Longrightarrow> sports_step E s s'"
| "SportBetRepository_Delete E s i = (s', r) \<Longrightarrow> sports_step E s s'"
| "MarkAsWon E now s i p = (s', r) \<Longrightarrow> sports_step E s s'"
| "MarkAsLost E now s i = (s', r) \<Longrightarrow> sports_step E s s'"
| "MarkAsVoid E now s i reason = (s', r) \<Longrightarrow> sports_step E s s'"
| "MatchRepository_Create E now t s m = (s', r) \<Longrightarrow> sports_step E s s'"
| "MatchRepository_Update E now s m = (s', r) \<Longrightarrow> sports_step E s s'"
| "MatchRepository_UpdateStatus E now s i st = (s', r) \<Longrightarrow> sports_step E s s'"
| "UpdateScore E now s i sc = (s', r) \<Longrightarrow> sports_step E s s'"
| "MatchRepository_Delete E s i = (s', r) \<Longrightarrow> sports_step E s s'"
| "BettingMarketRepository_Create E now t s mk = (s', r) \<Longrightarrow> sports_step E s s'"
| "BettingMarketRepository_Update E now s mk = (s', r) \<Longrightarrow> sports_step E s s'"
| "BettingMarketRepository_UpdateStatus E now s i ms = (s', r) \<Longrightarrow> sports_step E s s'"
| "BettingMarketRepository_Delete E s i = (s', r) \<Longrightarrow> sports_step E s s'"
| "MarketOutcomeRepository_Create E clock s x = (s', r) \<Longrightarrow> sports_step E s s'"
| "MarketOutcomeRepository_Update E clock s x = (s', r) \<Longrightarrow> sports_step E s s'"
| "MarketOutcomeRepository_UpdateStatus E now s i os = (s', r) \<Longrightarrow> sports_step E s s'"
| "UpdateOdds E now s i odds = (s', r) \<Longrightarrow> sports_step E s s'"
| "MarketOutcomeRepository_Delete E s i = (s', r) \<Longrightarrow> sports_step E s s'"

inductive_cases sports_stepE: "sports_step E s s'"

lemma update_where_image: "(\<And>r. key (g r) = key r) \<Longrightarrow> key ` set (update_where P g t) = key ` set t"
  using update_where_keys [of key g P t] by (metis set_map)

lemma update_try_rows:
  assumes "update_try P g t = Some u" "\<And>r r'. g r = Some r' \<Longrightarrow> key r' = key r"
  shows "map key u = map key t" and "\<forall>r' \<in> set u. r' \<in> set t \<or> (\<exists>r \<in> set t. g r = Some r')"
proof -
  have m: "map (\<lambda>r. if P r then g r else Some r) t = map Some u"
    using assms(1) by (simp add: update_try_def those_Some)
  then show "map key u = map key t" using assms(2)
    by (induction t arbitrary: u) (auto simp: Cons_eq_map_conv split: if_splits)
  from m have im: "Some ` set u = (\<lambda>r. if P r then g r else Some r) ` set t" by (metis set_map)
  show "\<forall>r' \<in> set u. r' \<in> set t \<or> (\<exists>r \<in> set t. g r = Some r')"
  proof (intro ballI)
    fix r' assume "r' \<in> set u"
    then have "Some r' \<in> (\<lambda>r. if P r then g r else Some r) ` set t" unfolding im [symmetric] by (rule imageI)
    then show "r' \<in> set t \<or> (\<exists>r \<in> set t. g r = Some r')" by (auto split: if_splits)
  qed
qed

text \<open>Bets may be removed, and rewritten in place as long as they keep valid references.\<close>

definition bet_ok :: "sports_db \<Rightarrow> SportBetRow \<Rightarrow> bool" where
  "bet_ok s r \<longleftrightarrow> sb_EventID (sr_bet r) \<in> ev_ID ` set (sport_events s) \<and>
     sb_MarketID (sr_bet r) \<in> mr_ID ` set (betting_markets s) \<and>
     sb_OutcomeID (sr_bet r) \<in> or_ID ` set (market_outcomes s) \<and>
     0 < sb_Amount (sr_bet r) \<and> 0 < sb_Odds (sr_bet r)"

lemma sports_ok_bets:
  assumes "sports_ok s" "distinct (map (\<lambda>r. sb_ID (sr_bet r)) bs)" "\<forall>r \<in> set bs. bet_ok s r"
  shows "sports_ok (s\<lparr>sport_bets := bs\<rparr>)"
  using assms by (simp add: sports_ok_def bet_ok_def)

lemma sports_ok_bet: "sports_ok s \<Longrightarrow> r \<in> set (sport_bets s) \<Longrightarrow> bet_ok s r"
  by (simp add: sports_ok_def bet_ok_def)

lemma sports_ok_update_bets:
  assumes "sports_ok s" "\<And>r. sb_ID (sr_bet (g r)) = sb_ID (sr_bet r)" "\<And>r. bet_ok s r \<Longrightarrow> bet_ok s (g r)"
  shows "sports_ok (s\<lparr>sport_bets := update_where P g (sport_bets s)\<rparr>)"
proof (rule sports_ok_bets [OF assms(1)])
  show "distinct (map (\<lambda>r. sb_ID (sr_bet r)) (update_where P g (sport_bets s)))"
    using assms(1,2) update_where_keys [of "\<lambda>r. sb_ID (sr_bet r)" g P] by (simp add: sports_ok_def)
  show "\<forall>r \<in> set (update_where P g (sport_bets s)). bet_ok s r"
    using assms by (auto simp: set_update_where intro: sports_ok_bet)
qed

lemma sports_ok_filter_bets: "sports_ok s \<Longrightarrow> sports_ok (s\<lparr>sport_bets := filter P (sport_bets s)\<rparr>)"
  by (rule sports_ok_bets) (auto simp: sports_ok_def distinct_map_filter intro: sports_ok_bet)

lemma settle_bet_ok:
  assumes "sports_ok s" "settle_bet E s i p g = (s', r)"
    and "\<And>a x. sb_ID (sr_bet (g a x)) = sb_ID (sr_bet x)" "\<And>a x. bet_ok s x \<Longrightarrow> bet_ok s (g a x)"
  shows "sports_ok s'"
  using assms by (auto simp: settle_bet_def Let_def sports_ok_update_bets split: if_splits option.splits)

lemma settled_as_keeps [simp]:
  "sb_ID (sr_bet (settled_as st now p r)) = sb_ID (sr_bet r)"
  "bet_ok s (settled_as st now p r) = bet_ok s r"
  "bet_ok s (r\<lparr>sr_reason := x\<rparr>) = bet_ok s r"
  by (simp_all add: settled_as_def bet_ok_def)

lemma stored_bet_Some:
  assumes "stored_bet E b = Some b'"
  shows "sb_ID b' = sb_ID b" "sb_EventID b' = sb_EventID b" "sb_MarketID b' = sb_MarketID b"
    "sb_OutcomeID b' = sb_OutcomeID b" "0 < sb_Amount b'" "0 < sb_Odds b'"
    "money_col (se_libs E) (sb_Amount b) = Some (sb_Amount b')" "odds4 (se_libs E) (sb_Odds b) = Some (sb_Odds b')"
  using assms by (auto simp: stored_bet_def split: option.splits)

lemma references_bet_ok:
  "references_ok E s b \<Longrightarrow> stored_bet E b = Some b' \<Longrightarrow> sb_EventID (sr_bet r) = sb_EventID b' \<Longrightarrow>
   sb_MarketID (sr_bet r) = sb_MarketID b' \<Longrightarrow> sb_OutcomeID (sr_bet r) = sb_OutcomeID b' \<Longrightarrow>
   sb_Amount (sr_bet r) = sb_Amount b' \<Longrightarrow> sb_Odds (sr_bet r) = sb_Odds b' \<Longrightarrow> bet_ok s r"
  using stored_bet_Some [of E b b'] by (auto simp: references_ok_def bet_ok_def image_iff intro: sym)

lemma SportBetRepository_Create_ok:
  assumes "sports_ok s" "SportBetRepository_Create E now s b = (s', r)" shows "sports_ok s'"
proof (cases "s' = s")
  case False
  with assms(2) obtain b' where b: "references_ok E s b" "stored_bet E b = Some b'"
      "sb_ID b \<notin> (\<lambda>r. sb_ID (sr_bet r)) ` set (sport_bets s)"
    and s': "s' = s\<lparr>sport_bets := sport_bets s @
      [\<lparr>sr_bet = b'\<lparr>sb_Currency := ''KES'', sb_UpdatedAt := now\<rparr>, sr_reason = Some ''''\<rparr>]\<rparr>"
    by (auto simp: SportBetRepository_Create_def split: if_splits option.splits)
  show ?thesis unfolding s'
    by (rule sports_ok_bets [OF assms(1)])
      (use assms(1) b stored_bet_Some(1) [OF b(2)] in
        \<open>auto simp: sports_ok_def [of s] intro: sports_ok_bet [OF assms(1)] references_bet_ok [OF b(1,2)]\<close>)
qed (use assms in simp)

lemma SportBetRepository_Update_ok:
  assumes "sports_ok s" "SportBetRepository_Update E now s b = (s', r)" shows "sports_ok s'"
proof (cases "s' = s")
  case False
  with assms(2) obtain b' sa re where b: "references_ok E s b" "stored_bet E b = Some b'"
    and s': "s' = s\<lparr>sport_bets := update_where (\<lambda>r. sb_ID (sr_bet r) = sb_ID b)
      (\<lambda>r. r\<lparr>sr_bet := (sr_bet r)\<lparr>sb_UserID := sb_UserID b', sb_EventID := sb_EventID b',
                      sb_MarketID := sb_MarketID b', sb_OutcomeID := sb_OutcomeID b', sb_Amount := sb_Amount b',
                      sb_Odds := sb_Odds b', sb_Status := sb_Status b', sb_Payout := sb_Payout b',
                      sb_NetPayout := sb_NetPayout b', sb_SettledAt := sa, sb_UpdatedAt := now\<rparr>,
                    sr_reason := re\<rparr>) (sport_bets s)\<rparr>"
    by (auto simp: SportBetRepository_Update_def Let_def split: if_splits option.splits)
  show ?thesis unfolding s'
    by (rule sports_ok_update_bets [OF assms(1)]) (auto intro: references_bet_ok [OF b])
qed (use assms in simp)

lemma update_event_ok:
  assumes "sports_ok s" "update_event E s i g ok = (s', r)" "\<And>e. ev_ID (g e) = ev_ID e"
  shows "sports_ok s'"
  using assms update_where_image [of ev_ID g] update_where_keys [of ev_ID g]
  by (auto simp: update_event_def sports_ok_def split: if_splits)

lemma update_market_ok:
  assumes "sports_ok s" "update_market E s i g = (s', r)" "\<And>m. mr_ID (g m) = mr_ID m \<and> mr_EventID (g m) = mr_EventID m"
  shows "sports_ok s'"
proof -
  have keep: "mr_ID ` set (update_where P g t) = mr_ID ` set t" "map mr_ID (update_where P g t) = map mr_ID t"
    "mr_EventID ` set (update_where P g t) = mr_EventID ` set t" for P t
    using assms(3) by (auto intro!: update_where_image update_where_keys)
  then have "\<forall>m \<in> set (update_where P g (betting_markets s)). mr_EventID m \<in> ev_ID ` set (sport_events s)" for P
    using assms(1) unfolding sports_ok_def by (metis (no_types, lifting) imageE imageI)
  with assms(1,2) keep(1,2) show ?thesis
    by (auto simp: update_market_def sports_ok_def split: if_splits)
qed

lemma update_outcome_ok:
  assumes "sports_ok s" "update_outcome E s i g = (s', r)"
    and "\<And>x y. g x = Some y \<Longrightarrow> or_ID y = or_ID x \<and> or_MarketID y = or_MarketID x \<and>
      (0 < or_Odds x \<longrightarrow> 0 < or_Odds y) \<and> (0 < or_Price x \<longrightarrow> 0 < or_Price y)"
  shows "sports_ok s'"
proof (cases "update_try (\<lambda>x. or_ID x = i) g (market_outcomes s)")
  case (Some xs)
  have keys: "map or_ID xs = map or_ID (market_outcomes s)"
    and rows: "\<forall>y \<in> set xs. y \<in> set (market_outcomes s) \<or> (\<exists>x \<in> set (market_outcomes s). g x = Some y)"
    using update_try_rows [OF Some, of or_ID] assms(3) by auto
  from keys have "or_ID ` set xs = or_ID ` set (market_outcomes s)" by (metis set_map)
  moreover have "\<forall>y \<in> set xs. or_MarketID y \<in> mr_ID ` set (betting_markets s) \<and> 0 < or_Odds y \<and> 0 < or_Price y"
    using rows assms(1,3) unfolding sports_ok_def by metis
  ultimately show ?thesis
    using assms(1,2) keys Some by (auto simp: update_outcome_def sports_ok_def split: if_splits)
qed (use assms in \<open>auto simp: update_outcome_def split: if_splits\<close>)

lemma survives: "k \<in> key ` set t \<Longrightarrow> k \<notin> key ` set (filter P t) \<Longrightarrow> k \<in> key ` set (filter (\<lambda>x. \<not> P x) t)"
  by auto

lemma sports_ok_append:
  assumes "sports_ok s"
  shows "ev_ID e \<notin> ev_ID ` set (sport_events s) \<Longrightarrow> sports_ok (s\<lparr>sport_events := sport_events s @ [e]\<rparr>)"
    and "mr_ID m \<notin> mr_ID ` set (betting_markets s) \<Longrightarrow> mr_EventID m \<in> ev_ID ` set (sport_events s) \<Longrightarrow>
      sports_ok (s\<lparr>betting_markets := betting_markets s @ [m]\<rparr>)"
    and "or_ID x \<notin> or_ID ` set (market_outcomes s) \<Longrightarrow> or_MarketID x \<in> mr_ID ` set (betting_markets s) \<Longrightarrow>
      0 < or_Odds x \<Longrightarrow> 0 < or_Price x \<Longrightarrow> sports_ok (s\<lparr>market_outcomes := market_outcomes s @ [x]\<rparr>)"
  using assms by (auto simp: sports_ok_def)

text \<open>Removing rows keeps the references intact when every row that stays keeps its targets.\<close>

lemma sports_ok_shrink:
  assumes ok: "sports_ok s"
    and m: "\<And>m. m \<in> set (betting_markets s) \<Longrightarrow> PM m \<Longrightarrow> mr_EventID m \<in> ev_ID ` set (filter PE (sport_events s))"
    and x: "\<And>x. x \<in> set (market_outcomes s) \<Longrightarrow> PX x \<Longrightarrow> or_MarketID x \<in> mr_ID ` set (filter PM (betting_markets s))"
    and b: "\<And>r. r \<in> set (sport_bets s) \<Longrightarrow> PB r \<Longrightarrow> sb_EventID (sr_bet r) \<in> ev_ID ` set (filter PE (sport_events s))"
      "\<And>r. r \<in> set (sport_bets s) \<Longrightarrow> PB r \<Longrightarrow> sb_MarketID (sr_bet r) \<in> mr_ID ` set (filter PM (betting_markets s))"
      "\<And>r. r \<in> set (sport_bets s) \<Longrightarrow> PB r \<Longrightarrow> sb_OutcomeID (sr_bet r) \<in> or_ID ` set (filter PX (market_outcomes s))"
  shows "sports_ok \<lparr>sport_bets = filter PB (sport_bets s), sport_events = filter PE (sport_events s),
    betting_markets = filter PM (betting_markets s), market_outcomes = filter PX (market_outcomes s)\<rparr>"
proof -
  have "mr_EventID m \<in> ev_ID ` set (filter PE (sport_events s))" if "m \<in> set (filter PM (betting_markets s))" for m
    using m that by simp
  moreover have "or_MarketID x \<in> mr_ID ` set (filter PM (betting_markets s)) \<and> 0 < or_Odds x \<and> 0 < or_Price x"
    if "x \<in> set (filter PX (market_outcomes s))" for x
    using x that ok unfolding sports_ok_def by simp
  moreover have "bet_ok \<lparr>sport_bets = [], sport_events = filter PE (sport_events s),
      betting_markets = filter PM (betting_markets s), market_outcomes = filter PX (market_outcomes s)\<rparr> r"
    if "r \<in> set (filter PB (sport_bets s))" for r
    using b [of r] that sports_ok_bet [OF ok, of r] by (simp add: bet_ok_def del: set_filter) simp
  ultimately show ?thesis using ok unfolding sports_ok_def bet_ok_def sports_db.simps
    by (intro conjI ballI distinct_map_filter) blast+
qed

lemma drop_markets_eq:
  "drop_markets P s =
     \<lparr>sport_bets = filter (\<lambda>r. sb_MarketID (sr_bet r) \<notin> mr_ID ` set (filter P (betting_markets s)) \<and>
        sb_OutcomeID (sr_bet r) \<notin> or_ID ` set (filter (\<lambda>x. or_MarketID x \<in> mr_ID ` set (filter P (betting_markets s)))
          (market_outcomes s))) (sport_bets s),
      sport_events = filter (\<lambda>_. True) (sport_events s),
      betting_markets = filter (\<lambda>m. \<not> P m) (betting_markets s),
      market_outcomes = filter (\<lambda>x. \<not> or_MarketID x \<in> mr_ID ` set (filter P (betting_markets s))) (market_outcomes s)\<rparr>"
  by (simp only: drop_markets_def Let_def set_map) simp

lemma drop_markets_ok:
  assumes ok: "sports_ok s" shows "sports_ok (drop_markets P s)"
  unfolding drop_markets_eq
proof (rule sports_ok_shrink [OF ok])
  fix m assume "m \<in> set (betting_markets s)"
  then show "mr_EventID m \<in> ev_ID ` set (filter (\<lambda>_. True) (sport_events s))"
    using ok by (simp add: sports_ok_def)
next
  fix x assume "x \<in> set (market_outcomes s)" "\<not> or_MarketID x \<in> mr_ID ` set (filter P (betting_markets s))"
  then show "or_MarketID x \<in> mr_ID ` set (filter (\<lambda>m. \<not> P m) (betting_markets s))"
    using ok by (intro survives) (simp_all add: sports_ok_def)
next
  fix r assume r: "r \<in> set (sport_bets s)"
    "sb_MarketID (sr_bet r) \<notin> mr_ID ` set (filter P (betting_markets s)) \<and>
     sb_OutcomeID (sr_bet r) \<notin> or_ID ` set (filter (\<lambda>x. or_MarketID x \<in> mr_ID ` set (filter P (betting_markets s)))
       (market_outcomes s))"
  note b = sports_ok_bet [OF ok r(1), unfolded bet_ok_def]
  from b show "sb_EventID (sr_bet r) \<in> ev_ID ` set (filter (\<lambda>_. True) (sport_events s))" by simp
  show "sb_MarketID (sr_bet r) \<in> mr_ID ` set (filter (\<lambda>m. \<not> P m) (betting_markets s))"
    by (rule survives) (rule conjunct1 [OF conjunct2 [OF b]], rule conjunct1 [OF r(2)])
  show "sb_OutcomeID (sr_bet r) \<in>
      or_ID ` set (filter (\<lambda>x. \<not> or_MarketID x \<in> mr_ID ` set (filter P (betting_markets s))) (market_outcomes s))"
    by (rule survives) (rule conjunct1 [OF conjunct2 [OF conjunct2 [OF b]]], rule conjunct2 [OF r(2)])
qed

lemma MatchRepository_Delete_ok:
  assumes "sports_ok s" "MatchRepository_Delete E s i = (s', r)" shows "sports_ok s'"
proof -
  define d where "d = drop_markets (\<lambda>m. mr_EventID m = i) s"
  have d: "sports_ok d" unfolding d_def by (rule drop_markets_ok [OF assms(1)])
  have ne: "mr_EventID m \<noteq> i" if "m \<in> set (betting_markets d)" for m
    using that by (simp add: d_def drop_markets_def Let_def)
  have ev: "k \<in> ev_ID ` set (filter (\<lambda>e. ev_ID e \<noteq> i) (sport_events d))" if "k \<in> ev_ID ` set (sport_events d)" "k \<noteq> i" for k
    using that by auto
  have "sports_ok \<lparr>sport_bets = filter (\<lambda>r. sb_EventID (sr_bet r) \<noteq> i) (sport_bets d),
      sport_events = filter (\<lambda>e. ev_ID e \<noteq> i) (sport_events d),
      betting_markets = filter (\<lambda>_. True) (betting_markets d), market_outcomes = filter (\<lambda>_. True) (market_outcomes d)\<rparr>"
  proof (rule sports_ok_shrink [OF d])
    fix r assume r: "r \<in> set (sport_bets d)" "sb_EventID (sr_bet r) \<noteq> i"
    note b = sports_ok_bet [OF d r(1), unfolded bet_ok_def]
    from b r(2) show "sb_EventID (sr_bet r) \<in> ev_ID ` set (filter (\<lambda>e. ev_ID e \<noteq> i) (sport_events d))" by (blast intro: ev)
    from b show "sb_MarketID (sr_bet r) \<in> mr_ID ` set (filter (\<lambda>_. True) (betting_markets d))"
      "sb_OutcomeID (sr_bet r) \<in> or_ID ` set (filter (\<lambda>_. True) (market_outcomes d))" by simp_all
  qed (use d ne ev in \<open>simp_all add: sports_ok_def\<close>)
  then have "sports_ok (d\<lparr>sport_events := filter (\<lambda>e. ev_ID e \<noteq> i) (sport_events d),
      sport_bets := filter (\<lambda>r. sb_EventID (sr_bet r) \<noteq> i) (sport_bets d)\<rparr>)" by (cases d) simp
  with assms show ?thesis
    by (auto simp: MatchRepository_Delete_def Let_def d_def [symmetric] split: if_splits)
qed

lemma MarketOutcomeRepository_Delete_ok:
  assumes ok: "sports_ok s" and "MarketOutcomeRepository_Delete E s i = (s', r)" shows "sports_ok s'"
proof -
  have "sports_ok \<lparr>sport_bets = filter (\<lambda>r. sb_OutcomeID (sr_bet r) \<noteq> i) (sport_bets s),
      sport_events = filter (\<lambda>_. True) (sport_events s), betting_markets = filter (\<lambda>_. True) (betting_markets s),
      market_outcomes = filter (\<lambda>x. or_ID x \<noteq> i) (market_outcomes s)\<rparr>"
  proof (rule sports_ok_shrink [OF ok])
    fix r assume r: "r \<in> set (sport_bets s)" "sb_OutcomeID (sr_bet r) \<noteq> i"
    note b = sports_ok_bet [OF ok r(1), unfolded bet_ok_def]
    from b r(2) show "sb_OutcomeID (sr_bet r) \<in> or_ID ` set (filter (\<lambda>x. or_ID x \<noteq> i) (market_outcomes s))" by auto
    from b show "sb_MarketID (sr_bet r) \<in> mr_ID ` set (filter (\<lambda>_. True) (betting_markets s))"
      "sb_EventID (sr_bet r) \<in> ev_ID ` set (filter (\<lambda>_. True) (sport_events s))" by simp_all
  qed (use ok in \<open>simp_all add: sports_ok_def\<close>)
  then have "sports_ok (s\<lparr>market_outcomes := filter (\<lambda>x. or_ID x \<noteq> i) (market_outcomes s),
      sport_bets := filter (\<lambda>r. sb_OutcomeID (sr_bet r) \<noteq> i) (sport_bets s)\<rparr>)" by (cases s) simp
  with assms show ?thesis by (auto simp: MarketOutcomeRepository_Delete_def split: if_splits)
qed

lemma sports_creates_ok:
  assumes "sports_ok s"
  shows "MatchRepository_Create E t u s m = (s', r) \<Longrightarrow> sports_ok s'"
    and "BettingMarketRepository_Create E t u s mk = (s', r) \<Longrightarrow> sports_ok s'"
    and "MarketOutcomeRepository_Create E now s x = (s', r) \<Longrightarrow> sports_ok s'"
  using assms
  by (auto simp: MatchRepository_Create_def BettingMarketRepository_Create_def MarketOutcomeRepository_Create_def
      intro!: sports_ok_append intro: rev_image_eqI split: option.splits if_splits)

lemmas sports_ops_ok = SportBetRepository_Create_ok SportBetRepository_Update_ok MatchRepository_Delete_ok
  MarketOutcomeRepository_Delete_ok sports_creates_ok

lemma sports_rest_ok:
  assumes "sports_ok s"
  shows "SportBetRepository_Delete E s i = (s', r) \<Longrightarrow> sports_ok s'"
    and "MarkAsWon E now s i p = (s', r) \<Longrightarrow> sports_ok s'"
    and "MarkAsLost E now s i = (s', r) \<Longrightarrow> sports_ok s'"
    and "MarkAsVoid E now s i reason = (s', r) \<Longrightarrow> sports_ok s'"
    and "MatchRepository_Update E now s m = (s', r) \<Longrightarrow> sports_ok s'"
    and "MatchRepository_UpdateStatus E now s i st = (s', r) \<Longrightarrow> sports_ok s'"
    and "UpdateScore E now s i sc = (s', r) \<Longrightarrow> sports_ok s'"
    and "BettingMarketRepository_Update E now s mk = (s', r) \<Longrightarrow> sports_ok s'"
    and "BettingMarketRepository_UpdateStatus E now s i ms = (s', r) \<Longrightarrow> sports_ok s'"
    and "BettingMarketRepository_Delete E s i = (s', r) \<Longrightarrow> sports_ok s'"
    and "MarketOutcomeRepository_Update E clock s x = (s', r) \<Longrightarrow> sports_ok s'"
    and "MarketOutcomeRepository_UpdateStatus E now s i os = (s', r) \<Longrightarrow> sports_ok s'"
    and "UpdateOdds E now s i odds = (s', r) \<Longrightarrow> sports_ok s'"
proof -
  note ok = assms
  show "SportBetRepository_Delete E s i = (s', r) \<Longrightarrow> sports_ok s'"
    using ok by (auto simp: SportBetRepository_Delete_def sports_ok_filter_bets split: if_splits)
  show "MarkAsWon E now s i p = (s', r) \<Longrightarrow> sports_ok s'" "MarkAsLost E now s i = (s', r) \<Longrightarrow> sports_ok s'"
    "MarkAsVoid E now s i reason = (s', r) \<Longrightarrow> sports_ok s'"
    unfolding MarkAsWon_def MarkAsLost_def MarkAsVoid_def by (erule settle_bet_ok [OF ok]; simp)+
  show "MatchRepository_Update E now s m = (s', r) \<Longrightarrow> sports_ok s'"
    "UpdateScore E now s i sc = (s', r) \<Longrightarrow> sports_ok s'"
    using ok unfolding MatchRepository_Update_def UpdateScore_def
    by (auto split: sum.splits intro: update_event_ok [OF ok])
  show "MatchRepository_UpdateStatus E now s i st = (s', r) \<Longrightarrow> sports_ok s'"
    unfolding MatchRepository_UpdateStatus_def by (erule update_event_ok [OF ok]) simp
  show "BettingMarketRepository_Update E now s mk = (s', r) \<Longrightarrow> sports_ok s'"
    "BettingMarketRepository_UpdateStatus E now s i ms = (s', r) \<Longrightarrow> sports_ok s'"
    unfolding BettingMarketRepository_Update_def BettingMarketRepository_UpdateStatus_def
    by (erule update_market_ok [OF ok]; simp)+
  show "BettingMarketRepository_Delete E s i = (s', r) \<Longrightarrow> sports_ok s'"
    using ok by (auto simp: BettingMarketRepository_Delete_def drop_markets_ok split: if_splits)
  show "MarketOutcomeRepository_Update E clock s x = (s', r) \<Longrightarrow> sports_ok s'"
    "MarketOutcomeRepository_UpdateStatus E now s i os = (s', r) \<Longrightarrow> sports_ok s'"
    "UpdateOdds E now s i odds = (s', r) \<Longrightarrow> sports_ok s'"
    unfolding MarketOutcomeRepository_Update_def MarketOutcomeRepository_UpdateStatus_def UpdateOdds_def
    by (erule update_outcome_ok [OF ok]; auto split: option.splits)+
qed

lemma sports_step_ok: "sports_step E s s' \<Longrightarrow> sports_ok s \<Longrightarrow> sports_ok s'"
  by (erule sports_stepE) (blast intro: sports_ops_ok sports_rest_ok)+

interpretation sports_run: step_system "sports_step E" sports_ok for E
  by unfold_locales (rule sports_step_ok)

section \<open>What the schema and the scans do to the service\<close>

text \<open>Against the migrated schema no bet can be created: the statement never supplies \<open>bet_id\<close>.\<close>

lemma sport_bet_create_needs_bet_id:
  "se_required E = migrated_required \<Longrightarrow> \<exists>e. SportBetRepository_Create E now s b = (s, Inl e)"
  by (auto simp: SportBetRepository_Create_def migrated_required_def bet_insert_columns_def)

text \<open>An update without a reason stores \<open>NULL\<close>, and the bet can no longer be read.\<close>

lemma sport_bet_update_hides:
  assumes "SportBetRepository_Update E now s b = (s', Inr ())" "sb_SettlementReason b = ''''"
  shows "\<exists>e. SportBetRepository_GetByID E' s' (sb_ID b) = Inl e"
proof (cases "\<exists>r \<in> set (sport_bets s). sb_ID (sr_bet r) = sb_ID b")
  case True
  then have "rows_affected (\<lambda>r. sb_ID (sr_bet r) = sb_ID b) (sport_bets s) \<noteq> 0" by (simp add: rows_affected_0)
  with assms obtain g where "sport_bets s' = update_where (\<lambda>r. sb_ID (sr_bet r) = sb_ID b) g (sport_bets s)"
      "\<And>r. sr_reason (g r) = None" "\<And>r. sb_ID (sr_bet (g r)) = sb_ID (sr_bet r)"
    by (force simp: SportBetRepository_Update_def Let_def split: if_splits option.splits)
  then have "scan_bet r = None" if "select_row (\<lambda>r. sb_ID (sr_bet r) = sb_ID b) (sport_bets s') = Some r" for r
    using that select_row_Some [OF that] by (auto simp: set_update_where scan_bet_def)
  then show ?thesis
    by (cases "select_row (\<lambda>r. sb_ID (sr_bet r) = sb_ID b) (sport_bets s')")
      (auto simp: SportBetRepository_GetByID_def)
next
  case False
  then have "rows_affected (\<lambda>r. sb_ID (sr_bet r) = sb_ID b) (sport_bets s) = 0" by (simp add: rows_affected_0)
  then have "s' = s" using assms by (auto simp: SportBetRepository_Update_def Let_def split: if_splits)
  then have "select_row (\<lambda>r. sb_ID (sr_bet r) = sb_ID b) (sport_bets s') = None"
    using False by (simp add: select_row_None)
  then show ?thesis by (simp add: SportBetRepository_GetByID_def)
qed

lemma scan_rows_nothing: "scan_rows (\<lambda>r. None) rs = Some ys \<Longrightarrow> rs = [] \<and> ys = []"
  by (cases rs) auto

text \<open>No market and no outcome is ever read back.\<close>

lemma market_reads_fail:
  "BettingMarketRepository_GetByID E s i \<noteq> Inr m"
  "GetByMatch E s i = Inr ms \<Longrightarrow> ms = []"
  "MarketOutcomeRepository_GetByID E s i \<noteq> Inr x"
  "GetByMarket E s i = Inr xs \<Longrightarrow> xs = []"
  by (auto simp: BettingMarketRepository_GetByID_def MarketOutcomeRepository_GetByID_def GetByMatch_def
      GetByMarket_def read_row_def read_rows_def scan_market_def [abs_def] scan_outcome_def [abs_def]
      dest!: scan_rows_nothing split: if_splits option.splits)

section \<open>Properties\<close>

definition sample_env :: sql_env where
  "sample_env = \<lparr>se_libs = std_libs, se_is_uuid = (\<lambda>_. True), se_user_exists = (\<lambda>_. True), se_required = [''user_id''],
     se_fault = False\<rparr>"

definition sample_sports :: sports_db where
  "sample_sports = \<lparr>sport_bets = [],
     sport_events = [\<lparr>ev_ID = ''E'', ev_EventID = ''x'', ev_Sport = ''FOOTBALL'', ev_Tournament = ''Cup'', ev_HomeTeam = ''A'',
       ev_AwayTeam = ''B'', ev_StartTime = 1000 * Second, ev_Status = ''SCHEDULED'', ev_HomeScore = Some 0,
       ev_AwayScore = Some 0, ev_CreatedAt = 0, ev_UpdatedAt = 0\<rparr>],
     betting_markets = [\<lparr>mr_ID = ''M'', mr_MarketID = ''m'', mr_EventID = ''E'', mr_Type = ''1X2'', mr_Name = ''1X2'',
       mr_Status = MarketStatusOpen, mr_SuspendedAt = None, mr_CreatedAt = 0, mr_UpdatedAt = 0\<rparr>],
     market_outcomes = [\<lparr>or_ID = ''O'', or_OutcomeID = ''o'', or_MarketID = ''M'', or_Name = ''1'', or_Odds = 2, or_Price = 2,
       or_Status = OutcomeStatusPending, or_SettledAt = None, or_CreatedAt = 0, or_UpdatedAt = 0\<rparr>]\<rparr>"

definition sample_sport_bet :: SportBet where
  "sample_sport_bet = \<lparr>sb_ID = ''B'', sb_UserID = ''U'', sb_CountryCode = ''KE'', sb_EventID = ''E'', sb_MarketID = ''M'',
     sb_OutcomeID = ''O'', sb_Amount = 100, sb_Odds = 5 / 2, sb_Currency = ''KES'', sb_Status = BetStatusPending,
     sb_Payout = 0, sb_NetPayout = 0, sb_SettledAt = None, sb_SettlementReason = '''', sb_PlacedAt = 100 * Second,
     sb_UpdatedAt = 100 * Second\<rparr>"



text \<open>What is created is read back. With amounts in cents and odds with four decimals, a created
  bet is returned by its id unchanged but for the fields the repository does not keep: the currency,
  country and settlement reason come back empty and an open bet gets a zero settlement time.\<close>

theorem sport_bet_create_read:
  assumes "libs_ok (se_libs E)" "has_scale 2 (sb_Amount b)" "has_scale 4 (sb_Odds b)"
    and "has_scale 2 (sb_Payout b)" "has_scale 2 (sb_NetPayout b)"
    and "SportBetRepository_Create E now s b = (s', Inr ())"
  shows "SportBetRepository_GetByID E s' (sb_ID b) = Inr (b\<lparr>sb_Currency := '''', sb_CountryCode := '''',
    sb_SettlementReason := '''', sb_UpdatedAt := now,
    sb_SettledAt := Some (case sb_SettledAt b of None \<Rightarrow> zero_time | Some t \<Rightarrow> t)\<rparr>)"
proof -
  from assms(6) obtain b' where st: "stored_bet E b = Some b'" and new: "sb_ID b \<notin> (\<lambda>r. sb_ID (sr_bet r)) ` set (sport_bets s)"
    and e: "\<not> se_fault E" "se_is_uuid E (sb_ID b)"
    and s': "sport_bets s' = sport_bets s @ [\<lparr>sr_bet = b'\<lparr>sb_Currency := ''KES'', sb_UpdatedAt := now\<rparr>, sr_reason = Some ''''\<rparr>]"
    by (auto simp: SportBetRepository_Create_def split: if_splits option.splits)
  obtain a o' p n where c: "money_col (se_libs E) (sb_Amount b) = Some a" "odds4 (se_libs E) (sb_Odds b) = Some o'"
      "money_col (se_libs E) (sb_Payout b) = Some p" "money_col (se_libs E) (sb_NetPayout b) = Some n"
    and b': "b' = b\<lparr>sb_Amount := a, sb_Odds := o', sb_Payout := p, sb_NetPayout := n\<rparr>"
    using st by (auto simp: stored_bet_def split: option.splits)
  have "a = sb_Amount b" "p = sb_Payout b" "n = sb_NetPayout b"
    using c(1,3,4) assms(1,2,4,5) by (auto intro: money_col_exact)
  moreover have "o' = sb_Odds b" using c(2) assms(1,3) sql_numeric_exact by (auto simp: odds4_def)
  ultimately have "b' = b" using b' by simp
  moreover have "select_row (\<lambda>r. sb_ID (sr_bet r) = sb_ID b) (sport_bets s) = None"
    using new by (auto simp: select_row_None image_iff)
  ultimately show ?thesis
    using e unfolding SportBetRepository_GetByID_def s' by (simp add: select_row_append select_row_Cons scan_bet_def)
qed

theorem sport_bet_create_read_witness:
  "\<exists>b. SportBetRepository_GetByID sample_env (fst (SportBetRepository_Create sample_env 7 sample_sports sample_sport_bet)) ''B'' = Inr b \<and>
     sb_Amount b = 100 \<and> sb_UpdatedAt b = 7"
proof -
  let ?r = "SportBetRepository_Create sample_env 7 sample_sports sample_sport_bet"
  have "snd ?r = Inr ()" by code_simp
  then have r: "?r = (fst ?r, Inr ())" by (simp add: prod_eq_iff)
  have "libs_ok (se_libs sample_env)" by (simp add: sample_env_def std_libs_ok)
  moreover have "has_scale 2 (sb_Amount sample_sport_bet)" "has_scale 4 (sb_Odds sample_sport_bet)"
    "has_scale 2 (sb_Payout sample_sport_bet)" "has_scale 2 (sb_NetPayout sample_sport_bet)" by code_simp+
  ultimately have "SportBetRepository_GetByID sample_env (fst ?r) (sb_ID sample_sport_bet) = Inr (sample_sport_bet\<lparr>
    sb_Currency := '''', sb_CountryCode := '''', sb_SettlementReason := '''', sb_UpdatedAt := 7,
    sb_SettledAt := Some (case sb_SettledAt sample_sport_bet of None \<Rightarrow> zero_time | Some t \<Rightarrow> t)\<rparr>)"
    using r by (rule sport_bet_create_read)
  then show ?thesis by (simp add: sample_sport_bet_def)
qed

end
