(* ===== verification/EditBet.thy ===== *)
theory EditBet
  imports SportsDb Snowflake
begin

text \<open>
  \<open>internal/sports/edit\<close>: changing a pending bet during the five minutes after it was placed.
  The service reads and writes bets and matches through the repositories of \<open>SportsDb\<close>; the wallet
  and the event bus are interfaces without an implementation in the repository and are the fields of
  \<open>edit_ports\<close> over their own state. \<open>now k\<close> is the \<open>k\<close>-th reading of the clock within a call and
  \<open>gid\<close> the identifier the generator returns, if it is asked for one.
\<close>

record EditMovement =
  em_UserID :: string
  em_Amount :: decimal
  em_Type :: TransactionType
  em_ReferenceID :: "string option"
  em_ReferenceType :: string
  em_Description :: string
  em_ProviderName :: string
  em_ProviderTxnID :: string
  em_CountryCode :: string

record EditBetRequest =
  er_BetID :: string
  er_UserID :: string
  er_NewAmount :: decimal
  er_NewOdds :: decimal
  er_NewOutcomeID :: string
  er_Reason :: string

record EditBetResponse =
  ep_OriginalBet :: SportBet
  ep_EditedBet :: SportBet
  ep_RefundAmount :: decimal
  ep_AdditionalAmount :: decimal
  ep_EditedAt :: time
  ep_Reason :: string

record edit_event =
  ee_BetID :: string
  ee_UserID :: string
  ee_OriginalAmount :: decimal
  ee_NewAmount :: decimal
  ee_OriginalOdds :: decimal
  ee_NewOdds :: decimal
  ee_Reason :: string
  ee_EditedAt :: time

record 'w edit_ports =
  w_Credit :: "'w \<Rightarrow> string \<Rightarrow> decimal \<Rightarrow> EditMovement \<Rightarrow> 'w \<times> bool"
  w_Debit :: "'w \<Rightarrow> string \<Rightarrow> decimal \<Rightarrow> EditMovement \<Rightarrow> 'w \<times> bool"
  w_Publish :: "'w \<Rightarrow> edit_event \<Rightarrow> 'w"

datatype edit_error =
    ErrGetBet sql_error
  | ErrUnauthorized
  | ErrCannotEdit
  | ErrGetMatch sql_error
  | ErrMatchStarted
  | ErrRefund
  | ErrAdditionalPayment
  | ErrUpdateBet sql_error

definition canEditBet :: "time \<Rightarrow> SportBet \<Rightarrow> bool" where
  "canEditBet now bet \<longleftrightarrow> sb_Status bet = BetStatusPending \<and> \<not> now - sb_PlacedAt bet > 5 * Minute"

definition calculateAmountDifference :: "SportBet \<Rightarrow> EditBetRequest \<Rightarrow> decimal \<times> decimal" where
  "calculateAmountDifference originalBet req =
     (let originalStake = sb_Amount originalBet; newStake = er_NewAmount req in
      if newStake < originalStake then (originalStake - newStake, 0)
      else if newStake > originalStake then (0, newStake - originalStake)
      else (0, 0))"

definition processRefund :: "'w edit_ports \<Rightarrow> string \<Rightarrow> 'w \<Rightarrow> SportBet \<Rightarrow> decimal \<Rightarrow> 'w \<times> bool" where
  "processRefund P gid w bet refundAmount =
     w_Credit P w (sb_UserID bet) refundAmount
       \<lparr>em_UserID = sb_UserID bet, em_Amount = refundAmount, em_Type = TransactionTypeBetRefund,
        em_ReferenceID = Some (sb_ID bet), em_ReferenceType = ''sport_bet'',
        em_Description = ''Bet edit refund for bet '' @ sb_ID bet, em_ProviderName = ''edit_bet'',
        em_ProviderTxnID = ''refund-'' @ gid, em_CountryCode = sb_CountryCode bet\<rparr>"

definition processAdditionalPayment :: "'w edit_ports \<Rightarrow> string \<Rightarrow> 'w \<Rightarrow> SportBet \<Rightarrow> decimal \<Rightarrow> 'w \<times> bool" where
  "processAdditionalPayment P gid w bet additionalAmount =
     w_Debit P w (sb_UserID bet) additionalAmount
       \<lparr>em_UserID = sb_UserID bet, em_Amount = additionalAmount, em_Type = TransactionTypeBetPlaced,
        em_ReferenceID = Some (sb_ID bet), em_ReferenceType = ''sport_bet'',
        em_Description = ''Bet edit additional payment for bet '' @ sb_ID bet, em_ProviderName = ''edit_bet'',
        em_ProviderTxnID = ''additional-'' @ gid, em_CountryCode = sb_CountryCode bet\<rparr>"

definition createEditedBet :: "time \<Rightarrow> SportBet \<Rightarrow> EditBetRequest \<Rightarrow> SportBet" where
  "createEditedBet now originalBet req =
     (let b = originalBet\<lparr>sb_Amount := er_NewAmount req, sb_Odds := er_NewOdds req, sb_UpdatedAt := now\<rparr> in
      if er_NewOutcomeID req \<noteq> '''' then b\<lparr>sb_OutcomeID := er_NewOutcomeID req\<rparr> else b)"

definition publishEditEvent :: "'w edit_ports \<Rightarrow> time \<Rightarrow> 'w \<Rightarrow> SportBet \<Rightarrow> SportBet \<Rightarrow> string \<Rightarrow> 'w" where
  "publishEditEvent P now w originalBet editedBet reason = w_Publish P w
     \<lparr>ee_BetID = sb_ID editedBet, ee_UserID = sb_UserID editedBet, ee_OriginalAmount = sb_Amount originalBet,
      ee_NewAmount = sb_Amount editedBet, ee_OriginalOdds = sb_Odds originalBet, ee_NewOdds = sb_Odds editedBet,
      ee_Reason = reason, ee_EditedAt = now\<rparr>"

definition edit_money ::
  "'w edit_ports \<Rightarrow> string \<Rightarrow> 'w \<Rightarrow> SportBet \<Rightarrow> decimal \<Rightarrow> decimal \<Rightarrow> 'w \<times> edit_error option" where
  "edit_money P gid w bet refundAmount additionalAmount =
     (let (w1, ok1) = (if refundAmount > 0 then processRefund P gid w bet refundAmount else (w, True)) in
      if \<not> ok1 then (w1, Some ErrRefund)
      else
        let (w2, ok2) = (if additionalAmount > 0 then processAdditionalPayment P gid w1 bet additionalAmount
                         else (w1, True)) in
        if \<not> ok2 then (w2, Some ErrAdditionalPayment) else (w2, None))"

definition EditBet ::
  "sql_env \<Rightarrow> 'w edit_ports \<Rightarrow> (nat \<Rightarrow> time) \<Rightarrow> string \<Rightarrow> sports_db \<times> 'w \<Rightarrow> EditBetRequest
     \<Rightarrow> (sports_db \<times> 'w) \<times> (edit_error + EditBetResponse)" where
  "EditBet E P now gid sw req =
     (let (s, w) = sw in
      case SportBetRepository_GetByID E s (er_BetID req) of
        Inl e \<Rightarrow> (sw, Inl (ErrGetBet e))
      | Inr originalBet \<Rightarrow>
          if sb_UserID originalBet \<noteq> er_UserID req then (sw, Inl ErrUnauthorized)
          else if \<not> canEditBet (now 0) originalBet then (sw, Inl ErrCannotEdit)
          else
            (case MatchRepository_GetByID E s (sb_EventID originalBet) of
               Inl e \<Rightarrow> (sw, Inl (ErrGetMatch e))
             | Inr match \<Rightarrow>
                 if now 1 > match_StartTime match then (sw, Inl ErrMatchStarted)
                 else
                   let (refundAmount, additionalAmount) = calculateAmountDifference originalBet req in
                   (case edit_money P gid w originalBet refundAmount additionalAmount of
                      (w2, Some e) \<Rightarrow> ((s, w2), Inl e)
                    | (w2, None) \<Rightarrow>
                        let editedBet = createEditedBet (now 2) originalBet req in
                        (case SportBetRepository_Update E (now 3) s editedBet of
                           (s1, Inl e) \<Rightarrow> ((s1, w2), Inl (ErrUpdateBet e))
                         | (s1, Inr _) \<Rightarrow>
                             ((s1, publishEditEvent P (now 4) w2 originalBet editedBet (er_Reason req)),
                              Inr \<lparr>ep_OriginalBet = originalBet, ep_EditedBet = editedBet,
                                   ep_RefundAmount = refundAmount, ep_AdditionalAmount = additionalAmount,
                                   ep_EditedAt = now 5, ep_Reason = er_Reason req\<rparr>)))))"

text \<open>\<open>GetEditableBets\<close> reads the clock once per bet and once more for its match.\<close>

definition pending_filter :: BetFilters where
  "pending_filter = \<lparr>bf_UserID = None, bf_EventID = None, bf_MarketID = None, bf_OutcomeID = None,
     bf_Status = Some BetStatusPending, bf_Currency = None, bf_MinAmount = None, bf_MaxAmount = None,
     bf_MinOdds = None, bf_MaxOdds = None, bf_From = None, bf_To = None, bf_Limit = 0, bf_Offset = 0,
     bf_OrderBy = '''', bf_OrderDir = ''''\<rparr>"

definition GetEditableBets ::
  "sql_env \<Rightarrow> (SportBet \<Rightarrow> time \<times> time) \<Rightarrow> sports_db \<Rightarrow> string \<Rightarrow> sql_error + SportBet list" where
  "GetEditableBets E clock s userID =
     (case SportBetRepository_GetByUserID E s userID (Some pending_filter) of
        Inl e \<Rightarrow> Inl e
      | Inr found \<Rightarrow> Inr (filter (\<lambda>bet. canEditBet (fst (clock bet)) bet \<and>
          (case MatchRepository_GetByID E s (sb_EventID bet) of
             Inl _ \<Rightarrow> False
           | Inr match \<Rightarrow> snd (clock bet) < match_StartTime match)) found))"

section \<open>The path of a successful edit\<close>

lemma EditBet_Inr:
  assumes "EditBet E P now gid (s, w) req = ((s', w'), Inr r)"
  obtains b m w2 where "SportBetRepository_GetByID E s (er_BetID req) = Inr b" "sb_UserID b = er_UserID req"
    "canEditBet (now 0) b" "MatchRepository_GetByID E s (sb_EventID b) = Inr m" "now 1 \<le> match_StartTime m"
    "edit_money P gid w b (fst (calculateAmountDifference b req)) (snd (calculateAmountDifference b req)) = (w2, None)"
    "SportBetRepository_Update E (now 3) s (createEditedBet (now 2) b req) = (s', Inr ())"
    "w' = publishEditEvent P (now 4) w2 b (createEditedBet (now 2) b req) (er_Reason req)"
    "ep_OriginalBet r = b" "ep_EditedBet r = createEditedBet (now 2) b req"
    "(ep_RefundAmount r, ep_AdditionalAmount r) = calculateAmountDifference b req"
  using assms unfolding EditBet_def Let_def
  by (auto split: sum.splits if_splits prod.splits option.splits intro!: that simp: not_less)

lemma amount_difference:
  "calculateAmountDifference b req = (x, y) \<Longrightarrow>
     0 \<le> x \<and> 0 \<le> y \<and> (x = 0 \<or> y = 0) \<and> x - y = sb_Amount b - er_NewAmount req"
  by (auto simp: calculateAmountDifference_def Let_def split: if_splits)

lemma edit_money_None:
  assumes "edit_money P gid w b x y = (w2, None)" "x = 0 \<or> y = 0" "0 \<le> x" "0 \<le> y"
  shows "(x = 0 \<and> y = 0 \<and> w2 = w) \<or> (0 < x \<and> y = 0 \<and> processRefund P gid w b x = (w2, True)) \<or>
    (x = 0 \<and> 0 < y \<and> processAdditionalPayment P gid w b y = (w2, True))"
  using assms by (auto simp: edit_money_def split: if_splits prod.splits)

section \<open>Properties\<close>

text \<open>C23: only the owner edits, in time, and pays or gets exactly the difference. A successful edit was
  asked for by the owner of a pending bet at most five minutes old, before the start of the match; the
  stake difference was credited, debited or zero, in a single wallet operation; and the response states
  it.\<close>

theorem EditBet_settles_difference:
  assumes "EditBet E P now gid (s, w) req = ((s', w'), Inr r)"
  shows "\<exists>b w2. SportBetRepository_GetByID E s (er_BetID req) = Inr b \<and>
    sb_UserID b = er_UserID req \<and> sb_Status b = BetStatusPending \<and> now 0 - sb_PlacedAt b \<le> 5 * Minute \<and>
    (\<exists>m. MatchRepository_GetByID E s (sb_EventID b) = Inr m \<and> now 1 \<le> match_StartTime m) \<and>
    ep_RefundAmount r - ep_AdditionalAmount r = sb_Amount b - er_NewAmount req \<and>
    (if er_NewAmount req < sb_Amount b then processRefund P gid w b (sb_Amount b - er_NewAmount req) = (w2, True)
     else if sb_Amount b < er_NewAmount req
     then processAdditionalPayment P gid w b (er_NewAmount req - sb_Amount b) = (w2, True)
     else w2 = w) \<and>
    w' = publishEditEvent P (now 4) w2 b (ep_EditedBet r) (er_Reason req)"
proof -
  obtain b m w2 where b: "SportBetRepository_GetByID E s (er_BetID req) = Inr b" "sb_UserID b = er_UserID req"
    "canEditBet (now 0) b" "MatchRepository_GetByID E s (sb_EventID b) = Inr m" "now 1 \<le> match_StartTime m"
    and money: "edit_money P gid w b (fst (calculateAmountDifference b req)) (snd (calculateAmountDifference b req)) = (w2, None)"
    and r: "w' = publishEditEvent P (now 4) w2 b (createEditedBet (now 2) b req) (er_Reason req)"
      "ep_EditedBet r = createEditedBet (now 2) b req"
      "(ep_RefundAmount r, ep_AdditionalAmount r) = calculateAmountDifference b req"
    by (rule EditBet_Inr [OF assms])
  obtain x y where xy: "calculateAmountDifference b req = (x, y)" by force
  note d = amount_difference [OF xy]
  have "(x = 0 \<and> y = 0 \<and> w2 = w) \<or> (0 < x \<and> y = 0 \<and> processRefund P gid w b x = (w2, True)) \<or>
    (x = 0 \<and> 0 < y \<and> processAdditionalPayment P gid w b y = (w2, True))"
    using money d unfolding xy by (intro edit_money_None) simp_all
  moreover from d have "x = (if er_NewAmount req < sb_Amount b then sb_Amount b - er_NewAmount req else 0)"
    "y = (if sb_Amount b < er_NewAmount req then er_NewAmount req - sb_Amount b else 0)" by auto
  ultimately have "if er_NewAmount req < sb_Amount b then processRefund P gid w b (sb_Amount b - er_NewAmount req) = (w2, True)
     else if sb_Amount b < er_NewAmount req
     then processAdditionalPayment P gid w b (er_NewAmount req - sb_Amount b) = (w2, True) else w2 = w"
    by (auto split: if_splits)
  with b d r xy show ?thesis by (auto simp: canEditBet_def intro!: exI [of _ b] exI [of _ w2])
qed

definition tally_ports :: "decimal edit_ports" where
  "tally_ports = \<lparr>w_Credit = (\<lambda>w u a m. (w + a, True)), w_Debit = (\<lambda>w u a m. if w < a then (w, False) else (w - a, True)),
     w_Publish = (\<lambda>w e. w)\<rparr>"

definition edit_request :: "decimal \<Rightarrow> EditBetRequest" where
  "edit_request a = \<lparr>er_BetID = ''B'', er_UserID = ''U'', er_NewAmount = a, er_NewOdds = 2, er_NewOutcomeID = '''',
     er_Reason = ''smaller''\<rparr>"

definition sample_placed :: sports_db where
  "sample_placed = fst (SportBetRepository_Create sample_env 0 sample_sports sample_sport_bet)"

abbreviation edit_clock :: "nat \<Rightarrow> time" where
  "edit_clock k \<equiv> 200 * Second"

theorem EditBet_settles_difference_witness:
  "snd (fst (EditBet sample_env tally_ports edit_clock ''id'' (sample_placed, 10) (edit_request 60))) = 50"
proof -
  let ?r = "EditBet sample_env tally_ports edit_clock ''id'' (sample_placed, 10) (edit_request 60)"
  have "\<not> isl (snd ?r)" by code_simp
  then obtain r where "?r = ((fst (fst ?r), snd (fst ?r)), Inr r)" by (cases "snd ?r") (auto simp: prod_eq_iff)
  from EditBet_settles_difference [OF this] obtain b w2 where
    b: "SportBetRepository_GetByID sample_env sample_placed (er_BetID (edit_request 60)) = Inr b"
    "if er_NewAmount (edit_request 60) < sb_Amount b
     then processRefund tally_ports ''id'' 10 b (sb_Amount b - er_NewAmount (edit_request 60)) = (w2, True)
     else if sb_Amount b < er_NewAmount (edit_request 60)
     then processAdditionalPayment tally_ports ''id'' 10 b (er_NewAmount (edit_request 60) - sb_Amount b) = (w2, True)
     else w2 = 10"
    "snd (fst ?r) = publishEditEvent tally_ports (edit_clock 4) w2 b (ep_EditedBet r) (er_Reason (edit_request 60))"
    by blast
  have "map_sum id sb_Amount (SportBetRepository_GetByID sample_env sample_placed ''B'') = Inr 100" by code_simp
  with b(1) have "sb_Amount b = 100" by (simp add: edit_request_def)
  with b(2,3) show ?thesis
    by (simp add: edit_request_def tally_ports_def processRefund_def publishEditEvent_def)
qed

text \<open>A bet can be edited once. After a successful edit the repository cannot read the bet any
  more, because the edit writes no settlement reason and the read requires one; every later edit of
  the bet, by anyone, fails at its first step and moves no money.\<close>

theorem EditBet_only_once:
  assumes "EditBet E P now gid (s, w) req = ((s', w'), Inr r)"
    and "er_BetID req' = er_BetID req"
  shows "\<exists>e. EditBet E' P' now' gid' (s', w'') req' = ((s', w''), Inl (ErrGetBet e))"
proof -
  obtain b m w2 where b: "SportBetRepository_GetByID E s (er_BetID req) = Inr b"
    and u: "SportBetRepository_Update E (now 3) s (createEditedBet (now 2) b req) = (s', Inr ())"
    by (rule EditBet_Inr [OF assms(1)])
  have i: "sb_ID b = er_BetID req" and r: "sb_SettlementReason b = ''''"
    using b by (auto simp: SportBetRepository_GetByID_def scan_bet_def dest: select_row_Some split: if_splits option.splits)
  have "sb_ID (createEditedBet (now 2) b req) = er_BetID req" "sb_SettlementReason (createEditedBet (now 2) b req) = ''''"
    using i r by (simp_all add: createEditedBet_def Let_def)
  with sport_bet_update_hides [OF u] obtain e where "SportBetRepository_GetByID E' s' (er_BetID req) = Inl e" by auto
  then show ?thesis using assms(2) by (simp add: EditBet_def)
qed

theorem EditBet_only_once_witness:
  "\<exists>e. snd (EditBet sample_env tally_ports edit_clock ''id''
     (fst (EditBet sample_env tally_ports edit_clock ''id'' (sample_placed, 10) (edit_request 60))) (edit_request 70)) =
     Inl (ErrGetBet e)"
proof -
  let ?r = "EditBet sample_env tally_ports edit_clock ''id'' (sample_placed, 10) (edit_request 60)"
  have "\<not> isl (snd ?r)" by code_simp
  then obtain r where "?r = ((fst (fst ?r), snd (fst ?r)), Inr r)" by (cases "snd ?r") (auto simp: prod_eq_iff)
  from EditBet_only_once [OF this, of "edit_request 70" sample_env tally_ports edit_clock "''id''" "snd (fst ?r)"]
  show ?thesis by (auto simp: edit_request_def)
qed

text \<open>The refund is paid before the bet is saved: when saving fails, the user keeps the money and the
  bet its full stake.\<close>

lemma edit_refund_without_edit:
  "fst (EditBet sample_env tally_ports edit_clock ''id'' (sample_placed, 10) (edit_request 0)) = (sample_placed, 110)"
  by code_simp

end
