(* ===== verification/LiveBetting.thy ===== *)
theory LiveBetting
  imports SportsDb Snowflake
begin

text \<open>
  \<open>internal/sports/live\<close>: the cache of matches in play, with the odds of their outcomes. The cache
  is a map from match ids, here an association list; the pointers inside a live match are owned by it,
  so an update replaces the entry. A bet is stored through the repository of \<open>SportsDb\<close>; the event
  bus is an interface whose errors are only logged, so the events are a list that grows. What
  \<open>uuid.Parse\<close> accepts is the argument \<open>parses\<close>.
\<close>

record LiveOutcome =
  lo_Outcome :: Outcome
  lo_CurrentOdds :: decimal
  lo_PreviousOdds :: decimal
  lo_OddsChangeTime :: time
  lo_OddsChangeCount :: int
  lo_TotalVolume :: decimal
  lo_LiveVolume :: decimal

record LiveMarket =
  lk_Market :: Market
  lk_IsLive :: bool
  lk_LiveOdds :: "LiveOutcome list"
  lk_LastOddsUpdate :: time
  lk_OddsUpdateCount :: int
  lk_IsSuspended :: bool
  lk_SuspensionReason :: string

record LiveMatch =
  lm_Match :: Match
  lm_CurrentMinute :: int
  lm_HomeScore :: int
  lm_AwayScore :: int
  lm_HomePossession :: rat
  lm_AwayPossession :: rat
  lm_HomeCorners :: int
  lm_AwayCorners :: int
  lm_HomeYellowCards :: int
  lm_AwayYellowCards :: int
  lm_HomeRedCards :: int
  lm_AwayRedCards :: int
  lm_LiveMarkets :: "LiveMarket list"
  lm_LastUpdated :: time
  lm_NextOddsUpdate :: time
  lm_IsSuspended :: bool
  lm_SuspensionReason :: string

record OddsUpdate =
  ou_MatchID :: string
  ou_MarketID :: string
  ou_OutcomeID :: string
  ou_OldOdds :: decimal
  ou_NewOdds :: decimal
  ou_UpdateTime :: time
  ou_UpdateType :: string

record LiveBetRequest =
  lr_MatchID :: string
  lr_MarketID :: string
  lr_OutcomeID :: string
  lr_Amount :: decimal
  lr_Odds :: decimal
  lr_UserID :: string

record LiveBetResponse =
  lp_Success :: bool
  lp_BetID :: string
  lp_Message :: string
  lp_Balance :: decimal
  lp_Odds :: decimal
  lp_Amount :: decimal
  lp_PotentialWin :: decimal

record OutcomeOddsUpdate =
  xo_OutcomeID :: string
  xo_Odds :: decimal

record MarketOddsUpdate =
  xm_MarketID :: string
  xm_Outcomes :: "OutcomeOddsUpdate list"

record MatchOddsUpdate =
  xh_HomeWin :: decimal
  xh_Draw :: decimal
  xh_AwayWin :: decimal

record OddsUpdateRequest =
  oq_MatchID :: string
  oq_MarketID :: string
  oq_OutcomeID :: string
  oq_NewOdds :: decimal
  oq_Markets :: "MarketOddsUpdate list"
  oq_MatchOdds :: "MatchOddsUpdate option"

record LiveBettingMetrics =
  lx_ActiveMatches :: int
  lx_TotalBets :: int
  lx_TotalVolume :: decimal
  lx_AverageBetSize :: decimal
  lx_LastUpdated :: time
  lx_TotalMatches :: int
  lx_SuspendedMatches :: int
  lx_OddsUpdateInterval :: duration
  lx_LastActivity :: time

datatype live_event =
    LiveBetPlaced SportBet
  | LiveOddsUpdated OddsUpdateRequest
  | LiveMatchSuspended string string

record LiveBettingService =
  liveMatches :: "(string \<times> LiveMatch) list"
  live_events :: "live_event list"
  oddsUpdateInterval :: duration
  settlementInterval :: duration
  maxOddsDelay :: duration

datatype live_error = ErrLiveMatchNotFound | ErrMarketOrOutcomeNotFound

definition NewLiveBettingService :: LiveBettingService where
  "NewLiveBettingService = \<lparr>liveMatches = [], live_events = [], oddsUpdateInterval = 10 * Second,
     settlementInterval = 30 * Second, maxOddsDelay = 5 * Second\<rparr>"

definition live_publish :: "live_event \<Rightarrow> LiveBettingService \<Rightarrow> LiveBettingService" where
  "live_publish e S = S\<lparr>live_events := live_events S @ [e]\<rparr>"

definition put_match :: "string \<Rightarrow> LiveMatch \<Rightarrow> LiveBettingService \<Rightarrow> LiveBettingService" where
  "put_match i m S = S\<lparr>liveMatches := map (\<lambda>(k, v). if k = i then (k, m) else (k, v)) (liveMatches S)\<rparr>"

definition GetLiveMatch :: "LiveBettingService \<Rightarrow> string \<Rightarrow> live_error + LiveMatch" where
  "GetLiveMatch S matchID =
     (case map_of (liveMatches S) matchID of None \<Rightarrow> Inl ErrLiveMatchNotFound | Some m \<Rightarrow> Inr m)"

definition live_GetLiveMatches :: "LiveBettingService \<Rightarrow> LiveMatch list" where
  "live_GetLiveMatches S = map snd (liveMatches S)"

definition SuspendMatch :: "LiveBettingService \<Rightarrow> string \<Rightarrow> string \<Rightarrow> LiveBettingService \<times> live_error option" where
  "SuspendMatch S matchID reason =
     (case map_of (liveMatches S) matchID of
        None \<Rightarrow> (S, Some ErrLiveMatchNotFound)
      | Some m \<Rightarrow>
          let m1 = m\<lparr>lm_IsSuspended := True, lm_SuspensionReason := reason,
                     lm_LiveMarkets := map (\<lambda>k. k\<lparr>lk_IsSuspended := True, lk_SuspensionReason := reason\<rparr>) (lm_LiveMarkets m)\<rparr> in
          (live_publish (LiveMatchSuspended matchID reason) (put_match matchID m1 S), None))"

text \<open>
  The two nested loops of \<open>UpdateLiveOdds\<close>: the first outcome with the id, in the first market with
  the id that has one. \<open>recordOddsUpdate\<close> does nothing.
\<close>

definition recordOddsUpdate :: "OddsUpdate \<Rightarrow> LiveBettingService \<Rightarrow> LiveBettingService" where
  "recordOddsUpdate u S = S"

fun update_outcomes :: "string \<Rightarrow> decimal \<Rightarrow> time \<Rightarrow> LiveOutcome list \<Rightarrow> LiveOutcome list option" where
  "update_outcomes i odds now [] = None"
| "update_outcomes i odds now (x # xs) =
     (if oc_ID (lo_Outcome x) = i
      then Some (x\<lparr>lo_PreviousOdds := lo_CurrentOdds x, lo_CurrentOdds := odds, lo_OddsChangeTime := now,
                   lo_OddsChangeCount := lo_OddsChangeCount x + 1\<rparr> # xs)
      else map_option ((#) x) (update_outcomes i odds now xs))"

fun update_markets :: "OddsUpdateRequest \<Rightarrow> time \<Rightarrow> time \<Rightarrow> LiveMarket list \<Rightarrow> LiveMarket list option" where
  "update_markets req t1 t2 [] = None"
| "update_markets req t1 t2 (k # ks) =
     (case (if mk_ID (lk_Market k) = oq_MarketID req
            then update_outcomes (oq_OutcomeID req) (oq_NewOdds req) t1 (lk_LiveOdds k) else None) of
        Some xs \<Rightarrow> Some (k\<lparr>lk_LiveOdds := xs, lk_LastOddsUpdate := t2, lk_OddsUpdateCount := lk_OddsUpdateCount k + 1\<rparr> # ks)
      | None \<Rightarrow> map_option ((#) k) (update_markets req t1 t2 ks))"

definition UpdateLiveOdds ::
  "time \<Rightarrow> time \<Rightarrow> LiveBettingService \<Rightarrow> OddsUpdateRequest \<Rightarrow> LiveBettingService \<times> live_error option" where
  "UpdateLiveOdds t1 t2 S req =
     (case map_of (liveMatches S) (oq_MatchID req) of
        None \<Rightarrow> (S, Some ErrLiveMatchNotFound)
      | Some m \<Rightarrow>
          (case update_markets req t1 t2 (lm_LiveMarkets m) of
             None \<Rightarrow> (S, Some ErrMarketOrOutcomeNotFound)
           | Some ks \<Rightarrow>
               (live_publish (LiveOddsUpdated req) (put_match (oq_MatchID req) (m\<lparr>lm_LiveMarkets := ks\<rparr>) S), None)))"

text \<open>The validation of the odds is a stub that accepts everything.\<close>

definition validateLiveOdds :: "string \<Rightarrow> decimal \<Rightarrow> bool" where
  "validateLiveOdds matchID odds = True"

definition generateBetID :: "string \<Rightarrow> string" where
  "generateBetID gid = ''live_'' @ gid"

definition refusal :: "string \<Rightarrow> LiveBetResponse" where
  "refusal msg = \<lparr>lp_Success = False, lp_BetID = '''', lp_Message = msg, lp_Balance = 0, lp_Odds = 0, lp_Amount = 0,
     lp_PotentialWin = 0\<rparr>"

definition PlaceLiveBet ::
  "sql_env \<Rightarrow> (string \<Rightarrow> bool) \<Rightarrow> (nat \<Rightarrow> time) \<Rightarrow> string \<Rightarrow> sports_db \<times> LiveBettingService \<Rightarrow> LiveBetRequest
     \<Rightarrow> (sports_db \<times> LiveBettingService) \<times> LiveBetResponse \<times> sql_error option" where
  "PlaceLiveBet E parses now gid sS req =
     (let (s, S) = sS in
      case map_of (liveMatches S) (lr_MatchID req) of
        None \<Rightarrow> (sS, refusal ''match not found'', None)
      | Some liveMatch \<Rightarrow>
          if lm_IsSuspended liveMatch then (sS, refusal ''match is suspended'', None)
          else if \<not> validateLiveOdds (lr_MatchID req) (lr_Odds req) then (sS, refusal ''invalid odds'', None)
          else if \<not> parses (lr_UserID req) then (sS, refusal ''invalid user ID'', None)
          else
            let bet = \<lparr>sb_ID = generateBetID gid, sb_UserID = lr_UserID req, sb_CountryCode = '''',
                  sb_EventID = lr_MatchID req, sb_MarketID = lr_MarketID req, sb_OutcomeID = lr_OutcomeID req,
                  sb_Amount = lr_Amount req, sb_Odds = lr_Odds req, sb_Currency = ''KES'',
                  sb_Status = BetStatusPending, sb_Payout = 0, sb_NetPayout = 0, sb_SettledAt = None,
                  sb_SettlementReason = '''', sb_PlacedAt = now 0, sb_UpdatedAt = now 1\<rparr> in
            (case SportBetRepository_Create E (now 2) s bet of
               (s1, Inl e) \<Rightarrow> ((s1, S), refusal ''failed to save bet'', Some e)
             | (s1, Inr _) \<Rightarrow>
                 ((s1, live_publish (LiveBetPlaced bet) S),
                  \<lparr>lp_Success = True, lp_BetID = sb_ID bet, lp_Message = ''bet placed successfully'', lp_Balance = 0,
                   lp_Odds = lr_Odds req, lp_Amount = lr_Amount req,
                   lp_PotentialWin = lr_Amount req * lr_Odds req\<rparr>, None)))"

definition live_GetMetrics :: "time \<Rightarrow> LiveBettingService \<Rightarrow> LiveBettingMetrics" where
  "live_GetMetrics now S =
     \<lparr>lx_ActiveMatches = int (length (filter (\<lambda>m. \<not> lm_IsSuspended m) (map snd (liveMatches S)))),
      lx_TotalBets = 0, lx_TotalVolume = 0, lx_AverageBetSize = 0, lx_LastUpdated = zero_time,
      lx_TotalMatches = int (length (liveMatches S)),
      lx_SuspendedMatches = int (length (filter lm_IsSuspended (map snd (liveMatches S)))),
      lx_OddsUpdateInterval = oddsUpdateInterval S, lx_LastActivity = now\<rparr>"

section \<open>One outcome changes\<close>

lemma update_outcomes_Some:
  "update_outcomes i odds now xs = Some ys \<Longrightarrow>
     \<exists>us x vs. xs = us @ x # vs \<and> oc_ID (lo_Outcome x) = i \<and> (\<forall>u \<in> set us. oc_ID (lo_Outcome u) \<noteq> i) \<and>
       ys = us @ x\<lparr>lo_PreviousOdds := lo_CurrentOdds x, lo_CurrentOdds := odds, lo_OddsChangeTime := now,
                   lo_OddsChangeCount := lo_OddsChangeCount x + 1\<rparr> # vs"
proof (induction i odds now xs arbitrary: ys rule: update_outcomes.induct)
  case (2 i odds now x xs)
  show ?case
  proof (cases "oc_ID (lo_Outcome x) = i")
    case True
    with 2(2) show ?thesis by (intro exI [of _ "[]"]) auto
  next
    case False
    with 2 obtain us y vs where "xs = us @ y # vs" "oc_ID (lo_Outcome y) = i" "\<forall>u \<in> set us. oc_ID (lo_Outcome u) \<noteq> i"
      "ys = x # us @ y\<lparr>lo_PreviousOdds := lo_CurrentOdds y, lo_CurrentOdds := odds, lo_OddsChangeTime := now,
                   lo_OddsChangeCount := lo_OddsChangeCount y + 1\<rparr> # vs" by force
    with False show ?thesis by (intro exI [of _ "x # us"] exI [of _ y] exI [of _ vs]) simp
  qed
qed simp

lemma update_markets_Some:
  "update_markets req t1 t2 ks = Some ks' \<Longrightarrow>
     \<exists>us k vs xs. ks = us @ k # vs \<and> mk_ID (lk_Market k) = oq_MarketID req \<and>
       update_outcomes (oq_OutcomeID req) (oq_NewOdds req) t1 (lk_LiveOdds k) = Some xs \<and>
       ks' = us @ k\<lparr>lk_LiveOdds := xs, lk_LastOddsUpdate := t2, lk_OddsUpdateCount := lk_OddsUpdateCount k + 1\<rparr> # vs"
proof (induction req t1 t2 ks arbitrary: ks' rule: update_markets.induct)
  case (2 req t1 t2 k ks)
  show ?case
  proof (cases "if mk_ID (lk_Market k) = oq_MarketID req
            then update_outcomes (oq_OutcomeID req) (oq_NewOdds req) t1 (lk_LiveOdds k) else None")
    case None
    with 2(2) obtain ks1 where ks1: "update_markets req t1 t2 ks = Some ks1" "ks' = k # ks1" by auto
    from 2(1) [OF None ks1(1)] obtain us k' vs xs where "ks = us @ k' # vs" "mk_ID (lk_Market k') = oq_MarketID req"
      "update_outcomes (oq_OutcomeID req) (oq_NewOdds req) t1 (lk_LiveOdds k') = Some xs"
      "ks1 = us @ k'\<lparr>lk_LiveOdds := xs, lk_LastOddsUpdate := t2, lk_OddsUpdateCount := lk_OddsUpdateCount k' + 1\<rparr> # vs"
      by blast
    with ks1 show ?thesis by (intro exI [of _ "k # us"] exI [of _ k'] exI [of _ vs] exI [of _ xs]) simp
  next
    case (Some xs)
    with 2(2) have "mk_ID (lk_Market k) = oq_MarketID req"
      "update_outcomes (oq_OutcomeID req) (oq_NewOdds req) t1 (lk_LiveOdds k) = Some xs"
      "k # ks = [] @ k # ks"
      "ks' = [] @ k\<lparr>lk_LiveOdds := xs, lk_LastOddsUpdate := t2, lk_OddsUpdateCount := lk_OddsUpdateCount k + 1\<rparr> # ks"
      by (auto split: if_splits)
    then show ?thesis by blast
  qed
qed simp

lemma map_of_put_match:
  "map_of (liveMatches (put_match i m S)) = (if i \<in> dom (map_of (liveMatches S)) then (map_of (liveMatches S))(i \<mapsto> m) else map_of (liveMatches S))"
proof -
  have "map_of (map (\<lambda>(k, v). if k = i then (k, m) else (k, v)) xs) =
      (\<lambda>k. if k = i then map_option (\<lambda>_. m) (map_of xs k) else map_of xs k)" for xs :: "(string \<times> LiveMatch) list"
    by (induction xs) auto
  then show ?thesis by (cases "map_of (liveMatches S) i") (auto simp: put_match_def fun_eq_iff)
qed

lemma live_publish_matches [simp]: "liveMatches (live_publish e S) = liveMatches S"
  by (simp add: live_publish_def)

section \<open>Properties\<close>

text \<open>An odds update changes one outcome. A successful update sets the odds of the first outcome with
  the requested id, in a market with the requested id, remembers the odds it replaces and counts the
  change; every other outcome, market and match is untouched.\<close>

theorem UpdateLiveOdds_one_outcome:
  assumes "map_of (liveMatches S) (oq_MatchID req) = Some m" "UpdateLiveOdds t1 t2 S req = (S', None)"
  shows "\<exists>ks k ks' us x vs.
    lm_LiveMarkets m = ks @ k # ks' \<and> mk_ID (lk_Market k) = oq_MarketID req \<and>
    lk_LiveOdds k = us @ x # vs \<and> oc_ID (lo_Outcome x) = oq_OutcomeID req \<and>
    map_of (liveMatches S') = (map_of (liveMatches S))(oq_MatchID req \<mapsto> m\<lparr>lm_LiveMarkets := ks @
      k\<lparr>lk_LiveOdds := us @ x\<lparr>lo_PreviousOdds := lo_CurrentOdds x, lo_CurrentOdds := oq_NewOdds req,
          lo_OddsChangeTime := t1, lo_OddsChangeCount := lo_OddsChangeCount x + 1\<rparr> # vs,
        lk_LastOddsUpdate := t2, lk_OddsUpdateCount := lk_OddsUpdateCount k + 1\<rparr> # ks'\<rparr>)"
proof -
  from assms obtain K where K: "update_markets req t1 t2 (lm_LiveMarkets m) = Some K"
    and S': "S' = live_publish (LiveOddsUpdated req) (put_match (oq_MatchID req) (m\<lparr>lm_LiveMarkets := K\<rparr>) S)"
    by (auto simp: UpdateLiveOdds_def split: option.splits)
  from update_markets_Some [OF K] obtain ks k ks' xs where k: "lm_LiveMarkets m = ks @ k # ks'"
    "mk_ID (lk_Market k) = oq_MarketID req"
    "update_outcomes (oq_OutcomeID req) (oq_NewOdds req) t1 (lk_LiveOdds k) = Some xs"
    "K = ks @ k\<lparr>lk_LiveOdds := xs, lk_LastOddsUpdate := t2, lk_OddsUpdateCount := lk_OddsUpdateCount k + 1\<rparr> # ks'" by blast
  from update_outcomes_Some [OF k(3)] obtain us x vs where x: "lk_LiveOdds k = us @ x # vs"
    "oc_ID (lo_Outcome x) = oq_OutcomeID req"
    "xs = us @ x\<lparr>lo_PreviousOdds := lo_CurrentOdds x, lo_CurrentOdds := oq_NewOdds req, lo_OddsChangeTime := t1,
                   lo_OddsChangeCount := lo_OddsChangeCount x + 1\<rparr> # vs" by blast
  have "map_of (liveMatches S') = (map_of (liveMatches S))(oq_MatchID req \<mapsto> m\<lparr>lm_LiveMarkets := K\<rparr>)"
    using assms(1) by (simp add: S' map_of_put_match dom_def)
  with k(1,2) x(1,2) show ?thesis unfolding k(4) x(3) by blast
qed

text \<open>A suspended match takes no bets. After a successful suspension every market of the match is
  suspended and every bet on it is refused with that message, whatever its odds and amount; nothing is
  stored.\<close>

theorem SuspendMatch_stops_bets:
  assumes "SuspendMatch S i reason = (S', None)" "lr_MatchID req = i"
  shows "(\<exists>m. map_of (liveMatches S') i = Some m \<and> lm_IsSuspended m \<and> (\<forall>k \<in> set (lm_LiveMarkets m). lk_IsSuspended k)) \<and>
    PlaceLiveBet E parses now gid (s, S') req = ((s, S'), refusal ''match is suspended'', None)"
proof -
  from assms(1) obtain m where m: "map_of (liveMatches S) i = Some m"
    and S': "S' = live_publish (LiveMatchSuspended i reason) (put_match i (m\<lparr>lm_IsSuspended := True, lm_SuspensionReason := reason,
       lm_LiveMarkets := map (\<lambda>k. k\<lparr>lk_IsSuspended := True, lk_SuspensionReason := reason\<rparr>) (lm_LiveMarkets m)\<rparr>) S)"
    by (auto simp: SuspendMatch_def Let_def split: option.splits)
  then show ?thesis using assms(2) by (simp add: map_of_put_match dom_def PlaceLiveBet_def)
qed

section \<open>A small cache\<close>

definition sample_live :: LiveBettingService where
  "sample_live = NewLiveBettingService\<lparr>liveMatches := [(''E'', \<lparr>lm_Match = \<lparr>match_ID = ''E'', match_Sport = ''FOOTBALL'',
       match_League = '''', match_HomeTeam = ''A'', match_AwayTeam = ''B'', match_StartTime = 0, match_Status = ''LIVE'',
       match_Score = None, match_Markets = [], match_CountryCode = '''', match_UpdatedAt = 0\<rparr>,
     lm_CurrentMinute = 1, lm_HomeScore = 0, lm_AwayScore = 0, lm_HomePossession = 0, lm_AwayPossession = 0,
     lm_HomeCorners = 0, lm_AwayCorners = 0, lm_HomeYellowCards = 0, lm_AwayYellowCards = 0, lm_HomeRedCards = 0,
     lm_AwayRedCards = 0,
     lm_LiveMarkets = [\<lparr>lk_Market = \<lparr>mk_ID = ''M'', mk_MatchID = ''E'', mk_Type = ''1X2'', mk_Name = ''1X2'',
         mk_Outcomes = [], mk_Status = MarketStatusOpen, mk_SuspendedAt = None\<rparr>, lk_IsLive = True,
       lk_LiveOdds = [\<lparr>lo_Outcome = \<lparr>oc_ID = ''O'', oc_MarketID = ''M'', oc_Name = ''1'', oc_Odds = 2, oc_Price = 2,
           oc_Status = OutcomeStatusPending\<rparr>, lo_CurrentOdds = 2, lo_PreviousOdds = 2, lo_OddsChangeTime = 0,
         lo_OddsChangeCount = 0, lo_TotalVolume = 0, lo_LiveVolume = 0\<rparr>],
       lk_LastOddsUpdate = 0, lk_OddsUpdateCount = 0, lk_IsSuspended = False, lk_SuspensionReason = ''''\<rparr>],
     lm_LastUpdated = 0, lm_NextOddsUpdate = 0, lm_IsSuspended = False, lm_SuspensionReason = ''''\<rparr>)]\<rparr>"

definition sample_update :: OddsUpdateRequest where
  "sample_update = \<lparr>oq_MatchID = ''E'', oq_MarketID = ''M'', oq_OutcomeID = ''O'', oq_NewOdds = 3, oq_Markets = [],
     oq_MatchOdds = None\<rparr>"

definition sample_live_bet :: LiveBetRequest where
  "sample_live_bet = \<lparr>lr_MatchID = ''E'', lr_MarketID = ''M'', lr_OutcomeID = ''O'', lr_Amount = 10, lr_Odds = 50,
     lr_UserID = ''U''\<rparr>"

theorem UpdateLiveOdds_one_outcome_witness:
  "\<exists>x m. map_of (liveMatches (fst (UpdateLiveOdds 5 6 sample_live sample_update))) ''E'' = Some m \<and>
     x \<in> \<Union> (set (map (\<lambda>k. set (lk_LiveOdds k)) (lm_LiveMarkets m))) \<and> lo_CurrentOdds x = 3"
proof -
  obtain m where m: "map_of (liveMatches sample_live) (oq_MatchID sample_update) = Some m"
    by (simp add: sample_live_def sample_update_def)
  have "snd (UpdateLiveOdds 5 6 sample_live sample_update) = None" by code_simp
  then have u: "UpdateLiveOdds 5 6 sample_live sample_update = (fst (UpdateLiveOdds 5 6 sample_live sample_update), None)"
    by (simp add: prod_eq_iff)
  show ?thesis using UpdateLiveOdds_one_outcome [OF m u]
    by (elim exE conjE) (force simp: sample_update_def)
qed

theorem SuspendMatch_stops_bets_witness:
  "PlaceLiveBet sample_env (\<lambda>_. True) (\<lambda>_. 0) ''id'' (sample_sports, fst (SuspendMatch sample_live ''E'' ''VAR'')) sample_live_bet =
     ((sample_sports, fst (SuspendMatch sample_live ''E'' ''VAR'')), refusal ''match is suspended'', None)"
proof -
  have "snd (SuspendMatch sample_live ''E'' ''VAR'') = None" by code_simp
  then have "SuspendMatch sample_live ''E'' ''VAR'' = (fst (SuspendMatch sample_live ''E'' ''VAR''), None)"
    by (simp add: prod_eq_iff)
  from SuspendMatch_stops_bets [OF this, of sample_live_bet] show ?thesis by (simp add: sample_live_bet_def)
qed

text \<open>
  Neither the odds nor the suspension of a market is looked at: a bet at 50 on an outcome offered at 2,
  in a market that is suspended on its own, is accepted.
\<close>

lemma live_bet_any_odds:
  "lp_Success (fst (snd (PlaceLiveBet sample_env (\<lambda>_. True) (\<lambda>_. 0) ''id'' (sample_sports, sample_live\<lparr>liveMatches :=
     map (\<lambda>(i, m). (i, m\<lparr>lm_LiveMarkets := map (\<lambda>k. k\<lparr>lk_IsSuspended := True\<rparr>) (lm_LiveMarkets m)\<rparr>))
       (liveMatches sample_live)\<rparr>) sample_live_bet)))"
  by code_simp

text \<open>The cache starts empty and no operation adds a match to it.\<close>

lemma live_cache_never_grows:
  "map fst (liveMatches (fst (SuspendMatch S i reason))) = map fst (liveMatches S)"
  "map fst (liveMatches (fst (UpdateLiveOdds t1 t2 S req))) = map fst (liveMatches S)"
  "map fst (liveMatches (snd (fst (PlaceLiveBet E parses now gid (s, S) breq)))) = map fst (liveMatches S)"
proof -
  have keys: "map fst (liveMatches (put_match i m S)) = map fst (liveMatches S)" for i m
    by (induction "liveMatches S" arbitrary: S) (auto simp: put_match_def)
  show "map fst (liveMatches (fst (SuspendMatch S i reason))) = map fst (liveMatches S)"
    "map fst (liveMatches (fst (UpdateLiveOdds t1 t2 S req))) = map fst (liveMatches S)"
    by (auto simp: SuspendMatch_def UpdateLiveOdds_def Let_def keys split: option.splits)
  show "map fst (liveMatches (snd (fst (PlaceLiveBet E parses now gid (s, S) breq)))) = map fst (liveMatches S)"
    by (auto simp: PlaceLiveBet_def Let_def split: option.splits prod.splits sum.splits)
qed

end
