(* ===== verification/Calendar.thy ===== *)
theory Calendar
  imports Snowflake
begin

text \<open>
  Dates of the standard library over the calendar of \<open>Snowflake\<close>, shared by the licence checks and
  responsible gaming. \<open>off\<close> is a time zone: the seconds east of UTC at a Unix second.
\<close>

section \<open>Dates\<close>

abbreviation Day :: duration where "Day \<equiv> 24 * Hour"

text \<open>The seconds a wall clock in the zone shows, counted as if it were UTC, and the way back.\<close>

definition wall :: "(int \<Rightarrow> int) \<Rightarrow> time \<Rightarrow> int" where
  "wall off t = t div Second + off (t div Second)"

definition from_wall :: "(int \<Rightarrow> int) \<Rightarrow> int \<Rightarrow> int \<Rightarrow> time" where
  "from_wall off w ns = (if off w = 0 then w else w - off (w - off w)) * Second + ns"

definition civil :: "int \<Rightarrow> int \<times> nat \<times> int" where
  "civil w =
     (let (y, yd) = year_yday (w div 86400 + epoch_days);
          (m, d) = month_day (months y) 1 yd
      in (y, m, d))"

text \<open>Days from 1 January of year 1 to the first day of a month.\<close>

definition days_before :: "int \<Rightarrow> nat \<Rightarrow> int" where
  "days_before y m =
     365 * (y - 1) + (y - 1) div 4 - (y - 1) div 100 + (y - 1) div 400
       + sum_list (take (m - 1) (months y))"

text \<open>1 January of year 1 was a Monday; Sunday is 0.\<close>

definition weekday :: "int \<Rightarrow> int" where
  "weekday w = (w div 86400 + epoch_days + 1) mod 7"

text \<open>\<open>AddDate(0, 0, n)\<close> keeps the wall clock's time of day.\<close>

definition add_days :: "(int \<Rightarrow> int) \<Rightarrow> time \<Rightarrow> int \<Rightarrow> time" where
  "add_days off t n = from_wall off (wall off t + n * 86400) (t mod Second)"

definition month_start :: "(int \<Rightarrow> int) \<Rightarrow> time \<Rightarrow> time" where
  "month_start off t =
     (let (y, m, d) = civil (wall off t)
      in from_wall off ((days_before y m - epoch_days) * 86400) 0)"

text \<open>The day count of a date is the day count the date was computed from.\<close>

lemma days_before_civil:
  assumes "civil w = (y, m, d)"
  shows "days_before y m + d - 1 = w div 86400 + epoch_days"
proof -
  let ?D = "w div 86400 + epoch_days"
  obtain a b c e where p: "?D = 146097 * a + 36524 * b + 1461 * c + 365 * e + snd (year_yday ?D)"
    "fst (year_yday ?D) = 400 * a + 100 * b + 4 * c + e + 1"
    "0 \<le> b" "b \<le> 3" "0 \<le> c" "c \<le> 24" "0 \<le> e" "e \<le> 3"
    by (rule year_yday_parts [of ?D]) blast
  have y: "y = fst (year_yday ?D)" and md: "month_day (months y) 1 (snd (year_yday ?D)) = (m, d)"
    using assms by (auto simp: civil_def split: prod.splits)
  have "snd (year_yday ?D) = sum_list (take (m - 1) (months y)) + d - 1"
    using month_day_inverse [of "months y" 1 "snd (year_yday ?D)"] md by (simp add: yday_of_def)
  moreover have "y - 1 = 400 * a + 100 * b + 4 * c + e" using y p(2) by simp
  then have "(y - 1) div 4 = 100 * a + 25 * b + c" "(y - 1) div 100 = 4 * a + b" "(y - 1) div 400 = a"
    using p(3-8) by linarith+
  ultimately show ?thesis
    using p(1) \<open>y - 1 = 400 * a + 100 * b + 4 * c + e\<close> by (simp add: days_before_def)
qed

text \<open>In a fixed zone the month starts at midnight of its first day.\<close>

lemma month_start_day:
  assumes "civil (wall (\<lambda>_. z) t) = (y, m, d)"
  shows "month_start (\<lambda>_. z) t = (wall (\<lambda>_. z) t div 86400 * 86400 - (d - 1) * 86400 - z) * Second"
proof -
  have "(days_before y m - epoch_days) * 86400 = wall (\<lambda>_. z) t div 86400 * 86400 - (d - 1) * 86400"
    using days_before_civil [OF assms] by (simp add: algebra_simps)
  then show ?thesis using assms by (auto simp: month_start_def from_wall_def Let_def)
qed

text \<open>
  \<open>AddDate\<close>: years and months are added to the fields of the date, months above December carry into the
  year, and days beyond the end of the month run on into the next.
\<close>

definition AddDate :: "(int \<Rightarrow> int) \<Rightarrow> time \<Rightarrow> int \<Rightarrow> int \<Rightarrow> int \<Rightarrow> time" where
  "AddDate off t years mons days =
     (let (y, m, d) = civil (wall off t);
          m0 = int m - 1 + mons;
          first = days_before (y + years + m0 div 12) (nat (m0 mod 12) + 1)
      in from_wall off ((first + d - 1 + days - epoch_days) * 86400 + wall off t mod 86400) (t mod Second))"

section \<open>How far a date moves\<close>

lemma from_wall_fixed [simp]: "from_wall (\<lambda>_. z) w ns = (w - z) * Second + ns"
  by (simp add: from_wall_def)

lemma AddDate_fixed_zone:
  assumes "civil (wall (\<lambda>_. z) t) = (y, m, d)"
  shows "AddDate (\<lambda>_. z) t years mons days =
    t + (days_before (y + years + (int m - 1 + mons) div 12) (nat ((int m - 1 + mons) mod 12) + 1) - days_before y m + days) * Day"
proof -
  let ?w = "wall (\<lambda>_. z) t" and ?f = "days_before (y + years + (int m - 1 + mons) div 12) (nat ((int m - 1 + mons) mod 12) + 1)"
  have d: "d - 1 - epoch_days = ?w div 86400 - days_before y m" using days_before_civil [OF assms] by simp
  have "?f + d - 1 + days - epoch_days = (?f - days_before y m + days) + ?w div 86400" using d by simp
  then have "(?f + d - 1 + days - epoch_days) * 86400 + ?w mod 86400 = (?f - days_before y m + days) * 86400 + (?w div 86400 * 86400 + ?w mod 86400)"
    by (simp only: distrib_right add.assoc)
  also have "?w div 86400 * 86400 + ?w mod 86400 = t div Second + z" by (simp add: wall_def)
  finally have "AddDate (\<lambda>_. z) t years mons days = ((?f - days_before y m + days) * 86400 + (t div Second + z) - z) * Second + t mod Second"
    using assms by (simp only: AddDate_def from_wall_fixed Let_def prod.case)
  also have "\<dots> = (?f - days_before y m + days) * Day + (t div Second * Second + t mod Second)" by (simp add: algebra_simps)
  finally show ?thesis by simp
qed

lemma civil_month:
  assumes "civil w = (y, m, d)" shows "1 \<le> m" "m \<le> 12"
proof -
  obtain y' yd where y: "year_yday (w div 86400 + epoch_days) = (y', yd)" by force
  have "fst (month_day (months y') 1 yd) < 1 + length (months y')"
    using month_day_bounds [of yd "months y'" 1] year_yday_in_months [OF y] by (simp add: months_def)
  then show "1 \<le> m" "m \<le> 12" using assms y month_day_from [of 1 "months y'" yd]
    by (auto simp: civil_def months_def split: prod.splits)
qed

text \<open>Leap days between two years.\<close>

definition leap_days :: "int \<Rightarrow> int" where
  "leap_days y = (y - 1) div 4 - (y - 1) div 100 + (y - 1) div 400"

lemma div_step:
  fixes k y :: int
  assumes "0 < k"
  shows "y div k = (y - 1) div k + (if y mod k = 0 then 1 else 0)"
proof -
  have "(y - 1) div k = (y mod k - 1 + y div k * k) div k" by (simp add: algebra_simps)
  also have "\<dots> = y div k + (y mod k - 1) div k" using assms by (subst div_mult_self1) simp_all
  finally have e: "(y - 1) div k = y div k + (y mod k - 1) div k" .
  have m: "0 \<le> y mod k" "y mod k < k" using assms by simp_all
  show ?thesis
  proof (cases "y mod k = 0")
    case True
    then show ?thesis using e assms by (simp add: div_eq_minus1)
  next
    case False
    then have "(y mod k - 1) div k = 0" using m by (intro div_pos_pos_trivial) linarith+
    then show ?thesis using e False by simp
  qed
qed

lemma leap_days_Suc: "leap_days (y + 1) = leap_days y + (if is_leap y then 1 else 0)"
proof -
  have h: "y mod 400 = 0 \<Longrightarrow> y mod 100 = 0" "y mod 100 = 0 \<Longrightarrow> y mod 4 = 0"
    using dvd_trans [of "100 :: int" 400 y] dvd_trans [of "4 :: int" 100 y] by (simp_all add: mod_eq_0_iff_dvd)
  define a b c where "a = (y - 1) div 4" and "b = (y - 1) div 100" and "c = (y - 1) div 400"
  have "y div 4 = a + (if y mod 4 = 0 then 1 else 0)" "y div 100 = b + (if y mod 100 = 0 then 1 else 0)"
    "y div 400 = c + (if y mod 400 = 0 then 1 else 0)"
    unfolding a_def b_def c_def by (rule div_step; simp)+
  moreover have "leap_days (y + 1) = y div 4 - y div 100 + y div 400" by (simp add: leap_days_def)
  moreover have "leap_days y = a - b + c" by (simp add: leap_days_def a_def b_def c_def)
  moreover have cases: "(if P then 1 else 0) - (if Q then 1 else 0) + (if R then 1 else 0) = (if P \<and> (\<not> Q \<or> R) then 1 else (0 :: int))"
    if "R \<Longrightarrow> Q" "Q \<Longrightarrow> P" for P Q R
    using that by (cases P; cases Q; cases R) simp_all
  ultimately have "leap_days (y + 1) - leap_days y =
      (if y mod 4 = 0 then 1 else 0) - (if y mod 100 = 0 then 1 else 0) + (if y mod 400 = 0 then 1 else 0)" by linarith
  also have "\<dots> = (if is_leap y then 1 else 0)"
    unfolding is_leap_def using h by (intro cases) blast+
  finally show ?thesis by simp
qed

lemma leap_days_add: "leap_days y \<le> leap_days (y + int k) \<and> leap_days (y + int k) \<le> leap_days y + int k"
proof (induction k)
  case (Suc k)
  have "leap_days (y + int (Suc k)) = leap_days (y + int k) + (if is_leap (y + int k) then 1 else 0)"
    using leap_days_Suc [of "y + int k"] by (simp add: algebra_simps)
  then show ?case using Suc by (auto split: if_splits)
qed simp

lemma month_numbers: "1 \<le> m \<Longrightarrow> m \<le> 12 \<Longrightarrow> m \<in> {1, 2, 3, 4, 5, 6, 7, 8, 9, 10, 11, 12 :: nat}"
  unfolding insert_iff empty_iff by presburger

lemma days_before_leap:
  assumes "1 \<le> m" "m \<le> 12"
  shows "days_before y m = 365 * (y - 1) + leap_days (if m \<le> 2 then y else y + 1)
    + sum_list (take (m - 1) [31, 28, 31, 30, 31, 30, 31, 31, 30, 31, 30, 31])"
proof -
  have "m \<in> {1, 2, 3, 4, 5, 6, 7, 8, 9, 10, 11, 12}" by (rule month_numbers [OF assms])
  then have s: "sum_list (take (m - 1) (months y)) =
      (if 2 < m \<and> is_leap y then 1 else 0) + sum_list (take (m - 1) [31, 28, 31, 30, 31, 30, 31, 31, 30, 31, 30, 31])"
    by (elim insertE) (simp_all add: months_def numeral_eq_Suc)
  have "days_before y m = 365 * (y - 1) + leap_days y + sum_list (take (m - 1) (months y))"
    by (simp add: days_before_def leap_days_def)
  then show ?thesis using leap_days_Suc [of y] s by auto
qed

lemma month_starts:
  "days_before y (Suc 0) = 365 * (y - 1) + leap_days y"
  "days_before y (Suc (Suc 0)) = 365 * (y - 1) + leap_days y + 31"
  "days_before y 2 = 365 * (y - 1) + leap_days y + 31"
  "days_before y 3 = 365 * (y - 1) + leap_days (y + 1) + 59"
  "days_before y 4 = 365 * (y - 1) + leap_days (y + 1) + 90"
  "days_before y 5 = 365 * (y - 1) + leap_days (y + 1) + 120"
  "days_before y 6 = 365 * (y - 1) + leap_days (y + 1) + 151"
  "days_before y 7 = 365 * (y - 1) + leap_days (y + 1) + 181"
  "days_before y 8 = 365 * (y - 1) + leap_days (y + 1) + 212"
  "days_before y 9 = 365 * (y - 1) + leap_days (y + 1) + 243"
  "days_before y 10 = 365 * (y - 1) + leap_days (y + 1) + 273"
  "days_before y 11 = 365 * (y - 1) + leap_days (y + 1) + 304"
  "days_before y 12 = 365 * (y - 1) + leap_days (y + 1) + 334"
  by (simp_all add: days_before_leap numeral_eq_Suc)

text \<open>Whole years are 365 or 366 days each, half a year is 181 to 184 days.\<close>

lemma years_apart:
  assumes "1 \<le> m" "m \<le> 12"
  shows "365 * int k \<le> days_before (y + int k) m - days_before y m"
    and "days_before (y + int k) m - days_before y m \<le> 366 * int k"
  using leap_days_add [of y k] leap_days_add [of "y + 1" k]
  by (auto simp: days_before_leap [OF assms] algebra_simps)

lemma half_year_apart:
  assumes "1 \<le> m" "m \<le> 12"
  shows "181 \<le> days_before (y + (int m + 5) div 12) (nat ((int m + 5) mod 12) + 1) - days_before y m"
    and "days_before (y + (int m + 5) div 12) (nat ((int m + 5) mod 12) + 1) - days_before y m \<le> 184"
proof -
  have l: "leap_days y \<le> leap_days (y + 1)" "leap_days (y + 1) \<le> leap_days y + 1" using leap_days_Suc [of y] by auto
  have "leap_days (y + 2) = leap_days (y + 1) + (if is_leap (y + 1) then 1 else 0)"
    using leap_days_Suc [of "y + 1"] by (simp add: add.assoc)
  then have l2: "leap_days (y + 1) \<le> leap_days (y + 2)" "leap_days (y + 2) \<le> leap_days (y + 1) + 1" by auto
  have "m \<in> {1, 2, 3, 4, 5, 6, 7, 8, 9, 10, 11, 12}" by (rule month_numbers [OF assms])
  then have "181 \<le> days_before (y + (int m + 5) div 12) (nat ((int m + 5) mod 12) + 1) - days_before y m \<and>
    days_before (y + (int m + 5) div 12) (nat ((int m + 5) mod 12) + 1) - days_before y m \<le> 184"
    by (elim insertE emptyE) (use l l2 in \<open>simp_all add: month_starts add.commute [of _ y]\<close>)
  then show "181 \<le> days_before (y + (int m + 5) div 12) (nat ((int m + 5) mod 12) + 1) - days_before y m"
    "days_before (y + (int m + 5) div 12) (nat ((int m + 5) mod 12) + 1) - days_before y m \<le> 184" by blast+
qed

end
