(* ===== verification/Compliance.thy ===== *)
theory Compliance
  imports Calendar
begin

text \<open>
  \<open>internal/compliance/bclb\<close>: the checks of the Kenyan betting licence. The service decides from
  what four repositories answer; no code of the repository implements them, so they are the
  fields of \<open>bclb_ports\<close> over a state \<open>'s\<close>. A read is \<open>None\<close> when the method returns an
  error. The license expiry and the settings on self-exclusion are never read by the code.
  Every place that reads \<open>time.Now()\<close> has a name in \<open>reading\<close>, and the clock is a
  function of it. \<open>off\<close> is the local time zone.
\<close>

section \<open>Types\<close>

record BCLBConfig =
  LicenseNumber :: string
  LicenseExpiry :: time
  MaxDailyStake :: decimal
  MaxWeeklyStake :: decimal
  MaxMonthlyStake :: decimal
  MinAge :: int
  MaxBetPerEvent :: decimal
  MaxAccumulatorBets :: int
  RequiredKYCLevel :: string
  SelfExclusionMinDays :: int
  ResponsibleGamingEnabled :: bool

datatype ViolationSeverity = ViolationSeverityLow | ViolationSeverityMedium
  | ViolationSeverityHigh | ViolationSeverityCritical

text \<open>The severities, from the least to the most severe.\<close>

fun severity_rank :: "ViolationSeverity \<Rightarrow> nat" where
  "severity_rank ViolationSeverityLow = 0"
| "severity_rank ViolationSeverityMedium = 1"
| "severity_rank ViolationSeverityHigh = 2"
| "severity_rank ViolationSeverityCritical = 3"

instantiation ViolationSeverity :: linorder
begin

definition less_eq_ViolationSeverity :: "ViolationSeverity \<Rightarrow> ViolationSeverity \<Rightarrow> bool" where
  "less_eq_ViolationSeverity a b \<longleftrightarrow> severity_rank a \<le> severity_rank b"

definition less_ViolationSeverity :: "ViolationSeverity \<Rightarrow> ViolationSeverity \<Rightarrow> bool" where
  "less_ViolationSeverity a b \<longleftrightarrow> severity_rank a < severity_rank b"

instance
proof
  fix a b :: ViolationSeverity
  assume "a \<le> b" "b \<le> a"
  then show "a = b" by (cases a; cases b) (simp_all add: less_eq_ViolationSeverity_def)
qed (auto simp: less_eq_ViolationSeverity_def less_ViolationSeverity_def)

end

record ComplianceViolation =
  cv_Type :: string
  cv_Description :: string
  cv_Severity :: ViolationSeverity
  cv_Amount :: decimal
  cv_Limit :: decimal
  cv_Action :: string

record ComplianceCheck =
  cc_Passed :: bool
  cc_Violations :: "ComplianceViolation list"
  cc_Warnings :: "string list"
  cc_CheckTime :: time
  cc_CheckType :: string
  cc_UserID :: string
  cc_TransactionID :: string
  cc_BetID :: string

record UserLimits =
  ul_UserID :: string
  ul_DailyLimit :: decimal
  ul_WeeklyLimit :: decimal
  ul_MonthlyLimit :: decimal
  ul_MaxBetSize :: decimal
  ul_AccumulatorLimit :: int
  ul_CoolingOffPeriod :: duration
  ul_SelfExcluded :: bool
  ul_SelfExclusionEnd :: "time option"
  ul_LastUpdated :: time

text \<open>A \<open>time.Time\<close> read from a repository brings its own zone: the seconds east of UTC.\<close>

record BclbUser =
  bu_ID :: string
  bu_Username :: string
  bu_Email :: string
  bu_DateOfBirth :: "time \<times> int"
  bu_Status :: string
  bu_CreatedAt :: time
  bu_UpdatedAt :: time

record AgeVerification =
  av_UserID :: string
  av_Verified :: bool
  av_Method :: string
  av_VerifiedAt :: time
  av_ExpiresAt :: time
  av_DocumentID :: string

record KYCStatus =
  ks_UserID :: string
  ks_Status :: string
  ks_Level :: string
  ks_VerifiedAt :: time
  ks_Documents :: "string list"
  ks_LastUpdated :: time

record SelfExclusion =
  se_UserID :: string
  se_Active :: bool
  se_StartDate :: time
  se_EndDate :: time
  se_Duration :: string
  se_Reason :: string
  se_CreatedAt :: time
  se_ModifiedAt :: time

datatype bclb_event =
    CheckEvent ComplianceCheck
  | LimitsUpdated string UserLimits
  | SelfExclusionSet string duration time string
  | SelfExclusionRemoved string

datatype reading = CheckTime | LimitsTime | DailyTime | WeeklyTime | MonthlyTime
  | ExpiryTime | AgeTime | ExclusionTime

type_synonym clock = "reading \<Rightarrow> time"

record 's bclb_ports =
  b_GetUser :: "'s \<Rightarrow> string \<Rightarrow> BclbUser option"
  b_GetUserAgeVerification :: "'s \<Rightarrow> string \<Rightarrow> AgeVerification option"
  b_GetUserKYCStatus :: "'s \<Rightarrow> string \<Rightarrow> KYCStatus option"
  b_GetUserSelfExclusion :: "'s \<Rightarrow> string \<Rightarrow> SelfExclusion option"
  b_UpdateSelfExclusion :: "'s \<Rightarrow> string \<Rightarrow> time \<Rightarrow> string \<Rightarrow> 's \<times> bool"
  b_GetUserDailyStake :: "'s \<Rightarrow> string \<Rightarrow> time \<Rightarrow> decimal option"
  b_GetUserWeeklyStake :: "'s \<Rightarrow> string \<Rightarrow> time \<Rightarrow> decimal option"
  b_GetUserMonthlyStake :: "'s \<Rightarrow> string \<Rightarrow> time \<Rightarrow> decimal option"
  b_IsUserInCoolingOffPeriod :: "'s \<Rightarrow> string \<Rightarrow> bool option"
  b_IsSuspiciousTransaction :: "'s \<Rightarrow> string \<Rightarrow> decimal \<Rightarrow> string \<Rightarrow> bool option"
  b_ExceedsTransactionFrequency :: "'s \<Rightarrow> string \<Rightarrow> int \<Rightarrow> duration \<Rightarrow> bool option"
  b_Publish :: "('s \<Rightarrow> string \<Rightarrow> bclb_event \<Rightarrow> 's \<times> bool) option"

section \<open>Helpers\<close>

definition getUserLimits :: "'s bclb_ports \<Rightarrow> BCLBConfig \<Rightarrow> clock \<Rightarrow> 's \<Rightarrow> string \<Rightarrow> UserLimits" where
  "getUserLimits P cfg now s userID =
     (case b_GetUser P s userID of
        None \<Rightarrow>
          \<lparr>ul_UserID = userID, ul_DailyLimit = MaxDailyStake cfg, ul_WeeklyLimit = MaxWeeklyStake cfg,
           ul_MonthlyLimit = MaxMonthlyStake cfg, ul_MaxBetSize = MaxBetPerEvent cfg,
           ul_AccumulatorLimit = 0, ul_CoolingOffPeriod = 0, ul_SelfExcluded = False, ul_SelfExclusionEnd = None,
           ul_LastUpdated = now LimitsTime\<rparr>
      | Some user \<Rightarrow>
          \<lparr>ul_UserID = userID, ul_DailyLimit = MaxDailyStake cfg, ul_WeeklyLimit = MaxWeeklyStake cfg,
           ul_MonthlyLimit = MaxMonthlyStake cfg, ul_MaxBetSize = MaxBetPerEvent cfg,
           ul_AccumulatorLimit = 0, ul_CoolingOffPeriod = 0, ul_SelfExcluded = False, ul_SelfExclusionEnd = None,
           ul_LastUpdated = bu_UpdatedAt user\<rparr>)"

definition isAgeVerified ::
  "'s bclb_ports \<Rightarrow> BCLBConfig \<Rightarrow> (int \<Rightarrow> int) \<Rightarrow> clock \<Rightarrow> 's \<Rightarrow> string \<Rightarrow> bool" where
  "isAgeVerified P cfg off now s userID =
     (case b_GetUserAgeVerification P s userID of
        None \<Rightarrow> False
      | Some v \<Rightarrow>
          if \<not> av_Verified v then False
          else if now ExpiryTime > av_ExpiresAt v then False
          else case b_GetUser P s userID of
            None \<Rightarrow> False
          | Some user \<Rightarrow>
              let (ny, nm, nd) = civil (wall off (now AgeTime));
                  (by, bm, bd) = civil (wall (\<lambda>_. snd (bu_DateOfBirth user)) (fst (bu_DateOfBirth user)));
                  age = ny - by;
                  age = (if nm < bm \<or> nm = bm \<and> nd < bd then age - 1 else age)
              in age \<ge> MinAge cfg)"

definition isKYCCompliant :: "'s bclb_ports \<Rightarrow> BCLBConfig \<Rightarrow> 's \<Rightarrow> string \<Rightarrow> bool" where
  "isKYCCompliant P cfg s userID =
     (case b_GetUserKYCStatus P s userID of
        None \<Rightarrow> False
      | Some k \<Rightarrow>
          if ks_Status k \<noteq> ''VERIFIED'' then False
          else if RequiredKYCLevel cfg = ''ENHANCED'' then ks_Level k = ''ENHANCED''
          else if RequiredKYCLevel cfg = ''STANDARD'' then ks_Level k = ''STANDARD'' \<or> ks_Level k = ''ENHANCED''
          else if RequiredKYCLevel cfg = ''BASIC'' then
            ks_Level k = ''BASIC'' \<or> ks_Level k = ''STANDARD'' \<or> ks_Level k = ''ENHANCED''
          else ks_Status k = ''VERIFIED'')"

text \<open>An exclusion that has ended is written back as expired; an error of that write is logged.\<close>

definition isSelfExcluded :: "'s bclb_ports \<Rightarrow> clock \<Rightarrow> 's \<Rightarrow> string \<Rightarrow> 's \<times> bool" where
  "isSelfExcluded P now s userID =
     (case b_GetUserSelfExclusion P s userID of
        None \<Rightarrow> (s, False)
      | Some x \<Rightarrow>
          if \<not> se_Active x then (s, False)
          else if now ExclusionTime > se_EndDate x then
            (fst (b_UpdateSelfExclusion P s userID zero_time ''expired''), False)
          else (s, True))"

definition getDailyStake :: "'s bclb_ports \<Rightarrow> clock \<Rightarrow> 's \<Rightarrow> string \<Rightarrow> decimal" where
  "getDailyStake P now s userID =
     (case b_GetUserDailyStake P s userID (time_truncate (now DailyTime) (24 * Hour)) of
        None \<Rightarrow> 0 | Some x \<Rightarrow> x)"

definition getWeeklyStake :: "'s bclb_ports \<Rightarrow> (int \<Rightarrow> int) \<Rightarrow> clock \<Rightarrow> 's \<Rightarrow> string \<Rightarrow> decimal" where
  "getWeeklyStake P off now s userID =
     (let t = now WeeklyTime; weekStart = add_days off t (- weekday (wall off t)) in
      case b_GetUserWeeklyStake P s userID weekStart of None \<Rightarrow> 0 | Some x \<Rightarrow> x)"

definition getMonthlyStake :: "'s bclb_ports \<Rightarrow> (int \<Rightarrow> int) \<Rightarrow> clock \<Rightarrow> 's \<Rightarrow> string \<Rightarrow> decimal" where
  "getMonthlyStake P off now s userID =
     (case b_GetUserMonthlyStake P s userID (month_start off (now MonthlyTime)) of
        None \<Rightarrow> 0 | Some x \<Rightarrow> x)"

definition isInCoolingOffPeriod :: "'s bclb_ports \<Rightarrow> 's \<Rightarrow> string \<Rightarrow> bool" where
  "isInCoolingOffPeriod P s userID =
     (case b_IsUserInCoolingOffPeriod P s userID of None \<Rightarrow> False | Some c \<Rightarrow> c)"

definition publishComplianceEvent :: "'s bclb_ports \<Rightarrow> 's \<Rightarrow> string \<Rightarrow> bclb_event \<Rightarrow> 's" where
  "publishComplianceEvent P s topic data =
     (case b_Publish P of None \<Rightarrow> s | Some publish \<Rightarrow> fst (publish s topic data))"

section \<open>The checks\<close>

definition violation ::
  "string \<Rightarrow> string \<Rightarrow> ViolationSeverity \<Rightarrow> decimal \<Rightarrow> decimal \<Rightarrow> string \<Rightarrow> ComplianceViolation" where
  "violation ty desc sev amount bound act =
     \<lparr>cv_Type = ty, cv_Description = desc, cv_Severity = sev, cv_Amount = amount, cv_Limit = bound, cv_Action = act\<rparr>"

text \<open>One \<open>if\<close> that appends to \<open>check.Violations\<close>.\<close>

definition violated_if :: "bool \<Rightarrow> ComplianceViolation \<Rightarrow> ComplianceViolation list" where
  "violated_if c v = (if c then [v] else [])"

definition ValidateBetPlacement ::
  "'s bclb_ports \<Rightarrow> BCLBConfig \<Rightarrow> (int \<Rightarrow> int) \<Rightarrow> clock \<Rightarrow> 's \<Rightarrow> string \<Rightarrow> decimal \<Rightarrow> string \<Rightarrow> int \<Rightarrow>
     's \<times> ComplianceCheck" where
  "ValidateBetPlacement P cfg off now s userID betAmount betType selections =
     (let limits = getUserLimits P cfg now s userID;
          vs = violated_if (betAmount > ul_MaxBetSize limits)
                 (violation ''MAX_BET_SIZE_EXCEEDED'' ''Bet amount exceeds maximum allowed bet size''
                    ViolationSeverityHigh betAmount (ul_MaxBetSize limits) ''BLOCK_BET'');
          vs = vs @ violated_if (betType = ''accumulator'' \<and> selections > MaxAccumulatorBets cfg)
                 (violation ''MAX_ACCUMULATOR_EXCEEDED'' ''Number of accumulator selections exceeds maximum allowed''
                    ViolationSeverityMedium 0 0 ''BLOCK_BET'');
          dailyStake = getDailyStake P now s userID;
          vs = vs @ violated_if (dailyStake + betAmount > ul_DailyLimit limits)
                 (violation ''DAILY_LIMIT_EXCEEDED'' ''Daily stake limit would be exceeded''
                    ViolationSeverityHigh (dailyStake + betAmount) (ul_DailyLimit limits) ''BLOCK_BET'');
          weeklyStake = getWeeklyStake P off now s userID;
          vs = vs @ violated_if (weeklyStake + betAmount > ul_WeeklyLimit limits)
                 (violation ''WEEKLY_LIMIT_EXCEEDED'' ''Weekly stake limit would be exceeded''
                    ViolationSeverityHigh (weeklyStake + betAmount) (ul_WeeklyLimit limits) ''BLOCK_BET'');
          monthlyStake = getMonthlyStake P off now s userID;
          vs = vs @ violated_if (monthlyStake + betAmount > ul_MonthlyLimit limits)
                 (violation ''MONTHLY_LIMIT_EXCEEDED'' ''Monthly stake limit would be exceeded''
                    ViolationSeverityHigh (monthlyStake + betAmount) (ul_MonthlyLimit limits) ''BLOCK_BET'');
          vs = vs @ violated_if (\<not> isKYCCompliant P cfg s userID)
                 (violation ''KYC_NOT_COMPLIANT'' ''User KYC verification not completed''
                    ViolationSeverityCritical 0 0 ''BLOCK_BET'');
          vs = vs @ violated_if (\<not> isAgeVerified P cfg off now s userID)
                 (violation ''AGE_NOT_VERIFIED'' ''User age not verified'' ViolationSeverityCritical 0 0 ''BLOCK_BET'');
          (s1, excluded) = isSelfExcluded P now s userID;
          vs = vs @ violated_if excluded
                 (violation ''SELF_EXCLUDED'' ''User is self-excluded from betting''
                    ViolationSeverityCritical 0 0 ''BLOCK_BET'');
          vs = vs @ violated_if (isInCoolingOffPeriod P s1 userID)
                 (violation ''COOLING_OFF_PERIOD'' ''User is in cooling off period''
                    ViolationSeverityHigh 0 0 ''BLOCK_BET'');
          check = \<lparr>cc_Passed = (vs = []), cc_Violations = vs, cc_Warnings = [], cc_CheckTime = now CheckTime,
                   cc_CheckType = ''BET_PLACEMENT'', cc_UserID = userID, cc_TransactionID = [], cc_BetID = []\<rparr>
      in (publishComplianceEvent P s1 ''compliance.bet_validated'' (CheckEvent check), check))"

definition GetUserComplianceStatus ::
  "libs \<Rightarrow> 's bclb_ports \<Rightarrow> BCLBConfig \<Rightarrow> (int \<Rightarrow> int) \<Rightarrow> clock \<Rightarrow> 's \<Rightarrow> string \<Rightarrow> 's \<times> ComplianceCheck" where
  "GetUserComplianceStatus L P cfg off now s userID =
     (let vs = violated_if (\<not> isAgeVerified P cfg off now s userID)
                 (violation ''AGE_NOT_VERIFIED'' ''User age not verified'' ViolationSeverityCritical 0 0 ''RESTRICT_ACCESS'');
          vs = vs @ violated_if (\<not> isKYCCompliant P cfg s userID)
                 (violation ''KYC_NOT_COMPLIANT'' ''User KYC verification not completed''
                    ViolationSeverityHigh 0 0 ''RESTRICT_ACCESS'');
          (s1, excluded) = isSelfExcluded P now s userID;
          vs = vs @ violated_if excluded
                 (violation ''SELF_EXCLUDED'' ''User is self-excluded from betting''
                    ViolationSeverityCritical 0 0 ''BLOCK_ACCESS'');
          limits = getUserLimits P cfg now s1 userID;
          dailyStake = getDailyStake P now s1 userID;
          weeklyStake = getWeeklyStake P off now s1 userID;
          monthlyStake = getMonthlyStake P off now s1 userID;
          ninety = dec_of_float L (fl (9 / 10));
          ws = (if dailyStake > ul_DailyLimit limits * ninety then [''Approaching daily betting limit''] else []);
          ws = ws @ (if weeklyStake > ul_WeeklyLimit limits * ninety then [''Approaching weekly betting limit''] else []);
          ws = ws @ (if monthlyStake > ul_MonthlyLimit limits * ninety then [''Approaching monthly betting limit''] else [])
      in (s1, \<lparr>cc_Passed = (vs = []), cc_Violations = vs, cc_Warnings = ws, cc_CheckTime = now CheckTime,
               cc_CheckType = ''USER_STATUS'', cc_UserID = userID, cc_TransactionID = [], cc_BetID = []\<rparr>))"

text \<open>The transaction checks; \<open>gid\<close> is what \<open>complianceGenerator.GenerateID()\<close> returns.\<close>

definition isSuspiciousTransaction :: "'s bclb_ports \<Rightarrow> 's \<Rightarrow> string \<Rightarrow> decimal \<Rightarrow> string \<Rightarrow> bool" where
  "isSuspiciousTransaction P s userID amount transactionType =
     (case b_IsSuspiciousTransaction P s userID amount transactionType of None \<Rightarrow> False | Some b \<Rightarrow> b)"

definition exceedsTransactionFrequency :: "'s bclb_ports \<Rightarrow> 's \<Rightarrow> string \<Rightarrow> bool" where
  "exceedsTransactionFrequency P s userID =
     (case b_ExceedsTransactionFrequency P s userID 100 Hour of None \<Rightarrow> False | Some b \<Rightarrow> b)"

definition generateTransactionID :: "string \<Rightarrow> string" where
  "generateTransactionID gid = ''txn_'' @ gid"

definition hasRecentLargeTransactions :: "'s \<Rightarrow> string \<Rightarrow> decimal \<Rightarrow> bool" where
  "hasRecentLargeTransactions s userID amount = False"

definition transaction_check :: "clock \<Rightarrow> string \<Rightarrow> string \<Rightarrow> string \<Rightarrow> ComplianceViolation list \<Rightarrow> ComplianceCheck" where
  "transaction_check now ty userID gid vs =
     \<lparr>cc_Passed = (vs = []), cc_Violations = vs, cc_Warnings = [], cc_CheckTime = now CheckTime,
      cc_CheckType = ty, cc_UserID = userID, cc_TransactionID = generateTransactionID gid, cc_BetID = []\<rparr>"

definition ValidateTransaction ::
  "'s bclb_ports \<Rightarrow> clock \<Rightarrow> string \<Rightarrow> 's \<Rightarrow> string \<Rightarrow> decimal \<Rightarrow> string \<Rightarrow> 's \<times> ComplianceCheck" where
  "ValidateTransaction P now gid s userID amount transactionType =
     (let vs = violated_if (isSuspiciousTransaction P s userID amount transactionType)
                 (violation ''SUSPICIOUS_TRANSACTION'' ''Transaction pattern flagged as suspicious''
                    ViolationSeverityHigh amount 0 ''FLAG_FOR_REVIEW'');
          vs = vs @ violated_if (exceedsTransactionFrequency P s userID)
                 (violation ''TRANSACTION_FREQUENCY_EXCEEDED'' ''Transaction frequency exceeds allowed limits''
                    ViolationSeverityMedium 0 0 ''FLAG_FOR_REVIEW'');
          check = transaction_check now ''TRANSACTION'' userID gid vs
      in (publishComplianceEvent P s ''compliance.transaction_validated'' (CheckEvent check), check))"

definition ValidateLargeTransaction ::
  "'s bclb_ports \<Rightarrow> BCLBConfig \<Rightarrow> clock \<Rightarrow> string \<Rightarrow> 's \<Rightarrow> string \<Rightarrow> decimal \<Rightarrow> string \<Rightarrow> 's \<times> ComplianceCheck" where
  "ValidateLargeTransaction P cfg now gid s userID amount transactionType =
     (let threshold = 10000;
          vs = (if amount \<ge> threshold then
                  [violation ''LARGE_TRANSACTION'' ''Transaction amount exceeds reporting threshold''
                     ViolationSeverityHigh amount threshold ''FLAG_FOR_MANUAL_REVIEW''] @
                  violated_if (\<not> isKYCCompliant P cfg s userID)
                    (violation ''LARGE_TRANSACTION_NO_KYC'' ''Large transaction from user without KYC verification''
                       ViolationSeverityCritical amount 0 ''BLOCK_TRANSACTION'') @
                  violated_if (hasRecentLargeTransactions s userID amount)
                    (violation ''RAPID_LARGE_TRANSACTIONS'' ''Multiple large transactions in short period''
                       ViolationSeverityCritical amount 0 ''FLAG_FOR_INVESTIGATION'')
                else []);
          check = transaction_check now ''LARGE_TRANSACTION'' userID gid vs
      in (publishComplianceEvent P s ''compliance.large_transaction_validated'' (CheckEvent check), check))"

definition ValidateHighRiskTransaction ::
  "'s bclb_ports \<Rightarrow> BCLBConfig \<Rightarrow> clock \<Rightarrow> string \<Rightarrow> 's \<Rightarrow> string \<Rightarrow> decimal \<Rightarrow> string \<Rightarrow> 's \<times> ComplianceCheck" where
  "ValidateHighRiskTransaction P cfg now gid s userID amount transactionType =
     (let highRiskTypes = [''international_transfer'', ''third_party_payment'', ''crypto_exchange'', ''anonymous_payment''];
          vs = (if transactionType \<in> set highRiskTypes then
                  [violation ''HIGH_RISK_TRANSACTION_TYPE'' ''Transaction type identified as high risk''
                     ViolationSeverityHigh amount 0 ''ENHANCED_DUE_DILIGENCE''] @
                  violated_if (\<not> isKYCCompliant P cfg s userID)
                    (violation ''HIGH_RISK_NO_KYC'' ''High-risk transaction from user without KYC verification''
                       ViolationSeverityCritical amount 0 ''BLOCK_TRANSACTION'')
                else []);
          check = transaction_check now ''HIGH_RISK_TRANSACTION'' userID gid vs
      in (publishComplianceEvent P s ''compliance.high_risk_transaction_validated'' (CheckEvent check), check))"

text \<open>The three setters announce the change and store nothing.\<close>

definition UpdateUserLimits :: "'s bclb_ports \<Rightarrow> 's \<Rightarrow> string \<Rightarrow> UserLimits \<Rightarrow> 's" where
  "UpdateUserLimits P s userID limits =
     publishComplianceEvent P s ''compliance.limits_updated'' (LimitsUpdated userID limits)"

definition SetSelfExclusion :: "'s bclb_ports \<Rightarrow> clock \<Rightarrow> 's \<Rightarrow> string \<Rightarrow> duration \<Rightarrow> string \<Rightarrow> 's" where
  "SetSelfExclusion P now s userID duration reason =
     (let endDate = now ExclusionTime + duration
      in publishComplianceEvent P s ''compliance.self_exclusion_set''
           (SelfExclusionSet userID duration endDate reason))"

definition RemoveSelfExclusion :: "'s bclb_ports \<Rightarrow> 's \<Rightarrow> string \<Rightarrow> 's" where
  "RemoveSelfExclusion P s userID =
     publishComplianceEvent P s ''compliance.self_exclusion_removed'' (SelfExclusionRemoved userID)"

section \<open>Facts about dates\<close>

lemma time_truncate_Day: "time_truncate t Day = t div Day * Day"
proof -
  have "(t - zero_time) mod Day = (t + 719162 * Day) mod Day" by (simp add: zero_time_def)
  also have "\<dots> = t mod Day" by (simp only: mod_mult_self1)
  finally show ?thesis by (simp add: time_truncate_def minus_mod_eq_div_mult)
qed

text \<open>
  In a fixed zone the start of the week keeps the time of day of the clock reading: on a Sunday
  it is the reading itself, so stakes placed earlier that Sunday are outside the window.
\<close>

lemma week_start_keeps_time:
  "add_days (\<lambda>_. z) t (- weekday (wall (\<lambda>_. z) t)) = t - weekday (wall (\<lambda>_. z) t) * Day"
proof -
  have "t = t div Second * Second + t mod Second" by simp
  then show ?thesis by (simp add: add_days_def from_wall_def wall_def algebra_simps)
qed

lemma sunday_window_empty:
  assumes "weekday (wall (\<lambda>_. z) (now WeeklyTime)) = 0"
  shows "getWeeklyStake P (\<lambda>_. z) now s u =
    (case b_GetUserWeeklyStake P s u (now WeeklyTime) of None \<Rightarrow> 0 | Some x \<Rightarrow> x)"
  using week_start_keeps_time [of z "now WeeklyTime"] assms by (simp add: getWeeklyStake_def)

section \<open>What a passed check guarantees\<close>

text \<open>The order of dates, and the age a date of birth gives on a day.\<close>

definition date_le :: "int \<times> nat \<times> int \<Rightarrow> int \<times> nat \<times> int \<Rightarrow> bool" where
  "date_le a b \<longleftrightarrow> (case (a, b) of ((y, m, d), (y', m', d')) \<Rightarrow>
     y < y' \<or> y = y' \<and> (m < m' \<or> m = m' \<and> d \<le> d'))"

definition birthday :: "int \<Rightarrow> int \<times> nat \<times> int \<Rightarrow> int \<times> nat \<times> int" where
  "birthday k b = (case b of (y, m, d) \<Rightarrow> (y + k, m, d))"

definition old_enough ::
  "'s bclb_ports \<Rightarrow> BCLBConfig \<Rightarrow> (int \<Rightarrow> int) \<Rightarrow> clock \<Rightarrow> 's \<Rightarrow> string \<Rightarrow> bool" where
  "old_enough P cfg off now s u \<longleftrightarrow>
     (\<exists>v usr. b_GetUserAgeVerification P s u = Some v \<and> av_Verified v \<and> now ExpiryTime \<le> av_ExpiresAt v \<and>
        b_GetUser P s u = Some usr \<and>
        date_le (birthday (MinAge cfg)
                   (civil (wall (\<lambda>_. snd (bu_DateOfBirth usr)) (fst (bu_DateOfBirth usr)))))
                (civil (wall off (now AgeTime))))"

lemma isAgeVerified_iff: "isAgeVerified P cfg off now s u \<longleftrightarrow> old_enough P cfg off now s u"
  by (auto simp: isAgeVerified_def old_enough_def date_le_def birthday_def Let_def
        split: option.splits prod.splits if_splits)

text \<open>The levels of verification are ranked; a level the code does not know has rank 0.\<close>

definition kyc_rank :: "string \<Rightarrow> nat" where
  "kyc_rank l = (if l = ''BASIC'' then 1 else if l = ''STANDARD'' then 2 else if l = ''ENHANCED'' then 3 else 0)"

definition kyc_reached :: "'s bclb_ports \<Rightarrow> BCLBConfig \<Rightarrow> 's \<Rightarrow> string \<Rightarrow> bool" where
  "kyc_reached P cfg s u \<longleftrightarrow>
     (\<exists>k. b_GetUserKYCStatus P s u = Some k \<and> ks_Status k = ''VERIFIED'' \<and>
        kyc_rank (RequiredKYCLevel cfg) \<le> kyc_rank (ks_Level k))"

lemma isKYCCompliant_iff: "isKYCCompliant P cfg s u \<longleftrightarrow> kyc_reached P cfg s u"
  by (auto simp: isKYCCompliant_def kyc_reached_def kyc_rank_def split: option.splits)

definition excluded_now :: "'s bclb_ports \<Rightarrow> clock \<Rightarrow> 's \<Rightarrow> string \<Rightarrow> bool" where
  "excluded_now P now s u \<longleftrightarrow>
     (\<exists>x. b_GetUserSelfExclusion P s u = Some x \<and> se_Active x \<and> now ExclusionTime \<le> se_EndDate x)"

lemma isSelfExcluded_iff: "snd (isSelfExcluded P now s u) \<longleftrightarrow> excluded_now P now s u"
  by (auto simp: isSelfExcluded_def excluded_now_def split: option.splits)

lemma isSelfExcluded_state:
  "fst (isSelfExcluded P now s u) \<in> {s, fst (b_UpdateSelfExclusion P s u zero_time ''expired'')}"
  by (auto simp: isSelfExcluded_def split: option.splits)

lemma getUserLimits_config:
  "ul_DailyLimit (getUserLimits P cfg now s u) = MaxDailyStake cfg"
  "ul_WeeklyLimit (getUserLimits P cfg now s u) = MaxWeeklyStake cfg"
  "ul_MonthlyLimit (getUserLimits P cfg now s u) = MaxMonthlyStake cfg"
  "ul_MaxBetSize (getUserLimits P cfg now s u) = MaxBetPerEvent cfg"
  by (auto simp: getUserLimits_def split: option.splits)

lemma violated_if_Nil: "violated_if c v = [] \<longleftrightarrow> \<not> c"
  by (simp add: violated_if_def)

lemma ValidateBetPlacement_parts:
  "fst (ValidateBetPlacement P cfg off now s u a bt n) =
     publishComplianceEvent P (fst (isSelfExcluded P now s u)) ''compliance.bet_validated''
       (CheckEvent (snd (ValidateBetPlacement P cfg off now s u a bt n)))"
  "cc_Passed (snd (ValidateBetPlacement P cfg off now s u a bt n)) \<longleftrightarrow>
     cc_Violations (snd (ValidateBetPlacement P cfg off now s u a bt n)) = []"
  by (simp_all only: ValidateBetPlacement_def Let_def case_prod_beta fst_conv snd_conv ComplianceCheck.select_convs)

lemma ValidateBetPlacement_no_violation:
  "cc_Violations (snd (ValidateBetPlacement P cfg off now s u a bt n)) = [] \<longleftrightarrow>
     a \<le> MaxBetPerEvent cfg \<and> \<not> (bt = ''accumulator'' \<and> n > MaxAccumulatorBets cfg) \<and>
     getDailyStake P now s u + a \<le> MaxDailyStake cfg \<and>
     getWeeklyStake P off now s u + a \<le> MaxWeeklyStake cfg \<and>
     getMonthlyStake P off now s u + a \<le> MaxMonthlyStake cfg \<and>
     kyc_reached P cfg s u \<and> old_enough P cfg off now s u \<and> \<not> excluded_now P now s u \<and>
     \<not> isInCoolingOffPeriod P (fst (isSelfExcluded P now s u)) u"
  by (simp add: ValidateBetPlacement_def Let_def case_prod_beta violated_if_Nil getUserLimits_config
        isKYCCompliant_iff isAgeVerified_iff isSelfExcluded_iff not_less append_is_Nil_conv
        del: not_less [symmetric])

section \<open>Properties\<close>

text \<open>
  What the service relies on: writing back an expired exclusion does not change the answer about
  a cooling-off period.
\<close>

definition exclusions_apart :: "'s bclb_ports \<Rightarrow> bool" where
  "exclusions_apart P \<longleftrightarrow>
     (\<forall>s u t r. b_IsUserInCoolingOffPeriod P (fst (b_UpdateSelfExclusion P s u t r)) =
        b_IsUserInCoolingOffPeriod P s)"


text \<open>A store whose state is the list of the bets recorded, newest first.\<close>

type_synonym stake_history = "(string \<times> decimal \<times> time) list"

definition staked :: "stake_history \<Rightarrow> string \<Rightarrow> (time \<Rightarrow> bool) \<Rightarrow> decimal" where
  "staked h u Q = sum_list (map (\<lambda>b. fst (snd b)) (filter (\<lambda>b. fst b = u \<and> Q (snd (snd b))) h))"

text \<open>
  The contract of the stake repository: the stake of the day is the sum of the player's recorded
  bets from the given instant on, and neither the event bus nor the exclusions touch the record.
\<close>

definition stakes_recorded :: "'s bclb_ports \<Rightarrow> ('s \<Rightarrow> stake_history) \<Rightarrow> bool" where
  "stakes_recorded P hist \<longleftrightarrow>
     (\<forall>s u t. b_GetUserDailyStake P s u t = Some (staked (hist s) u (\<lambda>x. t \<le> x))) \<and>
     (\<forall>s u t r. hist (fst (b_UpdateSelfExclusion P s u t r)) = hist s) \<and>
     (\<forall>publish s topic e. b_Publish P = Some publish \<longrightarrow> hist (fst (publish s topic e)) = hist s)"

text \<open>
  One attempt: the bet is checked, and recorded at \<open>t'\<close> only when the check passes. The record is
  made on the same day (in UTC) as the stake of the day was read.
\<close>

inductive betting ::
  "'s bclb_ports \<Rightarrow> ('s \<Rightarrow> stake_history) \<Rightarrow> BCLBConfig \<Rightarrow> (int \<Rightarrow> int) \<Rightarrow> 's \<times> time \<Rightarrow> 's \<times> time \<Rightarrow> bool"
  for P hist cfg off where
  accepted:
    "betting P hist cfg off (s, t) (s', t')"
    if "t \<le> now DailyTime" "now DailyTime \<le> t'" "now DailyTime div Day = t' div Day"
      "ValidateBetPlacement P cfg off now s u a bt n = (s1, c)" "cc_Passed c"
      "hist s' = (u, a, t') # hist s1"
| rejected:
    "betting P hist cfg off (s, t) (s1, now DailyTime)"
    if "t \<le> now DailyTime"
      "ValidateBetPlacement P cfg off now s u a bt n = (s1, c)" "\<not> cc_Passed c"

definition within_days :: "BCLBConfig \<Rightarrow> stake_history \<Rightarrow> time \<Rightarrow> bool" where
  "within_days cfg h t \<longleftrightarrow>
     (\<forall>b \<in> set h. snd (snd b) \<le> t) \<and> (\<forall>u k. staked h u (\<lambda>x. x div Day = k) \<le> MaxDailyStake cfg)"

lemma staked_Cons:
  "staked ((v, a, t) # h) u Q = (if v = u \<and> Q t then a else 0) + staked h u Q"
  by (simp add: staked_def)

lemma staked_cong:
  assumes "\<And>b. b \<in> set h \<Longrightarrow> Q (snd (snd b)) = R (snd (snd b))" shows "staked h u Q = staked h u R"
proof -
  have "filter (\<lambda>b. fst b = u \<and> Q (snd (snd b))) h = filter (\<lambda>b. fst b = u \<and> R (snd (snd b))) h"
    using assms by (intro filter_cong) auto
  then show ?thesis by (simp add: staked_def)
qed

lemma same_day_iff:
  fixes x now t' :: time
  assumes "x \<le> now" shows "now div Day * Day \<le> x \<longleftrightarrow> x div Day = now div Day"
proof
  assume "now div Day * Day \<le> x"
  then have "now div Day * Day div Day \<le> x div Day" by (intro zdiv_mono1) simp_all
  then have "now div Day \<le> x div Day" by simp
  moreover have "x div Day \<le> now div Day" using assms by (intro zdiv_mono1) simp_all
  ultimately show "x div Day = now div Day" by simp
next
  assume "x div Day = now div Day"
  moreover have "x div Day * Day \<le> x" by simp
  ultimately show "now div Day * Day \<le> x" by metis
qed

lemma ValidateBetPlacement_hist:
  assumes "stakes_recorded P hist"
  shows "hist (fst (ValidateBetPlacement P cfg off now s u a bt n)) = hist s"
proof -
  have "hist (fst (isSelfExcluded P now s u)) = hist s"
    using isSelfExcluded_state [of P now s u] assms by (auto simp: stakes_recorded_def)
  then show ?thesis
    using assms by (auto simp: ValidateBetPlacement_parts(1) publishComplianceEvent_def stakes_recorded_def
        split: option.split)
qed

lemma betting_keeps:
  assumes "betting P hist cfg off p q" "stakes_recorded P hist" "within_days cfg (hist (fst p)) (snd p)"
  shows "within_days cfg (hist (fst q)) (snd q)"
  using assms(1)
proof cases
  case (accepted t "now" t' s u a bt n s1 c s')
  have before: "x \<le> t" if "b \<in> set (hist s)" "x = snd (snd b)" for b x
    using assms(3) that accepted(1) by (auto simp: within_days_def)
  have below: "staked (hist s) v (\<lambda>x. x div Day = k) \<le> MaxDailyStake cfg" for v k
    using assms(3) accepted(1) by (auto simp: within_days_def)
  have h: "hist s' = (u, a, t') # hist s"
    using ValidateBetPlacement_hist [OF assms(2), of cfg off "now" s u a bt n] accepted by simp
  have "getDailyStake P now s u = staked (hist s) u (\<lambda>x. now DailyTime div Day * Day \<le> x)"
    using assms(2) by (simp add: getDailyStake_def stakes_recorded_def time_truncate_Day [simplified])
  also have "\<dots> = staked (hist s) u (\<lambda>x. x div Day = now DailyTime div Day)"
    using before accepted(3) by (intro staked_cong same_day_iff) force
  finally have "staked (hist s) u (\<lambda>x. x div Day = t' div Day) + a \<le> MaxDailyStake cfg"
    using ValidateBetPlacement_no_violation [of P cfg off "now" s u a bt n] accepted(5,6,7)
      ValidateBetPlacement_parts(2) [of P cfg off "now" s u a bt n] by simp
  then have "staked (hist s') v (\<lambda>x. x div Day = k) \<le> MaxDailyStake cfg" for v k
    using below [of v k] by (auto simp: h staked_Cons)
  moreover have "\<forall>b \<in> set (hist s'). snd (snd b) \<le> t'"
    using before accepted(3,4) by (force simp: h)
  ultimately show ?thesis using accepted(2) by (simp add: within_days_def)
next
  case (rejected t "now" s u a bt n s1 c)
  then show ?thesis
    using ValidateBetPlacement_hist [OF assms(2), of cfg off "now" s u a bt n] assms(3)
    by (force simp: within_days_def)
qed

interpretation betting_run: step_system "betting P hist cfg off"
    "\<lambda>q. stakes_recorded P hist \<and> within_days cfg (hist (fst q)) (snd q)" for P hist cfg off
  by unfold_locales (auto dest: betting_keeps)


text \<open>
  Whatever blocks a bet is at least of medium severity, and a player who is excluded, too young or not
  identified is reported with the highest.
\<close>

lemma bet_violations_severe:
  assumes "v \<in> set (cc_Violations (snd (ValidateBetPlacement P cfg off now s u a bt n)))"
  shows "ViolationSeverityMedium \<le> cv_Severity v"
  using assms
  by (auto simp: ValidateBetPlacement_def Let_def case_prod_beta violated_if_def violation_def
      less_eq_ViolationSeverity_def split: if_splits)

lemma excluded_bet_critical:
  assumes "excluded_now P now s u \<or> \<not> old_enough P cfg off now s u \<or> \<not> kyc_reached P cfg s u"
  shows "\<exists>v \<in> set (cc_Violations (snd (ValidateBetPlacement P cfg off now s u a bt n))).
    \<forall>w. cv_Severity w \<le> cv_Severity v"
proof -
  have top: "x \<le> ViolationSeverityCritical" for x by (cases x) (simp_all add: less_eq_ViolationSeverity_def)
  have "\<exists>v \<in> set (cc_Violations (snd (ValidateBetPlacement P cfg off now s u a bt n))).
      cv_Severity v = ViolationSeverityCritical"
    using assms
    by (auto simp: ValidateBetPlacement_def Let_def case_prod_beta violated_if_def violation_def
        isKYCCompliant_iff isAgeVerified_iff isSelfExcluded_iff)
  then show ?thesis using top by metis
qed

section \<open>A player who bets\<close>

definition sample_now :: clock where
  "sample_now = (\<lambda>_. 1717502400 * Second)"

definition sample_bclb :: "stake_history bclb_ports" where
  "sample_bclb = \<lparr>
     b_GetUser = (\<lambda>s u. Some \<lparr>bu_ID = u, bu_Username = u, bu_Email = [], bu_DateOfBirth = (631152000 * Second, 0),
       bu_Status = ''ACTIVE'', bu_CreatedAt = 0, bu_UpdatedAt = 0\<rparr>),
     b_GetUserAgeVerification = (\<lambda>s u. Some \<lparr>av_UserID = u, av_Verified = True, av_Method = [], av_VerifiedAt = 0,
       av_ExpiresAt = 1800000000 * Second, av_DocumentID = []\<rparr>),
     b_GetUserKYCStatus = (\<lambda>s u. Some \<lparr>ks_UserID = u, ks_Status = ''VERIFIED'', ks_Level = ''ENHANCED'', ks_VerifiedAt = 0,
       ks_Documents = [], ks_LastUpdated = 0\<rparr>),
     b_GetUserSelfExclusion = (\<lambda>s u. None),
     b_UpdateSelfExclusion = (\<lambda>s u t r. (s, True)),
     b_GetUserDailyStake = (\<lambda>s u t. Some (staked s u (\<lambda>x. t \<le> x))),
     b_GetUserWeeklyStake = (\<lambda>s u t. Some (staked s u (\<lambda>x. t \<le> x))),
     b_GetUserMonthlyStake = (\<lambda>s u t. Some (staked s u (\<lambda>x. t \<le> x))),
     b_IsUserInCoolingOffPeriod = (\<lambda>s u. Some False),
     b_IsSuspiciousTransaction = (\<lambda>s u a t. Some False),
     b_ExceedsTransactionFrequency = (\<lambda>s u n d. Some False),
     b_Publish = None\<rparr>"

definition sample_bclb_config :: BCLBConfig where
  "sample_bclb_config = \<lparr>LicenseNumber = [], LicenseExpiry = 0, MaxDailyStake = 100, MaxWeeklyStake = 500, MaxMonthlyStake = 1000, MinAge = 18,
     MaxBetPerEvent = 80, MaxAccumulatorBets = 10, RequiredKYCLevel = ''STANDARD'',
     SelfExclusionMinDays = 180, ResponsibleGamingEnabled = True\<rparr>"

lemma sample_bclb_ok: "exclusions_apart sample_bclb" "stakes_recorded sample_bclb id"
  by (simp_all add: exclusions_apart_def stakes_recorded_def sample_bclb_def)


lemma sample_betting:
  "betting sample_bclb id sample_bclb_config (\<lambda>_. 10800) ([], 0) ([(''p'', 60, sample_now DailyTime)], sample_now DailyTime)"
proof (rule betting.accepted)
  let ?r = "ValidateBetPlacement sample_bclb sample_bclb_config (\<lambda>_. 10800) sample_now [] ''p'' 60 ''single'' 1"
  show "?r = (fst ?r, snd ?r)" by simp
  show "cc_Passed (snd ?r)" by code_simp
  show "id [(''p'', 60, sample_now DailyTime)] = (''p'', 60, sample_now DailyTime) # id (fst ?r)"
    using ValidateBetPlacement_hist [OF sample_bclb_ok(2)] by simp
qed (simp_all add: sample_now_def)

lemma sample_betting_reached:
  "(betting sample_bclb id sample_bclb_config (\<lambda>_. 10800))\<^sup>*\<^sup>* ([], 0)
     ([(''p'', 60, sample_now DailyTime)], sample_now DailyTime)"
  using sample_betting by (rule r_into_rtranclp)


text \<open>The second bet of the day is refused, whatever else the player would be allowed.\<close>

lemma sample_second_bet_refused:
  "map cv_Type (cc_Violations (snd (ValidateBetPlacement sample_bclb sample_bclb_config (\<lambda>_. 10800) sample_now
      [(''p'', 60, sample_now DailyTime)] ''p'' 60 ''single'' 1))) = [''DAILY_LIMIT_EXCEEDED'']"
  by code_simp

text \<open>
  The checks that ask the repositories fail open: when the exclusion, the cooling-off period and
  the stakes cannot be read, a player within the limit of a single bet passes.
\<close>

lemma bclb_fails_open:
  assumes "b_GetUserSelfExclusion P s u = None" "b_IsUserInCoolingOffPeriod P s u = None"
    and "b_GetUserDailyStake P s u = (\<lambda>_. None)" "b_GetUserWeeklyStake P s u = (\<lambda>_. None)"
    and "b_GetUserMonthlyStake P s u = (\<lambda>_. None)"
    and "a \<le> Min {MaxBetPerEvent cfg, MaxDailyStake cfg, MaxWeeklyStake cfg, MaxMonthlyStake cfg}"
    and "kyc_reached P cfg s u" "old_enough P cfg off now s u" "bt = ''single''"
  shows "cc_Passed (snd (ValidateBetPlacement P cfg off now s u a bt n))"
  using assms
  by (simp add: ValidateBetPlacement_parts(2) ValidateBetPlacement_no_violation excluded_now_def
      isSelfExcluded_def isInCoolingOffPeriod_def getDailyStake_def getWeeklyStake_def getMonthlyStake_def Let_def)

end
