(* ===== verification/Deposits.thy ===== *)
theory Deposits
  imports WalletService
begin

text \<open>
  Money that comes in through M-Pesa: the table of deposits
  (\<open>internal/infrastructure/repository/postgres/mpesa_deposit_repository.go\<close>) and the handler of
  the payment callbacks (\<open>internal/infrastructure/http/mpesa_handlers.go\<close>), which credits the
  wallet service of the theory \<open>WalletService\<close>. No code of the repository implements the
  handler's \<open>DepositLookup\<close>; it is the record \<open>deposit_lookup\<close> of functions over a state
  \<open>'d\<close>. \<open>users\<close> says which users exist, \<open>now\<close> is the server's \<open>CURRENT_TIMESTAMP\<close>.
\<close>

section \<open>The deposit repository\<close>

datatype deposit_error = DepositNotFound | DepositConstraint | DepositStatement

definition mpesa_row :: "decimal \<Rightarrow> time \<Rightarrow> MPesaDeposit \<Rightarrow> MPesaDeposit" where
  "mpesa_row amount now d = d\<lparr>md_Amount := amount, md_MpesaReceiptNumber := None, md_TransactionDate := None,
     md_ResultCode := None, md_ResultDesc := None, md_CreatedAt := now, md_UpdatedAt := now, md_CompletedAt := None\<rparr>"

text \<open>The identifier and the checkout request are unique, and the user is a foreign key.\<close>

definition MPesa_Create ::
  "libs \<Rightarrow> (uuid \<Rightarrow> bool) \<Rightarrow> faults \<Rightarrow> time \<Rightarrow> db \<Rightarrow> MPesaDeposit \<Rightarrow> db \<times> (deposit_error + unit)" where
  "MPesa_Create L users f now s d =
     (case (if f InsertCall then None else money_col L (md_Amount d)) of
        None \<Rightarrow> (s, Inl DepositStatement)
      | Some amount \<Rightarrow>
          if md_ID d \<in> md_ID ` set (mpesa_deposits s) \<or>
             md_CheckoutRequestID d \<in> md_CheckoutRequestID ` set (mpesa_deposits s) \<or>
             \<not> users (md_UserID d)
          then (s, Inl DepositConstraint)
          else (s\<lparr>mpesa_deposits := mpesa_deposits s @ [mpesa_row amount now d]\<rparr>, Inr ()))"

definition GetByCheckoutRequestID :: "faults \<Rightarrow> db \<Rightarrow> string \<Rightarrow> deposit_error + MPesaDeposit" where
  "GetByCheckoutRequestID f s checkoutRequestID =
     (if f QueryCall then Inl DepositStatement
      else case select_row (\<lambda>d. md_CheckoutRequestID d = checkoutRequestID) (mpesa_deposits s) of
        None \<Rightarrow> Inl DepositNotFound
      | Some d \<Rightarrow> Inr d)"

definition MPesa_GetByUserID ::
  "faults \<Rightarrow> db \<Rightarrow> uuid \<Rightarrow> nat \<Rightarrow> nat \<Rightarrow> deposit_error + MPesaDeposit list" where
  "MPesa_GetByUserID f s userID limit offset =
     (if f QueryCall then Inl DepositStatement
      else Inr (page limit offset
        (rev (sort_key md_CreatedAt (filter (\<lambda>d. md_UserID d = userID) (mpesa_deposits s))))))"

definition final_status :: "MPesaDepositStatus \<Rightarrow> bool" where
  "final_status st \<longleftrightarrow> st \<in> {MPesaDepositStatusCompleted, MPesaDepositStatusFailed, MPesaDepositStatusCancelled}"

definition MPesa_UpdateStatus ::
  "faults \<Rightarrow> time \<Rightarrow> db \<Rightarrow> uuid \<Rightarrow> MPesaDepositStatus \<Rightarrow> string option \<Rightarrow> time option \<Rightarrow> string option \<Rightarrow>
     string option \<Rightarrow> db \<times> (deposit_error + unit)" where
  "MPesa_UpdateStatus f now s i status receiptNumber transactionDate resultCode resultDesc =
     (if f UpdateCall then (s, Inl DepositStatement)
      else (s\<lparr>mpesa_deposits := update_where (\<lambda>d. md_ID d = i)
              (\<lambda>d. d\<lparr>md_Status := status, md_MpesaReceiptNumber := receiptNumber,
                 md_TransactionDate := transactionDate, md_ResultCode := resultCode,
                 md_ResultDesc := resultDesc,
                 md_CompletedAt := (if final_status status then Some now else md_CompletedAt d),
                 md_UpdatedAt := now\<rparr>)
              (mpesa_deposits s)\<rparr>, Inr ()))"

definition GetPendingDeposits :: "faults \<Rightarrow> time \<Rightarrow> db \<Rightarrow> duration \<Rightarrow> deposit_error + MPesaDeposit list" where
  "GetPendingDeposits f now s olderThan =
     (if f QueryCall then Inl DepositStatement
      else Inr (sort_key md_CreatedAt
        (filter (\<lambda>d. md_Status d = MPesaDepositStatusPending \<and> md_CreatedAt d < now - olderThan)
           (mpesa_deposits s))))"

definition CountByUserID :: "faults \<Rightarrow> db \<Rightarrow> uuid \<Rightarrow> deposit_error + int" where
  "CountByUserID f s userID =
     (if f QueryCall then Inl DepositStatement
      else Inr (int (rows_affected (\<lambda>d. md_UserID d = userID) (mpesa_deposits s))))"

section \<open>The callback handler\<close>

text \<open>A value of the callback's metadata; everything that is not a JSON string is \<open>OtherValue\<close>.\<close>

datatype json_value = StringValue string | OtherValue

record stkCallback_body =
  cb_MerchantRequestID :: string
  cb_CheckoutRequestID :: string
  cb_ResultCode :: int
  cb_ResultDesc :: string
  cb_Item :: "(string \<times> json_value) list"

record stkAck =
  ack_ResultCode :: int
  ack_ResultDesc :: string

fun metaString :: "(string \<times> json_value) list \<Rightarrow> string \<Rightarrow> string" where
  "metaString [] name = ''''"
| "metaString ((n, v) # items) name =
     (if n = name then (case v of StringValue x \<Rightarrow> x | OtherValue \<Rightarrow> metaString items name)
      else metaString items name)"

record deposit_event =
  de_UserID :: uuid
  de_Amount :: decimal
  de_ProviderTxnID :: string

record 'd deposit_lookup =
  dl_FindByCheckoutID :: "'d \<Rightarrow> string \<Rightarrow> (uuid \<times> decimal) option"
  dl_MarkCompleted :: "'d \<Rightarrow> string \<Rightarrow> string \<Rightarrow> 'd \<times> bool"
  dl_MarkFailed :: "'d \<Rightarrow> string \<Rightarrow> string \<Rightarrow> 'd \<times> bool"

record 'd mpesa_state =
  ms_db :: db
  ms_lookup :: 'd
  ms_published :: "deposit_event list"

text \<open>What one request brings with it: the statements that fail, the clock, two fresh identifiers.\<close>

record callback_env =
  ce_faults :: faults
  ce_now :: time
  ce_tid :: uuid
  ce_ref :: uuid

definition deposit_movement :: "uuid \<Rightarrow> string \<Rightarrow> Movement" where
  "deposit_movement ref providerTxnID = \<lparr>
     m_UserID = 0, m_Amount = 0, m_Type = TransactionTypeDeposit, m_ReferenceID = Some ref,
     m_ReferenceType = ''DEPOSIT'', m_Description = ''M-Pesa STK deposit'', m_ProviderName = ''MPESA'',
     m_ProviderTxnID = providerTxnID, m_CountryCode = ''KE''\<rparr>"

text \<open>\<open>Inl\<close> is a body that does not decode, with the message of the decoder. The result is the HTTP
  status and the acknowledgement.\<close>

definition stkCallback ::
  "libs \<Rightarrow> 'd deposit_lookup \<Rightarrow> bool \<Rightarrow> callback_env \<Rightarrow> 'd mpesa_state \<Rightarrow> (string + stkCallback_body) \<Rightarrow>
     'd mpesa_state \<times> nat \<times> stkAck" where
  "stkCallback L D bus env s request =
     (case request of
        Inl message \<Rightarrow> (s, 400, \<lparr>ack_ResultCode = 1, ack_ResultDesc = message\<rparr>)
      | Inr cb \<Rightarrow>
          let checkoutID = cb_CheckoutRequestID cb in
          if checkoutID = '''' then
            (s, 400, \<lparr>ack_ResultCode = 1, ack_ResultDesc = ''missing CheckoutRequestID''\<rparr>)
          else if cb_ResultCode cb \<noteq> 0 then
            (s\<lparr>ms_lookup := fst (dl_MarkFailed D (ms_lookup s) checkoutID (cb_ResultDesc cb))\<rparr>,
             200, \<lparr>ack_ResultCode = 0, ack_ResultDesc = ''noted''\<rparr>)
          else case dl_FindByCheckoutID D (ms_lookup s) checkoutID of
            None \<Rightarrow> (s, 200, \<lparr>ack_ResultCode = 0, ack_ResultDesc = ''ignored''\<rparr>)
          | Some (userID, amount) \<Rightarrow>
              let providerTxnID = metaString (cb_Item cb) ''MpesaReceiptNumber'' in
              case Credit L (ce_faults env) (ce_now env) (ce_tid env) (ms_db s) userID amount
                     (deposit_movement (ce_ref env) providerTxnID) of
                (db', Inl e) \<Rightarrow>
                  (s\<lparr>ms_db := db'\<rparr>, 200, \<lparr>ack_ResultCode = 1, ack_ResultDesc = ''credit failed''\<rparr>)
              | (db', Inr rec) \<Rightarrow>
                  let lookup' = fst (dl_MarkCompleted D (ms_lookup s) checkoutID providerTxnID);
                      published' = (if bus then ms_published s @ [\<lparr>de_UserID = userID, de_Amount = amount,
                                      de_ProviderTxnID = providerTxnID\<rparr>] else ms_published s)
                  in (s\<lparr>ms_db := db', ms_lookup := lookup', ms_published := published'\<rparr>,
                      200, \<lparr>ack_ResultCode = 0, ack_ResultDesc = ''accepted''\<rparr>))"

text \<open>Callbacks in the order they arrive, and what each would credit if it is accepted.\<close>

fun deliver ::
  "libs \<Rightarrow> 'd deposit_lookup \<Rightarrow> bool \<Rightarrow> 'd mpesa_state \<Rightarrow> (callback_env \<times> (string + stkCallback_body)) list \<Rightarrow>
     'd mpesa_state \<times> (nat \<times> stkAck) list" where
  "deliver L D bus s [] = (s, [])"
| "deliver L D bus s ((env, request) # rest) =
     (let (s', r) = stkCallback L D bus env s request;
          (s'', rs) = deliver L D bus s' rest
      in (s'', r # rs))"

section \<open>Properties of the deposit table\<close>

inductive deposit_step :: "libs \<Rightarrow> (uuid \<Rightarrow> bool) \<Rightarrow> db \<Rightarrow> db \<Rightarrow> bool" for L users where
  step_create: "MPesa_Create L users f now s d = (s', r) \<Longrightarrow> deposit_step L users s s'"
| step_update: "MPesa_UpdateStatus f now s i st rn td rc rd = (s', r) \<Longrightarrow> deposit_step L users s s'"

inductive_cases deposit_stepE: "deposit_step L users s s'"

definition deposit_keys :: "db \<Rightarrow> (uuid \<times> string \<times> uuid \<times> decimal) list" where
  "deposit_keys s = map (\<lambda>d. (md_ID d, md_CheckoutRequestID d, md_UserID d, md_Amount d)) (mpesa_deposits s)"

definition deposits_ok :: "db \<Rightarrow> bool" where
  "deposits_ok s \<longleftrightarrow> distinct (map md_ID (mpesa_deposits s)) \<and>
     distinct (map md_CheckoutRequestID (mpesa_deposits s)) \<and>
     (\<forall>d \<in> set (mpesa_deposits s). has_scale 2 (md_Amount d))"

lemma mpesa_row_fields [simp]:
  "md_ID (mpesa_row a now d) = md_ID d" "md_CheckoutRequestID (mpesa_row a now d) = md_CheckoutRequestID d"
  "md_UserID (mpesa_row a now d) = md_UserID d" "md_Amount (mpesa_row a now d) = a"
  "md_Status (mpesa_row a now d) = md_Status d"
  by (simp_all add: mpesa_row_def)

lemma MPesa_Create_cases:
  assumes "MPesa_Create L users f now s d = (s', r)"
  obtains (refused) "s' = s" "isl r" | (stored) a where "r = Inr ()" "money_col L (md_Amount d) = Some a"
    "md_ID d \<notin> md_ID ` set (mpesa_deposits s)"
    "md_CheckoutRequestID d \<notin> md_CheckoutRequestID ` set (mpesa_deposits s)"
    "s' = s\<lparr>mpesa_deposits := mpesa_deposits s @ [mpesa_row a now d]\<rparr>"
proof (cases "if f InsertCall then None else money_col L (md_Amount d)")
  case None
  then show ?thesis using assms refused by (auto simp: MPesa_Create_def)
next
  case (Some a)
  show ?thesis
  proof (cases "md_ID d \<in> md_ID ` set (mpesa_deposits s) \<or>
      md_CheckoutRequestID d \<in> md_CheckoutRequestID ` set (mpesa_deposits s) \<or> \<not> users (md_UserID d)")
    case True
    then have "s' = s \<and> r = Inl DepositConstraint"
      using assms unfolding MPesa_Create_def Some by (simp only: option.case if_True prod.inject)
    then show ?thesis using refused by simp
  next
    case False
    then have "s' = s\<lparr>mpesa_deposits := mpesa_deposits s @ [mpesa_row a now d]\<rparr> \<and> r = Inr ()"
      using assms unfolding MPesa_Create_def Some by (simp only: option.case if_False prod.inject)
    then show ?thesis using stored [of a] False Some by (simp split: if_splits)
  qed
qed

lemma UpdateStatus_keys:
  "map md_ID (mpesa_deposits (fst (MPesa_UpdateStatus f now s i st rn td rc rd))) = map md_ID (mpesa_deposits s)"
  "map md_CheckoutRequestID (mpesa_deposits (fst (MPesa_UpdateStatus f now s i st rn td rc rd))) =
     map md_CheckoutRequestID (mpesa_deposits s)"
  "deposit_keys (fst (MPesa_UpdateStatus f now s i st rn td rc rd)) = deposit_keys s"
  by (auto simp: MPesa_UpdateStatus_def deposit_keys_def update_where_def)

lemma deposits_ok_keys:
  "deposits_ok s \<longleftrightarrow> distinct (map fst (deposit_keys s)) \<and> distinct (map (fst \<circ> snd) (deposit_keys s)) \<and>
     (\<forall>k \<in> set (deposit_keys s). has_scale 2 (snd (snd (snd k))))"
  by (auto simp: deposits_ok_def deposit_keys_def comp_def)

lemma deposit_step_keys:
  assumes "deposit_step L users s s'" "libs_ok L" "deposits_ok s"
  shows "deposits_ok s' \<and> set (deposit_keys s) \<subseteq> set (deposit_keys s')"
  using assms(1)
proof (rule deposit_stepE)
  fix f "now" d r assume "MPesa_Create L users f now s d = (s', r)"
  then show ?thesis
  proof (cases rule: MPesa_Create_cases)
    case (stored a)
    then show ?thesis
      using assms money_col_scale [of L "md_Amount d" a] by (auto simp: deposits_ok_def deposit_keys_def)
  qed (use assms in simp)
next
  fix f "now" i st rn td rc rd r assume "MPesa_UpdateStatus f now s i st rn td rc rd = (s', r)"
  then have "s' = fst (MPesa_UpdateStatus f now s i st rn td rc rd)" by simp
  then show ?thesis using assms(3) by (simp add: deposits_ok_keys UpdateStatus_keys(3))
qed

interpretation deposit_run: ordered_steps "deposit_step L users" "\<lambda>s. libs_ok L \<and> deposits_ok s"
  "\<lambda>s s'. set (deposit_keys s) \<subseteq> set (deposit_keys s')" for L users
  by unfold_locales (use deposit_step_keys in blast)+

lemma deposit_steps_keys:
  assumes "(deposit_step L users)\<^sup>*\<^sup>* s s'" "libs_ok L" "deposits_ok s"
  shows "deposits_ok s' \<and> set (deposit_keys s) \<subseteq> set (deposit_keys s')"
  using deposit_run.run_keeps [OF assms(1)] deposit_run.run_below [OF assms(1)] assms(2,3) by blast

lemma GetByCheckout_key:
  assumes "deposits_ok s" "(i, c, u, a) \<in> set (deposit_keys s)"
  shows "\<exists>d. GetByCheckoutRequestID no_faults s c = Inr d \<and>
    md_ID d = i \<and> md_CheckoutRequestID d = c \<and> md_UserID d = u \<and> md_Amount d = a"
proof -
  obtain e where e: "e \<in> set (mpesa_deposits s)" "md_ID e = i" "md_CheckoutRequestID e = c"
      "md_UserID e = u" "md_Amount e = a"
    using assms(2) by (auto simp: deposit_keys_def)
  then obtain d where d: "select_row (\<lambda>d. md_CheckoutRequestID d = c) (mpesa_deposits s) = Some d"
    using select_row_None [of "\<lambda>d. md_CheckoutRequestID d = c" "mpesa_deposits s"] by fastforce
  then have "d \<in> set (mpesa_deposits s)" "md_CheckoutRequestID d = c" by (auto dest: select_row_Some)
  then have "d = e" using assms(1) e(1,3) by (auto simp: deposits_ok_def distinct_map inj_on_def)
  then show ?thesis using e d by (simp add: GetByCheckoutRequestID_def)
qed

text \<open>The callback finds its deposit. A deposit that was stored is found by its checkout request
  after any number of later inserts and status changes, with the identifier, the player and the
  amount (as the column rounds it) it was stored with, and a checkout request that is stored a
  second time is refused.\<close>

theorem mpesa_deposit_found:
  assumes "libs_ok L" "deposits_ok s" "MPesa_Create L users f now s d = (s1, Inr ())"
    and "(deposit_step L users)\<^sup>*\<^sup>* s1 s2"
  shows "(\<exists>e. GetByCheckoutRequestID no_faults s2 (md_CheckoutRequestID d) = Inr e \<and>
      md_ID e = md_ID d \<and> md_UserID e = md_UserID d \<and> nearest_at 2 (md_Amount d) (md_Amount e)) \<and>
    (\<forall>d' f' now'. md_CheckoutRequestID d' = md_CheckoutRequestID d \<longrightarrow>
      fst (MPesa_Create L users f' now' s2 d') = s2 \<and> isl (snd (MPesa_Create L users f' now' s2 d')))"
proof -
  from assms(3) obtain a where a: "money_col L (md_Amount d) = Some a"
      "s1 = s\<lparr>mpesa_deposits := mpesa_deposits s @ [mpesa_row a now d]\<rparr>"
    by (cases rule: MPesa_Create_cases) auto
  have s1: "deposits_ok s1"
    using deposit_step_keys [OF step_create [OF assms(3)] assms(1,2)] by simp
  have "(md_ID d, md_CheckoutRequestID d, md_UserID d, a) \<in> set (deposit_keys s1)"
    by (simp add: a deposit_keys_def)
  with deposit_steps_keys [OF assms(4,1) s1]
  have s2: "deposits_ok s2" "(md_ID d, md_CheckoutRequestID d, md_UserID d, a) \<in> set (deposit_keys s2)"
    by blast+
  have "md_CheckoutRequestID d \<in> md_CheckoutRequestID ` set (mpesa_deposits s2)"
    using s2(2) by (force simp: deposit_keys_def)
  then have "fst (MPesa_Create L users f' now' s2 d') = s2 \<and> isl (snd (MPesa_Create L users f' now' s2 d'))"
    if "md_CheckoutRequestID d' = md_CheckoutRequestID d" for d' f' now'
    using that by (auto simp: MPesa_Create_def split: option.split)
  moreover have "nearest_at 2 (md_Amount d) a" using a(1) assms(1) by (simp add: money_col_nearest)
  ultimately show ?thesis using GetByCheckout_key [OF s2] by auto
qed

section \<open>Properties of the callbacks\<close>

definition credited :: "deposit_event list \<Rightarrow> uuid \<Rightarrow> decimal" where
  "credited es u = sum_list (map de_Amount (filter (\<lambda>e. de_UserID e = u) es))"

lemma credited_simps [simp]:
  "credited [] u = 0" "credited (es @ es') u = credited es u + credited es' u"
  "credited [e] u = (if de_UserID e = u then de_Amount e else 0)"
  by (simp_all add: credited_def)

definition cents_lookup :: "'d deposit_lookup \<Rightarrow> bool" where
  "cents_lookup D \<longleftrightarrow> (\<forall>d c u a. dl_FindByCheckoutID D d c = Some (u, a) \<longrightarrow> has_scale 2 a)"

definition acked :: "nat \<times> stkAck \<Rightarrow> bool" where
  "acked r \<longleftrightarrow> r = (200, \<lparr>ack_ResultCode = 0, ack_ResultDesc = ''accepted''\<rparr>)"

text \<open>The contract of the wallet service, read for one call.\<close>

lemma Credit_Inr_moves:
  assumes "Credit L f now tid s u a m = (s', Inr r)" "libs_ok L" "wallets_ok s" "has_scale 2 a"
  shows "wallets_ok s' \<and> user_balance s' = (user_balance s)(u := user_balance s u + a) \<and> 0 < a"
  using ws.credit_Inr [where env = "(f, now, tid)", simplified, OF conjI [OF assms(2,3)] assms(4,1)] by simp

lemma Credit_Inl_keeps: "Credit L f now tid s u a m = (s', Inl e) \<Longrightarrow> s' = s"
  using ws.credit_Inl [where env = "(f, now, tid)", simplified] by blast

text \<open>A callback either changes neither the database nor what was published, or credits and publishes.\<close>

lemma stkCallback_cases:
  assumes "stkCallback L D True env s request = (s', r)"
  obtains "ms_db s' = ms_db s" "ms_published s' = ms_published s" "\<not> acked r"
  | u a m rec p c where "dl_FindByCheckoutID D (ms_lookup s) c = Some (u, a)"
      "Credit L (ce_faults env) (ce_now env) (ce_tid env) (ms_db s) u a m = (ms_db s', Inr rec)"
      "ms_published s' = ms_published s @ [\<lparr>de_UserID = u, de_Amount = a, de_ProviderTxnID = p\<rparr>]" "acked r"
proof (cases request)
  case (Inl message)
  then show ?thesis using assms that(1) by (auto simp: stkCallback_def acked_def)
next
  case (Inr cb)
  let ?c = "cb_CheckoutRequestID cb"
  show ?thesis
  proof (cases "?c = [] \<or> cb_ResultCode cb \<noteq> 0 \<or> dl_FindByCheckoutID D (ms_lookup s) ?c = None")
    case True
    then show ?thesis using assms Inr that(1) by (auto simp: stkCallback_def acked_def Let_def split: if_splits)
  next
    case False
    then obtain u a where f: "dl_FindByCheckoutID D (ms_lookup s) ?c = Some (u, a)" by auto
    let ?m = "deposit_movement (ce_ref env) (metaString (cb_Item cb) ''MpesaReceiptNumber'')"
    let ?k = "Credit L (ce_faults env) (ce_now env) (ce_tid env) (ms_db s) u a ?m"
    obtain db' x where k: "?k = (db', x)" by (cases ?k)
    show ?thesis
    proof (cases x)
      case (Inl e)
      then have "db' = ms_db s" using k Credit_Inl_keeps by blast
      then show ?thesis using assms Inr False f k Inl that(1) by (auto simp: stkCallback_def acked_def Let_def)
    next
      case (Inr rec)
      then show ?thesis
        using assms \<open>request = Inr cb\<close> False f k that(2) [OF f, of ?m rec]
        by (auto simp: stkCallback_def acked_def Let_def)
    qed
  qed
qed

lemma stkCallback_step:
  assumes "stkCallback L D True env s request = (s', r)" "libs_ok L" "wallets_ok (ms_db s)" "cents_lookup D"
  shows "wallets_ok (ms_db s') \<and> (\<exists>es. ms_published s' = ms_published s @ es \<and>
    (\<forall>u. user_balance (ms_db s') u = user_balance (ms_db s) u + credited es u) \<and>
    length es = (if acked r then 1 else 0) \<and> (\<forall>e \<in> set es. 0 < de_Amount e))"
  using assms(1)
proof (cases rule: stkCallback_cases)
  case 1
  then show ?thesis using assms(3) by simp
next
  case (2 u a m rec p c)
  then have "has_scale 2 a" using assms(4) unfolding cents_lookup_def by blast
  from Credit_Inr_moves [OF 2(2) assms(2,3) this] show ?thesis using 2(3,4) by simp
qed

text \<open>C26: however many callbacks arrive, in whatever order and with whatever content, the books and the
  messages agree: every player's balance is what it was plus the deposits announced for that
  player, all of them positive, no wallet becomes negative, and there is exactly one announcement
  for every callback that was acknowledged as accepted.\<close>

theorem mpesa_deliveries_balance:
  assumes "libs_ok L" "wallets_ok (ms_db s)" "cents_lookup D"
    and "deliver L D True s requests = (s', rs)"
  shows "wallets_ok (ms_db s') \<and> (\<exists>es. ms_published s' = ms_published s @ es \<and>
    (\<forall>u. user_balance (ms_db s') u = user_balance (ms_db s) u + credited es u) \<and>
    length es = length (filter acked rs) \<and> (\<forall>e \<in> set es. 0 < de_Amount e))"
  using assms(2,4)
proof (induction requests arbitrary: s rs)
  case Nil
  then show ?case by simp
next
  case (Cons q requests)
  obtain env request where q: "q = (env, request)" by (cases q)
  obtain s1 r where r: "stkCallback L D True env s request = (s1, r)" by (rule prod.exhaust)
  obtain rs1 where d: "deliver L D True s1 requests = (s', rs1)" "rs = r # rs1"
    using Cons.prems(2) by (auto simp: q r split: prod.splits)
  from stkCallback_step [OF r assms(1) Cons.prems(1) assms(3)] obtain es where es:
      "wallets_ok (ms_db s1)" "ms_published s1 = ms_published s @ es"
      "\<forall>u. user_balance (ms_db s1) u = user_balance (ms_db s) u + credited es u"
      "length es = (if acked r then 1 else 0)" "\<forall>e \<in> set es. 0 < de_Amount e" by blast
  from Cons.IH [OF es(1) d(1)] obtain es' where es':
      "wallets_ok (ms_db s')" "ms_published s' = ms_published s1 @ es'"
      "\<forall>u. user_balance (ms_db s') u = user_balance (ms_db s1) u + credited es' u"
      "length es' = length (filter acked rs1)" "\<forall>e \<in> set es'. 0 < de_Amount e" by blast
  have "ms_published s' = ms_published s @ (es @ es')" using es(2) es'(2) by simp
  moreover have "user_balance (ms_db s') u = user_balance (ms_db s) u + credited (es @ es') u" for u
    using es(3) es'(3) by simp
  moreover have "length (es @ es') = length (filter acked rs)" using es(4) es'(4) d(2) by simp
  moreover have "\<forall>e \<in> set (es @ es'). 0 < de_Amount e" using es(5) es'(5) by auto
  ultimately show ?case using es'(1) by blast
qed

section \<open>A player who deposits\<close>

definition sample_deposit :: "string \<Rightarrow> uuid \<Rightarrow> MPesaDeposit" where
  "sample_deposit c i = \<lparr>md_ID = i, md_MerchantRequestID = ''M'', md_CheckoutRequestID = c, md_UserID = 7,
     md_PhoneNumber = ''2547'', md_Amount = 50, md_Currency = ''KES'', md_Status = MPesaDepositStatusPending,
     md_Reference = ''R'', md_Description = ''D'', md_MpesaReceiptNumber = None, md_TransactionDate = None,
     md_ResultCode = None, md_ResultDesc = None, md_CreatedAt = 0, md_UpdatedAt = 0, md_CompletedAt = None\<rparr>"

abbreviation stored_deposit :: "string \<Rightarrow> uuid \<Rightarrow> db \<Rightarrow> db" where
  "stored_deposit c i s \<equiv> fst (MPesa_Create std_libs (\<lambda>u. u = 7) no_faults 5 s (sample_deposit c i))"

lemma sample_deposit_create:
  "MPesa_Create std_libs (\<lambda>u. u = 7) no_faults 5 sample_db (sample_deposit ''C'' 1) =
     (stored_deposit ''C'' 1 sample_db, Inr ())"
  by (rule prod_eqI) (simp, code_simp)

lemma sample_deposit_step:
  "(deposit_step std_libs (\<lambda>u. u = 7))\<^sup>*\<^sup>* (stored_deposit ''C'' 1 sample_db)
     (stored_deposit ''E'' 2 (stored_deposit ''C'' 1 sample_db))"
  by (rule r_into_rtranclp, rule step_create) (rule surjective_pairing)

theorem mpesa_deposit_found_witness:
  "\<exists>e. GetByCheckoutRequestID no_faults (stored_deposit ''E'' 2 (stored_deposit ''C'' 1 sample_db)) ''C'' = Inr e \<and>
     md_ID e = 1 \<and> md_UserID e = 7 \<and> nearest_at 2 50 (md_Amount e)"
proof -
  have "deposits_ok sample_db" by code_simp
  from mpesa_deposit_found [OF std_libs_ok this sample_deposit_create sample_deposit_step]
  show ?thesis by (simp add: sample_deposit_def)
qed

definition sample_lookup :: "unit deposit_lookup" where
  "sample_lookup = \<lparr>dl_FindByCheckoutID = (\<lambda>d c. if c = ''C'' then Some (7, 50) else None),
     dl_MarkCompleted = (\<lambda>d c p. (d, True)), dl_MarkFailed = (\<lambda>d c p. (d, True))\<rparr>"

definition sample_callback :: "callback_env \<times> (string + stkCallback_body)" where
  "sample_callback = (\<lparr>ce_faults = no_faults, ce_now = 9, ce_tid = 11, ce_ref = 12\<rparr>,
     Inr \<lparr>cb_MerchantRequestID = ''M'', cb_CheckoutRequestID = ''C'', cb_ResultCode = 0, cb_ResultDesc = ''ok'',
       cb_Item = [(''Amount'', OtherValue), (''MpesaReceiptNumber'', StringValue ''QX1'')]\<rparr>)"

abbreviation sample_mpesa :: "unit mpesa_state" where
  "sample_mpesa \<equiv> \<lparr>ms_db = sample_db, ms_lookup = (), ms_published = []\<rparr>"

lemma sample_lookup_cents: "cents_lookup sample_lookup"
proof -
  have "has_scale 2 (50 :: decimal)" by code_simp
  then show ?thesis by (auto simp: cents_lookup_def sample_lookup_def split: if_splits)
qed

theorem mpesa_deliveries_balance_witness:
  "length (filter acked (snd (deliver std_libs sample_lookup True sample_mpesa [sample_callback]))) = 1 \<and>
   user_balance (ms_db (fst (deliver std_libs sample_lookup True sample_mpesa [sample_callback]))) 7 = 150"
proof -
  let ?r = "deliver std_libs sample_lookup True sample_mpesa [sample_callback]"
  have w: "wallets_ok (ms_db sample_mpesa)" by code_simp
  obtain es where es: "ms_published (fst ?r) = [] @ es"
      "user_balance (ms_db (fst ?r)) 7 = user_balance sample_db 7 + credited es 7"
      "length es = length (filter acked (snd ?r))"
    using mpesa_deliveries_balance [OF std_libs_ok w sample_lookup_cents surjective_pairing] by auto
  have "ms_published (fst ?r) = [\<lparr>de_UserID = 7, de_Amount = 50, de_ProviderTxnID = ''QX1''\<rparr>]" by code_simp
  with es(1) have "es = [\<lparr>de_UserID = 7, de_Amount = 50, de_ProviderTxnID = ''QX1''\<rparr>]" by simp
  moreover have "user_balance sample_db 7 = 100" by code_simp
  ultimately show ?thesis using es(2,3) by simp
qed

text \<open>
  Nothing asks whether the deposit is still pending: a callback that is delivered twice is
  credited twice, under the same receipt number.
\<close>

lemma mpesa_replay_credits_again:
  "user_balance (ms_db (fst (deliver std_libs sample_lookup True sample_mpesa [sample_callback, sample_callback]))) 7
     = user_balance sample_db 7 + 2 * 50"
  by code_simp

end
