(* ===== verification/VirtualSports.thy ===== *)
theory VirtualSports
  imports Snowflake "HOL-Library.AList"
begin

text \<open>
  \<open>internal/virtualsports\<close>: simulated games kept in memory, and the bets on them. The wallet the
  service debits is an interface of the package that no code of the repository implements; it is
  the argument \<open>debit\<close> over a state \<open>'w\<close> of its own. A game status is a string, as in the code,
  which compares it with constants of the type and with plain literals. Identifiers and random
  numbers are arguments.
\<close>

section \<open>Types\<close>

type_synonym VirtualGameStatus = string

definition GameStatusScheduled :: VirtualGameStatus where
  "GameStatusScheduled = ''SCHEDULED''"

record VirtualTeam =
  vt_ID :: string
  vt_Name :: string
  vt_ShortName :: string

record VirtualScore =
  sc_HomeScore :: int
  sc_AwayScore :: int
  sc_Period :: int

record VirtualOdds =
  vo_MarketID :: string
  vo_MarketName :: string
  vo_HomeOdds :: decimal
  vo_DrawOdds :: decimal
  vo_AwayOdds :: decimal

record VirtualGame =
  vg_ID :: string
  vg_Sport :: string
  vg_HomeTeam :: VirtualTeam
  vg_AwayTeam :: VirtualTeam
  vg_Status :: VirtualGameStatus
  vg_Score :: "VirtualScore option"
  vg_Odds :: "VirtualOdds list"
  vg_StartTime :: time

record VirtualBetRequest =
  vr_GameID :: string
  vr_UserID :: string
  vr_MarketID :: string
  vr_OutcomeID :: string
  vr_Amount :: decimal
  vr_Odds :: decimal

record VirtualBetResponse =
  vp_BetID :: string
  vp_Success :: bool
  vp_Message :: string
  vp_Amount :: decimal
  vp_Odds :: decimal
  vp_PotentialWin :: decimal

record VirtualMovement =
  vm_UserID :: string
  vm_Amount :: decimal
  vm_Type :: string
  vm_ReferenceID :: string
  vm_ReferenceType :: string
  vm_Description :: string
  vm_ProviderName :: string
  vm_ProviderTxnID :: string
  vm_CountryCode :: string

record VirtualSportsMetrics =
  vx_TotalGames :: int
  vx_ActiveGames :: int
  vx_CompletedGames :: int
  vx_LastActivity :: time

record VirtualSportsService =
  vs_games :: "(string \<times> VirtualGame) list"
  vs_published :: "VirtualBetResponse list"

datatype virtual_error = GameNotFound | GameCannotBeStarted | PaymentFailed

section \<open>Operations\<close>

definition NewVirtualSportsService :: VirtualSportsService where
  "NewVirtualSportsService = \<lparr>vs_games = [], vs_published = []\<rparr>"

definition generateTeam :: "nat \<Rightarrow> VirtualTeam" where
  "generateTeam r = \<lparr>vt_ID = ''team_'' @ show_nat r, vt_Name = ''Team'', vt_ShortName = ''TM''\<rparr>"

definition generateOdds :: "libs \<Rightarrow> VirtualTeam \<Rightarrow> VirtualTeam \<Rightarrow> VirtualOdds list" where
  "generateOdds L homeTeam awayTeam =
     [\<lparr>vo_MarketID = ''moneyline'', vo_MarketName = ''Moneyline'',
       vo_HomeOdds = dec_of_float L (fl (21 / 10)), vo_DrawOdds = dec_of_float L (fl (35 / 10)),
       vo_AwayOdds = dec_of_float L (fl (18 / 10))\<rparr>]"

definition CreateVirtualGame ::
  "libs \<Rightarrow> time \<Rightarrow> string \<Rightarrow> nat \<Rightarrow> nat \<Rightarrow> VirtualSportsService \<Rightarrow> string \<Rightarrow> VirtualSportsService \<times> VirtualGame" where
  "CreateVirtualGame L now gid r1 r2 s gameType =
     (let homeTeam = generateTeam r1; awayTeam = generateTeam r2;
          game = \<lparr>vg_ID = ''game_'' @ gid, vg_Sport = gameType, vg_HomeTeam = homeTeam, vg_AwayTeam = awayTeam,
                  vg_Status = GameStatusScheduled, vg_Score = None, vg_Odds = generateOdds L homeTeam awayTeam,
                  vg_StartTime = now + 5 * Minute\<rparr>
      in (s\<lparr>vs_games := AList.update (vg_ID game) game (vs_games s)\<rparr>, game))"

text \<open>The simulation the game is handed to in the background does nothing.\<close>

definition VirtualStartGame ::
  "time \<Rightarrow> VirtualSportsService \<Rightarrow> string \<Rightarrow> VirtualSportsService \<times> (virtual_error + unit)" where
  "VirtualStartGame now s gameID =
     (case map_of (vs_games s) gameID of
        None \<Rightarrow> (s, Inl GameNotFound)
      | Some game \<Rightarrow>
          if vg_Status game \<noteq> ''upcoming'' then (s, Inl GameCannotBeStarted)
          else (s\<lparr>vs_games := AList.update gameID
                  (game\<lparr>vg_Status := ''live'', vg_StartTime := now,
                     vg_Score := Some \<lparr>sc_HomeScore = 0, sc_AwayScore = 0, sc_Period = 0\<rparr>\<rparr>)
                  (vs_games s)\<rparr>, Inr ()))"

definition VirtualGetGame :: "VirtualSportsService \<Rightarrow> string \<Rightarrow> virtual_error + VirtualGame" where
  "VirtualGetGame s gameID =
     (case map_of (vs_games s) gameID of None \<Rightarrow> Inl GameNotFound | Some game \<Rightarrow> Inr game)"

text \<open>The games of the map, in some order.\<close>

definition GetActiveGames :: "VirtualSportsService \<Rightarrow> VirtualGame list" where
  "GetActiveGames s =
     filter (\<lambda>g. vg_Status g = ''live'' \<or> vg_Status g = ''upcoming'') (map snd (vs_games s))"

definition bet_refused :: "string \<Rightarrow> VirtualBetResponse" where
  "bet_refused message =
     \<lparr>vp_BetID = [], vp_Success = False, vp_Message = message, vp_Amount = 0, vp_Odds = 0, vp_PotentialWin = 0\<rparr>"

definition VirtualPlaceBet ::
  "('w \<Rightarrow> string \<Rightarrow> decimal \<Rightarrow> VirtualMovement \<Rightarrow> 'w \<times> bool) \<Rightarrow> string \<Rightarrow> 'w \<times> VirtualSportsService \<Rightarrow>
     VirtualBetRequest \<Rightarrow> ('w \<times> VirtualSportsService) \<times> VirtualBetResponse \<times> virtual_error option" where
  "VirtualPlaceBet debit gid ws req =
     (case ws of (w, s) \<Rightarrow>
        case map_of (vs_games s) (vr_GameID req) of
          None \<Rightarrow> ((w, s), bet_refused ''game not found'', None)
        | Some game \<Rightarrow>
            if vg_Status game \<noteq> ''upcoming'' then
              ((w, s), bet_refused ''betting not allowed for this game'', None)
            else if \<not> (\<exists>o' \<in> set (vg_Odds game). vo_MarketID o' = vr_MarketID req) then
              ((w, s), bet_refused ''invalid outcome or odds'', None)
            else
              let potentialWin = vr_Amount req * vr_Odds req;
                  movement = \<lparr>vm_UserID = vr_UserID req, vm_Amount = vr_Amount req, vm_Type = ''WITHDRAWAL'',
                    vm_ReferenceID = vr_GameID req, vm_ReferenceType = ''virtual_sports_bet'',
                    vm_Description = ''Bet on game '' @ vg_ID game, vm_ProviderName = ''virtual_sports'',
                    vm_ProviderTxnID = [], vm_CountryCode = ''KE''\<rparr>;
                  (w', paid) = debit w (vr_UserID req) (vr_Amount req) movement
              in if \<not> paid then ((w', s), bet_refused ''failed to process payment'', Some PaymentFailed)
                 else
                   let response = \<lparr>vp_BetID = ''bet_'' @ gid, vp_Success = True,
                         vp_Message = ''bet placed successfully'', vp_Amount = vr_Amount req,
                         vp_Odds = vr_Odds req, vp_PotentialWin = potentialWin\<rparr>
                   in ((w', s\<lparr>vs_published := vs_published s @ [response]\<rparr>), response, None))"

definition Virtual_GetMetrics :: "time \<Rightarrow> VirtualSportsService \<Rightarrow> VirtualSportsMetrics" where
  "Virtual_GetMetrics now s =
     \<lparr>vx_TotalGames = int (length (vs_games s)),
      vx_ActiveGames = int (length (filter (\<lambda>g. vg_Status (snd g) = ''live'') (vs_games s))),
      vx_CompletedGames = int (length (filter (\<lambda>g. vg_Status (snd g) = ''completed'') (vs_games s))),
      vx_LastActivity = now\<rparr>"

section \<open>Every game stays scheduled\<close>

inductive virtual_step ::
  "libs \<Rightarrow> ('w \<Rightarrow> string \<Rightarrow> decimal \<Rightarrow> VirtualMovement \<Rightarrow> 'w \<times> bool) \<Rightarrow>
     'w \<times> VirtualSportsService \<Rightarrow> 'w \<times> VirtualSportsService \<Rightarrow> bool" for L debit where
  virtual_create: "CreateVirtualGame L now gid r1 r2 s sport = (s', g) \<Longrightarrow> virtual_step L debit (w, s) (w, s')"
| virtual_start: "VirtualStartGame now s gameID = (s', r) \<Longrightarrow> virtual_step L debit (w, s) (w, s')"
| virtual_bet: "VirtualPlaceBet debit gid (w, s) req = ((w', s'), resp, e) \<Longrightarrow> virtual_step L debit (w, s) (w', s')"

inductive_cases virtual_stepE: "virtual_step L debit ws ws'"

definition all_scheduled :: "VirtualSportsService \<Rightarrow> bool" where
  "all_scheduled s \<longleftrightarrow> distinct (map fst (vs_games s)) \<and>
     (\<forall>g \<in> set (vs_games s). vg_Status (snd g) = GameStatusScheduled)"

lemma all_scheduled_lookup:
  "all_scheduled s \<Longrightarrow> map_of (vs_games s) i = Some g \<Longrightarrow> vg_Status g = ''SCHEDULED''"
  by (auto simp: all_scheduled_def GameStatusScheduled_def dest!: map_of_SomeD)

lemma VirtualPlaceBet_refused:
  assumes "all_scheduled s"
  shows "fst (VirtualPlaceBet debit gid (w, s) req) = (w, s) \<and>
    \<not> vp_Success (fst (snd (VirtualPlaceBet debit gid (w, s) req)))"
  using all_scheduled_lookup [OF assms, of "vr_GameID req"]
  by (auto simp: VirtualPlaceBet_def bet_refused_def split: option.split)

lemma VirtualStartGame_refused:
  assumes "all_scheduled s"
  shows "fst (VirtualStartGame now s gameID) = s \<and> isl (snd (VirtualStartGame now s gameID))"
  using all_scheduled_lookup [OF assms, of gameID] by (auto simp: VirtualStartGame_def split: option.split)

lemma CreateVirtualGame_scheduled:
  assumes "all_scheduled s"
  shows "all_scheduled (fst (CreateVirtualGame L now gid r1 r2 s sport))"
proof -
  have "vg_Status v = GameStatusScheduled" if "(k, v) \<in> set (AList.update i g (vs_games s))"
      "vg_Status g = GameStatusScheduled" for i g k v
  proof -
    have "distinct (map fst (AList.update i g (vs_games s)))"
      using assms by (simp add: all_scheduled_def distinct_update)
    then have "map_of (AList.update i g (vs_games s)) k = Some v" using that(1) by simp
    then have "v = g \<or> map_of (vs_games s) k = Some v" by (auto simp: update_conv' split: if_splits)
    then show ?thesis using that(2) all_scheduled_lookup [OF assms] by (auto simp: GameStatusScheduled_def)
  qed
  then show ?thesis
    using assms by (auto simp: CreateVirtualGame_def Let_def all_scheduled_def distinct_update)
qed

lemma virtual_step_keeps:
  assumes "virtual_step L debit ws ws'" "all_scheduled (snd ws)"
  shows "fst ws' = fst ws \<and> all_scheduled (snd ws')"
  using assms(1)
proof (rule virtual_stepE)
  fix "now" gid r1 r2 s sport s' g w
  assume "ws = (w, s)" "ws' = (w, s')" "CreateVirtualGame L now gid r1 r2 s sport = (s', g)"
  then show ?thesis
    using assms(2) CreateVirtualGame_scheduled [of s L "now" gid r1 r2 sport] by simp
next
  fix "now" s gameID s' r w
  assume "ws = (w, s)" "ws' = (w, s')" "VirtualStartGame now s gameID = (s', r)"
  then show ?thesis using assms(2) VirtualStartGame_refused [of s "now" gameID] by simp
next
  fix gid w s req w' s' resp e
  assume ws: "ws = (w, s)" "ws' = (w', s')" "VirtualPlaceBet debit gid (w, s) req = ((w', s'), resp, e)"
  then have "(w', s') = (w, s)"
    using assms(2) VirtualPlaceBet_refused [of s debit gid w req] unfolding ws(3) ws(1) by (simp only: fst_conv snd_conv)
  then show ?thesis using ws(1,2) assms(2) by simp
qed

interpretation virtual_run: step_system "virtual_step L debit" "\<lambda>ws. fst ws = start \<and> all_scheduled (snd ws)" for L debit start
  by unfold_locales (auto dest: virtual_step_keeps)

text \<open>No virtual game ever opens. A game is created as \<open>SCHEDULED\<close>, while starting it and betting
  on it ask for the status \<open>upcoming\<close>, which nothing sets. So in every state the service can
  reach, whatever was created, started and bet before, every start and every bet is refused, no
  player has been debited, nothing was published and no game is listed as active.\<close>

theorem virtual_sports_never_open:
  assumes "(virtual_step L debit)\<^sup>*\<^sup>* (w0, NewVirtualSportsService) (w, s)"
  shows "w = w0 \<and> GetActiveGames s = [] \<and> isl (snd (VirtualStartGame now s gameID)) \<and>
    fst (VirtualPlaceBet debit gid (w, s) req) = (w0, s) \<and>
    \<not> vp_Success (fst (snd (VirtualPlaceBet debit gid (w, s) req)))"
proof -
  have s: "w = w0" "all_scheduled s"
    using virtual_run.run_keeps [OF assms, where start = w0] by (simp_all add: all_scheduled_def NewVirtualSportsService_def)
  then have "GetActiveGames s = []"
    by (auto simp: GetActiveGames_def all_scheduled_def GameStatusScheduled_def filter_empty_conv)
  then show ?thesis
    using s VirtualStartGame_refused [OF s(2)] VirtualPlaceBet_refused [OF s(2), of debit gid w req] by simp
qed

abbreviation sample_virtual :: VirtualSportsService where
  "sample_virtual \<equiv> fst (CreateVirtualGame std_libs 0 ''7'' 1 2 NewVirtualSportsService ''FOOTBALL'')"

lemma sample_virtual_reached:
  "(virtual_step std_libs (\<lambda>w u a m. (w - a, True)))\<^sup>*\<^sup>* (100, NewVirtualSportsService) (100, sample_virtual)"
  by (rule r_into_rtranclp, rule virtual_create) (rule surjective_pairing)

theorem virtual_sports_never_open_witness:
  "\<not> vp_Success (fst (snd (VirtualPlaceBet (\<lambda>w u a m. (w - a, True)) ''9'' (100, sample_virtual)
      \<lparr>vr_GameID = ''game_7'', vr_UserID = ''u'', vr_MarketID = ''moneyline'', vr_OutcomeID = ''home'',
       vr_Amount = 10, vr_Odds = 2\<rparr>))) \<and>
   isl (snd (VirtualStartGame 0 sample_virtual ''game_7''))"
  using virtual_sports_never_open [OF sample_virtual_reached] by blast

end
