(* ===== verification/RateLimit.thy ===== *)
theory RateLimit
  imports Prelude
begin

text \<open>
  \<open>internal/infrastructure/ratelimit\<close>: the request limits kept in Redis. The decision is a Lua
  script that the server runs atomically; it is translated here as part of the program. Lua
  numbers and the scores of a sorted set are doubles (\<open>fl\<close>), the members are the digits of the
  instant. \<open>srv\<close> is the server's clock in nanoseconds; a key that has expired is absent.
  \<open>score_int\<close> is what \<open>toInt64\<close> makes of a score as the server prints it, \<open>parse_ip\<close> the
  normalised text of an address, both of which depend on code outside the repository.
\<close>

section \<open>Redis\<close>

type_synonym zset = "(string \<times> rat) list"

record rkey =
  rk_entries :: zset
  rk_expires :: "time option"

type_synonym redis = "(string \<times> rkey) list"

definition rk_empty :: rkey where
  "rk_empty = \<lparr>rk_entries = [], rk_expires = None\<rparr>"

definition rk_live :: "time \<Rightarrow> rkey \<Rightarrow> bool" where
  "rk_live srv k \<longleftrightarrow> rk_entries k \<noteq> [] \<and> (case rk_expires k of None \<Rightarrow> True | Some e \<Rightarrow> srv < e)"

definition rk_get :: "time \<Rightarrow> redis \<Rightarrow> string \<Rightarrow> rkey" where
  "rk_get srv R key =
     (case map_of R key of None \<Rightarrow> rk_empty | Some k \<Rightarrow> if rk_live srv k then k else rk_empty)"

definition redis_put :: "redis \<Rightarrow> string \<Rightarrow> rkey \<Rightarrow> redis" where
  "redis_put R key k = (key, k) # filter (\<lambda>e. fst e \<noteq> key) R"

definition redis_del :: "redis \<Rightarrow> string \<Rightarrow> redis" where
  "redis_del R key = filter (\<lambda>e. fst e \<noteq> key) R"

definition zremrangebyscore :: "rat \<Rightarrow> rat \<Rightarrow> zset \<Rightarrow> zset" where
  "zremrangebyscore a b z = filter (\<lambda>e. \<not> (a \<le> snd e \<and> snd e \<le> b)) z"

definition zadd :: "rat \<Rightarrow> string \<Rightarrow> zset \<Rightarrow> zset" where
  "zadd score member z = (member, score) # filter (\<lambda>e. fst e \<noteq> member) z"

definition lowest_score :: "zset \<Rightarrow> rat option" where
  "lowest_score z = (case map snd z of [] \<Rightarrow> None | x # xs \<Rightarrow> Some (foldl min x xs))"

section \<open>The limiter\<close>

record RateConfig =
  UserRequestsPerWindow :: int
  UserWindow :: duration
  IPRequestsPerWindow :: int
  IPWindow :: duration
  GlobalRequestsPerWindow :: int
  GlobalWindow :: duration
  UserPrefix :: string
  IPPrefix :: string
  GlobalPrefix :: string

definition DefaultConfig :: RateConfig where
  "DefaultConfig = \<lparr>UserRequestsPerWindow = 200, UserWindow = Minute, IPRequestsPerWindow = 50, IPWindow = Minute,
     GlobalRequestsPerWindow = 1000, GlobalWindow = Minute, UserPrefix = ''rate_limit:user:'',
     IPPrefix = ''rate_limit:ip:'', GlobalPrefix = ''rate_limit:global:''\<rparr>"

record LimitResult =
  lr_Allowed :: bool
  lr_Remaining :: int
  lr_ResetTime :: time
  lr_RetryAfter :: duration
  lr_LimitType :: string
  lr_Key :: string

text \<open>
  The script: drop the entries up to the start of the window, count the rest, refuse when the
  limit is reached, otherwise add the request. The result is the reply's array: the verdict, the
  second and third elements, and the fourth where there is one.
\<close>

definition lua_check ::
  "time \<Rightarrow> redis \<Rightarrow> string \<Rightarrow> time \<Rightarrow> time \<Rightarrow> int \<Rightarrow> time \<Rightarrow> redis \<times> bool \<times> int \<times> int \<times> rat option" where
  "lua_check srv R key window_start window_end limit now =
     (let k = rk_get srv R key;
          z = zremrangebyscore 0 (fl (fl (of_int window_start) - 1)) (rk_entries k);
          current = int (length z)
      in if current \<ge> limit then
           (redis_put R key (k\<lparr>rk_entries := z\<rparr>), False, limit, current, lowest_score z)
         else
           (redis_put R key
              \<lparr>rk_entries = zadd (fl (of_int now)) (show_nat (nat now)) z,
               rk_expires = Some (srv + \<lceil>fl (fl (fl (of_int window_end) - fl (of_int window_start)) / 1000000000)\<rceil> * Second)\<rparr>,
            True, limit - current, limit - current, Some (of_int now)))"

definition checkLimit ::
  "(rat \<Rightarrow> int) \<Rightarrow> time \<Rightarrow> time \<Rightarrow> redis \<Rightarrow> string \<Rightarrow> int \<Rightarrow> duration \<Rightarrow> string \<Rightarrow> redis \<times> LimitResult" where
  "checkLimit score_int srv now R key limit window limitType =
     (let windowStart = time_truncate now window;
          windowEnd = windowStart + window;
          (R', allowed, remaining, current, slot) = lua_check srv R key windowStart windowEnd limit now;
          resetTime = (case slot of
              None \<Rightarrow> windowEnd
            | Some x \<Rightarrow> if allowed then now else score_int x)
      in (R', \<lparr>lr_Allowed = allowed, lr_Remaining = remaining, lr_ResetTime = resetTime,
               lr_RetryAfter = resetTime - now, lr_LimitType = limitType, lr_Key = key\<rparr>))"

definition CheckUserLimit ::
  "libs \<Rightarrow> RateConfig \<Rightarrow> (rat \<Rightarrow> int) \<Rightarrow> time \<Rightarrow> time \<Rightarrow> redis \<Rightarrow> uuid \<Rightarrow> redis \<times> LimitResult" where
  "CheckUserLimit L cfg score_int srv now R userID =
     checkLimit score_int srv now R (UserPrefix cfg @ uuid_string L userID)
       (UserRequestsPerWindow cfg) (UserWindow cfg) ''user''"

definition CheckIPLimit ::
  "(string \<Rightarrow> string option) \<Rightarrow> RateConfig \<Rightarrow> (rat \<Rightarrow> int) \<Rightarrow> time \<Rightarrow> time \<Rightarrow> redis \<Rightarrow> string \<Rightarrow>
     redis \<times> LimitResult option" where
  "CheckIPLimit parse_ip cfg score_int srv now R ip =
     (case parse_ip ip of
        None \<Rightarrow> (R, None)
      | Some normalizedIP \<Rightarrow>
          let (R', r) = checkLimit score_int srv now R (IPPrefix cfg @ normalizedIP)
                          (IPRequestsPerWindow cfg) (IPWindow cfg) ''ip''
          in (R', Some r))"

definition CheckGlobalLimit ::
  "RateConfig \<Rightarrow> (rat \<Rightarrow> int) \<Rightarrow> time \<Rightarrow> time \<Rightarrow> redis \<Rightarrow> redis \<times> LimitResult" where
  "CheckGlobalLimit cfg score_int srv now R =
     checkLimit score_int srv now R (GlobalPrefix cfg @ ''all'') (GlobalRequestsPerWindow cfg) (GlobalWindow cfg) ''global''"

definition ResetUserLimit :: "libs \<Rightarrow> RateConfig \<Rightarrow> redis \<Rightarrow> uuid \<Rightarrow> redis" where
  "ResetUserLimit L cfg R userID = redis_del R (UserPrefix cfg @ uuid_string L userID)"

definition ResetIPLimit :: "(string \<Rightarrow> string option) \<Rightarrow> RateConfig \<Rightarrow> redis \<Rightarrow> string \<Rightarrow> redis \<times> bool" where
  "ResetIPLimit parse_ip cfg R ip =
     (case parse_ip ip of
        None \<Rightarrow> (R, False)
      | Some normalizedIP \<Rightarrow> (redis_del R (IPPrefix cfg @ normalizedIP), True))"

definition ResetGlobalLimit :: "RateConfig \<Rightarrow> redis \<Rightarrow> redis" where
  "ResetGlobalLimit cfg R = redis_del R (GlobalPrefix cfg @ ''all'')"

text \<open>Keys without an expiry get one hour.\<close>

definition has_prefix :: "string \<Rightarrow> string \<Rightarrow> bool" where
  "has_prefix p x \<longleftrightarrow> take (length p) x = p"

definition CleanupExpiredKeys :: "RateConfig \<Rightarrow> time \<Rightarrow> redis \<Rightarrow> redis" where
  "CleanupExpiredKeys cfg srv R =
     map (\<lambda>(key, k).
       if (has_prefix (UserPrefix cfg) key \<or> has_prefix (IPPrefix cfg) key \<or> has_prefix (GlobalPrefix cfg) key) \<and>
          rk_expires k = None
       then (key, k\<lparr>rk_expires := Some (srv + Hour)\<rparr>) else (key, k)) R"

text \<open>
  The middleware: a request with a user (the zero UUID stands for none) is counted against the
  user, any other against its address; an error of the check lets the request pass. \<open>down\<close> says
  that the server cannot be reached. The result is whether the request is passed on.
\<close>

definition HTTPMiddleware ::
  "libs \<Rightarrow> (string \<Rightarrow> string option) \<Rightarrow> RateConfig \<Rightarrow> (rat \<Rightarrow> int) \<Rightarrow> time \<Rightarrow> time \<Rightarrow> bool \<Rightarrow> redis \<Rightarrow> uuid \<Rightarrow>
     string \<Rightarrow> redis \<times> bool" where
  "HTTPMiddleware L parse_ip cfg score_int srv now down R userID clientIP =
     (if userID \<noteq> 0 then
        if down then (R, True)
        else let (R', r) = CheckUserLimit L cfg score_int srv now R userID in (R', lr_Allowed r)
      else if down then (R, True)
      else
        let (R', r) = CheckIPLimit parse_ip cfg score_int srv now R clientIP
        in (R', case r of None \<Rightarrow> True | Some x \<Rightarrow> lr_Allowed x))"

section \<open>At most the limit in a window\<close>

text \<open>Requests on one key, with the server's clock a fixed distance \<open>c\<close> from the callers'.\<close>

fun check_all ::
  "(rat \<Rightarrow> int) \<Rightarrow> time \<Rightarrow> string \<Rightarrow> int \<Rightarrow> duration \<Rightarrow> string \<Rightarrow> redis \<Rightarrow> time list \<Rightarrow> redis \<times> LimitResult list" where
  "check_all si c key limit window ty R [] = (R, [])"
| "check_all si c key limit window ty R (now # ts) =
     (let (R', r) = checkLimit si (now + c) now R key limit window ty;
          (R'', rs) = check_all si c key limit window ty R' ts
      in (R'', r # rs))"

text \<open>Doubles at the magnitude of a Unix time in nanoseconds are within 512 of the number.\<close>

lemma fl_close:
  assumes "0 < x" "x \<le> 2 ^ 62" shows "\<bar>fl x - x\<bar> \<le> 512"
proof -
  have "x / 2 ^ 53 \<le> 2 ^ 62 / 2 ^ 53" using assms(2) by (intro divide_right_mono) simp_all
  then show ?thesis using fl_error [OF assms(1)] by simp
qed

lemma cutoff_below:
  assumes "Second \<le> ws" "ws + 2000 \<le> a" "a \<le> 2 ^ 61"
  shows "fl (fl (of_int ws) - 1) < fl (of_int a)"
proof -
  have r: "(1000000000 :: rat) \<le> of_int ws" "(of_int ws + 2000 :: rat) \<le> of_int a" "(of_int a :: rat) \<le> 2 ^ 61"
    using of_int_le_iff [of Second ws, where 'a = rat] of_int_le_iff [of "ws + 2000" a, where 'a = rat]
      of_int_le_iff [of a "2 ^ 61", where 'a = rat] assms by simp_all
  have "\<bar>fl (of_int ws) - of_int ws :: rat\<bar> \<le> 512" using r by (intro fl_close) auto
  moreover from this have "\<bar>fl (fl (of_int ws) - 1) - (fl (of_int ws) - 1) :: rat\<bar> \<le> 512"
    using r by (intro fl_close) auto
  moreover have "\<bar>fl (of_int a) - of_int a :: rat\<bar> \<le> 512" using r by (intro fl_close) auto
  ultimately show ?thesis using r by linarith
qed

lemma ttl_covers:
  assumes "Second \<le> ws" "0 < n" "ws + n * Second \<le> 2 ^ 61"
  shows "n \<le> \<lceil>fl (fl (fl (of_int (ws + n * Second)) - fl (of_int ws)) / 1000000000)\<rceil>"
proof -
  let ?w = "of_int ws :: rat" and ?n = "of_int n :: rat"
  let ?x = "fl (of_int (ws + n * Second)) - fl ?w"
  have r: "1000000000 \<le> ?w" "1 \<le> ?n" "?w + ?n * 1000000000 \<le> 2 ^ 61"
    using of_int_le_iff [of Second ws, where 'a = rat] of_int_le_iff [of 1 n, where 'a = rat]
      of_int_le_iff [of "ws + n * Second" "2 ^ 61", where 'a = rat] assms by simp_all
  have e: "\<bar>fl ?w - ?w\<bar> \<le> 512" using r by (intro fl_close) auto
  have "\<bar>fl (of_int (ws + n * Second)) - of_int (ws + n * Second) :: rat\<bar> \<le> 512"
    using r by (intro fl_close) auto
  then have x: "?n * 1000000000 - 1024 \<le> ?x" "?x \<le> ?n * 1000000000 + 1024" using e unfolding of_int_add of_int_mult by linarith+
  then have y: "\<bar>fl ?x - ?x\<bar> \<le> 512" using r by (intro fl_close) auto
  let ?y = "fl ?x / 1000000000"
  have "fl ?x \<le> 2 ^ 61 + 1536" "?n * 1000000000 - 1536 \<le> fl ?x" using x y r by linarith+
  then have y': "?n - 2000 / 1000000000 \<le> ?y" "?y \<le> 2 ^ 40" by (simp_all add: field_simps)
  have "0 < ?y" using y'(1) r(2) by linarith
  then have "\<bar>fl ?y - ?y\<bar> \<le> ?y / 2 ^ 53" by (rule fl_error)
  moreover have "?y / 2 ^ 53 \<le> 1 / 2" using y'(2) by simp
  ultimately have "?n - 1 < fl ?y" using y'(1) by linarith
  then show ?thesis by (simp add: le_ceiling_iff)
qed

lemma truncate_bounds:
  assumes "0 < w" shows "time_truncate t w \<le> t" "t < time_truncate t w + w"
  using pos_mod_bound [OF assms, of "t - zero_time"] pos_mod_sign [OF assms, of "t - zero_time"]
  by (simp_all add: time_truncate_def)

lemma truncate_mono:
  assumes "0 < w" "s \<le> t" shows "time_truncate s w \<le> time_truncate t w"
proof -
  have "(s - zero_time) div w * w \<le> (t - zero_time) div w * w"
    using assms by (intro mult_right_mono zdiv_mono1) simp_all
  then have "(s - zero_time) - (s - zero_time) mod w \<le> (t - zero_time) - (t - zero_time) mod w"
    by (simp only: minus_mod_eq_div_mult)
  then show ?thesis by (simp add: time_truncate_def)
qed

text \<open>
  \<open>A\<close> are the requests let through so far, \<open>t\<close> the last request. Those of the current window,
  from two microseconds after its start on, are entries of the key, which outlives the window.
\<close>

abbreviation in_window :: "duration \<Rightarrow> time \<Rightarrow> time \<Rightarrow> bool" where
  "in_window w ws a \<equiv> time_truncate a w = ws \<and> ws + 2000 \<le> a"

definition stored_key :: "redis \<Rightarrow> string \<Rightarrow> rkey" where
  "stored_key R key = (case map_of R key of None \<Rightarrow> rk_empty | Some k \<Rightarrow> k)"

definition rate_inv :: "time \<Rightarrow> string \<Rightarrow> int \<Rightarrow> duration \<Rightarrow> redis \<Rightarrow> time list \<Rightarrow> time \<Rightarrow> bool" where
  "rate_inv c key limit w R A t \<longleftrightarrow>
     distinct A \<and> (\<forall>a \<in> set A. 0 < a \<and> a \<le> t \<and> a \<le> 2 ^ 61) \<and>
     (\<forall>a \<in> set A. in_window w (time_truncate t w) a \<longrightarrow>
        (show_nat (nat a), fl (of_int a)) \<in> set (rk_entries (stored_key R key)) \<and>
        (\<exists>e. rk_expires (stored_key R key) = Some e \<and> time_truncate t w + w + c \<le> e)) \<and>
     (\<forall>ws. int (length (filter (in_window w ws) A)) \<le> limit)"

lemma stored_key_put [simp]: "stored_key (redis_put R key k) key = k"
  by (simp add: stored_key_def redis_put_def)

lemma rk_get_stored:
  assumes "x \<in> set (rk_entries (stored_key R key))" "rk_expires (stored_key R key) = Some e" "srv < e"
  shows "rk_get srv R key = stored_key R key"
  using assms by (auto simp: rk_get_def stored_key_def rk_live_def split: option.splits)

lemma entries_count:
  assumes "distinct A" "\<forall>a \<in> set A. 0 < a \<and> (show_nat (nat a), fl (of_int a)) \<in> set z"
  shows "length A \<le> length z"
proof -
  let ?f = "\<lambda>a. (show_nat (nat a), fl (of_int a :: rat))"
  have "inj_on ?f (set A)" using assms(2) by (force simp: inj_on_def)
  then have "length A = card (?f ` set A)" using assms(1) by (simp add: card_image distinct_card)
  also have "\<dots> \<le> card (set z)" using assms(2) by (intro card_mono) auto
  also have "\<dots> \<le> length z" by (rule card_length)
  finally show ?thesis .
qed

lemma rate_inv_step:
  assumes inv: "rate_inv c key limit w R A t" and "t < now" and w: "w = n * Second" "0 < n"
    and range: "2 * w \<le> now" "now + w \<le> 2 ^ 61"
    and r: "checkLimit si (now + c) now R key limit w ty = (R', r)"
  shows "rate_inv c key limit w R' (if lr_Allowed r then now # A else A) now"
proof -
  let ?ws = "time_truncate now w"
  let ?k = "rk_get (now + c) R key"
  define z where "z = zremrangebyscore 0 (fl (fl (of_int ?ws) - 1)) (rk_entries ?k)"
  have w0: "0 < w" "Second \<le> w" using w by simp_all
  note b = truncate_bounds [OF w0(1), of "now"]
  have ws: "Second \<le> ?ws" "?ws + w \<le> 2 ^ 61" using b range w0 by linarith+
  have live: "(show_nat (nat a), fl (of_int a)) \<in> set z \<and>
      (\<exists>e. rk_expires ?k = Some e \<and> ?ws + w + c \<le> e)" if a: "a \<in> set A" "in_window w ?ws a" for a
  proof -
    have at: "a \<le> t" "a \<le> 2 ^ 61" using inv a(1) by (auto simp: rate_inv_def)
    have "?ws \<le> time_truncate t w" "time_truncate t w \<le> ?ws"
      using truncate_mono [OF w0(1), of a t] truncate_mono [OF w0(1), of t "now"] a(2) at(1) \<open>t < now\<close> by simp_all
    then have "time_truncate t w = ?ws" by simp
    then have "in_window w (time_truncate t w) a" using a(2) by simp
    with inv a(1) have "(show_nat (nat a), fl (of_int a)) \<in> set (rk_entries (stored_key R key)) \<and>
        (\<exists>e. rk_expires (stored_key R key) = Some e \<and> time_truncate t w + w + c \<le> e)"
      unfolding rate_inv_def by blast
    with \<open>time_truncate t w = ?ws\<close> obtain e where e: "(show_nat (nat a), fl (of_int a)) \<in> set (rk_entries (stored_key R key))"
        "rk_expires (stored_key R key) = Some e" "?ws + w + c \<le> e" by auto
    have "now + c < e" using b(2) e(3) by simp
    then have k: "?k = stored_key R key" using rk_get_stored [OF e(1,2)] by simp
    have "fl (fl (of_int ?ws) - 1) < fl (of_int a)" using cutoff_below [OF ws(1)] a(2) at(2) by simp
    then show ?thesis using e k by (simp add: z_def zremrangebyscore_def)
  qed
  have le: "length (filter (in_window w ?ws) A) \<le> length z"
    using inv live by (intro entries_count) (auto simp: rate_inv_def)
  have old: "distinct A" "\<forall>a \<in> set A. 0 < a \<and> a \<le> now \<and> a \<le> 2 ^ 61" "now \<notin> set A"
      "int (length (filter (in_window w ws') A)) \<le> limit" for ws'
    using inv \<open>t < now\<close> by (force simp: rate_inv_def)+
  show ?thesis
  proof (cases "int (length z) \<ge> limit")
    case True
    then have "R' = redis_put R key (?k\<lparr>rk_entries := z\<rparr>)" "\<not> lr_Allowed r"
      using r by (auto simp: checkLimit_def lua_check_def Let_def z_def [symmetric])
    then show ?thesis using old live by (simp add: rate_inv_def)
  next
    case False
    define e where "e = now + c + \<lceil>fl (fl (fl (of_int (?ws + w)) - fl (of_int ?ws)) / 1000000000)\<rceil> * Second"
    have R': "R' = redis_put R key \<lparr>rk_entries = zadd (fl (of_int now)) (show_nat (nat now)) z, rk_expires = Some e\<rparr>"
        "lr_Allowed r"
      using r False by (auto simp: checkLimit_def lua_check_def Let_def z_def [symmetric] e_def)
    have "n \<le> \<lceil>fl (fl (fl (of_int (?ws + w)) - fl (of_int ?ws)) / 1000000000)\<rceil>"
      using ttl_covers [of ?ws n] ws w by simp
    then have e: "?ws + w + c \<le> e" using b(1) w(1) by (simp add: e_def)
    have pos: "0 < now" using range w0 by simp
    have "show_nat (nat a) \<noteq> show_nat (nat now)" if "a \<in> set A" for a
      using old(2,3) that pos by (metis eq_nat_nat_iff less_imp_le show_nat_inject)
    then have new: "(show_nat (nat a), fl (of_int a)) \<in> set (zadd (fl (of_int now)) (show_nat (nat now)) z)"
      if "a \<in> set (now # A)" "in_window w ?ws a" for a
      using that live by (auto simp: zadd_def)
    have "int (length (filter (in_window w ws') (now # A))) \<le> limit" for ws'
      using le False old(4) [of ws'] by (cases "ws' = ?ws") auto
    then show ?thesis
      using old(1-3) new e R' range w0 unfolding rate_inv_def by (auto simp del: filter.simps)
  qed
qed

definition allowed_requests :: "time list \<Rightarrow> LimitResult list \<Rightarrow> time list" where
  "allowed_requests ts rs = map fst (filter (\<lambda>p. lr_Allowed (snd p)) (zip ts rs))"

lemma rate_inv_all:
  assumes "rate_inv c key limit w R A t" "sorted_wrt (<) (t # ts)" "w = n * Second" "0 < n"
    and "\<forall>x \<in> set ts. 2 * w \<le> x \<and> x + w \<le> 2 ^ 61"
    and "check_all si c key limit w ty R ts = (R', rs)"
  shows "\<exists>t'. rate_inv c key limit w R' (rev (allowed_requests ts rs) @ A) t'"
  using assms(1,2,5,6)
proof (induction ts arbitrary: R A t rs)
  case Nil
  then show ?case by (auto simp: allowed_requests_def)
next
  case (Cons x ts)
  obtain R1 r where r: "checkLimit si (x + c) x R key limit w ty = (R1, r)" by (rule prod.exhaust)
  obtain rs1 where rs: "check_all si c key limit w ty R1 ts = (R', rs1)" "rs = r # rs1"
    using Cons.prems(4) by (auto simp: r split: prod.splits)
  have "rate_inv c key limit w R1 (if lr_Allowed r then x # A else A) x"
    using rate_inv_step [OF Cons.prems(1) _ assms(3,4) _ _ r] Cons.prems by simp
  from Cons.IH [OF this _ _ rs(1)] Cons.prems(2,3)
  obtain t' where "rate_inv c key limit w R' (rev (allowed_requests ts rs1) @ (if lr_Allowed r then x # A else A)) t'"
    by auto
  then show ?case by (auto simp: allowed_requests_def rs(2))
qed

text \<open>C27: within one window of the clock at most the limit of requests is let through. For any
  requests on one key at increasing instants, whatever the store held before and although
  the server works with doubles and expires keys by its own clock, the number of requests let through
  in a window, not counting its first two microseconds, is at most the limit.\<close>

theorem rate_limit_kept:
  assumes "0 \<le> limit" "w = n * Second" "0 < n" "sorted_wrt (<) ts"
    and "\<forall>x \<in> set ts. 2 * w \<le> x \<and> x + w \<le> 2 ^ 61"
    and "check_all si c key limit w ty R ts = (R', rs)"
  shows "int (length (filter (in_window w ws) (allowed_requests ts rs))) \<le> limit"
proof (cases ts)
  case Nil
  then show ?thesis using assms(1) by (simp add: allowed_requests_def)
next
  case (Cons x xs)
  then have "sorted_wrt (<) ((x - 1) # ts)" using assms(4) by force
  moreover have "rate_inv c key limit w R [] (x - 1)" using assms(1) by (simp add: rate_inv_def)
  ultimately obtain t' where "rate_inv c key limit w R' (rev (allowed_requests ts rs)) t'"
    using rate_inv_all [OF _ _ assms(2,3,5,6), where A = "[]"] by auto
  then have "int (length (filter (in_window w ws) (rev (allowed_requests ts rs)))) \<le> limit"
    unfolding rate_inv_def by blast
  then show ?thesis by (simp flip: rev_filter)
qed

definition sample_requests :: "time list" where
  "sample_requests = [1717502401 * Second, 1717502402 * Second, 1717502403 * Second]"

theorem rate_limit_kept_witness:
  "int (length (filter (in_window Minute (1717502400 * Second))
     (allowed_requests sample_requests (snd (check_all (\<lambda>x. 0) 0 ''ip:1'' 2 Minute ''ip'' [] sample_requests))))) \<le> 2"
  by (rule rate_limit_kept [OF _ _ _ _ _ surjective_pairing, where n = 60]) (simp_all add: sample_requests_def)

text \<open>
  The windows are fixed, not sliding: with a limit of one, two requests are let through however
  close they are, when a window begins between them and the first came two microseconds before.
\<close>

lemma dropped_below:
  assumes "Second \<le> a" "a + 2000 \<le> ws" "ws \<le> 2 ^ 61"
  shows "0 \<le> fl (of_int a) \<and> fl (of_int a) \<le> fl (fl (of_int ws) - 1)"
proof -
  have r: "(1000000000 :: rat) \<le> of_int a" "(of_int a + 2000 :: rat) \<le> of_int ws" "(of_int ws :: rat) \<le> 2 ^ 61"
    using of_int_le_iff [of Second a, where 'a = rat] of_int_le_iff [of "a + 2000" ws, where 'a = rat]
      of_int_le_iff [of ws "2 ^ 61", where 'a = rat] assms by simp_all
  have "\<bar>fl (of_int ws) - of_int ws :: rat\<bar> \<le> 512" using r by (intro fl_close) auto
  moreover from this have "\<bar>fl (fl (of_int ws) - 1) - (fl (of_int ws) - 1) :: rat\<bar> \<le> 512"
    using r by (intro fl_close) auto
  moreover have "\<bar>fl (of_int a) - of_int a :: rat\<bar> \<le> 512" using r by (intro fl_close) auto
  ultimately show ?thesis using r by linarith
qed

lemma rate_limit_not_sliding:
  assumes "Second \<le> a" "a + 2000 \<le> time_truncate b w" "time_truncate b w \<le> 2 ^ 61"
  shows "map lr_Allowed (snd (check_all si c key 1 w ty [] [a, b])) = [True, True]"
proof -
  obtain R r where R: "checkLimit si (a + c) a [] key 1 w ty = (R, r)" by (rule prod.exhaust)
  have e: "rk_entries (stored_key R key) = [(show_nat (nat a), fl (of_int a))]" "lr_Allowed r"
    using R by (auto simp: checkLimit_def lua_check_def rk_get_def rk_empty_def zremrangebyscore_def zadd_def Let_def)
  obtain R' r' where R': "checkLimit si (b + c) b R key 1 w ty = (R', r')" by (rule prod.exhaust)
  have "rk_entries (rk_get (b + c) R key) \<in> {[], [(show_nat (nat a), fl (of_int a))]}"
    using e(1) by (auto simp: rk_get_def stored_key_def rk_empty_def split: option.split)
  then have "zremrangebyscore 0 (fl (fl (of_int (time_truncate b w)) - 1)) (rk_entries (rk_get (b + c) R key)) = []"
    using dropped_below [OF assms] by (auto simp: zremrangebyscore_def)
  then have "lr_Allowed r'" using R' by (auto simp: checkLimit_def lua_check_def Let_def)
  then show ?thesis using e(2) by (simp add: R R')
qed

text \<open>
  A refusal reports the whole limit as still remaining, and an acceptance reports the current
  instant as the time of the reset.
\<close>

lemma rate_limit_reports:
  assumes "checkLimit si srv now R key limit w ty = (R', r)"
  shows "if lr_Allowed r then lr_ResetTime r = now \<and> lr_RetryAfter r = 0 else lr_Remaining r = limit"
  using assms by (auto simp: checkLimit_def lua_check_def Let_def split: if_splits)

end
