(* ===== verification/OddsEngine.thy ===== *)
theory OddsEngine
  imports PlaceBet
begin

text \<open>
  \<open>internal/core/usecase/odds/engine.go\<close>: the odds of a bet slip, from a cache in front of the
  provider's feed. Provider, cache and event bus are interfaces; the provider is a function from
  match identifiers, the cache a pair of functions over a state \<open>'c\<close>. A cached value that is not
  a match is \<open>OtherValueCached\<close>.
\<close>

datatype cached = CachedMatch Match | OtherValueCached

record 'c odds_ports =
  op_GetLiveOdds :: "'c \<Rightarrow> Match list option"
  op_GetMatchOdds :: "'c \<Rightarrow> string \<Rightarrow> Match option"
  op_CacheSet :: "'c \<Rightarrow> string \<Rightarrow> cached \<Rightarrow> duration \<Rightarrow> 'c"
  op_CacheGet :: "'c \<Rightarrow> string \<Rightarrow> cached option"
  op_Publish :: "'c \<Rightarrow> Match list \<Rightarrow> 'c"

record BetOddsResult =
  bo_TotalOdds :: decimal
  bo_ValidSelections :: "Selection list"
  bo_PotentialPayout :: decimal

datatype odds_error = ErrNoValidSelections

definition getMatchOdds :: "'c odds_ports \<Rightarrow> 'c \<Rightarrow> string \<Rightarrow> Match option" where
  "getMatchOdds P c matchID =
     (case op_CacheGet P c (''match:'' @ matchID) of
        Some (CachedMatch m) \<Rightarrow> Some m
      | _ \<Rightarrow> op_GetMatchOdds P c matchID)"

text \<open>The first outcome with the name in the first market with the name that has one.\<close>

fun find_in_markets :: "Market list \<Rightarrow> string \<Rightarrow> string \<Rightarrow> decimal option" where
  "find_in_markets [] mname oname = None"
| "find_in_markets (k # ks) mname oname =
     (if mk_Name k = mname then
        (case select_row (\<lambda>x. oc_Name x = oname) (mk_Outcomes k) of
           Some x \<Rightarrow> Some (oc_Odds x)
         | None \<Rightarrow> find_in_markets ks mname oname)
      else find_in_markets ks mname oname)"

definition findSelectionOdds :: "Match \<Rightarrow> Selection \<Rightarrow> decimal option" where
  "findSelectionOdds m sel = find_in_markets (match_Markets m) (sel_MarketName sel) (sel_OutcomeName sel)"

text \<open>One iteration of the loop: a selection that cannot be priced is skipped.\<close>

definition price_selection ::
  "'c odds_ports \<Rightarrow> 'c \<Rightarrow> decimal \<times> Selection list \<Rightarrow> Selection \<Rightarrow> decimal \<times> Selection list" where
  "price_selection P c acc sel =
     (case getMatchOdds P c (sel_EventID sel) of
        None \<Rightarrow> acc
      | Some m \<Rightarrow>
          (case findSelectionOdds m sel of
             None \<Rightarrow> acc
           | Some o' \<Rightarrow> (fst acc * o', snd acc @ [sel])))"

definition CalculateBetOdds :: "'c odds_ports \<Rightarrow> 'c \<Rightarrow> Bet \<Rightarrow> odds_error + BetOddsResult" where
  "CalculateBetOdds P c bet =
     (let (totalOdds, validSelections) = foldl (price_selection P c) (1, []) (bet_Selections bet) in
      if validSelections = [] then Inl ErrNoValidSelections
      else Inr \<lparr>bo_TotalOdds = totalOdds, bo_ValidSelections = validSelections,
                bo_PotentialPayout = bet_Stake bet * totalOdds\<rparr>)"

text \<open>One tick of the sync: every match of the feed is cached for thirty seconds, then announced.\<close>

definition syncOdds :: "'c odds_ports \<Rightarrow> 'c \<Rightarrow> 'c" where
  "syncOdds P c =
     (case op_GetLiveOdds P c of
        None \<Rightarrow> c
      | Some matches \<Rightarrow>
          op_Publish P
            (foldl (\<lambda>c m. op_CacheSet P c (''match:'' @ match_ID m) (CachedMatch m) (30 * Second)) c matches)
            matches)"

section \<open>What a slip is priced at\<close>

definition priced :: "'c odds_ports \<Rightarrow> 'c \<Rightarrow> Selection \<Rightarrow> decimal option" where
  "priced P c sel = Option.bind (getMatchOdds P c (sel_EventID sel)) (\<lambda>m. findSelectionOdds m sel)"

lemma price_selection_fold:
  "foldl (price_selection P c) (x, us) sels =
     (x * prod_list (map (\<lambda>s. the (priced P c s)) (filter (\<lambda>s. priced P c s \<noteq> None) sels)),
      us @ filter (\<lambda>s. priced P c s \<noteq> None) sels)"
proof (induction sels arbitrary: x us)
  case (Cons s sels)
  have "price_selection P c (x, us) s =
      (case priced P c s of None \<Rightarrow> (x, us) | Some y \<Rightarrow> (x * y, us @ [s]))"
    by (auto simp: price_selection_def priced_def split: option.split)
  then show ?case using Cons by (auto split: option.split)
qed simp

lemma CalculateBetOdds_prices:
  "CalculateBetOdds P c bet =
     (let valid = filter (\<lambda>s. priced P c s \<noteq> None) (bet_Selections bet);
          total = prod_list (map (\<lambda>s. the (priced P c s)) valid)
      in if valid = [] then Inl ErrNoValidSelections
         else Inr \<lparr>bo_TotalOdds = total, bo_ValidSelections = valid, bo_PotentialPayout = bet_Stake bet * total\<rparr>)"
  by (simp add: CalculateBetOdds_def price_selection_fold Let_def)

text \<open>
  The engine agrees with the placement of bets: when every selection is offered at the odds the
  player asked for, a multiple is priced by both at the same total.
\<close>

lemma odds_engine_agrees:
  assumes "\<forall>s \<in> set (bet_Selections bet). priced P c s = Some (sel_Odds s)" "bet_Selections bet \<noteq> []"
  shows "\<exists>r. CalculateBetOdds P c bet = Inr r \<and>
    bo_TotalOdds r = calculateTotalOdds BetTypeMulti (bet_Selections bet) \<and>
    bo_ValidSelections r = bet_Selections bet"
proof -
  have f: "filter (\<lambda>s. priced P c s \<noteq> None) (bet_Selections bet) = bet_Selections bet"
    using assms(1) by (auto simp: filter_id_conv)
  have m: "map (\<lambda>s. the (priced P c s)) (bet_Selections bet) = map sel_Odds (bet_Selections bet)"
    using assms(1) by simp
  have fold: "foldl (\<lambda>total sel. total * sel_Odds sel) x sels = x * prod_list (map sel_Odds sels)" for x sels
    by (induction sels arbitrary: x) simp_all
  then show ?thesis using assms(2) unfolding CalculateBetOdds_prices f Let_def m by (simp add: calculateTotalOdds_def fold)
qed

text \<open>A selection nobody offers is dropped, and the slip is priced as if it had not been made.\<close>

lemma unpriced_selection_ignored:
  assumes "priced P c s = None"
  shows "CalculateBetOdds P c (bet\<lparr>bet_Selections := s # bet_Selections bet\<rparr>) = CalculateBetOdds P c bet"
  using assms by (simp add: CalculateBetOdds_prices Let_def)

end
