(* ===== verification/LedgerSpec.thy ===== *)
theory LedgerSpec
  imports WalletService
begin

text \<open>
  What the wallet service promises, without tables, versions, identifiers, columns and statements:
  a ledger is a map from players to balances, and a movement adds its amount or is refused. The
  service refines it: whatever sequence of movements it is given and whichever of its statements
  fail, its database shows the balances of the abstract ledger and reports its results.
\<close>

section \<open>The abstract ledger\<close>

type_synonym ledger = "uuid \<Rightarrow> decimal option"

datatype ledger_result = Done | Refused wallet_error | Unavailable

text \<open>An outage is the only thing the ledger does not decide itself.\<close>

definition ledger_move :: "bool \<Rightarrow> ledger \<Rightarrow> uuid \<Rightarrow> decimal \<Rightarrow> ledger \<times> ledger_result" where
  "ledger_move outage b u a =
     (if outage then (b, Unavailable)
      else if a = 0 then (b, Refused ErrInvalidAmount)
      else case b u of
        None \<Rightarrow> (b, Refused ErrWalletNotFound)
      | Some x \<Rightarrow> if x + a < 0 then (b, Refused ErrInsufficientFunds) else (b(u \<mapsto> x + a), Done))"

fun ledger_run :: "ledger \<Rightarrow> (bool \<times> uuid \<times> decimal) list \<Rightarrow> ledger \<times> ledger_result list" where
  "ledger_run b [] = (b, [])"
| "ledger_run b ((outage, u, a) # ms) =
     (let (b1, r) = ledger_move outage b u a; (b2, rs) = ledger_run b1 ms in (b2, r # rs))"

section \<open>The service, seen through it\<close>

definition ledger_of :: "db \<Rightarrow> ledger" where
  "ledger_of s u = map_option w_Balance (user_wallet s u)"

fun result_of :: "wallet_error + Transaction \<Rightarrow> ledger_result" where
  "result_of (Inr rec) = Done"
| "result_of (Inl (ErrStatement c)) = Unavailable"
| "result_of (Inl e) = Refused e"

text \<open>One movement with what the outside contributes to it: failing statements, clock, identifier.\<close>

fun apply_run ::
  "libs \<Rightarrow> db \<Rightarrow> ((faults \<times> time \<times> uuid) \<times> Movement) list \<Rightarrow> db \<times> (wallet_error + Transaction) list" where
  "apply_run L s [] = (s, [])"
| "apply_run L s (((f, now, tid), m) # ms) =
     (let (s1, r) = Apply L f now tid s m; (s2, rs) = apply_run L s1 ms in (s2, r # rs))"

definition observed :: "((faults \<times> time \<times> uuid) \<times> Movement) list \<Rightarrow> (wallet_error + Transaction) list \<Rightarrow>
    (bool \<times> uuid \<times> decimal) list" where
  "observed ms rs = map (\<lambda>(m, r). (result_of r = Unavailable, m_UserID (snd m), m_Amount (snd m))) (zip ms rs)"

section \<open>Refinement\<close>

lemma ledger_of_balance:
  "ledger_of s u = (if user_wallet s u = None then None else Some (user_balance s u))"
  by (auto simp: ledger_of_def user_balance_def split: option.split)

text \<open>The reasons of a refusal; the version conflict cannot happen under the row lock.\<close>

lemma Apply_Inl_reason:
  assumes "Apply L f now tid s m = (s', Inl e)"
  shows "(\<exists>c. e = ErrStatement c) \<or> e = ErrInvalidAmount \<and> m_Amount m = 0 \<or>
    m_Amount m \<noteq> 0 \<and> (case user_wallet s (m_UserID m) of
      None \<Rightarrow> e = ErrWalletNotFound
    | Some w \<Rightarrow> e = ErrInsufficientFunds \<and> w_Balance w + m_Amount m < 0)"
proof -
  have here: "rows_affected (\<lambda>v. w_ID v = w_ID w \<and> w_Version v = w_Version w) (wallets s) \<noteq> 0"
    if "user_wallet s (m_UserID m) = Some w" for w
    using user_wallet_Some [OF that] by (auto simp: rows_affected_0)
  show ?thesis
  proof (cases "f BeginTx \<or> f CommitCall \<and> \<not> isl (snd (ApplyTx L id f now tid s m))")
    case True
    then show ?thesis using assms by (auto simp: Apply_def split: if_splits prod.splits sum.splits)
  next
    case False
    then have "\<exists>s1. ApplyTx L id f now tid s m = (s1, Inl e)"
      using assms by (auto simp: Apply_def split: if_splits prod.splits sum.splits)
    then show ?thesis
      using here by (auto simp: ApplyTx_def Let_def split: if_splits option.splits)
  qed
qed

lemma Apply_refines:
  assumes "libs_ok L" "wallets_ok s" "has_scale 2 (m_Amount m)" "Apply L f now tid s m = (s', r)"
  shows "ledger_move (result_of r = Unavailable) (ledger_of s) (m_UserID m) (m_Amount m) = (ledger_of s', result_of r)"
    and "wallets_ok s'"
proof -
  have "ledger_move (result_of r = Unavailable) (ledger_of s) (m_UserID m) (m_Amount m) = (ledger_of s', result_of r) \<and>
    wallets_ok s'"
  proof (cases r)
    case (Inl e)
    then have "s' = s" using assms(4) Apply_fail by blast
    moreover have "ledger_move (result_of r = Unavailable) (ledger_of s) (m_UserID m) (m_Amount m) = (ledger_of s, result_of r)"
      using Apply_Inl_reason [of L f "now" tid s m s' e] assms(4) Inl
      by (auto simp: ledger_move_def ledger_of_def split: option.splits)
    ultimately show ?thesis using assms(2) by simp
  next
    case (Inr rec)
    note a = assms(4) [unfolded Inr]
    note tx = Apply_Inr_ApplyTx [OF a]
    have w: "user_wallet s (m_UserID m) \<noteq> None"
      using tx by (auto simp: ApplyTx_def split: if_splits option.splits)
    have "m_Amount m \<noteq> 0" using Apply_books(4) [OF assms(1,2) a] by blast
    moreover have "ledger_of s' = (ledger_of s)(m_UserID m \<mapsto> user_balance s (m_UserID m) + m_Amount m)"
      using w ApplyTx_users [OF tx assms(2)] Apply_exact(1) [OF assms(1-3) a] by (auto simp: ledger_of_balance fun_eq_iff)
    ultimately show ?thesis
      using w Inr Apply_exact(2) [OF assms(1-3) a] Apply_books(1) [OF assms(1,2) a]
      by (auto simp: ledger_move_def ledger_of_balance)
  qed
  then show "ledger_move (result_of r = Unavailable) (ledger_of s) (m_UserID m) (m_Amount m) = (ledger_of s', result_of r)"
    and "wallets_ok s'" by simp_all
qed

text \<open>Without outside failures a movement that the money columns can hold is decided.\<close>

lemma Apply_available:
  assumes "libs_ok L" "wallets_ok s" "has_scale 2 (m_Amount m)"
    and "user_balance s (m_UserID m) + \<bar>m_Amount m\<bar> \<le> 10 ^ 13 - 1"
  shows "result_of (snd (Apply L no_faults now tid s m)) \<noteq> Unavailable"
proof (cases "user_wallet s (m_UserID m)")
  case None
  then show ?thesis by (simp add: Apply_def ApplyTx_def)
next
  case (Some w)
  have "w_Balance w = user_balance s (m_UserID m)" using Some by (simp add: user_balance_def)
  then have "\<exists>s1 rec. ApplyTx L id no_faults now tid s m = (s1, Inr rec)"
    if "m_Amount m \<noteq> 0" "0 \<le> w_Balance w + m_Amount m"
    using ApplyTx_succeeds [OF assms(1-3) that(1) Some that(2)] assms(4) by metis
  then show ?thesis
    by (cases "m_Amount m = 0 \<or> w_Balance w + m_Amount m < 0") (auto simp: Apply_def ApplyTx_def Some not_less)
qed

text \<open>C3: the wallet service implements an abstract ledger. Any sequence of movements in whole cents,
  with any of the statements failing, shows at the end the balances the ledger has after the same
  movements, and reports the ledger's result for each: done, or refused because of a zero amount, an
  unknown player or insufficient funds, or unavailable with nothing changed.\<close>

theorem wallet_refines_ledger:
  assumes "libs_ok L" "wallets_ok s" "\<forall>m \<in> set ms. has_scale 2 (m_Amount (snd m))"
    and "apply_run L s ms = (s', rs)"
  shows "ledger_run (ledger_of s) (observed ms rs) = (ledger_of s', map result_of rs) \<and> length rs = length ms"
  using assms(2-4)
proof (induction ms arbitrary: s rs)
  case Nil
  then show ?case by (simp add: observed_def)
next
  case (Cons x ms)
  obtain f "now" tid m where x: "x = ((f, now, tid), m)" by (metis prod.exhaust)
  obtain s1 r where r: "Apply L f now tid s m = (s1, r)" by (rule prod.exhaust)
  obtain rs1 where rs: "apply_run L s1 ms = (s', rs1)" "rs = r # rs1"
    using Cons.prems(3) by (auto simp: x r split: prod.splits)
  have sc: "has_scale 2 (m_Amount m)" "\<forall>m \<in> set ms. has_scale 2 (m_Amount (snd m))"
    using Cons.prems(2) by (auto simp: x)
  note ref = Apply_refines [OF assms(1) Cons.prems(1) sc(1) r]
  from Cons.IH [OF ref(2) sc(2) rs(1)] show ?case
    by (simp add: observed_def x rs(2) ref(1))
qed

theorem wallet_refines_ledger_witness:
  "let ms = [((no_faults, 0, 5), sample_move (- 40)), ((no_faults, 1, 6), sample_move (- 90)),
             (((\<lambda>c. c = CommitCall), 2, 7), sample_move 10)]
   in ledger_run (ledger_of sample_db) [(False, 7, - 40), (False, 7, - 90), (True, 7, 10)] =
        (ledger_of (fst (apply_run std_libs sample_db ms)), [Done, Refused ErrInsufficientFunds, Unavailable])"
proof -
  let ?ms = "[((no_faults, 0, 5), sample_move (- 40)), ((no_faults, 1, 6), sample_move (- 90)),
    (((\<lambda>c. c = CommitCall), 2, 7), sample_move 10)] :: ((faults \<times> time \<times> uuid) \<times> Movement) list"
  let ?r = "apply_run std_libs sample_db ?ms"
  have "wallets_ok sample_db" by code_simp
  moreover have "list_all (\<lambda>m. has_scale 2 (m_Amount (snd m))) ?ms" by code_simp
  moreover have "map result_of (snd ?r) = [Done, Refused ErrInsufficientFunds, Unavailable]" by code_simp
  moreover have "observed ?ms (snd ?r) = [(False, 7, - 40), (False, 7, - 90), (True, 7, 10)]" by code_simp
  ultimately show ?thesis
    using wallet_refines_ledger [OF std_libs_ok, of sample_db ?ms "fst ?r" "snd ?r"]
    unfolding Let_def list_all_iff by simp
qed

end
