(* ===== verification/Fairness.thy ===== *)
theory Fairness
  imports CrashGame
begin

text \<open>
  The endpoints with which a player checks a round
  (\<open>internal/infrastructure/http/fairness_handlers.go\<close>), over the service of the theory
  \<open>ProvablyFair\<close>. What \<open>validation.DecodeJSON\<close> makes of the body is the argument: \<open>Inl\<close> its
  error or \<open>Inr\<close> the request. A reply is the status with the value that \<open>writeJSON\<close> encodes.
\<close>

definition StatusOK :: int where "StatusOK = 200"
definition StatusBadRequest :: int where "StatusBadRequest = 400"
definition StatusUnprocessableEntity :: int where "StatusUnprocessableEntity = 422"

record commitmentRequest =
  cr_ServerSeed :: string

record commitmentResponse =
  cr_ServerSeedHash :: string

record verifyRequest =
  vq_ServerSeed :: string
  vq_ClientSeed :: string
  vq_RoundNumber :: int
  vq_ClaimedCrash :: decimal

record verifyResponse =
  vr_Match :: bool
  vr_Calculated :: decimal
  vr_Claimed :: decimal

datatype fairness_body =
    FairnessError string
  | Commitment commitmentResponse
  | Verification verifyResponse

definition commitment :: "string + commitmentRequest \<Rightarrow> int \<times> fairness_body" where
  "commitment body =
     (case body of
        Inl err \<Rightarrow> (StatusBadRequest, FairnessError err)
      | Inr req \<Rightarrow>
          if cr_ServerSeed req = '''' then (StatusUnprocessableEntity, FairnessError ''server_seed is required'')
          else (StatusOK, Commitment \<lparr>cr_ServerSeedHash = HashServerSeed (cr_ServerSeed req)\<rparr>))"

definition verify :: "libs \<Rightarrow> string + verifyRequest \<Rightarrow> int \<times> fairness_body" where
  "verify L body =
     (case body of
        Inl err \<Rightarrow> (StatusBadRequest, FairnessError err)
      | Inr req \<Rightarrow>
          if vq_ServerSeed req = '''' \<or> vq_ClientSeed req = '''' \<or> vq_RoundNumber req \<le> 0
          then (StatusUnprocessableEntity, FairnessError ''server_seed, client_seed, round_number required'')
          else
            let calc = CalculateCrashPoint L (vq_ServerSeed req) (vq_ClientSeed req) (vq_RoundNumber req) in
            (StatusOK, Verification
               \<lparr>vr_Match = (calc = vq_ClaimedCrash req), vr_Calculated = calc, vr_Claimed = vq_ClaimedCrash req\<rparr>))"

section \<open>What the player learns\<close>

text \<open>
  The message that is authenticated determines the round and the client seed: the decimal number
  has no colon in it. So two rounds never share a crash point by construction of the message.
\<close>

lemma show_nat_digits: "c \<in> set (show_nat n) \<Longrightarrow> c \<noteq> CHR '':''"
proof (induction n rule: show_nat.induct)
  case (1 n)
  have "digit d \<noteq> CHR '':''" if "d < 10" for d
  proof
    assume "digit d = CHR '':''"
    then have "of_char (digit d) = (58 :: nat)" by simp
    then show False using that by simp
  qed
  from 1 this [of n] this [of "n mod 10"] show ?case by (auto simp: show_nat.simps [of n] split: if_splits)
qed

definition crash_message :: "string \<Rightarrow> int \<Rightarrow> string" where
  "crash_message clientSeed roundNumber = FormatInt roundNumber @ '':'' @ clientSeed"

lemma crash_message_inject:
  assumes "0 \<le> n" "0 \<le> n'"
  shows "crash_message c n = crash_message c' n' \<longleftrightarrow> c = c' \<and> n = n'"
proof -
  let ?t = "takeWhile (\<lambda>x. x \<noteq> CHR '':'')" and ?d = "dropWhile (\<lambda>x. x \<noteq> CHR '':'')"
  have *: "?t (crash_message c n) = show_nat (nat n) \<and> ?d (crash_message c n) = CHR '':'' # c" if "0 \<le> n" for c n
    using that show_nat_digits by (simp add: crash_message_def FormatInt_def takeWhile_append2 dropWhile_append2)
  have "show_nat (nat n) = show_nat (nat n') \<and> c = c'" if "crash_message c n = crash_message c' n'"
    using * [OF assms(1), of c] * [OF assms(2), of c'] that by simp
  then show ?thesis using assms by auto
qed

lemma commitment_answers:
  "s \<noteq> '''' \<Longrightarrow> commitment (Inr \<lparr>cr_ServerSeed = s\<rparr>) = (StatusOK, Commitment \<lparr>cr_ServerSeedHash = HashServerSeed s\<rparr>)"
  by (simp add: commitment_def)

lemma verify_refuses:
  "vq_ServerSeed req = '''' \<or> vq_ClientSeed req = '''' \<or> vq_RoundNumber req \<le> 0 \<Longrightarrow>
    verify L (Inr req) = (StatusUnprocessableEntity, FairnessError ''server_seed, client_seed, round_number required'')"
  by (simp add: verify_def)

text \<open>A complete request is answered, and confirmed exactly when the claim is what the formula gives.\<close>

lemma verify_confirms:
  assumes "vq_ServerSeed req \<noteq> ''''" "vq_ClientSeed req \<noteq> ''''" "0 < vq_RoundNumber req"
  shows "\<exists>r. verify L (Inr req) = (StatusOK, Verification r) \<and> vr_Claimed r = vq_ClaimedCrash req \<and>
    (vr_Match r \<longleftrightarrow> VerifyCrashPoint L (vq_ServerSeed req) (vq_ClientSeed req) (vq_RoundNumber req) (vq_ClaimedCrash req))"
  using assms by (simp add: verify_def Let_def VerifyCrashPoint_def)

section \<open>Properties\<close>

text \<open>The endpoints and the engine disagree about the empty client seed. For every round the
  engine ever stores the commitment endpoint confirms the published hash of its server seed, yet the
  verification endpoint refuses the request whatever crash point is claimed, although the stored
  crash point is the one the seeds produce: the engine plays every round with an empty client seed,
  which the endpoint takes for a missing one.\<close>

theorem stored_rounds_refused:
  assumes "libs_ok L" "wallets_ok s" "games s = []" "game_bets s = []"
    and "(crash_step L tx)\<^sup>*\<^sup>* (NewCrashGameEngine s) e"
    and "g \<in> set (games (e_db e))" "game_ServerSeed g \<noteq> ''''"
  shows "commitment (Inr \<lparr>cr_ServerSeed = game_ServerSeed g\<rparr>) =
      (StatusOK, Commitment \<lparr>cr_ServerSeedHash = game_ServerSeedHash g\<rparr>) \<and>
    VerifyCrashPoint L (game_ServerSeed g) (game_ClientSeed g) (game_RoundNumber g) (game_CrashPoint g) \<and>
    fst (verify L (Inr \<lparr>vq_ServerSeed = game_ServerSeed g, vq_ClientSeed = game_ClientSeed g,
      vq_RoundNumber = game_RoundNumber g, vq_ClaimedCrash = claim\<rparr>)) = StatusUnprocessableEntity"
proof -
  have "fair_game L g"
    using crash_reachable_inv [OF assms(1-5)] assms(6) by (simp add: engine_inv_def db_inv_def)
  then show ?thesis using assms(7) by (auto simp: fair_game_def commitment_answers verify_refuses)
qed

text \<open>The round of the sample run of the engine, with the seed of 32 bytes 171.\<close>

lemma sample_round:
  "\<exists>g. games (e_db sample_started) = [g] \<and> game_ServerSeed g = hex_encode (replicate 32 171)"
proof -
  let ?x = "CalculateCrashPoint std_libs (hex_encode (replicate 32 171)) '''' 1"
  have "\<bar>?x\<bar> \<le> 10 ^ 7 - 1"
    using crash_point_range [OF std_libs_ok, of "hex_encode (replicate 32 171)" "''''" 1] by simp
  then obtain cp where "odds_col std_libs ?x = Some cp"
    using sql_numeric_fits [OF std_libs_ok, of ?x 10 3] by (auto simp: odds_col_def)
  moreover have "money_col std_libs 0 = Some 0" "odds_col std_libs 0 = Some 0" by code_simp+
  ultimately show ?thesis
    by (simp add: sample_started_def startGameInternal_def createGame_def GameRepository_Create_def game_row_def
        sample_crash_env_def NewCrashGameEngine_def cancel_loop_def broadcast_def GenerateServerSeed_def sample_db_ok Let_def)
qed

theorem stored_rounds_refused_witness:
  "\<exists>g. games (e_db sample_started) = [g] \<and>
    fst (verify std_libs (Inr \<lparr>vq_ServerSeed = game_ServerSeed g, vq_ClientSeed = game_ClientSeed g,
      vq_RoundNumber = game_RoundNumber g, vq_ClaimedCrash = game_CrashPoint g\<rparr>)) = StatusUnprocessableEntity"
proof -
  obtain g where g: "games (e_db sample_started) = [g]" "game_ServerSeed g = hex_encode (replicate 32 171)"
    using sample_round by blast
  have "game_ServerSeed g \<noteq> ''''" unfolding g(2) by (simp add: hex_encode_def)
  moreover have "g \<in> set (games (e_db sample_started))" unfolding g(1) by (rule list.set_intros(1))
  ultimately show ?thesis
    using stored_rounds_refused [OF std_libs_ok sample_db_ok sample_started_reachable] g(1) by blast
qed

end
