(* ===== verification/Auth.thy ===== *)
theory Auth
  imports Domain "HOL-Library.Word"
begin

text \<open>
  \<open>internal/infrastructure/auth/jwt.go\<close>: access and refresh tokens. Signing and parsing belong to
  \<open>golang-jwt\<close> and are the record \<open>jwt_lib\<close>, over an opaque type \<open>'tok\<close> of tokens; what the
  code relies on is \<open>jwt_ok\<close>. The code calls \<open>time.Now()\<close> once per date, and the library once
  per validation: every reading is an argument of its own. A result \<open>None\<close> is a panic.
\<close>

section \<open>The library\<close>

datatype SigningMethod = SigningMethodHMAC | OtherSigningMethod string

record Claims =
  cl_UserID :: uuid
  cl_Email :: string
  cl_CountryCode :: string
  cl_IsVerified :: bool
  cl_ExpiresAt :: "time option"
  cl_IssuedAt :: "time option"
  cl_NotBefore :: "time option"
  cl_Issuer :: string
  cl_Subject :: string

text \<open>
  \<open>jl_parse now keys tok\<close> is \<open>ParseWithClaims\<close>: \<open>keys\<close> is the callback from the method in the
  header to the key, and a success carries the claims and \<open>token.Valid\<close>. \<open>jl_method\<close> is the
  method in the header.
\<close>

record 'tok jwt_lib =
  jl_date :: "time \<Rightarrow> time"
  jl_sign :: "string \<Rightarrow> Claims \<Rightarrow> 'tok option"
  jl_method :: "'tok \<Rightarrow> SigningMethod"
  jl_parse :: "time \<Rightarrow> (SigningMethod \<Rightarrow> string option) \<Rightarrow> 'tok \<Rightarrow> string + Claims \<times> bool"

text \<open>The default validation: an expiry lies ahead and a start is not ahead.\<close>

definition in_force :: "time \<Rightarrow> Claims \<Rightarrow> bool" where
  "in_force now c \<longleftrightarrow>
     (case cl_ExpiresAt c of None \<Rightarrow> True | Some t \<Rightarrow> now < t) \<and>
     (case cl_NotBefore c of None \<Rightarrow> True | Some t \<Rightarrow> t \<le> now)"

text \<open>
  What JSON carries unchanged: plain texts, and dates of whole seconds in the years 1970 to 9999.
\<close>

definition plain_text :: "string \<Rightarrow> bool" where
  "plain_text s \<longleftrightarrow> (\<forall>c \<in> set s. of_char c < (128 :: nat))"

definition plain_date :: "time option \<Rightarrow> bool" where
  "plain_date d \<longleftrightarrow> (case d of None \<Rightarrow> True | Some t \<Rightarrow> 0 \<le> t \<and> t < 253402300800 * Second \<and> t mod Second = 0)"

definition plain_claims :: "Claims \<Rightarrow> bool" where
  "plain_claims c \<longleftrightarrow> plain_text (cl_Email c) \<and> plain_text (cl_CountryCode c) \<and> plain_text (cl_Issuer c) \<and>
     plain_text (cl_Subject c) \<and> plain_date (cl_ExpiresAt c) \<and> plain_date (cl_IssuedAt c) \<and> plain_date (cl_NotBefore c)"

text \<open>
  Documented behaviour: dates are cut to the second; a token signed with a key is parsed by the
  same key exactly while its claims are in force; a token is accepted only under a key the callback
  gave for the method in its header, and then it is valid and in force.
\<close>

definition jwt_ok :: "'tok jwt_lib \<Rightarrow> bool" where
  "jwt_ok J \<longleftrightarrow>
     (\<forall>t. jl_date J t = t - t mod Second) \<and>
     (\<forall>key c. \<exists>tok. jl_sign J key c = Some tok) \<and>
     (\<forall>key c tok. jl_sign J key c = Some tok \<longrightarrow> jl_method J tok = SigningMethodHMAC) \<and>
     (\<forall>key c tok now keys. jl_sign J key c = Some tok \<longrightarrow> plain_claims c \<longrightarrow> keys SigningMethodHMAC = Some key \<longrightarrow>
        (if in_force now c then jl_parse J now keys tok = Inr (c, True) else isl (jl_parse J now keys tok))) \<and>
     (\<forall>now keys tok c v. jl_parse J now keys tok = Inr (c, v) \<longrightarrow>
        keys (jl_method J tok) \<noteq> None \<and> v \<and> in_force now c)"

lemma jwt_okD:
  assumes "jwt_ok J"
  shows jl_date [simp]: "jl_date J t = t - t mod Second"
    and jl_sign_total: "\<exists>tok. jl_sign J key c = Some tok"
    and jl_parse_signed: "jl_sign J key c = Some tok \<Longrightarrow> plain_claims c \<Longrightarrow> keys SigningMethodHMAC = Some key \<Longrightarrow>
      (if in_force now c then jl_parse J now keys tok = Inr (c, True) else isl (jl_parse J now keys tok))"
    and jl_parse_keyed: "jl_parse J now keys tok = Inr (c, v) \<Longrightarrow> keys (jl_method J tok) \<noteq> None \<and> v \<and> in_force now c"
  using assms unfolding jwt_ok_def by blast+

section \<open>The service\<close>

record JWTService =
  js_secretKey :: string
  js_issuer :: string
  js_expiryHours :: int
  js_refreshHours :: int

definition NewJWTService :: "string \<Rightarrow> string \<Rightarrow> int \<Rightarrow> int \<Rightarrow> JWTService" where
  "NewJWTService secretKey issuer expiryHours refreshHours =
     \<lparr>js_secretKey = secretKey, js_issuer = issuer, js_expiryHours = expiryHours, js_refreshHours = refreshHours\<rparr>"

text \<open>\<open>time.Duration(h) * time.Hour\<close>, a product of 64-bit integers.\<close>

definition hours :: "int \<Rightarrow> duration" where
  "hours h = sint ((of_int h :: 64 word) * of_int Hour)"

text \<open>The three readings of the clock in the order of the fields: expiry, issue, start.\<close>

type_synonym readings = "time \<times> time \<times> time"

definition GenerateAccessToken :: "libs \<Rightarrow> 'tok jwt_lib \<Rightarrow> readings \<Rightarrow> JWTService \<Rightarrow> User \<Rightarrow> 'tok option" where
  "GenerateAccessToken L J now j user =
     (case now of (n1, n2, n3) \<Rightarrow>
        jl_sign J (js_secretKey j)
          \<lparr>cl_UserID = u_ID user, cl_Email = u_Email user, cl_CountryCode = u_CountryCode user,
           cl_IsVerified = u_IsVerified user,
           cl_ExpiresAt = Some (jl_date J (n1 + hours (js_expiryHours j))),
           cl_IssuedAt = Some (jl_date J n2), cl_NotBefore = Some (jl_date J n3),
           cl_Issuer = js_issuer j, cl_Subject = uuid_string L (u_ID user)\<rparr>)"

definition GenerateRefreshToken :: "libs \<Rightarrow> 'tok jwt_lib \<Rightarrow> readings \<Rightarrow> JWTService \<Rightarrow> User \<Rightarrow> 'tok option" where
  "GenerateRefreshToken L J now j user =
     (case now of (n1, n2, n3) \<Rightarrow>
        jl_sign J (js_secretKey j)
          \<lparr>cl_UserID = u_ID user, cl_Email = u_Email user, cl_CountryCode = u_CountryCode user,
           cl_IsVerified = u_IsVerified user,
           cl_ExpiresAt = Some (jl_date J (n1 + hours (js_refreshHours j))),
           cl_IssuedAt = Some (jl_date J n2), cl_NotBefore = Some (jl_date J n3),
           cl_Issuer = js_issuer j, cl_Subject = uuid_string L (u_ID user)\<rparr>)"

definition key_of :: "JWTService \<Rightarrow> SigningMethod \<Rightarrow> string option" where
  "key_of j m = (case m of SigningMethodHMAC \<Rightarrow> Some (js_secretKey j) | OtherSigningMethod _ \<Rightarrow> None)"

definition ValidateToken :: "'tok jwt_lib \<Rightarrow> time \<Rightarrow> JWTService \<Rightarrow> 'tok \<Rightarrow> string + Claims" where
  "ValidateToken J now j tokenString =
     (case jl_parse J now (key_of j) tokenString of
        Inl err \<Rightarrow> Inl err
      | Inr (claims, valid) \<Rightarrow> if valid then Inr claims else Inl ''invalid token'')"

text \<open>
  The minimal user that a refresh builds. The zero value of its status, the empty string, is none
  of the constants; the field is never read.
\<close>

definition minimal_user :: "Claims \<Rightarrow> User" where
  "minimal_user claims = \<lparr>u_ID = cl_UserID claims, u_PhoneNumber = '''', u_Email = cl_Email claims, u_PasswordHash = '''',
     u_CountryCode = cl_CountryCode claims, u_Currency = '''', u_NationalID = '''', u_KRAPin = '''', u_FullName = '''',
     u_DateOfBirth = zero_time, u_IsVerified = cl_IsVerified claims, u_SelfExcluded = False, u_SelfExcludedUntil = None,
     u_DailyDepositLimit = None, u_CreatedAt = zero_time, u_UpdatedAt = zero_time, u_LastLoginAt = None,
     u_Status = UserStatusPending\<rparr>"

definition RefreshAccessToken ::
  "libs \<Rightarrow> 'tok jwt_lib \<Rightarrow> time \<Rightarrow> readings \<Rightarrow> JWTService \<Rightarrow> 'tok \<Rightarrow> string + 'tok" where
  "RefreshAccessToken L J now0 now j refreshTokenString =
     (case ValidateToken J now0 j refreshTokenString of
        Inl err \<Rightarrow> Inl (''invalid refresh token: '' @ err)
      | Inr claims \<Rightarrow>
          (case GenerateAccessToken L J now j (minimal_user claims) of
             None \<Rightarrow> Inl ''signing failed''
           | Some tok \<Rightarrow> Inr tok))"

definition ExtractUserID :: "'tok jwt_lib \<Rightarrow> time \<Rightarrow> JWTService \<Rightarrow> 'tok \<Rightarrow> string + uuid" where
  "ExtractUserID J now j tokenString =
     (case ValidateToken J now j tokenString of Inl err \<Rightarrow> Inl err | Inr claims \<Rightarrow> Inr (cl_UserID claims))"

text \<open>A token without an expiry has a nil pointer that the next two methods follow.\<close>

definition IsTokenExpired :: "'tok jwt_lib \<Rightarrow> time \<Rightarrow> time \<Rightarrow> JWTService \<Rightarrow> 'tok \<Rightarrow> bool option" where
  "IsTokenExpired J now0 now j tokenString =
     (case ValidateToken J now0 j tokenString of
        Inl err \<Rightarrow> Some True
      | Inr claims \<Rightarrow> map_option (\<lambda>t. t < now) (cl_ExpiresAt claims))"

definition GetTokenRemainingTime ::
  "'tok jwt_lib \<Rightarrow> time \<Rightarrow> time \<Rightarrow> JWTService \<Rightarrow> 'tok \<Rightarrow> (string + duration) option" where
  "GetTokenRemainingTime J now0 now j tokenString =
     (case ValidateToken J now0 j tokenString of
        Inl err \<Rightarrow> Some (Inl err)
      | Inr claims \<Rightarrow>
          map_option (\<lambda>t. let remaining = t - now in
              if remaining < 0 then Inl ''token expired'' else Inr remaining) (cl_ExpiresAt claims))"

text \<open>
  The middleware \<open>JWTAuth\<close> of \<open>internal/infrastructure/http/middleware\<close>: the value of the
  header decides between a refusal with status 401 and the claims the request goes on with.
\<close>

datatype auth_reply = Unauthorized string | Authorized Claims

definition JWTAuth :: "string jwt_lib \<Rightarrow> time \<Rightarrow> JWTService \<Rightarrow> string \<Rightarrow> auth_reply" where
  "JWTAuth J now j header =
     (if header = [] \<or> take 7 header \<noteq> ''Bearer '' then Unauthorized ''missing bearer token''
      else
        (case ValidateToken J now j (drop 7 header) of
           Inl err \<Rightarrow> Unauthorized ''invalid token''
         | Inr claims \<Rightarrow> Authorized claims))"

lemma JWTAuth_Authorized:
  "JWTAuth J now j header = Authorized c \<longleftrightarrow>
    (\<exists>tok. header = ''Bearer '' @ tok \<and> ValidateToken J now j tok = Inr c)"
proof
  assume a: "JWTAuth J now j header = Authorized c"
  then have "take 7 header = ''Bearer ''" "ValidateToken J now j (drop 7 header) = Inr c"
    by (simp_all add: JWTAuth_def split: if_splits sum.splits)
  then show "\<exists>tok. header = ''Bearer '' @ tok \<and> ValidateToken J now j tok = Inr c"
    using append_take_drop_id [of 7 header] by (intro exI [of _ "drop 7 header"]) (simp del: append_take_drop_id)
next
  assume "\<exists>tok. header = ''Bearer '' @ tok \<and> ValidateToken J now j tok = Inr c"
  then show "JWTAuth J now j header = Authorized c" by (auto simp: JWTAuth_def)
qed

section \<open>The life of a token\<close>

abbreviation cut :: "time \<Rightarrow> time" where "cut t \<equiv> t - t mod Second"

text \<open>When the claims of an access token that was made at the readings \<open>r\<close> are in force.\<close>

definition window :: "JWTService \<Rightarrow> readings \<Rightarrow> time \<Rightarrow> bool" where
  "window j r now = (case r of (n1, n2, n3) \<Rightarrow> cut n3 \<le> now \<and> now < cut (n1 + hours (js_expiryHours j)))"

definition user_data :: "User \<Rightarrow> uuid \<times> string \<times> string \<times> bool" where
  "user_data u = (u_ID u, u_Email u, u_CountryCode u, u_IsVerified u)"

definition claims_data :: "Claims \<Rightarrow> uuid \<times> string \<times> string \<times> bool" where
  "claims_data c = (cl_UserID c, cl_Email c, cl_CountryCode c, cl_IsVerified c)"

text \<open>Texts and dates that JSON carries.\<close>

definition plain_user :: "libs \<Rightarrow> JWTService \<Rightarrow> User \<Rightarrow> bool" where
  "plain_user L j u \<longleftrightarrow> plain_text (u_Email u) \<and> plain_text (u_CountryCode u) \<and> plain_text (js_issuer j) \<and>
     plain_text (uuid_string L (u_ID u))"

definition plain_readings :: "JWTService \<Rightarrow> readings \<Rightarrow> bool" where
  "plain_readings j r = (case r of (n1, n2, n3) \<Rightarrow>
     (\<forall>t \<in> {n1 + hours (js_expiryHours j), n2, n3}. 0 \<le> t \<and> t < 253402300800 * Second))"

lemma plain_date_cut: "0 \<le> t \<Longrightarrow> t < 253402300800 * Second \<Longrightarrow> plain_date (Some (cut t))"
  by (auto simp: plain_date_def minus_mod_eq_mult_div)

lemma minimal_user_data [simp]: "user_data (minimal_user c) = claims_data c"
  by (simp add: user_data_def claims_data_def minimal_user_def)

lemma plain_user_cong: "user_data u = user_data v \<Longrightarrow> plain_user L j u = plain_user L j v"
  by (simp add: user_data_def plain_user_def)

lemma ValidateToken_signed:
  assumes "jwt_ok J" "jl_sign J (js_secretKey j) c = Some tok" "plain_claims c"
  shows "if in_force now c then ValidateToken J now j tok = Inr c else isl (ValidateToken J now j tok)"
  using jl_parse_signed [OF assms(1-3), of "key_of j" now]
  by (auto simp: ValidateToken_def key_of_def split: if_splits sum.splits)

text \<open>
  Whatever is accepted was verified with an HMAC under the key of the service, and is in force: a
  token whose header asks for another method, or for none, is refused.
\<close>

lemma ValidateToken_hmac:
  assumes "jwt_ok J" "ValidateToken J now j tok = Inr c"
  shows "jl_method J tok = SigningMethodHMAC \<and> in_force now c"
proof -
  obtain v where "jl_parse J now (key_of j) tok = Inr (c, v)"
    using assms(2) by (auto simp: ValidateToken_def split: sum.splits if_splits)
  from jl_parse_keyed [OF assms(1) this] show ?thesis by (auto simp: key_of_def split: SigningMethod.splits)
qed

lemma access_token_total: "jwt_ok J \<Longrightarrow> \<exists>tok. GenerateAccessToken L J r j u = Some tok"
  by (auto simp: GenerateAccessToken_def jl_sign_total split: prod.splits)

lemma access_token_validates:
  assumes "jwt_ok J" "plain_user L j u" "plain_readings j r" "GenerateAccessToken L J r j u = Some tok"
  shows "if window j r now
    then \<exists>c. ValidateToken J now j tok = Inr c \<and> claims_data c = user_data u \<and>
      cl_ExpiresAt c = Some (cut (fst r + hours (js_expiryHours j)))
    else isl (ValidateToken J now j tok)"
proof -
  obtain n1 n2 n3 where r: "r = (n1, n2, n3)" by (cases r)
  let ?c = "\<lparr>cl_UserID = u_ID u, cl_Email = u_Email u, cl_CountryCode = u_CountryCode u,
    cl_IsVerified = u_IsVerified u, cl_ExpiresAt = Some (cut (n1 + hours (js_expiryHours j))),
    cl_IssuedAt = Some (cut n2), cl_NotBefore = Some (cut n3), cl_Issuer = js_issuer j,
    cl_Subject = uuid_string L (u_ID u)\<rparr>"
  have "jl_sign J (js_secretKey j) ?c = Some tok"
    using assms(1,4) by (simp add: GenerateAccessToken_def r)
  moreover have "plain_claims ?c"
    using assms(2,3) unfolding plain_claims_def by (simp add: plain_user_def plain_readings_def r plain_date_cut)
  ultimately have "if in_force now ?c then ValidateToken J now j tok = Inr ?c else isl (ValidateToken J now j tok)"
    by (rule ValidateToken_signed [OF assms(1)])
  moreover have "in_force now ?c \<longleftrightarrow> window j r now" by (auto simp: in_force_def window_def r)
  ultimately show ?thesis by (auto simp: claims_data_def user_data_def r split: if_splits)
qed

text \<open>A refresh token is an access token of a service whose access tokens live that long.\<close>

lemma GenerateRefreshToken_eq:
  "GenerateRefreshToken L J r j u = GenerateAccessToken L J r (j\<lparr>js_expiryHours := js_refreshHours j\<rparr>) u"
  by (simp add: GenerateRefreshToken_def GenerateAccessToken_def)

lemma key_of_hours [simp]: "key_of (j\<lparr>js_expiryHours := h\<rparr>) = key_of j"
  by (auto simp: key_of_def fun_eq_iff split: SigningMethod.split)

lemma ValidateToken_hours [simp]: "ValidateToken J now (j\<lparr>js_expiryHours := h\<rparr>) tok = ValidateToken J now j tok"
  by (simp add: ValidateToken_def)

text \<open>
  Nothing tells the two kinds of token apart: as long as a refresh token lives, every check that
  asks for an access token accepts it.
\<close>

lemma refresh_token_is_accepted:
  assumes "jwt_ok J" "plain_user L j u" "plain_readings (j\<lparr>js_expiryHours := js_refreshHours j\<rparr>) r"
    and "GenerateRefreshToken L J r j u = Some tok" "window (j\<lparr>js_expiryHours := js_refreshHours j\<rparr>) r now"
  shows "ExtractUserID J now j tok = Inr (u_ID u)"
  using access_token_validates [OF assms(1) _ assms(3) assms(4) [unfolded GenerateRefreshToken_eq], of now] assms(2,5)
  by (auto simp: ExtractUserID_def claims_data_def user_data_def plain_user_def)

text \<open>A refresh copies the claims it was given.\<close>

lemma RefreshAccessToken_copies:
  assumes "ValidateToken J now0 j tok = Inr c" "RefreshAccessToken L J now0 r j tok = Inr tok'"
  shows "GenerateAccessToken L J r j (minimal_user c) = Some tok'"
  using assms by (auto simp: RefreshAccessToken_def split: option.splits)

fun renew ::
  "libs \<Rightarrow> 'tok jwt_lib \<Rightarrow> JWTService \<Rightarrow> (time \<times> readings) list \<Rightarrow> 'tok \<Rightarrow> string + 'tok" where
  "renew L J j [] tok = Inr tok"
| "renew L J j ((now, r) # rest) tok =
     (case RefreshAccessToken L J now r j tok of Inl err \<Rightarrow> Inl err | Inr tok' \<Rightarrow> renew L J j rest tok')"

text \<open>Every renewal happens while the token before it, made at the readings \<open>r\<close>, is in force.\<close>

fun renewed_in_time :: "JWTService \<Rightarrow> readings \<Rightarrow> (time \<times> readings) list \<Rightarrow> bool" where
  "renewed_in_time j r [] \<longleftrightarrow> True"
| "renewed_in_time j r ((now, r') # rest) \<longleftrightarrow> window j r now \<and> plain_readings j r' \<and> renewed_in_time j r' rest"

section \<open>Properties\<close>


text \<open>A session renews itself without end. An access token takes the place of a refresh token:
  however often it is exchanged, each time while it is in force, the exchange succeeds and the
  token it ends with still speaks for the user with the verification of the first day.\<close>

theorem access_token_renews_itself:
  assumes "jwt_ok J" "plain_user L j u" "plain_readings j r" "GenerateAccessToken L J r j u = Some tok"
    and "renewed_in_time j r rs" "window j (snd (last ((t0, r) # rs))) now"
  shows "\<exists>tok' c. renew L J j rs tok = Inr tok' \<and> ValidateToken J now j tok' = Inr c \<and> claims_data c = user_data u"
  using assms(2-6)
proof (induction rs arbitrary: r u tok t0)
  case Nil
  then show ?case using access_token_validates [OF assms(1) Nil.prems(1-3), of now] by auto
next
  case (Cons x rs)
  obtain now0 r' where x: "x = (now0, r')" by (cases x)
  obtain c where c: "ValidateToken J now0 j tok = Inr c" "claims_data c = user_data u"
    using access_token_validates [OF assms(1) Cons.prems(1-3), of now0] Cons.prems(4) by (auto simp: x)
  obtain tok1 where t: "GenerateAccessToken L J r' j (minimal_user c) = Some tok1"
    using access_token_total [OF assms(1)] by blast
  then have "RefreshAccessToken L J now0 r' j tok = Inr tok1" using c(1) by (simp add: RefreshAccessToken_def)
  moreover have "plain_user L j (minimal_user c)" using Cons.prems(1) plain_user_cong [of "minimal_user c" u] c(2) by simp
  ultimately show ?case
    using Cons.IH [of "minimal_user c" r' tok1 now0] t c(2) Cons.prems(4,5) by (simp add: x)
qed

section \<open>A concrete library\<close>

definition pair_jwt :: "(SigningMethod \<times> string \<times> Claims) jwt_lib" where
  "pair_jwt = \<lparr>jl_date = (\<lambda>t. cut t), jl_sign = (\<lambda>key c. Some (SigningMethodHMAC, key, c)), jl_method = fst,
     jl_parse = (\<lambda>now keys (m, key, c).
       if keys m = Some key \<and> in_force now c then Inr (c, True) else Inl ''token is unverifiable'')\<rparr>"

lemma pair_jwt_ok: "jwt_ok pair_jwt"
  unfolding jwt_ok_def pair_jwt_def by (auto split: if_splits)

definition sample_jwt :: JWTService where
  "sample_jwt = NewJWTService ''secret'' ''lets-bet'' 1 24"

definition sample_readings :: "time \<Rightarrow> readings" where
  "sample_readings t = (1717502400 * Second + t, 1717502400 * Second + t, 1717502400 * Second + t)"

definition sample_holder :: User where
  "sample_holder = minimal_user \<lparr>cl_UserID = 7, cl_Email = ''a@b.ke'', cl_CountryCode = ''KE'', cl_IsVerified = True,
     cl_ExpiresAt = None, cl_IssuedAt = None, cl_NotBefore = None, cl_Issuer = '''', cl_Subject = ''''\<rparr>"

abbreviation sample_token :: "SigningMethod \<times> string \<times> Claims" where
  "sample_token \<equiv> the (GenerateAccessToken std_libs pair_jwt (sample_readings 5) sample_jwt sample_holder)"

lemma sample_token_ok:
  "plain_user std_libs sample_jwt sample_holder" "plain_readings sample_jwt (sample_readings 5)"
  "GenerateAccessToken std_libs pair_jwt (sample_readings 5) sample_jwt sample_holder = Some sample_token"
  by code_simp+


text \<open>Two renewals, each in the last second of the hour, carry the session into its third hour.\<close>

definition sample_renewals :: "(time \<times> readings) list" where
  "sample_renewals = [(1717505999 * Second, sample_readings (3599 * Second)),
     (1717509598 * Second, sample_readings (7198 * Second))]"

theorem access_token_renews_itself_witness:
  "\<exists>tok' c. renew std_libs pair_jwt sample_jwt sample_renewals sample_token = Inr tok' \<and>
    ValidateToken pair_jwt (1717512000 * Second) sample_jwt tok' = Inr c \<and> claims_data c = (7, ''a@b.ke'', ''KE'', True)"
proof -
  have "renewed_in_time sample_jwt (sample_readings 5) sample_renewals"
    "window sample_jwt (snd (last ((0, sample_readings 5) # sample_renewals))) (1717512000 * Second)"
    "user_data sample_holder = (7, ''a@b.ke'', ''KE'', True)" by code_simp+
  then show ?thesis using access_token_renews_itself [OF pair_jwt_ok sample_token_ok] by metis
qed

end
