(* ===== verification/ClientAddress.thy ===== *)
theory ClientAddress
  imports RateLimit GoText "HOL-Library.Word"
begin

text \<open>
  Who a request comes from, and what is decided by it: the proxy validation, the address of the
  client, the geofence and the rate limits of \<open>internal/infrastructure/http/middleware\<close>. The
  functions of the package \<open>net\<close> that read addresses are written out; texts are ASCII. A country
  lookup is a parameter. Of a response only the decision is kept, not its headers.
\<close>

unbundle bit_operations_syntax

section \<open>Addresses and networks of the package \<open>net\<close>\<close>

type_synonym IP = "8 word list"

definition hex_value :: "char \<Rightarrow> nat option" where
  "hex_value c = (let n = of_char c :: nat in
     if 48 \<le> n \<and> n \<le> 57 then Some (n - 48)
     else if 97 \<le> n \<and> n \<le> 102 then Some (n - 87)
     else if 65 \<le> n \<and> n \<le> 70 then Some (n - 55) else None)"

definition is_hex :: "char \<Rightarrow> bool" where
  "is_hex c \<longleftrightarrow> hex_value c \<noteq> None"

definition hex_number :: "string \<Rightarrow> nat" where
  "hex_number s = foldl (\<lambda>a c. 16 * a + the (hex_value c)) 0 s"

text \<open>Four decimal fields of at most 255, without leading zeros.\<close>

definition octet :: "string \<Rightarrow> 8 word option" where
  "octet s =
     (if s \<noteq> [] \<and> list_all is_digit s \<and> (length s = 1 \<or> hd s \<noteq> CHR ''0'') \<and> digits_value s \<le> 255
      then Some (of_nat (digits_value s)) else None)"

definition parse_ipv4 :: "string \<Rightarrow> IP option" where
  "parse_ipv4 s = (let fs = split_on CHR ''.'' s in if length fs = 4 then those (map octet fs) else None)"

lemma dropWhile_shorter: "c # r = dropWhile P s \<Longrightarrow> length r < length s"
  by (metis length_dropWhile_le length_Cons Suc_le_lessD)

text \<open>
  The loop over the groups of an IPv6 address: what is left of the text, the bytes so far, and
  where the ellipsis was.
\<close>

function parse_groups :: "string \<Rightarrow> IP \<Rightarrow> nat option \<Rightarrow> (IP \<times> nat option) option" where
  "parse_groups s bs ell =
     (if 16 \<le> length bs then (if s = [] then Some (bs, ell) else None)
      else
        let h = takeWhile is_hex s; rest = dropWhile is_hex s in
        if h = [] \<or> 4 < length h then None
        else if rest \<noteq> [] \<and> hd rest = CHR ''.'' then
          (if ell = None \<and> length bs \<noteq> 12 \<or> 16 < length bs + 4 then None
           else map_option (\<lambda>q. (bs @ q, ell)) (parse_ipv4 s))
        else
          let bs' = bs @ [of_nat (hex_number h div 256), of_nat (hex_number h mod 256)] in
          case rest of
            [] \<Rightarrow> Some (bs', ell)
          | c # r \<Rightarrow>
              if c \<noteq> CHR '':'' \<or> r = [] then None
              else if hd r = CHR '':'' then
                (if ell \<noteq> None then None
                 else if tl r = [] then Some (bs', Some (length bs'))
                 else parse_groups (tl r) bs' (Some (length bs')))
              else parse_groups r bs' ell)"
  by pat_completeness auto

termination
  by (relation "measure (\<lambda>(s, bs, ell). length s)") (auto dest: dropWhile_shorter simp: less_imp_diff_less)

declare parse_groups.simps [simp del]

text \<open>The ellipsis stands for at least one group of zeros.\<close>

definition expand_ellipsis :: "IP \<times> nat option \<Rightarrow> IP option" where
  "expand_ellipsis p =
     (case p of (bs, ell) \<Rightarrow>
        if length bs < 16 then
          map_option (\<lambda>e. take e bs @ replicate (16 - length bs) 0 @ drop e bs) ell
        else if ell \<noteq> None then None else Some bs)"

definition parse_ipv6 :: "string \<Rightarrow> IP option" where
  "parse_ipv6 s =
     (if take 2 s = ''::'' then
        (if drop 2 s = [] then Some (replicate 16 0)
         else Option.bind (parse_groups (drop 2 s) [] (Some 0)) expand_ellipsis)
      else Option.bind (parse_groups s [] None) expand_ellipsis)"

text \<open>The first dot or colon decides; a zone is never accepted by the callers.\<close>

definition parse_addr :: "string \<Rightarrow> IP option" where
  "parse_addr s =
     (case List.find (\<lambda>c. c \<in> {CHR ''.'', CHR '':'', CHR ''%''}) s of
        Some c \<Rightarrow> if c = CHR ''.'' then parse_ipv4 s else if c = CHR '':'' then parse_ipv6 s else None
      | None \<Rightarrow> None)"

definition v4_prefix :: IP where
  "v4_prefix = replicate 10 0 @ [255, 255]"

definition as16 :: "IP \<Rightarrow> IP" where
  "as16 ip = (if length ip = 4 then v4_prefix @ ip else ip)"

definition To4 :: "IP \<Rightarrow> IP option" where
  "To4 ip = (if length ip = 4 then Some ip
     else if length ip = 16 \<and> take 12 ip = v4_prefix then Some (drop 12 ip) else None)"

definition ParseIP :: "string \<Rightarrow> IP option" where
  "ParseIP s = map_option as16 (parse_addr s)"

record IPNet =
  net_IP :: IP
  net_Mask :: IP

definition mask_byte :: "nat \<Rightarrow> 8 word" where
  "mask_byte k = NOT (drop_bit k 255)"

definition cidr_mask :: "nat \<Rightarrow> nat \<Rightarrow> IP" where
  "cidr_mask n bits = map (\<lambda>i. mask_byte (min 8 (n - 8 * i))) [0..<bits div 8]"

definition and_bytes :: "IP \<Rightarrow> IP \<Rightarrow> IP" where
  "and_bytes xs ys = map2 (AND) xs ys"

definition ip_mask :: "IP \<Rightarrow> IP \<Rightarrow> IP option" where
  "ip_mask ip m =
     (let m' = (if length m = 16 \<and> length ip = 4 \<and> list_all (\<lambda>b. b = 255) (take 12 m) then drop 12 m else m);
          ip' = (if length m' = 4 \<and> length ip = 16 \<and> take 12 ip = v4_prefix then drop 12 ip else ip)
      in if length ip' \<noteq> length m' then None else Some (and_bytes ip' m'))"

definition ParseCIDR :: "string \<Rightarrow> IPNet option" where
  "ParseCIDR s =
     (let addr = takeWhile (\<lambda>c. c \<noteq> CHR ''/'') s; mask = tl (dropWhile (\<lambda>c. c \<noteq> CHR ''/'') s) in
      if CHR ''/'' \<notin> set s then None
      else
        (case parse_addr addr of
           None \<Rightarrow> None
         | Some a \<Rightarrow>
             if mask = [] \<or> \<not> list_all is_digit mask \<or> digits_value mask > 8 * length a then None
             else
               let m = cidr_mask (digits_value mask) (8 * length a) in
               map_option (\<lambda>ip. \<lparr>net_IP = ip, net_Mask = m\<rparr>) (ip_mask (as16 a) m)))"

definition network :: "IPNet \<Rightarrow> (IP \<times> IP) option" where
  "network n =
     (let ip = (case To4 (net_IP n) of Some x \<Rightarrow> x | None \<Rightarrow> net_IP n) in
      if length (net_Mask n) = length ip then Some (ip, net_Mask n)
      else if length (net_Mask n) = 16 \<and> length ip = 4 then Some (ip, drop 12 (net_Mask n))
      else None)"

definition Contains :: "IPNet \<Rightarrow> IP \<Rightarrow> bool" where
  "Contains n ip =
     (let ip' = (case To4 ip of Some x \<Rightarrow> x | None \<Rightarrow> ip) in
      case network n of
        None \<Rightarrow> False
      | Some (nn, m) \<Rightarrow> length ip' = length nn \<and> and_bytes nn m = and_bytes ip' m)"

section \<open>The proxy validator\<close>

record ProxyValidator =
  trustedProxyCIDRs :: "IPNet list"
  cloudflareCIDRs :: "IPNet list"

definition NewProxyValidator :: "string list \<Rightarrow> string list \<Rightarrow> ProxyValidator option" where
  "NewProxyValidator trustedProxies cloudflareIPRanges =
     (case those (map ParseCIDR trustedProxies) of
        None \<Rightarrow> None
      | Some ts \<Rightarrow>
          map_option (\<lambda>cs. \<lparr>trustedProxyCIDRs = ts, cloudflareCIDRs = cs\<rparr>) (those (map ParseCIDR cloudflareIPRanges)))"

definition IsTrustedProxy :: "ProxyValidator \<Rightarrow> string \<Rightarrow> bool" where
  "IsTrustedProxy pv ipStr =
     (case ParseIP (hd (split_on CHR '':'' ipStr)) of
        None \<Rightarrow> False
      | Some ip \<Rightarrow>
          if list_ex (\<lambda>n. Contains n ip) (trustedProxyCIDRs pv) then True
          else list_ex (\<lambda>n. Contains n ip) (cloudflareCIDRs pv))"

definition GetClientIP :: "ProxyValidator \<Rightarrow> string \<Rightarrow> string \<Rightarrow> string \<Rightarrow> string" where
  "GetClientIP pv remoteAddr0 xForwardedFor xRealIP =
     (let remoteAddr = hd (split_on CHR '':'' remoteAddr0) in
      if IsTrustedProxy pv remoteAddr then
        let clientIP = TrimSpace (hd (split_on CHR '','' xForwardedFor)) in
        if xForwardedFor \<noteq> [] \<and> clientIP \<noteq> [] then clientIP
        else if xRealIP \<noteq> [] then xRealIP
        else remoteAddr
      else remoteAddr)"

definition defaultCloudflareIPv4Ranges :: "string list" where
  "defaultCloudflareIPv4Ranges =
     [''173.245.48.0/20'', ''103.21.244.0/22'', ''103.22.200.0/22'', ''103.31.4.0/22'', ''141.101.64.0/18'',
      ''108.162.192.0/18'', ''190.93.240.0/20'', ''188.114.96.0/20'', ''197.234.240.0/22'', ''198.41.128.0/17'',
      ''162.158.0.0/15'', ''104.16.0.0/13'', ''104.24.0.0/14'', ''172.64.0.0/13'', ''131.0.72.0/22'',
      ''2400:cb00::/32'', ''2606:4700::/32'', ''2803:f800::/32'', ''2405:b500::/32'', ''2405:8100::/32'',
      ''2a06:98c0::/29'', ''2c0f:f248::/32'']"

definition defaultCloudflareIPv6Ranges :: "string list" where
  "defaultCloudflareIPv6Ranges =
     [''2606:4700::/32'', ''2803:f800::/32'', ''2405:b500::/32'', ''2405:8100::/32'', ''2a06:98c0::/29'',
      ''2c0f:f248::/32'', ''2606:4700::/32'', ''2803:f800::/32'', ''2405:b500::/32'', ''2405:8100::/32'',
      ''2a06:98c0::/29'', ''2c0f:f248::/32'']"

definition NewDefaultProxyValidator :: "string list \<Rightarrow> ProxyValidator option" where
  "NewDefaultProxyValidator trustedProxies =
     NewProxyValidator trustedProxies (defaultCloudflareIPv4Ranges @ defaultCloudflareIPv6Ranges)"

section \<open>Requests and the middleware\<close>

text \<open>
  \<open>rq_Header\<close> is \<open>Header.Get\<close>, empty for an absent header, and \<open>rq_user_id\<close> the value under the
  plain key \<open>user_id\<close> of the context.
\<close>

record Request =
  rq_RemoteAddr :: string
  rq_Header :: "string \<Rightarrow> string"
  rq_user_id :: "string option"

definition clientIP :: "Request \<Rightarrow> ProxyValidator option \<Rightarrow> string" where
  "clientIP r proxyValidator =
     (let remoteAddr = rq_RemoteAddr r;
          xForwardedFor = rq_Header r ''X-Forwarded-For'';
          xRealIP = rq_Header r ''X-Real-IP''
      in case proxyValidator of
           Some pv \<Rightarrow> GetClientIP pv remoteAddr xForwardedFor xRealIP
         | None \<Rightarrow>
             if xRealIP \<noteq> [] then xRealIP
             else case before_last CHR '':'' (rq_RemoteAddr r) of Some h \<Rightarrow> h | None \<Rightarrow> rq_RemoteAddr r)"

text \<open>\<open>net.SplitHostPort\<close>, of which the host is used.\<close>

definition SplitHost :: "string \<Rightarrow> string option" where
  "SplitHost s =
     (case before_last CHR '':'' s of
        None \<Rightarrow> None
      | Some before \<Rightarrow>
          if s \<noteq> [] \<and> hd s = CHR ''['' then
            let host = takeWhile (\<lambda>c. c \<noteq> CHR '']'') (tl s) in
            if CHR '']'' \<notin> set s \<or> before \<noteq> CHR ''['' # host @ '']'' \<or>
               CHR ''['' \<in> set (tl s) \<or> CHR '']'' \<in> set (drop (length before) s)
            then None else Some host
          else if CHR '':'' \<in> set before \<or> CHR ''['' \<in> set s \<or> CHR '']'' \<in> set s then None
          else Some before)"

definition geo_parseIP :: "string \<Rightarrow> IP option" where
  "geo_parseIP s =
     (if s = [] then None
      else ParseIP (case SplitHost s of Some host \<Rightarrow> host | None \<Rightarrow> s))"

record GeoConfig =
  gc_Provider :: "(IP \<Rightarrow> string option) option"
  gc_Allowed :: "string list"
  gc_HeaderFallback :: string
  gc_ProxyValidator :: "ProxyValidator option"

text \<open>A refusal with status 451, or the country the request is passed on with.\<close>

datatype geo_reply = UnavailableForLegalReasons | Passed string

definition Geolocation :: "GeoConfig \<Rightarrow> Request \<Rightarrow> geo_reply" where
  "Geolocation cfg r =
     (let header = (if gc_HeaderFallback cfg = [] then ''CF-IPCountry'' else gc_HeaderFallback cfg);
          allowed = set (map ToUpper (gc_Allowed cfg));
          country0 = ToUpper (rq_Header r header);
          country =
            (if country0 = [] then
               (case gc_Provider cfg of
                  None \<Rightarrow> country0
                | Some provider \<Rightarrow>
                    (case geo_parseIP (clientIP r (gc_ProxyValidator cfg)) of
                       None \<Rightarrow> country0
                     | Some ip \<Rightarrow> (case provider ip of None \<Rightarrow> country0 | Some c \<Rightarrow> ToUpper c)))
             else country0)
      in if allowed \<noteq> {} \<and> country \<noteq> [] \<and> country \<notin> allowed then UnavailableForLegalReasons
         else Passed country)"

text \<open>
  The three rate limiting middlewares: the store after the checks and what becomes of the request.
  \<open>down\<close> says that the store cannot be reached, \<open>text_ip\<close> is \<open>net.ParseIP\<close> with \<open>String\<close>, and
  \<open>parse_uuid\<close> is \<open>uuid.Parse\<close>.
\<close>

datatype verdict = Served | TooManyRequests | NilPanic

definition RateLimitMiddleware ::
  "(string \<Rightarrow> string option) \<Rightarrow> RateConfig \<Rightarrow> (rat \<Rightarrow> int) \<Rightarrow> time \<Rightarrow> time \<Rightarrow> bool \<Rightarrow> ProxyValidator option \<Rightarrow>
     redis \<Rightarrow> Request \<Rightarrow> redis \<times> verdict" where
  "RateLimitMiddleware text_ip cfg score_int srv now down proxyValidator R r =
     (let (R', result) = (if down then (R, None) else CheckIPLimit text_ip cfg score_int srv now R (clientIP r proxyValidator))
      in case result of
           None \<Rightarrow> (R', Served)
         | Some x \<Rightarrow> (R', if \<not> lr_Allowed x then TooManyRequests else Served))"

definition UserRateLimitMiddleware ::
  "libs \<Rightarrow> (string \<Rightarrow> uuid option) \<Rightarrow> RateConfig \<Rightarrow> (rat \<Rightarrow> int) \<Rightarrow> time \<Rightarrow> time \<Rightarrow> bool \<Rightarrow> redis \<Rightarrow> Request \<Rightarrow>
     redis \<times> verdict" where
  "UserRateLimitMiddleware L parse_uuid cfg score_int srv now down R r =
     (case rq_user_id r of
        None \<Rightarrow> (R, Served)
      | Some userID \<Rightarrow>
          (case parse_uuid userID of
             None \<Rightarrow> (R, Served)
           | Some userUUID \<Rightarrow>
               if down then (R, Served)
               else
                 let (R', x) = CheckUserLimit L cfg score_int srv now R userUUID in
                 (R', if \<not> lr_Allowed x then TooManyRequests else Served)))"

text \<open>
  The combined one goes on after a check that failed and reads the fields of the missing result, a
  nil pointer. The two checks read the clock one after the other and fail independently.
\<close>

definition CombinedRateLimitMiddleware ::
  "libs \<Rightarrow> (string \<Rightarrow> string option) \<Rightarrow> (string \<Rightarrow> uuid option) \<Rightarrow> RateConfig \<Rightarrow> (rat \<Rightarrow> int) \<Rightarrow> time \<times> time \<Rightarrow>
     time \<times> time \<Rightarrow> bool \<times> bool \<Rightarrow> ProxyValidator option \<Rightarrow> redis \<Rightarrow> Request \<Rightarrow> redis \<times> verdict" where
  "CombinedRateLimitMiddleware L text_ip parse_uuid cfg score_int srv now down proxyValidator R r =
     (let (R1, ipResult) = (if fst down then (R, None)
            else CheckIPLimit text_ip cfg score_int (fst srv) (fst now) R (clientIP r proxyValidator))
      in case ipResult of
           None \<Rightarrow> (R1, NilPanic)
         | Some x \<Rightarrow>
             if \<not> lr_Allowed x then (R1, TooManyRequests)
             else
               (case Option.bind (rq_user_id r) parse_uuid of
                  None \<Rightarrow> (R1, Served)
                | Some userUUID \<Rightarrow>
                    if snd down then (R1, NilPanic)
                    else
                      let (R2, y) = CheckUserLimit L cfg score_int (snd srv) (snd now) R1 userUUID in
                      (R2, if \<not> lr_Allowed y then TooManyRequests else Served)))"

section \<open>Texts without a colon\<close>

lemma parse_ipv4_length: "parse_ipv4 s = Some ip \<Longrightarrow> length ip = 4"
  by (auto simp: parse_ipv4_def Let_def split: if_splits dest: those_length)

text \<open>What is left of the first colon can only be an IPv4 address.\<close>

lemma parse_addr_host:
  assumes "CHR '':'' \<notin> set s" "parse_addr s = Some ip"
  shows "parse_ipv4 s = Some ip"
proof -
  obtain c where c: "List.find (\<lambda>c. c \<in> {CHR ''.'', CHR '':'', CHR ''%''}) s = Some c"
    using assms(2) by (auto simp: parse_addr_def split: option.splits)
  then have "c \<noteq> CHR '':''" using assms(1) by (metis find_Some_iff nth_mem)
  then show ?thesis using assms(2) c by (auto simp: parse_addr_def split: if_splits)
qed

lemma ParseIP_host:
  assumes "ParseIP (takeWhile (\<lambda>x. x \<noteq> CHR '':'') s) = Some ip"
  shows "\<exists>v4. parse_ipv4 (takeWhile (\<lambda>x. x \<noteq> CHR '':'') s) = Some v4 \<and> ip = v4_prefix @ v4 \<and> length v4 = 4"
proof -
  obtain v4 where v: "parse_addr (takeWhile (\<lambda>x. x \<noteq> CHR '':'') s) = Some v4" "ip = as16 v4"
    using assms by (auto simp: ParseIP_def)
  moreover have "CHR '':'' \<notin> set (takeWhile (\<lambda>x. x \<noteq> CHR '':'') s)" by (auto dest: set_takeWhileD)
  ultimately have "parse_ipv4 (takeWhile (\<lambda>x. x \<noteq> CHR '':'') s) = Some v4" by (intro parse_addr_host)
  then show ?thesis using v(2) parse_ipv4_length by (simp add: as16_def)
qed

lemma length_v4_prefix [simp]: "length v4_prefix = 12"
  by (simp add: v4_prefix_def)

lemma Contains_v4:
  assumes "length v4 = 4"
  shows "Contains n (v4_prefix @ v4) = Contains n v4"
    and "Contains n v4 \<Longrightarrow> \<exists>nn m. network n = Some (nn, m) \<and> length nn = 4"
  using assms by (auto simp: Contains_def To4_def split: option.splits)

lemma ParseIP_bracket: "ParseIP (takeWhile (\<lambda>x. x \<noteq> CHR '':'') (CHR ''['' # s)) = None"
proof (rule ccontr)
  assume "\<not> ?thesis"
  then obtain v4 where "parse_ipv4 (takeWhile (\<lambda>x. x \<noteq> CHR '':'') (CHR ''['' # s)) = Some v4"
    using ParseIP_host by blast
  moreover have "octet (CHR ''['' # x) = None" for x by (simp add: octet_def is_digit_def)
  ultimately show False
    by (auto simp: parse_ipv4_def Let_def split: if_splits list.splits)
qed

section \<open>Whose word is taken\<close>

lemma GetClientIP_untrusted:
  "\<not> IsTrustedProxy pv (takeWhile (\<lambda>x. x \<noteq> CHR '':'') ra) \<Longrightarrow>
    GetClientIP pv ra xff xri = takeWhile (\<lambda>x. x \<noteq> CHR '':'') ra"
  by (simp add: GetClientIP_def Let_def split_on_hd)

lemma IsTrustedProxy_host:
  assumes "IsTrustedProxy pv (takeWhile (\<lambda>x. x \<noteq> CHR '':'') ra)"
  shows "\<exists>v4 n. parse_ipv4 (takeWhile (\<lambda>x. x \<noteq> CHR '':'') ra) = Some v4 \<and>
    n \<in> set (trustedProxyCIDRs pv @ cloudflareCIDRs pv) \<and> Contains n v4 \<and> length v4 = 4"
proof -
  have t: "takeWhile (\<lambda>x. x \<noteq> CHR '':'') (takeWhile (\<lambda>x. x \<noteq> CHR '':'') ra) = takeWhile (\<lambda>x. x \<noteq> CHR '':'') ra"
    by (simp add: takeWhile_idem)
  obtain ip where ip: "ParseIP (takeWhile (\<lambda>x. x \<noteq> CHR '':'') ra) = Some ip"
      "\<exists>n \<in> set (trustedProxyCIDRs pv @ cloudflareCIDRs pv). Contains n ip"
    using assms by (auto simp: IsTrustedProxy_def split_on_hd t list_ex_iff split: option.splits if_splits)
  obtain v4 where "parse_ipv4 (takeWhile (\<lambda>x. x \<noteq> CHR '':'') ra) = Some v4" "ip = v4_prefix @ v4" "length v4 = 4"
    using ParseIP_host [OF ip(1)] by blast
  then show ?thesis using ip(2) Contains_v4(1) by blast
qed

section \<open>The ranges of the default validator\<close>

lemma is_hex_iff: "is_hex c \<longleftrightarrow> (let n = of_char c :: nat in 48 \<le> n \<and> n \<le> 57 \<or> 97 \<le> n \<and> n \<le> 102 \<or> 65 \<le> n \<and> n \<le> 70)"
  by (auto simp: is_hex_def hex_value_def Let_def)

text \<open>The shape of all IPv6 ranges: two groups and an ellipsis at the end.\<close>

lemma parse_two_groups:
  assumes h: "list_all is_hex h1" "h1 \<noteq> []" "length h1 \<le> 4" "list_all is_hex h2" "h2 \<noteq> []" "length h2 \<le> 4"
  shows "parse_addr (h1 @ CHR '':'' # h2 @ ''::'') =
    Some ([of_nat (hex_number h1 div 256), of_nat (hex_number h1 mod 256),
      of_nat (hex_number h2 div 256), of_nat (hex_number h2 mod 256)] @ replicate 12 0)"
proof -
  have nh: "\<not> is_hex CHR '':''" by (simp add: is_hex_iff Let_def)
  have t: "takeWhile is_hex (g @ CHR '':'' # r) = g" "dropWhile is_hex (g @ CHR '':'' # r) = CHR '':'' # r"
    if "list_all is_hex g" for g r
    using that nh by (auto simp: list_all_iff takeWhile_append2 dropWhile_append2)
  have hc: "is_hex c \<Longrightarrow> c \<noteq> CHR '':'' \<and> c \<noteq> CHR ''.'' \<and> c \<noteq> CHR ''%''" for c by (auto simp: is_hex_iff Let_def)
  have hd2: "hd (h2 @ r) \<noteq> CHR '':''" for r using h(4,5) hc by (cases h2) auto
  have p2: "parse_groups (h2 @ ''::'') [a, b] None =
      Some ([a, b, of_nat (hex_number h2 div 256), of_nat (hex_number h2 mod 256)], Some 4)" for a b
    using h(4-6) t [OF h(4), of "'':''"] by (simp add: parse_groups.simps [of "h2 @ ''::''"] Let_def)
  have p1: "parse_groups (h1 @ CHR '':'' # h2 @ ''::'') [] None =
      Some ([of_nat (hex_number h1 div 256), of_nat (hex_number h1 mod 256),
        of_nat (hex_number h2 div 256), of_nat (hex_number h2 mod 256)], Some 4)"
    using h(1-3) t [OF h(1), of "h2 @ ''::''"] hd2 by (simp add: parse_groups.simps [of "h1 @ CHR '':'' # h2 @ ''::''"] p2 Let_def)
  have "List.find (\<lambda>c. c \<in> {CHR ''.'', CHR '':'', CHR ''%''}) (h1 @ CHR '':'' # r) = Some CHR '':''" for r
    using h(1) by (induction h1) (auto dest: hc)
  moreover have "take 2 (h1 @ CHR '':'' # h2 @ ''::'') \<noteq> ''::''" using h(1,2) hc by (cases h1) auto
  ultimately show ?thesis by (simp add: parse_addr_def parse_ipv6_def p1 expand_ellipsis_def)
qed

lemmas read_ip = ParseCIDR_def as16_def v4_prefix_def ip_mask_def cidr_mask_def mask_byte_def and_bytes_def
  digits_value_def is_digit_def Let_def upt_rec

lemmas read_ipv4 = parse_addr_def parse_ipv4_def octet_def

lemma cloudflare_v4:
  "ParseCIDR ''173.245.48.0/20'' = Some \<lparr>net_IP = [173, 245, 48, 0], net_Mask = [255, 255, 240, 0]\<rparr>"
  "ParseCIDR ''103.21.244.0/22'' = Some \<lparr>net_IP = [103, 21, 244, 0], net_Mask = [255, 255, 252, 0]\<rparr>"
  "ParseCIDR ''103.22.200.0/22'' = Some \<lparr>net_IP = [103, 22, 200, 0], net_Mask = [255, 255, 252, 0]\<rparr>"
  "ParseCIDR ''103.31.4.0/22'' = Some \<lparr>net_IP = [103, 31, 4, 0], net_Mask = [255, 255, 252, 0]\<rparr>"
  "ParseCIDR ''141.101.64.0/18'' = Some \<lparr>net_IP = [141, 101, 64, 0], net_Mask = [255, 255, 192, 0]\<rparr>"
  "ParseCIDR ''108.162.192.0/18'' = Some \<lparr>net_IP = [108, 162, 192, 0], net_Mask = [255, 255, 192, 0]\<rparr>"
  "ParseCIDR ''190.93.240.0/20'' = Some \<lparr>net_IP = [190, 93, 240, 0], net_Mask = [255, 255, 240, 0]\<rparr>"
  "ParseCIDR ''188.114.96.0/20'' = Some \<lparr>net_IP = [188, 114, 96, 0], net_Mask = [255, 255, 240, 0]\<rparr>"
  "ParseCIDR ''197.234.240.0/22'' = Some \<lparr>net_IP = [197, 234, 240, 0], net_Mask = [255, 255, 252, 0]\<rparr>"
  "ParseCIDR ''198.41.128.0/17'' = Some \<lparr>net_IP = [198, 41, 128, 0], net_Mask = [255, 255, 128, 0]\<rparr>"
  "ParseCIDR ''162.158.0.0/15'' = Some \<lparr>net_IP = [162, 158, 0, 0], net_Mask = [255, 254, 0, 0]\<rparr>"
  "ParseCIDR ''104.16.0.0/13'' = Some \<lparr>net_IP = [104, 16, 0, 0], net_Mask = [255, 248, 0, 0]\<rparr>"
  "ParseCIDR ''104.24.0.0/14'' = Some \<lparr>net_IP = [104, 24, 0, 0], net_Mask = [255, 252, 0, 0]\<rparr>"
  "ParseCIDR ''172.64.0.0/13'' = Some \<lparr>net_IP = [172, 64, 0, 0], net_Mask = [255, 248, 0, 0]\<rparr>"
  "ParseCIDR ''131.0.72.0/22'' = Some \<lparr>net_IP = [131, 0, 72, 0], net_Mask = [255, 255, 252, 0]\<rparr>"
  by (simp_all add: read_ip read_ipv4)

lemma cloudflare_v6_addresses:
  "parse_addr ''2400:cb00::'' = Some ([36, 0, 203, 0] @ replicate 12 0)"
  "parse_addr ''2606:4700::'' = Some ([38, 6, 71, 0] @ replicate 12 0)"
  "parse_addr ''2803:f800::'' = Some ([40, 3, 248, 0] @ replicate 12 0)"
  "parse_addr ''2405:b500::'' = Some ([36, 5, 181, 0] @ replicate 12 0)"
  "parse_addr ''2405:8100::'' = Some ([36, 5, 129, 0] @ replicate 12 0)"
  "parse_addr ''2a06:98c0::'' = Some ([42, 6, 152, 192] @ replicate 12 0)"
  "parse_addr ''2c0f:f248::'' = Some ([44, 15, 242, 72] @ replicate 12 0)"
proof -
  show "parse_addr ''2400:cb00::'' = Some ([36, 0, 203, 0] @ replicate 12 0)"
    using parse_two_groups [of "''2400''" "''cb00''"] by (simp add: is_hex_iff hex_number_def hex_value_def Let_def)
  show "parse_addr ''2606:4700::'' = Some ([38, 6, 71, 0] @ replicate 12 0)"
    using parse_two_groups [of "''2606''" "''4700''"] by (simp add: is_hex_iff hex_number_def hex_value_def Let_def)
  show "parse_addr ''2803:f800::'' = Some ([40, 3, 248, 0] @ replicate 12 0)"
    using parse_two_groups [of "''2803''" "''f800''"] by (simp add: is_hex_iff hex_number_def hex_value_def Let_def)
  show "parse_addr ''2405:b500::'' = Some ([36, 5, 181, 0] @ replicate 12 0)"
    using parse_two_groups [of "''2405''" "''b500''"] by (simp add: is_hex_iff hex_number_def hex_value_def Let_def)
  show "parse_addr ''2405:8100::'' = Some ([36, 5, 129, 0] @ replicate 12 0)"
    using parse_two_groups [of "''2405''" "''8100''"] by (simp add: is_hex_iff hex_number_def hex_value_def Let_def)
  show "parse_addr ''2a06:98c0::'' = Some ([42, 6, 152, 192] @ replicate 12 0)"
    using parse_two_groups [of "''2a06''" "''98c0''"] by (simp add: is_hex_iff hex_number_def hex_value_def Let_def)
  show "parse_addr ''2c0f:f248::'' = Some ([44, 15, 242, 72] @ replicate 12 0)"
    using parse_two_groups [of "''2c0f''" "''f248''"] by (simp add: is_hex_iff hex_number_def hex_value_def Let_def)
qed

lemma zeros: "replicate 12 (0 :: 8 word) = [0, 0, 0, 0, 0, 0, 0, 0, 0, 0, 0, 0]" "replicate 10 (0 :: 8 word) = [0, 0, 0, 0, 0, 0, 0, 0, 0, 0]"
  by (simp_all add: numeral_eq_Suc)

lemma cidr_masks: "cidr_mask 32 128 = [255, 255, 255, 255, 0, 0, 0, 0, 0, 0, 0, 0, 0, 0, 0, 0]" "cidr_mask 29 128 = [255, 255, 255, 248, 0, 0, 0, 0, 0, 0, 0, 0, 0, 0, 0, 0]"
  by (simp_all add: cidr_mask_def mask_byte_def upt_rec)

lemma cloudflare_v6:
  "ParseCIDR ''2400:cb00::/32'' = Some \<lparr>net_IP = [36, 0, 203, 0, 0, 0, 0, 0, 0, 0, 0, 0, 0, 0, 0, 0], net_Mask = [255, 255, 255, 255, 0, 0, 0, 0, 0, 0, 0, 0, 0, 0, 0, 0]\<rparr>"
  "ParseCIDR ''2606:4700::/32'' = Some \<lparr>net_IP = [38, 6, 71, 0, 0, 0, 0, 0, 0, 0, 0, 0, 0, 0, 0, 0], net_Mask = [255, 255, 255, 255, 0, 0, 0, 0, 0, 0, 0, 0, 0, 0, 0, 0]\<rparr>"
  "ParseCIDR ''2803:f800::/32'' = Some \<lparr>net_IP = [40, 3, 248, 0, 0, 0, 0, 0, 0, 0, 0, 0, 0, 0, 0, 0], net_Mask = [255, 255, 255, 255, 0, 0, 0, 0, 0, 0, 0, 0, 0, 0, 0, 0]\<rparr>"
  "ParseCIDR ''2405:b500::/32'' = Some \<lparr>net_IP = [36, 5, 181, 0, 0, 0, 0, 0, 0, 0, 0, 0, 0, 0, 0, 0], net_Mask = [255, 255, 255, 255, 0, 0, 0, 0, 0, 0, 0, 0, 0, 0, 0, 0]\<rparr>"
  "ParseCIDR ''2405:8100::/32'' = Some \<lparr>net_IP = [36, 5, 129, 0, 0, 0, 0, 0, 0, 0, 0, 0, 0, 0, 0, 0], net_Mask = [255, 255, 255, 255, 0, 0, 0, 0, 0, 0, 0, 0, 0, 0, 0, 0]\<rparr>"
  "ParseCIDR ''2a06:98c0::/29'' = Some \<lparr>net_IP = [42, 6, 152, 192, 0, 0, 0, 0, 0, 0, 0, 0, 0, 0, 0, 0], net_Mask = [255, 255, 255, 248, 0, 0, 0, 0, 0, 0, 0, 0, 0, 0, 0, 0]\<rparr>"
  "ParseCIDR ''2c0f:f248::/32'' = Some \<lparr>net_IP = [44, 15, 242, 72, 0, 0, 0, 0, 0, 0, 0, 0, 0, 0, 0, 0], net_Mask = [255, 255, 255, 255, 0, 0, 0, 0, 0, 0, 0, 0, 0, 0, 0, 0]\<rparr>"
  by (simp_all add: ParseCIDR_def cloudflare_v6_addresses zeros cidr_masks as16_def v4_prefix_def ip_mask_def and_bytes_def
      digits_value_def is_digit_def Let_def)

lemma default_validator:
  "\<exists>pv. NewDefaultProxyValidator [] = Some pv \<and> trustedProxyCIDRs pv = [] \<and>
    map Some (cloudflareCIDRs pv) = map ParseCIDR (defaultCloudflareIPv4Ranges @ defaultCloudflareIPv6Ranges)"
  by (simp add: NewDefaultProxyValidator_def NewProxyValidator_def defaultCloudflareIPv4Ranges_def
      defaultCloudflareIPv6Ranges_def cloudflare_v4 cloudflare_v6)

text \<open>An IPv6 network contains no IPv4 address, so only the first fifteen ranges count.\<close>

lemma v6_ranges_length:
  assumes "t \<in> set (drop 15 defaultCloudflareIPv4Ranges @ defaultCloudflareIPv6Ranges)" "ParseCIDR t = Some n"
  shows "\<exists>nn m. network n = Some (nn, m) \<and> length nn = 16"
  using assms
  by (auto simp: defaultCloudflareIPv4Ranges_def defaultCloudflareIPv6Ranges_def cloudflare_v6 network_def To4_def
      v4_prefix_def zeros Let_def)

lemma default_validator_ranges:
  assumes "NewDefaultProxyValidator [] = Some pv" "n \<in> set (trustedProxyCIDRs pv @ cloudflareCIDRs pv)"
    and "Contains n v4" "length v4 = 4"
  shows "\<exists>t \<in> set (take 15 defaultCloudflareIPv4Ranges). ParseCIDR t = Some n"
proof -
  have "n \<in> set (cloudflareCIDRs pv)"
    and "set (map Some (cloudflareCIDRs pv)) = set (map ParseCIDR (defaultCloudflareIPv4Ranges @ defaultCloudflareIPv6Ranges))"
    using default_validator assms(1,2) by (auto simp del: map_append)
  then have "Some n \<in> set (map ParseCIDR (defaultCloudflareIPv4Ranges @ defaultCloudflareIPv6Ranges))"
    by (metis image_eqI list.set_map)
  then obtain t where t: "t \<in> set (defaultCloudflareIPv4Ranges @ defaultCloudflareIPv6Ranges)" "ParseCIDR t = Some n"
    by (metis image_iff list.set_map)
  have "t \<notin> set (drop 15 defaultCloudflareIPv4Ranges @ defaultCloudflareIPv6Ranges)"
    using v6_ranges_length [OF _ t(2)] Contains_v4(2) [OF assms(4,3)] by auto
  moreover have "set defaultCloudflareIPv4Ranges = set (take 15 defaultCloudflareIPv4Ranges) \<union> set (drop 15 defaultCloudflareIPv4Ranges)"
    by (metis append_take_drop_id set_append)
  ultimately show ?thesis using t by auto
qed

section \<open>Properties\<close>

text \<open>C29: a forwarding header is believed only from Cloudflare. With the validator every service is
  started with, the address of the client differs from the peer's only when the peer is an IPv4
  address in one of the fifteen IPv4 ranges; then it is the first entry of the forwarding header,
  or the real-IP header. No IPv6 peer is ever believed, the IPv6 ranges are without effect.\<close>

theorem forwarded_headers_need_trust:
  assumes "NewDefaultProxyValidator [] = Some pv"
    and "GetClientIP pv ra xff xri \<noteq> takeWhile (\<lambda>x. x \<noteq> CHR '':'') ra"
  shows "(\<exists>t v4 n. t \<in> set (take 15 defaultCloudflareIPv4Ranges) \<and> ParseCIDR t = Some n \<and>
      parse_ipv4 (takeWhile (\<lambda>x. x \<noteq> CHR '':'') ra) = Some v4 \<and> Contains n v4) \<and>
    GetClientIP pv ra xff xri \<in> {TrimSpace (takeWhile (\<lambda>x. x \<noteq> CHR '','') xff), xri}"
proof
  let ?h = "takeWhile (\<lambda>x. x \<noteq> CHR '':'') ra"
  have "IsTrustedProxy pv ?h" using GetClientIP_untrusted assms(2) by blast
  then obtain v4 n where v: "parse_ipv4 ?h = Some v4" "n \<in> set (trustedProxyCIDRs pv @ cloudflareCIDRs pv)"
      "Contains n v4" "length v4 = 4"
    using IsTrustedProxy_host by blast
  then show "\<exists>t v4 n. t \<in> set (take 15 defaultCloudflareIPv4Ranges) \<and> ParseCIDR t = Some n \<and>
      parse_ipv4 ?h = Some v4 \<and> Contains n v4"
    using default_validator_ranges [OF assms(1) v(2-4)] by blast
  show "GetClientIP pv ra xff xri \<in> {TrimSpace (takeWhile (\<lambda>x. x \<noteq> CHR '','') xff), xri}"
    using assms(2) by (auto simp: GetClientIP_def Let_def split_on_hd split: if_splits)
qed

lemma sample_peer_trusted:
  assumes "NewDefaultProxyValidator [] = Some pv"
  shows "IsTrustedProxy pv ''173.245.48.9''"
proof -
  have "map Some (cloudflareCIDRs pv) = map ParseCIDR (defaultCloudflareIPv4Ranges @ defaultCloudflareIPv6Ranges)"
    using default_validator assms by auto
  then have "hd (map Some (cloudflareCIDRs pv)) = ParseCIDR ''173.245.48.0/20'' \<and> cloudflareCIDRs pv \<noteq> []"
    by (auto simp: defaultCloudflareIPv4Ranges_def)
  then obtain ns where "cloudflareCIDRs pv = \<lparr>net_IP = [173, 245, 48, 0], net_Mask = [255, 255, 240, 0]\<rparr> # ns"
    by (cases "cloudflareCIDRs pv") (auto simp: cloudflare_v4)
  moreover have "ParseIP ''173.245.48.9'' = Some (v4_prefix @ [173, 245, 48, 9])"
    by (simp add: ParseIP_def read_ip read_ipv4)
  moreover have "Contains \<lparr>net_IP = [173, 245, 48, 0], net_Mask = [255, 255, 240, 0]\<rparr> (v4_prefix @ [173, 245, 48, 9])"
    by (simp add: Contains_def network_def To4_def and_bytes_def Let_def)
  ultimately show ?thesis by (simp add: IsTrustedProxy_def split_on_hd)
qed

theorem forwarded_headers_need_trust_witness:
  "\<exists>pv. NewDefaultProxyValidator [] = Some pv \<and>
    GetClientIP pv ''173.245.48.9:443'' ''1.2.3.4, 5.6.7.8'' '''' = ''1.2.3.4'' \<and>
    (\<exists>t v4 n. t \<in> set (take 15 defaultCloudflareIPv4Ranges) \<and> ParseCIDR t = Some n \<and>
       parse_ipv4 ''173.245.48.9'' = Some v4 \<and> Contains n v4)"
proof -
  obtain pv where pv: "NewDefaultProxyValidator [] = Some pv" using default_validator by blast
  have g: "GetClientIP pv ''173.245.48.9:443'' ''1.2.3.4, 5.6.7.8'' '''' = ''1.2.3.4''"
    using sample_peer_trusted [OF pv] by (simp add: GetClientIP_def split_on_hd TrimSpace_def is_space_def Let_def)
  then have "GetClientIP pv ''173.245.48.9:443'' ''1.2.3.4, 5.6.7.8'' '''' \<noteq>
      takeWhile (\<lambda>x. x \<noteq> CHR '':'') ''173.245.48.9:443''" by simp
  from conjunct1 [OF forwarded_headers_need_trust [OF pv this]] show ?thesis using pv g by simp
qed

text \<open>
  Behind a proxy that appends the address it sees, the client writes the entry that counts: the
  first one.
\<close>

lemma forwarded_first_wins:
  assumes "IsTrustedProxy pv (takeWhile (\<lambda>x. x \<noteq> CHR '':'') ra)" "CHR '','' \<notin> set spoofed" "TrimSpace spoofed \<noteq> []"
  shows "GetClientIP pv ra (spoofed @ CHR '','' # rest) xri = TrimSpace spoofed"
proof -
  have "takeWhile (\<lambda>x. x \<noteq> CHR '','') (spoofed @ CHR '','' # rest) = spoofed"
    using assms(2) by (induction spoofed) auto
  then show ?thesis using assms(1,3) by (simp add: GetClientIP_def Let_def split_on_hd)
qed

text \<open>Without a validator the real-IP header is believed from everybody.\<close>

lemma clientIP_without_validator:
  "rq_Header r ''X-Real-IP'' \<noteq> [] \<Longrightarrow> clientIP r None = rq_Header r ''X-Real-IP''"
  by (simp add: clientIP_def Let_def)

text \<open>
  The country header is believed from everybody: whoever names an allowed country is let in,
  wherever the request comes from, and the configured validator is not asked.
\<close>

lemma country_header_decides:
  assumes "gc_HeaderFallback cfg = []" "c \<in> set (gc_Allowed cfg)" "c \<noteq> []" "ToUpper (rq_Header r ''CF-IPCountry'') = ToUpper c"
  shows "Geolocation cfg r = Passed (ToUpper c)"
  using assms by (auto simp: Geolocation_def Let_def)

text \<open>
  The user limits look for the user under a key of the context that the authentication, which
  stores the user under keys of its own, does not set.
\<close>

lemma user_limit_without_key:
  "rq_user_id r = None \<Longrightarrow> UserRateLimitMiddleware L parse_uuid cfg si srv now down R r = (R, Served)"
  by (simp add: UserRateLimitMiddleware_def)

text \<open>A client that connects over IPv6 is never limited and never located. The peer's address
  starts with a bracket; what is left of its first colon is no address, so with any validator the
  limiter is not consulted and the request is served whatever came before, the combined
  middleware panics, and the geofence passes the request without asking the provider when no
  country header is sent.\<close>

theorem ipv6_clients_unlimited:
  assumes "rq_RemoteAddr r = CHR ''['' # rest" and "\<And>s. ParseIP s = None \<Longrightarrow> text_ip s = None"
    and "rq_Header r ''CF-IPCountry'' = []" "gc_HeaderFallback gcfg = []" "gc_ProxyValidator gcfg = Some pv"
  shows "RateLimitMiddleware text_ip cfg si srv now down (Some pv) R r = (R, Served) \<and>
    CombinedRateLimitMiddleware L text_ip parse_uuid cfg si srv2 now2 down2 (Some pv) R r = (R, NilPanic) \<and>
    Geolocation gcfg r = Passed ''''"
proof -
  let ?h = "takeWhile (\<lambda>x. x \<noteq> CHR '':'') (CHR ''['' # rest)"
  have t: "takeWhile (\<lambda>x. x \<noteq> CHR '':'') ?h = ?h" by (rule takeWhile_idem)
  have "\<not> IsTrustedProxy pv ?h" by (simp only: IsTrustedProxy_def split_on_hd t ParseIP_bracket) simp
  then have c: "clientIP r (Some pv) = ?h" using assms(1) GetClientIP_untrusted by (simp add: clientIP_def Let_def)
  then have l: "text_ip (clientIP r (Some pv)) = None" using assms(2) ParseIP_bracket by presburger
  have "before_last CHR '':'' ?h = None" by (auto simp: before_last_def dest: set_takeWhileD)
  then have "geo_parseIP ?h = None" using ParseIP_bracket [of rest] by (simp only: geo_parseIP_def SplitHost_def) simp
  then have "Geolocation gcfg r = Passed ''''"
    using c assms(3-5) by (simp add: Geolocation_def Let_def split: option.splits)
  then show ?thesis using l by (simp add: RateLimitMiddleware_def CombinedRateLimitMiddleware_def CheckIPLimit_def)
qed

definition sample_request :: Request where
  "sample_request = \<lparr>rq_RemoteAddr = ''[2001:db8::1]:52814'', rq_Header = (\<lambda>_. ''''), rq_user_id = None\<rparr>"

definition sample_fence :: "ProxyValidator \<Rightarrow> GeoConfig" where
  "sample_fence pv = \<lparr>gc_Provider = Some (\<lambda>_. Some ''US''), gc_Allowed = [''KE''], gc_HeaderFallback = '''', gc_ProxyValidator = Some pv\<rparr>"

theorem ipv6_clients_unlimited_witness:
  "\<exists>pv. NewDefaultProxyValidator [] = Some pv \<and> Geolocation (sample_fence pv) sample_request = Passed '''' \<and>
    snd (RateLimitMiddleware (\<lambda>s. map_option (\<lambda>ip. s) (ParseIP s)) DefaultConfig (\<lambda>x. 0) 0 0 False (Some pv) [] sample_request) = Served"
proof -
  obtain pv where pv: "NewDefaultProxyValidator [] = Some pv" using default_validator by blast
  have "rq_RemoteAddr sample_request = CHR ''['' # ''2001:db8::1]:52814''" "rq_Header sample_request ''CF-IPCountry'' = []"
    "gc_HeaderFallback (sample_fence pv) = []" "gc_ProxyValidator (sample_fence pv) = Some pv"
    by (simp_all add: sample_request_def sample_fence_def)
  from ipv6_clients_unlimited [OF this(1) _ this(2-4), of "\<lambda>s. map_option (\<lambda>ip. s) (ParseIP s)"] pv
  show ?thesis by simp
qed

end
