(* ===== verification/Leads.thy ===== *)
theory Leads
  imports GoText
begin

text \<open>
  \<open>cmd/leads/main.go\<close>: the service behind the landing page. It keeps one table of its own,
  \<open>landing_leads\<close>, with a unique index on the number. A handler takes the request as the router
  and the JSON decoder deliver it and returns the reply; a statement that fails for a reason outside
  the program is an argument, and so are the clock of the server and what other requests commit
  between the two statements of a registration.
\<close>

section \<open>The table\<close>

record lead =
  ld_id :: nat
  ld_name :: string
  ld_whatsapp :: string
  ld_instagram :: "string option"
  ld_source :: string
  ld_user_agent :: string
  ld_created_at :: time

text \<open>The rows, and the sequence behind the identifiers, which no failed insert gives back.\<close>

record leads_db =
  landing_leads :: "lead list"
  lead_seq :: nat

text \<open>
  What \<open>ensureSchema\<close> does to a table from before the index existed: of the rows with one number
  the newest stays.
\<close>

definition ensureSchema :: "leads_db \<Rightarrow> leads_db" where
  "ensureSchema s = s\<lparr>landing_leads :=
     filter (\<lambda>a. \<not> list_ex (\<lambda>b. ld_whatsapp a = ld_whatsapp b \<and> ld_id a < ld_id b) (landing_leads s)) (landing_leads s)\<rparr>"

section \<open>Numbers\<close>

definition digitsOnly :: "string \<Rightarrow> string" where
  "digitsOnly v = filter is_digit v"

definition nullIfEmpty :: "string \<Rightarrow> string option" where
  "nullIfEmpty v = (if TrimSpace v = '''' then None else Some v)"

definition phoneVariants :: "string \<Rightarrow> string list" where
  "phoneVariants whatsapp =
     (let w = digitsOnly whatsapp in
      if HasPrefix w ''55'' \<and> length w > 12 then remdups [w, TrimPrefix w ''55'']
      else if length w \<ge> 10 \<and> length w \<le> 11 then remdups [w, ''55'' @ w]
      else [w])"

definition phoneExists :: "leads_db \<Rightarrow> string \<Rightarrow> bool" where
  "phoneExists s whatsapp \<longleftrightarrow>
     list_ex (\<lambda>r. ld_whatsapp r \<in> set (phoneVariants whatsapp)) (landing_leads s)"

section \<open>The handlers\<close>

datatype http_method = GET | POST | OPTIONS | OtherMethod string

datatype lead_body =
    NoBody
  | LeadError string
  | PhoneExists
  | LeadAnswer bool
  | LeadList "(nat \<times> string \<times> string \<times> string \<times> string \<times> time) list"

definition method_not_allowed :: "int \<times> lead_body" where
  "method_not_allowed = (405, LeadError ''method not allowed'')"

text \<open>\<open>/api/leads/check\<close>: the number comes from the query of a GET or the body of a POST.\<close>

definition check_lead :: "bool \<Rightarrow> leads_db \<Rightarrow> http_method \<Rightarrow> string \<Rightarrow> string option \<Rightarrow> int \<times> lead_body" where
  "check_lead fails s method query body =
     (if method = OPTIONS then (204, NoBody)
      else if method \<noteq> GET \<and> method \<noteq> POST then method_not_allowed
      else
        (case (if method = GET then Some (digitsOnly query) else map_option digitsOnly body) of
           None \<Rightarrow> (400, LeadError ''invalid json'')
         | Some whatsapp \<Rightarrow>
             if length whatsapp < 10 then (400, LeadError ''whatsapp invalid'')
             else if fails then (500, LeadError ''check failed'')
             else (200, LeadAnswer (phoneExists s whatsapp))))"

record leadRequest =
  lq_Name :: string
  lq_Whatsapp :: string
  lq_Instagram :: string
  lq_Source :: string
  lq_UserAgent :: string

definition normalize_lead :: "string \<Rightarrow> leadRequest \<Rightarrow> leadRequest" where
  "normalize_lead agent req =
     req\<lparr>lq_Name := TrimSpace (lq_Name req), lq_Whatsapp := digitsOnly (lq_Whatsapp req),
        lq_Instagram := TrimSpace (lq_Instagram req),
        lq_Source := (if TrimSpace (lq_Source req) = '''' then ''landing'' else TrimSpace (lq_Source req)),
        lq_UserAgent := (if lq_UserAgent req = '''' then agent else lq_UserAgent req)\<rparr>"

definition new_lead :: "time \<Rightarrow> leadRequest \<Rightarrow> nat \<Rightarrow> lead" where
  "new_lead now req i =
     \<lparr>ld_id = i, ld_name = lq_Name req, ld_whatsapp = lq_Whatsapp req,
      ld_instagram = nullIfEmpty (lq_Instagram req), ld_source = lq_Source req,
      ld_user_agent = lq_UserAgent req, ld_created_at = now\<rparr>"

datatype insert_result = Inserted | UniqueViolation | InsertFailed

text \<open>The identifier is drawn before the index refuses the row.\<close>

definition insert_lead :: "bool \<Rightarrow> time \<Rightarrow> leadRequest \<Rightarrow> leads_db \<Rightarrow> leads_db \<times> insert_result" where
  "insert_lead fails now req s =
     (if fails then (s, InsertFailed)
      else
        let s' = s\<lparr>lead_seq := Suc (lead_seq s)\<rparr> in
        if lq_Whatsapp req \<in> ld_whatsapp ` set (landing_leads s) then (s', UniqueViolation)
        else (s'\<lparr>landing_leads := landing_leads s @ [new_lead now req (lead_seq s)]\<rparr>, Inserted))"

text \<open>
  \<open>/api/leads\<close>: \<open>other\<close> is what other requests commit between the check and the insert, and
  \<open>fails\<close> whether the check and whether the insert cannot be executed.
\<close>

definition submit_lead ::
  "bool \<times> bool \<Rightarrow> time \<Rightarrow> (leads_db \<Rightarrow> leads_db) \<Rightarrow> leads_db \<Rightarrow> http_method \<Rightarrow> string \<Rightarrow> leadRequest option \<Rightarrow>
     leads_db \<times> int \<times> lead_body" where
  "submit_lead fails now other s method agent body =
     (if method = OPTIONS then (s, 204, NoBody)
      else if method \<noteq> POST then (s, method_not_allowed)
      else
        (case body of
           None \<Rightarrow> (s, 400, LeadError ''invalid json'')
         | Some raw \<Rightarrow>
             let req = normalize_lead agent raw in
             if lq_Name req = '''' \<or> length (lq_Whatsapp req) < 10
             then (s, 400, LeadError ''name and whatsapp required'')
             else if fst fails then (s, 500, LeadError ''failed to save'')
             else if phoneExists s (lq_Whatsapp req) then (s, 409, PhoneExists)
             else
               (case insert_lead (snd fails) now req (other s) of
                  (s', Inserted) \<Rightarrow> (s', 201, LeadAnswer False)
                | (s', UniqueViolation) \<Rightarrow> (s', 409, PhoneExists)
                | (s', InsertFailed) \<Rightarrow> (s', 500, LeadError ''failed to save''))))"

text \<open>\<open>/api/admin/leads\<close>: the 500 newest rows, for the holder of the token.\<close>

definition admin_leads ::
  "bool \<Rightarrow> string \<Rightarrow> leads_db \<Rightarrow> http_method \<Rightarrow> string \<Rightarrow> string \<Rightarrow> int \<times> lead_body" where
  "admin_leads fails env_token s method header query =
     (let adminToken = (if TrimSpace env_token = '''' then ''LestBet369Admin'' else TrimSpace env_token) in
      if method = OPTIONS then (204, NoBody)
      else if method \<noteq> GET then method_not_allowed
      else
        let token = (if TrimSpace header = '''' then TrimSpace query else TrimSpace header) in
        if token = '''' \<or> token \<noteq> adminToken then (401, LeadError ''unauthorized'')
        else if fails then (500, LeadError ''failed to list'')
        else (200, LeadList (map (\<lambda>r. (ld_id r, ld_name r, ld_whatsapp r,
                 (case ld_instagram r of None \<Rightarrow> '''' | Some x \<Rightarrow> x), ld_source r, ld_created_at r))
               (take 500 (rev (sort_key ld_created_at (landing_leads s)))))))"

section \<open>The table stays well formed\<close>

text \<open>
  Requests overlap: a registration is a check and, some time later, an insert. A state is the
  database with the registrations that have passed their check.
\<close>

record leads_sys =
  sys_db :: leads_db
  sys_pending :: "leadRequest list"

inductive leads_step :: "leads_sys \<Rightarrow> leads_sys \<Rightarrow> bool" where
  lead_checked: "req = normalize_lead agent raw \<Longrightarrow> lq_Name req \<noteq> '''' \<Longrightarrow> 10 \<le> length (lq_Whatsapp req) \<Longrightarrow>
    \<not> phoneExists (sys_db s) (lq_Whatsapp req) \<Longrightarrow> leads_step s (s\<lparr>sys_pending := req # sys_pending s\<rparr>)"
| lead_inserted: "req \<in> set (sys_pending s) \<Longrightarrow> insert_lead fails now req (sys_db s) = (d, res) \<Longrightarrow>
    leads_step s (s\<lparr>sys_db := d, sys_pending := remove1 req (sys_pending s)\<rparr>)"

inductive_cases leads_stepE: "leads_step s s'"

definition lead_number :: "string \<Rightarrow> bool" where
  "lead_number w \<longleftrightarrow> list_all is_digit w \<and> 10 \<le> length w"

definition leads_ok :: "leads_db \<Rightarrow> bool" where
  "leads_ok s \<longleftrightarrow> distinct (map ld_id (landing_leads s)) \<and> distinct (map ld_whatsapp (landing_leads s)) \<and>
     (\<forall>r \<in> set (landing_leads s). ld_id r < lead_seq s \<and> ld_name r \<noteq> '''' \<and> lead_number (ld_whatsapp r))"

definition request_ok :: "leadRequest \<Rightarrow> bool" where
  "request_ok req \<longleftrightarrow> lq_Name req \<noteq> '''' \<and> lead_number (lq_Whatsapp req)"

lemma digitsOnly_digits [simp]: "list_all is_digit (digitsOnly v)"
  by (simp add: digitsOnly_def list_all_iff)

lemma digitsOnly_id [simp]: "list_all is_digit v \<Longrightarrow> digitsOnly v = v"
  by (simp add: digitsOnly_def list_all_iff)

lemma normalize_lead_fields [simp]:
  "lq_Whatsapp (normalize_lead agent raw) = digitsOnly (lq_Whatsapp raw)"
  "lq_Name (normalize_lead agent raw) = TrimSpace (lq_Name raw)"
  by (simp_all add: normalize_lead_def)

lemma insert_lead_ok:
  assumes "leads_ok s" "request_ok req" "insert_lead fails now req s = (s', res)"
  shows "leads_ok s'"
  using assms by (fastforce simp: insert_lead_def new_lead_def leads_ok_def request_ok_def Let_def less_Suc_eq split: if_splits)

interpretation leads_run: step_system leads_step
  "\<lambda>s. leads_ok (sys_db s) \<and> list_all request_ok (sys_pending s)"
proof (unfold_locales, goal_cases)
  case (1 s s')
  from 1(1) show ?case
  proof cases
    case (lead_checked req agent raw)
    then show ?thesis using 1(2) by (auto simp: request_ok_def lead_number_def)
  next
    case (lead_inserted req fails t d res)
    moreover have "request_ok req" using lead_inserted(2) 1(2) by (auto simp: list_all_iff)
    ultimately show ?thesis using 1(2) insert_lead_ok
      by (auto simp: list_all_iff dest: notin_set_remove1)
  qed
qed

section \<open>One number, two spellings\<close>

text \<open>A Brazilian mobile number: eleven digits, or the same with the country code.\<close>

definition mobile :: "string \<Rightarrow> bool" where
  "mobile w \<longleftrightarrow> list_all is_digit w \<and> (length w = 11 \<or> length w = 13 \<and> HasPrefix w ''55'')"

definition canonical :: "string \<Rightarrow> string" where
  "canonical w = (if length w = 13 then drop 2 w else w)"

lemma set_phoneVariants:
  "list_all is_digit w \<Longrightarrow> set (phoneVariants w) =
    (if HasPrefix w ''55'' \<and> 12 < length w then {w, drop 2 w}
     else if 10 \<le> length w \<and> length w \<le> 11 then {w, ''55'' @ w} else {w})"
  by (auto simp: phoneVariants_def TrimPrefix_def Let_def numeral_2_eq_2)

lemma phoneVariants_mobile:
  assumes "mobile v" "mobile w"
  shows "v \<in> set (phoneVariants w) \<longleftrightarrow> canonical v = canonical w"
  using assms
  by (auto simp: mobile_def canonical_def HasPrefix_iff set_phoneVariants split: if_splits)

lemma phoneExists_mobile:
  assumes "mobile w"
  shows "phoneExists s w \<longleftrightarrow> (\<exists>r \<in> set (landing_leads s). mobile (ld_whatsapp r) \<and> canonical (ld_whatsapp r) = canonical w)"
proof -
  have "mobile v" if "v \<in> set (phoneVariants w)" for v
    using assms that by (auto simp: mobile_def set_phoneVariants HasPrefix_iff is_digit_def split: if_splits)
  then show ?thesis using phoneVariants_mobile [OF _ assms] unfolding phoneExists_def list_ex_iff by blast
qed

text \<open>A registration that is not overtaken by another one, branch by branch.\<close>

lemma submit_alone:
  assumes "lq_Name (normalize_lead agent raw) \<noteq> ''''" "10 \<le> length (digitsOnly (lq_Whatsapp raw))"
  shows "phoneExists s (digitsOnly (lq_Whatsapp raw)) \<Longrightarrow>
      submit_lead (False, False) now id s POST agent (Some raw) = (s, 409, PhoneExists)"
    and "\<not> phoneExists s (digitsOnly (lq_Whatsapp raw)) \<Longrightarrow>
      \<exists>row. submit_lead (False, False) now id s POST agent (Some raw) =
          (s\<lparr>landing_leads := landing_leads s @ [row], lead_seq := Suc (lead_seq s)\<rparr>, 201, LeadAnswer False) \<and>
        ld_whatsapp row = digitsOnly (lq_Whatsapp raw) \<and> ld_id row = lead_seq s"
proof -
  let ?w = "digitsOnly (lq_Whatsapp raw)"
  have g: "\<not> (lq_Name (normalize_lead agent raw) = '''' \<or> length (lq_Whatsapp (normalize_lead agent raw)) < 10)"
    using assms by auto
  show "submit_lead (False, False) now id s POST agent (Some raw) = (s, 409, PhoneExists)" if "phoneExists s ?w"
    using that g by (simp add: submit_lead_def Let_def)
  have "?w \<in> set (phoneVariants ?w)" by (simp add: set_phoneVariants)
  then have "?w \<notin> ld_whatsapp ` set (landing_leads s)" if "\<not> phoneExists s ?w"
    using that by (auto simp: phoneExists_def list_ex_iff)
  then show "\<exists>row. submit_lead (False, False) now id s POST agent (Some raw) =
        (s\<lparr>landing_leads := landing_leads s @ [row], lead_seq := Suc (lead_seq s)\<rparr>, 201, LeadAnswer False) \<and>
      ld_whatsapp row = ?w \<and> ld_id row = lead_seq s" if "\<not> phoneExists s ?w"
    using that g by (intro exI [of _ "new_lead now (normalize_lead agent raw) (lead_seq s)"])
      (simp add: submit_lead_def insert_lead_def new_lead_def Let_def)
qed

section \<open>Properties\<close>

text \<open>The table of leads stays well formed however requests overlap. From a table whose
  identifiers and numbers are distinct, through any interleaving of checks and inserts, whatever
  fails, no number is stored twice, identifiers are not reused, and every row has a name and a
  number of at least ten digits.\<close>

theorem leads_table_ok:
  assumes "leads_ok s" "leads_step\<^sup>*\<^sup>* \<lparr>sys_db = s, sys_pending = []\<rparr> t"
  shows "leads_ok (sys_db t)"
  using leads_run.run_keeps [OF assms(2)] assms(1) by simp

text \<open>A mobile number is registered once. When a registration of a Brazilian mobile number was
  accepted, the check finds every spelling of the number, and a later registration under any
  spelling, with whatever name, is answered with a conflict and stores nothing.\<close>

theorem mobile_registered_once:
  assumes "submit_lead (False, False) now id s POST agent (Some raw) = (s', 201, LeadAnswer False)"
    and "mobile (digitsOnly (lq_Whatsapp raw))" "mobile (digitsOnly (lq_Whatsapp again))"
    and "canonical (digitsOnly (lq_Whatsapp again)) = canonical (digitsOnly (lq_Whatsapp raw))"
    and "TrimSpace (lq_Name again) \<noteq> ''''"
  shows "check_lead False s' GET (lq_Whatsapp again) body = (200, LeadAnswer True) \<and>
    submit_lead (False, False) now' id s' POST agent' (Some again) = (s', 409, PhoneExists)"
proof -
  let ?w = "digitsOnly (lq_Whatsapp raw)" and ?v = "digitsOnly (lq_Whatsapp again)"
  have l: "10 \<le> length ?w" "10 \<le> length ?v" using assms(2,3) by (auto simp: mobile_def)
  have n: "lq_Name (normalize_lead agent raw) \<noteq> ''''"
    using assms(1) by (auto simp: submit_lead_def Let_def split: if_splits)
  have "\<not> phoneExists s ?w" using submit_alone(1) [OF n l(1), of s "now"] assms(1) by auto
  then obtain row where "landing_leads s' = landing_leads s @ [row]" "ld_whatsapp row = ?w"
    using submit_alone(2) [OF n l(1), of s "now"] assms(1) by auto
  then have "phoneExists s' ?v" using assms(2-4) by (auto simp: phoneExists_mobile)
  then show ?thesis
    using submit_alone(1) [of agent' again s' now'] l(2) assms(5) by (simp add: check_lead_def)
qed

definition empty_leads :: leads_db where
  "empty_leads = \<lparr>landing_leads = [], lead_seq = 1\<rparr>"

definition lead_of :: "string \<Rightarrow> leadRequest" where
  "lead_of w = \<lparr>lq_Name = ''Ana'', lq_Whatsapp = w, lq_Instagram = '''', lq_Source = '''', lq_UserAgent = ''''\<rparr>"

theorem mobile_registered_once_witness:
  "snd (snd (submit_lead (False, False) 0 id
     (fst (submit_lead (False, False) 0 id empty_leads POST '''' (Some (lead_of ''(11) 98765-4321''))))
     POST '''' (Some (lead_of ''+55 11 98765 4321'')))) = PhoneExists"
proof -
  have "submit_lead (False, False) 0 id empty_leads POST '''' (Some (lead_of ''(11) 98765-4321'')) =
      (fst (submit_lead (False, False) 0 id empty_leads POST '''' (Some (lead_of ''(11) 98765-4321''))), 201, LeadAnswer False)"
    "mobile (digitsOnly (lq_Whatsapp (lead_of ''(11) 98765-4321'')))"
    "mobile (digitsOnly (lq_Whatsapp (lead_of ''+55 11 98765 4321'')))"
    "canonical (digitsOnly (lq_Whatsapp (lead_of ''+55 11 98765 4321''))) =
      canonical (digitsOnly (lq_Whatsapp (lead_of ''(11) 98765-4321'')))"
    "TrimSpace (lq_Name (lead_of ''+55 11 98765 4321'')) \<noteq> ''''"
    by code_simp+
  from mobile_registered_once [OF this] show ?thesis by simp
qed

theorem leads_table_ok_witness:
  "leads_ok (fst (insert_lead False 0 (normalize_lead '''' (lead_of ''11987654321'')) empty_leads))"
proof -
  let ?r = "normalize_lead '''' (lead_of ''11987654321'')"
  let ?s = "\<lparr>sys_db = empty_leads, sys_pending = []\<rparr>"
  let ?d = "insert_lead False 0 ?r empty_leads"
  have "leads_step ?s (?s\<lparr>sys_pending := ?r # sys_pending ?s\<rparr>)"
    by (rule lead_checked [OF refl]) (code_simp+)
  moreover have "leads_step (?s\<lparr>sys_pending := ?r # sys_pending ?s\<rparr>)
      ((?s\<lparr>sys_pending := ?r # sys_pending ?s\<rparr>)\<lparr>sys_db := fst ?d, sys_pending := remove1 ?r (sys_pending (?s\<lparr>sys_pending := ?r # sys_pending ?s\<rparr>))\<rparr>)"
    by (rule lead_inserted [of ?r _ False 0 "fst ?d" "snd ?d"]) simp_all
  ultimately have "leads_step\<^sup>*\<^sup>* ?s
      ((?s\<lparr>sys_pending := ?r # sys_pending ?s\<rparr>)\<lparr>sys_db := fst ?d, sys_pending := remove1 ?r (sys_pending (?s\<lparr>sys_pending := ?r # sys_pending ?s\<rparr>))\<rparr>)"
    by (meson rtranclp.rtrancl_into_rtrancl rtranclp.rtrancl_refl)
  moreover have "leads_ok empty_leads" by code_simp
  ultimately show ?thesis using leads_table_ok by fastforce
qed

text \<open>
  Overtaking: two registrations of one mobile number under two spellings that both pass their
  check are both stored, since the index compares texts.
\<close>

lemma overlapping_spellings_stored:
  "map ld_whatsapp (landing_leads (fst (submit_lead (False, False) 0
       (\<lambda>s. fst (submit_lead (False, False) 0 id s POST '''' (Some (lead_of ''5511987654321''))))
       empty_leads POST '''' (Some (lead_of ''11987654321''))))) = [''5511987654321'', ''11987654321'']"
  by code_simp

text \<open>
  A landline number of ten digits gets the country code in one direction only: twelve digits are
  not cut, so the long spelling is accepted after the short one, though not the other way round.
\<close>

lemma landline_registered_twice:
  "map (fst \<circ> snd) [submit_lead (False, False) 0 id
      (fst (submit_lead (False, False) 0 id empty_leads POST '''' (Some (lead_of ''1133334444'')))) POST '''' (Some (lead_of ''551133334444'')),
    submit_lead (False, False) 0 id
      (fst (submit_lead (False, False) 0 id empty_leads POST '''' (Some (lead_of ''551133334444'')))) POST '''' (Some (lead_of ''1133334444''))]
   = [201, 409]"
  by code_simp

text \<open>The migration of an old table leaves one row per number, the newest, and all numbers.\<close>

lemma ensureSchema_ok:
  assumes "distinct (map ld_id (landing_leads s))"
  shows "distinct (map ld_whatsapp (landing_leads (ensureSchema s)))"
    and "ld_whatsapp ` set (landing_leads (ensureSchema s)) = ld_whatsapp ` set (landing_leads s)"
proof -
  let ?t = "landing_leads s" and ?k = "\<lambda>a. \<not> list_ex (\<lambda>b. ld_whatsapp a = ld_whatsapp b \<and> ld_id a < ld_id b) (landing_leads s)"
  have inj: "inj_on ld_id (set ?t)" "distinct ?t" using assms by (simp_all add: distinct_map)
  have "inj_on ld_whatsapp (set (filter ?k ?t))"
  proof (rule inj_onI)
    fix a b assume "a \<in> set (filter ?k ?t)" "b \<in> set (filter ?k ?t)" "ld_whatsapp a = ld_whatsapp b"
    then have "a \<in> set ?t" "b \<in> set ?t" "ld_id a = ld_id b"
      by (auto simp: list_ex_iff) (metis linorder_neqE_nat)
    then show "a = b" using inj(1) by (simp add: inj_on_eq_iff)
  qed
  then show "distinct (map ld_whatsapp (landing_leads (ensureSchema s)))"
    using inj(2) by (simp add: ensureSchema_def distinct_map)
  have "ld_whatsapp a \<in> ld_whatsapp ` set (filter ?k ?t)" if a: "a \<in> set ?t" for a
  proof -
    let ?S = "{b \<in> set ?t. ld_whatsapp b = ld_whatsapp a}"
    have "Max (ld_id ` ?S) \<in> ld_id ` ?S" using a by (intro Max_in) auto
    then obtain b where b: "b \<in> ?S" "ld_id b = Max (ld_id ` ?S)" by auto
    then have "?k b" by (auto simp: list_ex_iff not_less intro!: Max_ge)
    then have "b \<in> set (filter ?k ?t)" and "ld_whatsapp b = ld_whatsapp a" using b(1) by auto
    then show ?thesis using image_eqI [of "ld_whatsapp a" ld_whatsapp b] by simp
  qed
  then show "ld_whatsapp ` set (landing_leads (ensureSchema s)) = ld_whatsapp ` set (landing_leads s)"
    by (auto simp: ensureSchema_def)
qed

end

