(* ===== verification/Json.thy ===== *)
theory Json
  imports GoText "HOL-Library.List_Lexorder" "HOL-Library.Char_ord"
begin

text \<open>
  What the program uses of \<open>encoding/json\<close>: values, the text \<open>Marshal\<close> writes, the reading of a
  text as \<open>Unmarshal\<close> does it, and how \<open>fmt\<close> prints a decoded value under \<open>%v\<close>. A number is kept
  as its literal; the fuel of the reader bounds the nesting and the length, and \<open>parse_json\<close>
  gives it more than the text can use. Texts are ASCII.
\<close>

datatype json =
    JNull
  | JBool bool
  | JNum string
  | JStr string
  | JArr "json list"
  | JObj "(string \<times> json) list"

section \<open>Writing\<close>

definition hex_char :: "nat \<Rightarrow> char" where
  "hex_char d = char_of (if d < 10 then 48 + d else 87 + d)"

definition escape_char :: "char \<Rightarrow> string" where
  "escape_char c =
     (let n = of_char c :: nat in
      if c = CHR 0x22 then [CHR 0x5C, CHR 0x22]
      else if c = CHR 0x5C then [CHR 0x5C, CHR 0x5C]
      else if n = 8 then CHR 0x5C # ''b''
      else if n = 12 then CHR 0x5C # ''f''
      else if n = 10 then CHR 0x5C # ''n''
      else if n = 13 then CHR 0x5C # ''r''
      else if n = 9 then CHR 0x5C # ''t''
      else if n < 32 \<or> c = CHR ''<'' \<or> c = CHR ''>'' \<or> c = CHR ''&''
      then CHR 0x5C # ''u00'' @ [hex_char (n div 16), hex_char (n mod 16)]
      else [c])"

definition quoted :: "string \<Rightarrow> string" where
  "quoted s = CHR 0x22 # concat (map escape_char s) @ [CHR 0x22]"

fun sep_by :: "string \<Rightarrow> string list \<Rightarrow> string" where
  "sep_by d [] = ''''"
| "sep_by d [x] = x"
| "sep_by d (x # xs) = x @ d @ sep_by d xs"

fun json_text :: "json \<Rightarrow> string" where
  "json_text JNull = ''null''"
| "json_text (JBool b) = (if b then ''true'' else ''false'')"
| "json_text (JNum s) = s"
| "json_text (JStr s) = quoted s"
| "json_text (JArr xs) = ''['' @ sep_by '','' (map json_text xs) @ '']''"
| "json_text (JObj ms) = ''{'' @ sep_by '','' (map (\<lambda>(k, v). quoted k @ '':'' @ json_text v) ms) @ ''}''"

section \<open>Reading\<close>

definition json_space :: "char \<Rightarrow> bool" where
  "json_space c \<longleftrightarrow> (of_char c :: nat) \<in> {9, 10, 13, 32}"

abbreviation skip_ws :: "string \<Rightarrow> string" where
  "skip_ws \<equiv> dropWhile json_space"

definition hex_digit_value :: "char \<Rightarrow> nat option" where
  "hex_digit_value c = (let n = of_char c :: nat in
     if 48 \<le> n \<and> n \<le> 57 then Some (n - 48)
     else if 97 \<le> n \<and> n \<le> 102 then Some (n - 87)
     else if 65 \<le> n \<and> n \<le> 70 then Some (n - 55) else None)"

text \<open>The rest of a string literal after the opening quote; a code point is cut to its low byte.\<close>

fun parse_string :: "string \<Rightarrow> (string \<times> string) option" where
  "parse_string [] = None"
| "parse_string (c # s) =
     (if c = CHR 0x22 then Some ([], s)
      else if c = CHR 0x5C then
        (case s of
           [] \<Rightarrow> None
         | e # r \<Rightarrow>
             if e = CHR ''u'' then
               (case r of
                  a # b # d # f # t \<Rightarrow>
                    (case (hex_digit_value a, hex_digit_value b, hex_digit_value d, hex_digit_value f) of
                       (Some _, Some _, Some x, Some y) \<Rightarrow>
                         map_option (\<lambda>(u, v). (char_of (16 * x + y) # u, v)) (parse_string t)
                     | _ \<Rightarrow> None)
                | _ \<Rightarrow> None)
             else
               (case map_of [(CHR 0x22, CHR 0x22), (CHR 0x5C, CHR 0x5C), (CHR ''/'', CHR ''/''), (CHR ''b'', char_of (8 :: nat)),
                     (CHR ''f'', char_of (12 :: nat)), (CHR ''n'', char_of (10 :: nat)), (CHR ''r'', char_of (13 :: nat)),
                     (CHR ''t'', char_of (9 :: nat))] e of
                  None \<Rightarrow> None
                | Some x \<Rightarrow> map_option (\<lambda>(u, v). (x # u, v)) (parse_string r)))
      else if (of_char c :: nat) < 32 then None
      else map_option (\<lambda>(u, v). (c # u, v)) (parse_string s))"

text \<open>A number: sign, integer part without leading zeros, fraction, exponent.\<close>

definition digits_of :: "string \<Rightarrow> (string \<times> string) option" where
  "digits_of s = (let d = takeWhile is_digit s in if d = [] then None else Some (d, drop (length d) s))"

definition parse_fraction :: "string \<Rightarrow> (string \<times> string) option" where
  "parse_fraction s =
     (case s of
        c # r \<Rightarrow> if c = CHR ''.'' then map_option (\<lambda>(d, t). (c # d, t)) (digits_of r) else Some ([], s)
      | [] \<Rightarrow> Some ([], []))"

definition parse_exponent :: "string \<Rightarrow> (string \<times> string) option" where
  "parse_exponent s =
     (case s of
        c # r \<Rightarrow>
          if c = CHR ''e'' \<or> c = CHR ''E'' then
            (case r of
               g # r' \<Rightarrow>
                 if g = CHR ''+'' \<or> g = CHR ''-'' then map_option (\<lambda>(d, t). (c # g # d, t)) (digits_of r')
                 else map_option (\<lambda>(d, t). (c # d, t)) (digits_of r)
             | [] \<Rightarrow> None)
          else Some ([], s)
      | [] \<Rightarrow> Some ([], []))"

definition parse_number :: "string \<Rightarrow> (string \<times> string) option" where
  "parse_number s =
     (let (sign, s1) = (case s of c # r \<Rightarrow> if c = CHR ''-'' then ([c], r) else ([], s) | [] \<Rightarrow> ([], s)) in
      case s1 of
        [] \<Rightarrow> None
      | c # r \<Rightarrow>
          (case (if c = CHR ''0'' then Some ([c], r) else digits_of s1) of
             None \<Rightarrow> None
           | Some (i, s2) \<Rightarrow>
               (case parse_fraction s2 of
                  None \<Rightarrow> None
                | Some (f, s3) \<Rightarrow> map_option (\<lambda>(e, t). (sign @ i @ f @ e, t)) (parse_exponent s3))))"

fun parse_value :: "nat \<Rightarrow> string \<Rightarrow> (json \<times> string) option"
  and parse_elems :: "nat \<Rightarrow> string \<Rightarrow> (json list \<times> string) option"
  and parse_members :: "nat \<Rightarrow> string \<Rightarrow> ((string \<times> json) list \<times> string) option" where
  "parse_value 0 s = None"
| "parse_value (Suc n) s =
     (case skip_ws s of
        [] \<Rightarrow> None
      | c # r \<Rightarrow>
          if c = CHR ''{'' then
            (case skip_ws r of
               d # t \<Rightarrow> if d = CHR ''}'' then Some (JObj [], t) else map_option (\<lambda>(ms, u). (JObj ms, u)) (parse_members n r)
             | [] \<Rightarrow> None)
          else if c = CHR ''['' then
            (case skip_ws r of
               d # t \<Rightarrow> if d = CHR '']'' then Some (JArr [], t) else map_option (\<lambda>(xs, u). (JArr xs, u)) (parse_elems n r)
             | [] \<Rightarrow> None)
          else if c = CHR 0x22 then map_option (\<lambda>(x, u). (JStr x, u)) (parse_string r)
          else if HasPrefix (c # r) ''true'' then Some (JBool True, drop 4 (c # r))
          else if HasPrefix (c # r) ''false'' then Some (JBool False, drop 5 (c # r))
          else if HasPrefix (c # r) ''null'' then Some (JNull, drop 4 (c # r))
          else map_option (\<lambda>(x, u). (JNum x, u)) (parse_number (c # r)))"
| "parse_elems 0 s = None"
| "parse_elems (Suc n) s =
     (case parse_value n s of
        None \<Rightarrow> None
      | Some (x, t) \<Rightarrow>
          (case skip_ws t of
             [] \<Rightarrow> None
           | c # r \<Rightarrow>
               if c = CHR '','' then map_option (\<lambda>(xs, u). (x # xs, u)) (parse_elems n r)
               else if c = CHR '']'' then Some ([x], r) else None))"
| "parse_members 0 s = None"
| "parse_members (Suc n) s =
     (case skip_ws s of
        [] \<Rightarrow> None
      | c # r \<Rightarrow>
          if c \<noteq> CHR 0x22 then None
          else
            (case parse_string r of
               None \<Rightarrow> None
             | Some (k, t) \<Rightarrow>
                 (case skip_ws t of
                    [] \<Rightarrow> None
                  | d # t' \<Rightarrow>
                      if d \<noteq> CHR '':'' then None
                      else
                        (case parse_value n t' of
                           None \<Rightarrow> None
                         | Some (v, w) \<Rightarrow>
                             (case skip_ws w of
                                [] \<Rightarrow> None
                              | e # w' \<Rightarrow>
                                  if e = CHR '','' then map_option (\<lambda>(ms, u). ((k, v) # ms, u)) (parse_members n w')
                                  else if e = CHR ''}'' then Some ([(k, v)], w') else None)))))"

definition parse_json :: "string \<Rightarrow> json option" where
  "parse_json s =
     (case parse_value (Suc (2 * length s)) s of
        Some (j, rest) \<Rightarrow> if skip_ws rest = [] then Some j else None
      | None \<Rightarrow> None)"

section \<open>Printing a decoded value\<close>

text \<open>
  \<open>%v\<close> of a value that was decoded into \<open>any\<close>: a map prints its entries by key, \<open>g\<close> is how the
  floating-point number of a literal is printed.
\<close>

fun fmt_v :: "(string \<Rightarrow> string) \<Rightarrow> json \<Rightarrow> string" where
  "fmt_v g JNull = ''<nil>''"
| "fmt_v g (JBool b) = (if b then ''true'' else ''false'')"
| "fmt_v g (JNum s) = g s"
| "fmt_v g (JStr s) = s"
| "fmt_v g (JArr xs) = ''['' @ sep_by '' '' (map (fmt_v g) xs) @ '']''"
| "fmt_v g (JObj ms) = ''map['' @ sep_by '' '' (map (\<lambda>(k, t). k @ '':'' @ t) (sort_key fst (map (\<lambda>(k, v). (k, fmt_v g v)) ms))) @ '']''"

section \<open>Which first characters a value can have\<close>

text \<open>A text that opens an object or an array is read as one, or not at all.\<close>

lemma skip_ws_nonspace [simp]: "\<not> json_space c \<Longrightarrow> skip_ws (c # s) = c # s"
  by simp

lemma parse_value_object: "parse_value n (CHR ''{'' # s) = Some (j, t) \<Longrightarrow> \<exists>ms. j = JObj ms"
  by (cases n) (auto simp: json_space_def split: list.splits if_splits)

lemma parse_value_array: "parse_value n (CHR ''['' # s) = Some (j, t) \<Longrightarrow> \<exists>xs. j = JArr xs"
  by (cases n) (auto simp: json_space_def split: list.splits if_splits)

lemma parse_json_object: "parse_json (CHR ''{'' # s) = Some j \<Longrightarrow> \<exists>ms. j = JObj ms"
  by (auto simp: parse_json_def simp del: parse_value.simps split: option.splits if_splits dest: parse_value_object)

text \<open>What \<open>%v\<close> prints of a map or of nil opens nothing.\<close>

lemma parse_value_map [simp]: "parse_value n (''map['' @ s) = None"
  by (cases n) (auto simp: json_space_def HasPrefix_def parse_number_def digits_of_def is_digit_def)

lemma parse_value_nil [simp]: "parse_value n (''<nil>'' @ s) = None"
  by (cases n) (auto simp: json_space_def HasPrefix_def parse_number_def digits_of_def is_digit_def)

lemma parse_elems_object_first:
  "parse_elems n (CHR ''{'' # s) = Some (xs, t) \<Longrightarrow> \<exists>ms ys. xs = JObj ms # ys"
proof (induction n)
  case (Suc k)
  then obtain x u where x: "parse_value k (CHR ''{'' # s) = Some (x, u)" "\<exists>ys. xs = x # ys"
    by (auto simp del: parse_value.simps split: option.splits list.splits if_splits)
  then show ?case using parse_value_object [OF x(1)] by blast
qed simp

lemma parse_array_of_objects:
  assumes "parse_json (''[{'' @ s) = Some j"
  shows "\<exists>ms ys. j = JArr (JObj ms # ys)"
proof -
  obtain xs t where "parse_elems (Suc (Suc (Suc (Suc (2 * length s))))) (CHR ''{'' # s) = Some (xs, t)" and j: "j = JArr xs"
    using assms by (auto simp: parse_json_def json_space_def simp del: parse_elems.simps parse_value.simps(1)
      split: option.splits if_splits)
  then show ?thesis using parse_elems_object_first by blast
qed

lemma object_text_not_json: "parse_json (fmt_v g (JObj ms)) = None"
  using parse_value_map by (simp add: parse_json_def del: parse_value.simps)

lemma sep_by_cons: "\<exists>r. sep_by d (x # xs) = x @ r"
  by (cases xs) auto

lemma object_list_text_not_json: "parse_json (fmt_v g (JArr (JObj ms # ys))) = None"
proof -
  obtain r where r: "fmt_v g (JArr (JObj ms # ys)) = ''[map['' @ r"
    using sep_by_cons [of "'' ''" "fmt_v g (JObj ms)" "map (fmt_v g) ys"] by auto
  have "parse_value n (''[map['' @ r) = None" for n
  proof (cases n)
    case (Suc k)
    have "parse_elems k (''map['' @ r) = None"
      by (cases k) (simp_all only: parse_elems.simps parse_value_map option.case)
    then show ?thesis using Suc by (simp add: json_space_def)
  qed simp
  then show ?thesis unfolding r parse_json_def by simp
qed

lemma parse_examples:
  "parse_json ''{ } '' = Some (JObj [])"
  "parse_json ''[1, -0.5e3, null, [true]]'' = Some (JArr [JNum ''1'', JNum ''-0.5e3'', JNull, JArr [JBool True]])"
  "parse_json ''[1,]'' = None" "parse_json ''01'' = None"
  "parse_json (json_text (JObj [(''a'', JStr ''x<y''), (''b'', JArr [JNum ''2'', JNull])])) =
     Some (JObj [(''a'', JStr ''x<y''), (''b'', JArr [JNum ''2'', JNull])])"
  by code_simp+

end
