(* ===== verification/OddsCache.thy ===== *)
theory OddsCache
  imports OddsEngine Json
begin

text \<open>
  \<open>internal/infrastructure/storage\<close>: JSON values in Redis (\<open>redis.go\<close>) and the cache of matches,
  live lists and priced slips on top of it (\<open>odds_cache.go\<close>). The Redis client is a record of
  functions over its state; \<open>codecs\<close> holds what \<open>encoding/json\<close> makes of the program's structs, as
  values before they are printed (\<open>None\<close> when \<open>Marshal\<close> fails), and how numbers are printed.
\<close>

datatype redis_failure = RedisNil | RedisErr

record 's redis_client =
  rc_Set :: "'s \<Rightarrow> string \<Rightarrow> string \<Rightarrow> duration \<Rightarrow> bool \<times> 's"
  rc_Get :: "'s \<Rightarrow> string \<Rightarrow> redis_failure + string"
  rc_Del :: "'s \<Rightarrow> string \<Rightarrow> bool \<times> 's"
  rc_Exists :: "'s \<Rightarrow> string \<Rightarrow> redis_failure + nat"
  rc_Incr :: "'s \<Rightarrow> string \<Rightarrow> (redis_failure + int) \<times> 's"

record codecs =
  enc_match :: "Match \<Rightarrow> json option"
  dec_match :: "json \<Rightarrow> Match option"
  enc_result :: "BetOddsResult \<Rightarrow> json option"
  dec_result :: "json \<Rightarrow> BetOddsResult option"
  uuid_text :: "uuid \<Rightarrow> string"
  float_text :: "string \<Rightarrow> string"

datatype cache_error =
    MarshalFailed
  | StoreFailed
  | KeyNotFound
  | GetFailed
  | UnmarshalFailed
  | NotInCache cache_error
  | EntryUnreadable

section \<open>Values in Redis\<close>

definition write_json ::
  "'s redis_client \<Rightarrow> 's \<Rightarrow> string \<Rightarrow> json option \<Rightarrow> duration \<Rightarrow> (cache_error + unit) \<times> 's" where
  "write_json C s key v ttl =
     (case v of
        None \<Rightarrow> (Inl MarshalFailed, s)
      | Some j \<Rightarrow> (let (ok, s') = rc_Set C s key (json_text j) ttl in (if ok then Inr () else Inl StoreFailed, s')))"

definition RedisCache_Set ::
  "'s redis_client \<Rightarrow> 's \<Rightarrow> string \<Rightarrow> json option \<Rightarrow> duration \<Rightarrow> (cache_error + unit) \<times> 's" where
  "RedisCache_Set C s key v ttl = write_json C s key v ttl"

text \<open>The product of the seconds is taken on 64 bits.\<close>

definition int64 :: "int \<Rightarrow> int" where
  "int64 n = (n + 2 ^ 63) mod 2 ^ 64 - 2 ^ 63"

definition SetWithExpiration ::
  "'s redis_client \<Rightarrow> 's \<Rightarrow> string \<Rightarrow> json option \<Rightarrow> int \<Rightarrow> (cache_error + unit) \<times> 's" where
  "SetWithExpiration C s key v expiration = write_json C s key v (int64 (expiration * Second))"

definition RedisCache_Get :: "'s redis_client \<Rightarrow> 's \<Rightarrow> string \<Rightarrow> cache_error + json" where
  "RedisCache_Get C s key =
     (case rc_Get C s key of
        Inl RedisNil \<Rightarrow> Inl KeyNotFound
      | Inl RedisErr \<Rightarrow> Inl GetFailed
      | Inr data \<Rightarrow> (case parse_json data of None \<Rightarrow> Inl UnmarshalFailed | Some v \<Rightarrow> Inr v))"

definition RedisCache_Delete :: "'s redis_client \<Rightarrow> 's \<Rightarrow> string \<Rightarrow> (cache_error + unit) \<times> 's" where
  "RedisCache_Delete C s key = (let (ok, s') = rc_Del C s key in (if ok then Inr () else Inl StoreFailed, s'))"

text \<open>An answer and a failure are returned together.\<close>

definition RedisCache_Exists :: "'s redis_client \<Rightarrow> 's \<Rightarrow> string \<Rightarrow> bool \<times> redis_failure option" where
  "RedisCache_Exists C s key =
     (case rc_Exists C s key of Inr n \<Rightarrow> (n > 0, None) | Inl e \<Rightarrow> (False, Some e))"

definition SetString ::
  "'s redis_client \<Rightarrow> 's \<Rightarrow> string \<Rightarrow> string \<Rightarrow> duration \<Rightarrow> (cache_error + unit) \<times> 's" where
  "SetString C s key value ttl = (let (ok, s') = rc_Set C s key value ttl in (if ok then Inr () else Inl StoreFailed, s'))"

definition GetString :: "'s redis_client \<Rightarrow> 's \<Rightarrow> string \<Rightarrow> redis_failure + string" where
  "GetString C s key = rc_Get C s key"

definition Increment :: "'s redis_client \<Rightarrow> 's \<Rightarrow> string \<Rightarrow> (redis_failure + int) \<times> 's" where
  "Increment C s key = rc_Incr C s key"

section \<open>The odds cache\<close>

definition CacheMatchOdds ::
  "'s redis_client \<Rightarrow> codecs \<Rightarrow> 's \<Rightarrow> Match \<Rightarrow> (cache_error + unit) \<times> 's" where
  "CacheMatchOdds C J s m = RedisCache_Set C s (''match_odds:'' @ match_ID m) (enc_match J m) (30 * Second)"

text \<open>
  What was read is printed with \<open>%v\<close> and the print is parsed again.
\<close>

definition GetMatchOdds :: "'s redis_client \<Rightarrow> codecs \<Rightarrow> 's \<Rightarrow> string \<Rightarrow> cache_error + Match" where
  "GetMatchOdds C J s matchID =
     (case RedisCache_Get C s (''match_odds:'' @ matchID) of
        Inl e \<Rightarrow> Inl (NotInCache e)
      | Inr data \<Rightarrow>
          (case Option.bind (parse_json (fmt_v (float_text J) data)) (dec_match J) of
             None \<Rightarrow> Inl EntryUnreadable
           | Some m \<Rightarrow> Inr m))"

text \<open>A slice may be nil, and so may the pointers in it; nil is written as \<open>null\<close>.\<close>

definition enc_pointer :: "('a \<Rightarrow> json option) \<Rightarrow> 'a option \<Rightarrow> json option" where
  "enc_pointer enc p = (case p of None \<Rightarrow> Some JNull | Some x \<Rightarrow> enc x)"

definition enc_slice :: "('a \<Rightarrow> json option) \<Rightarrow> 'a option list option \<Rightarrow> json option" where
  "enc_slice enc v =
     (case v of None \<Rightarrow> Some JNull | Some xs \<Rightarrow> map_option JArr (those (map (enc_pointer enc) xs)))"

definition dec_pointer :: "(json \<Rightarrow> 'a option) \<Rightarrow> json \<Rightarrow> 'a option option" where
  "dec_pointer dec j = (if j = JNull then Some None else map_option Some (dec j))"

definition dec_slice :: "(json \<Rightarrow> 'a option) \<Rightarrow> json \<Rightarrow> 'a option list option option" where
  "dec_slice dec j =
     (case j of JNull \<Rightarrow> Some None | JArr js \<Rightarrow> map_option Some (those (map (dec_pointer dec) js)) | _ \<Rightarrow> None)"

definition CacheLiveMatches ::
  "'s redis_client \<Rightarrow> codecs \<Rightarrow> 's \<Rightarrow> Match option list option \<Rightarrow> (cache_error + unit) \<times> 's" where
  "CacheLiveMatches C J s matches = RedisCache_Set C s ''live_matches'' (enc_slice (enc_match J) matches) (10 * Second)"

definition GetLiveMatches :: "'s redis_client \<Rightarrow> codecs \<Rightarrow> 's \<Rightarrow> cache_error + Match option list option" where
  "GetLiveMatches C J s =
     (case RedisCache_Get C s ''live_matches'' of
        Inl e \<Rightarrow> Inl (NotInCache e)
      | Inr data \<Rightarrow>
          (case Option.bind (parse_json (fmt_v (float_text J) data)) (dec_slice (dec_match J)) of
             None \<Rightarrow> Inl EntryUnreadable
           | Some ms \<Rightarrow> Inr ms))"

definition CacheCalculatedOdds ::
  "'s redis_client \<Rightarrow> codecs \<Rightarrow> 's \<Rightarrow> uuid \<Rightarrow> BetOddsResult \<Rightarrow> (cache_error + unit) \<times> 's" where
  "CacheCalculatedOdds C J s betID r =
     RedisCache_Set C s (''calculated_odds:'' @ uuid_text J betID) (enc_result J r) (5 * Minute)"

definition GetCalculatedOdds :: "'s redis_client \<Rightarrow> codecs \<Rightarrow> 's \<Rightarrow> uuid \<Rightarrow> cache_error + BetOddsResult" where
  "GetCalculatedOdds C J s betID =
     (case RedisCache_Get C s (''calculated_odds:'' @ uuid_text J betID) of
        Inl e \<Rightarrow> Inl (NotInCache e)
      | Inr data \<Rightarrow>
          (case Option.bind (parse_json (fmt_v (float_text J) data)) (dec_result J) of
             None \<Rightarrow> Inl EntryUnreadable
           | Some r \<Rightarrow> Inr r))"

definition InvalidateMatchOdds :: "'s redis_client \<Rightarrow> 's \<Rightarrow> string \<Rightarrow> (cache_error + unit) \<times> 's" where
  "InvalidateMatchOdds C s matchID = RedisCache_Delete C s (''match_odds:'' @ matchID)"

definition InvalidateLiveMatches :: "'s redis_client \<Rightarrow> 's \<Rightarrow> (cache_error + unit) \<times> 's" where
  "InvalidateLiveMatches C s = RedisCache_Delete C s ''live_matches''"

section \<open>What comes back\<close>

text \<open>
  What the code relies on: a value written to Redis is read back until it expires or is evicted,
  and other keys keep theirs; a struct is written as an object.
\<close>

definition redis_keeps :: "'s redis_client \<Rightarrow> bool" where
  "redis_keeps C \<longleftrightarrow>
     (\<forall>s k v ttl. fst (rc_Set C s k v ttl) \<longrightarrow>
        rc_Get C (snd (rc_Set C s k v ttl)) k = Inr v \<and>
        (\<forall>k'. k' \<noteq> k \<longrightarrow> rc_Get C (snd (rc_Set C s k v ttl)) k' = rc_Get C s k'))"

definition encodes_structs :: "codecs \<Rightarrow> bool" where
  "encodes_structs J \<longleftrightarrow>
     (\<forall>m j. enc_match J m = Some j \<longrightarrow> (\<exists>ms. j = JObj ms)) \<and>
     (\<forall>r j. enc_result J r = Some j \<longrightarrow> (\<exists>ms. j = JObj ms))"

lemma write_json_read:
  assumes "redis_keeps C" "write_json C s key v ttl = (Inr (), s')"
  shows "\<exists>j. v = Some j \<and> rc_Get C s' key = Inr (json_text j)"
  using assms by (auto simp: write_json_def redis_keeps_def split: option.splits if_splits prod.splits; metis fst_conv snd_conv)

lemma RedisCache_object:
  assumes "rc_Get C s key = Inr (json_text (JObj ms))" "RedisCache_Get C s key = Inr d"
  shows "parse_json (fmt_v g d) = None"
  using assms parse_json_object object_text_not_json by (fastforce simp: RedisCache_Get_def split: option.splits)

lemma RedisCache_object_list:
  assumes "rc_Get C s key = Inr (json_text (JArr (JObj ms # js)))" "RedisCache_Get C s key = Inr d"
  shows "parse_json (fmt_v g d) = None"
proof -
  obtain r where "json_text (JArr (JObj ms # js)) = ''[{'' @ r"
    using sep_by_cons [of "'',''" "json_text (JObj ms)" "map json_text js"] by auto
  then show ?thesis
    using assms parse_array_of_objects [of r d] object_list_text_not_json
    by (auto simp: RedisCache_Get_def split: option.splits)
qed

text \<open>The odds cache never answers. Whatever match or priced slip was stored, and whatever list of
  live matches with a first match in it, reading it back at once fails as unreadable or not found,
  because the value is printed in the notation of Go maps before it is parsed as JSON.
\<close>

theorem odds_cache_never_answers:
  assumes "redis_keeps C" "encodes_structs J"
  shows "(\<forall>s m s'. CacheMatchOdds C J s m = (Inr (), s') \<longrightarrow> (\<exists>e. GetMatchOdds C J s' (match_ID m) = Inl e)) \<and>
    (\<forall>s b r s'. CacheCalculatedOdds C J s b r = (Inr (), s') \<longrightarrow> (\<exists>e. GetCalculatedOdds C J s' b = Inl e)) \<and>
    (\<forall>s m ms s'. CacheLiveMatches C J s (Some (Some m # ms)) = (Inr (), s') \<longrightarrow> (\<exists>e. GetLiveMatches C J s' = Inl e))"
proof (intro conjI allI impI)
  fix s m s1 assume "CacheMatchOdds C J s m = (Inr (), s1)"
  then obtain j where "enc_match J m = Some j" "rc_Get C s1 (''match_odds:'' @ match_ID m) = Inr (json_text j)"
    unfolding CacheMatchOdds_def RedisCache_Set_def using write_json_read [OF assms(1)] by blast
  moreover from this obtain fs where "j = JObj fs" using assms(2) unfolding encodes_structs_def by blast
  ultimately show "\<exists>e. GetMatchOdds C J s1 (match_ID m) = Inl e"
    using RedisCache_object [of C s1 "(''match_odds:'' @ match_ID m)" fs] unfolding GetMatchOdds_def by (cases "RedisCache_Get C s1 (''match_odds:'' @ match_ID m)") (simp_all del: json_text.simps)
next
  fix s b r s2 assume "CacheCalculatedOdds C J s b r = (Inr (), s2)"
  then obtain j where "enc_result J r = Some j" "rc_Get C s2 (''calculated_odds:'' @ uuid_text J b) = Inr (json_text j)"
    unfolding CacheCalculatedOdds_def RedisCache_Set_def using write_json_read [OF assms(1)] by blast
  moreover from this obtain fs where "j = JObj fs" using assms(2) unfolding encodes_structs_def by blast
  ultimately show "\<exists>e. GetCalculatedOdds C J s2 b = Inl e"
    using RedisCache_object [of C s2 "(''calculated_odds:'' @ uuid_text J b)" fs] unfolding GetCalculatedOdds_def by (cases "RedisCache_Get C s2 (''calculated_odds:'' @ uuid_text J b)") (simp_all del: json_text.simps)
next
  fix s m ms s3 assume "CacheLiveMatches C J s (Some (Some m # ms)) = (Inr (), s3)"
  then obtain j where "enc_slice (enc_match J) (Some (Some m # ms)) = Some j" "rc_Get C s3 ''live_matches'' = Inr (json_text j)"
    unfolding CacheLiveMatches_def RedisCache_Set_def using write_json_read [OF assms(1)] by blast
  moreover from this obtain fs js where "j = JArr (JObj fs # js)"
    using assms(2) by (fastforce simp: enc_slice_def enc_pointer_def encodes_structs_def split: option.splits)
  ultimately show "\<exists>e. GetLiveMatches C J s3 = Inl e"
    using RedisCache_object_list [of C s3 "''live_matches''" fs js] unfolding GetLiveMatches_def
    by (cases "RedisCache_Get C s3 ''live_matches''") (simp_all del: json_text.simps)
qed

definition map_client :: "(string \<times> string) list redis_client" where
  "map_client = \<lparr>rc_Set = \<lambda>s k v ttl. (True, (k, v) # s),
     rc_Get = \<lambda>s k. case map_of s k of None \<Rightarrow> Inl RedisNil | Some v \<Rightarrow> Inr v,
     rc_Del = \<lambda>s k. (True, filter (\<lambda>e. fst e \<noteq> k) s),
     rc_Exists = \<lambda>s k. Inr (if k \<in> fst ` set s then 1 else 0),
     rc_Incr = \<lambda>s k. (Inl RedisErr, s)\<rparr>"

definition id_codecs :: codecs where
  "id_codecs = \<lparr>enc_match = \<lambda>m. Some (JObj [(''id'', JStr (match_ID m))]), dec_match = \<lambda>j. None,
     enc_result = \<lambda>r. Some (JObj []), dec_result = \<lambda>j. None, uuid_text = \<lambda>u. ''u'', float_text = \<lambda>s. s\<rparr>"

definition some_match :: Match where
  "some_match = \<lparr>match_ID = ''m1'', match_Sport = ''FOOTBALL'', match_League = ''L'', match_HomeTeam = ''A'',
     match_AwayTeam = ''B'', match_StartTime = 0, match_Status = MatchStatusLive, match_Score = None,
     match_Markets = [], match_CountryCode = ''KE'', match_UpdatedAt = 0\<rparr>"

lemma map_client_keeps: "redis_keeps map_client"
  by (simp add: redis_keeps_def map_client_def)

lemma id_codecs_structs: "encodes_structs id_codecs"
  by (simp add: encodes_structs_def id_codecs_def)

text \<open>The entry is in the store, and the reader cannot read it.\<close>

lemma odds_cache_never_answers_witness:
  "RedisCache_Get map_client (snd (CacheMatchOdds map_client id_codecs [] some_match)) ''match_odds:m1''
     = Inr (JObj [(''id'', JStr ''m1'')]) \<and>
   (\<exists>e. GetMatchOdds map_client id_codecs (snd (CacheMatchOdds map_client id_codecs [] some_match)) ''m1'' = Inl e)"
proof
  show "RedisCache_Get map_client (snd (CacheMatchOdds map_client id_codecs [] some_match)) ''match_odds:m1''
     = Inr (JObj [(''id'', JStr ''m1'')])" by code_simp
  have "CacheMatchOdds map_client id_codecs [] some_match
      = (Inr (), snd (CacheMatchOdds map_client id_codecs [] some_match))"
    by (simp add: CacheMatchOdds_def RedisCache_Set_def write_json_def map_client_def id_codecs_def)
  with odds_cache_never_answers [OF map_client_keeps id_codecs_structs] have
    "\<exists>e. GetMatchOdds map_client id_codecs (snd (CacheMatchOdds map_client id_codecs [] some_match)) (match_ID some_match) = Inl e"
    by blast
  then show "\<exists>e. GetMatchOdds map_client id_codecs (snd (CacheMatchOdds map_client id_codecs [] some_match)) ''m1'' = Inl e"
    by (simp add: some_match_def)
qed

text \<open>The empty list of live matches, and only it, comes back; the nil list does not.\<close>

lemma empty_live_list_answers:
  assumes "redis_keeps C" "CacheLiveMatches C J s (Some []) = (Inr (), s1)"
  shows "GetLiveMatches C J s1 = Inr (Some [])"
proof -
  have "rc_Get C s1 ''live_matches'' = Inr ''[]''"
    using write_json_read [OF assms(1) assms(2) [unfolded CacheLiveMatches_def RedisCache_Set_def]] by (auto simp: enc_slice_def)
  moreover have "parse_json ''[]'' = Some (JArr [])" by code_simp
  ultimately show ?thesis by (simp add: GetLiveMatches_def RedisCache_Get_def dec_slice_def)
qed

lemma nil_live_list_lost:
  assumes "redis_keeps C" "CacheLiveMatches C J s None = (Inr (), s1)"
  shows "GetLiveMatches C J s1 = Inl EntryUnreadable"
proof -
  have "rc_Get C s1 ''live_matches'' = Inr ''null''"
    using write_json_read [OF assms(1) assms(2) [unfolded CacheLiveMatches_def RedisCache_Set_def]] by (auto simp: enc_slice_def)
  moreover have "parse_json ''null'' = Some JNull" "parse_json ''<nil>'' = None" by code_simp+
  ultimately show ?thesis by (simp add: GetLiveMatches_def RedisCache_Get_def)
qed

end
