(* ===== verification/Validation.thy ===== *)
theory Validation
  imports GoText
begin

text \<open>
  \<open>internal/infrastructure/validation/validator.go\<close>: the errors of a form and the checks of its
  fields. A check returns the message and whether the field is valid. A map of errors is a list of
  its entries in the order in which Go visits them; \<open>decimal_text\<close> prints an amount. The two regular
  expressions are written out as predicates on the text.
\<close>

type_synonym field_errors = "(string \<times> string list) list"

fun Errors_Add :: "field_errors \<Rightarrow> string \<Rightarrow> string \<Rightarrow> field_errors" where
  "Errors_Add [] field msg = [(field, [msg])]"
| "Errors_Add ((f, ms) # es) field msg =
     (if f = field then (f, ms @ [msg]) # es else (f, ms) # Errors_Add es field msg)"

definition HasAny :: "field_errors \<Rightarrow> bool" where
  "HasAny e \<longleftrightarrow> length e > 0"

definition Errors_Error :: "field_errors \<Rightarrow> string" where
  "Errors_Error e = TrimSuffix (concat (map (\<lambda>(f, ms). f @ '': '' @ Join ms '', '' @ ''; '') e)) ''; ''"

section \<open>Decoding a body\<close>

text \<open>What the decoder of the library reports: nothing to read, or an error with its text.\<close>

datatype decode_error = EndOfInput | DecodeFailure string

definition DecodeJSON :: "(decode_error + 'v) \<Rightarrow> string + 'v" where
  "DecodeJSON body =
     (case body of
        Inl EndOfInput \<Rightarrow> Inl ''empty request body''
      | Inl (DecodeFailure e) \<Rightarrow> Inl (''invalid json: '' @ e)
      | Inr v \<Rightarrow> Inr v)"

section \<open>Checks\<close>

definition Required :: "string \<Rightarrow> string \<Rightarrow> string \<times> bool" where
  "Required field s = (if TrimSpace s = '''' then (field @ '' is required'', False) else ('''', True))"

definition MinLen :: "string \<Rightarrow> string \<Rightarrow> int \<Rightarrow> string \<times> bool" where
  "MinLen field s n =
     (if int (length s) < n
      then (field @ '' must be at least '' @ FormatInt n @ '' characters'', False) else ('''', True))"

definition MaxLen :: "string \<Rightarrow> string \<Rightarrow> int \<Rightarrow> string \<times> bool" where
  "MaxLen field s n =
     (if int (length s) > n
      then (field @ '' must be at most '' @ FormatInt n @ '' characters'', False) else ('''', True))"

text \<open>\<open>\s\<close> of a regular expression.\<close>

definition regex_space :: "char \<Rightarrow> bool" where
  "regex_space c \<longleftrightarrow> (of_char c :: nat) \<in> {9, 10, 12, 13, 32}"

definition mail_char :: "char \<Rightarrow> bool" where
  "mail_char c \<longleftrightarrow> \<not> regex_space c \<and> c \<noteq> CHR ''@''"

text \<open>Two non-empty runs around an at sign, the second with a dot that is not at its ends.\<close>

definition emailRegex :: "string \<Rightarrow> bool" where
  "emailRegex s =
     (case split_on (CHR ''@'') s of
        [local, host] \<Rightarrow> local \<noteq> '''' \<and> list_all mail_char local \<and> list_all mail_char host \<and>
          CHR ''.'' \<in> set (butlast (tl host))
      | _ \<Rightarrow> False)"

definition Email :: "string \<Rightarrow> string \<Rightarrow> string \<times> bool" where
  "Email field s = (if \<not> emailRegex s then (field @ '' is not a valid email'', False) else ('''', True))"

text \<open>One of the prefixes \<open>+254\<close>, \<open>254\<close> and \<open>0\<close>, then nine digits that start with 7 or 1.\<close>

definition subscriber :: "string \<Rightarrow> bool" where
  "subscriber n \<longleftrightarrow> length n = 9 \<and> list_all is_digit n \<and> hd n \<in> {CHR ''7'', CHR ''1''}"

definition kenyaPhoneRegex :: "string \<Rightarrow> bool" where
  "kenyaPhoneRegex s \<longleftrightarrow>
     list_ex (\<lambda>p. HasPrefix s p \<and> subscriber (drop (length p) s)) [''+254'', ''254'', ''0'']"

definition KenyaPhone :: "string \<Rightarrow> string \<Rightarrow> string \<times> bool" where
  "KenyaPhone field s =
     (if \<not> kenyaPhoneRegex s then (field @ '' is not a valid Kenyan phone number'', False) else ('''', True))"

definition PositiveDecimal :: "string \<Rightarrow> decimal \<Rightarrow> string \<times> bool" where
  "PositiveDecimal field d = (if d \<le> 0 then (field @ '' must be greater than zero'', False) else ('''', True))"

definition DecimalInRange :: "(decimal \<Rightarrow> string) \<Rightarrow> string \<Rightarrow> decimal \<Rightarrow> decimal \<Rightarrow> decimal \<Rightarrow> string \<times> bool" where
  "DecimalInRange decimal_text field d mn mx =
     (if d < mn \<or> d > mx
      then (field @ '' must be between '' @ decimal_text mn @ '' and '' @ decimal_text mx, False) else ('''', True))"

definition Validation_In :: "string \<Rightarrow> string \<Rightarrow> string list \<Rightarrow> string \<times> bool" where
  "Validation_In field s allowed =
     (if s \<in> set allowed then ('''', True) else (field @ '' must be one of '' @ Join allowed '', '', False))"

section \<open>What the checks accept\<close>

lemma kenyaPhoneRegex_iff:
  "kenyaPhoneRegex s \<longleftrightarrow> (\<exists>p \<in> {''+254'', ''254'', ''0''}. \<exists>n. s = p @ n \<and> subscriber n)"
  unfolding kenyaPhoneRegex_def list_ex_iff HasPrefix_iff by auto

text \<open>An accepted number has one subscriber part, whichever way it is written.\<close>

lemma kenyaPhone_parts:
  assumes "p @ n = p' @ n'" "p \<in> {''+254'', ''254'', ''0''}" "p' \<in> {''+254'', ''254'', ''0''}"
    "subscriber n" "subscriber n'"
  shows "p = p' \<and> n = n'"
proof -
  have "length n = length n'" using assms(4,5) by (simp add: subscriber_def)
  then show ?thesis using assms(1) by (simp add: append_eq_append_conv)
qed

text \<open>The reading of the address pattern: a local part, an at sign, and two parts around a dot.\<close>

lemma emailRegex_iff:
  "emailRegex s \<longleftrightarrow>
     (\<exists>a b d. s = a @ ''@'' @ b @ ''.'' @ d \<and> a \<noteq> [] \<and> b \<noteq> [] \<and> d \<noteq> [] \<and>
        list_all mail_char a \<and> list_all mail_char b \<and> list_all mail_char d)"
proof
  assume "emailRegex s"
  then obtain a h where s: "split_on (CHR ''@'') s = [a, h]" and a: "a \<noteq> []" "list_all mail_char a"
    and h: "list_all mail_char h" "CHR ''.'' \<in> set (butlast (tl h))"
    by (auto simp: emailRegex_def split: list.splits)
  from h(2) obtain us vs where "butlast (tl h) = us @ CHR ''.'' # vs" by (meson split_list)
  then obtain x where "tl h = us @ CHR ''.'' # vs @ [x]"
    by (metis append_Cons append_assoc append_butlast_last_id butlast.simps(1) append_is_Nil_conv list.distinct(1))
  then obtain y where "h = y # us @ CHR ''.'' # vs @ [x]" by (cases h) auto
  then show "\<exists>a b d. s = a @ ''@'' @ b @ ''.'' @ d \<and> a \<noteq> [] \<and> b \<noteq> [] \<and> d \<noteq> [] \<and>
        list_all mail_char a \<and> list_all mail_char b \<and> list_all mail_char d"
    using split_on_unique [OF s] a h(1)
    by (intro exI [of _ a] exI [of _ "y # us"] exI [of _ "vs @ [x]"]) simp
next
  assume "\<exists>a b d. s = a @ ''@'' @ b @ ''.'' @ d \<and> a \<noteq> [] \<and> b \<noteq> [] \<and> d \<noteq> [] \<and>
        list_all mail_char a \<and> list_all mail_char b \<and> list_all mail_char d"
  then obtain a b d where s: "s = a @ CHR ''@'' # (b @ CHR ''.'' # d)" and ne: "a \<noteq> []" "b \<noteq> []" "d \<noteq> []"
    and ok: "list_all mail_char a" "list_all mail_char b" "list_all mail_char d" by auto
  have "CHR ''@'' \<notin> set a" "CHR ''@'' \<notin> set (b @ CHR ''.'' # d)"
    using ok by (auto simp: list_all_iff mail_char_def)
  then have "split_on (CHR ''@'') s = [a, b @ CHR ''.'' # d]" by (simp add: s split_on_parts del: set_append)
  moreover have "CHR ''.'' \<in> set (butlast (tl (b @ CHR ''.'' # d)))" using ne by (cases b) (simp_all add: butlast_append)
  moreover have "mail_char (CHR ''.'')" by code_simp
  ultimately show "emailRegex s" using ok ne by (simp add: emailRegex_def)
qed

text \<open>Every added message is in the report, and adding reports.\<close>

lemma Errors_Add_reports: "HasAny (Errors_Add e field msg)"
  by (cases "(e, field, msg)" rule: Errors_Add.cases) (auto simp: HasAny_def)

lemma Errors_Add_lookup:
  "map_of (Errors_Add e field msg) f =
     (if f = field then Some ((case map_of e field of None \<Rightarrow> [] | Some ms \<Rightarrow> ms) @ [msg]) else map_of e f)"
  by (induction e field msg rule: Errors_Add.induct) auto

lemma validator_examples:
  "snd (Email ''email'' ''alice@example.com'')" "\<not> snd (Email ''email'' ''@example.com'')"
  "snd (KenyaPhone ''phone'' ''+254712345678'')" "snd (KenyaPhone ''phone'' ''0112345678'')"
  "\<not> snd (KenyaPhone ''phone'' ''1234'')" "\<not> snd (Required ''name'' ''  '')"
  "Errors_Error [(''a'', [''x'', ''y'']), (''b'', [''z''])] = ''a: x, y; b: z''"
  by code_simp+

end
