(* ===== verification/Users.thy ===== *)
theory Users
  imports Domain Validation
begin

text \<open>
  Players and their verification: the table of users
  (\<open>internal/infrastructure/repository/postgres/user_repository.go\<close>), the Smile ID provider
  (\<open>internal/infrastructure/kyc/smileid.go\<close>) and the endpoints that connect them
  (\<open>internal/infrastructure/http/kyc_handlers.go\<close>). A row of the table is the domain struct: every
  statement of the repository writes all columns that the struct cannot hold as \<open>NULL\<close>. The service
  runs in UTC, \<open>now\<close> is the server's clock, and \<open>fails\<close> says that a statement fails for a reason
  outside the program. The SDK of the provider is a pair of functions.
\<close>

section \<open>The table\<close>

datatype user_error = UserNoRows | UserConstraint | UserStatement

text \<open>The primary key and the unique columns; \<open>others\<close> are the rows beside the written one.\<close>

definition user_conflict :: "User list \<Rightarrow> User \<Rightarrow> bool" where
  "user_conflict others u \<longleftrightarrow>
     u_ID u \<in> u_ID ` set others \<or> u_PhoneNumber u \<in> u_PhoneNumber ` set others \<or>
     u_Email u \<in> u_Email ` set others"

text \<open>\<open>date_of_birth\<close> is a \<open>DATE\<close>; \<open>last_login_at\<close> is not among the inserted columns.\<close>

definition user_row :: "User \<Rightarrow> User" where
  "user_row u = u\<lparr>u_DateOfBirth := time_truncate (u_DateOfBirth u) (24 * Hour), u_LastLoginAt := None\<rparr>"

definition UserRepository_Create :: "bool \<Rightarrow> User list \<Rightarrow> User \<Rightarrow> User list \<times> (user_error + unit)" where
  "UserRepository_Create fails s u =
     (if fails then (s, Inl UserStatement)
      else if user_conflict s u then (s, Inl UserConstraint)
      else (s @ [user_row u], Inr ()))"

definition UserRepository_GetByID :: "bool \<Rightarrow> User list \<Rightarrow> uuid \<Rightarrow> user_error + User" where
  "UserRepository_GetByID fails s i =
     (if fails then Inl UserStatement
      else case select_row (\<lambda>u. u_ID u = i) s of None \<Rightarrow> Inl UserNoRows | Some u \<Rightarrow> Inr u)"

definition GetByEmail :: "bool \<Rightarrow> User list \<Rightarrow> string \<Rightarrow> user_error + User" where
  "GetByEmail fails s email =
     (if fails then Inl UserStatement
      else case select_row (\<lambda>u. u_Email u = email) s of None \<Rightarrow> Inl UserNoRows | Some u \<Rightarrow> Inr u)"

text \<open>What an update keeps of the row; the trigger sets \<open>updated_at\<close>.\<close>

definition updated_user :: "time \<Rightarrow> User \<Rightarrow> User \<Rightarrow> User" where
  "updated_user now u row =
     u\<lparr>u_DateOfBirth := time_truncate (u_DateOfBirth u) (24 * Hour), u_CreatedAt := u_CreatedAt row,
       u_UpdatedAt := now, u_LastLoginAt := u_LastLoginAt row\<rparr>"

definition UserRepository_Update :: "bool \<Rightarrow> time \<Rightarrow> User list \<Rightarrow> User \<Rightarrow> User list \<times> (user_error + unit)" where
  "UserRepository_Update fails now s u =
     (if fails then (s, Inl UserStatement)
      else if rows_affected (\<lambda>r. u_ID r = u_ID u) s \<noteq> 0 \<and> user_conflict (filter (\<lambda>r. u_ID r \<noteq> u_ID u) s) u
      then (s, Inl UserConstraint)
      else (update_where (\<lambda>r. u_ID r = u_ID u) (updated_user now u) s, Inr ()))"

definition UpdateVerificationStatus ::
  "bool \<Rightarrow> time \<Rightarrow> User list \<Rightarrow> uuid \<Rightarrow> bool \<Rightarrow> User list \<times> (user_error + unit)" where
  "UpdateVerificationStatus fails now s i isVerified =
     (if fails then (s, Inl UserStatement)
      else (update_where (\<lambda>u. u_ID u = i) (\<lambda>u. u\<lparr>u_IsVerified := isVerified, u_UpdatedAt := now\<rparr>) s, Inr ()))"

section \<open>The provider\<close>

record SmileIDConfig =
  sc_APIKey :: string
  sc_PartnerID :: string
  sc_Environment :: string

record KYCRequest =
  kq_CountryCode :: string
  kq_IDType :: string
  kq_IDNumber :: string
  kq_FirstName :: string
  kq_LastName :: string

record VerificationRequest =
  vr_CountryCode :: string
  vr_IDType :: string
  vr_IDNumber :: string

record smile_response =
  sm_Verified :: bool
  sm_FullName :: string
  sm_IDNumber :: string
  sm_IDType :: string
  sm_CountryCode :: string
  sm_ErrorMessage :: string

record smile_client =
  sdk_env :: string
  sdk_VerifyUser :: "KYCRequest \<Rightarrow> smile_response option"
  sdk_VerifyID :: "VerificationRequest \<Rightarrow> smile_response option"

record VerifyResult =
  vf_Verified :: bool
  vf_Status :: string
  vf_FullName :: string
  vf_IDNumber :: string
  vf_IDType :: string
  vf_CountryCode :: string
  vf_ErrorMessage :: string

text \<open>\<open>sdk\<close> is the client the library makes for an environment; \<open>None\<close> is \<open>ErrKYCNotConfigured\<close>.\<close>

definition to_lower :: "char \<Rightarrow> char" where
  "to_lower c = (let n = of_char c :: nat in if 65 \<le> n \<and> n \<le> 90 then char_of (n + 32) else c)"

definition NewSmileIDProvider :: "(string \<Rightarrow> smile_client) \<Rightarrow> SmileIDConfig \<Rightarrow> smile_client option" where
  "NewSmileIDProvider sdk cfg =
     (if sc_APIKey cfg = '''' \<or> sc_PartnerID cfg = '''' then None
      else let env = map to_lower (sc_Environment cfg) in Some (sdk (if env = '''' then ''sandbox'' else env)))"

definition statusFor :: "bool \<Rightarrow> string" where
  "statusFor verified = (if verified then ''verified'' else ''failed'')"

text \<open>A blank at the very start is not taken for a separator.\<close>

definition firstName :: "string \<Rightarrow> string" where
  "firstName full = (if CHR '' '' \<in> set full \<and> hd full \<noteq> CHR '' ''
     then takeWhile (\<lambda>c. c \<noteq> CHR '' '') full else full)"

definition lastName :: "string \<Rightarrow> string" where
  "lastName full = (if CHR '' '' \<in> set (tl full)
     then rev (takeWhile (\<lambda>c. c \<noteq> CHR '' '') (rev full)) else '''')"

definition VerifyUser :: "smile_client \<Rightarrow> User \<Rightarrow> string \<Rightarrow> string \<Rightarrow> VerifyResult option" where
  "VerifyUser p user idType idNumber =
     map_option (\<lambda>resp. \<lparr>vf_Verified = sm_Verified resp, vf_Status = statusFor (sm_Verified resp),
         vf_FullName = sm_FullName resp, vf_IDNumber = sm_IDNumber resp, vf_IDType = sm_IDType resp,
         vf_CountryCode = sm_CountryCode resp, vf_ErrorMessage = sm_ErrorMessage resp\<rparr>)
       (sdk_VerifyUser p \<lparr>kq_CountryCode = u_CountryCode user, kq_IDType = idType, kq_IDNumber = idNumber,
          kq_FirstName = firstName (u_FullName user), kq_LastName = lastName (u_FullName user)\<rparr>)"

definition VerifyID :: "smile_client \<Rightarrow> string \<Rightarrow> string \<Rightarrow> string \<Rightarrow> VerifyResult option" where
  "VerifyID p countryCode idType idNumber =
     map_option (\<lambda>resp. \<lparr>vf_Verified = sm_Verified resp, vf_Status = statusFor (sm_Verified resp),
         vf_FullName = '''', vf_IDNumber = sm_IDNumber resp, vf_IDType = sm_IDType resp,
         vf_CountryCode = sm_CountryCode resp, vf_ErrorMessage = sm_ErrorMessage resp\<rparr>)
       (sdk_VerifyID p \<lparr>vr_CountryCode = countryCode, vr_IDType = idType, vr_IDNumber = idNumber\<rparr>)"

section \<open>The endpoints\<close>

record verifyUserRequest =
  vu_UserID :: string
  vu_IDType :: string
  vu_IDNumber :: string

record verifyIDRequest =
  vi_CountryCode :: string
  vi_IDType :: string
  vi_IDNumber :: string

datatype kyc_body = KycError string | KycFieldErrors field_errors | KycResult VerifyResult

definition check_required :: "(string \<times> string) list \<Rightarrow> field_errors" where
  "check_required form =
     foldl (\<lambda>errs (field, v). case Required field v of (msg, ok) \<Rightarrow> if ok then errs else Errors_Add errs field msg) [] form"

text \<open>
  The handler sees the users through two operations, \<open>get\<close> and \<open>upd\<close>; a failed update is only
  logged. \<open>parse_uuid\<close> reads an identifier.
\<close>

definition verifyUser ::
  "('s \<Rightarrow> uuid \<Rightarrow> user_error + User) \<Rightarrow> ('s \<Rightarrow> uuid \<Rightarrow> bool \<Rightarrow> 's \<times> (user_error + unit)) \<Rightarrow> (string \<Rightarrow> uuid option) \<Rightarrow>
     smile_client \<Rightarrow> 's \<Rightarrow> (decode_error + verifyUserRequest) \<Rightarrow> 's \<times> int \<times> kyc_body" where
  "verifyUser get upd parse_uuid p s body =
     (case DecodeJSON body of
        Inl e \<Rightarrow> (s, 400, KycError e)
      | Inr req \<Rightarrow>
          let errs = check_required [(''user_id'', vu_UserID req), (''id_type'', vu_IDType req), (''id_number'', vu_IDNumber req)] in
          if HasAny errs then (s, 422, KycFieldErrors errs)
          else
            (case parse_uuid (vu_UserID req) of
               None \<Rightarrow> (s, 400, KycError ''invalid user_id'')
             | Some uid \<Rightarrow>
                 (case get s uid of
                    Inl _ \<Rightarrow> (s, 404, KycError ''user not found'')
                  | Inr user \<Rightarrow>
                      (case VerifyUser p user (vu_IDType req) (vu_IDNumber req) of
                         None \<Rightarrow> (s, 502, KycError ''kyc verification failed'')
                       | Some result \<Rightarrow>
                           ((if vf_Verified result then fst (upd s (u_ID user) True) else s), 200, KycResult result)))))"

definition verifyID :: "smile_client \<Rightarrow> (decode_error + verifyIDRequest) \<Rightarrow> int \<times> kyc_body" where
  "verifyID p body =
     (case DecodeJSON body of
        Inl e \<Rightarrow> (400, KycError e)
      | Inr req \<Rightarrow>
          let errs = check_required [(''country_code'', vi_CountryCode req), (''id_type'', vi_IDType req), (''id_number'', vi_IDNumber req)] in
          if HasAny errs then (422, KycFieldErrors errs)
          else
            (case VerifyID p (vi_CountryCode req) (vi_IDType req) (vi_IDNumber req) of
               None \<Rightarrow> (502, KycError ''kyc verification failed'')
             | Some result \<Rightarrow> (200, KycResult result)))"

section \<open>The table stays well formed\<close>

definition users_ok :: "User list \<Rightarrow> bool" where
  "users_ok s \<longleftrightarrow> distinct (map u_ID s) \<and> distinct (map u_PhoneNumber s) \<and> distinct (map u_Email s)"

inductive users_step :: "User list \<Rightarrow> User list \<Rightarrow> bool" where
  create: "UserRepository_Create fails s u = (s', r) \<Longrightarrow> users_step s s'"
| update: "UserRepository_Update fails now s u = (s', r) \<Longrightarrow> users_step s s'"
| verified: "UpdateVerificationStatus fails now s i b = (s', r) \<Longrightarrow> users_step s s'"

inductive_cases users_stepE: "users_step s s'"

text \<open>An update of one key column keeps the column distinct when no other row has the new value.\<close>

lemma distinct_update_key:
  assumes "distinct (map u_ID s)" "distinct (map key s)" "\<And>r. key (g r) = v"
    and "v \<notin> key ` {r \<in> set s. u_ID r \<noteq> i}"
  shows "distinct (map key (update_where (\<lambda>r. u_ID r = i) g s))"
  using assms
proof (induction s)
  case (Cons a s)
  show ?case
  proof (cases "u_ID a = i")
    case True
    then have "update_where (\<lambda>r. u_ID r = i) g s = s"
      using Cons.prems(1) by (intro update_where_none) (auto simp: image_iff)
    moreover have "{r \<in> set (a # s). u_ID r \<noteq> i} = set s"
      using Cons.prems(1) True by (auto simp: image_iff)
    then have "v \<notin> key ` set s" using Cons.prems(4) by metis
    ultimately show ?thesis using Cons.prems(2,3) True by (simp add: update_where_Cons)
  next
    case False
    have "distinct (map key (update_where (\<lambda>r. u_ID r = i) g s))"
      using Cons by auto
    moreover have "key a \<noteq> v" using Cons.prems(4) False by auto
    ultimately show ?thesis using Cons.prems(2,3) False
      by (auto simp: update_where_Cons set_update_where)
  qed
qed (simp add: update_where_Cons)

lemma users_step_ok: "users_step s s' \<Longrightarrow> users_ok s \<Longrightarrow> users_ok s'"
proof (induction rule: users_step.induct)
  case (create fails s u s' r)
  then show ?case
    by (auto simp: UserRepository_Create_def user_conflict_def user_row_def users_ok_def split: if_splits)
next
  case (update fails now s u s' r)
  consider "s' = s" |
    "s' = update_where (\<lambda>r. u_ID r = u_ID u) (updated_user now u) s"
    "\<not> user_conflict (filter (\<lambda>r. u_ID r \<noteq> u_ID u) s) u"
    using update.hyps by (auto simp: UserRepository_Update_def rows_affected_0 update_where_none split: if_splits)
  then show ?case
  proof cases
    case 2
    have d: "distinct (map u_ID s)" "distinct (map u_PhoneNumber s)" "distinct (map u_Email s)"
      using update.prems by (simp_all add: users_ok_def)
    have c: "u_PhoneNumber u \<notin> u_PhoneNumber ` {r \<in> set s. u_ID r \<noteq> u_ID u}"
      "u_Email u \<notin> u_Email ` {r \<in> set s. u_ID r \<noteq> u_ID u}"
      using 2(2) by (simp_all add: user_conflict_def)
    show ?thesis unfolding users_ok_def 2(1)
      by (intro conjI distinct_update_key [OF d(1) d(1), where v = "u_ID u"]
          distinct_update_key [OF d(1) d(2) _ c(1)] distinct_update_key [OF d(1) d(3) _ c(2)])
        (auto simp: updated_user_def)
  qed (use update.prems in simp)
next
  case (verified fails now s i b s' r)
  then show ?case
    by (auto simp: UpdateVerificationStatus_def users_ok_def update_where_keys split: if_splits)
qed

interpretation users_run: step_system users_step users_ok
  by unfold_locales (rule users_step_ok)

text \<open>Users stay apart. Whatever users are created, updated and verified, in whatever order, no two
  rows ever share an identifier, a phone number or an email address.\<close>

theorem users_table_ok:
  assumes "users_ok s" "users_step\<^sup>*\<^sup>* s s'"
  shows "users_ok s'"
  using users_run.run_keeps [OF assms(2,1)] .

text \<open>What a new row reads back as: the day of birth without its time, and nothing about logins.\<close>

lemma user_create_read:
  assumes "UserRepository_Create fails s u = (s', Inr ())"
  shows "UserRepository_GetByID False s' (u_ID u) = Inr (user_row u)"
    and "GetByEmail False s' (u_Email u) = Inr (user_row u)"
proof -
  have s': "s' = s @ [user_row u]" and c: "\<not> user_conflict s u"
    using assms by (auto simp: UserRepository_Create_def split: if_splits)
  have "select_row (\<lambda>r. u_ID r = u_ID u) s = None" "select_row (\<lambda>r. u_Email r = u_Email u) s = None"
    using c by (auto simp: select_row_None user_conflict_def image_iff)
  then show "UserRepository_GetByID False s' (u_ID u) = Inr (user_row u)"
    "GetByEmail False s' (u_Email u) = Inr (user_row u)"
    by (simp_all add: s' UserRepository_GetByID_def GetByEmail_def select_row_append select_row_Cons user_row_def)
qed

text \<open>
  The column of email addresses is unique, and a player without one is stored with the empty text
  instead of \<open>NULL\<close>: only one such player fits.
\<close>

lemma second_user_without_email:
  assumes "UserRepository_Create False s u = (s', Inr ())" "u_Email u = ''''" "u_Email v = ''''"
  shows "UserRepository_Create False s' v = (s', Inl UserConstraint)"
  using assms by (auto simp: UserRepository_Create_def user_conflict_def user_row_def split: if_splits)

section \<open>What a verification changes\<close>

text \<open>What the endpoint needs of the users it is given.\<close>

locale user_store =
  fixes get :: "'s \<Rightarrow> uuid \<Rightarrow> user_error + User"
    and upd :: "'s \<Rightarrow> uuid \<Rightarrow> bool \<Rightarrow> 's \<times> (user_error + unit)"
  assumes get_id: "get s i = Inr u \<Longrightarrow> u_ID u = i"
    and upd_others: "i \<noteq> j \<Longrightarrow> get (fst (upd s i b)) j = get s j"
    and upd_flag: "get s i = Inr u \<Longrightarrow>
      get (fst (upd s i b)) i = Inr u \<or> (\<exists>t. get (fst (upd s i b)) i = Inr (u\<lparr>u_IsVerified := b, u_UpdatedAt := t\<rparr>))"
begin

lemma verifyUser_changes:
  assumes "verifyUser get upd parse_uuid p s body = (s', status, r)" "s' \<noteq> s"
  obtains req uid v result where "body = Inr req" "parse_uuid (vu_UserID req) = Some uid" "get s uid = Inr v"
    "VerifyUser p v (vu_IDType req) (vu_IDNumber req) = Some result" "vf_Verified result" "u_ID v = uid"
    "s' = fst (upd s uid True)"
proof (cases "DecodeJSON body")
  case (Inl e)
  then show ?thesis using assms by (simp add: verifyUser_def)
next
  case (Inr req)
  then have b: "body = Inr req" by (simp add: DecodeJSON_def split: sum.splits decode_error.splits)
  define errs where "errs = check_required [(''user_id'', vu_UserID req), (''id_type'', vu_IDType req), (''id_number'', vu_IDNumber req)]"
  note v = assms(1) [unfolded verifyUser_def Inr sum.case Let_def, folded errs_def]
  obtain uid where uid: "parse_uuid (vu_UserID req) = Some uid" and "\<not> HasAny errs"
    using v assms(2) by (auto split: if_splits option.splits)
  then obtain u where u: "get s uid = Inr u"
    using v assms(2) by (auto split: sum.splits)
  then obtain result where res: "VerifyUser p u (vu_IDType req) (vu_IDNumber req) = Some result"
    using v assms(2) uid \<open>\<not> HasAny errs\<close> by (auto split: option.splits)
  then have "vf_Verified result" "s' = fst (upd s (u_ID u) True)"
    using v assms(2) uid u \<open>\<not> HasAny errs\<close> by (auto split: if_splits)
  then show ?thesis using that [OF b uid u res] get_id [OF u] by simp
qed

lemma verifyUser_effect:
  assumes "verifyUser get upd parse_uuid p s body = (s', status, r)" "get s j = Inr u"
  shows "get s' j = Inr u \<or>
    (\<exists>req result t. body = Inr req \<and> parse_uuid (vu_UserID req) = Some j \<and>
       VerifyUser p u (vu_IDType req) (vu_IDNumber req) = Some result \<and> vf_Verified result \<and>
       get s' j = Inr (u\<lparr>u_IsVerified := True, u_UpdatedAt := t\<rparr>))"
proof (cases "s' = s")
  case False
  from assms(1) False obtain req uid v result where req: "body = Inr req" "parse_uuid (vu_UserID req) = Some uid"
    "get s uid = Inr v" "VerifyUser p v (vu_IDType req) (vu_IDNumber req) = Some result" "vf_Verified result"
    "u_ID v = uid" "s' = fst (upd s uid True)"
    by (rule verifyUser_changes)
  show ?thesis
  proof (cases "uid = j")
    case True
    then have "v = u" using req(3) assms(2) by simp
    then show ?thesis using req True upd_flag [OF assms(2), of True] by auto
  next
    case False
    then show ?thesis using req(7) assms(2) upd_others by simp
  qed
qed (use assms in simp)

lemma verifyUser_unknown:
  assumes "verifyUser get upd parse_uuid p s body = (s', status, r)" "get s j = Inl e"
  shows "get s' j = Inl e"
proof (cases "s' = s")
  case False
  with assms(1) obtain uid v where "get s uid = Inr v" "s' = fst (upd s uid True)"
    by (rule verifyUser_changes)
  then show ?thesis using assms(2) upd_others [of uid j] by (cases "uid = j") auto
qed (use assms in simp)

end

lemma select_other:
  assumes "\<And>r. P r \<Longrightarrow> \<not> Q r" "\<And>r. P r \<Longrightarrow> \<not> Q (g r)"
  shows "select_row Q (update_where P g t) = select_row Q t"
  using assms by (induction t) (auto simp: update_where_Cons select_row_Cons)

interpretation kyc_users: user_store "UserRepository_GetByID f" "UpdateVerificationStatus g now" for f g now
proof
  fix s :: "User list" and i u
  assume "UserRepository_GetByID f s i = Inr u"
  then show "u_ID u = i"
    by (auto simp: UserRepository_GetByID_def split: if_splits option.splits dest: select_row_Some)
next
  fix i j :: uuid and s :: "User list" and b
  assume "i \<noteq> j"
  then have "select_row (\<lambda>u. u_ID u = j) (update_where (\<lambda>u. u_ID u = i) g' s) = select_row (\<lambda>u. u_ID u = j) s"
    if "\<And>r. u_ID (g' r) = u_ID r" for g' using that by (intro select_other) auto
  then show "UserRepository_GetByID f (fst (UpdateVerificationStatus g now s i b)) j = UserRepository_GetByID f s j"
    by (simp add: UserRepository_GetByID_def UpdateVerificationStatus_def)
next
  fix s :: "User list" and i u b
  assume "UserRepository_GetByID f s i = Inr u"
  then show "UserRepository_GetByID f (fst (UpdateVerificationStatus g now s i b)) i = Inr u \<or>
    (\<exists>t. UserRepository_GetByID f (fst (UpdateVerificationStatus g now s i b)) i = Inr (u\<lparr>u_IsVerified := b, u_UpdatedAt := t\<rparr>))"
    by (auto simp: UserRepository_GetByID_def UpdateVerificationStatus_def select_row_update_where
        split: if_splits option.splits dest: select_row_Some)
qed

lemma kyc_verifies:
  assumes "verifyUser (UserRepository_GetByID f) (UpdateVerificationStatus g now) parse_uuid p s body = (s', status, r)"
    and "UserRepository_GetByID False s' j = Inr u'"
  shows "\<exists>u t b. UserRepository_GetByID False s j = Inr u \<and> u' = u\<lparr>u_IsVerified := b, u_UpdatedAt := t\<rparr> \<and>
    (b \<longrightarrow> u_IsVerified u \<or>
       (\<exists>req resp. body = Inr req \<and> parse_uuid (vu_UserID req) = Some j \<and>
          sdk_VerifyUser p \<lparr>kq_CountryCode = u_CountryCode u, kq_IDType = vu_IDType req, kq_IDNumber = vu_IDNumber req,
            kq_FirstName = firstName (u_FullName u), kq_LastName = lastName (u_FullName u)\<rparr> = Some resp \<and>
          sm_Verified resp))"
proof (cases "f \<or> s' = s")
  case True
  have "s' = s"
  proof (rule ccontr)
    assume "s' \<noteq> s"
    with assms(1) obtain i v where "UserRepository_GetByID f s i = Inr v" by (rule kyc_users.verifyUser_changes)
    then show False using True \<open>s' \<noteq> s\<close> by (simp add: UserRepository_GetByID_def split: if_splits)
  qed
  then show ?thesis using assms(2)
    by (intro exI [of _ u'] exI [of _ "u_UpdatedAt u'"] exI [of _ "u_IsVerified u'"]) simp
next
  case False
  then have f: "\<not> f" by simp
  show ?thesis
  proof (cases "UserRepository_GetByID False s j")
    case (Inl e)
    then show ?thesis
      using assms f kyc_users.verifyUser_unknown [of False g now parse_uuid p s body s' status r j] by simp
  next
    case (Inr u)
    with assms f consider "u' = u" |
      req result t where "body = Inr req" "parse_uuid (vu_UserID req) = Some j"
       "VerifyUser p u (vu_IDType req) (vu_IDNumber req) = Some result" "vf_Verified result"
       "u' = u\<lparr>u_IsVerified := True, u_UpdatedAt := t\<rparr>"
      using kyc_users.verifyUser_effect [of False g now parse_uuid p s body s' status r j u] by auto
    then show ?thesis
    proof cases
      case 1
      then show ?thesis using Inr
        by (intro exI [of _ u] exI [of _ "u_UpdatedAt u"] exI [of _ "u_IsVerified u"]) simp
    next
      case 2
      then show ?thesis using Inr
        by (intro exI [of _ u] exI [of _ t] exI [of _ True]) (auto simp: VerifyUser_def)
    qed
  qed
qed

text \<open>C30: only a confirmed document verifies a player. After a request to the endpoint, whichever
  statements fail and whatever the provider answers, a player who is verified either was before, or
  is the one the request names, and the provider confirmed the document of the request for the
  player's stored country, first and last name. Nothing else of any player changes but the time of
  the update, and nobody appears.\<close>

theorem kyc_verifies_only_confirmed:
  assumes "verifyUser (UserRepository_GetByID f) (UpdateVerificationStatus g now) parse_uuid p s body = (s', status, r)"
    and "UserRepository_GetByID False s' j = Inr u'"
  shows "\<exists>u t b. UserRepository_GetByID False s j = Inr u \<and> u' = u\<lparr>u_IsVerified := b, u_UpdatedAt := t\<rparr> \<and>
    (b \<longrightarrow> u_IsVerified u \<or>
       (\<exists>req resp. body = Inr req \<and> parse_uuid (vu_UserID req) = Some j \<and>
          sdk_VerifyUser p \<lparr>kq_CountryCode = u_CountryCode u, kq_IDType = vu_IDType req, kq_IDNumber = vu_IDNumber req,
            kq_FirstName = firstName (u_FullName u), kq_LastName = lastName (u_FullName u)\<rparr> = Some resp \<and>
          sm_Verified resp))"
  using kyc_verifies [OF assms] .

text \<open>One request after another, and what a player may do afterwards.\<close>

inductive kyc_step :: "(string \<Rightarrow> uuid option) \<Rightarrow> smile_client \<Rightarrow> User list \<Rightarrow> User list \<Rightarrow> bool" for parse_uuid p where
  "verifyUser (UserRepository_GetByID f) (UpdateVerificationStatus g now) parse_uuid p s body = (s', status, r) \<Longrightarrow>
     kyc_step parse_uuid p s s'"

definition status_is :: "UserStatus \<Rightarrow> uuid \<Rightarrow> User list \<Rightarrow> bool" where
  "status_is st i s \<longleftrightarrow> (\<forall>u. UserRepository_GetByID False s i = Inr u \<longrightarrow> u_Status u = st)"

interpretation kyc_run: step_system "kyc_step parse_uuid p" "status_is st i" for parse_uuid p st i
proof
  fix s s'
  assume "kyc_step parse_uuid p s s'" and inv: "status_is st i s"
  then obtain f g now body status r where
    v: "verifyUser (UserRepository_GetByID f) (UpdateVerificationStatus g now) parse_uuid p s body = (s', status, r)"
    by (auto elim: kyc_step.cases)
  show "status_is st i s'" unfolding status_is_def
  proof (intro allI impI)
    fix u' assume "UserRepository_GetByID False s' i = Inr u'"
    from kyc_verifies [OF v this] show "u_Status u' = st" using inv by (auto simp: status_is_def)
  qed
qed


text \<open>The document is compared with the names of the account; the national identifier on file is not
  looked at, and one document verifies every account with the name.\<close>

lemma one_document_verifies_all:
  assumes "u_CountryCode v = u_CountryCode u" "u_FullName v = u_FullName u"
  shows "VerifyUser p v idType idNumber = VerifyUser p u idType idNumber"
  using assms by (simp add: VerifyUser_def)

text \<open>Middle names are dropped; a name of one word has no last name.\<close>

lemma names_of_three:
  assumes "CHR '' '' \<notin> set a" "CHR '' '' \<notin> set b" "a \<noteq> []"
  shows "firstName (a @ '' '' @ m @ '' '' @ b) = a \<and> lastName (a @ '' '' @ m @ '' '' @ b) = b"
proof
  have t: "takeWhile (\<lambda>c. c \<noteq> CHR '' '') (c @ CHR '' '' # r) = c" if "CHR '' '' \<notin> set c" for c r
    using that by (induction c) auto
  have "hd (a @ CHR '' '' # m @ CHR '' '' # b) \<noteq> CHR '' ''" using assms(1,3) by (cases a) auto
  then show "firstName (a @ '' '' @ m @ '' '' @ b) = a" using t [OF assms(1)] by (simp add: firstName_def)
  have "CHR '' '' \<in> set (tl (a @ CHR '' '' # m @ CHR '' '' # b))" using assms(3) by (cases a) auto
  moreover have "takeWhile (\<lambda>c. c \<noteq> CHR '' '') (rev b @ CHR '' '' # rev (a @ CHR '' '' # m)) = rev b"
    using t [of "rev b"] assms(2) by simp
  ultimately show "lastName (a @ '' '' @ m @ '' '' @ b) = b" by (simp add: lastName_def)
qed

section \<open>Concrete runs\<close>

definition ann :: User where
  "ann = \<lparr>u_ID = 1, u_PhoneNumber = ''0712345678'', u_Email = '''', u_PasswordHash = ''h'', u_CountryCode = ''KE'',
     u_Currency = ''KES'', u_NationalID = ''11'', u_KRAPin = '''', u_FullName = ''Ann Wanjiru'', u_DateOfBirth = 0,
     u_IsVerified = False, u_SelfExcluded = False, u_SelfExcludedUntil = None, u_DailyDepositLimit = None,
     u_CreatedAt = 0, u_UpdatedAt = 0, u_LastLoginAt = None, u_Status = UserStatusPending\<rparr>"

definition yes_client :: smile_client where
  "yes_client = \<lparr>sdk_env = ''sandbox'',
     sdk_VerifyUser = \<lambda>q. if kq_LastName q = ''Wanjiru''
       then Some \<lparr>sm_Verified = True, sm_FullName = ''Ann Wanjiru'', sm_IDNumber = kq_IDNumber q, sm_IDType = kq_IDType q,
         sm_CountryCode = kq_CountryCode q, sm_ErrorMessage = ''''\<rparr> else None,
     sdk_VerifyID = \<lambda>q. None\<rparr>"

definition ann_request :: "decode_error + verifyUserRequest" where
  "ann_request = Inr \<lparr>vu_UserID = ''1'', vu_IDType = ''NATIONAL_ID'', vu_IDNumber = ''99''\<rparr>"

definition ann_verified :: "User list" where
  "ann_verified = fst (verifyUser (UserRepository_GetByID False) (UpdateVerificationStatus False 5) (\<lambda>x. Some 1) yes_client
     [user_row ann] ann_request)"

lemma ann_verified_row: "UserRepository_GetByID False ann_verified 1 = Inr ((user_row ann)\<lparr>u_IsVerified := True, u_UpdatedAt := 5\<rparr>)"
  by code_simp

lemma ann_run:
  "verifyUser (UserRepository_GetByID False) (UpdateVerificationStatus False 5) (\<lambda>x. Some 1) yes_client
     [user_row ann] ann_request = (ann_verified, 200, KycResult \<lparr>vf_Verified = True, vf_Status = ''verified'',
       vf_FullName = ''Ann Wanjiru'', vf_IDNumber = ''99'', vf_IDType = ''NATIONAL_ID'', vf_CountryCode = ''KE'', vf_ErrorMessage = ''''\<rparr>)"
  by code_simp

lemma users_table_ok_witness: "users_ok ann_verified"
proof (rule users_table_ok)
  show "users_ok [user_row ann]" by (simp add: users_ok_def)
  have "ann_verified = fst (UpdateVerificationStatus False 5 [user_row ann] 1 True)" by code_simp
  then have "users_step [user_row ann] ann_verified"
    using users_step.verified [OF prod.collapse [symmetric]] by metis
  then show "users_step\<^sup>*\<^sup>* [user_row ann] ann_verified" by simp
qed

lemma kyc_verifies_only_confirmed_witness:
  "\<exists>u t b. UserRepository_GetByID False [user_row ann] 1 = Inr u \<and>
     (user_row ann)\<lparr>u_IsVerified := True, u_UpdatedAt := 5\<rparr> = u\<lparr>u_IsVerified := b, u_UpdatedAt := t\<rparr>"
  using kyc_verifies_only_confirmed [OF ann_run ann_verified_row] by blast


end
