(* ===== verification/CardDeposits.thy ===== *)
theory CardDeposits
  imports Database
begin

text \<open>
  \<open>internal/infrastructure/repository/postgres/flutterwave_deposit_repository.go\<close>: the deposits
  paid by card and mobile money, over the table of
  \<open>migrations/20240429000005_create_flutterwave_deposits_table.up.sql\<close>. The generated column of the
  total fees is computed when a row is written. \<open>users\<close> says which users exist, \<open>jsonb\<close> how the
  server stores a JSON text, if it is one, \<open>now\<close> is the server's clock.
\<close>

record FlutterwaveDeposit =
  fd_ID :: uuid
  fd_UserID :: uuid
  fd_DepositID :: string
  fd_TransactionID :: string
  fd_Reference :: string
  fd_PaymentLink :: string
  fd_Amount :: decimal
  fd_Currency :: string
  fd_Email :: string
  fd_PhoneNumber :: string
  fd_Status :: string
  fd_PaymentMethod :: string
  fd_ProviderName :: string
  fd_ProviderTxnID :: string
  fd_FlutterwaveRef :: string
  fd_Network :: string
  fd_ProcessedAt :: "time option"
  fd_CompletedAt :: "time option"
  fd_FailureReason :: "string option"
  fd_AppFee :: decimal
  fd_MerchantFee :: decimal
  fd_TotalFees :: decimal
  fd_Meta :: string
  fd_CreatedAt :: time
  fd_UpdatedAt :: time

record card_env =
  ca_libs :: libs
  ca_users :: "uuid \<Rightarrow> bool"
  ca_jsonb :: "string \<Rightarrow> string option"
  ca_now :: time
  ca_fault :: bool

datatype card_error = CardNotFound | CardStatement | CardConstraint

definition card_statuses :: "string list" where
  "card_statuses = [''PENDING'', ''COMPLETED'', ''FAILED'', ''CANCELLED'']"

text \<open>The row an insert writes: amounts as the columns round them, and the defaults.\<close>

definition card_row :: "card_env \<Rightarrow> FlutterwaveDeposit \<Rightarrow> FlutterwaveDeposit option" where
  "card_row E d =
     (case (money_col (ca_libs E) (fd_Amount d), money_col (ca_libs E) (fd_AppFee d),
            money_col (ca_libs E) (fd_MerchantFee d), ca_jsonb E (fd_Meta d)) of
        (Some amount, Some app, Some merchant, Some meta) \<Rightarrow>
          map_option (\<lambda>total. d\<lparr>fd_Amount := amount, fd_AppFee := app, fd_MerchantFee := merchant,
             fd_TotalFees := total, fd_Meta := meta, fd_ProcessedAt := None, fd_CompletedAt := None,
             fd_FailureReason := None, fd_CreatedAt := ca_now E, fd_UpdatedAt := ca_now E\<rparr>)
            (money_col (ca_libs E) (app + merchant))
      | _ \<Rightarrow> None)"

definition card_constraints :: "card_env \<Rightarrow> FlutterwaveDeposit list \<Rightarrow> FlutterwaveDeposit \<Rightarrow> bool" where
  "card_constraints E others d \<longleftrightarrow>
     fd_ID d \<notin> fd_ID ` set others \<and> fd_DepositID d \<notin> fd_DepositID ` set others \<and>
     ca_users E (fd_UserID d) \<and> 0 < fd_Amount d \<and> fd_Status d \<in> set card_statuses"

definition Flutterwave_Create ::
  "card_env \<Rightarrow> FlutterwaveDeposit list \<Rightarrow> FlutterwaveDeposit \<Rightarrow> FlutterwaveDeposit list \<times> (card_error + unit)" where
  "Flutterwave_Create E s d =
     (if ca_fault E then (s, Inl CardStatement)
      else
        (case card_row E d of
           None \<Rightarrow> (s, Inl CardStatement)
         | Some row \<Rightarrow> if card_constraints E s row then (s @ [row], Inr ()) else (s, Inl CardConstraint)))"

definition card_lookup ::
  "card_env \<Rightarrow> FlutterwaveDeposit list \<Rightarrow> (FlutterwaveDeposit \<Rightarrow> bool) \<Rightarrow> card_error + FlutterwaveDeposit" where
  "card_lookup E s P =
     (if ca_fault E then Inl CardStatement
      else case select_row P s of None \<Rightarrow> Inl CardNotFound | Some d \<Rightarrow> Inr d)"

definition Flutterwave_GetByID :: "card_env \<Rightarrow> FlutterwaveDeposit list \<Rightarrow> uuid \<Rightarrow> card_error + FlutterwaveDeposit" where
  "Flutterwave_GetByID E s i = card_lookup E s (\<lambda>d. fd_ID d = i)"

definition GetByDepositID :: "card_env \<Rightarrow> FlutterwaveDeposit list \<Rightarrow> string \<Rightarrow> card_error + FlutterwaveDeposit" where
  "GetByDepositID E s depositID = card_lookup E s (\<lambda>d. fd_DepositID d = depositID)"

definition GetByTransactionID :: "card_env \<Rightarrow> FlutterwaveDeposit list \<Rightarrow> string \<Rightarrow> card_error + FlutterwaveDeposit" where
  "GetByTransactionID E s transactionID = card_lookup E s (\<lambda>d. fd_TransactionID d = transactionID)"

text \<open>The check of the status fails the statement only when a row is written.\<close>

definition Flutterwave_UpdateStatus ::
  "card_env \<Rightarrow> FlutterwaveDeposit list \<Rightarrow> uuid \<Rightarrow> string \<Rightarrow> FlutterwaveDeposit list \<times> (card_error + unit)" where
  "Flutterwave_UpdateStatus E s i status =
     (if ca_fault E then (s, Inl CardStatement)
      else if rows_affected (\<lambda>d. fd_ID d = i) s \<noteq> 0 \<and> status \<notin> set card_statuses then (s, Inl CardConstraint)
      else (update_where (\<lambda>d. fd_ID d = i) (\<lambda>d. d\<lparr>fd_Status := status, fd_UpdatedAt := ca_now E\<rparr>) s, Inr ()))"

definition completed_row :: "card_env \<Rightarrow> string \<Rightarrow> decimal \<Rightarrow> FlutterwaveDeposit \<Rightarrow> FlutterwaveDeposit option" where
  "completed_row E ref fees d =
     Option.bind (money_col (ca_libs E) fees)
       (\<lambda>fee. map_option (\<lambda>total. d\<lparr>fd_Status := ''COMPLETED'', fd_FlutterwaveRef := ref, fd_AppFee := fee,
          fd_TotalFees := total, fd_CompletedAt := Some (ca_now E), fd_ProcessedAt := Some (ca_now E),
          fd_UpdatedAt := ca_now E\<rparr>)
         (money_col (ca_libs E) (fee + fd_MerchantFee d)))"

definition Flutterwave_MarkCompleted ::
  "card_env \<Rightarrow> FlutterwaveDeposit list \<Rightarrow> uuid \<Rightarrow> string \<Rightarrow> decimal \<Rightarrow> FlutterwaveDeposit list \<times> (card_error + unit)" where
  "Flutterwave_MarkCompleted E s i ref fees =
     (if ca_fault E then (s, Inl CardStatement)
      else
        (case update_try (\<lambda>d. fd_ID d = i) (completed_row E ref fees) s of
           None \<Rightarrow> (s, Inl CardStatement)
         | Some s' \<Rightarrow> (s', Inr ())))"

definition Flutterwave_MarkFailed ::
  "card_env \<Rightarrow> FlutterwaveDeposit list \<Rightarrow> uuid \<Rightarrow> string \<Rightarrow> FlutterwaveDeposit list \<times> (card_error + unit)" where
  "Flutterwave_MarkFailed E s i reason =
     (if ca_fault E then (s, Inl CardStatement)
      else (update_where (\<lambda>d. fd_ID d = i)
              (\<lambda>d. d\<lparr>fd_Status := ''FAILED'', fd_FailureReason := Some reason, fd_ProcessedAt := Some (ca_now E),
                 fd_UpdatedAt := ca_now E\<rparr>) s, Inr ()))"

definition Flutterwave_Delete :: "card_env \<Rightarrow> FlutterwaveDeposit list \<Rightarrow> uuid \<Rightarrow> FlutterwaveDeposit list \<times> (card_error + unit)" where
  "Flutterwave_Delete E s i =
     (if ca_fault E then (s, Inl CardStatement) else (filter (\<lambda>d. fd_ID d \<noteq> i) s, Inr ()))"

section \<open>The table stays well formed\<close>

text \<open>Distinct keys, known users, positive amounts, a known status, and the fees add up.\<close>

definition cards_ok :: "(uuid \<Rightarrow> bool) \<Rightarrow> FlutterwaveDeposit list \<Rightarrow> bool" where
  "cards_ok users s \<longleftrightarrow> distinct (map fd_ID s) \<and> distinct (map fd_DepositID s) \<and>
     (\<forall>d \<in> set s. users (fd_UserID d) \<and> 0 < fd_Amount d \<and> fd_Status d \<in> set card_statuses \<and>
        has_scale 2 (fd_AppFee d) \<and> has_scale 2 (fd_MerchantFee d) \<and>
        fd_TotalFees d = fd_AppFee d + fd_MerchantFee d)"

inductive cards_step :: "libs \<Rightarrow> (uuid \<Rightarrow> bool) \<Rightarrow> FlutterwaveDeposit list \<Rightarrow> FlutterwaveDeposit list \<Rightarrow> bool"
  for L users where
  create: "Flutterwave_Create E s d = (s', r) \<Longrightarrow> ca_libs E = L \<Longrightarrow> ca_users E = users \<Longrightarrow> cards_step L users s s'"
| status: "Flutterwave_UpdateStatus E s i st = (s', r) \<Longrightarrow> ca_libs E = L \<Longrightarrow> ca_users E = users \<Longrightarrow> cards_step L users s s'"
| completed: "Flutterwave_MarkCompleted E s i ref fees = (s', r) \<Longrightarrow> ca_libs E = L \<Longrightarrow> ca_users E = users \<Longrightarrow> cards_step L users s s'"
| failed: "Flutterwave_MarkFailed E s i reason = (s', r) \<Longrightarrow> ca_libs E = L \<Longrightarrow> ca_users E = users \<Longrightarrow> cards_step L users s s'"
| delete: "Flutterwave_Delete E s i = (s', r) \<Longrightarrow> ca_libs E = L \<Longrightarrow> ca_users E = users \<Longrightarrow> cards_step L users s s'"

inductive_cases cards_stepE: "cards_step L users s s'"

lemma card_statuses_known [simp]:
  "''COMPLETED'' \<in> set card_statuses" "''FAILED'' \<in> set card_statuses" "''PENDING'' \<in> set card_statuses"
  by (simp_all add: card_statuses_def)

lemma fees_exact:
  assumes "libs_ok L" "has_scale 2 a" "has_scale 2 b" "money_col L (a + b) = Some t"
  shows "t = a + b"
  using assms money_col_exact has_scale_add by blast

lemma card_row_ok:
  assumes "libs_ok (ca_libs E)" "card_row E d = Some row"
  shows "has_scale 2 (fd_AppFee row) \<and> has_scale 2 (fd_MerchantFee row) \<and>
    fd_TotalFees row = fd_AppFee row + fd_MerchantFee row"
  using assms(2) money_col_scale [OF assms(1)] fees_exact [OF assms(1)]
  by (auto simp: card_row_def split: option.splits)

lemma completed_row_ok:
  assumes "libs_ok (ca_libs E)" "completed_row E ref fees d = Some row" "has_scale 2 (fd_MerchantFee d)"
  shows "has_scale 2 (fd_AppFee row) \<and> fd_TotalFees row = fd_AppFee row + fd_MerchantFee row \<and>
    fd_ID row = fd_ID d \<and> fd_DepositID row = fd_DepositID d \<and> fd_UserID row = fd_UserID d \<and>
    fd_Amount row = fd_Amount d \<and> fd_MerchantFee row = fd_MerchantFee d \<and> fd_Status row = ''COMPLETED''"
  using assms(2,3) money_col_scale [OF assms(1)] fees_exact [OF assms(1)]
  by (auto simp: completed_row_def bind_eq_Some_conv)

text \<open>A row-by-row rewriting that keeps keys and the facts of a row keeps the table.\<close>

lemma cards_ok_map:
  assumes "cards_ok users s" "length s' = length s"
    and "\<And>k. k < length s \<Longrightarrow> fd_ID (s' ! k) = fd_ID (s ! k) \<and> fd_DepositID (s' ! k) = fd_DepositID (s ! k) \<and>
      fd_UserID (s' ! k) = fd_UserID (s ! k) \<and> fd_Amount (s' ! k) = fd_Amount (s ! k) \<and>
      fd_MerchantFee (s' ! k) = fd_MerchantFee (s ! k) \<and> fd_Status (s' ! k) \<in> set card_statuses \<and>
      has_scale 2 (fd_AppFee (s' ! k)) \<and> fd_TotalFees (s' ! k) = fd_AppFee (s' ! k) + fd_MerchantFee (s' ! k)"
  shows "cards_ok users s'"
proof -
  have k: "map fd_ID s' = map fd_ID s" "map fd_DepositID s' = map fd_DepositID s"
    using assms(2,3) by (auto intro: nth_equalityI)
  have row: "users (fd_UserID (s ! k))" "0 < fd_Amount (s ! k)" "has_scale 2 (fd_MerchantFee (s ! k))" if "k < length s" for k
    using assms(1) that by (auto simp: cards_ok_def)
  have "users (fd_UserID d) \<and> 0 < fd_Amount d \<and> fd_Status d \<in> set card_statuses \<and>
      has_scale 2 (fd_AppFee d) \<and> has_scale 2 (fd_MerchantFee d) \<and> fd_TotalFees d = fd_AppFee d + fd_MerchantFee d"
    if "d \<in> set s'" for d
    using that assms(2,3) row by (auto simp: in_set_conv_nth)
  then show ?thesis using assms(1) k by (simp add: cards_ok_def)
qed

lemma cards_ok_update:
  assumes "cards_ok users s"
    and "\<And>d. d \<in> set s \<Longrightarrow> fd_ID (g d) = fd_ID d \<and> fd_DepositID (g d) = fd_DepositID d \<and> fd_UserID (g d) = fd_UserID d \<and>
      fd_Amount (g d) = fd_Amount d \<and> fd_MerchantFee (g d) = fd_MerchantFee d \<and> fd_AppFee (g d) = fd_AppFee d \<and>
      fd_TotalFees (g d) = fd_TotalFees d \<and> fd_Status (g d) \<in> set card_statuses"
  shows "cards_ok users (update_where P g s)"
proof (rule cards_ok_map [OF assms(1)])
  fix k assume "k < length s"
  then show "fd_ID (update_where P g s ! k) = fd_ID (s ! k) \<and> fd_DepositID (update_where P g s ! k) = fd_DepositID (s ! k) \<and>
      fd_UserID (update_where P g s ! k) = fd_UserID (s ! k) \<and> fd_Amount (update_where P g s ! k) = fd_Amount (s ! k) \<and>
      fd_MerchantFee (update_where P g s ! k) = fd_MerchantFee (s ! k) \<and> fd_Status (update_where P g s ! k) \<in> set card_statuses \<and>
      has_scale 2 (fd_AppFee (update_where P g s ! k)) \<and>
      fd_TotalFees (update_where P g s ! k) = fd_AppFee (update_where P g s ! k) + fd_MerchantFee (update_where P g s ! k)"
    using assms by (auto simp: update_where_def cards_ok_def)
qed simp

lemma cards_step_ok:
  assumes "libs_ok L" "cards_step L users s s'" "cards_ok users s"
  shows "cards_ok users s'"
  using assms(2,3)
proof (induction rule: cards_step.induct)
  case (create E s d s' r)
  then show ?case
    using assms(1) card_row_ok
    by (auto simp: Flutterwave_Create_def card_constraints_def cards_ok_def split: if_splits option.splits)
next
  case (status E s i st s' r)
  show ?case
  proof (cases "rows_affected (\<lambda>d. fd_ID d = i) s = 0 \<or> s' = s")
    case True
    then have "s' = s"
      using status by (auto simp: Flutterwave_UpdateStatus_def rows_affected_0 update_where_none split: if_splits)
    then show ?thesis using status by simp
  next
    case False
    then show ?thesis
      using status by (auto simp: Flutterwave_UpdateStatus_def split: if_splits intro: cards_ok_update)
  qed
next
  case (completed E s i ref fees s' r)
  show ?case
  proof (cases "s' = s")
    case False
    then have t: "map Some s' = map (\<lambda>d. if fd_ID d = i then completed_row E ref fees d else Some d) s"
      using completed by (auto simp: Flutterwave_MarkCompleted_def update_try_def those_Some split: if_splits option.splits)
    then have len: "length s' = length s" by (auto dest: arg_cong [where f = length])
    have "fd_ID (s' ! k) = fd_ID (s ! k) \<and> fd_DepositID (s' ! k) = fd_DepositID (s ! k) \<and>
      fd_UserID (s' ! k) = fd_UserID (s ! k) \<and> fd_Amount (s' ! k) = fd_Amount (s ! k) \<and>
      fd_MerchantFee (s' ! k) = fd_MerchantFee (s ! k) \<and> fd_Status (s' ! k) \<in> set card_statuses \<and>
      has_scale 2 (fd_AppFee (s' ! k)) \<and> fd_TotalFees (s' ! k) = fd_AppFee (s' ! k) + fd_MerchantFee (s' ! k)"
      if "k < length s" for k
    proof -
      have m: "s ! k \<in> set s" using that by simp
      then have r: "has_scale 2 (fd_MerchantFee (s ! k))" "has_scale 2 (fd_AppFee (s ! k))" "fd_Status (s ! k) \<in> set card_statuses"
        "fd_TotalFees (s ! k) = fd_AppFee (s ! k) + fd_MerchantFee (s ! k)"
        using completed.prems by (auto simp: cards_ok_def)
      have "Some (s' ! k) = (if fd_ID (s ! k) = i then completed_row E ref fees (s ! k) else Some (s ! k))"
        using arg_cong [OF t, of "\<lambda>xs. xs ! k"] that len by simp
      then show ?thesis using completed_row_ok [of E ref fees "s ! k" "s' ! k"] assms(1) completed(2) r
        by (auto split: if_splits)
    qed
    then show ?thesis using cards_ok_map [OF completed.prems len] by blast
  qed (use completed in simp)
next
  case (failed E s i reason s' r)
  then show ?case
    by (auto simp: Flutterwave_MarkFailed_def split: if_splits intro!: cards_ok_update)
next
  case (delete E s i s' r)
  then show ?case
    by (auto simp: Flutterwave_Delete_def cards_ok_def distinct_map_filter split: if_splits)
qed

interpretation cards_run: step_system "cards_step L users" "\<lambda>s. libs_ok L \<and> cards_ok users s" for L users
  by unfold_locales (auto intro: cards_step_ok)

text \<open>Card deposits stay consistent. Whatever statements run, in whatever order, failing or not, the
  identifiers and deposit numbers are distinct, every row belongs to a known user, has a positive
  amount and one of the four statuses, and its total is the sum of its two fees to the cent.\<close>

theorem card_table_ok:
  assumes "libs_ok L" "cards_ok users s" "(cards_step L users)\<^sup>*\<^sup>* s s'"
  shows "cards_ok users s'"
  using cards_run.run_keeps [OF assms(3)] assms(1,2) by blast

section \<open>Reading back\<close>

text \<open>A card deposit reads back as it was created. When the amounts are in cents and fit their
  columns, the user exists, the status is a known one and the numbers are new, the insert succeeds,
  and both lookups by a unique number return the deposit with its fees added up and the stages of
  its processing empty.\<close>

theorem card_create_read:
  assumes "libs_ok (ca_libs E)" "\<not> ca_fault E" "ca_users E (fd_UserID d)" "ca_jsonb E (fd_Meta d) = Some (fd_Meta d)"
    and "has_scale 2 (fd_Amount d)" "0 < fd_Amount d" "fd_Amount d \<le> 10 ^ 12"
    and "has_scale 2 (fd_AppFee d)" "0 \<le> fd_AppFee d" "fd_AppFee d \<le> 10 ^ 12"
    and "has_scale 2 (fd_MerchantFee d)" "0 \<le> fd_MerchantFee d" "fd_MerchantFee d \<le> 10 ^ 12"
    and "fd_Status d \<in> set card_statuses" "fd_ID d \<notin> fd_ID ` set s" "fd_DepositID d \<notin> fd_DepositID ` set s"
  shows "\<exists>s'. Flutterwave_Create E s d = (s', Inr ()) \<and>
    (let row = d\<lparr>fd_TotalFees := fd_AppFee d + fd_MerchantFee d, fd_ProcessedAt := None, fd_CompletedAt := None,
       fd_FailureReason := None, fd_CreatedAt := ca_now E, fd_UpdatedAt := ca_now E\<rparr>
     in Flutterwave_GetByID E s' (fd_ID d) = Inr row \<and> GetByDepositID E s' (fd_DepositID d) = Inr row)"
proof -
  let ?row = "d\<lparr>fd_TotalFees := fd_AppFee d + fd_MerchantFee d, fd_ProcessedAt := None, fd_CompletedAt := None,
       fd_FailureReason := None, fd_CreatedAt := ca_now E, fd_UpdatedAt := ca_now E\<rparr>"
  have "money_col (ca_libs E) (fd_Amount d) = Some (fd_Amount d)" "money_col (ca_libs E) (fd_AppFee d) = Some (fd_AppFee d)"
    "money_col (ca_libs E) (fd_MerchantFee d) = Some (fd_MerchantFee d)"
    "money_col (ca_libs E) (fd_AppFee d + fd_MerchantFee d) = Some (fd_AppFee d + fd_MerchantFee d)"
    using assms by (auto intro!: money_col_fits has_scale_add)
  then have row: "card_row E d = Some ?row" using assms(4) by (simp add: card_row_def)
  have "Flutterwave_Create E s d = (s @ [?row], Inr ())"
    using assms row by (simp add: Flutterwave_Create_def card_constraints_def)
  moreover have "select_row (\<lambda>x. fd_ID x = fd_ID d) s = None" "select_row (\<lambda>x. fd_DepositID x = fd_DepositID d) s = None"
    using assms(15,16) by (auto simp: select_row_None image_iff)
  ultimately show ?thesis using assms(2)
    by (simp add: Flutterwave_GetByID_def GetByDepositID_def card_lookup_def select_row_append select_row_Cons)
qed

section \<open>Two notices about one deposit\<close>

lemma read_after_update:
  assumes "Flutterwave_GetByID E s i = Inr d" "fd_ID (g d) = i" "\<not> ca_fault E'"
  shows "Flutterwave_GetByID E' (update_where (\<lambda>d. fd_ID d = i) g s) i = Inr (g d)"
proof -
  have "select_row (\<lambda>d. fd_ID d = i) s = Some d" "fd_ID d = i"
    using assms(1) by (auto simp: Flutterwave_GetByID_def card_lookup_def split: if_splits option.splits dest: select_row_Some)
  then have "select_row (\<lambda>d. fd_ID d = i) (update_where (\<lambda>d. fd_ID d = i) g s) = Some (g d)"
    using assms(2) by (induction s) (auto simp: update_where_Cons select_row_Cons split: if_splits)
  then show ?thesis using assms(3) by (simp add: Flutterwave_GetByID_def card_lookup_def)
qed

text \<open>A notice of failure overwrites a completed deposit, which keeps the time of its completion.\<close>

lemma failure_after_completion:
  assumes "Flutterwave_GetByID E s i = Inr d" "fd_Status d = ''COMPLETED''" "\<not> ca_fault E"
    and "Flutterwave_MarkFailed E s i reason = (s', r)"
  shows "Flutterwave_GetByID E s' i = Inr (d\<lparr>fd_Status := ''FAILED'', fd_FailureReason := Some reason,
    fd_ProcessedAt := Some (ca_now E), fd_UpdatedAt := ca_now E\<rparr>)"
proof -
  have "fd_ID d = i"
    using assms(1) by (auto simp: Flutterwave_GetByID_def card_lookup_def split: if_splits option.splits dest: select_row_Some)
  then show ?thesis
    using read_after_update [OF assms(1) _ assms(3)] assms(3,4) by (auto simp: Flutterwave_MarkFailed_def)
qed

text \<open>A statement about a deposit that does not exist is reported as done.\<close>

lemma unknown_deposit_marked:
  assumes "\<not> ca_fault E" "\<forall>d \<in> set s. fd_ID d \<noteq> i"
  shows "Flutterwave_MarkFailed E s i reason = (s, Inr ())" "Flutterwave_UpdateStatus E s i st = (s, Inr ())"
    "Flutterwave_MarkCompleted E s i ref fees = (s, Inr ())"
proof -
  have "update_try (\<lambda>d. fd_ID d = i) h s = Some s" for h
    using assms(2) by (simp add: update_try_def those_Some)
  moreover have "rows_affected (\<lambda>d. fd_ID d = i) s = 0" using assms(2) by (simp add: rows_affected_0)
  ultimately show "Flutterwave_MarkFailed E s i reason = (s, Inr ())" "Flutterwave_UpdateStatus E s i st = (s, Inr ())"
    "Flutterwave_MarkCompleted E s i ref fees = (s, Inr ())"
    using assms by (simp_all add: Flutterwave_MarkFailed_def Flutterwave_UpdateStatus_def Flutterwave_MarkCompleted_def
        update_where_none)
qed

section \<open>A concrete deposit\<close>

definition card_sample :: card_env where
  "card_sample = \<lparr>ca_libs = std_libs, ca_users = (\<lambda>u. u = 7), ca_jsonb = Some, ca_now = 100, ca_fault = False\<rparr>"

definition naira_deposit :: FlutterwaveDeposit where
  "naira_deposit = \<lparr>fd_ID = 1, fd_UserID = 7, fd_DepositID = ''D1'', fd_TransactionID = ''T1'', fd_Reference = ''R'',
     fd_PaymentLink = '''', fd_Amount = 50, fd_Currency = ''NGN'', fd_Email = ''a@b.c'', fd_PhoneNumber = '''',
     fd_Status = ''PENDING'', fd_PaymentMethod = ''card'', fd_ProviderName = ''flutterwave'', fd_ProviderTxnID = ''P'',
     fd_FlutterwaveRef = '''', fd_Network = '''', fd_ProcessedAt = None, fd_CompletedAt = None, fd_FailureReason = None,
     fd_AppFee = 7 / 10, fd_MerchantFee = 1 / 4, fd_TotalFees = 0, fd_Meta = ''{}'', fd_CreatedAt = 0, fd_UpdatedAt = 0\<rparr>"

lemma card_create_read_witness:
  "\<exists>s'. Flutterwave_Create card_sample [] naira_deposit = (s', Inr ()) \<and>
     Flutterwave_GetByID card_sample s' 1 = Inr (naira_deposit\<lparr>fd_TotalFees := 19 / 20, fd_CreatedAt := 100, fd_UpdatedAt := 100\<rparr>)"
proof -
  have "libs_ok (ca_libs card_sample)" "\<not> ca_fault card_sample" "ca_users card_sample (fd_UserID naira_deposit)"
    "ca_jsonb card_sample (fd_Meta naira_deposit) = Some (fd_Meta naira_deposit)"
    "has_scale 2 (fd_Amount naira_deposit)" "0 < fd_Amount naira_deposit" "fd_Amount naira_deposit \<le> 10 ^ 12"
    "has_scale 2 (fd_AppFee naira_deposit)" "0 \<le> fd_AppFee naira_deposit" "fd_AppFee naira_deposit \<le> 10 ^ 12"
    "has_scale 2 (fd_MerchantFee naira_deposit)" "0 \<le> fd_MerchantFee naira_deposit" "fd_MerchantFee naira_deposit \<le> 10 ^ 12"
    "fd_Status naira_deposit \<in> set card_statuses"
    "fd_ID naira_deposit \<notin> fd_ID ` set []" "fd_DepositID naira_deposit \<notin> fd_DepositID ` set []"
    by (simp_all add: card_sample_def naira_deposit_def std_libs_ok has_scale_def)
  from card_create_read [OF this] show ?thesis by (auto simp: Let_def card_sample_def naira_deposit_def)
qed

lemma card_table_ok_witness:
  "cards_ok (\<lambda>u. u = 7) (fst (Flutterwave_MarkFailed card_sample [naira_deposit\<lparr>fd_TotalFees := 19 / 20\<rparr>] 1 ''declined''))"
proof (rule card_table_ok [OF std_libs_ok])
  show "cards_ok (\<lambda>u. u = 7) [naira_deposit\<lparr>fd_TotalFees := 19 / 20\<rparr>]"
    by (simp add: cards_ok_def naira_deposit_def has_scale_def)
  have "cards_step std_libs (\<lambda>u. u = 7) [naira_deposit\<lparr>fd_TotalFees := 19 / 20\<rparr>]
      (fst (Flutterwave_MarkFailed card_sample [naira_deposit\<lparr>fd_TotalFees := 19 / 20\<rparr>] 1 ''declined''))"
    by (rule cards_step.failed [OF prod.collapse [symmetric]]) (simp_all add: card_sample_def)
  then show "(cards_step std_libs (\<lambda>u. u = 7))\<^sup>*\<^sup>* [naira_deposit\<lparr>fd_TotalFees := 19 / 20\<rparr>]
      (fst (Flutterwave_MarkFailed card_sample [naira_deposit\<lparr>fd_TotalFees := 19 / 20\<rparr>] 1 ''declined''))" by simp
qed

end
