(* ===== verification/HttpClient.thy ===== *)
theory HttpClient
  imports Json
begin

text \<open>
  What the clients of payment providers share: requests and replies of \<open>net/http\<close>, base64, and
  amounts printed with a fixed number of decimals. The other side is a function \<open>'w http\<close> over a
  state \<open>'w\<close> of the world: it takes a request and gives a status with the body, or fails. A client
  returns the requests it sent beside its result.
\<close>

datatype http_auth = NoAuth | Basic string string | Bearer string | ApiKey string

record http_request =
  hr_method :: string
  hr_url :: string
  hr_auth :: http_auth
  hr_body :: "json option"

datatype http_reply = NoReply | Reply int string

type_synonym 'w http = "'w \<Rightarrow> http_request \<Rightarrow> 'w \<times> http_reply"

text \<open>A map of Go is written with its keys in order.\<close>

definition marshal_map :: "(string \<times> json) list \<Rightarrow> json" where
  "marshal_map ms = JObj (sort_key fst ms)"

text \<open>The value of a key of a decoded object: of repeated keys the last one stays.\<close>

definition json_field :: "(string \<times> json) list \<Rightarrow> string \<Rightarrow> json option" where
  "json_field ms k = map_of (rev ms) k"

text \<open>\<open>StringFixed(k)\<close>: rounded by the library, then printed with \<open>k\<close> digits.\<close>

fun pad_digits :: "nat \<Rightarrow> nat \<Rightarrow> string" where
  "pad_digits 0 n = ''''"
| "pad_digits (Suc k) n = pad_digits k (n div 10) @ [digit (n mod 10)]"

definition StringFixed :: "libs \<Rightarrow> decimal \<Rightarrow> nat \<Rightarrow> string" where
  "StringFixed L x k =
     (let n = \<lfloor>dec_round L x k * 10 ^ k\<rfloor>; m = nat \<bar>n\<bar> in
      (if n < 0 then ''-'' else '''') @ show_nat (m div 10 ^ k) @ (if k = 0 then '''' else CHR ''.'' # pad_digits k m))"

lemma dec_round_int:
  assumes "libs_ok L"
  shows "dec_round L x k * 10 ^ k = of_int \<lfloor>dec_round L x k * 10 ^ k\<rfloor>"
  using dec_round_scale [OF assms, of k x] unfolding has_scale_def by (rule sym)

text \<open>Without decimals the text is that of a whole number within one half of the amount.\<close>

lemma StringFixed_0:
  assumes "libs_ok L"
  obtains n where "StringFixed L x 0 = FormatInt n" "\<bar>of_int n - x\<bar> \<le> 1 / 2" "has_scale 0 x \<Longrightarrow> of_int n = x"
proof
  have r: "dec_round L x 0 = of_int \<lfloor>dec_round L x 0\<rfloor>" using dec_round_int [OF assms, of x 0] by simp
  show "StringFixed L x 0 = FormatInt \<lfloor>dec_round L x 0\<rfloor>" by (auto simp: StringFixed_def FormatInt_def)
  have n: "nearest_at 0 x (dec_round L x 0)" using dec_round_nearest [OF assms] .
  then show "\<bar>of_int \<lfloor>dec_round L x 0\<rfloor> - x\<bar> \<le> 1 / 2" using r by (simp add: nearest_at_def)
  assume "has_scale 0 x"
  then show "of_int \<lfloor>dec_round L x 0\<rfloor> = x" using nearest_at_exact [OF n] r by simp
qed

lemma FormatInt_inject [simp]: "FormatInt m = FormatInt n \<longleftrightarrow> m = n"
proof
  assume eq: "FormatInt m = FormatInt n"
  have d: "CHR ''-'' \<notin> set (show_nat k)" for k
  proof (induction k rule: show_nat.induct)
    case (1 n)
    have "CHR ''-'' \<noteq> digit d" if "d < 10" for d
    proof
      assume "CHR ''-'' = digit d"
      then have "of_char (CHR ''-'') = (48 + d :: nat)" using of_char_digit [OF that] by simp
      then show False by simp
    qed
    then show ?case using 1 by (simp add: show_nat.simps [of n])
  qed
  show "m = n"
  proof (cases "m < 0"; cases "n < 0")
    assume "m < 0" "n < 0" then show ?thesis using eq by (simp add: FormatInt_def)
  next
    assume "m < 0" "\<not> n < 0" then show ?thesis using eq d [of "nat n"] by (auto simp: FormatInt_def dest: sym)
  next
    assume "\<not> m < 0" "n < 0" then show ?thesis using eq d [of "nat m"] by (auto simp: FormatInt_def)
  next
    assume "\<not> m < 0" "\<not> n < 0" then show ?thesis using eq by (simp add: FormatInt_def)
  qed
qed simp

section \<open>Base64\<close>

definition base64_alphabet :: string where
  "base64_alphabet = ''ABCDEFGHIJKLMNOPQRSTUVWXYZabcdefghijklmnopqrstuvwxyz0123456789+/''"

abbreviation b64 :: "nat \<Rightarrow> char" where "b64 i \<equiv> base64_alphabet ! i"

fun base64_groups :: "nat list \<Rightarrow> string" where
  "base64_groups [] = ''''"
| "base64_groups [a] = [b64 (a div 4), b64 (16 * (a mod 4)), CHR ''='', CHR ''='']"
| "base64_groups [a, b] = [b64 (a div 4), b64 (16 * (a mod 4) + b div 16), b64 (4 * (b mod 16)), CHR ''='']"
| "base64_groups (a # b # c # r) =
     [b64 (a div 4), b64 (16 * (a mod 4) + b div 16), b64 (4 * (b mod 16) + c div 64), b64 (c mod 64)] @ base64_groups r"

definition EncodeToString :: "string \<Rightarrow> string" where
  "EncodeToString s = base64_groups (map of_char s)"

definition base64_value :: "char \<Rightarrow> nat" where
  "base64_value c = length (takeWhile (\<lambda>x. x \<noteq> c) base64_alphabet)"

fun base64_read :: "string \<Rightarrow> nat list" where
  "base64_read (w # x # y # z # r) =
     (let a = base64_value w; b = base64_value x; c = base64_value y; d = base64_value z in
      if y = CHR ''='' then [4 * a + b div 16]
      else if z = CHR ''='' then [4 * a + b div 16, 16 * (b mod 16) + c div 4]
      else [4 * a + b div 16, 16 * (b mod 16) + c div 4, 64 * (c mod 4) + d] @ base64_read r)"
| "base64_read _ = []"

lemma base64_value_alphabet:
  assumes "i < 64"
  shows "base64_value (b64 i) = i \<and> b64 i \<noteq> CHR ''=''"
proof -
  have d: "distinct base64_alphabet" and l: "length base64_alphabet = 64" and e: "CHR ''='' \<notin> set base64_alphabet"
    by (simp_all add: base64_alphabet_def)
  have "takeWhile (\<lambda>x. x \<noteq> b64 i) base64_alphabet = take i base64_alphabet"
    using d l assms by (intro takeWhile_eq_take_P_nth) (auto simp: nth_eq_iff_index_eq)
  then show ?thesis using l e assms by (metis base64_value_def length_take min.absorb2 nth_mem order_less_imp_le)
qed

lemma base64_read_groups:
  "list_all (\<lambda>b. b < 256) bs \<Longrightarrow> base64_read (base64_groups bs) = bs"
proof (induction bs rule: base64_groups.induct)
  case (2 a)
  then have "a div 4 < 64" "16 * (a mod 4) < 64" by auto
  then show ?case by (simp add: base64_value_alphabet Let_def)
next
  case (3 a b)
  then have l: "a div 4 < 64" "16 * (a mod 4) + b div 16 < 64" "4 * (b mod 16) < 64" by auto
  have "(16 * (a mod 4) + b div 16) div 16 = a mod 4" "(16 * (a mod 4) + b div 16) mod 16 = b div 16"
    using 3 by auto
  then show ?case using l by (simp add: base64_value_alphabet Let_def)
next
  case (4 a b c r)
  then have l: "a div 4 < 64" "16 * (a mod 4) + b div 16 < 64" "4 * (b mod 16) + c div 64 < 64" "c mod 64 < 64" by auto
  have "(16 * (a mod 4) + b div 16) div 16 = a mod 4" "(16 * (a mod 4) + b div 16) mod 16 = b div 16"
    "(4 * (b mod 16) + c div 64) div 4 = b mod 16" "(4 * (b mod 16) + c div 64) mod 4 = c div 64"
    using 4 by auto
  then show ?case using l 4 by (simp add: base64_value_alphabet Let_def)
qed simp

text \<open>What was encoded can be read off the code.\<close>

lemma base64_round_trip: "map char_of (base64_read (EncodeToString s)) = s"
proof -
  have "base64_read (EncodeToString s) = map of_char s"
    unfolding EncodeToString_def by (rule base64_read_groups) (simp add: list_all_iff)
  then show ?thesis by (simp add: o_def)
qed

lemma EncodeToString_inject [simp]: "EncodeToString s = EncodeToString t \<longleftrightarrow> s = t"
  by (metis base64_round_trip)

lemma EncodeToString_examples: "EncodeToString ''Ma'' = ''TWE=''" "EncodeToString ''Man'' = ''TWFu''" "EncodeToString ''light w'' = ''bGlnaHQgdw==''"
  by code_simp+

section \<open>A concrete answer\<close>

text \<open>An answer whose data has an amount, the number 50.\<close>

definition number_answer :: json where
  "number_answer = JObj [(''data'', JObj [(''amount'', JNum ''50'')])]"

lemma number_answer_parses: "parse_json (json_text number_answer) = Some number_answer"
  by code_simp

end
