(* ===== verification/MpesaClient.thy ===== *)
theory MpesaClient
  imports HttpClient Validation
begin

text \<open>
  \<open>internal/tenant/ke\<close>: the client of Safaricom's M-Pesa interface (\<open>mpesa.go\<close>, \<open>types.go\<close>).
  Every call first asks for an access token and then posts a JSON object. \<open>mpesa_codecs\<close> holds how
  the replies decode; \<open>stamp\<close> is the clock as the code formats it. The constant metrics are left out.
\<close>

record MPesaConfig =
  mc_ConsumerKey :: string
  mc_ConsumerSecret :: string
  mc_ShortCode :: string
  mc_PassKey :: string
  mc_InitiatorName :: string
  mc_SecurityCredential :: string
  mc_Environment :: string

record MPesaClient =
  mp_config :: MPesaConfig
  mp_baseURL :: string

record STKPushResponse =
  st_MerchantRequestID :: string
  st_CheckoutRequestID :: string
  st_ResponseCode :: string
  st_ResponseDescription :: string
  st_CustomerMessage :: string

record B2CResponse =
  b2_ConversationID :: string
  b2_OriginatorConversationID :: string
  b2_ResponseDescription :: string
  b2_ResponseCode :: string

record TransactionStatusResponse =
  ts_Success :: bool
  ts_Message :: string
  ts_TransactionID :: string
  ts_Status :: string
  ts_Amount :: decimal
  ts_Currency :: string
  ts_CreatedAt :: time
  ts_CompletedAt :: time

record AccountBalanceResponse =
  ab_Success :: bool
  ab_Message :: string
  ab_Balance :: decimal
  ab_Currency :: string
  ab_LastUpdated :: time

record AccessTokenResponse =
  at_AccessToken :: string
  at_ExpiresIn :: int

record mpesa_codecs =
  dec_token :: "string \<Rightarrow> AccessTokenResponse option"
  dec_stk :: "string \<Rightarrow> STKPushResponse option"
  dec_b2c :: "string \<Rightarrow> B2CResponse option"
  dec_status :: "string \<Rightarrow> TransactionStatusResponse option"
  dec_balance :: "string \<Rightarrow> AccountBalanceResponse option"

datatype mpesa_error =
    MpesaTransport
  | MpesaTokenStatus int
  | MpesaCallFailed string int string
  | MpesaUndecodable

definition NewMPesaClient :: "MPesaConfig \<Rightarrow> MPesaClient" where
  "NewMPesaClient config = \<lparr>mp_config = config,
     mp_baseURL = (if mc_Environment config = ''sandbox'' then ''https://sandbox.safaricom.co.ke''
       else ''https://api.safaricom.co.ke'')\<rparr>"

section \<open>The calls\<close>

definition token_request :: "MPesaClient \<Rightarrow> http_request" where
  "token_request c = \<lparr>hr_method = ''GET'', hr_url = mp_baseURL c @ ''/oauth/v1/generate?grant_type=client_credentials'',
     hr_auth = Basic (mc_ConsumerKey (mp_config c)) (mc_ConsumerSecret (mp_config c)), hr_body = None\<rparr>"

definition GetAccessToken ::
  "mpesa_codecs \<Rightarrow> 'w http \<Rightarrow> MPesaClient \<Rightarrow> 'w \<Rightarrow> 'w \<times> http_request list \<times> (mpesa_error + string)" where
  "GetAccessToken J http c w =
     (case http w (token_request c) of
        (w', NoReply) \<Rightarrow> (w', [token_request c], Inl MpesaTransport)
      | (w', Reply status body) \<Rightarrow>
          (w', [token_request c],
           if status \<noteq> 200 then Inl (MpesaTokenStatus status)
           else case dec_token J body of None \<Rightarrow> Inl MpesaUndecodable | Some t \<Rightarrow> Inr (at_AccessToken t)))"

text \<open>
  What the four calls have in common: a token, then the request with it, then the reply decoded.
  A status other than 200 is reported under the name of the call with the text of the reply.
\<close>

definition post_request :: "MPesaClient \<Rightarrow> string \<Rightarrow> string \<Rightarrow> (string \<times> json) list \<Rightarrow> http_request" where
  "post_request c path token ms =
     \<lparr>hr_method = ''POST'', hr_url = mp_baseURL c @ path, hr_auth = Bearer token, hr_body = Some (marshal_map ms)\<rparr>"

definition authorized_post ::
  "mpesa_codecs \<Rightarrow> 'w http \<Rightarrow> MPesaClient \<Rightarrow> 'w \<Rightarrow> string \<Rightarrow> (string \<Rightarrow> 'r option) \<Rightarrow> string \<Rightarrow>
     (string \<times> json) list \<Rightarrow> 'w \<times> http_request list \<times> (mpesa_error + 'r)" where
  "authorized_post J http c w name dec path ms =
     (case GetAccessToken J http c w of
        (w1, sent, Inl e) \<Rightarrow> (w1, sent, Inl e)
      | (w1, sent, Inr token) \<Rightarrow>
          let q = post_request c path token ms in
          (case http w1 q of
             (w2, NoReply) \<Rightarrow> (w2, sent @ [q], Inl MpesaTransport)
           | (w2, Reply status body) \<Rightarrow>
               (w2, sent @ [q],
                if status \<noteq> 200 then Inl (MpesaCallFailed name status body)
                else case dec body of None \<Rightarrow> Inl MpesaUndecodable | Some r \<Rightarrow> Inr r)))"

definition mpesa_phone :: "string \<Rightarrow> string" where
  "mpesa_phone phoneNumber =
     (if length phoneNumber = 10 \<and> hd phoneNumber = CHR ''0'' then ''254'' @ tl phoneNumber else phoneNumber)"

definition stk_password :: "MPesaConfig \<Rightarrow> string \<Rightarrow> string" where
  "stk_password config timestamp = EncodeToString (mc_ShortCode config @ mc_PassKey config @ timestamp)"

definition stk_fields :: "libs \<Rightarrow> MPesaConfig \<Rightarrow> string \<Rightarrow> string \<Rightarrow> decimal \<Rightarrow> string \<Rightarrow> (string \<times> json) list" where
  "stk_fields L config timestamp phoneNumber amount reference =
     [(''BusinessShortCode'', JStr (mc_ShortCode config)),
      (''Password'', JStr (stk_password config timestamp)),
      (''Timestamp'', JStr timestamp),
      (''TransactionType'', JStr ''CustomerPayBillOnline''),
      (''Amount'', JStr (StringFixed L amount 0)),
      (''PartyA'', JStr (mpesa_phone phoneNumber)),
      (''PartyB'', JStr (mc_ShortCode config)),
      (''PhoneNumber'', JStr (mpesa_phone phoneNumber)),
      (''CallBackURL'', JStr ''https://yourdomain.com/api/mpesa/callback''),
      (''AccountReference'', JStr reference),
      (''TransactionDesc'', JStr ''Deposit'')]"

definition InitiateDeposit ::
  "libs \<Rightarrow> mpesa_codecs \<Rightarrow> 'w http \<Rightarrow> MPesaClient \<Rightarrow> string \<Rightarrow> 'w \<Rightarrow> string \<Rightarrow> decimal \<Rightarrow> string \<Rightarrow>
     'w \<times> http_request list \<times> (mpesa_error + STKPushResponse)" where
  "InitiateDeposit L J http c stamp w phoneNumber amount reference =
     authorized_post J http c w ''STK push failed'' (dec_stk J) ''/mpesa/stkpush/v1/processrequest''
       (stk_fields L (mp_config c) stamp phoneNumber amount reference)"

definition b2c_fields :: "libs \<Rightarrow> MPesaConfig \<Rightarrow> string \<Rightarrow> decimal \<Rightarrow> string \<Rightarrow> (string \<times> json) list" where
  "b2c_fields L config phoneNumber amount reference =
     [(''InitiatorName'', JStr (mc_InitiatorName config)),
      (''SecurityCredential'', JStr (mc_SecurityCredential config)),
      (''CommandID'', JStr ''BusinessPayment''),
      (''Amount'', JStr (StringFixed L amount 0)),
      (''PartyA'', JStr (mc_ShortCode config)),
      (''PartyB'', JStr (mpesa_phone phoneNumber)),
      (''Remarks'', JStr reference),
      (''QueueTimeOutURL'', JStr ''https://yourdomain.com/api/mpesa/timeout''),
      (''ResultURL'', JStr ''https://yourdomain.com/api/mpesa/result''),
      (''Occasion'', JStr ''Withdrawal'')]"

definition ProcessWithdrawal ::
  "libs \<Rightarrow> mpesa_codecs \<Rightarrow> 'w http \<Rightarrow> MPesaClient \<Rightarrow> 'w \<Rightarrow> string \<Rightarrow> decimal \<Rightarrow> string \<Rightarrow>
     'w \<times> http_request list \<times> (mpesa_error + B2CResponse)" where
  "ProcessWithdrawal L J http c w phoneNumber amount reference =
     authorized_post J http c w ''B2C payment failed'' (dec_b2c J) ''/mpesa/b2c/v1/paymentrequest''
       (b2c_fields L (mp_config c) phoneNumber amount reference)"

definition CheckTransactionStatus ::
  "mpesa_codecs \<Rightarrow> 'w http \<Rightarrow> MPesaClient \<Rightarrow> 'w \<Rightarrow> string \<Rightarrow>
     'w \<times> http_request list \<times> (mpesa_error + TransactionStatusResponse)" where
  "CheckTransactionStatus J http c w transactionID =
     authorized_post J http c w ''status check failed'' (dec_status J) ''/mpesa/transactionstatus/v1/query''
       [(''Initiator'', JStr (mc_InitiatorName (mp_config c))),
        (''SecurityCredential'', JStr (mc_SecurityCredential (mp_config c))),
        (''CommandID'', JStr ''TransactionStatusQuery''),
        (''TransactionID'', JStr transactionID),
        (''PartyA'', JStr (mc_ShortCode (mp_config c))),
        (''IdentifierType'', JStr ''4''),
        (''ResultURL'', JStr ''https://yourdomain.com/api/mpesa/result''),
        (''QueueTimeOutURL'', JStr ''https://yourdomain.com/api/mpesa/timeout''),
        (''Remarks'', JStr ''Status check''),
        (''Occasion'', JStr '''')]"

definition GetAccountBalance ::
  "mpesa_codecs \<Rightarrow> 'w http \<Rightarrow> MPesaClient \<Rightarrow> 'w \<Rightarrow>
     'w \<times> http_request list \<times> (mpesa_error + AccountBalanceResponse)" where
  "GetAccountBalance J http c w =
     authorized_post J http c w ''balance check failed'' (dec_balance J) ''/mpesa/accountbalance/v1/query''
       [(''Initiator'', JStr (mc_InitiatorName (mp_config c))),
        (''SecurityCredential'', JStr (mc_SecurityCredential (mp_config c))),
        (''CommandID'', JStr ''AccountBalance''),
        (''PartyA'', JStr (mc_ShortCode (mp_config c))),
        (''IdentifierType'', JStr ''4''),
        (''Remarks'', JStr ''Balance check''),
        (''QueueTimeOutURL'', JStr ''https://yourdomain.com/api/mpesa/timeout''),
        (''ResultURL'', JStr ''https://yourdomain.com/api/mpesa/result'')]"

section \<open>What is sent\<close>

text \<open>Nothing is asked for without a fresh token, and a result means both replies were good.\<close>

lemma authorized_post_outcome:
  assumes "authorized_post J http c w name dec path ms = (w', sent, r)"
  shows "(sent = [token_request c] \<and> isl r) \<or>
    (\<exists>w1 reply t. http w (token_request c) = (w1, Reply 200 reply) \<and> dec_token J reply = Some t \<and>
       sent = [token_request c, post_request c path (at_AccessToken t) ms] \<and>
       (\<forall>v. r = Inr v \<longrightarrow> (\<exists>body. http w1 (post_request c path (at_AccessToken t) ms) = (w', Reply 200 body) \<and> dec body = Some v)))"
  using assms
  by (auto simp: authorized_post_def GetAccessToken_def Let_def
      split: prod.splits http_reply.splits if_splits option.splits sum.splits)

lemma authorized_post_result:
  assumes "authorized_post J http c w name dec path ms = (w', sent, Inr v)"
  obtains w1 reply t body where "http w (token_request c) = (w1, Reply 200 reply)" "dec_token J reply = Some t"
    "sent = [token_request c, post_request c path (at_AccessToken t) ms]"
    "http w1 (post_request c path (at_AccessToken t) ms) = (w', Reply 200 body)" "dec body = Some v"
  using authorized_post_outcome [OF assms] by auto

text \<open>The text of an amount names a whole number of shillings.\<close>

definition whole_near :: "decimal \<Rightarrow> string \<Rightarrow> bool" where
  "whole_near amount t \<longleftrightarrow>
     (\<exists>n. t = FormatInt n \<and> \<bar>of_int n - amount\<bar> \<le> 1 / 2 \<and> (of_int n = amount \<longleftrightarrow> has_scale 0 amount))"

lemma StringFixed_whole: "libs_ok L \<Longrightarrow> whole_near amount (StringFixed L amount 0)"
  unfolding whole_near_def using StringFixed_0 [of L amount] has_scale_of_int by metis

lemma map_of_sort_key: "distinct (map fst ms) \<Longrightarrow> map_of (sort_key fst ms) k = map_of ms k"
proof -
  assume d: "distinct (map fst ms)"
  then have "distinct (map fst (sort_key fst ms))" by (simp add: distinct_map)
  then show ?thesis using d by (metis map_of_inject_set set_sort)
qed

lemma stk_fields_keys: "distinct (map fst (stk_fields L config stamp phone amount reference))"
  by (simp add: stk_fields_def)

lemma b2c_fields_keys: "distinct (map fst (b2c_fields L config phone amount reference))"
  by (simp add: b2c_fields_def)

lemma json_field_marshal:
  assumes "distinct (map fst ms)"
  shows "(case marshal_map ms of JObj fs \<Rightarrow> json_field fs k | _ \<Rightarrow> None) = map_of ms k"
proof -
  have "distinct (map fst (sort_key fst ms))" using assms by (simp add: distinct_map)
  then have "map_of (rev (sort_key fst ms)) = map_of (sort_key fst ms)"
    by (metis distinct_rev map_of_inject_set rev_map set_rev)
  then show ?thesis using map_of_sort_key [OF assms] by (simp add: marshal_map_def json_field_def)
qed

definition posted :: "http_request \<Rightarrow> string \<Rightarrow> json option" where
  "posted q k = (case hr_body q of Some (JObj fs) \<Rightarrow> json_field fs k | _ \<Rightarrow> None)"

lemma posted_post_request:
  "distinct (map fst ms) \<Longrightarrow> posted (post_request c path token ms) k = map_of ms k"
  using json_field_marshal [of ms k] by (simp add: posted_def post_request_def marshal_map_def)

text \<open>What a successful deposit asked M-Pesa for. Two requests were sent: one for a token with the
  credentials of the platform, and one with exactly that token, which asks for a whole number of
  shillings within one half of the amount, equal to it only when the amount has no cents, from the
  normalised number of the player; nothing else was sent, and the result is the decoded reply to the
  second request.\<close>

theorem mpesa_asks_whole_shillings:
  assumes "libs_ok L" "InitiateDeposit L J http c stamp w phone amount reference = (w', sent, Inr v)"
  shows "\<exists>q w1 reply t body n. sent = [token_request c, q] \<and>
    http w (token_request c) = (w1, Reply 200 reply) \<and> dec_token J reply = Some t \<and>
    hr_method q = ''POST'' \<and> hr_url q = mp_baseURL c @ ''/mpesa/stkpush/v1/processrequest'' \<and> hr_auth q = Bearer (at_AccessToken t) \<and>
    posted q ''Amount'' = Some (JStr (FormatInt n)) \<and> \<bar>of_int n - amount\<bar> \<le> 1 / 2 \<and> (of_int n = amount \<longleftrightarrow> has_scale 0 amount) \<and>
    posted q ''PhoneNumber'' = Some (JStr (mpesa_phone phone)) \<and>
    http w1 q = (w', Reply 200 body) \<and> dec_stk J body = Some v"
proof -
  let ?ms = "stk_fields L (mp_config c) stamp phone amount reference"
  let ?q = "\<lambda>t. post_request c ''/mpesa/stkpush/v1/processrequest'' (at_AccessToken t) ?ms"
  obtain n where n: "StringFixed L amount 0 = FormatInt n" "\<bar>of_int n - amount\<bar> \<le> 1 / 2" "of_int n = amount \<longleftrightarrow> has_scale 0 amount"
    using StringFixed_whole [OF assms(1), of amount] by (auto simp: whole_near_def)
  obtain w1 reply t body where r: "http w (token_request c) = (w1, Reply 200 reply)" "dec_token J reply = Some t"
      "sent = [token_request c, ?q t]" "http w1 (?q t) = (w', Reply 200 body)" "dec_stk J body = Some v"
    using assms(2) unfolding InitiateDeposit_def by (rule authorized_post_result)
  have "posted (?q t) k = map_of ?ms k" for k by (rule posted_post_request [OF stk_fields_keys])
  then have p: "posted (?q t) ''Amount'' = Some (JStr (FormatInt n))" "posted (?q t) ''PhoneNumber'' = Some (JStr (mpesa_phone phone))"
    using n(1) by (simp_all add: stk_fields_def)
  show ?thesis
    using r n(2,3) p by (intro exI [of _ "?q t"] exI [of _ w1] exI [of _ reply] exI [of _ t] exI [of _ body] exI [of _ n])
      (simp add: post_request_def)
qed

text \<open>The same of a withdrawal.\<close>

lemma mpesa_pays_whole_shillings:
  assumes "libs_ok L" "ProcessWithdrawal L J http c w phone amount reference = (w', sent, Inr v)"
  shows "\<exists>q w1 reply t body n. sent = [token_request c, q] \<and>
    http w (token_request c) = (w1, Reply 200 reply) \<and> dec_token J reply = Some t \<and>
    hr_method q = ''POST'' \<and> hr_url q = mp_baseURL c @ ''/mpesa/b2c/v1/paymentrequest'' \<and> hr_auth q = Bearer (at_AccessToken t) \<and>
    posted q ''Amount'' = Some (JStr (FormatInt n)) \<and> \<bar>of_int n - amount\<bar> \<le> 1 / 2 \<and> (of_int n = amount \<longleftrightarrow> has_scale 0 amount) \<and>
    posted q ''PartyB'' = Some (JStr (mpesa_phone phone)) \<and>
    http w1 q = (w', Reply 200 body) \<and> dec_b2c J body = Some v"
proof -
  let ?ms = "b2c_fields L (mp_config c) phone amount reference"
  let ?q = "\<lambda>t. post_request c ''/mpesa/b2c/v1/paymentrequest'' (at_AccessToken t) ?ms"
  obtain n where n: "StringFixed L amount 0 = FormatInt n" "\<bar>of_int n - amount\<bar> \<le> 1 / 2" "of_int n = amount \<longleftrightarrow> has_scale 0 amount"
    using StringFixed_whole [OF assms(1), of amount] by (auto simp: whole_near_def)
  obtain w1 reply t body where r: "http w (token_request c) = (w1, Reply 200 reply)" "dec_token J reply = Some t"
      "sent = [token_request c, ?q t]" "http w1 (?q t) = (w', Reply 200 body)" "dec_b2c J body = Some v"
    using assms(2) unfolding ProcessWithdrawal_def by (rule authorized_post_result)
  have "posted (?q t) k = map_of ?ms k" for k by (rule posted_post_request [OF b2c_fields_keys])
  then have p: "posted (?q t) ''Amount'' = Some (JStr (FormatInt n))" "posted (?q t) ''PartyB'' = Some (JStr (mpesa_phone phone))"
    using n(1) by (simp_all add: b2c_fields_def)
  show ?thesis
    using r n(2,3) p by (intro exI [of _ "?q t"] exI [of _ w1] exI [of _ reply] exI [of _ t] exI [of _ body] exI [of _ n])
      (simp add: post_request_def)
qed

text \<open>Without a good reply to the request for a token no other request is sent.\<close>

lemma no_call_without_token:
  assumes "snd (snd (GetAccessToken J http c w)) = Inl e"
  shows "fst (snd (InitiateDeposit L J http c stamp w phone amount reference)) = [token_request c]"
    and "fst (snd (ProcessWithdrawal L J http c w phone amount reference)) = [token_request c]"
    and "fst (snd (CheckTransactionStatus J http c w transactionID)) = [token_request c]"
    and "fst (snd (GetAccountBalance J http c w)) = [token_request c]"
proof -
  have "fst (snd (authorized_post J http c w name dec path ms)) = [token_request c]" for name and dec :: "string \<Rightarrow> 'r option" and path ms
    using assms by (auto simp: authorized_post_def GetAccessToken_def split: prod.splits http_reply.splits sum.splits if_splits option.splits)
  then show "fst (snd (InitiateDeposit L J http c stamp w phone amount reference)) = [token_request c]"
    "fst (snd (ProcessWithdrawal L J http c w phone amount reference)) = [token_request c]"
    "fst (snd (CheckTransactionStatus J http c w transactionID)) = [token_request c]"
    "fst (snd (GetAccountBalance J http c w)) = [token_request c]"
    by (simp_all add: InitiateDeposit_def ProcessWithdrawal_def CheckTransactionStatus_def GetAccountBalance_def)
qed

text \<open>The password is a code of the pass key that anybody reads back.\<close>

lemma stk_password_readable:
  "map char_of (base64_read (stk_password config timestamp)) = mc_ShortCode config @ mc_PassKey config @ timestamp"
  by (simp add: stk_password_def base64_round_trip)

text \<open>Numbers that pass validation reach M-Pesa in its format, unless they start with a plus sign. A
  Kenyan number written with the leading zero or with the country code is sent as the country code
  and nine digits; the third spelling the validator accepts is passed on with its plus sign.\<close>

theorem validated_numbers_normalised:
  assumes "snd (KenyaPhone field s)"
  shows "\<exists>n. subscriber n \<and> (if HasPrefix s ''+'' then mpesa_phone s = ''+254'' @ n else mpesa_phone s = ''254'' @ n)"
proof -
  have "kenyaPhoneRegex s" using assms by (simp add: KenyaPhone_def split: if_splits)
  then obtain p n where s: "s = p @ n" "p \<in> {''+254'', ''254'', ''0''}" "subscriber n"
    unfolding kenyaPhoneRegex_iff by blast
  then have "length n = 9" by (simp add: subscriber_def)
  then show ?thesis using s by (intro exI [of _ n]) (auto simp: mpesa_phone_def HasPrefix_def)
qed

lemma validated_numbers_normalised_witness:
  "\<exists>n. subscriber n \<and> (if HasPrefix ''0712345678'' ''+'' then mpesa_phone ''0712345678'' = ''+254'' @ n
     else mpesa_phone ''0712345678'' = ''254'' @ n)"
  by (rule validated_numbers_normalised [of "''phone''"]) code_simp

lemma mpesa_phone_examples:
  "mpesa_phone ''0712345678'' = ''254712345678''" "mpesa_phone ''254712345678'' = ''254712345678''"
  "mpesa_phone ''+254712345678'' = ''+254712345678''"
  by code_simp+

section \<open>A concrete exchange\<close>

text \<open>A provider that grants the token \<open>tok\<close> and accepts the push.\<close>

definition demo_codecs :: mpesa_codecs where
  "demo_codecs = \<lparr>dec_token = \<lambda>t. Some \<lparr>at_AccessToken = t, at_ExpiresIn = 3599\<rparr>,
     dec_stk = \<lambda>t. Some \<lparr>st_MerchantRequestID = ''m'', st_CheckoutRequestID = t, st_ResponseCode = ''0'',
       st_ResponseDescription = '''', st_CustomerMessage = ''''\<rparr>,
     dec_b2c = \<lambda>t. None, dec_status = \<lambda>t. None, dec_balance = \<lambda>t. None\<rparr>"

definition demo_http :: "unit http" where
  "demo_http w q = (w, Reply 200 (if hr_method q = ''GET'' then ''tok'' else ''ws_CO_1''))"

definition demo_client :: MPesaClient where
  "demo_client = NewMPesaClient \<lparr>mc_ConsumerKey = ''k'', mc_ConsumerSecret = ''s'', mc_ShortCode = ''174379'', mc_PassKey = ''p'',
     mc_InitiatorName = ''i'', mc_SecurityCredential = ''c'', mc_Environment = ''sandbox''\<rparr>"

text \<open>A deposit of 10.40 asks the player's phone for 10 shillings; the callback credits the stored 10.40.\<close>

lemma cents_not_charged: "StringFixed std_libs (52 / 5) 0 = ''10''" "StringFixed std_libs (2 / 5) 0 = ''0''"
  by code_simp+

lemma mpesa_asks_whole_shillings_witness:
  "\<exists>q n. fst (snd (InitiateDeposit std_libs demo_codecs demo_http demo_client ''t'' () ''0712345678'' (52 / 5) ''r'')) = [token_request demo_client, q] \<and>
     hr_auth q = Bearer ''tok'' \<and> posted q ''Amount'' = Some (JStr (FormatInt n)) \<and> of_int n \<noteq> (52 / 5 :: decimal) \<and>
     posted q ''PhoneNumber'' = Some (JStr ''254712345678'')"
proof -
  obtain sent v where r: "InitiateDeposit std_libs demo_codecs demo_http demo_client ''t'' () ''0712345678'' (52 / 5) ''r'' = ((), sent, Inr v)"
    by (simp add: InitiateDeposit_def authorized_post_def GetAccessToken_def demo_http_def demo_codecs_def token_request_def post_request_def Let_def)
  have "\<lfloor>52 / 5 :: decimal\<rfloor> = 10" by (rule floor_unique) simp_all
  then have "\<not> has_scale 0 (52 / 5 :: decimal)" by (simp add: has_scale_def)
  then show ?thesis using mpesa_asks_whole_shillings [OF std_libs_ok r] r
    by (auto simp: demo_http_def demo_codecs_def token_request_def mpesa_phone_def)
qed

end
