(* ===== verification/Flutterwave.thy ===== *)
theory Flutterwave
  imports HttpClient Sha256
begin

text \<open>
  \<open>internal/tenant/ng\<close> and \<open>internal/tenant/gh\<close>: the Flutterwave adapters for Nigeria, which decodes
  replies into untyped maps, and for Ghana, which decodes them into structs. A failed type assertion
  and \<open>RequireFromString\<close> on a text that is no number panic. \<open>fw_readers\<close> holds the reader of
  decimals, \<open>%.0f\<close> on a decoded value, and the decoders of the Ghanaian structs. The constant metrics
  are left out.
\<close>

record FlutterwaveConfig =
  fc_SecretKey :: string
  fc_PublicKey :: string
  fc_Environment :: string
  fc_BaseURL :: string
  fc_WebhookSecret :: string
  fc_Currency :: string

definition DefaultFlutterwaveConfig :: FlutterwaveConfig where
  "DefaultFlutterwaveConfig = \<lparr>fc_SecretKey = '''', fc_PublicKey = '''', fc_Environment = ''test'',
     fc_BaseURL = ''https://api.flutterwave.com/v3'', fc_WebhookSecret = '''', fc_Currency = ''NGN''\<rparr>"

definition gh_DefaultFlutterwaveConfig :: FlutterwaveConfig where
  "gh_DefaultFlutterwaveConfig = \<lparr>fc_SecretKey = '''', fc_PublicKey = '''', fc_Environment = ''test'',
     fc_BaseURL = ''https://api.flutterwave.com/v3'', fc_WebhookSecret = '''', fc_Currency = ''GHS''\<rparr>"

text \<open>An adapter is its configuration.\<close>

definition NewFlutterwaveAdapter :: "FlutterwaveConfig option \<Rightarrow> FlutterwaveConfig" where
  "NewFlutterwaveAdapter config = (case config of None \<Rightarrow> DefaultFlutterwaveConfig | Some c \<Rightarrow> c)"

definition gh_NewFlutterwaveAdapter :: "FlutterwaveConfig option \<Rightarrow> FlutterwaveConfig" where
  "gh_NewFlutterwaveAdapter config = (case config of None \<Rightarrow> gh_DefaultFlutterwaveConfig | Some c \<Rightarrow> c)"

record PaymentRequest =
  pr_TxRef :: string
  pr_Amount :: decimal
  pr_Currency :: string
  pr_CustomerEmail :: string
  pr_CustomerPhone :: string
  pr_CustomerName :: string
  pr_RedirectURL :: string

record CustomerInfo =
  ci_ID :: int
  ci_Name :: string
  ci_Email :: string
  ci_Phone :: string

record PaymentData =
  pd_ID :: string
  pd_TxRef :: string
  pd_FlwRef :: string
  pd_Amount :: decimal
  pd_Currency :: string
  pd_Status :: string
  pd_PaymentType :: string
  pd_Customer :: CustomerInfo
  pd_CreatedAt :: time
  pd_ChargedAmount :: decimal
  pd_AppFee :: decimal
  pd_MerchantFee :: decimal

text \<open>The data of a verification has the same fields.\<close>

type_synonym TransactionVerificationData = PaymentData

record RefundRequest =
  rf_ID :: string
  rf_Amount :: decimal
  rf_Reason :: string

record RefundData =
  rd_ID :: string
  rd_TxRef :: string
  rd_FlwRef :: string
  rd_Amount :: decimal
  rd_Currency :: string
  rd_Status :: string
  rd_RefundRef :: string
  rd_CreatedAt :: time

definition no_customer :: CustomerInfo where
  "no_customer = \<lparr>ci_ID = 0, ci_Name = '''', ci_Email = '''', ci_Phone = ''''\<rparr>"

definition no_payment_data :: PaymentData where
  "no_payment_data = \<lparr>pd_ID = '''', pd_TxRef = '''', pd_FlwRef = '''', pd_Amount = 0, pd_Currency = '''', pd_Status = '''',
     pd_PaymentType = '''', pd_Customer = no_customer, pd_CreatedAt = zero_time, pd_ChargedAmount = 0, pd_AppFee = 0, pd_MerchantFee = 0\<rparr>"

definition no_refund_data :: RefundData where
  "no_refund_data = \<lparr>rd_ID = '''', rd_TxRef = '''', rd_FlwRef = '''', rd_Amount = 0, rd_Currency = '''', rd_Status = '''',
     rd_RefundRef = '''', rd_CreatedAt = zero_time\<rparr>"

text \<open>A reply with its status and message, and data of some kind.\<close>

record 'd fw_response =
  fr_Status :: string
  fr_Message :: string
  fr_Data :: 'd

record gh_payment_data =
  gd_ID :: int
  gd_TxRef :: string
  gd_FlwRef :: string
  gd_Amount :: string
  gd_Currency :: string
  gd_Customer :: CustomerInfo
  gd_Status :: string
  gd_PaymentType :: string
  gd_ChargedAmount :: string
  gd_AppFee :: string
  gd_MerchantFee :: string

record fw_readers =
  rd_decimal :: "string \<Rightarrow> decimal option"
  rd_float0 :: "json option \<Rightarrow> string"
  rd_payment :: "string \<Rightarrow> gh_payment_data fw_response option"
  rd_verify :: "string \<Rightarrow> gh_payment_data fw_response option"

datatype fw_cause = RequestFailed | ApiError int string

datatype fw_error = FwCall string fw_cause | FwParse string

datatype 'a fw_result = Returned 'a | FwError fw_error | Panicked

section \<open>Requests\<close>

definition fw_request :: "FlutterwaveConfig \<Rightarrow> string \<Rightarrow> string \<Rightarrow> json option \<Rightarrow> http_request" where
  "fw_request cfg method endpoint body =
     \<lparr>hr_method = method, hr_url = fc_BaseURL cfg @ endpoint, hr_auth = Bearer (fc_SecretKey cfg), hr_body = body\<rparr>"

definition makeRequest ::
  "'w http \<Rightarrow> FlutterwaveConfig \<Rightarrow> 'w \<Rightarrow> string \<Rightarrow> string \<Rightarrow> json option \<Rightarrow> 'w \<times> (fw_cause + string)" where
  "makeRequest http cfg w method endpoint body =
     (case http w (fw_request cfg method endpoint body) of
        (w', NoReply) \<Rightarrow> (w', Inl RequestFailed)
      | (w', Reply status text) \<Rightarrow> (w', if status \<ge> 400 then Inl (ApiError status text) else Inr text))"

text \<open>\<open>Unmarshal\<close> into a map of anything: an object, or \<open>null\<close> for the nil map.\<close>

definition unmarshal_map :: "string \<Rightarrow> (string \<times> json) list option" where
  "unmarshal_map text = (case parse_json text of Some (JObj ms) \<Rightarrow> Some ms | Some JNull \<Rightarrow> Some [] | _ \<Rightarrow> None)"

text \<open>\<open>m[k].(string)\<close>; \<open>None\<close> is the panic.\<close>

definition assert_string :: "(string \<times> json) list \<Rightarrow> string \<Rightarrow> string option" where
  "assert_string ms k = (case json_field ms k of Some (JStr x) \<Rightarrow> Some x | _ \<Rightarrow> None)"

definition require_decimal :: "fw_readers \<Rightarrow> (string \<times> json) list \<Rightarrow> string \<Rightarrow> decimal option" where
  "require_decimal R ms k = Option.bind (assert_string ms k) (rd_decimal R)"

definition call_with ::
  "string \<Rightarrow> string \<Rightarrow> (string \<Rightarrow> 'v option) \<Rightarrow> ('v \<Rightarrow> 'r option) \<Rightarrow> 'w \<times> (fw_cause + string) \<Rightarrow> 'w \<times> 'r fw_result" where
  "call_with failed unparsable dec convert reply =
     (case reply of
        (w', Inl e) \<Rightarrow> (w', FwError (FwCall failed e))
      | (w', Inr text) \<Rightarrow>
          (w', case dec text of
             None \<Rightarrow> FwError (FwParse unparsable)
           | Some v \<Rightarrow> (case convert v of None \<Rightarrow> Panicked | Some r \<Rightarrow> Returned r)))"

section \<open>The adapter for Nigeria\<close>

text \<open>Status and message are asserted; the data is converted only when it is an object.\<close>

definition convert_answer ::
  "((string \<times> json) list \<Rightarrow> 'd option) \<Rightarrow> 'd \<Rightarrow> (string \<times> json) list \<Rightarrow> 'd fw_response option" where
  "convert_answer data zero ms =
     (case (assert_string ms ''status'', assert_string ms ''message'') of
        (Some st, Some msg) \<Rightarrow>
          (case json_field ms ''data'' of
             Some (JObj ds) \<Rightarrow> map_option (\<lambda>d. \<lparr>fr_Status = st, fr_Message = msg, fr_Data = d\<rparr>) (data ds)
           | _ \<Rightarrow> Some \<lparr>fr_Status = st, fr_Message = msg, fr_Data = zero\<rparr>)
      | _ \<Rightarrow> None)"

definition convert_payment :: "fw_readers \<Rightarrow> time \<Rightarrow> string \<Rightarrow> (string \<times> json) list \<Rightarrow> PaymentData option" where
  "convert_payment R now charged ds =
     (case (assert_string ds ''tx_ref'', assert_string ds ''flw_ref'', require_decimal R ds ''amount'',
            assert_string ds ''currency'', assert_string ds ''status'', require_decimal R ds charged) of
        (Some tx, Some flw, Some amount, Some cur, Some st, Some c) \<Rightarrow>
          Some (no_payment_data\<lparr>pd_ID := rd_float0 R (json_field ds ''id''), pd_TxRef := tx, pd_FlwRef := flw,
            pd_Amount := amount, pd_Currency := cur, pd_Status := st, pd_PaymentType := ''card'', pd_CreatedAt := now,
            pd_ChargedAmount := c\<rparr>)
      | _ \<Rightarrow> None)"

definition convert_refund :: "fw_readers \<Rightarrow> time \<Rightarrow> (string \<times> json) list \<Rightarrow> RefundData option" where
  "convert_refund R now ds =
     (case (assert_string ds ''tx_ref'', assert_string ds ''flw_ref'', require_decimal R ds ''amount'',
            assert_string ds ''currency'', assert_string ds ''status'', assert_string ds ''refund_ref'') of
        (Some tx, Some flw, Some amount, Some cur, Some st, Some ref) \<Rightarrow>
          Some \<lparr>rd_ID = rd_float0 R (json_field ds ''id''), rd_TxRef = tx, rd_FlwRef = flw, rd_Amount = amount,
            rd_Currency = cur, rd_Status = st, rd_RefundRef = ref, rd_CreatedAt = now\<rparr>
      | _ \<Rightarrow> None)"

definition payment_body :: "libs \<Rightarrow> PaymentRequest \<Rightarrow> json" where
  "payment_body L req = marshal_map
     [(''tx_ref'', JStr (pr_TxRef req)), (''amount'', JStr (StringFixed L (pr_Amount req) 2)),
      (''currency'', JStr (pr_Currency req)), (''customer_email'', JStr (pr_CustomerEmail req)),
      (''customer_phone'', JStr (pr_CustomerPhone req)), (''customer_name'', JStr (pr_CustomerName req)),
      (''payment_options'', JStr ''card,banktransfer,mobilemoney''), (''redirect_url'', JStr (pr_RedirectURL req)),
      (''customization'', marshal_map [(''title'', JStr ''Betting Platform Payment''),
         (''description'', JStr ''Payment for betting services'')])]"

definition CreatePayment ::
  "libs \<Rightarrow> fw_readers \<Rightarrow> 'w http \<Rightarrow> FlutterwaveConfig \<Rightarrow> time \<Rightarrow> 'w \<Rightarrow> PaymentRequest \<Rightarrow> 'w \<times> PaymentData fw_response fw_result" where
  "CreatePayment L R http cfg now w req =
     call_with ''failed to create payment'' ''failed to parse response'' unmarshal_map
       (convert_answer (convert_payment R now ''amount'') no_payment_data)
       (makeRequest http cfg w ''POST'' ''/payments'' (Some (payment_body L req)))"

definition VerifyPayment ::
  "fw_readers \<Rightarrow> 'w http \<Rightarrow> FlutterwaveConfig \<Rightarrow> time \<Rightarrow> 'w \<Rightarrow> string \<Rightarrow> 'w \<times> TransactionVerificationData fw_response fw_result" where
  "VerifyPayment R http cfg now w txRef =
     call_with ''failed to verify payment'' ''failed to parse verification response'' unmarshal_map
       (convert_answer (convert_payment R now ''charged_amount'') no_payment_data)
       (makeRequest http cfg w ''GET'' (''/transactions/'' @ txRef @ ''/verify'') None)"

definition refund_body :: "libs \<Rightarrow> RefundRequest \<Rightarrow> json" where
  "refund_body L req = marshal_map
     [(''id'', JStr (rf_ID req)), (''amount'', JStr (StringFixed L (rf_Amount req) 2)), (''reason'', JStr (rf_Reason req))]"

definition ProcessRefund ::
  "libs \<Rightarrow> fw_readers \<Rightarrow> 'w http \<Rightarrow> FlutterwaveConfig \<Rightarrow> time \<Rightarrow> 'w \<Rightarrow> RefundRequest \<Rightarrow> 'w \<times> RefundData fw_response fw_result" where
  "ProcessRefund L R http cfg now w req =
     call_with ''failed to process refund'' ''failed to parse refund response'' unmarshal_map
       (convert_answer (convert_refund R now) no_refund_data)
       (makeRequest http cfg w ''POST'' ''/refunds'' (Some (refund_body L req)))"

definition verifyWebhookSignature :: "FlutterwaveConfig \<Rightarrow> bytes \<Rightarrow> string \<Rightarrow> bool" where
  "verifyWebhookSignature cfg payload signature =
     (if fc_WebhookSecret cfg = '''' then True
      else signature = hex_encode (hmac_sha256 (string_bytes (fc_WebhookSecret cfg)) payload))"

section \<open>The adapter for Ghana\<close>

text \<open>The fields of a struct are written in their order, empty optional ones left out.\<close>

definition gh_payment_body :: "libs \<Rightarrow> PaymentRequest \<Rightarrow> json" where
  "gh_payment_body L req = JObj
     ([(''tx_ref'', JStr (pr_TxRef req)), (''amount'', JStr (StringFixed L (pr_Amount req) 2)),
       (''currency'', JStr (pr_Currency req)), (''customer_email'', JStr (pr_CustomerEmail req))] @
      (if pr_CustomerPhone req = '''' then [] else [(''customer_phone'', JStr (pr_CustomerPhone req))]) @
      [(''payment_options'', JStr ''mobilemoneyghana''), (''redirect_url'', JStr (pr_RedirectURL req)),
       (''customization'', JObj [(''title'', JStr ''Betting Platform Payment''),
          (''description'', JStr ''Payment for betting services'')])])"

definition gh_customer :: "gh_payment_data \<Rightarrow> CustomerInfo" where
  "gh_customer d = (gd_Customer d)\<lparr>ci_ID := gd_ID d\<rparr>"

definition gh_convert_payment ::
  "fw_readers \<Rightarrow> time \<Rightarrow> gh_payment_data fw_response \<Rightarrow> PaymentData fw_response option" where
  "gh_convert_payment R now r =
     (let d = fr_Data r in
      map_option (\<lambda>amount. \<lparr>fr_Status = fr_Status r, fr_Message = fr_Message r,
          fr_Data = no_payment_data\<lparr>pd_ID := FormatInt (gd_ID d), pd_TxRef := gd_TxRef d, pd_FlwRef := gd_FlwRef d,
            pd_Amount := amount, pd_Currency := gd_Currency d, pd_Status := fr_Status r, pd_PaymentType := ''mobilemoneygh'',
            pd_Customer := gh_customer d, pd_CreatedAt := now, pd_ChargedAmount := amount\<rparr>\<rparr>)
        (rd_decimal R (gd_Amount d)))"

definition gh_CreatePayment ::
  "libs \<Rightarrow> fw_readers \<Rightarrow> 'w http \<Rightarrow> FlutterwaveConfig \<Rightarrow> time \<Rightarrow> 'w \<Rightarrow> PaymentRequest \<Rightarrow> 'w \<times> PaymentData fw_response fw_result" where
  "gh_CreatePayment L R http cfg now w req =
     call_with ''failed to create payment'' ''failed to parse response'' (rd_payment R) (gh_convert_payment R now)
       (makeRequest http cfg w ''POST'' ''/payments'' (Some (gh_payment_body L req)))"

definition gh_convert_verification ::
  "fw_readers \<Rightarrow> time \<Rightarrow> gh_payment_data fw_response \<Rightarrow> TransactionVerificationData fw_response option" where
  "gh_convert_verification R now r =
     (let d = fr_Data r in
      case (rd_decimal R (gd_Amount d), rd_decimal R (gd_ChargedAmount d), rd_decimal R (gd_AppFee d), rd_decimal R (gd_MerchantFee d)) of
        (Some amount, Some charged, Some app, Some merchant) \<Rightarrow>
          Some \<lparr>fr_Status = fr_Status r, fr_Message = fr_Message r,
            fr_Data = \<lparr>pd_ID = FormatInt (gd_ID d), pd_TxRef = gd_TxRef d, pd_FlwRef = gd_FlwRef d, pd_Amount = amount,
              pd_Currency = gd_Currency d, pd_Status = gd_Status d, pd_PaymentType = gd_PaymentType d,
              pd_Customer = gh_customer d, pd_CreatedAt = now, pd_ChargedAmount = charged, pd_AppFee = app,
              pd_MerchantFee = merchant\<rparr>\<rparr>
      | _ \<Rightarrow> None)"

definition gh_VerifyPayment ::
  "fw_readers \<Rightarrow> 'w http \<Rightarrow> FlutterwaveConfig \<Rightarrow> time \<Rightarrow> 'w \<Rightarrow> string \<Rightarrow> 'w \<times> TransactionVerificationData fw_response fw_result" where
  "gh_VerifyPayment R http cfg now w txRef =
     call_with ''failed to verify payment'' ''failed to parse verification response'' (rd_verify R) (gh_convert_verification R now)
       (makeRequest http cfg w ''GET'' (''/transactions/'' @ txRef @ ''/verify'') None)"

text \<open>Mobile money and payouts return the decoded reply; \<open>dec\<close> decodes it, \<open>body\<close> is the request.\<close>

definition ProcessMobileMoneyPayment ::
  "(string \<Rightarrow> 'r option) \<Rightarrow> 'w http \<Rightarrow> FlutterwaveConfig \<Rightarrow> 'w \<Rightarrow> json \<Rightarrow> 'w \<times> 'r fw_result" where
  "ProcessMobileMoneyPayment dec http cfg w body =
     call_with ''failed to process mobile money payment'' ''failed to parse mobile money response'' dec Some
       (makeRequest http cfg w ''POST'' ''/charges'' (Some body))"

definition ProcessPayout ::
  "(string \<Rightarrow> 'r option) \<Rightarrow> 'w http \<Rightarrow> FlutterwaveConfig \<Rightarrow> 'w \<Rightarrow> json \<Rightarrow> 'w \<times> 'r fw_result" where
  "ProcessPayout dec http cfg w body =
     call_with ''failed to process payout'' ''failed to parse payout response'' dec Some
       (makeRequest http cfg w ''POST'' ''/transfers'' (Some body))"

section \<open>What a reply makes of a call\<close>

text \<open>A reply that did not fail and holds an object.\<close>

definition answered :: "'w http \<Rightarrow> 'w \<Rightarrow> http_request \<Rightarrow> (string \<times> json) list \<Rightarrow> bool" where
  "answered http w q ms \<longleftrightarrow>
     (\<exists>w' status text. http w q = (w', Reply status text) \<and> status < 400 \<and> parse_json text = Some (JObj ms))"

lemma call_with_answered:
  assumes "answered http w (fw_request cfg method endpoint body) ms"
  shows "snd (call_with f u unmarshal_map convert (makeRequest http cfg w method endpoint body)) =
    (case convert ms of None \<Rightarrow> Panicked | Some r \<Rightarrow> Returned r)"
  using assms by (auto simp: answered_def call_with_def makeRequest_def unmarshal_map_def)

lemma convert_answer_None:
  assumes "json_field ms ''data'' = Some (JObj ds)" "data ds = None"
  shows "convert_answer data zero ms = None"
  using assms by (simp add: convert_answer_def split: option.splits)

text \<open>A value that is not a JSON string, or none at all.\<close>

definition not_a_string :: "json option \<Rightarrow> bool" where
  "not_a_string v \<longleftrightarrow> (\<forall>x. v \<noteq> Some (JStr x))"

lemma assert_string_None: "not_a_string (json_field ms k) \<Longrightarrow> assert_string ms k = None"
  by (auto simp: not_a_string_def assert_string_def split: option.splits json.splits)

text \<open>An answer of another shape than expected stops the process, it is never reported. When the
  provider accepts a call of the Nigerian adapter and its data has an amount that is not a JSON
  string, a number for instance, then creating a payment, verifying one and refunding one all end
  in a panic, whatever the rest of the answer says.\<close>

theorem numeric_amounts_panic:
  assumes "json_field ms ''data'' = Some (JObj ds)" "not_a_string (json_field ds ''amount'')"
  shows "(answered http w (fw_request cfg ''POST'' ''/payments'' (Some (payment_body L req))) ms \<longrightarrow>
      snd (CreatePayment L R http cfg now w req) = Panicked) \<and>
    (answered http w (fw_request cfg ''GET'' (''/transactions/'' @ ref @ ''/verify'') None) ms \<longrightarrow>
      snd (VerifyPayment R http cfg now w ref) = Panicked) \<and>
    (answered http w (fw_request cfg ''POST'' ''/refunds'' (Some (refund_body L rq))) ms \<longrightarrow>
      snd (ProcessRefund L R http cfg now w rq) = Panicked)"
proof -
  have a: "require_decimal R ds ''amount'' = None"
    by (simp add: require_decimal_def assert_string_None [OF assms(2)])
  have "convert_answer (convert_payment R now charged) no_payment_data ms = None" for charged
    by (rule convert_answer_None [OF assms(1)]) (simp add: convert_payment_def a split: option.splits)
  moreover have "convert_answer (convert_refund R now) no_refund_data ms = None"
    by (rule convert_answer_None [OF assms(1)]) (simp add: convert_refund_def a split: option.splits)
  ultimately show ?thesis
    by (auto simp: CreatePayment_def VerifyPayment_def ProcessRefund_def call_with_answered)
qed

text \<open>An answer without a status or a message panics as well, in all three.\<close>

lemma missing_status_panics:
  assumes "not_a_string (json_field ms ''status'') \<or> not_a_string (json_field ms ''message'')"
    and "answered http w (fw_request cfg ''GET'' (''/transactions/'' @ ref @ ''/verify'') None) ms"
  shows "snd (VerifyPayment R http cfg now w ref) = Panicked"
proof -
  have "convert_answer (convert_payment R now ''charged_amount'') no_payment_data ms = None"
    using assms(1) by (auto simp: convert_answer_def assert_string_None split: option.splits)
  then show ?thesis using assms(2) by (simp add: VerifyPayment_def call_with_answered)
qed

text \<open>The Ghanaian adapter panics on an answer without amounts, which is how a refusal decodes.\<close>

lemma gh_refusal_panics:
  assumes "http w (fw_request cfg ''GET'' (''/transactions/'' @ ref @ ''/verify'') None) = (w', Reply status text)" "status < 400"
    and "rd_verify R text = Some r" "gd_Amount (fr_Data r) = ''''" "rd_decimal R '''' = None"
  shows "gh_VerifyPayment R http cfg now w ref = (w', Panicked)"
  using assms by (simp add: gh_VerifyPayment_def call_with_def makeRequest_def gh_convert_verification_def Let_def)

text \<open>A well-typed answer is returned as it stands.\<close>

lemma verification_returned:
  assumes "answered http w (fw_request cfg ''GET'' (''/transactions/'' @ ref @ ''/verify'') None) ms"
    and "json_field ms ''status'' = Some (JStr st)" "json_field ms ''message'' = Some (JStr msg)"
    and "json_field ms ''data'' = Some (JObj ds)" "convert_payment R now ''charged_amount'' ds = Some d"
  shows "snd (VerifyPayment R http cfg now w ref) = Returned \<lparr>fr_Status = st, fr_Message = msg, fr_Data = d\<rparr>"
  using assms by (simp add: VerifyPayment_def call_with_answered convert_answer_def assert_string_def)

section \<open>Signatures of notices\<close>

text \<open>A notice is believed exactly when it is signed, or when nobody set a secret. An adapter with a
  secret accepts one signature per payload, the hexadecimal HMAC-SHA-256 of the payload under the
  secret; an adapter made without a configuration, or with one without a secret, accepts every
  payload with every signature.\<close>

theorem webhook_signature_decides:
  "(fc_WebhookSecret cfg \<noteq> '''' \<longrightarrow>
      (verifyWebhookSignature cfg payload sig \<longleftrightarrow> sig = hex_encode (hmac_sha256 (string_bytes (fc_WebhookSecret cfg)) payload))) \<and>
   (fc_WebhookSecret cfg = '''' \<longrightarrow> verifyWebhookSignature cfg payload sig) \<and>
   verifyWebhookSignature (NewFlutterwaveAdapter None) payload sig \<and>
   verifyWebhookSignature (gh_NewFlutterwaveAdapter None) payload sig"
  by (simp add: verifyWebhookSignature_def NewFlutterwaveAdapter_def gh_NewFlutterwaveAdapter_def
      DefaultFlutterwaveConfig_def gh_DefaultFlutterwaveConfig_def)

section \<open>Concrete answers\<close>

definition number_http :: "unit http" where
  "number_http w q = (w, Reply 200 (json_text number_answer))"

definition demo_readers :: fw_readers where
  "demo_readers = \<lparr>rd_decimal = \<lambda>s. None, rd_float0 = \<lambda>v. ''7'', rd_payment = \<lambda>s. None, rd_verify = \<lambda>s. None\<rparr>"

lemma numeric_amounts_panic_witness:
  "snd (VerifyPayment demo_readers number_http DefaultFlutterwaveConfig 0 () ''t'') = Panicked"
proof -
  obtain ms ds where ms: "number_answer = JObj ms" "json_field ms ''data'' = Some (JObj ds)" "not_a_string (json_field ds ''amount'')"
    by (simp add: number_answer_def json_field_def not_a_string_def)
  have "answered number_http () q ms" for q
    using number_answer_parses by (simp add: answered_def number_http_def ms(1))
  then show ?thesis by (rule numeric_amounts_panic [OF ms(2,3), THEN conjunct2, THEN conjunct1, rule_format])
qed

lemma webhook_signature_decides_witness:
  "verifyWebhookSignature (NewFlutterwaveAdapter None) [1, 2, 3] ''forged''"
  using webhook_signature_decides [of DefaultFlutterwaveConfig "[1, 2, 3]" "''forged''"] by blast

end

