(* ===== verification/FeedLimiter.thy ===== *)
theory FeedLimiter
  imports Prelude
begin

text \<open>
  The token bucket that the odds feeds (\<open>internal/odds/sportradar/ratelimiter.go\<close>,
  \<open>internal/odds/genius/types.go\<close>) and the messaging client
  (\<open>internal/communications/africastalking/types.go\<close>) each have a copy of. A waiting caller reads the
  clock again and again; the readings, each with whether the caller has given up by then, are an
  argument, and a wait that outlasts them is \<open>StillWaiting\<close>.
\<close>

record RateLimiter =
  rl_tokens :: int
  rl_maxTokens :: int
  rl_interval :: duration
  rl_lastRefill :: time

definition NewRateLimiter :: "time \<Rightarrow> int \<Rightarrow> duration \<Rightarrow> RateLimiter" where
  "NewRateLimiter now maxTokens interval =
     \<lparr>rl_tokens = maxTokens, rl_maxTokens = maxTokens, rl_interval = interval, rl_lastRefill = now\<rparr>"

definition refilled :: "time \<Rightarrow> RateLimiter \<Rightarrow> RateLimiter" where
  "refilled now r =
     (let tokensToAdd = go_quot (now - rl_lastRefill r) (rl_interval r) in
      if tokensToAdd > 0
      then r\<lparr>rl_tokens := min (rl_maxTokens r) (rl_tokens r + tokensToAdd), rl_lastRefill := now\<rparr>
      else r)"

definition tryConsume :: "time \<Rightarrow> RateLimiter \<Rightarrow> RateLimiter \<times> bool" where
  "tryConsume now r =
     (let r' = refilled now r in
      if rl_tokens r' > 0 then (r'\<lparr>rl_tokens := rl_tokens r' - 1\<rparr>, True) else (r', False))"

datatype wait_result = Granted | GaveUp | DivisionPanic | StillWaiting

text \<open>The pause between two readings is the interval divided by the size of the bucket.\<close>

fun Wait :: "RateLimiter \<Rightarrow> (time \<times> bool) list \<Rightarrow> RateLimiter \<times> wait_result" where
  "Wait r [] = (r, StillWaiting)"
| "Wait r ((now, quit) # readings) =
     (case tryConsume now r of
        (r', True) \<Rightarrow> (r', Granted)
      | (r', False) \<Rightarrow>
          if rl_maxTokens r' = 0 then (r', DivisionPanic)
          else if quit then (r', GaveUp)
          else Wait r' readings)"

section \<open>How many requests get through\<close>

text \<open>A sequence of attempts at given times, and how many of them were granted.\<close>

fun attempts :: "RateLimiter \<Rightarrow> time list \<Rightarrow> RateLimiter \<times> nat" where
  "attempts r [] = (r, 0)"
| "attempts r (t # ts) =
     (case tryConsume t r of (r', ok) \<Rightarrow> case attempts r' ts of (r'', n) \<Rightarrow> (r'', (if ok then Suc n else n)))"

lemma tryConsume_kept [simp]:
  "rl_interval (fst (tryConsume t r)) = rl_interval r" "rl_maxTokens (fst (tryConsume t r)) = rl_maxTokens r"
  by (simp_all add: tryConsume_def refilled_def Let_def)

text \<open>What an attempt takes out of the bucket, measured with the refills since a time before it.\<close>

lemma refilled_budget:
  assumes "0 < rl_interval r" "t0 \<le> rl_lastRefill r"
  shows "rl_tokens (refilled t r) - (rl_lastRefill (refilled t r) - t0) div rl_interval r
      \<le> rl_tokens r - (rl_lastRefill r - t0) div rl_interval r"
    and "rl_lastRefill r \<le> rl_lastRefill (refilled t r)" and "rl_lastRefill (refilled t r) \<le> max t (rl_lastRefill r)"
proof -
  let ?I = "rl_interval r" and ?l = "rl_lastRefill r"
  have q: "go_quot (t - ?l) ?I > 0 \<Longrightarrow> ?l \<le> t"
    using assms(1) by (cases "?l \<le> t") (auto simp: go_quot_def pos_imp_zdiv_neg_iff)
  have sum: "(t - ?l) div ?I + (?l - t0) div ?I \<le> (t - t0) div ?I"
  proof -
    have "(t - ?l) div ?I * ?I + (?l - t0) div ?I * ?I \<le> (t - ?l) + (?l - t0)"
      by (intro add_mono) (simp_all add: minus_mod_eq_div_mult [symmetric] assms(1))
    then have "((t - ?l) div ?I + (?l - t0) div ?I) * ?I \<le> t - t0" by (simp add: algebra_simps)
    from zdiv_mono1 [OF this assms(1)] show ?thesis using assms(1) by simp
  qed
  have kept: "refilled t r = r" if "\<not> go_quot (t - ?l) ?I > 0" using that by (simp only: refilled_def Let_def if_False)
  have more: "rl_tokens (refilled t r) \<le> rl_tokens r + (t - ?l) div ?I" "rl_lastRefill (refilled t r) = t" "?l \<le> t"
    if "go_quot (t - ?l) ?I > 0"
    using that q [OF that] by (simp_all add: refilled_def Let_def)
  show "rl_tokens (refilled t r) - (rl_lastRefill (refilled t r) - t0) div ?I \<le> rl_tokens r - (?l - t0) div ?I"
  proof (cases "go_quot (t - ?l) ?I > 0")
    case True
    show ?thesis using more [OF True] sum by (simp only: more(2) [OF True])
  next
    case False
    show ?thesis by (simp only: kept [OF False] order_refl)
  qed
  show "?l \<le> rl_lastRefill (refilled t r)" "rl_lastRefill (refilled t r) \<le> max t ?l"
    by (cases "go_quot (t - ?l) ?I > 0"; simp only: kept more max.cobounded1 max.cobounded2 order_refl not_False_eq_True)+
qed

lemma refilled_nonneg: "0 \<le> rl_maxTokens r \<Longrightarrow> 0 \<le> rl_tokens r \<Longrightarrow> 0 \<le> rl_tokens (refilled t r)"
  by (simp add: refilled_def Let_def)

lemma attempts_budget:
  assumes "0 < rl_interval r" "t0 \<le> rl_lastRefill r" "0 \<le> rl_tokens r" "\<forall>t \<in> set ts. t \<le> tn" "rl_lastRefill r \<le> tn"
    "0 \<le> rl_maxTokens r"
  shows "int (snd (attempts r ts)) \<le> rl_tokens r - (rl_lastRefill r - t0) div rl_interval r + (tn - t0) div rl_interval r"
  using assms
proof (induction ts arbitrary: r)
  case Nil
  then have "(rl_lastRefill r - t0) div rl_interval r \<le> (tn - t0) div rl_interval r" by (intro zdiv_mono1) auto
  then show ?case using Nil by simp
next
  case (Cons t ts)
  let ?r = "fst (tryConsume t r)"
  have b: "rl_tokens (refilled t r) - (rl_lastRefill (refilled t r) - t0) div rl_interval r
      \<le> rl_tokens r - (rl_lastRefill r - t0) div rl_interval r"
    "rl_lastRefill r \<le> rl_lastRefill (refilled t r)" "rl_lastRefill (refilled t r) \<le> max t (rl_lastRefill r)"
    using refilled_budget [OF Cons.prems(1,2)] by blast+
  have l: "rl_lastRefill ?r = rl_lastRefill (refilled t r)" by (simp add: tryConsume_def Let_def)
  have tok: "rl_tokens ?r = rl_tokens (refilled t r) - (if snd (tryConsume t r) then 1 else 0)"
    by (simp add: tryConsume_def Let_def)
  have nn: "0 \<le> rl_tokens (refilled t r) \<Longrightarrow> 0 \<le> rl_tokens ?r" by (simp add: tryConsume_def Let_def)
  have "rl_lastRefill ?r \<le> tn" using b(3) l Cons.prems(4,5) by auto
  have ih: "int (snd (attempts ?r ts)) \<le> rl_tokens ?r - (rl_lastRefill ?r - t0) div rl_interval r + (tn - t0) div rl_interval r"
    if "0 \<le> rl_tokens ?r"
    using Cons.IH [of ?r] Cons.prems b(2) l that \<open>rl_lastRefill ?r \<le> tn\<close> by simp
  have "int (snd (attempts r (t # ts))) = int (snd (attempts ?r ts)) + (if snd (tryConsume t r) then 1 else 0)"
    by (simp add: case_prod_unfold)
  then show ?case using ih b(1) l tok nn Cons.prems(3,6) refilled_nonneg [of r t] by auto
qed

lemma attempts_append:
  "attempts r (ts @ us) = (case attempts r ts of (r', n) \<Rightarrow> case attempts r' us of (r'', m) \<Rightarrow> (r'', n + m))"
  by (induction ts arbitrary: r) (auto split: prod.splits)

text \<open>A wait is a run of attempts of which at most the last one is granted.\<close>

lemma Wait_attempts:
  "\<exists>ts. set ts \<subseteq> fst ` set readings \<and> attempts r ts = (fst (Wait r readings), if snd (Wait r readings) = Granted then 1 else 0)"
proof (induction readings arbitrary: r)
  case Nil
  show ?case by (rule exI [of _ "[]"]) simp
next
  case (Cons p readings)
  obtain now quit where p: "p = (now, quit)" by (cases p)
  obtain r' ok where t: "tryConsume now r = (r', ok)" by (cases "tryConsume now r")
  have one: "\<exists>ts. set ts \<subseteq> fst ` set (p # readings) \<and> attempts r ts = (r', if ok then 1 else 0)"
    by (rule exI [of _ "[now]"]) (simp add: p t)
  show ?case
  proof (cases "ok \<or> rl_maxTokens r' = 0 \<or> quit")
    case True
    then show ?thesis using one by (cases ok) (auto simp: p t)
  next
    case False
    obtain ts where "set ts \<subseteq> fst ` set readings"
      "attempts r' ts = (fst (Wait r' readings), if snd (Wait r' readings) = Granted then 1 else 0)"
      using Cons by blast
    then show ?thesis using False by (intro exI [of _ "now # ts"]) (auto simp: p t)
  qed
qed

text \<open>Calls that wait one after another, and how many were let through.\<close>

fun calls :: "RateLimiter \<Rightarrow> (time \<times> bool) list list \<Rightarrow> RateLimiter \<times> nat" where
  "calls r [] = (r, 0)"
| "calls r (rs # rss) =
     (case calls (fst (Wait r rs)) rss of (r', n) \<Rightarrow> (r', n + (if snd (Wait r rs) = Granted then 1 else 0)))"

lemma calls_attempts:
  "\<exists>ts. set ts \<subseteq> fst ` (\<Union>(set ` set rss)) \<and> attempts r ts = calls r rss"
proof (induction rss arbitrary: r)
  case Nil
  show ?case by (rule exI [of _ "[]"]) simp
next
  case (Cons rs rss)
  obtain ts where ts: "set ts \<subseteq> fst ` set rs" "attempts r ts = (fst (Wait r rs), if snd (Wait r rs) = Granted then 1 else 0)"
    using Wait_attempts by blast
  obtain us where us: "set us \<subseteq> fst ` (\<Union>(set ` set rss))" "attempts (fst (Wait r rs)) us = calls (fst (Wait r rs)) rss"
    using Cons by blast
  have "attempts r (ts @ us) = calls r (rs # rss)"
    using ts(2) us(2) by (simp add: attempts_append split: prod.splits)
  moreover have "fst ` (\<Union>(set ` set (rs # rss))) = fst ` set rs \<union> fst ` (\<Union>(set ` set rss))" by (simp add: image_Un)
  ultimately show ?case using ts(1) us(1) by (intro exI [of _ "ts @ us"]) auto
qed

lemma calls_bounded:
  assumes "0 < interval" "0 \<le> maxTokens" "t0 \<le> tn" "\<forall>rs \<in> set rss. \<forall>p \<in> set rs. fst p \<le> tn"
  shows "int (snd (calls (NewRateLimiter t0 maxTokens interval) rss)) \<le> maxTokens + (tn - t0) div interval"
proof -
  let ?r = "NewRateLimiter t0 maxTokens interval"
  obtain ts where ts: "set ts \<subseteq> fst ` (\<Union>(set ` set rss))" "attempts ?r ts = calls ?r rss"
    using calls_attempts by blast
  then have "\<forall>t \<in> set ts. t \<le> tn" using assms(4) by fastforce
  then have "int (snd (attempts ?r ts)) \<le> maxTokens - (t0 - t0) div interval + (tn - t0) div interval"
    using attempts_budget [of ?r t0 ts tn] assms by (simp add: NewRateLimiter_def)
  then show ?thesis using ts(2) by simp
qed

text \<open>C33: the bucket is filled once and then gains one request per interval. However many callers wait and
  however they read the clock, up to a time at most as many requests have been let through as the
  bucket holds, plus one for every whole interval since the start.\<close>

theorem feed_requests_bounded:
  assumes "0 < interval" "0 \<le> maxTokens" "t0 \<le> tn" "\<forall>rs \<in> set rss. \<forall>p \<in> set rs. fst p \<le> tn"
  shows "int (snd (calls (NewRateLimiter t0 maxTokens interval) rss)) \<le> maxTokens + (tn - t0) div interval"
  using calls_bounded [OF assms] .

text \<open>A caller who does not give up is let through. When the bucket has room for a request and one of the
  readings comes at least an interval after the last refill, before the caller gives up, then the
  wait ends with a request.\<close>

theorem Wait_is_granted:
  assumes "0 < rl_interval r" "0 < rl_maxTokens r" "0 \<le> rl_tokens r"
    and "rl_lastRefill r + rl_interval r \<le> fst p" "\<forall>q \<in> set before. \<not> snd q"
  shows "snd (Wait r (before @ p # later)) = Granted"
  using assms
proof (induction before)
  case Nil
  have "1 \<le> (fst p - rl_lastRefill r) div rl_interval r"
    using zdiv_mono1 [of "rl_interval r" "fst p - rl_lastRefill r" "rl_interval r"] Nil by simp
  then have "0 < rl_tokens (refilled (fst p) r)"
    using Nil by (simp add: refilled_def Let_def)
  then show ?case by (cases p) (simp add: tryConsume_def Let_def)
next
  case (Cons q before)
  obtain now where q: "q = (now, False)" using Cons.prems(5) by (cases q) auto
  show ?case
  proof (cases "snd (tryConsume now r)")
    case True
    then show ?thesis by (cases "tryConsume now r") (simp add: q)
  next
    case False
    have "rl_tokens (refilled now r) \<le> 0" using False by (simp add: tryConsume_def Let_def split: if_splits)
    then have "refilled now r = r"
      using Cons.prems(2,3) by (simp add: refilled_def Let_def split: if_splits)
    then have "tryConsume now r = (r, False)" using False by (simp add: tryConsume_def Let_def split: if_splits)
    then show ?thesis using Cons by (simp add: q)
  qed
qed

text \<open>
  With the default of \<open>60 requests per minute\<close> the first sixty calls may come at once; in the ten
  minutes after that ten more get through, not six hundred.
\<close>

lemma sixty_per_minute_is_one:
  assumes "\<forall>rs \<in> set rss. \<forall>p \<in> set rs. fst p \<le> t0 + 10 * Minute"
  shows "snd (calls (NewRateLimiter t0 60 Minute) rss) \<le> 70"
  using calls_bounded [of Minute 60 t0 "t0 + 10 * Minute" rss] assms by simp

lemma feed_requests_bounded_witness:
  "int (snd (calls (NewRateLimiter 0 2 Minute) [[(0, False)], [(0, False)], [(1, False), (Minute, False)], [(Minute + 1, True)]]))
     \<le> 2 + (Minute + 1) div Minute"
  using feed_requests_bounded [of Minute 2 0 "Minute + 1"
      "[[(0, False)], [(0, False)], [(1, False), (Minute, False)], [(Minute + 1, True)]]"] by simp

lemma Wait_is_granted_witness:
  "snd (Wait \<lparr>rl_tokens = 0, rl_maxTokens = 2, rl_interval = Minute, rl_lastRefill = 0\<rparr> ([(1, False)] @ (Minute, True) # [])) = Granted"
  by (rule Wait_is_granted) simp_all

end

