(* ===== verification/OddsFeeds.thy ===== *)
theory OddsFeeds
  imports FeedLimiter HttpClient OddsEngine
begin

text \<open>
  \<open>internal/odds\<close>: the clients of the two feeds, Sportradar (\<open>client.go\<close>, \<open>matches.go\<close>,
  \<open>converter.go\<close>) and Genius Sports (\<open>client.go\<close>). A call waits for the limiter, sends one request
  and decodes the reply; \<open>readings\<close> are the clock readings of the wait, the decoders are arguments.
  The constant metrics are left out.
\<close>

section \<open>The types of Sportradar\<close>

record SrSport =
  sp_ID :: string
  sp_Name :: string

record SrTournament =
  to_ID :: string
  to_Name :: string
  to_Sport :: SrSport
  to_Category :: string

record SrTeam =
  te_ID :: string
  te_Name :: string
  te_Country :: string

record SrScore =
  sc_Home :: int
  sc_Away :: int

record SrOdds =
  so_ID :: string
  so_Market :: string
  so_Outcome :: string
  so_Price :: decimal
  so_UpdatedAt :: time
  so_IsAvailable :: bool

record SrMatch =
  sm_ID :: string
  sm_Sport :: SrSport
  sm_Tournament :: SrTournament
  sm_HomeTeam :: SrTeam
  sm_AwayTeam :: SrTeam
  sm_Status :: string
  sm_ScheduledAt :: time
  sm_StartedAt :: "time option"
  sm_CompletedAt :: "time option"
  sm_Score :: SrScore
  sm_Odds :: "SrOdds list"

section \<open>Calls\<close>

record FeedConfig =
  fg_APIKey :: string
  fg_BaseURL :: string
  fg_Environment :: string
  fg_Timeout :: duration
  fg_RateLimit :: int

definition DefaultSportradarConfig :: FeedConfig where
  "DefaultSportradarConfig = \<lparr>fg_APIKey = '''', fg_BaseURL = ''https://api.sportradar.com'', fg_Environment = ''trial'',
     fg_Timeout = 30 * Second, fg_RateLimit = 60\<rparr>"

definition DefaultGeniusConfig :: FeedConfig where
  "DefaultGeniusConfig = \<lparr>fg_APIKey = '''', fg_BaseURL = ''https://api.geniussports.com'', fg_Environment = ''trial'',
     fg_Timeout = 30 * Second, fg_RateLimit = 60\<rparr>"

text \<open>A client is its configuration and its limiter.\<close>

record FeedClient =
  cl_config :: FeedConfig
  cl_limiter :: RateLimiter

definition NewSportradarClient :: "time \<Rightarrow> FeedConfig option \<Rightarrow> FeedClient" where
  "NewSportradarClient now config =
     (let c = (case config of None \<Rightarrow> DefaultSportradarConfig | Some c \<Rightarrow> c) in
      \<lparr>cl_config = c, cl_limiter = NewRateLimiter now (fg_RateLimit c) Minute\<rparr>)"

definition NewGeniusClient :: "time \<Rightarrow> FeedConfig option \<Rightarrow> FeedClient" where
  "NewGeniusClient now config =
     (let c = (case config of None \<Rightarrow> DefaultGeniusConfig | Some c \<Rightarrow> c) in
      \<lparr>cl_config = c, cl_limiter = NewRateLimiter now (fg_RateLimit c) Minute\<rparr>)"

datatype feed_error =
    RateLimitError
  | FeedTransport
  | FeedStatus int
  | FeedUndecodable
  | FeedRefused string

datatype 'a feed_result = FeedOk 'a | FeedFailed feed_error | FeedPanic | FeedWaiting

text \<open>
  What every call does: wait, ask, look at the status, decode. The result keeps the client with its
  limiter and the requests that were sent.
\<close>

definition feed_get ::
  "'w http \<Rightarrow> (string \<Rightarrow> 'r feed_result) \<Rightarrow> http_request \<Rightarrow> (time \<times> bool) list \<Rightarrow> FeedClient \<Rightarrow> 'w \<Rightarrow>
     'w \<times> FeedClient \<times> http_request list \<times> 'r feed_result" where
  "feed_get http read q readings c w =
     (case Wait (cl_limiter c) readings of
        (r, StillWaiting) \<Rightarrow> (w, c\<lparr>cl_limiter := r\<rparr>, [], FeedWaiting)
      | (r, DivisionPanic) \<Rightarrow> (w, c\<lparr>cl_limiter := r\<rparr>, [], FeedPanic)
      | (r, GaveUp) \<Rightarrow> (w, c\<lparr>cl_limiter := r\<rparr>, [], FeedFailed RateLimitError)
      | (r, Granted) \<Rightarrow>
          (case http w q of
             (w', NoReply) \<Rightarrow> (w', c\<lparr>cl_limiter := r\<rparr>, [q], FeedFailed FeedTransport)
           | (w', Reply status body) \<Rightarrow>
               (w', c\<lparr>cl_limiter := r\<rparr>, [q], if status \<noteq> 200 then FeedFailed (FeedStatus status) else read body)))"

definition decoded :: "(string \<Rightarrow> 'r option) \<Rightarrow> string \<Rightarrow> 'r feed_result" where
  "decoded dec body = (case dec body of None \<Rightarrow> FeedFailed FeedUndecodable | Some r \<Rightarrow> FeedOk r)"

text \<open>The envelope of Sportradar's lists of matches: success, data, error.\<close>

definition enveloped :: "(string \<Rightarrow> (bool \<times> 'r \<times> string) option) \<Rightarrow> string \<Rightarrow> 'r feed_result" where
  "enveloped dec body =
     (case dec body of
        None \<Rightarrow> FeedFailed FeedUndecodable
      | Some (success, data, err) \<Rightarrow> if \<not> success then FeedFailed (FeedRefused err) else FeedOk data)"

definition sr_request :: "FeedClient \<Rightarrow> string \<Rightarrow> http_request" where
  "sr_request c path = \<lparr>hr_method = ''GET'', hr_url = fg_BaseURL (cl_config c) @ path,
     hr_auth = ApiKey (fg_APIKey (cl_config c)), hr_body = None\<rparr>"

definition sr_GetSports where
  "sr_GetSports http dec readings c w =
     feed_get http (decoded (dec :: string \<Rightarrow> SrSport list option)) (sr_request c ''/v1/sports'') readings c w"

definition GetTournaments where
  "GetTournaments http dec sportID readings c w =
     feed_get http (decoded (dec :: string \<Rightarrow> SrTournament list option))
       (sr_request c (''/v1/sports/'' @ sportID @ ''/tournaments'')) readings c w"

definition sr_GetMatchOdds where
  "sr_GetMatchOdds http dec matchID readings c w =
     feed_get http (decoded (dec :: string \<Rightarrow> SrOdds list option))
       (sr_request c (''/v1/matches/'' @ matchID @ ''/odds'')) readings c w"

definition sr_GetMatches where
  "sr_GetMatches http dec tournamentID readings c w =
     feed_get http (enveloped (dec :: string \<Rightarrow> (bool \<times> SrMatch list \<times> string) option))
       (sr_request c (''/v1/tournaments/'' @ tournamentID @ ''/matches'')) readings c w"

definition sr_GetLiveMatches where
  "sr_GetLiveMatches http dec readings c w =
     feed_get http (enveloped (dec :: string \<Rightarrow> (bool \<times> SrMatch list \<times> string) option))
       (sr_request c ''/v1/matches/live'') readings c w"

definition GetUpcomingMatches where
  "GetUpcomingMatches http dec hours readings c w =
     feed_get http (enveloped (dec :: string \<Rightarrow> (bool \<times> SrMatch list \<times> string) option))
       (sr_request c (''/v1/matches/upcoming?hours='' @ FormatInt hours)) readings c w"

section \<open>Genius Sports\<close>

record OddsRequest =
  oq_SportID :: string
  oq_LeagueID :: string
  oq_MatchID :: string
  oq_Market :: string
  oq_From :: time
  oq_To :: time
  oq_Live :: bool

record MatchRequest =
  mq_SportID :: string
  mq_LeagueID :: string
  mq_From :: time
  mq_To :: time
  mq_Live :: bool

text \<open>What comes back: matches, sports, leagues, and odds with their markets.\<close>

record GeniusScore =
  gs_HomeScore :: int
  gs_AwayScore :: int
  gs_Minute :: int

record OutcomeData =
  go_OutcomeID :: string
  go_OutcomeName :: string
  go_Odds :: decimal
  go_IsActive :: bool

record MarketData =
  gm_MarketID :: string
  gm_MarketName :: string
  gm_Outcomes :: "OutcomeData list"

record OddsData =
  gd_MatchID :: string
  gd_SportID :: string
  gd_LeagueID :: string
  gd_HomeTeam :: string
  gd_AwayTeam :: string
  gd_StartTime :: time
  gd_IsLive :: bool
  gd_Score :: "GeniusScore option"
  gd_Markets :: "MarketData list"

record MatchData =
  gt_MatchID :: string
  gt_SportID :: string
  gt_LeagueID :: string
  gt_HomeTeam :: string
  gt_AwayTeam :: string
  gt_StartTime :: time
  gt_IsLive :: bool
  gt_Status :: string
  gt_Score :: "GeniusScore option"

record SportData =
  gp_SportID :: string
  gp_SportName :: string
  gp_IsActive :: bool

record LeagueData =
  gl_LeagueID :: string
  gl_LeagueName :: string
  gl_SportID :: string
  gl_Country :: string
  gl_IsActive :: bool

text \<open>The four responses differ only in their data: success, data, message.\<close>

record 'd GeniusResponse =
  gr_Success :: bool
  gr_Data :: "'d list"
  gr_Message :: string

text \<open>Up to two parameters, the second after an ampersand when there is a first.\<close>

definition query_url :: "string \<Rightarrow> string \<Rightarrow> string \<Rightarrow> string \<Rightarrow> string" where
  "query_url url sport name v =
     (let url1 = (if sport \<noteq> '''' then url @ ''?sport_id='' @ sport else url) in
      if v \<noteq> '''' then url1 @ (if sport \<noteq> '''' then ''&'' else ''?'') @ name @ ''='' @ v else url1)"

definition genius_request :: "FeedClient \<Rightarrow> string \<Rightarrow> http_request" where
  "genius_request c url = \<lparr>hr_method = ''GET'', hr_url = url, hr_auth = Bearer (fg_APIKey (cl_config c)), hr_body = None\<rparr>"

definition genius_GetSports where
  "genius_GetSports http dec readings c w =
     feed_get http (decoded (dec :: string \<Rightarrow> SportData GeniusResponse option)) (genius_request c (fg_BaseURL (cl_config c) @ ''/v1/sports'')) readings c w"

definition GetLeagues where
  "GetLeagues http dec sportID readings c w =
     feed_get http (decoded (dec :: string \<Rightarrow> LeagueData GeniusResponse option)) (genius_request c (fg_BaseURL (cl_config c) @ ''/v1/leagues?sport_id='' @ sportID)) readings c w"

definition genius_GetMatches where
  "genius_GetMatches http dec req readings c w =
     feed_get http (decoded (dec :: string \<Rightarrow> MatchData GeniusResponse option))
       (genius_request c (query_url (fg_BaseURL (cl_config c) @ ''/v1/matches'') (mq_SportID req) ''league_id'' (mq_LeagueID req)))
       readings c w"

definition genius_GetOdds where
  "genius_GetOdds http dec req readings c w =
     feed_get http (decoded (dec :: string \<Rightarrow> OddsData GeniusResponse option))
       (genius_request c (query_url (fg_BaseURL (cl_config c) @ ''/v1/odds'') (oq_SportID req) ''match_id'' (oq_MatchID req)))
       readings c w"

section \<open>Conversion\<close>

definition convert_odds :: "string \<Rightarrow> SrOdds \<Rightarrow> Market" where
  "convert_odds matchID o' =
     \<lparr>mk_ID = so_ID o', mk_MatchID = matchID, mk_Type = so_Market o', mk_Name = so_Market o',
      mk_Outcomes = [\<lparr>oc_ID = so_ID o' @ ''_'' @ so_Outcome o', oc_MarketID = so_ID o', oc_Name = so_Outcome o',
        oc_Odds = so_Price o', oc_Price = so_Price o', oc_Status = OutcomeStatusPending\<rparr>],
      mk_Status = (if so_IsAvailable o' then MarketStatusOpen else MarketStatusSuspended), mk_SuspendedAt = None\<rparr>"

definition ConvertToDomainMatch :: "SrMatch \<Rightarrow> Match" where
  "ConvertToDomainMatch m =
     \<lparr>match_ID = sm_ID m, match_Sport = sp_Name (sm_Sport m), match_League = to_Name (sm_Tournament m),
      match_HomeTeam = te_Name (sm_HomeTeam m), match_AwayTeam = te_Name (sm_AwayTeam m),
      match_StartTime = sm_ScheduledAt m, match_Status = sm_Status m,
      match_Score = Some \<lparr>HomeScore = sc_Home (sm_Score m), AwayScore = sc_Away (sm_Score m), HomeScoreHT = None,
        AwayScoreHT = None, HomeScoreFT = None, AwayScoreFT = None, HomeSets = None, AwaySets = None\<rparr>,
      match_Markets = foldl (\<lambda>ms o'. ms @ [convert_odds (sm_ID m) o']) [] (sm_Odds m),
      match_CountryCode = '''', match_UpdatedAt = zero_time\<rparr>"

definition ConvertToDomainOdds :: "SrOdds list \<Rightarrow> string \<Rightarrow> Market list" where
  "ConvertToDomainOdds odds matchID = map (convert_odds matchID) odds"

lemma foldl_snoc_map: "foldl (\<lambda>ys x. ys @ [f x]) zs xs = zs @ map f xs"
  by (induction xs arbitrary: zs) auto

text \<open>Both conversions agree on the markets.\<close>

lemma converted_markets: "match_Markets (ConvertToDomainMatch m) = ConvertToDomainOdds (sm_Odds m) (sm_ID m)"
  by (simp add: ConvertToDomainMatch_def ConvertToDomainOdds_def foldl_snoc_map)

section \<open>How converted matches are priced\<close>

text \<open>The entry of the feed for a market and an outcome.\<close>

definition feed_entry :: "SrMatch \<Rightarrow> string \<Rightarrow> string \<Rightarrow> SrOdds option" where
  "feed_entry m market outcome = select_row (\<lambda>o'. so_Market o' = market \<and> so_Outcome o' = outcome) (sm_Odds m)"

lemma find_in_converted:
  "find_in_markets (map (convert_odds i) os) market outcome =
     map_option so_Price (select_row (\<lambda>o'. so_Market o' = market \<and> so_Outcome o' = outcome) os)"
  by (induction os) (auto simp: convert_odds_def select_row_Cons)

lemma select_row_map: "select_row P (map f xs) = map_option f (select_row (P \<circ> f) xs)"
  by (induction xs) (auto simp: select_row_Cons)

lemma findSelectionOdds_converted:
  "findSelectionOdds (ConvertToDomainMatch m) sel =
     map_option so_Price (feed_entry m (sel_MarketName sel) (sel_OutcomeName sel))"
  by (simp add: findSelectionOdds_def converted_markets ConvertToDomainOdds_def find_in_converted feed_entry_def)

lemma first_of_market:
  "select_row (\<lambda>o'. so_Market o' = market) os = Some e \<Longrightarrow>
     select_row (\<lambda>o'. so_Market o' = market \<and> so_Outcome o' = so_Outcome e) os = Some e"
  by (induction os) (auto simp: select_row_Cons split: if_splits)

lemma GetOutcomeByName_converted:
  "map_option oc_Odds (GetOutcomeByName (ConvertToDomainMatch m) market outcome) =
     (case select_row (\<lambda>o'. so_Market o' = market) (sm_Odds m) of
        None \<Rightarrow> None
      | Some o' \<Rightarrow> if so_Outcome o' = outcome then map_option so_Price (feed_entry m market outcome) else None)"
proof -
  have t: "(\<lambda>k. mk_Type k = market) \<circ> convert_odds (sm_ID m) = (\<lambda>o'. so_Market o' = market)"
    by (auto simp: convert_odds_def)
  show ?thesis
  proof (cases "select_row (\<lambda>o'. so_Market o' = market) (sm_Odds m)")
    case (Some e)
    then show ?thesis using first_of_market [OF Some]
      by (auto simp: GetOutcomeByName_def GetMarketByType_def converted_markets ConvertToDomainOdds_def select_row_map t
          feed_entry_def convert_odds_def select_row_Cons)
  qed (simp add: GetOutcomeByName_def GetMarketByType_def converted_markets ConvertToDomainOdds_def select_row_map t)
qed

text \<open>C34: the two lookups of a price disagree on matches from the feed. The feed has one entry per outcome,
  and each becomes a market of its own. The engine that prices slips finds the first entry with the
  name of the market and of the outcome, available or not. The lookup of the domain stops at the
  first entry of the market, so it finds the same price only for the outcome of that entry, and no
  other outcome of the market at all.\<close>

theorem feed_prices:
  "findSelectionOdds (ConvertToDomainMatch m) sel =
     map_option so_Price (feed_entry m (sel_MarketName sel) (sel_OutcomeName sel)) \<and>
   map_option oc_Odds (GetOutcomeByName (ConvertToDomainMatch m) market outcome) =
     (case select_row (\<lambda>o'. so_Market o' = market) (sm_Odds m) of
        None \<Rightarrow> None
      | Some o' \<Rightarrow> if so_Outcome o' = outcome then map_option so_Price (feed_entry m market outcome) else None)"
  by (simp add: findSelectionOdds_converted GetOutcomeByName_converted)

text \<open>An outcome the feed has withdrawn is priced like any other.\<close>

lemma withdrawn_outcome_priced:
  assumes "feed_entry m (sel_MarketName sel) (sel_OutcomeName sel) = Some e" "\<not> so_IsAvailable e"
  shows "findSelectionOdds (ConvertToDomainMatch m) sel = Some (so_Price e)"
  using assms by (simp add: findSelectionOdds_converted)

section \<open>What the calls send\<close>

text \<open>A call sends at most one request, and only when the limiter lets it through.\<close>

lemma feed_get_outcome:
  assumes "feed_get http read q readings c w = (w', c', sent, r)"
  shows "(sent = [] \<and> w' = w \<and> snd (Wait (cl_limiter c) readings) \<noteq> Granted) \<or>
    (sent = [q] \<and> snd (Wait (cl_limiter c) readings) = Granted)"
    and "c' = c\<lparr>cl_limiter := fst (Wait (cl_limiter c) readings)\<rparr>"
  using assms by (auto simp: feed_get_def split: prod.splits wait_result.splits http_reply.splits)

text \<open>Times, the live flag and the market of a request to Genius Sports make no difference to what is sent.\<close>

lemma genius_filters_ignored:
  assumes "mq_SportID a = mq_SportID b" "mq_LeagueID a = mq_LeagueID b"
    and "oq_SportID x = oq_SportID y" "oq_MatchID x = oq_MatchID y"
  shows "genius_GetMatches http dec a readings c w = genius_GetMatches http dec b readings c w"
    and "genius_GetOdds http dec' x readings c w = genius_GetOdds http dec' y readings c w"
  using assms by (simp_all add: genius_GetMatches_def genius_GetOdds_def)

text \<open>
  A reply that reports failure is handed on as a result; only the caller can look at the flag. The
  other feed turns it into an error.
\<close>

lemma refusals_of_the_feeds:
  assumes "http w q = (w', Reply 200 body)" "Wait (cl_limiter c) readings = (r, Granted)"
  shows "dec body = Some g \<Longrightarrow> snd (snd (snd (feed_get http (decoded dec) q readings c w))) = FeedOk g"
    and "dec' body = Some (False, ms, err) \<Longrightarrow>
      snd (snd (snd (feed_get http (enveloped dec') q readings c w))) = FeedFailed (FeedRefused err)"
  using assms by (simp_all add: feed_get_def decoded_def enveloped_def)

lemma query_url_examples:
  "query_url ''u'' ''1'' ''match_id'' ''2'' = ''u?sport_id=1&match_id=2''"
  "query_url ''u'' '''' ''match_id'' ''2'' = ''u?match_id=2''"
  "query_url ''u'' '''' ''match_id'' '''' = ''u''"
  by (simp_all add: query_url_def)

text \<open>A client without a limit of its own asks at most sixty times at once, and once a minute after that.\<close>

lemma default_client_bounded:
  assumes "t0 \<le> tn" "\<forall>rs \<in> set rss. \<forall>p \<in> set rs. fst p \<le> tn"
  shows "int (snd (calls (cl_limiter (NewSportradarClient t0 None)) rss)) \<le> 60 + (tn - t0) div Minute"
proof -
  have "int (snd (calls (NewRateLimiter t0 60 Minute) rss)) \<le> 60 + (tn - t0) div Minute"
    by (rule calls_bounded) (use assms in simp_all)
  then show ?thesis by (simp add: NewSportradarClient_def DefaultSportradarConfig_def)
qed

section \<open>A concrete match\<close>

definition derby :: SrMatch where
  "derby = \<lparr>sm_ID = ''m'', sm_Sport = \<lparr>sp_ID = ''1'', sp_Name = ''FOOTBALL''\<rparr>,
     sm_Tournament = \<lparr>to_ID = ''t'', to_Name = ''L'', to_Sport = \<lparr>sp_ID = ''1'', sp_Name = ''FOOTBALL''\<rparr>, to_Category = ''''\<rparr>,
     sm_HomeTeam = \<lparr>te_ID = ''a'', te_Name = ''A'', te_Country = ''KE''\<rparr>,
     sm_AwayTeam = \<lparr>te_ID = ''b'', te_Name = ''B'', te_Country = ''KE''\<rparr>, sm_Status = ''live'', sm_ScheduledAt = 0,
     sm_StartedAt = None, sm_CompletedAt = None, sm_Score = \<lparr>sc_Home = 1, sc_Away = 0\<rparr>,
     sm_Odds = [\<lparr>so_ID = ''1'', so_Market = ''moneyline'', so_Outcome = ''home'', so_Price = 2, so_UpdatedAt = 0, so_IsAvailable = True\<rparr>,
       \<lparr>so_ID = ''2'', so_Market = ''moneyline'', so_Outcome = ''away'', so_Price = 3, so_UpdatedAt = 0, so_IsAvailable = False\<rparr>]\<rparr>"

lemma away_is_lost:
  "GetOutcomeByName (ConvertToDomainMatch derby) ''moneyline'' ''away'' = None"
  "map_option oc_Odds (GetOutcomeByName (ConvertToDomainMatch derby) ''moneyline'' ''home'') = Some 2"
  "map_option so_Price (feed_entry derby ''moneyline'' ''away'') = Some 3"
  "\<not> IsLive (ConvertToDomainMatch derby)"
  by code_simp+

end
