(* ===== verification/Messaging.thy ===== *)
theory Messaging
  imports FeedLimiter HttpClient
begin

text \<open>
  \<open>internal/communications/africastalking\<close>: the client that sends text messages, one-time codes and
  USSD texts (\<open>client.go\<close>), with its own copy of the limiter (\<open>types.go\<close>), which shares only its state
  with that of the odds feeds. Bodies are forms: \<open>url.Values\<close> with \<open>Encode\<close> is modelled in full. The
  transport and the decoders of replies are arguments. The types of voice, airtime and payment
  requests, which no code uses, and the constant metrics are left out.
\<close>

section \<open>The limiter\<close>

text \<open>A waiting caller wakes after an interval or gives up; the list says which, with the clock.\<close>

datatype wake = Woken time | Cancelled

definition at_refill :: "time \<Rightarrow> RateLimiter \<Rightarrow> RateLimiter" where
  "at_refill now r =
     (let elapsed = now - rl_lastRefill r in
      if elapsed \<ge> rl_interval r
      then (let tokens = rl_tokens r + go_quot elapsed (rl_interval r) in
            r\<lparr>rl_tokens := if tokens > rl_maxTokens r then rl_maxTokens r else tokens, rl_lastRefill := now\<rparr>)
      else r)"

fun at_loop :: "RateLimiter \<Rightarrow> wake list \<Rightarrow> RateLimiter \<times> wait_result" where
  "at_loop r wakes =
     (if rl_tokens r \<le> 0
      then (case wakes of
              [] \<Rightarrow> (r, StillWaiting)
            | Cancelled # _ \<Rightarrow> (r, GaveUp)
            | Woken now # wakes' \<Rightarrow> at_loop (at_refill now r) wakes')
      else (r\<lparr>rl_tokens := rl_tokens r - 1\<rparr>, Granted))"

declare at_loop.simps [simp del]

definition at_Wait :: "time \<Rightarrow> wake list \<Rightarrow> RateLimiter \<Rightarrow> RateLimiter \<times> wait_result" where
  "at_Wait now wakes r = at_loop (at_refill now r) wakes"

section \<open>Forms\<close>

definition unreserved :: "char \<Rightarrow> bool" where
  "unreserved c \<longleftrightarrow>
     (let n = of_char c :: nat in
      97 \<le> n \<and> n \<le> 122 \<or> 65 \<le> n \<and> n \<le> 90 \<or> 48 \<le> n \<and> n \<le> 57) \<or> c \<in> set ''-_.~''"

definition upper_hex :: "nat \<Rightarrow> char" where
  "upper_hex d = char_of (if d < 10 then 48 + d else 55 + d)"

fun QueryEscape :: "string \<Rightarrow> string" where
  "QueryEscape [] = []"
| "QueryEscape (c # s) =
     (if c = CHR '' '' then CHR ''+'' # QueryEscape s
      else if unreserved c then c # QueryEscape s
      else CHR ''%'' # upper_hex (of_char c div 16) # upper_hex (of_char c mod 16) # QueryEscape s)"

type_synonym form_values = "(string \<times> string) list"

text \<open>\<open>Set\<close> replaces what stands under the key; \<open>Encode\<close> sorts by key.\<close>

definition form_Set :: "string \<Rightarrow> string \<Rightarrow> form_values \<Rightarrow> form_values" where
  "form_Set k v f = filter (\<lambda>p. fst p \<noteq> k) f @ [(k, v)]"

definition Encode :: "form_values \<Rightarrow> string" where
  "Encode f = Join (map (\<lambda>(k, v). QueryEscape k @ ''='' @ QueryEscape v) (sort_key fst f)) ''&''"

section \<open>The client\<close>

record AfricaTalkingConfig =
  ac_Username :: string
  ac_APIKey :: string
  ac_SenderName :: string
  ac_Environment :: string
  ac_BaseURL :: string
  ac_Timeout :: duration
  ac_RateLimit :: int

definition DefaultAfricaTalkingConfig :: AfricaTalkingConfig where
  "DefaultAfricaTalkingConfig = \<lparr>ac_Username = '''', ac_APIKey = '''', ac_SenderName = ''BettingPlatform'',
     ac_Environment = ''sandbox'', ac_BaseURL = ''https://api.africastalking.com'', ac_Timeout = 30 * Second, ac_RateLimit = 10\<rparr>"

record AfricaTalkingClient =
  ak_config :: AfricaTalkingConfig
  ak_limiter :: RateLimiter

definition NewAfricaTalkingClient :: "time \<Rightarrow> AfricaTalkingConfig option \<Rightarrow> AfricaTalkingClient" where
  "NewAfricaTalkingClient now config =
     (let c = (case config of None \<Rightarrow> DefaultAfricaTalkingConfig | Some c \<Rightarrow> c) in
      \<lparr>ak_config = c, ak_limiter = NewRateLimiter now (ac_RateLimit c) Second\<rparr>)"

record SMSRequest =
  sms_To :: "string list"
  sms_Message :: string
  sms_From :: string

record OTPRequest =
  otp_PhoneNumber :: string
  otp_Length :: int
  otp_Validity :: int

record OTPVerifyRequest =
  ov_PhoneNumber :: string
  ov_OTPCode :: string

record USSDRequest =
  us_PhoneNumber :: string
  us_Text :: string
  us_SessionID :: string

text \<open>A request as it leaves: method, address, headers, body.\<close>

record form_request =
  fq_method :: string
  fq_url :: string
  fq_headers :: "(string \<times> string) list"
  fq_body :: string

datatype at_error =
    AtRateLimit
  | AtTransport
  | AtStatus int string
  | AtUndecodable

definition at_makeRequest ::
  "('w \<Rightarrow> form_request \<Rightarrow> 'w \<times> http_reply) \<Rightarrow> AfricaTalkingConfig \<Rightarrow> string \<Rightarrow> string \<Rightarrow> form_values \<Rightarrow> 'w \<Rightarrow>
     'w \<times> form_request \<times> (at_error + string)" where
  "at_makeRequest http cfg method' endpoint data w =
     (let q = \<lparr>fq_method = method', fq_url = ac_BaseURL cfg @ endpoint,
                fq_headers = [(''Content-Type'', ''application/x-www-form-urlencoded''), (''Accept'', ''application/json'')],
                fq_body = Encode data\<rparr> in
      case http w q of
        (w', NoReply) \<Rightarrow> (w', q, Inl AtTransport)
      | (w', Reply status body) \<Rightarrow>
          (w', q, if status \<ge> 400 then Inl (AtStatus status body) else Inr body))"

text \<open>Every operation waits, posts its form and decodes the reply; \<open>None\<close> is a wait that goes on.\<close>

definition at_call where
  "at_call http dec endpoint data now wakes c w =
     (case at_Wait now wakes (ak_limiter c) of
        (r, Granted) \<Rightarrow>
          (case at_makeRequest http (ak_config c) ''POST'' endpoint data w of
             (w', q, Inl e) \<Rightarrow> (w', c\<lparr>ak_limiter := r\<rparr>, [q], Some (Inl e))
           | (w', q, Inr body) \<Rightarrow>
               (w', c\<lparr>ak_limiter := r\<rparr>, [q], Some (case dec body of None \<Rightarrow> Inl AtUndecodable | Some x \<Rightarrow> Inr x)))
      | (r, StillWaiting) \<Rightarrow> (w, c\<lparr>ak_limiter := r\<rparr>, [], None)
      | (r, _) \<Rightarrow> (w, c\<lparr>ak_limiter := r\<rparr>, [], Some (Inl AtRateLimit)))"

definition sms_form :: "AfricaTalkingConfig \<Rightarrow> SMSRequest \<Rightarrow> form_values" where
  "sms_form cfg req =
     (let data = form_Set ''message'' (sms_Message req) (form_Set ''to'' (Join (sms_To req) '','')
                   (form_Set ''username'' (ac_Username cfg) [])) in
      if sms_From req \<noteq> '''' then form_Set ''from'' (sms_From req) data else data)"

definition SendSMS where
  "SendSMS http dec req now wakes c w =
     at_call http dec ''/messaging'' (sms_form (ak_config c) req) now wakes c w"

definition otp_form :: "AfricaTalkingConfig \<Rightarrow> OTPRequest \<Rightarrow> form_values" where
  "otp_form cfg req =
     form_Set ''validity'' (FormatInt (otp_Validity req)) (form_Set ''length'' (FormatInt (otp_Length req))
       (form_Set ''phoneNumber'' (otp_PhoneNumber req) (form_Set ''username'' (ac_Username cfg) [])))"

definition SendOTP where
  "SendOTP http dec req now wakes c w =
     at_call http dec ''/otp/send'' (otp_form (ak_config c) req) now wakes c w"

definition verify_form :: "AfricaTalkingConfig \<Rightarrow> OTPVerifyRequest \<Rightarrow> form_values" where
  "verify_form cfg req =
     form_Set ''otpCode'' (ov_OTPCode req) (form_Set ''phoneNumber'' (ov_PhoneNumber req)
       (form_Set ''username'' (ac_Username cfg) []))"

definition VerifyOTP where
  "VerifyOTP http dec req now wakes c w =
     at_call http dec ''/otp/verify'' (verify_form (ak_config c) req) now wakes c w"

definition ussd_form :: "AfricaTalkingConfig \<Rightarrow> USSDRequest \<Rightarrow> form_values" where
  "ussd_form cfg req =
     form_Set ''sessionId'' (us_SessionID req) (form_Set ''text'' (us_Text req)
       (form_Set ''phoneNumber'' (us_PhoneNumber req) (form_Set ''username'' (ac_Username cfg) [])))"

definition SendUSSD where
  "SendUSSD http dec req now wakes c w =
     at_call http dec ''/ussd'' (ussd_form (ak_config c) req) now wakes c w"

section \<open>Reading a form\<close>

text \<open>\<open>ParseQuery\<close> of the other side: fields apart, name from value, escapes undone.\<close>

fun QueryUnescape :: "string \<Rightarrow> string option" where
  "QueryUnescape [] = Some []"
| "QueryUnescape (c # s) =
     (if c = CHR ''+'' then map_option (Cons (CHR '' '')) (QueryUnescape s)
      else if c = CHR ''%''
      then (case s of
              a # b # r \<Rightarrow>
                (case (hex_digit_value a, hex_digit_value b) of
                   (Some m, Some n) \<Rightarrow> map_option (Cons (char_of (16 * m + n))) (QueryUnescape r)
                 | _ \<Rightarrow> None)
            | _ \<Rightarrow> None)
      else map_option (Cons c) (QueryUnescape s))"

definition read_field :: "string \<Rightarrow> (string \<times> string) option" where
  "read_field s =
     (case (QueryUnescape (takeWhile (\<lambda>x. x \<noteq> CHR ''='') s), QueryUnescape (drop 1 (dropWhile (\<lambda>x. x \<noteq> CHR ''='') s))) of
        (Some k, Some v) \<Rightarrow> Some (k, v)
      | _ \<Rightarrow> None)"

definition ParseQuery :: "string \<Rightarrow> form_values option" where
  "ParseQuery s = (if s = '''' then Some [] else those (map read_field (split_on CHR ''&'' s)))"

lemma upper_hex_value:
  "d < 16 \<Longrightarrow> hex_digit_value (upper_hex d) = Some d \<and> unreserved (upper_hex d)"
  by (auto simp: upper_hex_def hex_digit_value_def unreserved_def Let_def)

lemma unreserved_not [simp]:
  "\<not> unreserved CHR ''+''" "\<not> unreserved CHR ''%''" "\<not> unreserved CHR ''&''" "\<not> unreserved CHR ''=''" "\<not> unreserved CHR '' ''"
  by (simp_all add: unreserved_def)

lemma QueryUnescape_Escape: "QueryUnescape (QueryEscape s) = Some s"
proof (induction s)
  case (Cons c s)
  let ?n = "of_char c :: nat"
  have n: "?n div 16 < 16" "?n mod 16 < 16" "16 * (?n div 16) + ?n mod 16 = ?n" by (simp_all add: less_mult_imp_div_less)
  have ne: "unreserved c \<Longrightarrow> c \<noteq> CHR ''+'' \<and> c \<noteq> CHR ''%''" using unreserved_not by metis
  show ?case
    using Cons n ne upper_hex_value [OF n(1)] upper_hex_value [OF n(2)] by auto
qed simp

lemma QueryEscape_chars: "x \<in> set (QueryEscape s) \<Longrightarrow> unreserved x \<or> x = CHR ''+'' \<or> x = CHR ''%''"
proof (induction s)
  case (Cons c s)
  have "(of_char c :: nat) div 16 < 16" "(of_char c :: nat) mod 16 < 16" by (simp_all add: less_mult_imp_div_less)
  from Cons upper_hex_value [OF this(1)] upper_hex_value [OF this(2)] show ?case by (auto split: if_splits)
qed simp

lemma QueryEscape_plain: "CHR ''='' \<notin> set (QueryEscape s)" "CHR ''&'' \<notin> set (QueryEscape s)"
  using QueryEscape_chars [of "CHR ''=''" s] QueryEscape_chars [of "CHR ''&''" s] unreserved_not by auto

lemma read_field_written: "read_field (QueryEscape k @ ''='' @ QueryEscape v) = Some (k, v)"
proof -
  have "takeWhile (\<lambda>x. x \<noteq> CHR ''='') (QueryEscape k @ CHR ''='' # QueryEscape v) = QueryEscape k"
    "dropWhile (\<lambda>x. x \<noteq> CHR ''='') (QueryEscape k @ CHR ''='' # QueryEscape v) = CHR ''='' # QueryEscape v"
    using QueryEscape_plain(1) [of k] by (subst takeWhile_append2 dropWhile_append2; fastforce)+
  then show ?thesis by (simp add: read_field_def QueryUnescape_Escape)
qed

lemma split_on_Join: "xs \<noteq> [] \<Longrightarrow> \<forall>x \<in> set xs. c \<notin> set x \<Longrightarrow> split_on c (Join xs [c]) = xs"
proof (induction xs)
  case (Cons x xs)
  then show ?case by (cases xs) (simp_all add: split_on_parts)
qed simp

lemma those_map_back: "(\<And>x. x \<in> set xs \<Longrightarrow> f (g x) = Some x) \<Longrightarrow> those (map (f \<circ> g) xs) = Some xs"
  by (induction xs) auto

lemma ParseQuery_Encode: "ParseQuery (Encode f) = Some (sort_key fst f)"
proof (cases "f = []")
  case True
  then show ?thesis by (simp add: Encode_def ParseQuery_def)
next
  case False
  let ?w = "\<lambda>(k, v). QueryEscape k @ ''='' @ QueryEscape v"
  let ?fs = "map ?w (sort_key fst f)"
  have ne: "sort_key fst f \<noteq> []" using False by (metis length_0_conv length_sort)
  have "\<forall>x \<in> set ?fs. CHR ''&'' \<notin> set x" using QueryEscape_plain(2) by auto
  then have s: "split_on CHR ''&'' (Encode f) = ?fs" using ne unfolding Encode_def by (intro split_on_Join) simp_all
  have "Encode f \<noteq> ''''"
  proof
    assume "Encode f = ''''"
    then have "?fs = [[]]" using s by simp
    then show False by (auto split: prod.splits)
  qed
  moreover have "those (map read_field ?fs) = Some (sort_key fst f)"
    unfolding map_map by (rule those_map_back) (auto simp: read_field_written [simplified])
  ultimately show ?thesis using s by (simp add: ParseQuery_def)
qed

text \<open>What a call leaves behind: the request, if the limiter let it through, with the encoded form.\<close>

lemma at_call_sent:
  assumes "at_call http dec endpoint data now wakes c w = (w', c', sent, r)"
  shows "sent = (if snd (at_Wait now wakes (ak_limiter c)) = Granted
      then [\<lparr>fq_method = ''POST'', fq_url = ac_BaseURL (ak_config c) @ endpoint,
        fq_headers = [(''Content-Type'', ''application/x-www-form-urlencoded''), (''Accept'', ''application/json'')],
        fq_body = Encode data\<rparr>] else [])"
  using assms by (auto simp: at_call_def at_makeRequest_def Let_def split: prod.splits wait_result.splits http_reply.splits sum.splits)

text \<open>C35: whatever characters the texts contain, the request for a message says exactly what the caller asked
  for. A call sends at most one request; its form, read back, has the message, the recipients and the
  user name, and the sender if one is given; recipients without commas are read back as they were.\<close>

theorem message_form_read_back:
  assumes "SendSMS http dec req now wakes c w = (w', c', sent, r)"
  shows "sent = [] \<or> (\<exists>q. sent = [q] \<and> fq_url q = ac_BaseURL (ak_config c) @ ''/messaging'' \<and>
    ParseQuery (fq_body q) = Some ((if sms_From req \<noteq> '''' then [(''from'', sms_From req)] else []) @
      [(''message'', sms_Message req), (''to'', Join (sms_To req) '',''), (''username'', ac_Username (ak_config c))]) \<and>
    (sms_To req \<noteq> [] \<longrightarrow> (\<forall>n \<in> set (sms_To req). CHR '','' \<notin> set n) \<longrightarrow> split_on CHR '','' (Join (sms_To req) '','') = sms_To req))"
  using at_call_sent [OF assms [unfolded SendSMS_def]]
  by (auto simp: ParseQuery_Encode sms_form_def form_Set_def Let_def split_on_Join insort_key_def)

lemma message_form_read_back_witness:
  "\<exists>q. fst (snd (snd (SendSMS (\<lambda>w q. ((), Reply 201 ''{}'')) (\<lambda>_. Some ())
        \<lparr>sms_To = [''+254700000001'', ''+254700000002''], sms_Message = ''50%&from=x'', sms_From = ''''\<rparr> 0 []
        (NewAfricaTalkingClient 0 None) ()))) = [q] \<and>
     ParseQuery (fq_body q) = Some [(''message'', ''50%&from=x''), (''to'', ''+254700000001,+254700000002''), (''username'', '''')]"
proof -
  let ?req = "\<lparr>sms_To = [''+254700000001'', ''+254700000002''], sms_Message = ''50%&from=x'', sms_From = ''''\<rparr>"
  let ?c = "NewAfricaTalkingClient 0 None"
  obtain w' c' sent r where s: "SendSMS (\<lambda>w q. ((), Reply 201 ''{}'')) (\<lambda>_. Some ()) ?req 0 [] ?c () = (w', c', sent, r)"
    by (metis prod_cases4)
  have g: "snd (at_Wait 0 [] (ak_limiter ?c)) = Granted"
    by (simp add: at_Wait_def at_refill_def NewAfricaTalkingClient_def DefaultAfricaTalkingConfig_def NewRateLimiter_def
        at_loop.simps Let_def)
  have "sent \<noteq> []" using at_call_sent [OF s [unfolded SendSMS_def]] g by simp
  then show ?thesis using message_form_read_back [OF s] s
    by (auto simp: NewAfricaTalkingClient_def DefaultAfricaTalkingConfig_def)
qed

text \<open>The key of the account makes no difference to what is sent: no header carries it.\<close>

lemma api_key_never_sent:
  assumes "at_call http dec endpoint data now wakes c w = (w1, c1, sent1, r1)"
    and "at_call http dec endpoint data now wakes (c\<lparr>ak_config := (ak_config c)\<lparr>ac_APIKey := key\<rparr>\<rparr>) w = (w2, c2, sent2, r2)"
  shows "sent1 = sent2" "w1 = w2" "r1 = r2"
  using assms by (auto simp: at_call_def at_makeRequest_def Let_def split: prod.splits wait_result.splits http_reply.splits sum.splits)

text \<open>The addresses of Genius Sports, in contrast, are put together without escaping.\<close>

section \<open>The two limiters\<close>

text \<open>The readings of the clock that the feeds' limiter would see.\<close>

fun readings_of :: "time \<Rightarrow> wake list \<Rightarrow> (time \<times> bool) list" where
  "readings_of now [] = [(now, False)]"
| "readings_of now (Cancelled # _) = [(now, True)]"
| "readings_of now (Woken t # ws) = (now, False) # readings_of t ws"

lemma at_refill_refilled:
  assumes "0 < rl_interval r"
  shows "at_refill now r = refilled now r"
proof -
  let ?e = "now - rl_lastRefill r" and ?I = "rl_interval r"
  have "?I \<le> ?e \<longleftrightarrow> 0 < go_quot ?e ?I"
  proof (cases "0 \<le> ?e")
    case True
    then show ?thesis using assms by (simp add: go_quot_def pos_imp_zdiv_pos_iff)
  next
    case False
    then have "?e div ?I < 0" "\<not> ?I \<le> ?e" using assms by (auto simp: pos_imp_zdiv_neg_iff)
    moreover have "- ((- ?e) div ?I) \<le> 0" using assms False by (simp add: pos_imp_zdiv_nonneg_iff)
    ultimately show ?thesis using assms False by (simp add: go_quot_def)
  qed
  then show ?thesis by (auto simp: at_refill_def refilled_def Let_def min_def)
qed

lemma at_loop_Wait:
  assumes "0 < rl_interval r" "0 < rl_maxTokens r"
  shows "at_loop (at_refill now r) wakes = Wait r (readings_of now wakes)"
  using assms
proof (induction wakes arbitrary: r now)
  case Nil
  have "rl_maxTokens (refilled now r) = rl_maxTokens r" by (simp add: refilled_def Let_def)
  then show ?case using Nil by (simp add: at_loop.simps at_refill_refilled tryConsume_def Let_def)
next
  case (Cons k wakes)
  let ?r = "refilled now r"
  have keep: "rl_interval ?r = rl_interval r" "rl_maxTokens ?r = rl_maxTokens r" by (simp_all add: refilled_def Let_def)
  have "at_loop (at_refill t ?r) wakes = Wait ?r (readings_of t wakes)" for t using Cons keep by simp
  then show ?case using Cons.prems keep
    by (cases k) (auto simp: at_loop.simps [of ?r] at_refill_refilled tryConsume_def Let_def)
qed

text \<open>The two limiters of the platform, written apart, are one: with room for a request and an interval,
  the loop of the messaging client, which tests before it refills again, ends exactly as that of the
  odds feeds does on the same readings of the clock, and leaves the same bucket. So neither lets
  through more than its size and one request per interval.\<close>

theorem limiters_agree:
  assumes "0 < rl_interval r" "0 < rl_maxTokens r"
  shows "at_Wait now wakes r = Wait r (readings_of now wakes)"
  unfolding at_Wait_def using at_loop_Wait [OF assms] .

lemma limiters_agree_witness:
  "at_Wait 0 [Woken 1, Woken Second, Cancelled] \<lparr>rl_tokens = 0, rl_maxTokens = 1, rl_interval = Second, rl_lastRefill = 0\<rparr> =
   Wait \<lparr>rl_tokens = 0, rl_maxTokens = 1, rl_interval = Second, rl_lastRefill = 0\<rparr> [(0, False), (1, False), (Second, True)]"
  using limiters_agree [of "\<lparr>rl_tokens = 0, rl_maxTokens = 1, rl_interval = Second, rl_lastRefill = 0\<rparr>" 0
      "[Woken 1, Woken Second, Cancelled]"] by simp

text \<open>With a limit of zero they differ: the feeds divide by it, the messaging client waits for ever.\<close>

lemma zero_limit:
  assumes "0 < interval"
  shows "snd (at_Wait now wakes (NewRateLimiter t0 0 interval)) \<in> {StillWaiting, GaveUp}"
    and "snd (Wait (NewRateLimiter t0 0 interval) ((now, quit) # readings)) = DivisionPanic"
proof -
  have z: "rl_tokens r \<le> 0 \<Longrightarrow> rl_maxTokens r = 0 \<Longrightarrow> 0 < rl_interval r \<Longrightarrow>
      rl_tokens (at_refill t r) \<le> 0 \<and> rl_maxTokens (at_refill t r) = 0 \<and> 0 < rl_interval (at_refill t r)" for r t
    by (simp add: at_refill_def Let_def)
  have "snd (at_loop r wakes) \<in> {StillWaiting, GaveUp}"
    if "rl_tokens r \<le> 0" "rl_maxTokens r = 0" "0 < rl_interval r" for r
    using that
  proof (induction wakes arbitrary: r)
    case Nil
    then show ?case by (simp add: at_loop.simps)
  next
    case (Cons k wakes)
    then show ?case using z by (cases k) (simp_all add: at_loop.simps [of r])
  qed
  then show "snd (at_Wait now wakes (NewRateLimiter t0 0 interval)) \<in> {StillWaiting, GaveUp}"
    using z [of "NewRateLimiter t0 0 interval" now] assms by (simp add: at_Wait_def NewRateLimiter_def)
  show "snd (Wait (NewRateLimiter t0 0 interval) ((now, quit) # readings)) = DivisionPanic"
    by (simp add: tryConsume_def refilled_def NewRateLimiter_def Let_def)
qed

end
