(* ===== verification/Transport.thy ===== *)
theory Transport
  imports EditBet LiveBetting GoText
begin

text \<open>
  \<open>internal/transport/http\<close>: answers, routing, and the endpoints of live betting (\<open>live.go\<close>,
  \<open>live_types.go\<close>) and of bet editing (\<open>edit.go\<close>), over the models of the two services. A path is
  clean, as \<open>ServeMux\<close> redirects others first. The decoders of bodies, \<open>decimal.NewFromString\<close> and
  \<open>uuid.Parse\<close> are arguments, and so is what the generator of identifiers returns.
\<close>

section \<open>Answers\<close>

datatype ('e, 'b) answer =
    Answered int 'b
  | Refused int string 'e
  | Redirected
  | PageNotFound
  | Panicked

text \<open>\<open>WriteError\<close> calls \<open>Error\<close> on its argument, which some callers leave \<open>nil\<close>.\<close>

definition WriteError :: "'e option \<Rightarrow> string \<Rightarrow> int \<Rightarrow> ('e, 'b) answer" where
  "WriteError err message statusCode =
     (case err of None \<Rightarrow> Panicked | Some e \<Rightarrow> Refused statusCode message e)"

definition WriteJSON :: "'b \<Rightarrow> int \<Rightarrow> ('e, 'b) answer" where
  "WriteJSON data statusCode = Answered statusCode data"

definition getUserID :: "string \<Rightarrow> string" where
  "getUserID gid = ''user-'' @ gid"

section \<open>Routing\<close>

text \<open>
  \<open>http.ServeMux\<close>: a pattern that is the path wins; a path whose pattern with a slash is registered is
  redirected there; else the longest pattern that ends in a slash and begins the path.
\<close>

datatype 'h route = Handled 'h | SlashRedirect | NoRoute

definition mux_match :: "(string \<times> 'h) list \<Rightarrow> string \<Rightarrow> 'h route" where
  "mux_match routes path =
     (case map_of routes path of
        Some h \<Rightarrow> Handled h
      | None \<Rightarrow>
          if map_of routes (path @ ''/'') \<noteq> None then SlashRedirect
          else
            (case filter (\<lambda>(p, h). p \<noteq> '''' \<and> last p = CHR ''/'' \<and> HasPrefix path p) routes of
               [] \<Rightarrow> NoRoute
             | r # rs \<Rightarrow> Handled (snd (foldl (\<lambda>a b. if length (fst a) < length (fst b) then b else a) r rs))))"

section \<open>Live betting\<close>

record http_LiveBetRequest =
  hl_MatchID :: string
  hl_MarketID :: string
  hl_OutcomeID :: string
  hl_Amount :: decimal
  hl_Odds :: decimal

record http_OddsUpdateRequest =
  ho_MatchID :: string
  ho_MarketID :: string
  ho_OutcomeID :: string
  ho_NewOdds :: decimal

record SuspendMatchRequest =
  hs_MatchID :: string
  hs_Reason :: string

record http_LiveBettingMetrics =
  hm_TotalMatches :: int
  hm_ActiveMatches :: int
  hm_SuspendedMatches :: int
  hm_OddsUpdateInterval :: duration
  hm_LastActivity :: time

datatype live_http_error = LiveBody | LiveErr live_error | LiveStore sql_error

text \<open>The conversions are stubs: a list of matches is always empty, a match is always left out.\<close>

datatype live_answer =
    MatchesAnswer
  | MatchAnswer
  | BetAnswer LiveBetResponse
  | DoneAnswer
  | MetricsAnswer http_LiveBettingMetrics

type_synonym live_http = "(live_http_error, live_answer) answer"

definition http_GetLiveMatches :: "string \<Rightarrow> LiveBettingService \<Rightarrow> live_http" where
  "http_GetLiveMatches method' S =
     (if method' \<noteq> ''GET'' then WriteError None ''Method not allowed'' 405 else WriteJSON MatchesAnswer 200)"

definition http_GetLiveMatch :: "string \<Rightarrow> string \<Rightarrow> LiveBettingService \<Rightarrow> live_http" where
  "http_GetLiveMatch method' url S =
     (if method' \<noteq> ''GET'' then WriteError None ''Method not allowed'' 405
      else
        let path = TrimPrefix url ''/api/live/matches/'' in
        if path = '''' then WriteError None ''Match ID is required'' 400
        else
          (case GetLiveMatch S path of
             Inl e \<Rightarrow> WriteError (Some (LiveErr e)) ''Failed to get live match'' 404
           | Inr m \<Rightarrow> WriteJSON MatchAnswer 200))"

text \<open>Both validations are stubs that accept everything.\<close>

definition validateBetRequest :: "'a \<Rightarrow> bool" where
  "validateBetRequest req = True"

definition http_PlaceLiveBet ::
  "sql_env \<Rightarrow> (string \<Rightarrow> bool) \<Rightarrow> (nat \<Rightarrow> time) \<Rightarrow> string \<Rightarrow> string \<Rightarrow> string \<Rightarrow> http_LiveBetRequest option \<Rightarrow>
     sports_db \<times> LiveBettingService \<Rightarrow> (sports_db \<times> LiveBettingService) \<times> live_http" where
  "http_PlaceLiveBet E parses now uid gid method' body sS =
     (if method' \<noteq> ''POST'' then (sS, WriteError None ''Method not allowed'' 405)
      else
        (case body of
           None \<Rightarrow> (sS, WriteError (Some LiveBody) ''Invalid request body'' 400)
         | Some req \<Rightarrow>
             if \<not> validateBetRequest req then (sS, WriteError (Some LiveBody) ''Invalid request'' 400)
             else
               let userID = getUserID uid in
               if userID = '''' then (sS, WriteError None ''User not authenticated'' 401)
               else
                 (case PlaceLiveBet E parses now gid sS
                         \<lparr>lr_MatchID = hl_MatchID req, lr_MarketID = hl_MarketID req, lr_OutcomeID = hl_OutcomeID req,
                          lr_Amount = hl_Amount req, lr_Odds = hl_Odds req, lr_UserID = userID\<rparr> of
                    (sS', response, Some e) \<Rightarrow> (sS', WriteError (Some (LiveStore e)) ''Failed to place bet'' 500)
                  | (sS', response, None) \<Rightarrow> (sS', WriteJSON (BetAnswer response) 200))))"

definition http_UpdateOdds ::
  "time \<Rightarrow> time \<Rightarrow> string \<Rightarrow> http_OddsUpdateRequest option \<Rightarrow> LiveBettingService \<Rightarrow> LiveBettingService \<times> live_http" where
  "http_UpdateOdds t1 t2 method' body S =
     (if method' \<noteq> ''POST'' then (S, WriteError None ''Method not allowed'' 405)
      else
        (case body of
           None \<Rightarrow> (S, WriteError (Some LiveBody) ''Invalid request body'' 400)
         | Some req \<Rightarrow>
             (case UpdateLiveOdds t1 t2 S
                     \<lparr>oq_MatchID = ho_MatchID req, oq_MarketID = ho_MarketID req, oq_OutcomeID = ho_OutcomeID req,
                      oq_NewOdds = ho_NewOdds req, oq_Markets = [], oq_MatchOdds = None\<rparr> of
                (S', Some e) \<Rightarrow> (S', WriteError (Some (LiveErr e)) ''Failed to update odds'' 500)
              | (S', None) \<Rightarrow> (S', WriteJSON DoneAnswer 200))))"

definition http_SuspendMatch ::
  "string \<Rightarrow> SuspendMatchRequest option \<Rightarrow> LiveBettingService \<Rightarrow> LiveBettingService \<times> live_http" where
  "http_SuspendMatch method' body S =
     (if method' \<noteq> ''POST'' then (S, WriteError None ''Method not allowed'' 405)
      else
        (case body of
           None \<Rightarrow> (S, WriteError (Some LiveBody) ''Invalid request body'' 400)
         | Some req \<Rightarrow>
             if hs_MatchID req = '''' then (S, WriteError None ''Match ID is required'' 400)
             else
               (case SuspendMatch S (hs_MatchID req) (hs_Reason req) of
                  (S', Some e) \<Rightarrow> (S', WriteError (Some (LiveErr e)) ''Failed to suspend match'' 500)
                | (S', None) \<Rightarrow> (S', WriteJSON DoneAnswer 200))))"

definition http_GetMetrics :: "time \<Rightarrow> string \<Rightarrow> LiveBettingService \<Rightarrow> live_http" where
  "http_GetMetrics now method' S =
     (if method' \<noteq> ''GET'' then WriteError None ''Method not allowed'' 405
      else
        let metrics = live_GetMetrics now S in
        WriteJSON (MetricsAnswer
          \<lparr>hm_TotalMatches = lx_TotalMatches metrics, hm_ActiveMatches = lx_ActiveMatches metrics,
           hm_SuspendedMatches = lx_SuspendedMatches metrics, hm_OddsUpdateInterval = lx_OddsUpdateInterval metrics,
           hm_LastActivity = lx_LastActivity metrics\<rparr>) 200)"

section \<open>Bet editing\<close>

record http_EditBetRequest =
  he_BetID :: string
  he_NewAmount :: string
  he_NewOdds :: string
  he_NewOutcomeID :: string
  he_Reason :: string

datatype edit_http_error = EditBody | EditNumber | EditErr edit_error | EditStore sql_error

datatype edit_answer =
    EditedAnswer EditBetResponse
  | EditablesAnswer "SportBet list" int
  | HistoryAnswer string string

type_synonym edit_http = "(edit_http_error, edit_answer) answer"

text \<open>The part of the path after the first \<open>bets\<close>.\<close>

fun after_bets :: "string list \<Rightarrow> string" where
  "after_bets (p # q # ps) = (if p = ''bets'' then q else after_bets (q # ps))"
| "after_bets _ = ''''"

definition http_EditBet ::
  "sql_env \<Rightarrow> 'w edit_ports \<Rightarrow> (nat \<Rightarrow> time) \<Rightarrow> (string \<Rightarrow> decimal option) \<Rightarrow> string \<Rightarrow> string \<Rightarrow> string \<Rightarrow>
     http_EditBetRequest option \<Rightarrow> sports_db \<times> 'w \<Rightarrow> (sports_db \<times> 'w) \<times> edit_http" where
  "http_EditBet E P now rd uid gid url body sw =
     (let betID = after_bets (split_on CHR ''/'' url) in
      if betID = '''' then (sw, WriteError None ''Bet ID is required'' 400)
      else
        (case body of
           None \<Rightarrow> (sw, WriteError (Some EditBody) ''Invalid request body'' 400)
         | Some req \<Rightarrow>
             (case rd (he_NewAmount req) of
                None \<Rightarrow> (sw, WriteError (Some EditNumber) ''Invalid new amount'' 400)
              | Some newAmount \<Rightarrow>
                  (case rd (he_NewOdds req) of
                     None \<Rightarrow> (sw, WriteError (Some EditNumber) ''Invalid new odds'' 400)
                   | Some newOdds \<Rightarrow>
                       if newAmount \<le> 0 then (sw, WriteError None ''New amount must be greater than zero'' 400)
                       else if newOdds \<le> 0 then (sw, WriteError None ''New odds must be greater than zero'' 400)
                       else
                         (case EditBet E P now gid sw
                                 \<lparr>er_BetID = betID, er_UserID = getUserID uid, er_NewAmount = newAmount,
                                  er_NewOdds = newOdds, er_NewOutcomeID = he_NewOutcomeID req,
                                  er_Reason = (if he_Reason req = '''' then ''User requested edit'' else he_Reason req)\<rparr> of
                            (sw', Inl e) \<Rightarrow> (sw', WriteError (Some (EditErr e)) ''Failed to edit bet'' 500)
                          | (sw', Inr response) \<Rightarrow> (sw', WriteJSON (EditedAnswer response) 200))))))"

definition http_GetEditableBets ::
  "sql_env \<Rightarrow> (SportBet \<Rightarrow> time \<times> time) \<Rightarrow> string \<Rightarrow> sports_db \<Rightarrow> edit_http" where
  "http_GetEditableBets E clock uid s =
     (case GetEditableBets E clock s (getUserID uid) of
        Inl e \<Rightarrow> WriteError (Some (EditStore e)) ''Failed to get editable bets'' 500
      | Inr found \<Rightarrow> WriteJSON (EditablesAnswer found (int (length found))) 200)"

definition GetEditHistory :: "string \<Rightarrow> string \<Rightarrow> edit_http" where
  "GetEditHistory uid url =
     (let betID = after_bets (split_on CHR ''/'' url) in
      if betID = '''' then WriteError None ''Bet ID is required'' 400
      else WriteJSON (HistoryAnswer betID (getUserID uid)) 200)"

section \<open>The endpoints together\<close>

datatype endpoint =
    EpLiveMatches
  | EpLiveMatch
  | EpLiveBet
  | EpLiveOdds
  | EpLiveSuspend
  | EpLiveMetrics
  | EpEditables
  | EpEdit

definition live_routes :: "(string \<times> endpoint) list" where
  "live_routes =
     [(''/api/live/matches'', EpLiveMatches), (''/api/live/matches/'', EpLiveMatch), (''/api/live/bet'', EpLiveBet),
      (''/api/live/odds/update'', EpLiveOdds), (''/api/live/match/suspend'', EpLiveSuspend),
      (''/api/live/metrics'', EpLiveMetrics)]"

definition edit_routes :: "(string \<times> endpoint) list" where
  "edit_routes = [(''/api/edit/bets'', EpEditables), (''/api/edit/bets/'', EpEdit)]"

text \<open>A request, and how its body decodes for each endpoint.\<close>

record sports_call =
  sc_method :: string
  sc_path :: string
  sc_bet :: "http_LiveBetRequest option"
  sc_odds :: "http_OddsUpdateRequest option"
  sc_suspend :: "SuspendMatchRequest option"
  sc_edit :: "http_EditBetRequest option"
  sc_uid :: string
  sc_gid :: string
  sc_now :: "nat \<Rightarrow> time"

text \<open>What the two services keep: the tables, the cache of live matches, the wallet of the edits.\<close>

type_synonym 'w sports_state = "sports_db \<times> LiveBettingService \<times> 'w"

definition serve_sports ::
  "sql_env \<Rightarrow> (string \<Rightarrow> bool) \<Rightarrow> 'w edit_ports \<Rightarrow> (string \<Rightarrow> decimal option) \<Rightarrow> sports_call \<Rightarrow> 'w sports_state \<Rightarrow>
     'w sports_state \<times> (live_http + edit_http)" where
  "serve_sports E parses P rd c st =
     (case st of (s, S, w) \<Rightarrow>
      case mux_match (live_routes @ edit_routes) (sc_path c) of
        NoRoute \<Rightarrow> (st, Inl PageNotFound)
      | SlashRedirect \<Rightarrow> (st, Inl Redirected)
      | Handled EpLiveMatches \<Rightarrow> (st, Inl (http_GetLiveMatches (sc_method c) S))
      | Handled EpLiveMatch \<Rightarrow> (st, Inl (http_GetLiveMatch (sc_method c) (sc_path c) S))
      | Handled EpLiveBet \<Rightarrow>
          (case http_PlaceLiveBet E parses (sc_now c) (sc_uid c) (sc_gid c) (sc_method c) (sc_bet c) (s, S) of
             ((s', S'), r) \<Rightarrow> ((s', S', w), Inl r))
      | Handled EpLiveOdds \<Rightarrow>
          (case http_UpdateOdds (sc_now c 0) (sc_now c 1) (sc_method c) (sc_odds c) S of (S', r) \<Rightarrow> ((s, S', w), Inl r))
      | Handled EpLiveSuspend \<Rightarrow>
          (case http_SuspendMatch (sc_method c) (sc_suspend c) S of (S', r) \<Rightarrow> ((s, S', w), Inl r))
      | Handled EpLiveMetrics \<Rightarrow> (st, Inl (http_GetMetrics (sc_now c 0) (sc_method c) S))
      | Handled EpEditables \<Rightarrow> (st, Inr (http_GetEditableBets E (\<lambda>_. (sc_now c 0, sc_now c 1)) (sc_uid c) s))
      | Handled EpEdit \<Rightarrow>
          (case http_EditBet E P (sc_now c) rd (sc_uid c) (sc_gid c) (sc_path c) (sc_edit c) (s, w) of
             ((s', w'), r) \<Rightarrow> ((s', S, w'), Inr r)))"

fun serve_all where
  "serve_all E parses P rd [] st = st"
| "serve_all E parses P rd (c # cs) st = serve_all E parses P rd cs (fst (serve_sports E parses P rd c st))"

section \<open>What the endpoints can do\<close>

text \<open>Texts that \<open>uuid.Parse\<close> of the version in use accepts have a hexadecimal digit in second place, or
  begin with \<open>urn:uuid:\<close> in letters of either case.\<close>

definition uuid_parser :: "(string \<Rightarrow> bool) \<Rightarrow> bool" where
  "uuid_parser parses \<longleftrightarrow> (\<forall>t. parses t \<longrightarrow> 1 < length t \<and> t ! 1 \<noteq> CHR ''s'')"

definition no_dummy_users :: "sports_db \<Rightarrow> bool" where
  "no_dummy_users s \<longleftrightarrow> (\<forall>r \<in> set (sport_bets s). \<not> HasPrefix (sb_UserID (sr_bet r)) ''user-'')"

lemma dummy_not_uuid: "uuid_parser parses \<Longrightarrow> \<not> parses (getUserID gid)"
  by (auto simp: uuid_parser_def getUserID_def)

lemma read_bet_user:
  "SportBetRepository_GetByID E s i = Inr b \<Longrightarrow> \<exists>r \<in> set (sport_bets s). sb_UserID b = sb_UserID (sr_bet r)"
  by (auto simp: SportBetRepository_GetByID_def scan_bet_def dest!: select_row_Some split: if_splits option.splits)

lemma dummy_prefix: "HasPrefix (getUserID gid) ''user-''"
  unfolding getUserID_def by (rule HasPrefix_append)

lemma dummy_edit_refused:
  assumes "no_dummy_users s" "er_UserID req = getUserID uid"
  shows "\<exists>e. EditBet E P now gid (s, w) req = ((s, w), Inl e)"
proof (cases "SportBetRepository_GetByID E s (er_BetID req)")
  case (Inr b)
  then have "sb_UserID b \<noteq> er_UserID req"
    using read_bet_user [OF Inr] assms dummy_prefix [of uid] by (auto simp: no_dummy_users_def)
  then show ?thesis using Inr by (simp add: EditBet_def)
qed (simp add: EditBet_def)

text \<open>An edit over HTTP is refused at once or is the service's answer to some request of the dummy user.\<close>

lemma http_EditBet_cases:
  obtains r where "http_EditBet E P now rd uid gid url body sw = (sw, r)" "\<And>status x. r \<noteq> Answered status x"
  | req where "er_UserID req = getUserID uid"
    "http_EditBet E P now rd uid gid url body sw =
       (case EditBet E P now gid sw req of
          (sw', Inl e) \<Rightarrow> (sw', WriteError (Some (EditErr e)) ''Failed to edit bet'' 500)
        | (sw', Inr response) \<Rightarrow> (sw', WriteJSON (EditedAnswer response) 200))"
proof (cases body)
  case None
  show ?thesis
    by (rule that(1) [of "snd (http_EditBet E P now rd uid gid url body sw)"])
      (use None in \<open>auto simp: http_EditBet_def Let_def WriteError_def\<close>)
next
  case (Some q)
  show ?thesis
  proof (cases "after_bets (split_on CHR ''/'' url) = '''' \<or> rd (he_NewAmount q) = None \<or> rd (he_NewOdds q) = None \<or>
      the (rd (he_NewAmount q)) \<le> 0 \<or> the (rd (he_NewOdds q)) \<le> 0")
    case True
    show ?thesis
      by (rule that(1) [of "snd (http_EditBet E P now rd uid gid url body sw)"])
        (use Some True in \<open>auto simp: http_EditBet_def Let_def WriteError_def split: option.splits\<close>)
  next
    case False
    let ?req = "\<lparr>er_BetID = after_bets (split_on CHR ''/'' url), er_UserID = getUserID uid,
      er_NewAmount = the (rd (he_NewAmount q)), er_NewOdds = the (rd (he_NewOdds q)), er_NewOutcomeID = he_NewOutcomeID q,
      er_Reason = (if he_Reason q = '''' then ''User requested edit'' else he_Reason q)\<rparr>"
    show ?thesis
      by (rule that(2) [of ?req]) (use Some False in \<open>auto simp: http_EditBet_def Let_def\<close>)
  qed
qed

lemma http_EditBet_refused:
  assumes "no_dummy_users s"
  shows "fst (http_EditBet E P now rd uid gid url body (s, w)) = (s, w)"
    and "snd (http_EditBet E P now rd uid gid url body (s, w)) \<noteq> Answered status x"
proof -
  have "fst (http_EditBet E P now rd uid gid url body (s, w)) = (s, w) \<and>
    (\<forall>status x. snd (http_EditBet E P now rd uid gid url body (s, w)) \<noteq> Answered status x)"
  proof (cases rule: http_EditBet_cases [of E P now rd uid gid url body "(s, w)"])
    case (1 r)
    then show ?thesis by simp
  next
    case (2 req)
    then show ?thesis using dummy_edit_refused [OF assms 2(1), of E P now gid w] by (auto simp: WriteError_def)
  qed
  then show "fst (http_EditBet E P now rd uid gid url body (s, w)) = (s, w)"
    "snd (http_EditBet E P now rd uid gid url body (s, w)) \<noteq> Answered status x" by blast+
qed

lemma http_PlaceLiveBet_refused:
  assumes "uuid_parser parses"
  shows "fst (http_PlaceLiveBet E parses now uid gid m body (s, S)) = (s, S)"
    and "snd (http_PlaceLiveBet E parses now uid gid m body (s, S)) = Answered status (BetAnswer r) \<Longrightarrow> \<not> lp_Success r"
  using dummy_not_uuid [OF assms]
  by (auto simp: http_PlaceLiveBet_def PlaceLiveBet_def Let_def WriteError_def WriteJSON_def validateBetRequest_def refusal_def
      split: option.splits if_splits)

lemma serve_sports_keeps:
  assumes "uuid_parser parses" "no_dummy_users s"
  shows "\<exists>S'. fst (serve_sports E parses P rd c (s, S, w)) = (s, S', w)"
  using http_PlaceLiveBet_refused(1) [OF assms(1), of E "sc_now c" "sc_uid c" "sc_gid c" "sc_method c" "sc_bet c" s S]
    http_EditBet_refused(1) [OF assms(2), of E P "sc_now c" rd "sc_uid c" "sc_gid c" "sc_path c" "sc_edit c" w]
  by (auto simp: serve_sports_def split: route.splits endpoint.splits prod.splits)

lemma serve_sports_answers:
  assumes "uuid_parser parses" "no_dummy_users s"
  shows "snd (serve_sports E parses P rd c (s, S, w)) \<noteq> Inr (Answered status (EditedAnswer r))"
    and "snd (serve_sports E parses P rd c (s, S, w)) = Inl (Answered status (BetAnswer b)) \<Longrightarrow> \<not> lp_Success b"
  using http_PlaceLiveBet_refused(2) [OF assms(1), of E "sc_now c" "sc_uid c" "sc_gid c" "sc_method c" "sc_bet c" s S status b]
    http_EditBet_refused(2) [OF assms(2), of E P "sc_now c" rd "sc_uid c" "sc_gid c" "sc_path c" "sc_edit c" w status "EditedAnswer r"]
  by (auto simp: serve_sports_def http_GetLiveMatches_def http_GetLiveMatch_def http_UpdateOdds_def http_SuspendMatch_def
      http_GetMetrics_def http_GetEditableBets_def WriteError_def WriteJSON_def Let_def
      split: route.splits endpoint.splits prod.splits if_splits sum.splits option.splits)

text \<open>C32: over HTTP nobody can place a live bet or edit a bet. The endpoints make up a new user identifier for
  every request; it is no UUID, so the service refuses the bet, and it is nobody's, so the service
  refuses the edit. Whatever requests arrive, in any order, the bets and the wallets stay as they are
  and no answer reports a placed bet or an edit.\<close>

theorem nothing_placed_over_http:
  assumes "uuid_parser parses" "no_dummy_users s"
  shows "\<exists>S'. serve_all E parses P rd cs (s, S, w) = (s, S', w) \<and>
    (\<forall>c. (\<forall>status r. snd (serve_sports E parses P rd c (s, S', w)) \<noteq> Inr (Answered status (EditedAnswer r))) \<and>
         (\<forall>status b. snd (serve_sports E parses P rd c (s, S', w)) = Inl (Answered status (BetAnswer b)) \<longrightarrow> \<not> lp_Success b))"
proof (induction cs arbitrary: S)
  case Nil
  show ?case using serve_sports_answers [OF assms, where w = w and P = P] by (auto simp del: split_paired_All)
next
  case (Cons c cs)
  obtain S1 where "fst (serve_sports E parses P rd c (s, S, w)) = (s, S1, w)" using serve_sports_keeps [OF assms, of E P rd c S w] by blast
  then show ?case using Cons by simp
qed

section \<open>What they do not ask\<close>

definition post :: "string \<Rightarrow> sports_call" where
  "post path = \<lparr>sc_method = ''POST'', sc_path = path,
     sc_bet = Some \<lparr>hl_MatchID = ''E'', hl_MarketID = ''M'', hl_OutcomeID = ''O'', hl_Amount = 10, hl_Odds = 2\<rparr>,
     sc_odds = Some \<lparr>ho_MatchID = ''E'', ho_MarketID = ''M'', ho_OutcomeID = ''O'', ho_NewOdds = 1000\<rparr>,
     sc_suspend = Some \<lparr>hs_MatchID = ''E'', hs_Reason = ''''\<rparr>,
     sc_edit = Some \<lparr>he_BetID = '''', he_NewAmount = ''1'', he_NewOdds = ''2'', he_NewOutcomeID = '''', he_Reason = ''''\<rparr>,
     sc_uid = ''1'', sc_gid = ''2'', sc_now = (\<lambda>_. 200 * Second)\<rparr>"

definition not_s :: "string \<Rightarrow> bool" where
  "not_s t \<longleftrightarrow> 1 < length t \<and> t ! 1 \<noteq> CHR ''s''"

abbreviation one_or_two :: "string \<Rightarrow> decimal option" where
  "one_or_two t \<equiv> if t = ''1'' then Some 1 else Some 2"

abbreviation demo_state :: "decimal sports_state" where
  "demo_state \<equiv> (sample_placed, sample_live, 10)"

text \<open>The odds of an outcome and a whole match are changed by anybody; no header of the request is looked at.\<close>

lemma anybody_sets_odds:
  "snd (serve_sports sample_env not_s tally_ports one_or_two (post ''/api/live/odds/update'') demo_state) =
     Inl (Answered 200 DoneAnswer)"
  "map (map lo_CurrentOdds \<circ> lk_LiveOdds) (lm_LiveMarkets (snd (hd (liveMatches (fst (snd (fst
     (serve_sports sample_env not_s tally_ports one_or_two (post ''/api/live/odds/update'') demo_state)))))))) = [[1000]]"
  by code_simp+

lemma anybody_suspends:
  "lm_IsSuspended (snd (hd (liveMatches (fst (snd (fst
     (serve_sports sample_env not_s tally_ports one_or_two (post ''/api/live/match/suspend'') demo_state)))))))"
  by code_simp

text \<open>A wrong method, a missing match or a stake of zero is answered with a panic instead of its status.\<close>

lemma refusals_panic:
  "http_GetLiveMatches ''POST'' S = Panicked" "http_GetLiveMatch ''GET'' ''/api/live/matches/'' S = Panicked"
  "http_SuspendMatch ''POST'' (Some \<lparr>hs_MatchID = '''', hs_Reason = x\<rparr>) S = (S, Panicked)"
  "rd (he_NewAmount q) = Some 0 \<Longrightarrow> rd (he_NewOdds q) \<noteq> None \<Longrightarrow>
     http_EditBet E P now rd uid gid ''/api/edit/bets/B'' (Some q) sw = (sw, Panicked)"
  by (auto simp: http_GetLiveMatches_def http_GetLiveMatch_def http_SuspendMatch_def http_EditBet_def WriteError_def
      TrimPrefix_def HasPrefix_def Let_def)

text \<open>A stored bet is not found by its id through the list of matches, and the history has no route of its own.\<close>

lemma history_is_an_edit:
  "mux_match (live_routes @ edit_routes) ''/api/edit/bets/B/history'' = Handled EpEdit"
  "mux_match (live_routes @ edit_routes) ''/api/edit/bets'' = Handled EpEditables"
  "mux_match (live_routes @ edit_routes) ''/api/live/bets'' = NoRoute"
  by code_simp+

lemma nothing_placed_over_http_witness:
  "\<exists>S'. serve_all sample_env not_s tally_ports one_or_two
      [post ''/api/live/bet'', post ''/api/edit/bets/B'', post ''/api/live/match/suspend''] demo_state = (sample_placed, S', 10)"
proof -
  have p: "uuid_parser not_s" by (simp add: uuid_parser_def not_s_def)
  have "map (sb_UserID \<circ> sr_bet) (sport_bets sample_placed) = [''U'']" by code_simp
  then have "no_dummy_users sample_placed" by (auto simp: no_dummy_users_def HasPrefix_def)
  from nothing_placed_over_http [OF p this, of sample_env tally_ports one_or_two
      "[post ''/api/live/bet'', post ''/api/edit/bets/B'', post ''/api/live/match/suspend'']" sample_live 10]
  show ?thesis by blast
qed

end
