(* ===== verification/LedgerTypes.thy ===== *)
theory LedgerTypes
  imports WalletService
begin

text \<open>
  Types of the ledger: what a row of \<open>transactions\<close> must look like for the repository to read it back
  and for its foreign keys to hold, and that the wallet service writes no other rows.
\<close>

text \<open>The three amounts are non-negative values of their columns, and the row can be scanned.\<close>

definition row_typed :: "TxnRow \<Rightarrow> bool" where
  "row_typed r \<longleftrightarrow> (\<forall>x \<in> set [tr_Amount r, tr_BalanceBefore r, tr_BalanceAfter r]. 0 \<le> x \<and> has_scale 2 x) \<and> scan_txn r \<noteq> None"

text \<open>The row belongs to a wallet of the same user and in the same currency.\<close>

definition row_owned :: "Wallet list \<Rightarrow> TxnRow \<Rightarrow> bool" where
  "row_owned ws r \<longleftrightarrow> (\<exists>w \<in> set ws. w_ID w = tr_WalletID r \<and> w_UserID w = tr_UserID r \<and> w_Currency w = tr_Currency r)"

definition ledger_typed :: "db \<Rightarrow> bool" where
  "ledger_typed s \<longleftrightarrow> wallets_ok s \<and> (\<forall>r \<in> set (transactions s). row_typed r \<and> row_owned (wallets s) r)"

lemma ledger_typedD:
  assumes "ledger_typed s"
  shows "wallets_ok s" "r \<in> set (transactions s) \<Longrightarrow> row_typed r" "r \<in> set (transactions s) \<Longrightarrow> row_owned (wallets s) r"
  using assms by (simp_all add: ledger_typed_def)

lemma written_row_typed:
  assumes L: "libs_ok L" and r: "txn_row L t = Some r" and nn: "0 \<le> t_Amount t" "0 \<le> t_BalanceBefore t" "0 \<le> t_BalanceAfter t"
  shows "row_typed r"
  using txn_row_Some(1-3) [OF r] scan_txn_row [OF r] nn
  by (auto simp: row_typed_def intro: money_col_nonneg [OF L] money_col_scale [OF L])

lemma row_owned_applied: "row_owned (us @ applied z now w # vs) r \<longleftrightarrow> row_owned (us @ w # vs) r"
  by (simp add: row_owned_def)

lemma ApplyTx_typed:
  assumes L: "libs_ok L" and s: "ledger_typed s" and ok: "ApplyTx L id f now tid s m = (s', Inr rec)"
  shows "ledger_typed s'"
proof -
  note ws = ledger_typedD(1) [OF s]
  obtain w us vs z row where own: "w_UserID w = m_UserID m" and nn: "0 \<le> w_Balance w + m_Amount m"
    and w: "wallets s = us @ w # vs"
    and r: "rec = createTransactionRecord tid (w_ID w) (w_Currency w) (w_Balance w) (w_Balance w + m_Amount m) m now"
      "txn_row L rec = Some row"
    and s': "s' = s\<lparr>wallets := us @ applied z now w # vs, transactions := transactions s @ [row]\<rparr>"
    using ApplyTx_own_Inr [OF ok ws] by metis
  have "0 \<le> w_Balance w" using wallets_ok_row [OF ws, of w] w by simp
  then have "row_typed row" using nn by (intro written_row_typed [OF L r(2)]) (simp_all add: r(1) createTransactionRecord_def)
  moreover have "row_owned (wallets s) row"
    using txn_row_Some(4,5) [OF r(2)] own w r
    by (auto simp: row_owned_def r(1) createTransactionRecord_def txn_row_def split: option.splits)
  ultimately show ?thesis
    using ApplyTx_books(1) [OF L ws ok] ledger_typedD(2,3) [OF s]
    by (auto simp: ledger_typed_def s' w row_owned_applied)
qed

interpretation typed_run: step_system "wallet_step L" "\<lambda>s. libs_ok L \<and> ledger_typed s" for L
  by unfold_locales (auto elim!: wallet_step_cases dest: ApplyTx_typed)

lemma typed_history:
  assumes "ledger_typed s"
  obtains ts where "GetTransactionsByUserID no_faults s u limit offset = Inr ts"
    and "\<forall>t \<in> set ts. t_UserID t = u \<and> 0 \<le> t_Amount t \<and> has_scale 2 (t_Amount t)"
proof -
  define rows where "rows = page limit offset (rev (sort_key tr_CreatedAt (filter (\<lambda>t. tr_UserID t = u) (transactions s))))"
  have typed: "row_typed r" and own: "tr_UserID r = u" if "r \<in> set rows" for r
  proof -
    have "r \<in> set (rev (sort_key tr_CreatedAt (filter (\<lambda>t. tr_UserID t = u) (transactions s))))"
      using that unfolding rows_def page_def by (rule in_set_dropD [OF in_set_takeD])
    then show "row_typed r" "tr_UserID r = u" using ledger_typedD(2) [OF assms] by simp_all
  qed
  then have sc: "\<forall>r \<in> set rows. scan_txn r \<noteq> None" by (simp add: row_typed_def)
  have t: "t_UserID (the (scan_txn r)) = u \<and> 0 \<le> t_Amount (the (scan_txn r)) \<and> has_scale 2 (t_Amount (the (scan_txn r)))"
    if "r \<in> set rows" for r
  proof -
    from sc \<open>r \<in> set rows\<close> obtain x where x: "scan_txn r = Some x" by auto
    then have "t_UserID x = tr_UserID r" "t_Amount x = tr_Amount r" by (auto simp: scan_txn_def split: option.splits)
    then show ?thesis using typed [OF that] own [OF that] by (simp add: x row_typed_def)
  qed
  have "GetTransactionsByUserID no_faults s u limit offset = Inr (map (\<lambda>r. the (scan_txn r)) rows)"
    by (simp add: GetTransactionsByUserID_def scan_rows_map [OF sc] flip: rows_def)
  from that [OF this] show thesis using t by simp
qed

text \<open>C4: the ledger stays well typed, and a well-typed ledger is readable. Whatever sequence of movements
  the service applies, of whatever amounts, succeeding or failing anywhere, every row of the ledger has
  non-negative amounts in cents and belongs to a wallet of its own user and currency; and the history
  of every user can be read, page by page, without an error of scanning.\<close>

theorem ledger_stays_typed:
  assumes "libs_ok L" "ledger_typed s" "(wallet_step L)\<^sup>*\<^sup>* s s'"
  shows "ledger_typed s' \<and> (\<forall>u limit offset. \<exists>ts. GetTransactionsByUserID no_faults s' u limit offset = Inr ts \<and>
    (\<forall>t \<in> set ts. t_UserID t = u \<and> 0 \<le> t_Amount t \<and> has_scale 2 (t_Amount t)))"
proof -
  have "ledger_typed s'" using typed_run.run_keeps [OF assms(3)] assms(1,2) by blast
  then show ?thesis using typed_history by metis
qed

theorem ledger_stays_typed_witness:
  "ledger_typed (fst (Debit std_libs no_faults 0 5 sample_db 7 (40 + 1 / 1000) (sample_move 1))) \<and>
   length (transactions (fst (Debit std_libs no_faults 0 5 sample_db 7 (40 + 1 / 1000) (sample_move 1)))) = 1"
proof
  have "wallet_step std_libs sample_db (fst (Debit std_libs no_faults 0 5 sample_db 7 (40 + 1 / 1000) (sample_move 1)))"
    by (rule step_debit [OF prod.collapse [symmetric]])
  moreover have "ledger_typed sample_db" by code_simp
  ultimately show "ledger_typed (fst (Debit std_libs no_faults 0 5 sample_db 7 (40 + 1 / 1000) (sample_move 1)))"
    using ledger_stays_typed [OF std_libs_ok, of sample_db] by blast
qed code_simp

end
