(* ===== verification/Strconv.thy ===== *)
theory Strconv
  imports GoText
begin

text \<open>
  What the program uses of \<open>strconv\<close> and \<open>time\<close> to read numbers, truth values and durations from texts.
  \<open>None\<close> is an error.
\<close>

section \<open>Whole numbers and truth values\<close>

text \<open>\<open>strconv.Atoi\<close>, and \<open>strconv.ParseInt\<close> to the base ten and 64 bits.\<close>

definition digits_number :: "string \<Rightarrow> int" where
  "digits_number ds = foldl (\<lambda>n c. n * 10 + (of_char c - 48)) 0 ds"

definition Atoi :: "string \<Rightarrow> int option" where
  "Atoi s =
     (let (negative, ds) = (case s of
            [] \<Rightarrow> (False, [])
          | c # cs \<Rightarrow> if c = CHR ''-'' then (True, cs) else if c = CHR ''+'' then (False, cs) else (False, s))
      in if ds = [] \<or> \<not> list_all is_digit ds then None
         else
           let n = digits_number ds;
               v = (if negative then - n else n)
           in if v < - (2 ^ 63) \<or> v \<ge> 2 ^ 63 then None else Some v)"

definition ParseBool :: "string \<Rightarrow> bool option" where
  "ParseBool s =
     (if s \<in> {''1'', ''t'', ''T'', ''true'', ''TRUE'', ''True''} then Some True
      else if s \<in> {''0'', ''f'', ''F'', ''false'', ''FALSE'', ''False''} then Some False
      else None)"

section \<open>Durations\<close>

text \<open>
  \<open>time.ParseDuration\<close>: a sign, then \<open>0\<close> or numbers with a unit each. The digits before the point must
  denote at most \<open>2^63\<close>; of those after it, the ones that no longer fit are passed over.
\<close>

fun leading_int :: "int \<Rightarrow> string \<Rightarrow> (int \<times> string) option" where
  "leading_int x [] = Some (x, [])"
| "leading_int x (c # s) =
     (if \<not> is_digit c then Some (x, c # s)
      else if x > 2 ^ 63 div 10 then None
      else let y = x * 10 + (of_char c - 48) in if y > 2 ^ 63 then None else leading_int y s)"

fun leading_fraction :: "int \<Rightarrow> rat \<Rightarrow> bool \<Rightarrow> string \<Rightarrow> int \<times> rat \<times> string" where
  "leading_fraction x scale full [] = (x, scale, [])"
| "leading_fraction x scale full (c # s) =
     (if \<not> is_digit c then (x, scale, c # s)
      else if full then leading_fraction x scale full s
      else if x > (2 ^ 63 - 1) div 10 then leading_fraction x scale True s
      else let y = x * 10 + (of_char c - 48) in
        if y > 2 ^ 63 then leading_fraction x scale True s else leading_fraction y (fl (scale * 10)) False s)"

text \<open>Units are spelled with one or two characters; the two spellings of a microsecond that are not ASCII are left out.\<close>

definition duration_unit :: "string \<Rightarrow> int option" where
  "duration_unit u =
     map_of [(''ns'', 1), (''us'', 1000), (''ms'', Millisecond), (''s'', Second), (''m'', Minute), (''h'', Hour)] u"

text \<open>What follows the digits before the point: the digits after it, their scale, the rest, and whether there was one.\<close>

definition duration_fraction :: "string \<Rightarrow> int \<times> rat \<times> string \<times> bool" where
  "duration_fraction s =
     (case s of
        [] \<Rightarrow> (0, 1, s, False)
      | p # t \<Rightarrow>
          if p = CHR ''.''
          then (case leading_fraction 0 1 False t of (f, scale, s2) \<Rightarrow> (f, scale, s2, length s2 \<noteq> length t))
          else (0, 1, s, False))"

text \<open>One number with its unit: what it adds and the rest.\<close>

definition duration_part :: "string \<Rightarrow> (int \<times> string) option" where
  "duration_part s =
     (case s of [] \<Rightarrow> None | c # _ \<Rightarrow>
        if c \<noteq> CHR ''.'' \<and> \<not> is_digit c then None
        else
          (case leading_int 0 s of None \<Rightarrow> None | Some (v, s1) \<Rightarrow>
             let pre = (length s1 \<noteq> length s);
                 (f, scale, s2, post) = duration_fraction s1;
                 u = takeWhile (\<lambda>c. c \<noteq> CHR ''.'' \<and> \<not> is_digit c) s2
             in if \<not> pre \<and> \<not> post then None
                else if u = [] then None
                else
                  (case duration_unit u of None \<Rightarrow> None | Some unit \<Rightarrow>
                     if v > 2 ^ 63 div unit then None
                     else
                       let v' = v * unit + (if f > 0 then \<lfloor>fl (fl (of_int f) * fl (of_int unit / scale))\<rfloor> else 0) in
                       if v' > 2 ^ 63 then None else Some (v', drop (length u) s2))))"

text \<open>Every part takes at least one character, so the length of the text is enough fuel.\<close>

fun duration_parts :: "nat \<Rightarrow> int \<Rightarrow> string \<Rightarrow> int option" where
  "duration_parts n d [] = Some d"
| "duration_parts 0 d (c # s) = None"
| "duration_parts (Suc n) d (c # s) =
     (case duration_part (c # s) of None \<Rightarrow> None
      | Some (v, s') \<Rightarrow> if d + v > 2 ^ 63 then None else duration_parts n (d + v) s')"

definition ParseDuration :: "string \<Rightarrow> duration option" where
  "ParseDuration s =
     (let (neg, t) = (case s of
            [] \<Rightarrow> (False, [])
          | c # cs \<Rightarrow> if c = CHR ''-'' then (True, cs) else if c = CHR ''+'' then (False, cs) else (False, s))
      in if t = ''0'' then Some 0
         else if t = [] then None
         else
           (case duration_parts (length t) 0 t of None \<Rightarrow> None
            | Some d \<Rightarrow> if neg then Some (- d) else if d > 2 ^ 63 - 1 then None else Some d))"

section \<open>Facts\<close>

lemma leading_int_length: "leading_int x s = Some (v, t) \<Longrightarrow> length t \<le> length s"
  by (induction x s rule: leading_int.induct) (auto simp: Let_def split: if_splits)

lemma leading_fraction_length: "leading_fraction x sc b s = (v, sc', t) \<Longrightarrow> length t \<le> length s"
proof (induction x sc b s arbitrary: v sc' t rule: leading_fraction.induct)
  case (2 x scale full c s)
  then show ?case by (auto simp: Let_def le_Suc_eq split: if_splits)
qed simp

lemma duration_fraction_length: "duration_fraction s = (f, scale, t, post) \<Longrightarrow> length t \<le> length s"
  by (auto simp: duration_fraction_def split: list.splits if_splits prod.splits dest: leading_fraction_length)

lemma duration_part_shorter:
  assumes "duration_part s = Some (v, t)"
  shows "length t < length s"
proof -
  obtain v1 s1 where l: "leading_int 0 s = Some (v1, s1)"
    using assms by (auto simp: duration_part_def split: list.splits if_splits option.splits)
  obtain f scale s2 post where f: "duration_fraction s1 = (f, scale, s2, post)" by (rule prod_cases4)
  let ?u = "takeWhile (\<lambda>c. c \<noteq> CHR ''.'' \<and> \<not> is_digit c) s2"
  obtain c cs where s: "s = c # cs" using assms by (cases s) (simp_all add: duration_part_def)
  have "?u \<noteq> []" "t = drop (length ?u) s2"
    using assms l [unfolded s]
    by (simp_all add: duration_part_def s f Let_def del: leading_int.simps split: if_splits option.splits)
  moreover from this(1) have "s2 \<noteq> []" by auto
  ultimately have "length t < length s2" by (cases ?u; cases s2) auto
  then show ?thesis using leading_int_length [OF l] duration_fraction_length [OF f] by linarith
qed

text \<open>The fuel is enough: more of it changes nothing.\<close>

lemma duration_parts_fuel:
  "length s \<le> n \<Longrightarrow> duration_parts n d s = duration_parts (length s) d s"
proof (induction "length s" arbitrary: s n d rule: less_induct)
  case less
  show ?case
  proof (cases s)
    case (Cons c cs)
    then obtain m where n: "n = Suc m" using less.prems by (cases n) auto
    have "duration_parts m e t = duration_parts (length cs) e t" if "duration_part s = Some (v, t)" for v t e
      using less.hyps [of t m e] less.hyps [of t "length cs" e] duration_part_shorter [OF that] less.prems Cons n by simp
    then show ?thesis by (auto simp: Cons n split: option.split)
  qed simp
qed

lemma Atoi_examples:
  "Atoi ''8080'' = Some 8080" "Atoi ''-7'' = Some (- 7)" "Atoi ''08'' = Some 8" "Atoi ''1e3'' = None" "Atoi '' 5'' = None"
  "Atoi ''9223372036854775808'' = None"
  by code_simp+

lemma ParseDuration_examples:
  "ParseDuration ''1h30m'' = Some 5400000000000" "ParseDuration ''1.5s'' = Some 1500000000" "ParseDuration ''-2ms'' = Some (- 2000000)"
  "ParseDuration ''0'' = Some 0" "ParseDuration ''30'' = None" "ParseDuration ''5 m'' = None" "ParseDuration ''.s'' = None"
  by code_simp+

end
