(* ===== verification/ResponsibleGaming.thy ===== *)
theory ResponsibleGaming
  imports Calendar
begin

text \<open>
  \<open>internal/security/responsiblegaming\<close>: self-exclusion, limits and assessments. The service keeps
  nothing: an operation publishes an event, so its state is the list of published events, empty when
  no event bus is given. \<open>ids k\<close> is the \<open>k\<close>-th identifier generated within a call and \<open>now k\<close> the
  \<open>k\<close>-th reading of the clock; \<open>off\<close> is the local time zone. Scores are whole numbers far below
  \<open>2 ^ 53\<close>, where doubles are exact, and are integers here. The sample records of \<open>assessments.go\<close>,
  which no code uses, are left out.
\<close>

section \<open>Records\<close>

datatype SeverityLevel = SeverityCritical | SeverityHigh | SeverityMedium | SeverityLow | SeverityInfo | OtherSeverity string

datatype FindingStatus = FindingStatusOpen | FindingStatusInProgress | FindingStatusResolved | FindingStatusAccepted
  | OtherFindingStatus string

record SelfExclusionRecord =
  se_ID :: string
  se_UserID :: string
  se_Duration :: string
  se_StartDate :: time
  se_EndDate :: time
  se_Status :: string
  se_Reason :: string

record DepositLimit =
  dl_ID :: string
  dl_UserID :: string
  dl_Type :: string
  dl_Amount :: decimal
  dl_Period :: string
  dl_Status :: string
  dl_CreatedAt :: time
  dl_ModifiedAt :: time

record BettingLimit =
  bl_ID :: string
  bl_UserID :: string
  bl_Type :: string
  bl_Amount :: decimal
  bl_Period :: string
  bl_Status :: string
  bl_CreatedAt :: time
  bl_ModifiedAt :: time

record TimeLimit =
  tl_ID :: string
  tl_UserID :: string
  tl_Type :: string
  tl_Duration :: duration
  tl_Period :: string
  tl_Status :: string
  tl_CreatedAt :: time
  tl_ModifiedAt :: time

record CoolingOffRecord =
  co_ID :: string
  co_UserID :: string
  co_Duration :: duration
  co_StartDate :: time
  co_EndDate :: time
  co_Status :: string
  co_Reason :: string

record Intervention =
  iv_ID :: string
  iv_UserID :: string
  iv_Type :: string
  iv_Trigger :: string
  iv_Action :: string
  iv_Outcome :: string
  iv_Date :: time
  iv_Agent :: string

record EducationMaterial =
  em_ID :: string
  em_Title :: string
  em_Type :: string
  em_Content :: string
  em_Language :: string
  em_Views :: int
  em_CreatedAt :: time
  em_UpdatedAt :: time

record RGViolation =
  rv_ID :: string
  rv_Type :: string
  rv_Description :: string
  rv_Severity :: SeverityLevel
  rv_UserID :: string
  rv_Date :: time
  rv_Status :: FindingStatus
  rv_Resolved :: time

record ResponsibleGaming =
  rg_ID :: string
  rg_ComplianceScore :: int
  rg_LastAssessment :: time
  rg_NextAssessment :: time
  rg_SelfExclusion :: "SelfExclusionRecord list"
  rg_DepositLimits :: "DepositLimit list"
  rg_BettingLimits :: "BettingLimit list"
  rg_TimeLimits :: "TimeLimit list"
  rg_CoolingOffPeriods :: "CoolingOffRecord list"
  rg_Interventions :: "Intervention list"
  rg_Education :: "EducationMaterial list"
  rg_Violations :: "RGViolation list"
  rg_Recommendations :: "string list"

datatype rg_event =
    RgAssessed ResponsibleGaming
  | RgUserAssessed ResponsibleGaming
  | RgExclusionSet SelfExclusionRecord
  | RgExclusionRemoved SelfExclusionRecord
  | RgDepositLimitSet DepositLimit
  | RgBettingLimitSet BettingLimit

type_synonym rg_service = "rg_event list option"

text \<open>\<open>None\<close> is a service without an event bus; errors of the bus are only logged.\<close>

definition publishRGEvent :: "rg_event \<Rightarrow> rg_service \<Rightarrow> rg_service" where
  "publishRGEvent e S = map_option (\<lambda>es. es @ [e]) S"

section \<open>Scores and recommendations\<close>

text \<open>What a violation costs: the weights of an assessment of the platform, and of a player.\<close>

fun severity_points :: "SeverityLevel \<Rightarrow> int" where
  "severity_points SeverityCritical = 25"
| "severity_points SeverityHigh = 15"
| "severity_points SeverityMedium = 10"
| "severity_points SeverityLow = 5"
| "severity_points SeverityInfo = 2"
| "severity_points (OtherSeverity _) = 0"

fun user_severity_points :: "SeverityLevel \<Rightarrow> int" where
  "user_severity_points SeverityCritical = 30"
| "user_severity_points SeverityHigh = 20"
| "user_severity_points SeverityMedium = 15"
| "user_severity_points SeverityLow = 10"
| "user_severity_points SeverityInfo = 5"
| "user_severity_points (OtherSeverity _) = 0"

definition rg_calculateComplianceScore :: "ResponsibleGaming \<Rightarrow> int" where
  "rg_calculateComplianceScore assessment =
     (let score = foldl (\<lambda>score v. score - severity_points (rv_Severity v)) 100 (rg_Violations assessment);
          score = (if length (rg_Interventions assessment) = 0 then score - 10 else score);
          score = (if length (rg_Education assessment) > 0 then score + 5 else score)
      in if score < 0 then 0 else score)"

definition rg_calculateUserComplianceScore :: "ResponsibleGaming \<Rightarrow> int" where
  "rg_calculateUserComplianceScore assessment =
     (let score = foldl (\<lambda>score se. if se_Status se = ''Active'' then score + 20 else score) 100 (rg_SelfExclusion assessment);
          score = (if length (rg_DepositLimits assessment) > 0 then score + 10 else score);
          score = (if length (rg_BettingLimits assessment) > 0 then score + 10 else score);
          score = (if length (rg_TimeLimits assessment) > 0 then score + 10 else score);
          score = foldl (\<lambda>score v. score - user_severity_points (rv_Severity v)) score (rg_Violations assessment)
      in if score < 0 then 0 else score)"

definition generateRGRecommendations :: "ResponsibleGaming \<Rightarrow> string list" where
  "generateRGRecommendations assessment =
     concat (map (\<lambda>v.
       if rv_Type v = ''Underage Betting'' then [''Strengthen age verification processes'']
       else if rv_Type v = ''Excessive Betting'' then [''Implement more aggressive betting limits'']
       else if rv_Type v = ''Problem Gambling Indicators'' then [''Enhance automated detection of problem gambling'']
       else []) (rg_Violations assessment))
     @ [''Increase awareness of responsible gaming tools'', ''Improve staff training on responsible gaming'',
        ''Enhance educational materials for users'']"

text \<open>The clock is read once per violation; \<open>now i\<close> is the reading at the \<open>i\<close>-th.\<close>

definition rg_generateUserRecommendations :: "(int \<Rightarrow> int) \<Rightarrow> (nat \<Rightarrow> time) \<Rightarrow> ResponsibleGaming \<Rightarrow> string list" where
  "rg_generateUserRecommendations off now assessment =
     (if length (rg_DepositLimits assessment) = 0 then [''Consider setting deposit limits''] else [])
     @ (if length (rg_BettingLimits assessment) = 0 then [''Consider setting betting limits''] else [])
     @ (if length (rg_TimeLimits assessment) = 0 then [''Consider setting time limits''] else [])
     @ concat (map (\<lambda>(i, v).
         if rv_Date v > AddDate off (now i) 0 (-1) 0
         then (if rv_Type v = ''Excessive Betting''
               then [''Take a break from betting'', ''Consider self-exclusion options'']
               else if rv_Type v = ''Problem Gambling Indicators''
               then [''Seek help from gambling support services'', ''Contact our responsible gaming team'']
               else [])
         else []) (enumerate 0 (rg_Violations assessment)))"

section \<open>Operations\<close>

definition calculateEndDate :: "(int \<Rightarrow> int) \<Rightarrow> time \<Rightarrow> string \<Rightarrow> time" where
  "calculateEndDate off now duration =
     (if duration = ''6 months'' then AddDate off now 0 6 0
      else if duration = ''1 year'' then AddDate off now 1 0 0
      else if duration = ''2 years'' then AddDate off now 2 0 0
      else if duration = ''5 years'' then AddDate off now 5 0 0
      else if duration = ''permanent'' then AddDate off now 100 0 0
      else AddDate off now 0 6 0)"

definition rg_SetSelfExclusion ::
  "(int \<Rightarrow> int) \<Rightarrow> (nat \<Rightarrow> time) \<Rightarrow> (nat \<Rightarrow> string) \<Rightarrow> rg_service \<Rightarrow> string \<Rightarrow> string \<Rightarrow> string \<Rightarrow> rg_service" where
  "rg_SetSelfExclusion off now ids S userID duration reason =
     (let endDate = calculateEndDate off (now 0) duration in
      publishRGEvent (RgExclusionSet
        \<lparr>se_ID = ids 0, se_UserID = userID, se_Duration = duration, se_StartDate = now 1, se_EndDate = endDate,
         se_Status = ''Active'', se_Reason = reason\<rparr>) S)"

definition rg_RemoveSelfExclusion :: "(nat \<Rightarrow> time) \<Rightarrow> (nat \<Rightarrow> string) \<Rightarrow> rg_service \<Rightarrow> string \<Rightarrow> rg_service" where
  "rg_RemoveSelfExclusion now ids S userID =
     publishRGEvent (RgExclusionRemoved
       \<lparr>se_ID = ids 0, se_UserID = userID, se_Duration = '''', se_StartDate = zero_time, se_EndDate = now 0,
        se_Status = ''Removed'', se_Reason = ''''\<rparr>) S"

text \<open>The error of the number is dropped, and with it the number is zero.\<close>

definition SetDepositLimit ::
  "(string \<Rightarrow> decimal option) \<Rightarrow> (nat \<Rightarrow> time) \<Rightarrow> (nat \<Rightarrow> string) \<Rightarrow> rg_service \<Rightarrow> string \<Rightarrow> string \<Rightarrow> string \<Rightarrow> string \<Rightarrow> rg_service"
where
  "SetDepositLimit rd now ids S userID limitType amount period =
     (let amountDecimal = (case rd amount of None \<Rightarrow> 0 | Some x \<Rightarrow> x) in
      publishRGEvent (RgDepositLimitSet
        \<lparr>dl_ID = ids 0, dl_UserID = userID, dl_Type = limitType, dl_Amount = amountDecimal, dl_Period = period,
         dl_Status = ''Active'', dl_CreatedAt = now 0, dl_ModifiedAt = now 1\<rparr>) S)"

definition SetBettingLimit ::
  "(string \<Rightarrow> decimal option) \<Rightarrow> (nat \<Rightarrow> time) \<Rightarrow> (nat \<Rightarrow> string) \<Rightarrow> rg_service \<Rightarrow> string \<Rightarrow> string \<Rightarrow> string \<Rightarrow> string \<Rightarrow> rg_service"
where
  "SetBettingLimit rd now ids S userID limitType amount period =
     (let amountDecimal = (case rd amount of None \<Rightarrow> 0 | Some x \<Rightarrow> x) in
      publishRGEvent (RgBettingLimitSet
        \<lparr>bl_ID = ids 0, bl_UserID = userID, bl_Type = limitType, bl_Amount = amountDecimal, bl_Period = period,
         bl_Status = ''Active'', bl_CreatedAt = now 0, bl_ModifiedAt = now 1\<rparr>) S)"

text \<open>The parts of an assessment; every source of data is a stub that returns an empty list.\<close>

definition assessSelfExclusion :: "SelfExclusionRecord list" where "assessSelfExclusion = []"
definition assessDepositLimits :: "DepositLimit list" where "assessDepositLimits = []"
definition assessBettingLimits :: "BettingLimit list" where "assessBettingLimits = []"
definition assessTimeLimits :: "TimeLimit list" where "assessTimeLimits = []"
definition assessCoolingOffPeriods :: "CoolingOffRecord list" where "assessCoolingOffPeriods = []"
definition assessInterventions :: "Intervention list" where "assessInterventions = []"
definition assessEducation :: "EducationMaterial list" where "assessEducation = []"
definition assessRGViolations :: "RGViolation list" where "assessRGViolations = []"

definition PerformResponsibleGamingAssessment ::
  "(int \<Rightarrow> int) \<Rightarrow> (nat \<Rightarrow> time) \<Rightarrow> (nat \<Rightarrow> string) \<Rightarrow> rg_service \<Rightarrow> rg_service \<times> ResponsibleGaming" where
  "PerformResponsibleGamingAssessment off now ids S =
     (let a = \<lparr>rg_ID = ids 0, rg_ComplianceScore = 0, rg_LastAssessment = now 0, rg_NextAssessment = AddDate off (now 1) 0 3 0,
            rg_SelfExclusion = assessSelfExclusion, rg_DepositLimits = assessDepositLimits,
            rg_BettingLimits = assessBettingLimits, rg_TimeLimits = assessTimeLimits,
            rg_CoolingOffPeriods = assessCoolingOffPeriods, rg_Interventions = assessInterventions,
            rg_Education = assessEducation, rg_Violations = assessRGViolations, rg_Recommendations = []\<rparr>;
          a = a\<lparr>rg_ComplianceScore := rg_calculateComplianceScore a\<rparr>;
          a = a\<lparr>rg_Recommendations := generateRGRecommendations a\<rparr>
      in (publishRGEvent (RgAssessed a) S, a))"

definition getUserSelfExclusion :: "string \<Rightarrow> SelfExclusionRecord list" where "getUserSelfExclusion userID = []"
definition getUserDepositLimits :: "string \<Rightarrow> DepositLimit list" where "getUserDepositLimits userID = []"
definition getUserBettingLimits :: "string \<Rightarrow> BettingLimit list" where "getUserBettingLimits userID = []"
definition getUserTimeLimits :: "string \<Rightarrow> TimeLimit list" where "getUserTimeLimits userID = []"
definition getUserCoolingOffPeriods :: "string \<Rightarrow> CoolingOffRecord list" where "getUserCoolingOffPeriods userID = []"
definition getUserInterventions :: "string \<Rightarrow> Intervention list" where "getUserInterventions userID = []"
definition rg_getUserViolations :: "string \<Rightarrow> RGViolation list" where "rg_getUserViolations userID = []"

definition GetUserResponsibleGamingStatus ::
  "(int \<Rightarrow> int) \<Rightarrow> (nat \<Rightarrow> time) \<Rightarrow> (nat \<Rightarrow> string) \<Rightarrow> rg_service \<Rightarrow> string \<Rightarrow> rg_service \<times> ResponsibleGaming" where
  "GetUserResponsibleGamingStatus off now ids S userID =
     (let a = \<lparr>rg_ID = ids 0, rg_ComplianceScore = 0, rg_LastAssessment = now 0, rg_NextAssessment = AddDate off (now 1) 0 1 0,
            rg_SelfExclusion = getUserSelfExclusion userID, rg_DepositLimits = getUserDepositLimits userID,
            rg_BettingLimits = getUserBettingLimits userID, rg_TimeLimits = getUserTimeLimits userID,
            rg_CoolingOffPeriods = getUserCoolingOffPeriods userID, rg_Interventions = getUserInterventions userID,
            rg_Education = [], rg_Violations = rg_getUserViolations userID, rg_Recommendations = []\<rparr>;
          a = a\<lparr>rg_ComplianceScore := rg_calculateUserComplianceScore a\<rparr>;
          a = a\<lparr>rg_Recommendations := rg_generateUserRecommendations off (\<lambda>i. now (i + 2)) a\<rparr>
      in (publishRGEvent (RgUserAssessed a) S, a))"

section \<open>What the scores can be\<close>

lemma foldl_minus: "foldl (\<lambda>s x. s - f x) a xs = a - sum_list (map f xs)" for f :: "'a \<Rightarrow> int"
  by (induction xs arbitrary: a) auto

lemma foldl_bonus: "foldl (\<lambda>s x. if P x then s + k else s) a xs = a + k * int (length (filter P xs))" for k :: int
  by (induction xs arbitrary: a) (auto simp: algebra_simps)

lemma severity_points_nonneg [simp]: "0 \<le> severity_points s" "0 \<le> user_severity_points s"
  by (cases s; simp)+

lemma severity_points_order: "severity_points s \<le> user_severity_points s"
  by (cases s) simp_all

lemma sum_points_nonneg: "0 \<le> sum_list (map (\<lambda>v. severity_points (f v)) vs)"
  by (rule sum_list_nonneg) auto

lemma rg_score_eq:
  "rg_calculateComplianceScore a = max 0 (100 - sum_list (map (severity_points \<circ> rv_Severity) (rg_Violations a))
     - (if rg_Interventions a = [] then 10 else 0) + (if rg_Education a = [] then 0 else 5))"
  by (simp add: rg_calculateComplianceScore_def foldl_minus o_def Let_def max_def)

lemma rg_user_score_eq:
  "rg_calculateUserComplianceScore a = max 0 (100 + 20 * int (length (filter (\<lambda>se. se_Status se = ''Active'') (rg_SelfExclusion a)))
     + (if rg_DepositLimits a = [] then 0 else 10) + (if rg_BettingLimits a = [] then 0 else 10)
     + (if rg_TimeLimits a = [] then 0 else 10) - sum_list (map (user_severity_points \<circ> rv_Severity) (rg_Violations a)))"
  by (simp add: rg_calculateUserComplianceScore_def foldl_minus foldl_bonus o_def Let_def max_def)

text \<open>
  A score of the platform lies between 0 and 105; that of a player has no bound: twenty points for every
  exclusion, so that a player with critical violations can stand above one without any.
\<close>

lemma rg_score_range: "0 \<le> rg_calculateComplianceScore a \<and> rg_calculateComplianceScore a \<le> 105"
proof -
  have "0 \<le> sum_list (map (severity_points \<circ> rv_Severity) (rg_Violations a))" by (rule sum_list_nonneg) auto
  then show ?thesis by (auto simp: rg_score_eq)
qed

lemma rg_score_reaches_105:
  "rg_Violations a = [] \<Longrightarrow> rg_Interventions a \<noteq> [] \<Longrightarrow> rg_Education a \<noteq> [] \<Longrightarrow> rg_calculateComplianceScore a = 105"
  by (simp add: rg_score_eq)

text \<open>
  Whatever has been set before, the status of a player has no exclusion and no limit, a full score, and the
  advice to set limits.
\<close>

lemma status_never_changes:
  "rg_SelfExclusion (snd (GetUserResponsibleGamingStatus off now ids S u)) = []"
  "rg_DepositLimits (snd (GetUserResponsibleGamingStatus off now ids S u)) = []"
  "rg_ComplianceScore (snd (GetUserResponsibleGamingStatus off now ids S u)) = 100"
  "rg_Recommendations (snd (GetUserResponsibleGamingStatus off now ids S u)) =
     [''Consider setting deposit limits'', ''Consider setting betting limits'', ''Consider setting time limits'']"
  unfolding GetUserResponsibleGamingStatus_def Let_def snd_conv
  by (simp_all add: getUserSelfExclusion_def getUserDepositLimits_def
      getUserBettingLimits_def getUserTimeLimits_def rg_getUserViolations_def rg_generateUserRecommendations_def
      rg_user_score_eq)

text \<open>A limit whose amount cannot be read is announced as an active limit of zero.\<close>

lemma unreadable_limit_is_zero:
  assumes "rd amount = None"
  shows "\<exists>l. SetDepositLimit rd now ids (Some es) u t amount p = Some (es @ [RgDepositLimitSet l]) \<and> dl_Amount l = 0 \<and> dl_Status l = ''Active''"
  using assms by (simp add: SetDepositLimit_def publishRGEvent_def)

section \<open>How long an exclusion lasts\<close>

definition exclusion_days :: "string \<Rightarrow> int \<times> int" where
  "exclusion_days duration =
     (case map_of [(''1 year'', 1), (''2 years'', 2), (''5 years'', 5), (''permanent'', 100)] duration of
        Some k \<Rightarrow> (365 * k, 366 * k)
      | None \<Rightarrow> (181, 184))"

lemma add_years:
  assumes "civil (wall (\<lambda>_. z) t) = (y, m, d)"
  shows "AddDate (\<lambda>_. z) t (int k) 0 0 = t + (days_before (y + int k) m - days_before y m) * Day"
proof -
  have "1 \<le> m" "m \<le> 12" using civil_month [OF assms] by simp_all
  then have "(int m - 1) div 12 = 0" "(int m - 1) mod 12 = int m - 1" by (simp_all add: div_pos_pos_trivial)
  moreover have "nat (int m - 1) + 1 = m" using \<open>1 \<le> m\<close> by simp
  ultimately show ?thesis by (simp add: AddDate_fixed_zone [OF assms])
qed

lemma years_last:
  "t + 365 * int k * Day \<le> AddDate (\<lambda>_. z) t (int k) 0 0 \<and> AddDate (\<lambda>_. z) t (int k) 0 0 \<le> t + 366 * int k * Day"
proof -
  obtain y m d where c: "civil (wall (\<lambda>_. z) t) = (y, m, d)" by (cases "civil (wall (\<lambda>_. z) t)")
  note n = years_apart [OF civil_month [OF c], where y = y and k = k]
  have "365 * int k * Day \<le> (days_before (y + int k) m - days_before y m) * Day"
    "(days_before (y + int k) m - days_before y m) * Day \<le> 366 * int k * Day"
    using n by (intro mult_right_mono; simp)+
  then show ?thesis unfolding add_years [OF c] by simp
qed

lemma half_year_lasts:
  "t + 181 * Day \<le> AddDate (\<lambda>_. z) t 0 6 0 \<and> AddDate (\<lambda>_. z) t 0 6 0 \<le> t + 184 * Day"
proof -
  obtain y m d where c: "civil (wall (\<lambda>_. z) t) = (y, m, d)" by (cases "civil (wall (\<lambda>_. z) t)")
  note n = half_year_apart [OF civil_month [OF c], of y]
  let ?n = "days_before (y + (int m + 5) div 12) (nat ((int m + 5) mod 12) + 1) - days_before y m"
  have "int m - 1 + 6 = int m + 5" by simp
  then have a: "AddDate (\<lambda>_. z) t 0 6 0 = t + ?n * Day" by (simp only: AddDate_fixed_zone [OF c] add_0_right)
  have "181 * Day \<le> ?n * Day" "?n * Day \<le> 184 * Day" using n by (intro mult_right_mono; simp)+
  then show ?thesis unfolding a by simp
qed



end
