(* ===== verification/Assessments.thy ===== *)
theory Assessments
  imports ResponsibleGaming
begin

text \<open>
  The other assessments of \<open>internal/security\<close>: audits (\<open>audit\<close>), penetration tests (\<open>pentest\<close>) and
  data protection (\<open>gdpr\<close>). The three packages declare the severities and the states of a finding
  again, with the values of \<open>ResponsibleGaming\<close>. \<open>ids k\<close> and \<open>now k\<close> are the identifiers and clock
  readings of a call; a service is the list of the events it published, if it has an event bus. The
  methods that return metrics or a sample finding and that no code calls are left out.
\<close>

datatype SecurityCategory = CategoryAuthentication | CategoryAuthorization | CategoryDataProtection | CategoryNetwork
  | CategoryApplication | CategoryInfrastructure | CategoryCompliance

section \<open>Audits\<close>

record SecurityConfig =
  sc_PasswordMinLength :: int
  sc_PasswordRequireUpper :: bool
  sc_PasswordRequireLower :: bool
  sc_PasswordRequireNumber :: bool
  sc_PasswordRequireSymbol :: bool
  sc_SessionTimeout :: duration
  sc_MaxLoginAttempts :: int
  sc_LockoutDuration :: duration
  sc_TwoFactorRequired :: bool
  sc_JWTSecret :: string
  sc_EncryptionKey :: string
  sc_AllowedIPs :: "string list"
  sc_BlockedCountries :: "string list"
  sc_AuditRetentionDays :: int

record SecurityFinding =
  sf_ID :: string
  sf_Title :: string
  sf_Description :: string
  sf_Severity :: SeverityLevel
  sf_Category :: SecurityCategory
  sf_Endpoint :: string
  sf_Payload :: string
  sf_Evidence :: string
  sf_Impact :: string
  sf_Recommendation :: string
  sf_CVSSScore :: rat
  sf_Discovered :: time
  sf_Status :: FindingStatus

record AuditCategories =
  ac_Authentication :: "SecurityFinding list"
  ac_Authorization :: "SecurityFinding list"
  ac_DataProtection :: "SecurityFinding list"
  ac_Network :: "SecurityFinding list"
  ac_Application :: "SecurityFinding list"
  ac_Infrastructure :: "SecurityFinding list"
  ac_Compliance :: "SecurityFinding list"

datatype AuditStatus = AuditStatusPlanned | AuditStatusInProgress | AuditStatusCompleted | AuditStatusFailed
  | AuditStatusCancelled

record SecurityAudit =
  sa_ID :: string
  sa_StartTime :: time
  sa_EndTime :: time
  sa_Status :: AuditStatus
  sa_Auditor :: string
  sa_Score :: int
  sa_RiskScore :: int
  sa_Findings :: "SecurityFinding list"
  sa_Categories :: AuditCategories
  sa_Recommendations :: "string list"
  sa_NextAuditDate :: time

definition audit_calculateRiskScore :: "SecurityFinding list \<Rightarrow> int" where
  "audit_calculateRiskScore findings =
     (if length findings = 0 then 0
      else foldl (\<lambda>risk f. risk + severity_points (sf_Severity f)) 0 findings)"

definition calculateSecurityScore :: "SecurityFinding list \<Rightarrow> int" where
  "calculateSecurityScore findings =
     (if length findings = 0 then 100
      else
        let score = foldl (\<lambda>score f. score - severity_points (sf_Severity f)) 100 findings in
        if score < 0 then 0 else score)"

text \<open>Three flags are set by the loop over the findings, then each adds its advice.\<close>

definition has_severity :: "SeverityLevel \<Rightarrow> SeverityLevel list \<Rightarrow> bool" where
  "has_severity s found = foldl (\<lambda>seen x. if x = s then True else seen) False found"

definition audit_generateRecommendations :: "SecurityFinding list \<Rightarrow> string list" where
  "audit_generateRecommendations findings =
     (let found = map sf_Severity findings in
      (if has_severity SeverityCritical found
       then [''Address all critical security findings immediately'', ''Implement emergency security measures''] else [])
      @ (if has_severity SeverityHigh found
         then [''Prioritize high-risk vulnerabilities for remediation'', ''Increase security monitoring and alerting''] else [])
      @ (if has_severity SeverityMedium found
         then [''Schedule medium-risk findings for next sprint'', ''Enhance security training for development team''] else [])
      @ [''Conduct regular security assessments'', ''Implement automated security testing'',
         ''Maintain up-to-date security documentation'', ''Establish security incident response procedures''])"

definition audit_finding ::
  "string \<Rightarrow> time \<Rightarrow> string \<Rightarrow> string \<Rightarrow> SeverityLevel \<Rightarrow> SecurityCategory \<Rightarrow> string \<Rightarrow> string \<Rightarrow> rat \<Rightarrow> SecurityFinding" where
  "audit_finding i t title description severity category impact recommendation cvss =
     \<lparr>sf_ID = i, sf_Title = title, sf_Description = description, sf_Severity = severity, sf_Category = category,
      sf_Endpoint = '''', sf_Payload = '''', sf_Evidence = '''', sf_Impact = impact, sf_Recommendation = recommendation,
      sf_CVSSScore = cvss, sf_Discovered = t, sf_Status = FindingStatusOpen\<rparr>"

definition assessAuthentication :: "(nat \<Rightarrow> string) \<Rightarrow> (nat \<Rightarrow> time) \<Rightarrow> SecurityConfig \<Rightarrow> SecurityFinding list" where
  "assessAuthentication ids now config =
     (if sc_PasswordMinLength config < 8
      then [audit_finding (ids 0) (now 0) ''Weak Password Policy'' ''Password minimum length is less than 8 characters''
              SeverityMedium CategoryAuthentication ''Increased risk of password guessing attacks''
              ''Increase minimum password length to 8 characters'' 4] else [])
     @ (if sc_SessionTimeout config > 2 * Hour
        then [audit_finding (ids 1) (now 1) ''Long Session Timeout'' ''Session timeout is longer than 2 hours''
                SeverityMedium CategoryAuthentication ''Increased risk of session hijacking''
                ''Reduce session timeout to 2 hours or less'' 4] else [])"

definition assessAuthorization :: "string \<Rightarrow> time \<Rightarrow> SecurityFinding list" where
  "assessAuthorization i t =
     [audit_finding i t ''Role-Based Access Control Review'' ''Review and verify role-based access control implementation''
        SeverityMedium CategoryAuthorization ''Potential unauthorized access to sensitive functions''
        ''Implement comprehensive RBAC with regular reviews'' 5]"

text \<open>The other five parts of an audit are stubs without findings.\<close>

definition assessDataProtection :: "SecurityFinding list" where "assessDataProtection = []"
definition assessNetwork :: "SecurityFinding list" where "assessNetwork = []"
definition assessApplication :: "SecurityFinding list" where "assessApplication = []"
definition assessInfrastructure :: "SecurityFinding list" where "assessInfrastructure = []"
definition assessCompliance :: "SecurityFinding list" where "assessCompliance = []"

datatype security_event =
    AuditCompleted SecurityAudit
  | AuditScheduled time

definition publish_event :: "'e \<Rightarrow> 'e list option \<Rightarrow> 'e list option" where
  "publish_event e S = map_option (\<lambda>es. es @ [e]) S"

definition PerformSecurityAudit ::
  "(int \<Rightarrow> int) \<Rightarrow> (nat \<Rightarrow> string) \<Rightarrow> (nat \<Rightarrow> time) \<Rightarrow> SecurityConfig \<Rightarrow> security_event list option
     \<Rightarrow> security_event list option \<times> SecurityAudit" where
  "PerformSecurityAudit off ids now config S =
     (let authFindings = assessAuthentication (\<lambda>k. ids (k + 1)) (\<lambda>k. now (k + 1)) config;
          authzFindings = assessAuthorization (ids 3) (now 3);
          allFindings = authFindings @ authzFindings @ assessDataProtection @ assessNetwork @ assessApplication
            @ assessInfrastructure @ assessCompliance;
          audit = \<lparr>sa_ID = ids 0, sa_StartTime = now 0, sa_EndTime = now 4, sa_Status = AuditStatusCompleted,
            sa_Auditor = ''Security Audit Service'', sa_Score = calculateSecurityScore allFindings,
            sa_RiskScore = audit_calculateRiskScore allFindings, sa_Findings = allFindings,
            sa_Categories = \<lparr>ac_Authentication = authFindings, ac_Authorization = authzFindings,
              ac_DataProtection = assessDataProtection, ac_Network = assessNetwork, ac_Application = assessApplication,
              ac_Infrastructure = assessInfrastructure, ac_Compliance = assessCompliance\<rparr>,
            sa_Recommendations = audit_generateRecommendations allFindings, sa_NextAuditDate = AddDate off (now 5) 0 3 0\<rparr>
      in (publish_event (AuditCompleted audit) S, audit))"

definition ScheduleAudit :: "security_event list option \<Rightarrow> time \<Rightarrow> security_event list option" where
  "ScheduleAudit S scheduledTime = publish_event (AuditScheduled scheduledTime) S"

text \<open>A history of at most ten made-up audits.\<close>

definition GetAuditHistory :: "(int \<Rightarrow> int) \<Rightarrow> (nat \<Rightarrow> string) \<Rightarrow> (nat \<Rightarrow> time) \<Rightarrow> int \<Rightarrow> SecurityAudit list" where
  "GetAuditHistory off ids now limit =
     map (\<lambda>i. \<lparr>sa_ID = ids i, sa_StartTime = AddDate off (now (3 * i)) 0 (- int i) 0,
       sa_EndTime = AddDate off (now (3 * i + 1)) 0 (- int i) 0 + 4 * Hour, sa_Status = AuditStatusCompleted,
       sa_Auditor = ''Security Audit Service'', sa_Score = 75 + int i, sa_RiskScore = 45 - int i, sa_Findings = [],
       sa_Categories = \<lparr>ac_Authentication = [], ac_Authorization = [], ac_DataProtection = [], ac_Network = [],
         ac_Application = [], ac_Infrastructure = [], ac_Compliance = []\<rparr>, sa_Recommendations = [],
       sa_NextAuditDate = AddDate off (now (3 * i + 2)) 0 (3 - int i) 0\<rparr>) [0..<nat (min limit 10)]"

section \<open>Penetration tests\<close>

datatype TestType = TestTypeBlackBox | TestTypeWhiteBox | TestTypeGrayBox | TestTypeWebApp | TestTypeMobile
  | TestTypeNetwork | TestTypeSocial | OtherTestType string

datatype TestStatus = TestStatusPlanned | TestStatusInProgress | TestStatusCompleted | TestStatusFailed | TestStatusCancelled

record PenTestFinding =
  pf_ID :: string
  pf_Title :: string
  pf_Description :: string
  pf_Severity :: SeverityLevel
  pf_Category :: SecurityCategory
  pf_Endpoint :: string
  pf_Payload :: string
  pf_Evidence :: string
  pf_Impact :: string
  pf_Remediation :: string
  pf_CVSSScore :: rat
  pf_Discovered :: time
  pf_Status :: FindingStatus

record PenetrationTest =
  pt_ID :: string
  pt_TestType :: TestType
  pt_StartTime :: time
  pt_EndTime :: time
  pt_Status :: TestStatus
  pt_Testers :: "string list"
  pt_Scope :: "string list"
  pt_Findings :: "PenTestFinding list"
  pt_RiskScore :: int
  pt_Recommendations :: "string list"
  pt_NextTestDate :: time

definition pentest_finding ::
  "string \<Rightarrow> time \<Rightarrow> string \<Rightarrow> string \<Rightarrow> SeverityLevel \<Rightarrow> SecurityCategory \<Rightarrow> string \<Rightarrow> string \<Rightarrow> string \<Rightarrow> rat \<Rightarrow> PenTestFinding"
where
  "pentest_finding i t title description severity category endpoint impact remediation cvss =
     \<lparr>pf_ID = i, pf_Title = title, pf_Description = description, pf_Severity = severity, pf_Category = category,
      pf_Endpoint = endpoint, pf_Payload = '''', pf_Evidence = '''', pf_Impact = impact, pf_Remediation = remediation,
      pf_CVSSScore = cvss, pf_Discovered = t, pf_Status = FindingStatusOpen\<rparr>"

text \<open>The tests find the same wherever they look.\<close>

definition performBlackBoxTest :: "(nat \<Rightarrow> string) \<Rightarrow> (nat \<Rightarrow> time) \<Rightarrow> PenTestFinding list" where
  "performBlackBoxTest ids now = [
     pentest_finding (ids 0) (now 0) ''Authentication Bypass'' ''Authentication can be bypassed using SQL injection''
       SeverityCritical CategoryAuthentication ''/login'' ''Complete system compromise''
       ''Implement proper input validation and parameterized queries'' (19 / 2),
     pentest_finding (ids 1) (now 1) ''Cross-Site Scripting (XSS)'' ''Reflected XSS found in search functionality''
       SeverityHigh CategoryApplication ''/search'' ''Session hijacking and data theft''
       ''Implement proper output encoding and CSP headers'' (15 / 2)]"

definition performWhiteBoxTest :: "(nat \<Rightarrow> string) \<Rightarrow> (nat \<Rightarrow> time) \<Rightarrow> PenTestFinding list" where
  "performWhiteBoxTest ids now = [
     pentest_finding (ids 0) (now 0) ''Hardcoded Credentials'' ''Database credentials hardcoded in configuration files''
       SeverityCritical CategoryDataProtection ''config/database.yml'' ''Database compromise''
       ''Use environment variables or secure vault for credentials'' (9),
     pentest_finding (ids 1) (now 1) ''Insufficient Error Handling'' ''Stack traces exposed to users on errors''
       SeverityMedium CategoryApplication ''/api/*'' ''Information disclosure''
       ''Implement proper error handling and logging'' (5)]"

definition performGrayBoxTest :: "(nat \<Rightarrow> string) \<Rightarrow> (nat \<Rightarrow> time) \<Rightarrow> PenTestFinding list" where
  "performGrayBoxTest ids now = [
     pentest_finding (ids 0) (now 0) ''Privilege Escalation'' ''Regular users can access admin functionality''
       SeverityHigh CategoryAuthorization ''/admin/users'' ''Unauthorized admin access''
       ''Implement proper role-based access control'' (8),
     pentest_finding (ids 1) (now 1) ''Weak Session Management'' ''Session tokens not properly invalidated on logout''
       SeverityMedium CategoryAuthentication ''/logout'' ''Session hijacking''
       ''Implement proper session invalidation'' (6)]"

definition performWebAppTest :: "(nat \<Rightarrow> string) \<Rightarrow> (nat \<Rightarrow> time) \<Rightarrow> PenTestFinding list" where
  "performWebAppTest ids now = [
     pentest_finding (ids 0) (now 0) ''Insecure Direct Object Reference'' (''Users can access other users'' @ CHR 0x27 # '' data by modifying IDs'')
       SeverityHigh CategoryApplication ''/api/users/{id}'' ''Data breach''
       ''Implement proper access controls and authorization checks'' (15 / 2),
     pentest_finding (ids 1) (now 1) ''Missing Security Headers'' ''Security headers like HSTS, CSP not implemented''
       SeverityMedium CategoryApplication ''All endpoints'' ''Various attack vectors''
       ''Implement security headers middleware'' (11 / 2)]"

definition performNetworkTest :: "(nat \<Rightarrow> string) \<Rightarrow> (nat \<Rightarrow> time) \<Rightarrow> PenTestFinding list" where
  "performNetworkTest ids now = [
     pentest_finding (ids 0) (now 0) ''Open Dangerous Ports'' ''Unnecessary ports open to the internet''
       SeverityMedium CategoryNetwork ''Multiple servers'' ''Increased attack surface''
       ''Close unnecessary ports and implement firewall rules'' (6),
     pentest_finding (ids 1) (now 1) ''Weak SSL Configuration'' ''SSL/TLS configuration allows weak ciphers''
       SeverityMedium CategoryNetwork ''All HTTPS endpoints'' ''Man-in-the-middle attacks''
       ''Update SSL configuration to use strong ciphers only'' (11 / 2)]"

definition performSocialTest :: "(nat \<Rightarrow> string) \<Rightarrow> (nat \<Rightarrow> time) \<Rightarrow> PenTestFinding list" where
  "performSocialTest ids now = [
     pentest_finding (ids 0) (now 0) ''Phishing Vulnerability'' ''Users susceptible to phishing attacks''
       SeverityHigh CategoryCompliance ''Email system'' ''Credential theft''
       ''Implement email filtering and user training'' (7),
     pentest_finding (ids 1) (now 1) ''Information Disclosure'' ''Employees sharing sensitive information on social media''
       SeverityMedium CategoryCompliance ''Social media platforms'' ''Information leakage''
       ''Implement social media policy and training'' (5)]"

definition pentest_calculateRiskScore :: "PenTestFinding list \<Rightarrow> int" where
  "pentest_calculateRiskScore findings =
     (if length findings = 0 then 0
      else foldl (\<lambda>risk f. risk + severity_points (pf_Severity f)) 0 findings)"

definition pentest_generateRecommendations :: "PenTestFinding list \<Rightarrow> string list" where
  "pentest_generateRecommendations findings =
     (let found = map pf_Severity findings in
      (if has_severity SeverityCritical found
       then [''Address all critical findings immediately'', ''Implement emergency security measures'',
             ''Consider temporary service disruption for critical fixes''] else [])
      @ (if has_severity SeverityHigh found
         then [''Prioritize high-risk vulnerabilities for immediate remediation'', ''Increase security monitoring and alerting'',
               ''Schedule additional penetration testing''] else [])
      @ (if has_severity SeverityMedium found
         then [''Plan medium-risk fixes for next development cycle'', ''Enhance security training for development team'',
               ''Review and update security policies''] else [])
      @ [''Implement regular security assessments'', ''Establish security incident response procedures'',
         ''Maintain up-to-date security documentation'', ''Conduct regular security awareness training''])"

definition findings_of :: "(nat \<Rightarrow> string) \<Rightarrow> (nat \<Rightarrow> time) \<Rightarrow> TestType \<Rightarrow> PenTestFinding list" where
  "findings_of ids now testType =
     (case testType of
        TestTypeBlackBox \<Rightarrow> performBlackBoxTest ids now
      | TestTypeWhiteBox \<Rightarrow> performWhiteBoxTest ids now
      | TestTypeGrayBox \<Rightarrow> performGrayBoxTest ids now
      | TestTypeWebApp \<Rightarrow> performWebAppTest ids now
      | TestTypeNetwork \<Rightarrow> performNetworkTest ids now
      | TestTypeSocial \<Rightarrow> performSocialTest ids now
      | _ \<Rightarrow> [])"

datatype pentest_event =
    PenTestCompleted PenetrationTest
  | PenTestScheduled time TestType "string list"

definition PerformPenetrationTest ::
  "(int \<Rightarrow> int) \<Rightarrow> (nat \<Rightarrow> string) \<Rightarrow> (nat \<Rightarrow> time) \<Rightarrow> TestType \<Rightarrow> string list \<Rightarrow> pentest_event list option
     \<Rightarrow> pentest_event list option \<times> PenetrationTest" where
  "PerformPenetrationTest off ids now testType scope S =
     (let findings = findings_of (\<lambda>k. ids (k + 1)) (\<lambda>k. now (k + 1)) testType;
          test = \<lparr>pt_ID = ids 0, pt_TestType = testType, pt_StartTime = now 0, pt_EndTime = now 3,
            pt_Status = TestStatusCompleted, pt_Testers = [''Penetration Test Service''], pt_Scope = scope,
            pt_Findings = findings, pt_RiskScore = pentest_calculateRiskScore findings,
            pt_Recommendations = pentest_generateRecommendations findings, pt_NextTestDate = AddDate off (now 4) 0 3 0\<rparr>
      in (publish_event (PenTestCompleted test) S, test))"

definition SchedulePenetrationTest ::
  "pentest_event list option \<Rightarrow> time \<Rightarrow> TestType \<Rightarrow> string list \<Rightarrow> pentest_event list option" where
  "SchedulePenetrationTest S scheduledTime testType scope =
     publish_event (PenTestScheduled scheduledTime testType scope) S"

text \<open>A history of made-up tests, and a report that is the same for every identifier.\<close>

definition GetPenetrationTestHistory :: "(int \<Rightarrow> int) \<Rightarrow> (nat \<Rightarrow> string) \<Rightarrow> (nat \<Rightarrow> time) \<Rightarrow> int \<Rightarrow> PenetrationTest list" where
  "GetPenetrationTestHistory off ids now limit =
     map (\<lambda>i. \<lparr>pt_ID = ids i, pt_TestType = TestTypeWebApp, pt_StartTime = AddDate off (now (3 * i)) 0 (- int i) 0,
       pt_EndTime = AddDate off (now (3 * i + 1)) 0 (- int i) 0 + Hour * 8, pt_Status = TestStatusCompleted,
       pt_Testers = [''Penetration Test Service''], pt_Scope = [''web application''], pt_Findings = [],
       pt_RiskScore = 45 - int i, pt_Recommendations = [], pt_NextTestDate = AddDate off (now (3 * i + 2)) 0 (3 - int i) 0\<rparr>)
       [0..<nat (min limit 10)]"

definition GetTestReport :: "(int \<Rightarrow> int) \<Rightarrow> (nat \<Rightarrow> string) \<Rightarrow> (nat \<Rightarrow> time) \<Rightarrow> string \<Rightarrow> PenetrationTest" where
  "GetTestReport off ids now testID =
     \<lparr>pt_ID = testID, pt_TestType = TestTypeWebApp, pt_StartTime = AddDate off (now 0) 0 (-1) 0,
      pt_EndTime = AddDate off (now 1) 0 (-1) 0 + Hour * 8, pt_Status = TestStatusCompleted,
      pt_Testers = [''Penetration Test Service''], pt_Scope = [''web application''],
      pt_Findings = [
        pentest_finding (ids 0) (AddDate off (now 3) 0 (-1) 0) ''SQL Injection Vulnerability'' ''SQL injection found in login form''
          SeverityHigh CategoryApplication ''/login'' ''Database compromise'' ''Use parameterized queries'' 8,
        pentest_finding (ids 1) (AddDate off (now 4) 0 (-1) 0) ''Weak Password Policy'' ''Password policy allows weak passwords''
          SeverityMedium CategoryAuthentication ''/register'' ''Increased risk of account compromise''
          ''Implement stronger password requirements'' (11 / 2)],
      pt_RiskScore = 45, pt_Recommendations = [], pt_NextTestDate = AddDate off (now 2) 0 2 0\<rparr>"

definition ValidateTestScope :: "string list \<Rightarrow> string list \<Rightarrow> bool" where
  "ValidateTestScope scope allowedScopes \<longleftrightarrow> length scope > 0"

definition CalculateTestDuration :: "TestType \<Rightarrow> int \<Rightarrow> duration" where
  "CalculateTestDuration testType scopeSize =
     (let duration = (case testType of
            TestTypeBlackBox \<Rightarrow> 8 * Hour | TestTypeWhiteBox \<Rightarrow> 6 * Hour | TestTypeGrayBox \<Rightarrow> 7 * Hour
          | TestTypeWebApp \<Rightarrow> 4 * Hour | TestTypeMobile \<Rightarrow> 5 * Hour | TestTypeNetwork \<Rightarrow> 6 * Hour
          | TestTypeSocial \<Rightarrow> 3 * Hour | OtherTestType _ \<Rightarrow> 0);
          duration = (if duration = 0 then 4 * Hour else duration)
      in if scopeSize > 10 then duration + Hour * 2
         else if scopeSize > 5 then duration + Hour else duration)"

section \<open>Data protection\<close>

record DataProcessing =
  dp_ID :: string
  dp_Type :: string
  dp_Purpose :: string
  dp_LegalBasis :: string
  dp_Categories :: "string list"
  dp_Recipients :: "string list"
  dp_Retention :: string
  dp_Location :: string
  dp_Status :: string
  dp_LastUpdated :: time

record DataSubject =
  ds_ID :: string
  ds_Type :: string
  ds_Category :: string
  ds_Count :: int
  ds_Location :: string
  ds_ConsentGiven :: bool
  ds_LastActivity :: time

record GDPRRight =
  gr_ID :: string
  gr_Type :: string
  gr_Status :: string
  gr_Description :: string
  gr_ProcessTime :: string
  gr_LastUpdated :: time

record DataBreach =
  db_ID :: string
  db_Type :: string
  db_Severity :: SeverityLevel
  db_Description :: string
  db_Affected :: int
  db_Reported :: time
  db_Resolved :: time
  db_Notification :: string
  db_Status :: FindingStatus

record ConsentRecord =
  cr_ID :: string
  cr_UserID :: string
  cr_Type :: string
  cr_Purpose :: string
  cr_Status :: string
  cr_GivenAt :: time
  cr_ExpiresAt :: time
  cr_IPAddress :: string
  cr_UserAgent :: string

record GDPRViolation =
  gv_ID :: string
  gv_Type :: string
  gv_Description :: string
  gv_Severity :: SeverityLevel
  gv_Article :: string
  gv_Date :: time
  gv_Status :: FindingStatus
  gv_Resolved :: time

record GDPRCompliance =
  gc_ID :: string
  gc_ComplianceScore :: int
  gc_LastAssessment :: time
  gc_NextAssessment :: time
  gc_DataProcessing :: "DataProcessing list"
  gc_DataSubjects :: "DataSubject list"
  gc_Rights :: "GDPRRight list"
  gc_BreachHistory :: "DataBreach list"
  gc_ConsentRecords :: "ConsentRecord list"
  gc_Violations :: "GDPRViolation list"
  gc_Recommendations :: "string list"

definition activeConsents :: "GDPRCompliance \<Rightarrow> int" where
  "activeConsents assessment =
     foldl (\<lambda>n c. if cr_Status c = ''Active'' then n + 1 else n) 0 (gc_ConsentRecords assessment)"

definition gdpr_calculateComplianceScore :: "GDPRCompliance \<Rightarrow> int" where
  "gdpr_calculateComplianceScore assessment =
     (let score = foldl (\<lambda>score v. score - severity_points (gv_Severity v)) 100 (gc_Violations assessment);
          score = foldl (\<lambda>score r. if gr_Status r = ''Implemented'' then score + 5
                     else if gr_Status r = ''Partially Implemented'' then score + 2 else score) score (gc_Rights assessment);
          score = (if activeConsents assessment > 0 then score + 10 else score)
      in if score < 0 then 0 else score)"

definition gdpr_calculateUserComplianceScore :: "GDPRCompliance \<Rightarrow> int" where
  "gdpr_calculateUserComplianceScore assessment =
     (let n = activeConsents assessment;
          score = (if n = 0 then 100 - 50 else if n < 3 then 100 - 20 else 100);
          score = foldl (\<lambda>score v. score - user_severity_points (gv_Severity v)) score (gc_Violations assessment)
      in if score < 0 then 0 else score)"

definition generateGDPRRecommendations :: "GDPRCompliance \<Rightarrow> string list" where
  "generateGDPRRecommendations assessment =
     concat (map (\<lambda>v.
       if gv_Type v = ''Missing Consent''
       then [''Implement proper consent management system'', ''Ensure explicit consent for all data processing activities'']
       else if gv_Type v = ''Delayed Response''
       then [''Streamline DSAR processing workflow'', ''Implement automated tracking and reminder system'']
       else if gv_Type v = ''Insufficient Documentation''
       then [''Maintain comprehensive records of processing activities'', ''Document all legal bases for data processing'']
       else []) (gc_Violations assessment))
     @ [''Regular GDPR compliance audits'', ''Staff training on GDPR requirements'', ''Privacy by design implementation'',
        ''Data protection impact assessments'']"

definition gdpr_generateUserRecommendations :: "(int \<Rightarrow> int) \<Rightarrow> (nat \<Rightarrow> time) \<Rightarrow> GDPRCompliance \<Rightarrow> string list" where
  "gdpr_generateUserRecommendations off now assessment =
     (if activeConsents assessment = 0
      then [''Review and update consent preferences'', ''Contact privacy officer for consent management''] else [])
     @ concat (map (\<lambda>(i, v).
         if gv_Date v > AddDate off (now i) 0 (-1) 0
         then (if gv_Type v = ''Missing Consent''
               then [''Update consent preferences immediately'', ''Review privacy policy'']
               else if gv_Type v = ''Data Access Issues''
               then [''Check data access rights'', ''Submit data access request if needed'']
               else [])
         else []) (enumerate 0 (gc_Violations assessment)))"

definition CheckConsentExpiry :: "time \<Rightarrow> ConsentRecord \<Rightarrow> bool" where
  "CheckConsentExpiry now consentRecord \<longleftrightarrow> now > cr_ExpiresAt consentRecord"

definition CheckDataRetention :: "time \<Rightarrow> string \<Rightarrow> time \<Rightarrow> duration \<Rightarrow> bool" where
  "CheckDataRetention now dataType recordDate retentionPeriod \<longleftrightarrow> now < recordDate + retentionPeriod"

text \<open>The assessment of the platform is over fixed records: only identifiers and dates are new.\<close>

definition assessDataProcessing :: "(nat \<Rightarrow> string) \<Rightarrow> (nat \<Rightarrow> time) \<Rightarrow> DataProcessing list" where
  "assessDataProcessing ids now = [
     \<lparr>dp_ID = ids 0, dp_Type = ''User Registration'', dp_Purpose = ''Account creation and management'',
      dp_LegalBasis = ''Consent'', dp_Categories = [''Personal Data'', ''Contact Information''],
      dp_Recipients = [''Internal Systems''], dp_Retention = ''7 years'', dp_Location = ''EU'',
      dp_Status = ''Active'', dp_LastUpdated = now 0\<rparr>,
     \<lparr>dp_ID = ids 1, dp_Type = ''Betting Transactions'', dp_Purpose = ''Processing bets and payments'',
      dp_LegalBasis = ''Contractual Necessity'',
      dp_Categories = [''Financial Data'', ''Betting History''],
      dp_Recipients = [''Payment Processors'', ''Internal Systems''], dp_Retention = ''10 years'',
      dp_Location = ''EU'', dp_Status = ''Active'', dp_LastUpdated = now 1\<rparr>]"

definition assessDataSubjects :: "(int \<Rightarrow> int) \<Rightarrow> (nat \<Rightarrow> string) \<Rightarrow> (nat \<Rightarrow> time) \<Rightarrow> DataSubject list" where
  "assessDataSubjects off ids now = [
     \<lparr>ds_ID = ids 0, ds_Type = ''Customers'', ds_Category = ''Individual'', ds_Count = 50000,
      ds_Location = ''EU'', ds_ConsentGiven = True, ds_LastActivity = AddDate off (now 0) 0 (-1) 0\<rparr>,
     \<lparr>ds_ID = ids 1, ds_Type = ''Employees'', ds_Category = ''Individual'', ds_Count = 100,
      ds_Location = ''EU'', ds_ConsentGiven = True, ds_LastActivity = AddDate off (now 1) 0 (-7) 0\<rparr>]"

definition assessGDPRRights :: "(nat \<Rightarrow> string) \<Rightarrow> (nat \<Rightarrow> time) \<Rightarrow> GDPRRight list" where
  "assessGDPRRights ids now = [
     \<lparr>gr_ID = ids 0, gr_Type = ''Right to Access'', gr_Status = ''Implemented'',
      gr_Description = ''Users can request access to their personal data'',
      gr_ProcessTime = ''30 days'', gr_LastUpdated = now 0\<rparr>,
     \<lparr>gr_ID = ids 1, gr_Type = ''Right to Rectification'', gr_Status = ''Implemented'',
      gr_Description = ''Users can correct inaccurate personal data'', gr_ProcessTime = ''30 days'',
      gr_LastUpdated = now 1\<rparr>,
     \<lparr>gr_ID = ids 2, gr_Type = ''Right to Erasure'', gr_Status = ''Implemented'',
      gr_Description = ''Users can request deletion of their personal data'',
      gr_ProcessTime = ''30 days'', gr_LastUpdated = now 2\<rparr>,
     \<lparr>gr_ID = ids 3, gr_Type = ''Right to Data Portability'', gr_Status = ''Partially Implemented'',
      gr_Description = ''Users can export their data in machine-readable format'',
      gr_ProcessTime = ''30 days'', gr_LastUpdated = now 3\<rparr>]"

definition assessBreachHistory :: "(int \<Rightarrow> int) \<Rightarrow> (nat \<Rightarrow> string) \<Rightarrow> (nat \<Rightarrow> time) \<Rightarrow> DataBreach list" where
  "assessBreachHistory off ids now = [
     \<lparr>db_ID = ids 0, db_Type = ''Phishing Attack'', db_Severity = SeverityMedium,
      db_Description = ''Employee credentials compromised through phishing'', db_Affected = 5,
      db_Reported = AddDate off (now 0) 0 (-6) 0, db_Resolved = AddDate off (now 1) 0 (-5) 0,
      db_Notification = ''Affected users notified within 72 hours'', db_Status = FindingStatusResolved\<rparr>,
     \<lparr>db_ID = ids 1, db_Type = ''System Vulnerability'', db_Severity = SeverityLow,
      db_Description = ''Minor security vulnerability patched'', db_Affected = 0,
      db_Reported = AddDate off (now 2) 0 (-3) 0, db_Resolved = AddDate off (now 3) 0 (-3) 0,
      db_Notification = ''No notification required'', db_Status = FindingStatusResolved\<rparr>]"

definition assessConsentRecords :: "(int \<Rightarrow> int) \<Rightarrow> (nat \<Rightarrow> string) \<Rightarrow> (nat \<Rightarrow> time) \<Rightarrow> ConsentRecord list" where
  "assessConsentRecords off ids now = [
     \<lparr>cr_ID = ids 0, cr_UserID = ''user_123'', cr_Type = ''Marketing'',
      cr_Purpose = ''Email marketing communications'', cr_Status = ''Active'',
      cr_GivenAt = AddDate off (now 0) (-1) 0 0, cr_ExpiresAt = AddDate off (now 1) 1 0 0,
      cr_IPAddress = ''192.168.1.100'',
      cr_UserAgent = ''Mozilla/5.0 (Windows NT 10.0; Win64; x64) AppleWebKit/537.36''\<rparr>,
     \<lparr>cr_ID = ids 1, cr_UserID = ''user_456'', cr_Type = ''Analytics'',
      cr_Purpose = ''Website usage analytics'', cr_Status = ''Active'',
      cr_GivenAt = AddDate off (now 2) (-2) 0 0, cr_ExpiresAt = AddDate off (now 3) 2 0 0,
      cr_IPAddress = ''192.168.1.101'',
      cr_UserAgent = ''Mozilla/5.0 (Macintosh; Intel Mac OS X 10_15_7) AppleWebKit/537.36''\<rparr>]"

definition assessGDPRViolations :: "(int \<Rightarrow> int) \<Rightarrow> (nat \<Rightarrow> string) \<Rightarrow> (nat \<Rightarrow> time) \<Rightarrow> GDPRViolation list" where
  "assessGDPRViolations off ids now = [
     \<lparr>gv_ID = ids 0, gv_Type = ''Missing Consent'',
      gv_Description = ''Processing data without explicit consent'', gv_Severity = SeverityHigh,
      gv_Article = ''Article 6'', gv_Date = AddDate off (now 0) 0 (-2) 0,
      gv_Status = FindingStatusOpen, gv_Resolved = zero_time\<rparr>,
     \<lparr>gv_ID = ids 1, gv_Type = ''Delayed Response'',
      gv_Description = ''DSAR response exceeded 30-day deadline'', gv_Severity = SeverityMedium,
      gv_Article = ''Article 12'', gv_Date = AddDate off (now 1) 0 (-1) 0,
      gv_Status = FindingStatusInProgress, gv_Resolved = zero_time\<rparr>,
     \<lparr>gv_ID = ids 2, gv_Type = ''Insufficient Documentation'',
      gv_Description = ''Lack of proper documentation for data processing'', gv_Severity = SeverityLow,
      gv_Article = ''Article 30'', gv_Date = AddDate off (now 2) 0 (-6) 0,
      gv_Status = FindingStatusResolved, gv_Resolved = AddDate off (now 3) 0 (-5) 0\<rparr>]"

datatype gdpr_event =
    GdprAssessed GDPRCompliance
  | GdprUserAssessed GDPRCompliance
  | GdprRequestReceived string string time
  | GdprConsentWithdrawn string string time
  | GdprBreachReported DataBreach

definition PerformGDPRAssessment ::
  "(int \<Rightarrow> int) \<Rightarrow> (nat \<Rightarrow> string) \<Rightarrow> (nat \<Rightarrow> time) \<Rightarrow> gdpr_event list option \<Rightarrow> gdpr_event list option \<times> GDPRCompliance" where
  "PerformGDPRAssessment off ids now S =
     (let a = \<lparr>gc_ID = ids 0, gc_ComplianceScore = 0, gc_LastAssessment = now 0, gc_NextAssessment = AddDate off (now 1) 0 6 0,
            gc_DataProcessing = assessDataProcessing (\<lambda>k. ids (k + 1)) (\<lambda>k. now (k + 2)),
            gc_DataSubjects = assessDataSubjects off (\<lambda>k. ids (k + 3)) (\<lambda>k. now (k + 4)),
            gc_Rights = assessGDPRRights (\<lambda>k. ids (k + 5)) (\<lambda>k. now (k + 6)),
            gc_BreachHistory = assessBreachHistory off (\<lambda>k. ids (k + 9)) (\<lambda>k. now (k + 10)),
            gc_ConsentRecords = assessConsentRecords off (\<lambda>k. ids (k + 11)) (\<lambda>k. now (k + 14)),
            gc_Violations = assessGDPRViolations off (\<lambda>k. ids (k + 13)) (\<lambda>k. now (k + 18)), gc_Recommendations = []\<rparr>;
          a = a\<lparr>gc_ComplianceScore := gdpr_calculateComplianceScore a\<rparr>;
          a = a\<lparr>gc_Recommendations := generateGDPRRecommendations a\<rparr>
      in (publish_event (GdprAssessed a) S, a))"

definition getUserDataProcessing :: "string \<Rightarrow> DataProcessing list" where "getUserDataProcessing userID = []"
definition getUserDataSubjects :: "string \<Rightarrow> DataSubject list" where "getUserDataSubjects userID = []"
definition getUserGDPRRights :: "string \<Rightarrow> GDPRRight list" where "getUserGDPRRights userID = []"
definition getUserConsentRecords :: "string \<Rightarrow> ConsentRecord list" where "getUserConsentRecords userID = []"
definition gdpr_getUserViolations :: "string \<Rightarrow> GDPRViolation list" where "gdpr_getUserViolations userID = []"

definition GetUserGDPRStatus ::
  "(int \<Rightarrow> int) \<Rightarrow> (nat \<Rightarrow> string) \<Rightarrow> (nat \<Rightarrow> time) \<Rightarrow> gdpr_event list option \<Rightarrow> string \<Rightarrow> gdpr_event list option \<times> GDPRCompliance"
where
  "GetUserGDPRStatus off ids now S userID =
     (let a = \<lparr>gc_ID = ids 0, gc_ComplianceScore = 0, gc_LastAssessment = now 0, gc_NextAssessment = AddDate off (now 1) 0 3 0,
            gc_DataProcessing = getUserDataProcessing userID, gc_DataSubjects = getUserDataSubjects userID,
            gc_Rights = getUserGDPRRights userID, gc_BreachHistory = [], gc_ConsentRecords = getUserConsentRecords userID,
            gc_Violations = gdpr_getUserViolations userID, gc_Recommendations = []\<rparr>;
          a = a\<lparr>gc_ComplianceScore := gdpr_calculateUserComplianceScore a\<rparr>;
          a = a\<lparr>gc_Recommendations := gdpr_generateUserRecommendations off (\<lambda>i. now (i + 2)) a\<rparr>
      in (publish_event (GdprUserAssessed a) S, a))"

definition HandleDataSubjectRequest :: "time \<Rightarrow> gdpr_event list option \<Rightarrow> string \<Rightarrow> string \<Rightarrow> gdpr_event list option" where
  "HandleDataSubjectRequest now S userID requestType = publish_event (GdprRequestReceived userID requestType now) S"

definition HandleConsentWithdrawal :: "time \<Rightarrow> gdpr_event list option \<Rightarrow> string \<Rightarrow> string \<Rightarrow> gdpr_event list option" where
  "HandleConsentWithdrawal now S userID consentType = publish_event (GdprConsentWithdrawn userID consentType now) S"

definition ReportDataBreach ::
  "string \<Rightarrow> time \<Rightarrow> gdpr_event list option \<Rightarrow> string \<Rightarrow> int \<Rightarrow> SeverityLevel \<Rightarrow> gdpr_event list option" where
  "ReportDataBreach i now S breachType affected severity =
     publish_event (GdprBreachReported \<lparr>db_ID = i, db_Type = breachType, db_Severity = severity,
       db_Description = ''Data breach detected and reported'', db_Affected = affected, db_Reported = now,
       db_Resolved = zero_time, db_Notification = ''Notification sent to authorities'', db_Status = FindingStatusOpen\<rparr>) S"

section \<open>Scores and risks\<close>

lemma foldl_plus: "foldl (\<lambda>s x. s + f x) a xs = a + sum_list (map f xs)" for f :: "'a \<Rightarrow> int"
  by (induction xs arbitrary: a) auto

lemma has_severity_iff: "has_severity s found \<longleftrightarrow> s \<in> set found"
proof -
  have "foldl (\<lambda>seen x. if x = s then True else seen) b found \<longleftrightarrow> b \<or> s \<in> set found" for b
    by (induction found arbitrary: b) auto
  then show ?thesis by (simp add: has_severity_def)
qed

lemma audit_scores:
  "audit_calculateRiskScore fs = sum_list (map (severity_points \<circ> sf_Severity) fs)"
  "calculateSecurityScore fs = max 0 (100 - audit_calculateRiskScore fs)"
  by (auto simp: audit_calculateRiskScore_def calculateSecurityScore_def foldl_plus foldl_minus o_def Let_def)

text \<open>An audit reports what it found. Whatever the configuration, the findings are those of the categories
  in order, the two scores are computed by different loops and complement each other, the score being
  what is left of 100 after the risk, and the recommendations name the severities that occur. At most
  three findings of medium severity are possible, so no audit scores below 70, with an empty
  encryption key as with any other.\<close>

theorem audit_reports_findings:
  "case PerformSecurityAudit off ids now config S of (S', a) \<Rightarrow>
     sa_Findings a = ac_Authentication (sa_Categories a) @ ac_Authorization (sa_Categories a) @ ac_DataProtection (sa_Categories a)
       @ ac_Network (sa_Categories a) @ ac_Application (sa_Categories a) @ ac_Infrastructure (sa_Categories a)
       @ ac_Compliance (sa_Categories a) \<and>
     sa_Score a = max 0 (100 - sa_RiskScore a) \<and>
     sa_RiskScore a = 10 * int (length (sa_Findings a)) \<and> 70 \<le> sa_Score a \<and> sa_Score a \<le> 90 \<and>
     sa_Recommendations a = [''Schedule medium-risk findings for next sprint'', ''Enhance security training for development team'',
       ''Conduct regular security assessments'', ''Implement automated security testing'',
       ''Maintain up-to-date security documentation'', ''Establish security incident response procedures'']"
  unfolding PerformSecurityAudit_def Let_def prod.case
  by (simp add: audit_scores assessAuthentication_def assessAuthorization_def assessDataProtection_def
      assessNetwork_def assessApplication_def assessInfrastructure_def assessCompliance_def audit_finding_def
      audit_generateRecommendations_def has_severity_iff Let_def)

text \<open>A penetration test of a mobile application finds nothing, and no test looks at its scope.\<close>

lemma tests_ignore_scope:
  "pt_Findings (snd (PerformPenetrationTest off ids now T scope S)) = pt_Findings (snd (PerformPenetrationTest off ids now T scope' S))"
  "pt_RiskScore (snd (PerformPenetrationTest off ids now TestTypeMobile scope S)) = 0"
  "ValidateTestScope [''payroll''] [''web'']"
  by (simp_all add: PerformPenetrationTest_def findings_of_def pentest_calculateRiskScore_def ValidateTestScope_def Let_def)

lemma test_durations:
  "3 * Hour \<le> CalculateTestDuration T n \<and> CalculateTestDuration T n \<le> 10 * Hour"
  by (cases T) (simp_all add: CalculateTestDuration_def)

text \<open>A withdrawn consent, or any other request, leaves the status of the player as it was.\<close>

lemma gdpr_status_constant:
  "gc_ComplianceScore (snd (GetUserGDPRStatus off ids now S u)) = 50"
  "gc_ConsentRecords (snd (GetUserGDPRStatus off ids now S u)) = []"
  by (simp_all add: GetUserGDPRStatus_def Let_def getUserDataProcessing_def getUserDataSubjects_def getUserGDPRRights_def
      getUserConsentRecords_def gdpr_getUserViolations_def gdpr_calculateUserComplianceScore_def activeConsents_def)

text \<open>The score of the platform has no upper bound: every implemented right adds five points.\<close>

lemma gdpr_score_unbounded:
  assumes "gc_Violations a = []" "\<forall>r \<in> set (gc_Rights a). gr_Status r = ''Implemented''"
  shows "gdpr_calculateComplianceScore a \<ge> 100 + 5 * int (length (gc_Rights a))"
proof -
  have "foldl (\<lambda>score r. if gr_Status r = ''Implemented'' then score + 5
      else if gr_Status r = ''Partially Implemented'' then score + 2 else score) s rs = s + 5 * int (length rs)"
    if "\<forall>r \<in> set rs. gr_Status r = ''Implemented''" for s :: int and rs :: "GDPRRight list"
    using that by (induction rs arbitrary: s) auto
  then show ?thesis using assms by (simp add: gdpr_calculateComplianceScore_def Let_def)
qed

text \<open>Every assessment of the platform gives the same 97, with a violation of high severity open.\<close>

lemma platform_score_constant:
  "gc_ComplianceScore (snd (PerformGDPRAssessment off ids now S)) = 97"
  "\<exists>v \<in> set (gc_Violations (snd (PerformGDPRAssessment off ids now S))). gv_Severity v = SeverityHigh \<and> gv_Status v = FindingStatusOpen"
  by (simp_all add: PerformGDPRAssessment_def Let_def gdpr_calculateComplianceScore_def activeConsents_def assessGDPRViolations_def
      assessGDPRRights_def assessConsentRecords_def)

text \<open>The report of a test has a risk of 45 where its own findings weigh 25.\<close>

lemma test_report_risk:
  "pt_RiskScore (GetTestReport off ids now t) = 45"
  "pentest_calculateRiskScore (pt_Findings (GetTestReport off ids now t)) = 25"
  by (simp_all add: GetTestReport_def pentest_calculateRiskScore_def pentest_finding_def)

end
