(* ===== verification/Oversight.thy ===== *)
theory Oversight
  imports Strconv Json Transport Compliance Assessments
begin

text \<open>
  The endpoints of \<open>internal/transport/http\<close> for oversight: security (\<open>security*.go\<close>) over \<open>Assessments\<close>
  and \<open>ResponsibleGaming\<close>, and the licence rules (\<open>compliance*.go\<close>) over \<open>Compliance\<close>. Most of the
  services' methods they call are stubs that do nothing and report success. The JSON decoders are
  arguments; no service method returns an error.
\<close>

section \<open>Requests\<close>

record SecurityAuditRequest =
  aq_Scope :: "string list"
  aq_DeepScan :: bool
  aq_IncludeLogs :: bool

record PenetrationTestRequest =
  pq_TestType :: string
  pq_Scope :: "string list"
  pq_StartDate :: time
  pq_EndDate :: time
  pq_Objectives :: "string list"
  pq_Constraints :: "string list"
  pq_ReportFormat :: string

record GDPRRequest =
  gq_Type :: string
  gq_UserID :: string
  gq_Reason :: string
  gq_ContactInfo :: string
  gq_RequestedAt :: time

record ResponsibleGamingRequest =
  rq_UserID :: string
  rq_Action :: string
  rq_Parameters :: "(string \<times> json) list"
  rq_Reason :: string
  rq_RequestedAt :: time

record GamingLimit =
  gl_Type :: string
  gl_Amount :: decimal
  gl_Duration :: duration
  gl_Active :: bool
  gl_SetAt :: time
  gl_ExpiresAt :: "time option"

record BetValidationRequest =
  bv_UserID :: string
  bv_BetAmount :: decimal
  bv_BetType :: string
  bv_Selections :: int
  bv_MarketID :: string
  bv_EventID :: string
  bv_Odds :: decimal

record CurrentUsage =
  cu_DailyAmount :: decimal
  cu_WeeklyAmount :: decimal
  cu_MonthlyAmount :: decimal
  cu_BetCount :: int
  cu_SessionTime :: int
  cu_LastBet :: time

record http_UserLimits =
  hu_DailyLimit :: decimal
  hu_WeeklyLimit :: decimal
  hu_MonthlyLimit :: decimal
  hu_BetLimit :: decimal
  hu_LossLimit :: decimal
  hu_TimeLimit :: int
  hu_CurrentUsage :: "CurrentUsage option"

record UserRestriction =
  ur_Type :: string
  ur_Reason :: string
  ur_StartedAt :: time
  ur_EndsAt :: time
  ur_IsActive :: bool
  ur_AppliedBy :: string
  ur_Description :: string

record ComplianceRule =
  xr_ID :: string
  xr_Name :: string
  xr_Description :: string
  xr_Type :: string
  xr_Category :: string
  xr_Enabled :: bool
  xr_Severity :: string
  xr_Conditions :: "(string \<times> json) list"
  xr_Actions :: "string list"
  xr_CreatedAt :: time
  xr_UpdatedAt :: time
  xr_CreatedBy :: string
  xr_UpdatedBy :: string

text \<open>The decoders of the bodies; of settings, alerts and limits only what the handlers look at.\<close>

record decoders =
  dec_audit :: "string \<Rightarrow> SecurityAuditRequest option"
  dec_pentest :: "string \<Rightarrow> PenetrationTestRequest option"
  dec_gdpr :: "string \<Rightarrow> GDPRRequest option"
  dec_rg :: "string \<Rightarrow> ResponsibleGamingRequest option"
  dec_gaming_limits :: "string \<Rightarrow> (string \<times> GamingLimit option list) option"
  dec_bet :: "string \<Rightarrow> BetValidationRequest option"
  dec_user_limits :: "string \<Rightarrow> http_UserLimits option"
  dec_restriction :: "string \<Rightarrow> UserRestriction option"
  dec_rule :: "string \<Rightarrow> ComplianceRule option"
  dec_settings :: "string \<Rightarrow> unit option"
  dec_alert :: "string \<Rightarrow> string option"

datatype oversight_error = BadBody

datatype oversight_answer =
    AuditReply SecurityAudit
  | AuditsReply "SecurityAudit list"
  | TestReply PenetrationTest
  | ResultsReply string string
  | MetricsReply time time
  | NothingFoundReply
  | GdprReply GDPRRequest
  | StatusReply string string
  | RgReply ResponsibleGamingRequest
  | ProfileReply string
  | CheckReply ComplianceCheck
  | EmptyReply
  | RuleReply ComplianceRule string
  | DoneReply string

type_synonym oversight_http = "(oversight_error, oversight_answer) answer"

section \<open>The stubs of the services\<close>

text \<open>What the services keep: the events the four security services published, and the store of the licence rules.\<close>

record 's oversight =
  ov_audit :: "security_event list option"
  ov_pentest :: "pentest_event list option"
  ov_gdpr :: "gdpr_event list option"
  ov_rg :: rg_service
  ov_bclb :: 's

definition GetTestResults :: "string \<Rightarrow> string \<times> string" where "GetTestResults testID = (testID, ''completed'')"
definition gdpr_ProcessRequest :: "gdpr_event list option \<Rightarrow> GDPRRequest \<Rightarrow> gdpr_event list option" where
  "gdpr_ProcessRequest S request = S"
definition GetRequestStatus :: "string \<Rightarrow> string \<times> string" where "GetRequestStatus requestID = (requestID, ''pending'')"
definition rg_ProcessRequest :: "rg_service \<Rightarrow> ResponsibleGamingRequest \<Rightarrow> rg_service" where
  "rg_ProcessRequest S request = S"
definition rg_SetGamingLimits :: "rg_service \<Rightarrow> string \<Rightarrow> GamingLimit option list \<Rightarrow> rg_service" where
  "rg_SetGamingLimits S userID limits = S"
definition bclb_SetUserLimits :: "'s \<Rightarrow> string \<Rightarrow> http_UserLimits \<Rightarrow> 's" where
  "bclb_SetUserLimits s userID limits = s"
definition bclb_AddUserRestriction :: "'s \<Rightarrow> string \<Rightarrow> UserRestriction \<Rightarrow> 's" where
  "bclb_AddUserRestriction s userID restriction = s"
definition bclb_AcknowledgeComplianceAlert :: "'s \<Rightarrow> string \<Rightarrow> 's" where
  "bclb_AcknowledgeComplianceAlert s alertID = s"
definition bclb_ResolveComplianceAlert :: "'s \<Rightarrow> string \<Rightarrow> 's" where
  "bclb_ResolveComplianceAlert s alertID = s"
definition bclb_CreateComplianceRule :: "'s \<Rightarrow> ComplianceRule \<Rightarrow> 's" where
  "bclb_CreateComplianceRule s rule = s"
definition bclb_UpdateComplianceRule :: "'s \<Rightarrow> string \<Rightarrow> ComplianceRule \<Rightarrow> 's" where
  "bclb_UpdateComplianceRule s ruleID rule = s"
definition bclb_DeleteComplianceRule :: "'s \<Rightarrow> string \<Rightarrow> 's" where
  "bclb_DeleteComplianceRule s ruleID = s"
definition bclb_UpdateComplianceSettings :: "'s \<Rightarrow> unit \<Rightarrow> 's" where
  "bclb_UpdateComplianceSettings s settings = s"

section \<open>Security endpoints\<close>

text \<open>A handler that decodes a body first; the state stays when it cannot.\<close>

definition with_body :: "'b option \<Rightarrow> 's \<Rightarrow> ('b \<Rightarrow> 's \<times> oversight_http) \<Rightarrow> 's \<times> oversight_http" where
  "with_body body s k =
     (case body of None \<Rightarrow> (s, WriteError (Some BadBody) ''Invalid request body'' 400) | Some req \<Rightarrow> k req)"

definition http_PerformSecurityAudit ::
  "(int \<Rightarrow> int) \<Rightarrow> (nat \<Rightarrow> string) \<Rightarrow> (nat \<Rightarrow> time) \<Rightarrow> SecurityConfig \<Rightarrow> SecurityAuditRequest option \<Rightarrow>
     security_event list option \<Rightarrow> security_event list option \<times> oversight_http" where
  "http_PerformSecurityAudit off ids now config body S =
     with_body body S (\<lambda>req. case PerformSecurityAudit off ids now config S of
       (S', audit) \<Rightarrow> (S', WriteJSON (AuditReply audit) 200))"

definition http_GetSecurityAuditHistory :: "(int \<Rightarrow> int) \<Rightarrow> (nat \<Rightarrow> string) \<Rightarrow> (nat \<Rightarrow> time) \<Rightarrow> string \<Rightarrow> oversight_http" where
  "http_GetSecurityAuditHistory off ids now limitStr =
     (let limit = (if limitStr \<noteq> '''' then
            (case Atoi limitStr of Some parsed \<Rightarrow> if parsed > 0 then parsed else 50 | None \<Rightarrow> 50) else 50)
      in WriteJSON (AuditsReply (GetAuditHistory off ids now limit)) 200)"

text \<open>The conversion of the text of a request to a kind of test.\<close>

definition test_type :: "string \<Rightarrow> TestType" where
  "test_type t =
     (case map_of [(''BLACK_BOX'', TestTypeBlackBox), (''WHITE_BOX'', TestTypeWhiteBox), (''GRAY_BOX'', TestTypeGrayBox),
        (''WEB_APP'', TestTypeWebApp), (''MOBILE'', TestTypeMobile), (''NETWORK'', TestTypeNetwork),
        (''SOCIAL'', TestTypeSocial)] t of Some k \<Rightarrow> k | None \<Rightarrow> OtherTestType t)"

definition http_PerformPenetrationTest ::
  "(int \<Rightarrow> int) \<Rightarrow> (nat \<Rightarrow> string) \<Rightarrow> (nat \<Rightarrow> time) \<Rightarrow> PenetrationTestRequest option \<Rightarrow>
     pentest_event list option \<Rightarrow> pentest_event list option \<times> oversight_http" where
  "http_PerformPenetrationTest off ids now body S =
     with_body body S (\<lambda>req. case PerformPenetrationTest off ids now (test_type (pq_TestType req)) (pq_Scope req) S of
       (S', test) \<Rightarrow> (S', WriteJSON (TestReply test) 200))"

definition http_GetPenetrationTestResults :: "string \<Rightarrow> oversight_http" where
  "http_GetPenetrationTestResults url =
     (let path = TrimPrefix url ''/api/security/pentest/results/'' in
      if path = '''' then WriteError None ''Test ID is required'' 400
      else case GetTestResults path of (i, status) \<Rightarrow> WriteJSON (ResultsReply i status) 200)"

text \<open>Of the metrics, all constants, only the two dates are kept.\<close>

definition http_GetSecurityMetrics :: "(int \<Rightarrow> int) \<Rightarrow> (nat \<Rightarrow> time) \<Rightarrow> oversight_http" where
  "http_GetSecurityMetrics off now = WriteJSON (MetricsReply (AddDate off (now 0) 0 (-1) 0) (AddDate off (now 1) 0 2 0)) 200"

definition http_GetVulnerabilityReport :: oversight_http where
  "http_GetVulnerabilityReport = WriteJSON NothingFoundReply 200"

definition http_ProcessGDPRRequest ::
  "GDPRRequest option \<Rightarrow> gdpr_event list option \<Rightarrow> gdpr_event list option \<times> oversight_http" where
  "http_ProcessGDPRRequest body S =
     with_body body S (\<lambda>req.
       if gq_UserID req = '''' \<or> gq_Type req = ''''
       then (S, WriteError None ''User ID and request type are required'' 400)
       else (gdpr_ProcessRequest S req, WriteJSON (GdprReply req) 200))"

definition http_GetGDPRRequestStatus :: "string \<Rightarrow> oversight_http" where
  "http_GetGDPRRequestStatus url =
     (let path = TrimPrefix url ''/api/security/gdpr/status/'' in
      if path = '''' then WriteError None ''Request ID is required'' 400
      else case GetRequestStatus path of (i, status) \<Rightarrow> WriteJSON (StatusReply i status) 200)"

definition http_ProcessResponsibleGamingRequest ::
  "ResponsibleGamingRequest option \<Rightarrow> rg_service \<Rightarrow> rg_service \<times> oversight_http" where
  "http_ProcessResponsibleGamingRequest body S =
     with_body body S (\<lambda>req.
       if rq_UserID req = '''' \<or> rq_Action req = ''''
       then (S, WriteError None ''User ID and action are required'' 400)
       else (rg_ProcessRequest S req, WriteJSON (RgReply req) 200))"

definition http_GetUserGamingProfile :: "string \<Rightarrow> oversight_http" where
  "http_GetUserGamingProfile url =
     (let path = TrimPrefix url ''/api/security/responsible-gaming/profile/'' in
      if path = '''' then WriteError None ''User ID is required'' 400
      else WriteJSON (ProfileReply path) 200)"

definition http_SetGamingLimits ::
  "(string \<times> GamingLimit option list) option \<Rightarrow> rg_service \<Rightarrow> rg_service \<times> oversight_http" where
  "http_SetGamingLimits body S =
     with_body body S (\<lambda>(userID, limits).
       if userID = '''' \<or> length limits = 0
       then (S, WriteError None ''User ID and limits are required'' 400)
       else (rg_SetGamingLimits S userID limits, WriteJSON (DoneReply ''Gaming limits set successfully'') 200))"

section \<open>Licence endpoints\<close>

text \<open>The rest of a path after as many characters as a prefix has; a shorter path panics.\<close>

definition path_after :: "string \<Rightarrow> string \<Rightarrow> string option" where
  "path_after prefix url = (if length url < length prefix then None else Some (drop (length prefix) url))"

definition http_ValidateBetPlacement ::
  "'s bclb_ports \<Rightarrow> BCLBConfig \<Rightarrow> (int \<Rightarrow> int) \<Rightarrow> clock \<Rightarrow> BetValidationRequest option \<Rightarrow> 's \<Rightarrow> 's \<times> oversight_http" where
  "http_ValidateBetPlacement P cfg off now body s =
     with_body body s (\<lambda>req.
       case ValidateBetPlacement P cfg off now s (bv_UserID req) (bv_BetAmount req) (bv_BetType req) (bv_Selections req) of
         (s', check) \<Rightarrow> (s', WriteJSON (CheckReply check) 200))"

definition http_GetUserComplianceStatus ::
  "libs \<Rightarrow> 's bclb_ports \<Rightarrow> BCLBConfig \<Rightarrow> (int \<Rightarrow> int) \<Rightarrow> clock \<Rightarrow> string \<Rightarrow> 's \<Rightarrow> 's \<times> oversight_http" where
  "http_GetUserComplianceStatus L P cfg off now url s =
     (case path_after ''/api/compliance/user/status/'' url of
        None \<Rightarrow> (s, Panicked)
      | Some path \<Rightarrow>
          if path = '''' then (s, WriteError None ''User ID is required'' 400)
          else case GetUserComplianceStatus L P cfg off now s path of
            (s', check) \<Rightarrow> (s', WriteJSON (CheckReply check) 200))"

definition http_SetUserLimits :: "http_UserLimits option \<Rightarrow> string \<Rightarrow> 's \<Rightarrow> 's \<times> oversight_http" where
  "http_SetUserLimits body url s =
     with_body body s (\<lambda>req.
       case path_after ''/api/compliance/user/limits/'' url of
         None \<Rightarrow> (s, Panicked)
       | Some path \<Rightarrow>
           if path = '''' then (s, WriteError None ''User ID is required'' 400)
           else (bclb_SetUserLimits s path req, WriteJSON (DoneReply ''User limits set successfully'') 200))"

definition http_AddUserRestriction :: "UserRestriction option \<Rightarrow> string \<Rightarrow> 's \<Rightarrow> 's \<times> oversight_http" where
  "http_AddUserRestriction body url s =
     with_body body s (\<lambda>req.
       case path_after ''/api/compliance/user/restrictions/'' url of
         None \<Rightarrow> (s, Panicked)
       | Some path \<Rightarrow>
           if path = '''' then (s, WriteError None ''User ID is required'' 400)
           else (bclb_AddUserRestriction s path req, WriteJSON (DoneReply ''User restriction added successfully'') 200))"

text \<open>Settings, rules, alerts and metrics are read from stubs that have none; the dates of a request for metrics are parsed and not used.\<close>

definition http_GetComplianceMetrics :: oversight_http where "http_GetComplianceMetrics = WriteJSON EmptyReply 200"
definition http_GetComplianceSettings :: oversight_http where "http_GetComplianceSettings = WriteJSON EmptyReply 200"
definition http_GetComplianceRules :: oversight_http where "http_GetComplianceRules = WriteJSON EmptyReply 200"
definition http_GetComplianceAlerts :: oversight_http where "http_GetComplianceAlerts = WriteJSON EmptyReply 200"

definition http_UpdateComplianceSettings :: "unit option \<Rightarrow> 's \<Rightarrow> 's \<times> oversight_http" where
  "http_UpdateComplianceSettings body s =
     with_body body s (\<lambda>req.
       (bclb_UpdateComplianceSettings s req, WriteJSON (DoneReply ''Compliance settings updated successfully'') 200))"

definition http_CreateComplianceRule :: "ComplianceRule option \<Rightarrow> 's \<Rightarrow> 's \<times> oversight_http" where
  "http_CreateComplianceRule body s =
     with_body body s (\<lambda>req.
       (bclb_CreateComplianceRule s req, WriteJSON (RuleReply req ''Compliance rule created successfully'') 201))"

definition http_UpdateComplianceRule :: "ComplianceRule option \<Rightarrow> string \<Rightarrow> 's \<Rightarrow> 's \<times> oversight_http" where
  "http_UpdateComplianceRule body url s =
     with_body body s (\<lambda>req.
       case path_after ''/api/compliance/rules/'' url of
         None \<Rightarrow> (s, Panicked)
       | Some path \<Rightarrow>
           if path = '''' then (s, WriteError None ''Rule ID is required'' 400)
           else (bclb_UpdateComplianceRule s path req, WriteJSON (RuleReply req ''Compliance rule updated successfully'') 200))"

definition http_DeleteComplianceRule :: "string \<Rightarrow> 's \<Rightarrow> 's \<times> oversight_http" where
  "http_DeleteComplianceRule url s =
     (case path_after ''/api/compliance/rules/'' url of
        None \<Rightarrow> (s, Panicked)
      | Some path \<Rightarrow>
          if path = '''' then (s, WriteError None ''Rule ID is required'' 400)
          else (bclb_DeleteComplianceRule s path, WriteJSON (DoneReply ''Compliance rule deleted successfully'') 200))"

definition http_AcknowledgeComplianceAlert :: "string option \<Rightarrow> 's \<Rightarrow> 's \<times> oversight_http" where
  "http_AcknowledgeComplianceAlert body s =
     with_body body s (\<lambda>alertID.
       (bclb_AcknowledgeComplianceAlert s alertID, WriteJSON (DoneReply ''Compliance alert acknowledged successfully'') 200))"

definition http_ResolveComplianceAlert :: "string option \<Rightarrow> 's \<Rightarrow> 's \<times> oversight_http" where
  "http_ResolveComplianceAlert body s =
     with_body body s (\<lambda>alertID.
       (bclb_ResolveComplianceAlert s alertID, WriteJSON (DoneReply ''Compliance alert resolved successfully'') 200))"

section \<open>The endpoints together\<close>

datatype oversight_endpoint =
    EpAudit | EpAuditHistory | EpPentest | EpPentestResults | EpSecurityMetrics | EpVulnerabilities
  | EpGdpr | EpGdprStatus | EpRg | EpRgProfile | EpRgLimits
  | EpBetValidate | EpUserStatus | EpUserLimits | EpUserRestrictions | EpComplianceMetrics | EpSettings | EpSettingsUpdate
  | EpRules | EpRuleUpdate | EpRuleCreate | EpRuleDelete
  | EpAlerts | EpAlertAcknowledge | EpAlertResolve

definition security_routes :: "(string \<times> oversight_endpoint) list" where
  "security_routes =
     [(''/api/security/audit'', EpAudit), (''/api/security/audit/history'', EpAuditHistory),
      (''/api/security/pentest'', EpPentest), (''/api/security/pentest/results/'', EpPentestResults),
      (''/api/security/metrics'', EpSecurityMetrics), (''/api/security/vulnerabilities'', EpVulnerabilities)]"

definition gdpr_routes :: "(string \<times> oversight_endpoint) list" where
  "gdpr_routes = [(''/api/security/gdpr'', EpGdpr), (''/api/security/gdpr/status/'', EpGdprStatus)]"

definition rg_routes :: "(string \<times> oversight_endpoint) list" where
  "rg_routes =
     [(''/api/security/responsible-gaming'', EpRg), (''/api/security/responsible-gaming/profile/'', EpRgProfile),
      (''/api/security/responsible-gaming/limits'', EpRgLimits)]"

definition compliance_routes :: "(string \<times> oversight_endpoint) list" where
  "compliance_routes =
     [(''/api/compliance/bet/validate'', EpBetValidate), (''/api/compliance/user/status/'', EpUserStatus),
      (''/api/compliance/user/limits/'', EpUserLimits), (''/api/compliance/user/restrictions/'', EpUserRestrictions),
      (''/api/compliance/metrics'', EpComplianceMetrics), (''/api/compliance/settings'', EpSettings),
      (''/api/compliance/settings/update'', EpSettingsUpdate)]"

definition rule_routes :: "(string \<times> oversight_endpoint) list" where
  "rule_routes =
     [(''/api/compliance/rules'', EpRules), (''/api/compliance/rules/'', EpRuleUpdate),
      (''/api/compliance/rules/create'', EpRuleCreate), (''/api/compliance/rules/delete/'', EpRuleDelete)]"

definition alert_routes :: "(string \<times> oversight_endpoint) list" where
  "alert_routes =
     [(''/api/compliance/alerts'', EpAlerts), (''/api/compliance/alerts/acknowledge'', EpAlertAcknowledge),
      (''/api/compliance/alerts/resolve'', EpAlertResolve)]"

definition oversight_routes :: "(string \<times> oversight_endpoint) list" where
  "oversight_routes = security_routes @ gdpr_routes @ rg_routes @ compliance_routes @ rule_routes @ alert_routes"

record oversight_call =
  oc_path :: string
  oc_limit :: string
  oc_body :: string
  oc_ids :: "nat \<Rightarrow> string"
  oc_now :: "nat \<Rightarrow> time"
  oc_clock :: clock

record 's oversight_env =
  oe_libs :: libs
  oe_off :: "int \<Rightarrow> int"
  oe_decoders :: decoders
  oe_config :: SecurityConfig
  oe_ports :: "'s bclb_ports"
  oe_bclb :: BCLBConfig

text \<open>The handlers look at no method, and none asks who sends the request.\<close>

definition on_audit where "on_audit st x = (case x of (S, r) \<Rightarrow> (st\<lparr>ov_audit := S\<rparr>, r))"
definition on_pentest where "on_pentest st x = (case x of (S, r) \<Rightarrow> (st\<lparr>ov_pentest := S\<rparr>, r))"
definition on_gdpr where "on_gdpr st x = (case x of (S, r) \<Rightarrow> (st\<lparr>ov_gdpr := S\<rparr>, r))"
definition on_rg where "on_rg st x = (case x of (S, r) \<Rightarrow> (st\<lparr>ov_rg := S\<rparr>, r))"
definition on_bclb where "on_bclb st x = (case x of (s, r) \<Rightarrow> (st\<lparr>ov_bclb := s\<rparr>, r))"

definition handle_oversight ::
  "'s oversight_env \<Rightarrow> oversight_call \<Rightarrow> oversight_endpoint \<Rightarrow> 's oversight \<Rightarrow> 's oversight \<times> oversight_http" where
  "handle_oversight E c ep st =
     (let D = oe_decoders E; b = oc_body c; url = oc_path c; off = oe_off E; P = oe_ports E; s = ov_bclb st in
      case ep of
        EpAudit \<Rightarrow> on_audit st (http_PerformSecurityAudit off (oc_ids c) (oc_now c) (oe_config E) (dec_audit D b) (ov_audit st))
      | EpAuditHistory \<Rightarrow> (st, http_GetSecurityAuditHistory off (oc_ids c) (oc_now c) (oc_limit c))
      | EpPentest \<Rightarrow> on_pentest st (http_PerformPenetrationTest off (oc_ids c) (oc_now c) (dec_pentest D b) (ov_pentest st))
      | EpPentestResults \<Rightarrow> (st, http_GetPenetrationTestResults url)
      | EpSecurityMetrics \<Rightarrow> (st, http_GetSecurityMetrics off (oc_now c))
      | EpVulnerabilities \<Rightarrow> (st, http_GetVulnerabilityReport)
      | EpGdpr \<Rightarrow> on_gdpr st (http_ProcessGDPRRequest (dec_gdpr D b) (ov_gdpr st))
      | EpGdprStatus \<Rightarrow> (st, http_GetGDPRRequestStatus url)
      | EpRg \<Rightarrow> on_rg st (http_ProcessResponsibleGamingRequest (dec_rg D b) (ov_rg st))
      | EpRgProfile \<Rightarrow> (st, http_GetUserGamingProfile url)
      | EpRgLimits \<Rightarrow> on_rg st (http_SetGamingLimits (dec_gaming_limits D b) (ov_rg st))
      | EpBetValidate \<Rightarrow> on_bclb st (http_ValidateBetPlacement P (oe_bclb E) off (oc_clock c) (dec_bet D b) s)
      | EpUserStatus \<Rightarrow> on_bclb st (http_GetUserComplianceStatus (oe_libs E) P (oe_bclb E) off (oc_clock c) url s)
      | EpUserLimits \<Rightarrow> on_bclb st (http_SetUserLimits (dec_user_limits D b) url s)
      | EpUserRestrictions \<Rightarrow> on_bclb st (http_AddUserRestriction (dec_restriction D b) url s)
      | EpComplianceMetrics \<Rightarrow> (st, http_GetComplianceMetrics)
      | EpSettings \<Rightarrow> (st, http_GetComplianceSettings)
      | EpSettingsUpdate \<Rightarrow> on_bclb st (http_UpdateComplianceSettings (dec_settings D b) s)
      | EpRules \<Rightarrow> (st, http_GetComplianceRules)
      | EpRuleUpdate \<Rightarrow> on_bclb st (http_UpdateComplianceRule (dec_rule D b) url s)
      | EpRuleCreate \<Rightarrow> on_bclb st (http_CreateComplianceRule (dec_rule D b) s)
      | EpRuleDelete \<Rightarrow> on_bclb st (http_DeleteComplianceRule url s)
      | EpAlerts \<Rightarrow> (st, http_GetComplianceAlerts)
      | EpAlertAcknowledge \<Rightarrow> on_bclb st (http_AcknowledgeComplianceAlert (dec_alert D b) s)
      | EpAlertResolve \<Rightarrow> on_bclb st (http_ResolveComplianceAlert (dec_alert D b) s))"

definition serve_oversight :: "'s oversight_env \<Rightarrow> oversight_call \<Rightarrow> 's oversight \<Rightarrow> 's oversight \<times> oversight_http" where
  "serve_oversight E c st =
     (case mux_match oversight_routes (oc_path c) of
        NoRoute \<Rightarrow> (st, PageNotFound)
      | SlashRedirect \<Rightarrow> (st, Redirected)
      | Handled ep \<Rightarrow> handle_oversight E c ep st)"

fun serve_each :: "'s oversight_env \<Rightarrow> oversight_call list \<Rightarrow> 's oversight \<Rightarrow> 's oversight" where
  "serve_each E [] st = st"
| "serve_each E (c # cs) st = serve_each E cs (fst (serve_oversight E c st))"

section \<open>Acknowledged, and ignored\<close>

lemmas oversight_handlers = http_ProcessGDPRRequest_def http_ProcessResponsibleGamingRequest_def http_SetGamingLimits_def
  http_SetUserLimits_def http_AddUserRestriction_def http_UpdateComplianceSettings_def http_CreateComplianceRule_def
  http_UpdateComplianceRule_def http_DeleteComplianceRule_def http_AcknowledgeComplianceAlert_def http_ResolveComplianceAlert_def

lemmas oversight_stubs = gdpr_ProcessRequest_def rg_ProcessRequest_def rg_SetGamingLimits_def bclb_SetUserLimits_def
  bclb_AddUserRestriction_def bclb_UpdateComplianceSettings_def bclb_CreateComplianceRule_def bclb_UpdateComplianceRule_def
  bclb_DeleteComplianceRule_def bclb_AcknowledgeComplianceAlert_def bclb_ResolveComplianceAlert_def

lemma with_body_keeps: "(\<And>req. fst (k req) = s) \<Longrightarrow> fst (with_body body s k) = s"
  by (simp add: with_body_def split: option.split)

lemma on_state [simp]:
  "fst g = ov_gdpr st \<Longrightarrow> fst (on_gdpr st g) = st" "fst r = ov_rg st \<Longrightarrow> fst (on_rg st r) = st"
  "fst b = ov_bclb st \<Longrightarrow> fst (on_bclb st b) = st"
  by (cases st; cases g; cases r; cases b; simp add: on_gdpr_def on_rg_def on_bclb_def)+

lemma on_reply [simp]: "snd (on_rg st r) = snd r" "snd (on_bclb st b) = snd b"
  by (simp_all add: on_rg_def on_bclb_def split: prod.split)

lemma administration_keeps [simp]:
  "fst (http_ProcessGDPRRequest gb g) = g" "fst (http_ProcessResponsibleGamingRequest rb r) = r"
  "fst (http_SetGamingLimits lb r) = r" "fst (http_SetUserLimits ub url s) = s" "fst (http_AddUserRestriction xb url s) = s"
  "fst (http_UpdateComplianceSettings sb s) = s" "fst (http_CreateComplianceRule cb s) = s"
  "fst (http_UpdateComplianceRule cb url s) = s" "fst (http_DeleteComplianceRule url s) = s"
  "fst (http_AcknowledgeComplianceAlert ab s) = s" "fst (http_ResolveComplianceAlert ab s) = s"
  by (auto simp: oversight_handlers oversight_stubs intro!: with_body_keeps split: option.split)

text \<open>The four endpoints that run something: audits, tests, checks of a bet and of a user.\<close>

lemma handle_keeps:
  "ep \<notin> {EpAudit, EpPentest, EpBetValidate, EpUserStatus} \<Longrightarrow> fst (handle_oversight E c ep st) = st"
  by (cases ep) (simp_all add: handle_oversight_def Let_def)

lemma serve_keeps:
  assumes "mux_match oversight_routes (oc_path c) \<notin> Handled ` {EpAudit, EpPentest, EpBetValidate, EpUserStatus}"
  shows "fst (serve_oversight E c st) = st"
  using assms by (auto simp: serve_oversight_def handle_keeps split: route.split)

lemma protection_routes:
  "mux_match oversight_routes (''/api/compliance/user/restrictions/'' @ u) = Handled EpUserRestrictions"
  "mux_match oversight_routes (''/api/compliance/user/limits/'' @ u) = Handled EpUserLimits"
  "mux_match oversight_routes ''/api/security/responsible-gaming'' = Handled EpRg"
  "mux_match oversight_routes ''/api/security/responsible-gaming/limits'' = Handled EpRgLimits"
  by (simp_all add: mux_match_def oversight_routes_def security_routes_def gdpr_routes_def rg_routes_def compliance_routes_def
      rule_routes_def alert_routes_def HasPrefix_def)

text \<open>The four ways to protect a player over HTTP, each with a body that decodes.\<close>

definition asks_protection :: "'s oversight_env \<Rightarrow> string \<Rightarrow> oversight_call \<Rightarrow> bool" where
  "asks_protection E u c \<longleftrightarrow>
     oc_path c = ''/api/compliance/user/restrictions/'' @ u \<and> dec_restriction (oe_decoders E) (oc_body c) \<noteq> None \<or>
     oc_path c = ''/api/compliance/user/limits/'' @ u \<and> dec_user_limits (oe_decoders E) (oc_body c) \<noteq> None \<or>
     oc_path c = ''/api/security/responsible-gaming'' \<and>
       (\<exists>req. dec_rg (oe_decoders E) (oc_body c) = Some req \<and> rq_UserID req = u \<and> rq_Action req \<noteq> '''') \<or>
     oc_path c = ''/api/security/responsible-gaming/limits'' \<and>
       (\<exists>ls. dec_gaming_limits (oe_decoders E) (oc_body c) = Some (u, ls) \<and> ls \<noteq> [])"

lemma protection_served:
  assumes "asks_protection E u c" "u \<noteq> ''''"
  shows "fst (serve_oversight E c st) = st \<and> (\<exists>a. snd (serve_oversight E c st) = Answered 200 a)"
  using assms(1) unfolding asks_protection_def
proof (elim disjE conjE exE)
  note served = serve_oversight_def handle_oversight_def Let_def with_body_def http_AddUserRestriction_def http_SetUserLimits_def
    http_ProcessResponsibleGamingRequest_def http_SetGamingLimits_def path_after_def WriteJSON_def oversight_stubs
  {
    assume p: "oc_path c = ''/api/compliance/user/restrictions/'' @ u" and d: "dec_restriction (oe_decoders E) (oc_body c) \<noteq> None"
    have "mux_match oversight_routes (oc_path c) = Handled EpUserRestrictions" unfolding p by (rule protection_routes)
    then show ?thesis using p d assms(2) by (auto simp: served on_bclb_def)
  next
    assume p: "oc_path c = ''/api/compliance/user/limits/'' @ u" and d: "dec_user_limits (oe_decoders E) (oc_body c) \<noteq> None"
    have "mux_match oversight_routes (oc_path c) = Handled EpUserLimits" unfolding p by (rule protection_routes)
    then show ?thesis using p d assms(2) by (auto simp: served on_bclb_def)
  next
    fix req assume p: "oc_path c = ''/api/security/responsible-gaming''"
      and d: "dec_rg (oe_decoders E) (oc_body c) = Some req" "rq_UserID req = u" "rq_Action req \<noteq> ''''"
    have "mux_match oversight_routes (oc_path c) = Handled EpRg" unfolding p by (rule protection_routes)
    then show ?thesis using d assms(2) by (auto simp: served on_rg_def)
  next
    fix ls assume p: "oc_path c = ''/api/security/responsible-gaming/limits''"
      and d: "dec_gaming_limits (oe_decoders E) (oc_body c) = Some (u, ls)" "ls \<noteq> []"
    have "mux_match oversight_routes (oc_path c) = Handled EpRgLimits" unfolding p by (rule protection_routes)
    then show ?thesis using d assms(2) by (auto simp: served on_rg_def)
  }
qed


definition sample_decoders :: decoders where
  "sample_decoders =
     \<lparr>dec_audit = \<lambda>_. None, dec_pentest = \<lambda>_. None, dec_gdpr = \<lambda>_. None,
      dec_rg = \<lambda>b. if b = ''exclude 7'' then Some \<lparr>rq_UserID = ''7'', rq_Action = ''EXCLUDE'', rq_Parameters = [], rq_Reason = '''', rq_RequestedAt = 0\<rparr> else None,
      dec_gaming_limits = \<lambda>b. if b = ''limit 7'' then Some (''7'', [Some \<lparr>gl_Type = ''DAILY'', gl_Amount = 100, gl_Duration = 0, gl_Active = True, gl_SetAt = 0, gl_ExpiresAt = None\<rparr>]) else None,
      dec_bet = \<lambda>_. None, dec_user_limits = \<lambda>_. None, dec_restriction = \<lambda>_. None, dec_rule = \<lambda>_. None,
      dec_settings = \<lambda>_. None, dec_alert = \<lambda>_. None\<rparr>"

definition sample_security_config :: SecurityConfig where
  "sample_security_config =
     \<lparr>sc_PasswordMinLength = 6, sc_PasswordRequireUpper = True, sc_PasswordRequireLower = True, sc_PasswordRequireNumber = True,
      sc_PasswordRequireSymbol = False, sc_SessionTimeout = Hour, sc_MaxLoginAttempts = 5, sc_LockoutDuration = Hour,
      sc_TwoFactorRequired = False, sc_JWTSecret = '''', sc_EncryptionKey = '''', sc_AllowedIPs = [], sc_BlockedCountries = [],
      sc_AuditRetentionDays = 365\<rparr>"

definition sample_oversight_env :: "stake_history oversight_env" where
  "sample_oversight_env =
     \<lparr>oe_libs = std_libs, oe_off = \<lambda>_. 0, oe_decoders = sample_decoders, oe_config = sample_security_config,
      oe_ports = sample_bclb, oe_bclb = sample_bclb_config\<rparr>"

definition sample_call :: "string \<Rightarrow> string \<Rightarrow> oversight_call" where
  "sample_call path body = \<lparr>oc_path = path, oc_limit = '''', oc_body = body, oc_ids = \<lambda>_. '''', oc_now = \<lambda>_. 0, oc_clock = \<lambda>_. 0\<rparr>"


text \<open>The other endpoints outside audits, tests and checks keep the state as well.\<close>

lemma oversight_keeps:
  assumes "\<forall>c \<in> set cs. mux_match oversight_routes (oc_path c) \<notin> Handled ` {EpAudit, EpPentest, EpBetValidate, EpUserStatus}"
  shows "serve_each E cs st = st"
  using assms by (induction cs) (simp_all add: serve_keeps)

text \<open>A test whose kind is misspelt is answered as completed, without findings or risk.\<close>

lemma unknown_test_passes:
  "\<exists>t. snd (http_PerformPenetrationTest off ids now (Some (req\<lparr>pq_TestType := ''black_box''\<rparr>)) S) = Answered 200 (TestReply t)
     \<and> pt_Findings t = [] \<and> pt_RiskScore t = 0 \<and> pt_Status t = TestStatusCompleted"
  by (simp add: http_PerformPenetrationTest_def with_body_def test_type_def PerformPenetrationTest_def findings_of_def
      pentest_calculateRiskScore_def WriteJSON_def Let_def)

text \<open>The history of audits has as many entries as asked for, at least one and at most ten.\<close>

lemma history_bounded:
  "\<exists>as. http_GetSecurityAuditHistory off ids now l = Answered 200 (AuditsReply as) \<and> 1 \<le> length as \<and> length as \<le> 10"
  by (auto simp: http_GetSecurityAuditHistory_def GetAuditHistory_def WriteJSON_def Let_def split: option.split)

text \<open>The route of a deletion is longer than the prefix the handler cuts: the identifier it passes on
  begins with \<open>delete/\<close>, and a missing one is not noticed.\<close>

lemma deletes_another_rule:
  "path_after ''/api/compliance/rules/'' (''/api/compliance/rules/delete/'' @ i) = Some (''delete/'' @ i)"
  "snd (http_DeleteComplianceRule ''/api/compliance/rules/delete/'' s) = Answered 200 (DoneReply ''Compliance rule deleted successfully'')"
  by (simp_all add: path_after_def http_DeleteComplianceRule_def WriteJSON_def)

lemma missing_users_panic:
  "snd (http_AddUserRestriction (Some r) ''/api/compliance/user/restrictions/'' s) = Panicked"
  "http_GetUserGamingProfile ''/api/security/responsible-gaming/profile/'' = Panicked"
  by (simp_all add: http_AddUserRestriction_def http_GetUserGamingProfile_def with_body_def path_after_def WriteError_def
      TrimPrefix_def HasPrefix_def)

end
