(* ===== verification/Middleware.thy ===== *)
theory Middleware
  imports GoText Json
begin

text \<open>
  The middleware every service wraps around its handlers (\<open>internal/infrastructure/http/middleware/middleware.go\<close>),
  and the health endpoints. A handler turns a request and what has been written so far into what is
  written when it returns or panics; \<open>'s\<close> is the state of the application behind it.
\<close>

section \<open>Requests, responses and handlers\<close>

record web_request =
  wq_Method :: string
  wq_Path :: string
  wq_Header :: "string \<Rightarrow> string"
  wq_RequestID :: "string option"

datatype log_entry = HttpRequest string string int int | PanicRecovered string

record 's web =
  wb_headers :: "string \<rightharpoonup> string"
  wb_sent :: "int option"
  wb_codes :: "int list"
  wb_body :: string
  wb_log :: "log_entry list"
  wb_app :: 's

datatype 's outcome = Returned "'s web" | Panicking "'s web"

type_synonym 's handler = "web_request \<Rightarrow> 's web \<Rightarrow> 's outcome"

definition set_header :: "string \<Rightarrow> string \<Rightarrow> 's web \<Rightarrow> 's web" where
  "set_header k v w = w\<lparr>wb_headers := (wb_headers w)(k \<mapsto> v)\<rparr>"

text \<open>The first status is sent, later ones are only seen by a wrapper; a body without one sends 200.\<close>

definition write_status :: "int \<Rightarrow> 's web \<Rightarrow> 's web" where
  "write_status code w =
     w\<lparr>wb_sent := (case wb_sent w of None \<Rightarrow> Some code | Some c \<Rightarrow> Some c), wb_codes := wb_codes w @ [code]\<rparr>"

definition write_body :: "string \<Rightarrow> 's web \<Rightarrow> 's web" where
  "write_body b w = w\<lparr>wb_sent := (case wb_sent w of None \<Rightarrow> Some 200 | Some c \<Rightarrow> Some c), wb_body := wb_body w @ b\<rparr>"

definition writeJSON :: "int \<Rightarrow> json \<Rightarrow> 's web \<Rightarrow> 's web" where
  "writeJSON status body w =
     write_body (json_text body @ [CHR 0x0A]) (write_status status (set_header ''Content-Type'' ''application/json'' w))"

definition add_log :: "log_entry \<Rightarrow> 's web \<Rightarrow> 's web" where
  "add_log e w = w\<lparr>wb_log := wb_log w @ [e]\<rparr>"

section \<open>The middleware\<close>

text \<open>\<open>uid\<close> is what \<open>uuid.New\<close> returns.\<close>

definition RequestID :: "string \<Rightarrow> 's handler \<Rightarrow> 's handler" where
  "RequestID uid next r w =
     (let rid = wq_Header r ''X-Request-ID'';
          rid = (if rid = '''' then uid else rid)
      in next (r\<lparr>wq_RequestID := Some rid\<rparr>) (set_header ''X-Request-ID'' rid w))"

definition Recovery :: "'s handler \<Rightarrow> 's handler" where
  "Recovery next r w =
     (case next r w of
        Returned w' \<Rightarrow> Returned w'
      | Panicking w' \<Rightarrow>
          Returned (writeJSON 500 (JObj [(''error'', JStr ''internal server error'')]) (add_log (PanicRecovered (wq_Path r)) w')))"

text \<open>The wrapper around the response starts with status 200 and keeps the last one written through it.\<close>

definition Logging :: "'s handler \<Rightarrow> 's handler" where
  "Logging next r w =
     (case next r w of
        Panicking w' \<Rightarrow> Panicking w'
      | Returned w' \<Rightarrow>
          let codes = drop (length (wb_codes w)) (wb_codes w') in
          Returned (add_log (HttpRequest (wq_Method r) (wq_Path r) (if codes = [] then 200 else last codes)
            (int (length (wb_body w')) - int (length (wb_body w)))) w'))"

record CORSConfig =
  CORSAllowedOrigins :: "string list"
  CORSAllowedMethods :: "string list"
  CORSAllowedHeaders :: "string list"

definition CORS :: "CORSConfig \<Rightarrow> 's handler \<Rightarrow> 's handler" where
  "CORS cfg next r w =
     (let requestOrigin = wq_Header r ''Origin'';
          w = (if requestOrigin \<in> set (CORSAllowedOrigins cfg)
               then set_header ''Access-Control-Allow-Origin'' requestOrigin w else w);
          w = set_header ''Access-Control-Allow-Methods'' (Join (CORSAllowedMethods cfg) '','') w;
          w = set_header ''Access-Control-Allow-Headers'' (Join (CORSAllowedHeaders cfg) '','') w
      in if wq_Method r = ''OPTIONS'' then Returned (write_status 204 w) else next r w)"

text \<open>The order in which every service uses them, around tracing, metrics and limits.\<close>

definition web_stack :: "string \<Rightarrow> CORSConfig \<Rightarrow> 's handler \<Rightarrow> 's handler" where
  "web_stack uid cfg h = RequestID uid (Recovery (Logging (CORS cfg h)))"

section \<open>Health endpoints\<close>

text \<open>A checker is its name and what its check gives; results go into a map by name.\<close>

definition readiness :: "string \<Rightarrow> string \<Rightarrow> (string \<times> string option) list \<Rightarrow> 's web \<Rightarrow> 's web" where
  "readiness service version checkers w =
     (let results = foldl (\<lambda>m (n, e). m(n \<mapsto> (case e of None \<Rightarrow> ''ok'' | Some msg \<Rightarrow> ''fail: '' @ msg))) Map.empty checkers;
          overall = (if \<exists>(n, e) \<in> set checkers. e \<noteq> None then 503 else 200);
          status = (if overall \<noteq> 200 then ''not_ready'' else ''ready'')
      in writeJSON overall
           (JObj [(''checks'', JObj (map (\<lambda>n. (n, JStr (the (results n)))) (sort (remdups (map fst checkers))))),
             (''service'', JStr service), (''status'', JStr status), (''version'', JStr version)]) w)"

section \<open>What the stack guarantees\<close>

lemma web_simps [simp]:
  "wb_headers (set_header k v w) = (wb_headers w)(k \<mapsto> v)" "wb_sent (set_header k v w) = wb_sent w"
  "wb_codes (set_header k v w) = wb_codes w" "wb_body (set_header k v w) = wb_body w"
  "wb_log (set_header k v w) = wb_log w" "wb_app (set_header k v w) = wb_app w"
  "wb_headers (write_status c w) = wb_headers w" "wb_codes (write_status c w) = wb_codes w @ [c]"
  "wb_body (write_status c w) = wb_body w" "wb_log (write_status c w) = wb_log w" "wb_app (write_status c w) = wb_app w"
  "wb_headers (write_body b w) = wb_headers w" "wb_codes (write_body b w) = wb_codes w"
  "wb_body (write_body b w) = wb_body w @ b" "wb_log (write_body b w) = wb_log w" "wb_app (write_body b w) = wb_app w"
  "wb_headers (add_log e w) = wb_headers w" "wb_sent (add_log e w) = wb_sent w" "wb_codes (add_log e w) = wb_codes w"
  "wb_body (add_log e w) = wb_body w" "wb_log (add_log e w) = wb_log w @ [e]" "wb_app (add_log e w) = wb_app w"
  by (simp_all add: set_header_def write_status_def write_body_def add_log_def)

lemma sent_simps [simp]:
  "wb_sent (write_status c w) = (case wb_sent w of None \<Rightarrow> Some c | Some d \<Rightarrow> Some d)"
  "wb_sent (write_body b w) = (case wb_sent w of None \<Rightarrow> Some 200 | Some d \<Rightarrow> Some d)"
  by (simp_all add: write_status_def write_body_def)

text \<open>What the handler behind the stack is called with.\<close>

definition stack_request :: "string \<Rightarrow> web_request \<Rightarrow> web_request" where
  "stack_request uid r = r\<lparr>wq_RequestID := Some (if wq_Header r ''X-Request-ID'' = '''' then uid else wq_Header r ''X-Request-ID'')\<rparr>"

definition cors_headers :: "CORSConfig \<Rightarrow> web_request \<Rightarrow> (string \<rightharpoonup> string) \<Rightarrow> (string \<rightharpoonup> string)" where
  "cors_headers cfg r hs =
     (if wq_Header r ''Origin'' \<in> set (CORSAllowedOrigins cfg) then hs(''Access-Control-Allow-Origin'' \<mapsto> wq_Header r ''Origin'') else hs)
     (''Access-Control-Allow-Methods'' \<mapsto> Join (CORSAllowedMethods cfg) '','',
      ''Access-Control-Allow-Headers'' \<mapsto> Join (CORSAllowedHeaders cfg) '','')"

definition stack_response :: "string \<Rightarrow> CORSConfig \<Rightarrow> web_request \<Rightarrow> 's web \<Rightarrow> 's web" where
  "stack_response uid cfg r w = w\<lparr>wb_headers := cors_headers cfg r
     ((wb_headers w)(''X-Request-ID'' \<mapsto> the (wq_RequestID (stack_request uid r))))\<rparr>"

lemma stack_cors:
  "CORS cfg h (stack_request uid r) (set_header ''X-Request-ID'' (the (wq_RequestID (stack_request uid r))) w) =
     (if wq_Method r = ''OPTIONS'' then Returned (write_status 204 (stack_response uid cfg r w))
      else h (stack_request uid r) (stack_response uid cfg r w))"
  by (simp add: CORS_def stack_response_def cors_headers_def set_header_def Let_def stack_request_def)

lemma stack_response_simps [simp]:
  "wb_codes (stack_response uid cfg r w) = wb_codes w" "wb_body (stack_response uid cfg r w) = wb_body w"
  "wb_sent (stack_response uid cfg r w) = wb_sent w" "wb_log (stack_response uid cfg r w) = wb_log w"
  "wb_app (stack_response uid cfg r w) = wb_app w"
  by (simp_all add: stack_response_def)

lemma stack_request_simps [simp]:
  "wq_Method (stack_request uid r) = wq_Method r" "wq_Path (stack_request uid r) = wq_Path r"
  "wq_Header (stack_request uid r) = wq_Header r"
  by (simp_all add: stack_request_def)

lemma web_stack_unfold:
  "web_stack uid cfg h r w =
     Recovery (Logging (CORS cfg h)) (stack_request uid r) (set_header ''X-Request-ID'' (the (wq_RequestID (stack_request uid r))) w)"
  by (simp add: web_stack_def RequestID_def stack_request_def Let_def)

lemma web_stack_options:
  "wq_Method r = ''OPTIONS'' \<Longrightarrow> web_stack uid cfg h r w =
     Returned (add_log (HttpRequest ''OPTIONS'' (wq_Path r) 204 0) (write_status 204 (stack_response uid cfg r w)))"
  by (simp add: web_stack_unfold Recovery_def Logging_def stack_cors Let_def)

lemma web_stack_returned:
  "wq_Method r \<noteq> ''OPTIONS'' \<Longrightarrow> h (stack_request uid r) (stack_response uid cfg r w) = Returned w' \<Longrightarrow>
   web_stack uid cfg h r w =
     Returned (add_log (HttpRequest (wq_Method r) (wq_Path r)
       (if drop (length (wb_codes w)) (wb_codes w') = [] then 200 else last (drop (length (wb_codes w)) (wb_codes w')))
       (int (length (wb_body w')) - int (length (wb_body w)))) w')"
  by (simp add: web_stack_unfold Recovery_def Logging_def stack_cors Let_def)

lemma web_stack_panic:
  "wq_Method r \<noteq> ''OPTIONS'' \<Longrightarrow> h (stack_request uid r) (stack_response uid cfg r w) = Panicking w' \<Longrightarrow>
   web_stack uid cfg h r w =
     Returned (writeJSON 500 (JObj [(''error'', JStr ''internal server error'')]) (add_log (PanicRecovered (wq_Path r)) w'))"
  by (simp add: web_stack_unfold Recovery_def Logging_def stack_cors)

lemma cors_origin:
  "cors_headers cfg r hs ''Access-Control-Allow-Origin'' =
     (if wq_Header r ''Origin'' \<in> set (CORSAllowedOrigins cfg) then Some (wq_Header r ''Origin'') else hs ''Access-Control-Allow-Origin'')"
  by (simp add: cors_headers_def)



text \<open>The star of the default configuration is compared as a name: no browser's origin is allowed.\<close>

lemma star_allows_nobody:
  assumes "CORSAllowedOrigins cfg = [''*'']" "wq_Header r ''Origin'' \<noteq> ''*''"
  shows "cors_headers cfg r Map.empty ''Access-Control-Allow-Origin'' = None"
  using assms by (simp add: cors_origin)

text \<open>The access log is written after the handler returns, so a request that panics is not in it.\<close>

lemma panics_not_logged:
  assumes "wq_Method r \<noteq> ''OPTIONS''"
  shows "\<exists>w'. web_stack uid cfg (\<lambda>_ w. Panicking w) r w = Returned w' \<and> wb_log w' = wb_log w @ [PanicRecovered (wq_Path r)]"
  by (simp add: web_stack_panic [OF assms] writeJSON_def)

text \<open>Readiness is 200 exactly when no check fails; a later check of the same name hides an earlier one in the
  answer, but not in the status.\<close>

lemma readiness_status:
  "wb_sent w = None \<Longrightarrow> wb_sent (readiness s v cs w) = Some (if \<exists>(n, e) \<in> set cs. e \<noteq> None then 503 else 200)"
  by (simp add: readiness_def writeJSON_def Let_def)

end
