(* ===== verification/Gateway.thy ===== *)
theory Gateway
  imports Middleware
begin

text \<open>
  The routers and handlers of the services (\<open>gateway_handlers.go\<close>, \<open>wallet_handlers.go\<close>,
  \<open>settlement_handlers.go\<close>, \<open>engine_handlers.go\<close>, \<open>games_handlers.go\<close>). The router, \<open>gorilla/mux\<close>, is an
  argument; what is used of its documentation is \<open>documented_router\<close>: the routes are tried in the order
  in which they were added, a variable takes one non-empty segment, a path whose routes all ask for
  another method is answered with 405, and middleware runs only when a route matches.
\<close>

section \<open>Routers\<close>

type_synonym 'h routes = "(string option \<times> string \<times> 'h) list"

datatype 'h dispatch = Dispatched 'h "(string \<times> string) list" | MethodNotAllowed | RouteNotFound

definition is_variable :: "string \<Rightarrow> bool" where
  "is_variable t \<longleftrightarrow> t \<noteq> '''' \<and> hd t = CHR ''{'' \<and> last t = CHR ''}''"

definition segments_match :: "string list \<Rightarrow> string list \<Rightarrow> bool" where
  "segments_match ts ps \<longleftrightarrow> list_all2 (\<lambda>t p. if is_variable t then p \<noteq> '''' else t = p) ts ps"

definition route_matches :: "string \<Rightarrow> string \<Rightarrow> bool" where
  "route_matches t p \<longleftrightarrow> segments_match (split_on CHR ''/'' t) (split_on CHR ''/'' p)"

definition route_vars :: "string \<Rightarrow> string \<Rightarrow> (string \<times> string) list" where
  "route_vars t p =
     map (\<lambda>(t, p). (butlast (tl t), p)) (filter (\<lambda>(t, p). is_variable t) (zip (split_on CHR ''/'' t) (split_on CHR ''/'' p)))"

text \<open>The documented behaviour, as a router of its own.\<close>

definition first_match :: "'h routes \<Rightarrow> string \<Rightarrow> string \<Rightarrow> 'h dispatch" where
  "first_match rs m p =
     (case find (\<lambda>(mm, t, h). route_matches t p \<and> (mm = None \<or> mm = Some m)) rs of
        Some (mm, t, h) \<Rightarrow> Dispatched h (route_vars t p)
      | None \<Rightarrow> if \<exists>(mm, t, h) \<in> set rs. route_matches t p then MethodNotAllowed else RouteNotFound)"

definition documented_router :: "('h routes \<Rightarrow> string \<Rightarrow> string \<Rightarrow> 'h dispatch) \<Rightarrow> bool" where
  "documented_router D \<longleftrightarrow>
     (\<forall>rs m p. \<forall>mm t h. find (\<lambda>(mm, t, h). route_matches t p \<and> (mm = None \<or> mm = Some m)) rs = Some (mm, t, h) \<longrightarrow>
        D rs m p = Dispatched h (route_vars t p)) \<and>
     (\<forall>rs m p. find (\<lambda>(mm, t, h). route_matches t p \<and> (mm = None \<or> mm = Some m)) rs = None \<longrightarrow>
        D rs m p \<in> {MethodNotAllowed, RouteNotFound})"

section \<open>Gateway\<close>

datatype gateway_endpoint =
    GwHealth | GwRegister | GwLogin | GwUser | GwWallet | GwPlaceBet | GwBet | GwBetHistory
  | GwDeposit | GwWithdraw | GwMpesaCallback | GwCurrentGame | GwGameHistory | GwPlaceGameBet
  | GwLiveOdds | GwCalculateOdds | GwWebSocket

definition gateway_routes :: "gateway_endpoint routes" where
  "gateway_routes =
     [(Some ''GET'', ''/health'', GwHealth),
      (Some ''POST'', ''/api/v1/auth/register'', GwRegister),
      (Some ''POST'', ''/api/v1/auth/login'', GwLogin),
      (Some ''GET'', ''/api/v1/users/me'', GwUser),
      (Some ''GET'', ''/api/v1/users/me/wallet'', GwWallet),
      (Some ''POST'', ''/api/v1/bets'', GwPlaceBet),
      (Some ''GET'', ''/api/v1/bets/{id}'', GwBet),
      (Some ''GET'', ''/api/v1/bets/history'', GwBetHistory),
      (Some ''POST'', ''/api/v1/payments/deposit'', GwDeposit),
      (Some ''POST'', ''/api/v1/payments/withdraw'', GwWithdraw),
      (Some ''POST'', ''/api/v1/payments/mpesa/callback'', GwMpesaCallback),
      (Some ''GET'', ''/api/v1/games/crash/current'', GwCurrentGame),
      (Some ''GET'', ''/api/v1/games/crash/history'', GwGameHistory),
      (Some ''POST'', ''/api/v1/games/crash/bet'', GwPlaceGameBet),
      (Some ''GET'', ''/api/v1/odds/live'', GwLiveOdds),
      (Some ''POST'', ''/api/v1/odds/calculate'', GwCalculateOdds),
      (None, ''/ws/games/{gameId}'', GwWebSocket)]"

text \<open>Every handler but that of the websocket answers with a constant.\<close>

definition message :: "string \<Rightarrow> json" where
  "message t = JObj [(''message'', JStr t)]"

definition reply :: "int \<Rightarrow> json \<Rightarrow> 's web \<Rightarrow> 's web" where
  "reply status body w =
     write_body (json_text body) (write_status status (set_header ''Content-Type'' ''application/json'' w))"

definition healthy :: "string \<Rightarrow> json" where
  "healthy service = JObj [(''status'', JStr ''healthy''), (''service'', JStr service)]"

definition current_game :: json where
  "current_game = JObj [(''game_id'', JStr ''123''), (''round_number'', JNum ''42''), (''status'', JStr ''RUNNING''),
     (''current_multiplier'', JNum ''2.45'')]"

definition game_history :: json where
  "game_history = JObj [(''games'', JArr [JObj [(''round'', JNum ''41''), (''crash_point'', JNum ''3.52'')],
     JObj [(''round'', JNum ''40''), (''crash_point'', JNum ''1.23'')]])]"

definition live_odds :: json where
  "live_odds = JObj [(''matches'', JArr [JObj [(''id'', JStr ''1''), (''home'', JStr ''Arsenal''), (''away'', JStr ''Chelsea''),
     (''odds'', JObj [(''home'', JNum ''2.50''), (''draw'', JNum ''3.20''), (''away'', JNum ''2.80'')])]])]"

definition calculated_odds :: json where
  "calculated_odds = JObj [(''total_odds'', JNum ''8.50''), (''potential_win'', JNum ''850.00'')]"

text \<open>A websocket: refused by the upgrader, or greeted and then read until it fails, without an answer.\<close>

definition handle_websocket :: "bool \<Rightarrow> 's web \<Rightarrow> 's web \<times> json list" where
  "handle_websocket upgraded w =
     (if \<not> upgraded then (write_body (''WebSocket upgrade failed'' @ [CHR 0x0A]) (write_status 400 w), [])
      else (w, [JObj [(''message'', JStr ''Connected to crash game''), (''type'', JStr ''connected'')]]))"

fun gateway_handler :: "bool \<Rightarrow> gateway_endpoint \<Rightarrow> 's web \<Rightarrow> 's web" where
  "gateway_handler up GwHealth w = reply 200 (healthy ''gateway'') w"
| "gateway_handler up GwRegister w = reply 201 (message ''Registration endpoint - implement with KYC validation'') w"
| "gateway_handler up GwLogin w = reply 200 (message ''Login endpoint - implement with JWT token generation'') w"
| "gateway_handler up GwUser w = reply 200 (message ''Get user profile - implement with auth middleware'') w"
| "gateway_handler up GwWallet w =
     reply 200 (JObj [(''balance'', JNum ''1000.00''), (''currency'', JStr ''KES''), (''bonus_balance'', JNum ''50.00'')]) w"
| "gateway_handler up GwPlaceBet w = reply 201 (message ''Place bet endpoint - implement with PlaceBetUseCase'') w"
| "gateway_handler up GwBet w = reply 200 (message ''Get bet details'') w"
| "gateway_handler up GwBetHistory w = reply 200 (message ''Get bet history'') w"
| "gateway_handler up GwDeposit w = reply 202 (message ''Deposit initiated - check M-Pesa prompt on phone'') w"
| "gateway_handler up GwWithdraw w = reply 202 (message ''Withdrawal initiated - M-Pesa payout in progress'') w"
| "gateway_handler up GwMpesaCallback w = reply 200 (JObj [(''ResultCode'', JNum ''0''), (''ResultDesc'', JStr ''Accepted'')]) w"
| "gateway_handler up GwCurrentGame w = reply 200 current_game w"
| "gateway_handler up GwGameHistory w = reply 200 game_history w"
| "gateway_handler up GwPlaceGameBet w = reply 201 (message ''Game bet placed - connect to WebSocket for live updates'') w"
| "gateway_handler up GwLiveOdds w = reply 200 live_odds w"
| "gateway_handler up GwCalculateOdds w = reply 200 calculated_odds w"
| "gateway_handler up GwWebSocket w = fst (handle_websocket up w)"

definition CorsMiddleware :: "('s web \<Rightarrow> 's web) \<Rightarrow> string \<Rightarrow> 's web \<Rightarrow> 's web" where
  "CorsMiddleware next method' w =
     (let w = set_header ''Access-Control-Allow-Origin'' ''*'' w;
          w = set_header ''Access-Control-Allow-Methods'' ''GET, POST, PUT, DELETE, OPTIONS'' w;
          w = set_header ''Access-Control-Allow-Headers'' ''Content-Type, Authorization'' w
      in if method' = ''OPTIONS'' then write_status 200 w else next w)"

definition serve_gateway ::
  "(gateway_endpoint routes \<Rightarrow> string \<Rightarrow> string \<Rightarrow> gateway_endpoint dispatch) \<Rightarrow> bool \<Rightarrow> string \<Rightarrow> string \<Rightarrow> 's web \<Rightarrow> 's web" where
  "serve_gateway D up m p w =
     (case D gateway_routes m p of
        Dispatched h vars \<Rightarrow> CorsMiddleware (gateway_handler up h) m w
      | MethodNotAllowed \<Rightarrow> write_status 405 w
      | RouteNotFound \<Rightarrow> write_status 404 w)"

section \<open>Internal services\<close>

datatype internal_endpoint =
    InHealth | InWallet | InBalance | InDebit | InCredit | InTransactions
  | InPending | InProcess | InSettlement | InSync | InCalculate | InLive | InCurrent | InHistory | InGameBet | InSocket

definition wallet_routes :: "internal_endpoint routes" where
  "wallet_routes =
     [(Some ''GET'', ''/health'', InHealth),
      (Some ''GET'', ''/internal/v1/wallets/{userId}'', InWallet),
      (Some ''GET'', ''/internal/v1/wallets/{userId}/balance'', InBalance),
      (Some ''POST'', ''/internal/v1/wallets/{userId}/debit'', InDebit),
      (Some ''POST'', ''/internal/v1/wallets/{userId}/credit'', InCredit),
      (Some ''GET'', ''/internal/v1/wallets/{userId}/transactions'', InTransactions)]"

definition settlement_routes :: "internal_endpoint routes" where
  "settlement_routes =
     [(Some ''GET'', ''/health'', InHealth),
      (Some ''GET'', ''/internal/v1/settlements/pending'', InPending),
      (Some ''POST'', ''/internal/v1/settlements/process'', InProcess),
      (Some ''GET'', ''/internal/v1/settlements/{id}'', InSettlement)]"

definition engine_routes :: "internal_endpoint routes" where
  "engine_routes =
     [(Some ''GET'', ''/health'', InHealth),
      (Some ''POST'', ''/internal/v1/odds/sync'', InSync),
      (Some ''POST'', ''/internal/v1/odds/calculate'', InCalculate),
      (Some ''GET'', ''/internal/v1/odds/live'', InLive)]"

definition games_routes :: "internal_endpoint routes" where
  "games_routes =
     [(Some ''GET'', ''/health'', InHealth),
      (Some ''GET'', ''/api/v1/games/crash/current'', InCurrent),
      (Some ''GET'', ''/api/v1/games/crash/history'', InHistory),
      (Some ''POST'', ''/api/v1/games/crash/bet'', InGameBet),
      (None, ''/ws/games/{gameId}'', InSocket)]"

text \<open>Objects that go through the encoder have their keys sorted, short numbers, and a newline.\<close>

definition encoded :: "(string \<times> json) list \<Rightarrow> 's web \<Rightarrow> 's web" where
  "encoded ms w =
     write_body (json_text (JObj ms) @ [CHR 0x0A]) (write_status 200 (set_header ''Content-Type'' ''application/json'' w))"

definition var_of :: "(string \<times> string) list \<Rightarrow> string \<Rightarrow> json" where
  "var_of vars k = JStr (case map_of vars k of None \<Rightarrow> '''' | Some v \<Rightarrow> v)"

fun internal_handler :: "string \<Rightarrow> internal_endpoint \<Rightarrow> (string \<times> string) list \<Rightarrow> 's web \<Rightarrow> 's web" where
  "internal_handler service InHealth vars w = reply 200 (healthy service) w"
| "internal_handler service InWallet vars w =
     encoded [(''balance'', JNum ''1000''), (''bonus_balance'', JNum ''50''), (''currency'', JStr ''KES''), (''user_id'', var_of vars ''userId'')] w"
| "internal_handler service InBalance vars w =
     encoded [(''available'', JNum ''950''), (''balance'', JNum ''1000''), (''user_id'', var_of vars ''userId'')] w"
| "internal_handler service InDebit vars w =
     encoded [(''amount'', JNum ''100''), (''status'', JStr ''debited''), (''user_id'', var_of vars ''userId'')] w"
| "internal_handler service InCredit vars w =
     encoded [(''amount'', JNum ''100''), (''status'', JStr ''credited''), (''user_id'', var_of vars ''userId'')] w"
| "internal_handler service InTransactions vars w =
     encoded [(''transactions'', JArr [JObj [(''amount'', JNum ''100''), (''status'', JStr ''completed''), (''type'', JStr ''debit'')]]),
       (''user_id'', var_of vars ''userId'')] w"
| "internal_handler service InPending vars w =
     reply 200 (JObj [(''pending_settlements'', JArr [JObj [(''id'', JStr ''1''), (''bet_id'', JStr ''123''), (''status'', JStr ''pending'')]])]) w"
| "internal_handler service InProcess vars w = reply 202 (message ''Settlement processing initiated'') w"
| "internal_handler service InSettlement vars w =
     encoded [(''amount'', JNum ''1000''), (''id'', var_of vars ''id''), (''status'', JStr ''completed'')] w"
| "internal_handler service InSync vars w = reply 202 (message ''Odds sync initiated'') w"
| "internal_handler service InCalculate vars w = reply 200 calculated_odds w"
| "internal_handler service InLive vars w = reply 200 live_odds w"
| "internal_handler service InCurrent vars w = reply 200 current_game w"
| "internal_handler service InHistory vars w = reply 200 game_history w"
| "internal_handler service InGameBet vars w = reply 201 (message ''Game bet placed - connect to WebSocket for live updates'') w"
| "internal_handler service InSocket vars w = reply 200 (message ''WebSocket endpoint - implement with hub'') w"

definition serve_internal ::
  "(internal_endpoint routes \<Rightarrow> string \<Rightarrow> string \<Rightarrow> internal_endpoint dispatch) \<Rightarrow> string \<Rightarrow> internal_endpoint routes \<Rightarrow>
     string \<Rightarrow> string \<Rightarrow> 's web \<Rightarrow> 's web" where
  "serve_internal D service rs m p w =
     (case D rs m p of
        Dispatched h vars \<Rightarrow> internal_handler service h vars w
      | MethodNotAllowed \<Rightarrow> write_status 405 w
      | RouteNotFound \<Rightarrow> write_status 404 w)"

section \<open>Which handler answers\<close>

lemma first_match_documented: "documented_router first_match"
  by (auto simp: documented_router_def first_match_def split: option.splits)

lemma dispatched_route:
  assumes "documented_router D" "D rs m p = Dispatched h vars"
  shows "\<exists>mm t. find (\<lambda>(mm, t, h). route_matches t p \<and> (mm = None \<or> mm = Some m)) rs = Some (mm, t, h) \<and> vars = route_vars t p"
proof (cases "find (\<lambda>(mm, t, h). route_matches t p \<and> (mm = None \<or> mm = Some m)) rs")
  case None
  then have "D rs m p \<in> {MethodNotAllowed, RouteNotFound}" using assms(1) unfolding documented_router_def by blast
  then show ?thesis using assms(2) by auto
next
  case (Some x)
  obtain mm t h' where x: "x = (mm, t, h')" by (cases x)
  have "D rs m p = Dispatched h' (route_vars t p)" using assms(1) Some unfolding x documented_router_def by blast
  then show ?thesis using Some x assms(2) by auto
qed

lemma dispatched_first_match:
  assumes "documented_router D" "first_match rs m p = Dispatched h vars"
  shows "D rs m p = Dispatched h vars"
  using assms dispatched_route [OF first_match_documented assms(2)] unfolding documented_router_def by blast

text \<open>A request for every handler of the gateway but one.\<close>

fun probe :: "gateway_endpoint \<Rightarrow> string \<times> string" where
  "probe GwBet = (''GET'', ''/api/v1/bets/7'')"
| "probe GwWebSocket = (''GET'', ''/ws/games/7'')"
| "probe h = (case find (\<lambda>(mm, t, g). g = h) gateway_routes of Some (Some m, t, g) \<Rightarrow> (m, t) | _ \<Rightarrow> ('''', ''''))"

lemma probes_reach:
  assumes "h \<noteq> GwBetHistory"
  shows "\<exists>vars. first_match gateway_routes (fst (probe h)) (snd (probe h)) = Dispatched h vars"
proof -
  have "h \<noteq> GwBetHistory \<longrightarrow>
      (case first_match gateway_routes (fst (probe h)) (snd (probe h)) of Dispatched g vars \<Rightarrow> g = h | _ \<Rightarrow> False)"
    by (cases h; hypsubst; code_simp)
  then show ?thesis using assms by (auto split: dispatch.splits)
qed

lemma found_route:
  assumes "find (\<lambda>(mm, t, h). route_matches t p \<and> (mm = None \<or> mm = Some m)) rs = Some (mm, t, h)"
  shows "(mm, t, h) \<in> set rs" "route_matches t p" "mm = None \<or> mm = Some m"
  using assms by (auto simp: find_Some_iff) (metis nth_mem)+

text \<open>Which handler of the gateway a request reaches. With a router that does what its documentation says,
  every handler answers some request, except the history of bets: its route was added after that of a
  single bet, which takes the word for an identifier. And a preflight reaches the gateway's own CORS
  middleware only on the websocket path: all other routes name their methods, and the router refuses
  the preflight before any middleware runs.\<close>

theorem gateway_dispatch:
  assumes "documented_router D"
  shows "(\<forall>h. (\<exists>m p vars. D gateway_routes m p = Dispatched h vars) = (h \<noteq> GwBetHistory)) \<and>
    (\<forall>p w. (\<exists>vars. D gateway_routes ''OPTIONS'' p = Dispatched GwWebSocket vars) \<or>
       wb_headers (serve_gateway D up ''OPTIONS'' p w) = wb_headers w)"
proof (intro conjI allI)
  fix h
  show "(\<exists>m p vars. D gateway_routes m p = Dispatched h vars) = (h \<noteq> GwBetHistory)"
  proof
    assume "\<exists>m p vars. D gateway_routes m p = Dispatched h vars"
    then obtain m p mm t where f: "find (\<lambda>(mm, t, h). route_matches t p \<and> (mm = None \<or> mm = Some m)) gateway_routes = Some (mm, t, h)"
      using dispatched_route [OF assms] by blast
    show "h \<noteq> GwBetHistory"
    proof
      assume h: "h = GwBetHistory"
      with found_route [OF f] have "t = ''/api/v1/bets/history''" "m = ''GET''" by (auto simp: gateway_routes_def)
      with found_route(2) [OF f] have "split_on CHR ''/'' p = ['''', ''api'', ''v1'', ''bets'', ''history'']"
        by (simp add: route_matches_def segments_match_def is_variable_def list_all2_Cons1)
      with f h \<open>m = ''GET''\<close> show False
        by (simp add: gateway_routes_def route_matches_def segments_match_def is_variable_def)
    qed
  next
    assume "h \<noteq> GwBetHistory"
    from probes_reach [OF this] dispatched_first_match [OF assms]
    show "\<exists>m p vars. D gateway_routes m p = Dispatched h vars" by blast
  qed
next
  fix p :: string and w :: "'a web"
  show "(\<exists>vars. D gateway_routes ''OPTIONS'' p = Dispatched GwWebSocket vars) \<or>
       wb_headers (serve_gateway D up ''OPTIONS'' p w) = wb_headers w"
  proof (cases "D gateway_routes ''OPTIONS'' p")
    case (Dispatched h vars)
    from dispatched_route [OF assms this] obtain mm t where
      f: "find (\<lambda>(mm, t, h). route_matches t p \<and> (mm = None \<or> mm = Some ''OPTIONS'')) gateway_routes = Some (mm, t, h)" by blast
    have "h = GwWebSocket" using found_route(1,3) [OF f] by (auto simp: gateway_routes_def)
    then show ?thesis using Dispatched by blast
  qed (simp_all add: serve_gateway_def)
qed

definition quiet_web :: "nat web" where
  "quiet_web = \<lparr>wb_headers = Map.empty, wb_sent = None, wb_codes = [], wb_body = [], wb_log = [], wb_app = 0\<rparr>"

lemma gateway_dispatch_witness:
  "serve_gateway first_match True ''OPTIONS'' ''/api/v1/bets'' quiet_web = write_status 405 quiet_web \<and>
   (\<nexists>m p vars. first_match gateway_routes m p = Dispatched GwBetHistory vars)"
proof
  show "serve_gateway first_match True ''OPTIONS'' ''/api/v1/bets'' quiet_web = write_status 405 quiet_web"
    by (simp add: serve_gateway_def first_match_def gateway_routes_def route_matches_def segments_match_def is_variable_def)
qed (use gateway_dispatch [OF first_match_documented, where up = True] in blast)

text \<open>The money movements of the wallet service are constants: nothing is asked of the wallet.\<close>

lemma wallet_moves_nothing:
  assumes "documented_router D"
  shows "wb_app (serve_internal D ''wallet'' wallet_routes m p w) = wb_app w"
  by (cases "D wallet_routes m p"; cases "case D wallet_routes m p of Dispatched h vars \<Rightarrow> h | _ \<Rightarrow> InHealth")
    (auto simp: serve_internal_def encoded_def reply_def)

text \<open>Asking for a settlement that is being processed, with GET, finds one called \<open>process\<close>.\<close>

lemma settlement_called_process:
  "serve_internal first_match ''settlement'' settlement_routes ''GET'' ''/internal/v1/settlements/process'' w =
     encoded [(''amount'', JNum ''1000''), (''id'', JStr ''process''), (''status'', JStr ''completed'')] w"
  by (simp add: serve_internal_def first_match_def settlement_routes_def route_matches_def segments_match_def is_variable_def
      route_vars_def var_of_def)

end
