(* ===== verification/RequestLimits.thy ===== *)
theory RequestLimits
  imports RateLimit ClientAddress
begin

text \<open>
  The HTTP side of \<open>internal/infrastructure/ratelimit\<close> (\<open>middleware.go\<close>): whose request is counted, the
  headers, the middleware and its configurable variant; and the usage statistics of \<open>redis_limiter.go\<close>.
  The store is that of \<open>RateLimit\<close>, addresses are those of \<open>ClientAddress\<close>; \<open>parse_uuid\<close> is
  \<open>uuid.Parse\<close> and \<open>down\<close> says that the server cannot be reached.
\<close>

section \<open>Whose request\<close>

definition rl_isTrustedProxy :: "string \<Rightarrow> string list \<Rightarrow> bool" where
  "rl_isTrustedProxy ipStr trustedCIDRs =
     (case ParseIP ipStr of
        None \<Rightarrow> False
      | Some ip \<Rightarrow> list_ex (\<lambda>cidr. case ParseCIDR cidr of None \<Rightarrow> False | Some ipNet \<Rightarrow> Contains ipNet ip) trustedCIDRs)"

definition rl_getClientIP :: "Request \<Rightarrow> string list \<Rightarrow> string" where
  "rl_getClientIP r cidrs =
     (let remoteAddr = (case SplitHost (rq_RemoteAddr r) of None \<Rightarrow> rq_RemoteAddr r | Some h \<Rightarrow> h);
          xff = rq_Header r ''X-Forwarded-For'';
          xri = rq_Header r ''X-Real-IP''
      in if rl_isTrustedProxy remoteAddr cidrs then
           if xff \<noteq> '''' then
             (if CHR '','' \<in> set xff then TrimSpace (takeWhile (\<lambda>c. c \<noteq> CHR '','') xff) else xff)
           else if xri \<noteq> '''' then xri
           else remoteAddr
         else remoteAddr)"

section \<open>The middleware\<close>

text \<open>What the configuration has beside the limits of \<open>RateConfig\<close>.\<close>

record limit_setup =
  ls_limits :: RateConfig
  ls_DefaultRequestsPerWindow :: int
  ls_TrustedProxyCIDRs :: "string list"

definition getLimitForType :: "limit_setup \<Rightarrow> string \<Rightarrow> int" where
  "getLimitForType S limitType =
     (if limitType = ''user'' then UserRequestsPerWindow (ls_limits S)
      else if limitType = ''ip'' then IPRequestsPerWindow (ls_limits S)
      else if limitType = ''global'' then GlobalRequestsPerWindow (ls_limits S)
      else ls_DefaultRequestsPerWindow S)"

text \<open>The four headers, as numbers and a text: the time of the reset is cut to seconds.\<close>

record limit_headers =
  hd_Limit :: int
  hd_Remaining :: int
  hd_Reset :: int
  hd_Type :: string

definition addRateLimitHeaders :: "limit_setup \<Rightarrow> LimitResult \<Rightarrow> limit_headers" where
  "addRateLimitHeaders S result =
     \<lparr>hd_Limit = getLimitForType S (lr_LimitType result), hd_Remaining = lr_Remaining result,
      hd_Reset = lr_ResetTime result div Second, hd_Type = lr_LimitType result\<rparr>"

text \<open>
  What becomes of a request: passed on as it came; passed on with the result and headers; refused with
  429 and what is left until the reset, in seconds before rounding; or given to the custom error handler,
  with the flag that the limit was exceeded.
\<close>

datatype limited =
    PassedOn
  | PassedWith LimitResult limit_headers
  | Refused429 limit_headers rat
  | CustomError bool

definition check_request ::
  "libs \<Rightarrow> (string \<Rightarrow> string option) \<Rightarrow> limit_setup \<Rightarrow> (rat \<Rightarrow> int) \<Rightarrow> time \<Rightarrow> time \<Rightarrow> bool \<Rightarrow> redis \<Rightarrow>
     uuid option \<Rightarrow> string \<Rightarrow> redis \<times> LimitResult option" where
  "check_request L text_ip S score_int srv now down R user addr =
     (case user of
        Some userID \<Rightarrow>
          if down then (R, None)
          else let (R', r) = CheckUserLimit L (ls_limits S) score_int srv now R userID in (R', Some r)
      | None \<Rightarrow>
          if down then (R, None)
          else CheckIPLimit text_ip (ls_limits S) score_int srv now R addr)"

text \<open>\<open>later\<close> is the clock when the answer is written.\<close>

definition rl_HTTPMiddleware ::
  "libs \<Rightarrow> (string \<Rightarrow> string option) \<Rightarrow> (string \<Rightarrow> uuid option) \<Rightarrow> limit_setup \<Rightarrow> (rat \<Rightarrow> int) \<Rightarrow> time \<Rightarrow> time \<Rightarrow> time \<Rightarrow>
     bool \<Rightarrow> redis \<Rightarrow> Request \<Rightarrow> redis \<times> limited" where
  "rl_HTTPMiddleware L text_ip parse_uuid S score_int srv now later down R r =
     (let clientIP = rl_getClientIP r (ls_TrustedProxyCIDRs S);
          userID = (case rq_user_id r of None \<Rightarrow> 0 | Some t \<Rightarrow> (case parse_uuid t of None \<Rightarrow> 0 | Some u \<Rightarrow> u));
          (R', result) = check_request L text_ip S score_int srv now down R (if userID \<noteq> 0 then Some userID else None) clientIP
      in case result of
           None \<Rightarrow> (R', PassedOn)
         | Some x \<Rightarrow>
             if \<not> lr_Allowed x
             then (R', Refused429 (addRateLimitHeaders S x) (of_int (lr_ResetTime x - later) / of_int Second))
             else (R', PassedWith x (addRateLimitHeaders S x)))"

record RateLimitMiddlewareConfig =
  mc_SkipPaths :: "string list"
  mc_UserIDExtractor :: "(Request \<Rightarrow> uuid \<times> bool) option"
  mc_IPExtractor :: "(Request \<Rightarrow> string) option"
  mc_ErrorHandler :: bool

definition HTTPMiddlewareWithConfig ::
  "RateLimitMiddlewareConfig \<Rightarrow> libs \<Rightarrow> (string \<Rightarrow> string option) \<Rightarrow> (string \<Rightarrow> uuid option) \<Rightarrow> limit_setup \<Rightarrow> (rat \<Rightarrow> int) \<Rightarrow>
     time \<Rightarrow> time \<Rightarrow> time \<Rightarrow> bool \<Rightarrow> redis \<Rightarrow> string \<Rightarrow> Request \<Rightarrow> redis \<times> limited" where
  "HTTPMiddlewareWithConfig config L text_ip parse_uuid S score_int srv now later down R path r =
     (if path \<in> set (mc_SkipPaths config) then (R, PassedOn)
      else
        let clientIP = (case mc_IPExtractor config of Some f \<Rightarrow> f r | None \<Rightarrow> rl_getClientIP r (ls_TrustedProxyCIDRs S));
            (userID, hasUser) = (case mc_UserIDExtractor config of
                Some f \<Rightarrow> f r
              | None \<Rightarrow> (case Option.bind (rq_user_id r) parse_uuid of None \<Rightarrow> (0, False) | Some u \<Rightarrow> (u, True)));
            (R', result) = check_request L text_ip S score_int srv now down R (if hasUser then Some userID else None) clientIP
        in case result of
             None \<Rightarrow> (R', if mc_ErrorHandler config then CustomError False else PassedOn)
           | Some x \<Rightarrow>
               if \<not> lr_Allowed x
               then (R', if mc_ErrorHandler config then CustomError True
                         else Refused429 (addRateLimitHeaders S x) (of_int (lr_ResetTime x - later) / of_int Second))
               else (R', PassedWith x (addRateLimitHeaders S x)))"

section \<open>Statistics\<close>

record UsageStats =
  us_Key :: string
  us_CurrentCount :: int
  us_WindowStart :: time
  us_WindowEnd :: time
  us_OldestRequest :: time
  us_NewestRequest :: time

definition zcount :: "rat \<Rightarrow> rat \<Rightarrow> zset \<Rightarrow> int" where
  "zcount a b z = int (length (filter (\<lambda>e. a \<le> snd e \<and> snd e \<le> b) z))"

text \<open>\<open>ZRANGE key 0 0\<close> gives a member with the lowest score; \<open>parse_date\<close> is \<open>time.Parse\<close> with \<open>RFC3339Nano\<close>.\<close>

definition oldest_members :: "zset \<Rightarrow> string list" where
  "oldest_members z =
     (case lowest_score z of None \<Rightarrow> [] | Some x \<Rightarrow> map fst (filter (\<lambda>e. snd e = x) z))"

definition GetUsageStats :: "(string \<Rightarrow> time option) \<Rightarrow> time \<Rightarrow> time \<Rightarrow> redis \<Rightarrow> string \<Rightarrow> duration \<Rightarrow> UsageStats" where
  "GetUsageStats parse_date srv now R key window =
     (let windowStart = time_truncate now window;
          windowEnd = windowStart + window;
          z = rk_entries (rk_get srv R key);
          current = zcount (fl (of_int windowStart)) (fl (of_int now)) z;
          oldestTime = (case oldest_members z of [] \<Rightarrow> zero_time | m # ms \<Rightarrow> (case parse_date m of None \<Rightarrow> zero_time | Some t \<Rightarrow> t))
      in \<lparr>us_Key = key, us_CurrentCount = current, us_WindowStart = windowStart, us_WindowEnd = windowEnd,
          us_OldestRequest = oldestTime, us_NewestRequest = now\<rparr>)"

section \<open>The two variants\<close>

text \<open>The first middleware decides as the model of \<open>RateLimit\<close> does.\<close>

lemma HTTPMiddleware_decides:
  "snd (HTTPMiddleware L text_ip (ls_limits S) si srv now down R
     (case rq_user_id r of None \<Rightarrow> 0 | Some t \<Rightarrow> (case parse_uuid t of None \<Rightarrow> 0 | Some u \<Rightarrow> u)) (rl_getClientIP r (ls_TrustedProxyCIDRs S)))
   \<longleftrightarrow> (case snd (rl_HTTPMiddleware L text_ip parse_uuid S si srv now later down R r) of Refused429 _ _ \<Rightarrow> False | _ \<Rightarrow> True)"
  by (auto simp: HTTPMiddleware_def rl_HTTPMiddleware_def check_request_def Let_def split: option.splits prod.splits if_splits)

definition plain_config :: "string list \<Rightarrow> RateLimitMiddlewareConfig" where
  "plain_config skipped = \<lparr>mc_SkipPaths = skipped, mc_UserIDExtractor = None, mc_IPExtractor = None, mc_ErrorHandler = False\<rparr>"

text \<open>C39: the two rate limiting middlewares do the same. Configured with nothing but paths to skip, the
  configurable one leaves the same counts in the store and answers alike on every other path, for every
  request except those whose user is the zero identifier: these one of them counts by user, the other
  by address.\<close>

theorem limiting_middlewares_agree:
  assumes "path \<notin> set skipped" "Option.bind (rq_user_id r) parse_uuid \<noteq> Some 0"
  shows "HTTPMiddlewareWithConfig (plain_config skipped) L text_ip parse_uuid S si srv now later down R path r =
    rl_HTTPMiddleware L text_ip parse_uuid S si srv now later down R r"
proof (cases "Option.bind (rq_user_id r) parse_uuid")
  case None
  then have "(case rq_user_id r of None \<Rightarrow> 0 | Some t \<Rightarrow> (case parse_uuid t of None \<Rightarrow> 0 | Some u \<Rightarrow> u)) = 0"
    by (cases "rq_user_id r") simp_all
  then show ?thesis using assms(1) None
    by (simp add: HTTPMiddlewareWithConfig_def rl_HTTPMiddleware_def plain_config_def split: prod.split option.split)
next
  case (Some u)
  then have "(case rq_user_id r of None \<Rightarrow> 0 | Some t \<Rightarrow> (case parse_uuid t of None \<Rightarrow> 0 | Some u \<Rightarrow> u)) = u" "u \<noteq> 0"
    using assms(2) by (cases "rq_user_id r"; simp)+
  then show ?thesis using assms(1) Some
    by (simp add: HTTPMiddlewareWithConfig_def rl_HTTPMiddleware_def plain_config_def split: prod.split option.split)
qed

definition sample_setup :: limit_setup where
  "sample_setup = \<lparr>ls_limits = DefaultConfig, ls_DefaultRequestsPerWindow = 100, ls_TrustedProxyCIDRs = [''10.0.0.0/8'']\<rparr>"

definition sample_peer :: "string \<Rightarrow> Request" where
  "sample_peer xff = \<lparr>rq_RemoteAddr = ''10.1.2.3:4000'', rq_Header = (\<lambda>k. if k = ''X-Forwarded-For'' then xff else ''''),
     rq_user_id = Some ''nobody''\<rparr>"

lemma limiting_middlewares_agree_witness:
  "HTTPMiddlewareWithConfig (plain_config [''/healthz'']) std_libs Some (\<lambda>t. if t = ''u'' then Some 7 else None) sample_setup floor 0 0 0
      False [] ''/bets'' (sample_peer ''1.2.3.4'') =
   rl_HTTPMiddleware std_libs Some (\<lambda>t. if t = ''u'' then Some 7 else None) sample_setup floor 0 0 0 False [] (sample_peer ''1.2.3.4'')"
  by (rule limiting_middlewares_agree) (simp_all add: sample_peer_def)

text \<open>The zero identifier shares one user's count in the configurable variant and none in the other.\<close>

lemma zero_user_counted:
  assumes "Option.bind (rq_user_id r) parse_uuid = Some 0"
  shows "HTTPMiddlewareWithConfig (plain_config []) L text_ip parse_uuid S si srv now later False R path r =
    (let (R', x) = CheckUserLimit L (ls_limits S) si srv now R 0 in
     (R', if \<not> lr_Allowed x then Refused429 (addRateLimitHeaders S x) (of_int (lr_ResetTime x - later) / of_int Second)
          else PassedWith x (addRateLimitHeaders S x)))"
  using assms by (simp add: HTTPMiddlewareWithConfig_def plain_config_def check_request_def Let_def split: prod.split)

section \<open>What a client can do\<close>

text \<open>
  Behind a trusted proxy that appends the address it saw, the client writes the first entry itself: it
  can be counted under any text without a comma that is not empty.
\<close>

lemma forwarded_entry_counts:
  assumes "rl_isTrustedProxy (case SplitHost (rq_RemoteAddr r) of None \<Rightarrow> rq_RemoteAddr r | Some h \<Rightarrow> h) cidrs"
    and "rq_Header r ''X-Forwarded-For'' = spoofed @ CHR '','' # seen" "CHR '','' \<notin> set spoofed"
  shows "rl_getClientIP r cidrs = TrimSpace spoofed"
proof -
  have "takeWhile (\<lambda>c. c \<noteq> CHR '','') (spoofed @ CHR '','' # seen) = spoofed"
    using assms(3) by (induction spoofed) auto
  then show ?thesis using assms(1,2) by (simp add: rl_getClientIP_def Let_def)
qed

text \<open>A text that is no address makes the check fail, and a check that fails lets the request pass.\<close>

lemma unreadable_address_passes:
  assumes "text_ip (rl_getClientIP r (ls_TrustedProxyCIDRs S)) = None" "rq_user_id r = None"
  shows "rl_HTTPMiddleware L text_ip parse_uuid S si srv now later down R r = (R, PassedOn)"
  using assms by (simp add: rl_HTTPMiddleware_def check_request_def CheckIPLimit_def Let_def)

text \<open>
  A refused request is told to wait until the time of the oldest request that still counts, which has
  passed: no time is left, or less than none.
\<close>

lemma refused_reset_past:
  assumes "checkLimit si srv now R key limit w ty = (R', x)" "\<not> lr_Allowed x" "\<forall>y. si y = \<lfloor>y\<rfloor>"
    and "\<forall>e \<in> set (rk_entries (rk_get srv R key)). snd e \<le> of_int now" "1 \<le> limit" "now \<le> later"
  shows "lr_ResetTime x \<le> later"
proof -
  let ?z = "zremrangebyscore 0 (fl (fl (of_int (time_truncate now w)) - 1)) (rk_entries (rk_get srv R key))"
  have full: "limit \<le> int (length ?z)" and r: "lr_ResetTime x =
      (case lowest_score ?z of None \<Rightarrow> time_truncate now w + w | Some y \<Rightarrow> si y)"
    using assms(1,2) by (auto simp: checkLimit_def lua_check_def Let_def split: if_splits option.split)
  then obtain e es where z: "map snd ?z = e # es" using assms(5) by (cases "map snd ?z") auto
  have "e \<in> set (map snd ?z)" using z by simp
  then have "e \<le> of_int now" using assms(4) by (auto simp: zremrangebyscore_def)
  moreover have "foldl min e es \<le> e" by (induction es arbitrary: e) (simp_all, meson min.cobounded1 order_trans)
  ultimately have "\<lfloor>foldl min e es\<rfloor> \<le> now" by linarith
  then show ?thesis using r z assms(3,6) by (simp add: lowest_score_def)
qed

text \<open>The members are the digits of instants, which are no dates: the oldest request is never known.\<close>

lemma oldest_never_known:
  assumes "\<forall>e \<in> set (rk_entries (rk_get srv R key)). parse_date (fst e) = None"
  shows "us_OldestRequest (GetUsageStats parse_date srv now R key window) = zero_time"
proof -
  have "\<forall>m \<in> set (oldest_members (rk_entries (rk_get srv R key))). parse_date m = None"
    using assms by (auto simp: oldest_members_def split: option.splits)
  then show ?thesis by (auto simp: GetUsageStats_def Let_def split: list.split)
qed

end
