(* ===== verification/JackpotRepo.thy ===== *)
theory JackpotRepo
  imports SportsDb
begin

text \<open>
  The jackpot repository (\<open>jackpot_repository.go\<close>, \<open>jackpot_ticket.go\<close>, \<open>jackpot_metrics.go\<close>). No
  migration creates its tables, so a column holds what is written and only the primary key is assumed;
  \<open>fault\<close> says that a statement fails. Queries with filters are built as the code builds them, clauses
  with numbered placeholders beside a list of arguments. \<open>driver\<close> says whether the driver takes a slice
  of integers as an argument; \<open>Scan\<close> has no conversion into one, so a row with such a column cannot be
  read.
\<close>

section \<open>Rows\<close>

record repo_Jackpot =
  rj_ID :: string
  rj_Name :: string
  rj_Type :: string
  rj_CurrentAmount :: decimal
  rj_SeedAmount :: decimal
  rj_ContributionRate :: decimal
  rj_MinBet :: decimal
  rj_MaxBet :: decimal
  rj_Status :: string
  rj_CreatedAt :: time
  rj_UpdatedAt :: time
  rj_ExpiresAt :: time
  rj_NextDrawAt :: time
  rj_Description :: string
  rj_IsActive :: bool
  rj_WinningNumbers :: "int list"
  rj_WinnerID :: "string option"
  rj_WinnerAmount :: decimal

record repo_JackpotTicket =
  rt_ID :: string
  rt_JackpotID :: string
  rt_UserID :: string
  rt_Numbers :: "int list"
  rt_Amount :: decimal
  rt_Status :: string
  rt_CreatedAt :: time
  rt_UpdatedAt :: time
  rt_DrawnAt :: "time option"
  rt_WonAt :: "time option"
  rt_PrizeAmount :: decimal

record repo_JackpotMetrics =
  rm_TotalJackpots :: int
  rm_ActiveJackpots :: int
  rm_TotalTickets :: int
  rm_ActiveTickets :: int
  rm_TotalContributions :: decimal
  rm_TotalPayouts :: decimal
  rm_AverageTicketValue :: decimal
  rm_LastDrawTime :: time
  rm_NextDrawTime :: time

record repo_JackpotFilters =
  jf_Type :: "string option"
  jf_Status :: "string option"
  jf_IsActive :: "bool option"
  jf_From :: "time option"
  jf_To :: "time option"
  jf_Limit :: int
  jf_Offset :: int

record repo_TicketFilters =
  tf_JackpotID :: "string option"
  tf_UserID :: "string option"
  tf_Status :: "string option"
  tf_From :: "time option"
  tf_To :: "time option"
  tf_Limit :: int
  tf_Offset :: int

record jackpot_tables =
  jt_jackpots :: "repo_Jackpot list"
  jt_tickets :: "repo_JackpotTicket list"

section \<open>Queries with filters\<close>

datatype sql_value = SqlText string | SqlBool bool | SqlTime time

datatype comparison = Equal | AtLeast | AtMost

text \<open>A clause: the column, the comparison and the number of its placeholder, counted from one.\<close>

type_synonym clause = "string \<times> comparison \<times> nat"

type_synonym building = "clause list \<times> sql_value list \<times> nat"

definition add_clause :: "string \<Rightarrow> comparison \<Rightarrow> sql_value option \<Rightarrow> building \<Rightarrow> building" where
  "add_clause col c v q =
     (case q of (cs, args, argIndex) \<Rightarrow>
        (case v of None \<Rightarrow> q | Some a \<Rightarrow> (cs @ [(col, c, argIndex)], args @ [a], argIndex + 1)))"

definition jackpot_query :: "repo_JackpotFilters option \<Rightarrow> building" where
  "jackpot_query filters =
     (case filters of
        None \<Rightarrow> ([], [], 1)
      | Some f \<Rightarrow>
          add_clause ''created_at'' AtMost (map_option SqlTime (jf_To f))
          (add_clause ''created_at'' AtLeast (map_option SqlTime (jf_From f))
          (add_clause ''is_active'' Equal (map_option SqlBool (jf_IsActive f))
          (add_clause ''status'' Equal (map_option SqlText (jf_Status f))
          (add_clause ''type'' Equal (map_option SqlText (jf_Type f)) ([], [], 1))))))"

definition ticket_query :: "repo_TicketFilters option \<Rightarrow> building" where
  "ticket_query filters =
     (case filters of
        None \<Rightarrow> ([], [], 1)
      | Some f \<Rightarrow>
          add_clause ''created_at'' AtMost (map_option SqlTime (tf_To f))
          (add_clause ''created_at'' AtLeast (map_option SqlTime (tf_From f))
          (add_clause ''status'' Equal (map_option SqlText (tf_Status f))
          (add_clause ''user_id'' Equal (map_option SqlText (tf_UserID f))
          (add_clause ''jackpot_id'' Equal (map_option SqlText (tf_JackpotID f)) ([], [], 1))))))"

text \<open>What the server makes of a clause; a placeholder without an argument or of another type is an error.\<close>

definition compares :: "comparison \<Rightarrow> sql_value \<Rightarrow> sql_value \<Rightarrow> bool option" where
  "compares c x a =
     (case (x, a) of
        (SqlText s, SqlText t) \<Rightarrow> if c = Equal then Some (s = t) else None
      | (SqlBool s, SqlBool t) \<Rightarrow> if c = Equal then Some (s = t) else None
      | (SqlTime s, SqlTime t) \<Rightarrow> Some (case c of Equal \<Rightarrow> s = t | AtLeast \<Rightarrow> t \<le> s | AtMost \<Rightarrow> s \<le> t)
      | _ \<Rightarrow> None)"

definition clause_holds :: "(string \<Rightarrow> sql_value) \<Rightarrow> sql_value list \<Rightarrow> clause \<Rightarrow> bool option" where
  "clause_holds row args cl =
     (case cl of (col, c, k) \<Rightarrow> if k = 0 \<or> length args < k then None else compares c (row col) (args ! (k - 1)))"

definition where_holds :: "(string \<Rightarrow> sql_value) \<Rightarrow> building \<Rightarrow> bool option" where
  "where_holds row q =
     (case q of (cs, args, _) \<Rightarrow> map_option (list_all id) (those (map (clause_holds row args) cs)))"

definition jackpot_column :: "repo_Jackpot \<Rightarrow> string \<Rightarrow> sql_value" where
  "jackpot_column j col =
     (if col = ''type'' then SqlText (rj_Type j)
      else if col = ''status'' then SqlText (rj_Status j)
      else if col = ''is_active'' then SqlBool (rj_IsActive j)
      else SqlTime (rj_CreatedAt j))"

definition ticket_column :: "repo_JackpotTicket \<Rightarrow> string \<Rightarrow> sql_value" where
  "ticket_column t col =
     (if col = ''jackpot_id'' then SqlText (rt_JackpotID t)
      else if col = ''user_id'' then SqlText (rt_UserID t)
      else if col = ''status'' then SqlText (rt_Status t)
      else SqlTime (rt_CreatedAt t))"

text \<open>\<open>ORDER BY created_at DESC\<close>, rows of the same instant in the reverse order of the table, and a limit where it is positive; an offset counts only with a limit.\<close>

definition latest_first :: "('r \<Rightarrow> time) \<Rightarrow> 'r list \<Rightarrow> 'r list" where
  "latest_first key rs = rev (sort_key key rs)"

definition limited_rows :: "int \<Rightarrow> int \<Rightarrow> 'r list \<Rightarrow> 'r list" where
  "limited_rows limit offset rs =
     (if limit > 0 then take (nat limit) (if offset > 0 then drop (nat offset) rs else rs) else rs)"

text \<open>The server runs a query when every clause has a meaning.\<close>

definition run_query :: "('r \<Rightarrow> string \<Rightarrow> sql_value) \<Rightarrow> ('r \<Rightarrow> time) \<Rightarrow> building \<Rightarrow> int \<Rightarrow> int \<Rightarrow> 'r list \<Rightarrow> 'r list option" where
  "run_query column key q limit offset rs =
     (if list_ex (\<lambda>r. where_holds (column r) q = None) rs then None
      else Some (limited_rows limit offset (latest_first key (filter (\<lambda>r. where_holds (column r) q = Some True) rs))))"

section \<open>The repository\<close>

definition scan_jackpot :: "repo_Jackpot \<Rightarrow> repo_Jackpot option" where "scan_jackpot r = None"
definition scan_ticket :: "repo_JackpotTicket \<Rightarrow> repo_JackpotTicket option" where "scan_ticket r = None"

definition repo_CreateJackpot :: "bool \<Rightarrow> bool \<Rightarrow> jackpot_tables \<Rightarrow> repo_Jackpot \<Rightarrow> jackpot_tables \<times> sql_error option" where
  "repo_CreateJackpot driver fault s jackpot =
     (if \<not> driver \<or> fault then (s, Some StatementError)
      else if \<exists>j \<in> set (jt_jackpots s). rj_ID j = rj_ID jackpot then (s, Some ConstraintError)
      else (s\<lparr>jt_jackpots := jt_jackpots s @ [jackpot]\<rparr>, None))"

definition GetJackpot :: "bool \<Rightarrow> jackpot_tables \<Rightarrow> string \<Rightarrow> sql_error + repo_Jackpot" where
  "GetJackpot fault s i =
     (if fault then Inl StatementError
      else case select_row (\<lambda>j. rj_ID j = i) (jt_jackpots s) of
        None \<Rightarrow> Inl NoRows
      | Some r \<Rightarrow> (case scan_jackpot r of None \<Rightarrow> Inl ScanError | Some j \<Rightarrow> Inr j))"

definition GetJackpots :: "bool \<Rightarrow> jackpot_tables \<Rightarrow> repo_JackpotFilters option \<Rightarrow> sql_error + repo_Jackpot list" where
  "GetJackpots fault s filters =
     (let (limit, offset) = (case filters of None \<Rightarrow> (0, 0) | Some f \<Rightarrow> (jf_Limit f, jf_Offset f)) in
      case (if fault then None
            else run_query jackpot_column rj_CreatedAt (jackpot_query filters) limit offset (jt_jackpots s)) of
        None \<Rightarrow> Inl StatementError
      | Some rows \<Rightarrow> (case scan_rows scan_jackpot rows of None \<Rightarrow> Inl ScanError | Some js \<Rightarrow> Inr js))"

definition UpdateJackpot :: "bool \<Rightarrow> bool \<Rightarrow> jackpot_tables \<Rightarrow> repo_Jackpot \<Rightarrow> jackpot_tables \<times> sql_error option" where
  "UpdateJackpot driver fault s jackpot =
     (if \<not> driver \<or> fault then (s, Some StatementError)
      else (s\<lparr>jt_jackpots := update_where (\<lambda>j. rj_ID j = rj_ID jackpot)
              (\<lambda>j. jackpot\<lparr>rj_CreatedAt := rj_CreatedAt j\<rparr>) (jt_jackpots s)\<rparr>, None))"

definition DeleteJackpot :: "bool \<Rightarrow> jackpot_tables \<Rightarrow> string \<Rightarrow> jackpot_tables \<times> sql_error option" where
  "DeleteJackpot fault s i =
     (if fault then (s, Some StatementError)
      else (s\<lparr>jt_jackpots := filter (\<lambda>j. rj_ID j \<noteq> i) (jt_jackpots s)\<rparr>, None))"

definition CreateTicket :: "bool \<Rightarrow> bool \<Rightarrow> jackpot_tables \<Rightarrow> repo_JackpotTicket \<Rightarrow> jackpot_tables \<times> sql_error option" where
  "CreateTicket driver fault s ticket =
     (if \<not> driver \<or> fault then (s, Some StatementError)
      else if \<exists>t \<in> set (jt_tickets s). rt_ID t = rt_ID ticket then (s, Some ConstraintError)
      else (s\<lparr>jt_tickets := jt_tickets s @ [ticket]\<rparr>, None))"

definition GetTicket :: "bool \<Rightarrow> jackpot_tables \<Rightarrow> string \<Rightarrow> sql_error + repo_JackpotTicket" where
  "GetTicket fault s i =
     (if fault then Inl StatementError
      else case select_row (\<lambda>t. rt_ID t = i) (jt_tickets s) of
        None \<Rightarrow> Inl NoRows
      | Some r \<Rightarrow> (case scan_ticket r of None \<Rightarrow> Inl ScanError | Some t \<Rightarrow> Inr t))"

definition GetTickets :: "bool \<Rightarrow> jackpot_tables \<Rightarrow> repo_TicketFilters option \<Rightarrow> sql_error + repo_JackpotTicket list" where
  "GetTickets fault s filters =
     (let (limit, offset) = (case filters of None \<Rightarrow> (0, 0) | Some f \<Rightarrow> (tf_Limit f, tf_Offset f)) in
      case (if fault then None
            else run_query ticket_column rt_CreatedAt (ticket_query filters) limit offset (jt_tickets s)) of
        None \<Rightarrow> Inl StatementError
      | Some rows \<Rightarrow> (case scan_rows scan_ticket rows of None \<Rightarrow> Inl ScanError | Some ts \<Rightarrow> Inr ts))"

definition UpdateTicket :: "bool \<Rightarrow> bool \<Rightarrow> jackpot_tables \<Rightarrow> repo_JackpotTicket \<Rightarrow> jackpot_tables \<times> sql_error option" where
  "UpdateTicket driver fault s ticket =
     (if \<not> driver \<or> fault then (s, Some StatementError)
      else (s\<lparr>jt_tickets := update_where (\<lambda>t. rt_ID t = rt_ID ticket)
              (\<lambda>t. ticket\<lparr>rt_CreatedAt := rt_CreatedAt t\<rparr>) (jt_tickets s)\<rparr>, None))"

text \<open>Six queries, one after the other; \<open>s k\<close> is what the \<open>k\<close>-th sees, \<open>fault k\<close> that it fails.\<close>

definition jackpot_GetMetrics ::
  "libs \<Rightarrow> (nat \<Rightarrow> bool) \<Rightarrow> (nat \<Rightarrow> time) \<Rightarrow> (nat \<Rightarrow> jackpot_tables) \<Rightarrow> repo_JackpotMetrics option" where
  "jackpot_GetMetrics L fault now s =
     (let totalTickets = int (length (jt_tickets (s 2)));
          totalContributions = sum_list (map rt_Amount (jt_tickets (s 4)))
      in if \<exists>k < 6. fault k then None
         else Some
           \<lparr>rm_TotalJackpots = int (length (jt_jackpots (s 0))),
            rm_ActiveJackpots = int (length (filter (\<lambda>j. rj_Status j = ''ACTIVE'') (jt_jackpots (s 1)))),
            rm_TotalTickets = totalTickets,
            rm_ActiveTickets = int (length (filter (\<lambda>t. rt_Status t = ''ACTIVE'') (jt_tickets (s 3)))),
            rm_TotalContributions = totalContributions,
            rm_TotalPayouts = sum_list (map rt_PrizeAmount (filter (\<lambda>t. rt_Status t = ''WON'') (jt_tickets (s 5)))),
            rm_AverageTicketValue = (if totalTickets > 0 then dec_div L totalContributions (of_int totalTickets) else 0),
            rm_LastDrawTime = now 0, rm_NextDrawTime = now 1 + 24 * Hour\<rparr>)"

section \<open>Numbered placeholders\<close>

text \<open>
  A query being built is in order when the next number follows the arguments and every clause refers to
  one of them; then adding an argument does not touch the clauses that are there.
\<close>

definition in_order :: "building \<Rightarrow> bool" where
  "in_order q \<longleftrightarrow> (case q of (cs, args, i) \<Rightarrow> i = length args + 1 \<and> (\<forall>(col, c, k) \<in> set cs. 1 \<le> k \<and> k \<le> length args))"

lemma in_order_empty: "in_order ([], [], Suc 0)"
  by (simp add: in_order_def)

lemma add_clause_in_order: "in_order q \<Longrightarrow> in_order (add_clause col c v q)"
  by (cases q) (auto simp: in_order_def add_clause_def split: option.split)

lemma clause_holds_append:
  "case cl of (col, c, k) \<Rightarrow> 1 \<le> k \<and> k \<le> length args \<Longrightarrow> clause_holds row (args @ [a]) cl = clause_holds row args cl"
  by (cases cl) (auto simp: clause_holds_def nth_append)

lemma those_append: "those (xs @ [x]) = Option.bind (those xs) (\<lambda>ys. map_option (\<lambda>y. ys @ [y]) x)"
  by (induction xs) (cases x; auto split: option.splits bind_splits)+

lemma where_holds_add:
  assumes "in_order q"
  shows "where_holds row (add_clause col c v q) =
    (case v of None \<Rightarrow> where_holds row q
     | Some a \<Rightarrow> Option.bind (where_holds row q) (\<lambda>b. map_option (\<lambda>x. b \<and> x) (compares c (row col) a)))"
proof (cases v)
  case (Some a)
  obtain cs args i where q: "q = (cs, args, i)" by (cases q)
  have i: "i = length args + 1" and k: "\<forall>cl \<in> set cs. case cl of (col, c, k) \<Rightarrow> 1 \<le> k \<and> k \<le> length args"
    using assms by (auto simp: q in_order_def)
  have m: "map (clause_holds row (args @ [a])) cs = map (clause_holds row args) cs"
    using k by (intro map_cong refl clause_holds_append) auto
  have n: "clause_holds row (args @ [a]) (col, c, i) = compares c (row col) a"
    by (simp add: clause_holds_def i)
  show ?thesis
    by (cases "those (map (clause_holds row args) cs)"; cases "compares c (row col) a")
      (simp_all add: q Some add_clause_def where_holds_def m n those_append)
qed (cases q; simp add: add_clause_def)

lemma where_holds_empty [simp]: "where_holds row ([], [], n) = Some True"
  by (simp add: where_holds_def)

text \<open>What the filters say, without placeholders.\<close>

definition given :: "'a option \<Rightarrow> ('a \<Rightarrow> bool) \<Rightarrow> bool" where
  "given v P = (case v of None \<Rightarrow> True | Some x \<Rightarrow> P x)"

definition jackpot_wanted :: "repo_JackpotFilters \<Rightarrow> repo_Jackpot \<Rightarrow> bool" where
  "jackpot_wanted f j \<longleftrightarrow> given (jf_Type f) (\<lambda>t. rj_Type j = t) \<and> given (jf_Status f) (\<lambda>t. rj_Status j = t) \<and>
     given (jf_IsActive f) (\<lambda>b. rj_IsActive j = b) \<and> given (jf_From f) (\<lambda>t. t \<le> rj_CreatedAt j) \<and>
     given (jf_To f) (\<lambda>t. rj_CreatedAt j \<le> t)"

definition ticket_wanted :: "repo_TicketFilters \<Rightarrow> repo_JackpotTicket \<Rightarrow> bool" where
  "ticket_wanted f t \<longleftrightarrow> given (tf_JackpotID f) (\<lambda>i. rt_JackpotID t = i) \<and> given (tf_UserID f) (\<lambda>u. rt_UserID t = u) \<and>
     given (tf_Status f) (\<lambda>x. rt_Status t = x) \<and> given (tf_From f) (\<lambda>x. x \<le> rt_CreatedAt t) \<and>
     given (tf_To f) (\<lambda>x. rt_CreatedAt t \<le> x)"

lemma jackpot_query_holds: "where_holds (jackpot_column j) (jackpot_query (Some f)) = Some (jackpot_wanted f j)"
  by (auto simp: jackpot_query_def where_holds_add add_clause_in_order in_order_empty jackpot_wanted_def given_def
      jackpot_column_def compares_def split: option.split)

lemma ticket_query_holds: "where_holds (ticket_column t) (ticket_query (Some f)) = Some (ticket_wanted f t)"
  by (auto simp: ticket_query_def where_holds_add add_clause_in_order in_order_empty ticket_wanted_def given_def
      ticket_column_def compares_def split: option.split)

lemma filtered_rows:
  "run_query jackpot_column rj_CreatedAt (jackpot_query (Some f)) limit offset js =
     Some (limited_rows limit offset (latest_first rj_CreatedAt (filter (jackpot_wanted f) js)))"
  "run_query ticket_column rt_CreatedAt (ticket_query (Some g)) limit offset ts =
     Some (limited_rows limit offset (latest_first rt_CreatedAt (filter (ticket_wanted g) ts)))"
  by (simp_all add: run_query_def jackpot_query_holds ticket_query_holds list_ex_iff)


text \<open>
  The rows are found, but never read: a list of numbers has no conversion. A list is only returned
  when it is empty.
\<close>

lemma jackpot_reads_fail:
  "GetJackpot fault s i \<noteq> Inr j"
  "GetJackpots fault s f = Inr js \<Longrightarrow> js = []"
  "GetTicket fault s i \<noteq> Inr t"
  "GetTickets fault s g = Inr ts \<Longrightarrow> ts = []"
  by (auto simp: GetJackpot_def GetJackpots_def GetTicket_def GetTickets_def scan_jackpot_def [abs_def] scan_ticket_def [abs_def]
      Let_def dest!: scan_rows_nothing split: if_splits option.splits prod.splits)

lemma active_jackpots_unreadable:
  assumes "j \<in> set (jt_jackpots s)" "jackpot_wanted f j" "jf_Limit f \<le> 0"
  shows "GetJackpots False s (Some f) = Inl ScanError"
proof -
  have "j \<in> set (latest_first rj_CreatedAt (filter (jackpot_wanted f) (jt_jackpots s)))"
    using assms by (simp add: latest_first_def)
  from scan_rows_None [OF this, of scan_jackpot] show ?thesis using assms(3)
    by (simp add: GetJackpots_def filtered_rows limited_rows_def scan_jackpot_def)
qed

text \<open>Without a limit the offset is forgotten: the second page is the first.\<close>

lemma offset_needs_limit: "limited_rows 0 offset rs = rs"
  by (simp add: limited_rows_def)

end
