(* ===== verification/Config.thy ===== *)
theory Config
  imports Strconv Middleware ClientAddress
begin

text \<open>
  The configuration (\<open>internal/infrastructure/config\<close>) and what the services make of it
  (\<open>cmd/*/main.go\<close>). The environment is a map from names to texts; \<open>dotenv\<close> is \<open>godotenv.Load\<close>, whose
  error is dropped, and \<open>pf\<close> is \<open>strconv.ParseFloat\<close>.
\<close>

section \<open>Settings\<close>

record ServiceConfig =
  sv_Name :: string
  sv_Environment :: string
  sv_Port :: int

record DatabaseConfig =
  cdb_Host :: string
  cdb_Port :: int
  cdb_Name :: string
  cdb_User :: string
  cdb_Password :: string
  cdb_SSLMode :: string
  cdb_MaxOpenConns :: int
  cdb_MaxIdleConns :: int
  cdb_ConnMaxLifetime :: duration

record RedisConfig =
  crd_Host :: string
  crd_Port :: int
  crd_Password :: string
  crd_DB :: int
  crd_PoolSize :: int
  crd_MinIdleConns :: int
  crd_DialTimeout :: duration
  crd_ReadTimeout :: duration
  crd_WriteTimeout :: duration

record NATSConfig =
  cnt_URL :: string
  cnt_MaxReconnects :: int
  cnt_ReconnectWait :: duration
  cnt_Timeout :: duration
  cnt_PingInterval :: duration
  cnt_MaxPingsOut :: int

record TenantConfig =
  ctn_DefaultCountry :: string
  ctn_DefaultCurrency :: string
  ctn_SupportedCountries :: "string list"
  ctn_SupportedCurrencies :: "string list"
  ctn_AllowedCountries :: "string list"

record JWTConfig =
  cjw_Secret :: string
  cjw_ExpirationTime :: duration
  cjw_Issuer :: string
  cjw_RefreshTime :: duration

record conf_SecurityConfig =
  cse_CORSOrigins :: "string list"
  cse_CORSAllowedOrigins :: "string list"
  cse_CORSAllowedMethods :: "string list"
  cse_CORSAllowedHeaders :: "string list"
  cse_RateLimitPerMinute :: int
  cse_RateLimitRequests :: int
  cse_RateLimitWindow :: duration
  cse_MaxBodySize :: int
  cse_EnableHTTPS :: bool
  cse_SessionTimeout :: duration
  cse_PasswordMinLength :: int
  cse_PasswordRequireUpper :: bool
  cse_PasswordRequireLower :: bool
  cse_PasswordRequireNumber :: bool
  cse_PasswordRequireSymbol :: bool

record conf_MPesaConfig =
  cmp_ConsumerKey :: string
  cmp_ConsumerSecret :: string
  cmp_ShortCode :: string
  cmp_PassKey :: string
  cmp_InitiatorName :: string
  cmp_SecurityCredential :: string
  cmp_Environment :: string
  cmp_CallbackURL :: string
  cmp_Timeout :: duration

record conf_FlutterwaveConfig =
  cfw_PublicKey :: string
  cfw_SecretKey :: string
  cfw_EncryptionKey :: string
  cfw_BaseURL :: string
  cfw_WebhookSecret :: string
  cfw_Timeout :: duration

record SportradarConfig =
  csr_APIKey :: string
  csr_BaseURL :: string
  csr_Timeout :: duration
  csr_RateLimit :: int
  csr_EnableSoccer :: bool
  csr_EnableBasketball :: bool
  csr_EnableTennis :: bool
  csr_EnableCricket :: bool

record conf_SmileIDConfig =
  csi_PartnerID :: string
  csi_APIKey :: string
  csi_BaseURL :: string
  csi_Environment :: string
  csi_Timeout :: duration
  csi_EnableKYC :: bool
  csi_EnableIDVerification :: bool

record TaxConfig =
  ctx_Enabled :: bool
  ctx_DefaultRate :: rat
  ctx_WHTRate :: rat
  ctx_GamingTaxRate :: rat
  ctx_TransactionTaxRate :: rat
  ctx_Currency :: string
  ctx_AutoCalculate :: bool

record CrashConfig =
  ccr_Enabled :: bool
  ccr_BaseURL :: string
  ccr_APIKey :: string
  ccr_SecretKey :: string
  ccr_Timeout :: duration
  ccr_MaxBetAmount :: rat
  ccr_MinBetAmount :: rat
  ccr_MaxMultiplier :: rat
  ccr_MinMultiplier :: rat
  ccr_HouseEdge :: rat

record BetConfig =
  cbt_MinBetAmount :: rat
  cbt_MaxBetAmount :: rat
  cbt_MaxParlaySize :: int
  cbt_MaxOdds :: rat
  cbt_MinOdds :: rat
  cbt_StakeTimeout :: duration
  cbt_SettlementDelay :: duration
  cbt_CancelDelay :: duration

record LoggingConfig =
  clg_Level :: string
  clg_Format :: string
  clg_Output :: string
  clg_File :: string
  clg_MaxSize :: int
  clg_MaxBackups :: int
  clg_MaxAge :: int
  clg_Compress :: bool

record FeatureFlags =
  cff_EnableLiveBetting :: bool
  cff_EnableVirtualSports :: bool
  cff_EnableJackpot :: bool
  cff_EnablePromotions :: bool
  cff_EnableNotifications :: bool
  cff_EnableAnalytics :: bool
  cff_EnableResponsibleGaming :: bool
  cff_EnableMultiCurrency :: bool
  cff_EnableMobileApp :: bool
  cff_EnableAPIV2 :: bool
  cff_EnableBetaFeatures :: bool

record Config =
  cf_Service :: ServiceConfig
  cf_Database :: DatabaseConfig
  cf_Redis :: RedisConfig
  cf_NATS :: NATSConfig
  cf_Tenant :: TenantConfig
  cf_JWT :: JWTConfig
  cf_Security :: conf_SecurityConfig
  cf_MPesa :: conf_MPesaConfig
  cf_Flutterwave :: conf_FlutterwaveConfig
  cf_Sportradar :: SportradarConfig
  cf_SmileID :: conf_SmileIDConfig
  cf_Tax :: TaxConfig
  cf_Crash :: CrashConfig
  cf_Bet :: BetConfig
  cf_Logging :: LoggingConfig
  cf_Features :: FeatureFlags

section \<open>Reading the environment\<close>

type_synonym env = "string \<rightharpoonup> string"

definition getEnv :: "env \<Rightarrow> string \<Rightarrow> string \<Rightarrow> string" where
  "getEnv env key fallback = (case env key of Some value \<Rightarrow> value | None \<Rightarrow> fallback)"

text \<open>A value that cannot be read counts as none.\<close>

definition read_env :: "(string \<Rightarrow> 'a option) \<Rightarrow> env \<Rightarrow> string \<Rightarrow> 'a \<Rightarrow> 'a" where
  "read_env parse env key fallback =
     (case env key of
        Some value \<Rightarrow> (case parse value of Some v \<Rightarrow> v | None \<Rightarrow> fallback)
      | None \<Rightarrow> fallback)"

definition getEnvInt :: "env \<Rightarrow> string \<Rightarrow> int \<Rightarrow> int" where
  "getEnvInt = read_env Atoi"

definition getEnvInt64 :: "env \<Rightarrow> string \<Rightarrow> int \<Rightarrow> int" where
  "getEnvInt64 = read_env Atoi"

definition getEnvFloat64 :: "(string \<Rightarrow> rat option) \<Rightarrow> env \<Rightarrow> string \<Rightarrow> rat \<Rightarrow> rat" where
  "getEnvFloat64 pf = read_env pf"

definition getEnvBool :: "env \<Rightarrow> string \<Rightarrow> bool \<Rightarrow> bool" where
  "getEnvBool = read_env ParseBool"

definition getEnvDuration :: "env \<Rightarrow> string \<Rightarrow> duration \<Rightarrow> duration" where
  "getEnvDuration = read_env ParseDuration"

section \<open>Loading\<close>

definition load_Service :: "env \<Rightarrow> ServiceConfig" where
  "load_Service env =
     \<lparr>sv_Name = getEnv env ''SERVICE_NAME'' ''betting-platform'',
      sv_Environment = getEnv env ''SERVICE_ENVIRONMENT'' ''development'',
      sv_Port = getEnvInt env ''SERVICE_PORT'' 8080\<rparr>"

definition load_Database :: "env \<Rightarrow> DatabaseConfig" where
  "load_Database env =
     \<lparr>cdb_Host = getEnv env ''DB_HOST'' ''localhost'',
      cdb_Port = getEnvInt env ''DB_PORT'' 5432,
      cdb_Name = getEnv env ''DB_NAME'' ''betting_platform'',
      cdb_User = getEnv env ''DB_USER'' ''postgres'',
      cdb_Password = getEnv env ''DB_PASSWORD'' '''',
      cdb_SSLMode = getEnv env ''DB_SSL_MODE'' ''disable'',
      cdb_MaxOpenConns = getEnvInt env ''DB_MAX_OPEN_CONNS'' 25,
      cdb_MaxIdleConns = getEnvInt env ''DB_MAX_IDLE_CONNS'' 5,
      cdb_ConnMaxLifetime = getEnvDuration env ''DB_CONN_MAX_LIFETIME'' (5 * Minute)\<rparr>"

definition load_Redis :: "env \<Rightarrow> RedisConfig" where
  "load_Redis env =
     \<lparr>crd_Host = getEnv env ''REDIS_HOST'' ''localhost'',
      crd_Port = getEnvInt env ''REDIS_PORT'' 6379,
      crd_Password = getEnv env ''REDIS_PASSWORD'' '''',
      crd_DB = getEnvInt env ''REDIS_DB'' 0,
      crd_PoolSize = getEnvInt env ''REDIS_POOL_SIZE'' 10,
      crd_MinIdleConns = getEnvInt env ''REDIS_MIN_IDLE_CONNS'' 5,
      crd_DialTimeout = getEnvDuration env ''REDIS_DIAL_TIMEOUT'' (5 * Second),
      crd_ReadTimeout = getEnvDuration env ''REDIS_READ_TIMEOUT'' (3 * Second),
      crd_WriteTimeout = getEnvDuration env ''REDIS_WRITE_TIMEOUT'' (3 * Second)\<rparr>"

definition load_NATS :: "env \<Rightarrow> NATSConfig" where
  "load_NATS env =
     \<lparr>cnt_URL = getEnv env ''NATS_URL'' ''nats://localhost:4222'',
      cnt_MaxReconnects = getEnvInt env ''NATS_MAX_RECONNECTS'' 5,
      cnt_ReconnectWait = getEnvDuration env ''NATS_RECONNECT_WAIT'' (2 * Second),
      cnt_Timeout = getEnvDuration env ''NATS_TIMEOUT'' (5 * Second),
      cnt_PingInterval = getEnvDuration env ''NATS_PING_INTERVAL'' (2 * Minute),
      cnt_MaxPingsOut = getEnvInt env ''NATS_MAX_PINGS_OUT'' 3\<rparr>"

definition load_Tenant :: "env \<Rightarrow> TenantConfig" where
  "load_Tenant env =
     \<lparr>ctn_DefaultCountry = getEnv env ''TENANT_DEFAULT_COUNTRY'' ''KE'',
      ctn_DefaultCurrency = getEnv env ''TENANT_DEFAULT_CURRENCY'' ''KES'',
      ctn_SupportedCountries = split_on CHR '','' (getEnv env ''TENANT_SUPPORTED_COUNTRIES'' ''KE,UG,TZ,NG,ZA''),
      ctn_SupportedCurrencies = split_on CHR '','' (getEnv env ''TENANT_SUPPORTED_CURRENCIES'' ''KES,UGX,TZS,NGN,ZAR''),
      ctn_AllowedCountries = split_on CHR '','' (getEnv env ''TENANT_ALLOWED_COUNTRIES'' ''KE,UG,TZ,NG,ZA'')\<rparr>"

definition load_JWT :: "env \<Rightarrow> JWTConfig" where
  "load_JWT env =
     \<lparr>cjw_Secret = getEnv env ''JWT_SECRET'' '''',
      cjw_ExpirationTime = getEnvDuration env ''JWT_EXPIRATION_TIME'' (24 * Hour),
      cjw_Issuer = getEnv env ''JWT_ISSUER'' ''betting-platform'',
      cjw_RefreshTime = getEnvDuration env ''JWT_REFRESH_TIME'' (168 * Hour)\<rparr>"

definition load_Security :: "env \<Rightarrow> conf_SecurityConfig" where
  "load_Security env =
     \<lparr>cse_CORSOrigins = split_on CHR '','' (getEnv env ''SECURITY_CORS_ORIGINS'' ''*''),
      cse_CORSAllowedOrigins = split_on CHR '','' (getEnv env ''SECURITY_CORS_ALLOWED_ORIGINS'' ''*''),
      cse_CORSAllowedMethods = split_on CHR '','' (getEnv env ''SECURITY_CORS_ALLOWED_METHODS'' ''GET,POST,PUT,DELETE,OPTIONS''),
      cse_CORSAllowedHeaders = split_on CHR '','' (getEnv env ''SECURITY_CORS_ALLOWED_HEADERS'' ''Content-Type,Authorization''),
      cse_RateLimitPerMinute = getEnvInt env ''SECURITY_RATE_LIMIT_PER_MINUTE'' 100,
      cse_RateLimitRequests = getEnvInt env ''SECURITY_RATE_LIMIT_REQUESTS'' 1000,
      cse_RateLimitWindow = getEnvDuration env ''SECURITY_RATE_LIMIT_WINDOW'' Minute,
      cse_MaxBodySize = getEnvInt64 env ''SECURITY_MAX_BODY_SIZE'' (10 * 1024 * 1024),
      cse_EnableHTTPS = getEnvBool env ''SECURITY_ENABLE_HTTPS'' True,
      cse_SessionTimeout = getEnvDuration env ''SECURITY_SESSION_TIMEOUT'' (24 * Hour),
      cse_PasswordMinLength = getEnvInt env ''SECURITY_PASSWORD_MIN_LENGTH'' 8,
      cse_PasswordRequireUpper = getEnvBool env ''SECURITY_PASSWORD_REQUIRE_UPPER'' True,
      cse_PasswordRequireLower = getEnvBool env ''SECURITY_PASSWORD_REQUIRE_LOWER'' True,
      cse_PasswordRequireNumber = getEnvBool env ''SECURITY_PASSWORD_REQUIRE_NUMBER'' True,
      cse_PasswordRequireSymbol = getEnvBool env ''SECURITY_PASSWORD_REQUIRE_SYMBOL'' False\<rparr>"

definition load_MPesa :: "env \<Rightarrow> conf_MPesaConfig" where
  "load_MPesa env =
     \<lparr>cmp_ConsumerKey = getEnv env ''MPESA_CONSUMER_KEY'' '''',
      cmp_ConsumerSecret = getEnv env ''MPESA_CONSUMER_SECRET'' '''',
      cmp_ShortCode = getEnv env ''MPESA_SHORT_CODE'' '''',
      cmp_PassKey = getEnv env ''MPESA_PASS_KEY'' '''',
      cmp_InitiatorName = getEnv env ''MPESA_INITIATOR_NAME'' '''',
      cmp_SecurityCredential = getEnv env ''MPESA_SECURITY_CREDENTIAL'' '''',
      cmp_Environment = getEnv env ''MPESA_ENVIRONMENT'' ''sandbox'',
      cmp_CallbackURL = getEnv env ''MPESA_CALLBACK_URL'' '''',
      cmp_Timeout = getEnvDuration env ''MPESA_TIMEOUT'' (30 * Second)\<rparr>"

definition load_Flutterwave :: "env \<Rightarrow> conf_FlutterwaveConfig" where
  "load_Flutterwave env =
     \<lparr>cfw_PublicKey = getEnv env ''FLUTTERWAVE_PUBLIC_KEY'' '''',
      cfw_SecretKey = getEnv env ''FLUTTERWAVE_SECRET_KEY'' '''',
      cfw_EncryptionKey = getEnv env ''FLUTTERWAVE_ENCRYPTION_KEY'' '''',
      cfw_BaseURL = getEnv env ''FLUTTERWAVE_BASE_URL'' ''https://api.flutterwave.com/v3'',
      cfw_WebhookSecret = getEnv env ''FLUTTERWAVE_WEBHOOK_SECRET'' '''',
      cfw_Timeout = getEnvDuration env ''FLUTTERWAVE_TIMEOUT'' (30 * Second)\<rparr>"

definition load_Sportradar :: "env \<Rightarrow> SportradarConfig" where
  "load_Sportradar env =
     \<lparr>csr_APIKey = getEnv env ''SPORTRADAR_API_KEY'' '''',
      csr_BaseURL = getEnv env ''SPORTRADAR_BASE_URL'' ''https://api.sportradar.com'',
      csr_Timeout = getEnvDuration env ''SPORTRADAR_TIMEOUT'' (30 * Second),
      csr_RateLimit = getEnvInt env ''SPORTRADAR_RATE_LIMIT'' 100,
      csr_EnableSoccer = getEnvBool env ''SPORTRADAR_ENABLE_SOCCER'' True,
      csr_EnableBasketball = getEnvBool env ''SPORTRADAR_ENABLE_BASKETBALL'' True,
      csr_EnableTennis = getEnvBool env ''SPORTRADAR_ENABLE_TENNIS'' True,
      csr_EnableCricket = getEnvBool env ''SPORTRADAR_ENABLE_CRICKET'' True\<rparr>"

definition load_SmileID :: "env \<Rightarrow> conf_SmileIDConfig" where
  "load_SmileID env =
     \<lparr>csi_PartnerID = getEnv env ''SMILE_ID_PARTNER_ID'' '''',
      csi_APIKey = getEnv env ''SMILE_ID_API_KEY'' '''',
      csi_BaseURL = getEnv env ''SMILE_ID_BASE_URL'' '''',
      csi_Environment = getEnv env ''SMILE_ID_ENVIRONMENT'' ''sandbox'',
      csi_Timeout = getEnvDuration env ''SMILE_ID_TIMEOUT'' (30 * Second),
      csi_EnableKYC = getEnvBool env ''SMILE_ID_ENABLE_KYC'' True,
      csi_EnableIDVerification = getEnvBool env ''SMILE_ID_ENABLE_ID_VERIFICATION'' True\<rparr>"

definition load_Tax :: "(string \<Rightarrow> rat option) \<Rightarrow> env \<Rightarrow> TaxConfig" where
  "load_Tax pf env =
     \<lparr>ctx_Enabled = getEnvBool env ''TAX_ENABLED'' True,
      ctx_DefaultRate = getEnvFloat64 pf env ''TAX_DEFAULT_RATE'' (fl (4 / 25)),
      ctx_WHTRate = getEnvFloat64 pf env ''TAX_WHT_RATE'' (fl (3 / 20)),
      ctx_GamingTaxRate = getEnvFloat64 pf env ''TAX_GAMING_TAX_RATE'' (fl (1 / 5)),
      ctx_TransactionTaxRate = getEnvFloat64 pf env ''TAX_TRANSACTION_TAX_RATE'' 0,
      ctx_Currency = getEnv env ''TAX_CURRENCY'' ''KES'',
      ctx_AutoCalculate = getEnvBool env ''TAX_AUTO_CALCULATE'' True\<rparr>"

definition load_Crash :: "(string \<Rightarrow> rat option) \<Rightarrow> env \<Rightarrow> CrashConfig" where
  "load_Crash pf env =
     \<lparr>ccr_Enabled = getEnvBool env ''CRASH_ENABLED'' False,
      ccr_BaseURL = getEnv env ''CRASH_BASE_URL'' '''',
      ccr_APIKey = getEnv env ''CRASH_API_KEY'' '''',
      ccr_SecretKey = getEnv env ''CRASH_SECRET_KEY'' '''',
      ccr_Timeout = getEnvDuration env ''CRASH_TIMEOUT'' (30 * Second),
      ccr_MaxBetAmount = getEnvFloat64 pf env ''CRASH_MAX_BET_AMOUNT'' 10000,
      ccr_MinBetAmount = getEnvFloat64 pf env ''CRASH_MIN_BET_AMOUNT'' 10,
      ccr_MaxMultiplier = getEnvFloat64 pf env ''CRASH_MAX_MULTIPLIER'' 1000,
      ccr_MinMultiplier = getEnvFloat64 pf env ''CRASH_MIN_MULTIPLIER'' (fl (11 / 10)),
      ccr_HouseEdge = getEnvFloat64 pf env ''CRASH_HOUSE_EDGE'' (fl (1 / 20))\<rparr>"

definition load_Bet :: "(string \<Rightarrow> rat option) \<Rightarrow> env \<Rightarrow> BetConfig" where
  "load_Bet pf env =
     \<lparr>cbt_MinBetAmount = getEnvFloat64 pf env ''BET_MIN_BET_AMOUNT'' 10,
      cbt_MaxBetAmount = getEnvFloat64 pf env ''BET_MAX_BET_AMOUNT'' 100000,
      cbt_MaxParlaySize = getEnvInt env ''BET_MAX_PARLAY_SIZE'' 10,
      cbt_MaxOdds = getEnvFloat64 pf env ''BET_MAX_ODDS'' 1000,
      cbt_MinOdds = getEnvFloat64 pf env ''BET_MIN_ODDS'' (fl (11 / 10)),
      cbt_StakeTimeout = getEnvDuration env ''BET_STAKE_TIMEOUT'' (30 * Second),
      cbt_SettlementDelay = getEnvDuration env ''BET_SETTLEMENT_DELAY'' (5 * Minute),
      cbt_CancelDelay = getEnvDuration env ''BET_CANCEL_DELAY'' (1 * Minute)\<rparr>"

definition load_Logging :: "env \<Rightarrow> LoggingConfig" where
  "load_Logging env =
     \<lparr>clg_Level = getEnv env ''LOGGING_LEVEL'' ''info'',
      clg_Format = getEnv env ''LOGGING_FORMAT'' ''json'',
      clg_Output = getEnv env ''LOGGING_OUTPUT'' ''stdout'',
      clg_File = getEnv env ''LOGGING_FILE'' ''logs/app.log'',
      clg_MaxSize = getEnvInt env ''LOGGING_MAX_SIZE'' 100,
      clg_MaxBackups = getEnvInt env ''LOGGING_MAX_BACKUPS'' 3,
      clg_MaxAge = getEnvInt env ''LOGGING_MAX_AGE'' 28,
      clg_Compress = getEnvBool env ''LOGGING_COMPRESS'' True\<rparr>"

definition load_Features :: "env \<Rightarrow> FeatureFlags" where
  "load_Features env =
     \<lparr>cff_EnableLiveBetting = getEnvBool env ''FEATURE_ENABLE_LIVE_BETTING'' True,
      cff_EnableVirtualSports = getEnvBool env ''FEATURE_ENABLE_VIRTUAL_SPORTS'' True,
      cff_EnableJackpot = getEnvBool env ''FEATURE_ENABLE_JACKPOT'' True,
      cff_EnablePromotions = getEnvBool env ''FEATURE_ENABLE_PROMOTIONS'' True,
      cff_EnableNotifications = getEnvBool env ''FEATURE_ENABLE_NOTIFICATIONS'' True,
      cff_EnableAnalytics = getEnvBool env ''FEATURE_ENABLE_ANALYTICS'' True,
      cff_EnableResponsibleGaming = getEnvBool env ''FEATURE_ENABLE_RESPONSIBLE_GAMING'' True,
      cff_EnableMultiCurrency = getEnvBool env ''FEATURE_ENABLE_MULTI_CURRENCY'' False,
      cff_EnableMobileApp = getEnvBool env ''FEATURE_ENABLE_MOBILE_APP'' False,
      cff_EnableAPIV2 = getEnvBool env ''FEATURE_ENABLE_API_V2'' False,
      cff_EnableBetaFeatures = getEnvBool env ''FEATURE_ENABLE_BETA_FEATURES'' False\<rparr>"

definition LoadConfig :: "(string \<Rightarrow> rat option) \<Rightarrow> env \<Rightarrow> Config" where
  "LoadConfig pf env =
     \<lparr>cf_Service = load_Service env,
      cf_Database = load_Database env,
      cf_Redis = load_Redis env,
      cf_NATS = load_NATS env,
      cf_Tenant = load_Tenant env,
      cf_JWT = load_JWT env,
      cf_Security = load_Security env,
      cf_MPesa = load_MPesa env,
      cf_Flutterwave = load_Flutterwave env,
      cf_Sportradar = load_Sportradar env,
      cf_SmileID = load_SmileID env,
      cf_Tax = load_Tax pf env,
      cf_Crash = load_Crash pf env,
      cf_Bet = load_Bet pf env,
      cf_Logging = load_Logging env,
      cf_Features = load_Features env\<rparr>"

definition LoadFromFile :: "(string \<Rightarrow> env \<Rightarrow> env) \<Rightarrow> (string \<Rightarrow> rat option) \<Rightarrow> env \<Rightarrow> string \<Rightarrow> Config" where
  "LoadFromFile dotenv pf env filename = LoadConfig pf (dotenv filename env)"

section \<open>Validation\<close>

datatype config_error =
    NameRequired
  | InvalidServicePort int
  | DatabaseHostRequired
  | InvalidDatabasePort int
  | DatabaseNameRequired
  | DatabaseUserRequired
  | SecretRequired
  | ExpirationNotPositive
  | PasswordTooShort

definition ValidateConfig :: "Config \<Rightarrow> config_error option" where
  "ValidateConfig c =
     (if sv_Name (cf_Service c) = '''' then Some NameRequired
      else if sv_Port (cf_Service c) \<le> 0 \<or> sv_Port (cf_Service c) > 65535 then Some (InvalidServicePort (sv_Port (cf_Service c)))
      else if cdb_Host (cf_Database c) = '''' then Some DatabaseHostRequired
      else if cdb_Port (cf_Database c) \<le> 0 \<or> cdb_Port (cf_Database c) > 65535 then Some (InvalidDatabasePort (cdb_Port (cf_Database c)))
      else if cdb_Name (cf_Database c) = '''' then Some DatabaseNameRequired
      else if cdb_User (cf_Database c) = '''' then Some DatabaseUserRequired
      else if cjw_Secret (cf_JWT c) = '''' then Some SecretRequired
      else if cjw_ExpirationTime (cf_JWT c) \<le> 0 then Some ExpirationNotPositive
      else if cse_PasswordMinLength (cf_Security c) < 6 then Some PasswordTooShort
      else None)"

section \<open>What the services take from it\<close>

definition Addr :: "RedisConfig \<Rightarrow> string" where
  "Addr r = crd_Host r @ '':'' @ (if crd_Port r < 0 then ''-'' @ show_nat (nat (- crd_Port r)) else show_nat (nat (crd_Port r)))"

text \<open>Products of an \<open>int\<close> wrap around; \<open>service\<close> is the name in the prefixes.\<close>

definition wrap_int :: "int \<Rightarrow> int" where
  "wrap_int n = (n + 2 ^ 63) mod 2 ^ 64 - 2 ^ 63"

definition service_limits :: "string \<Rightarrow> Config \<Rightarrow> RateConfig" where
  "service_limits service c =
     \<lparr>UserRequestsPerWindow = wrap_int (cse_RateLimitRequests (cf_Security c) * 2),
      UserWindow = cse_RateLimitWindow (cf_Security c),
      IPRequestsPerWindow = cse_RateLimitRequests (cf_Security c),
      IPWindow = cse_RateLimitWindow (cf_Security c),
      GlobalRequestsPerWindow = wrap_int (cse_RateLimitRequests (cf_Security c) * 10),
      GlobalWindow = cse_RateLimitWindow (cf_Security c),
      UserPrefix = ''rate_limit:'' @ service @ '':user:'',
      IPPrefix = ''rate_limit:'' @ service @ '':ip:'',
      GlobalPrefix = ''rate_limit:'' @ service @ '':global:''\<rparr>"

definition service_geo :: "(IP \<Rightarrow> string option) option \<Rightarrow> Config \<Rightarrow> GeoConfig" where
  "service_geo provider c =
     \<lparr>gc_Provider = provider, gc_Allowed = ctn_AllowedCountries (cf_Tenant c), gc_HeaderFallback = '''', gc_ProxyValidator = None\<rparr>"

definition service_cors :: "Config \<Rightarrow> CORSConfig" where
  "service_cors c =
     \<lparr>CORSAllowedOrigins = cse_CORSAllowedOrigins (cf_Security c), CORSAllowedMethods = cse_CORSAllowedMethods (cf_Security c),
      CORSAllowedHeaders = cse_CORSAllowedHeaders (cf_Security c)\<rparr>"

section \<open>What a configuration can be\<close>

text \<open>Loading never fails: what cannot be read is replaced by the default, but an empty text is kept.\<close>

lemma unreadable_is_default:
  "env k = Some v \<Longrightarrow> parse v = None \<Longrightarrow> read_env parse env k d = d"
  by (simp add: read_env_def)

lemma empty_text_kept: "env k = Some '''' \<Longrightarrow> getEnv env k d = ''''"
  by (simp add: getEnv_def)

definition setting :: "(string \<Rightarrow> 'a option) \<Rightarrow> env \<Rightarrow> string \<Rightarrow> ('a \<Rightarrow> bool) \<Rightarrow> bool" where
  "setting parse env k P \<longleftrightarrow> (case Option.bind (env k) parse of None \<Rightarrow> True | Some v \<Rightarrow> P v)"

lemma read_env_setting: "P d \<Longrightarrow> P (read_env parse env k d) = setting parse env k P"
  by (auto simp: read_env_def setting_def split: option.split)

lemma setting_conj: "setting parse env k (\<lambda>v. P v \<and> Q v) = (setting parse env k P \<and> setting parse env k Q)"
  by (auto simp: setting_def split: option.split)

text \<open>
  Which environments load to a valid configuration: a secret must be set, everything else has a valid
  default, and only what can be read is looked at.
\<close>

lemma config_accepted_iff:
  "ValidateConfig (LoadConfig pf env) = None \<longleftrightarrow>
     (\<exists>s. env ''JWT_SECRET'' = Some s \<and> s \<noteq> '''') \<and>
     (\<forall>k \<in> {''SERVICE_NAME'', ''DB_HOST'', ''DB_NAME'', ''DB_USER''}. env k \<noteq> Some '''') \<and>
     setting Atoi env ''SERVICE_PORT'' (\<lambda>p. 0 < p \<and> p \<le> 65535) \<and> setting Atoi env ''DB_PORT'' (\<lambda>p. 0 < p \<and> p \<le> 65535) \<and>
     setting ParseDuration env ''JWT_EXPIRATION_TIME'' (\<lambda>d. 0 < d) \<and>
     setting Atoi env ''SECURITY_PASSWORD_MIN_LENGTH'' (\<lambda>n. 6 \<le> n)"
proof -
  have texts: "(getEnv env k d \<noteq> '''') = (env k \<noteq> Some '''')" if "d \<noteq> ''''" for k d
    using that by (simp add: getEnv_def split: option.split)
  have secret: "(getEnv env k '''' \<noteq> '''') = (\<exists>s. env k = Some s \<and> s \<noteq> '''')" for k
    by (simp add: getEnv_def split: option.split)
  have upper: "(read_env Atoi env k d \<le> 65535) = setting Atoi env k (\<lambda>p. p \<le> 65535)" if "d \<le> 65535" for k d
    by (rule read_env_setting [of "\<lambda>p. p \<le> 65535", OF that])
  have valid: "ValidateConfig c = None \<longleftrightarrow>
      cjw_Secret (cf_JWT c) \<noteq> '''' \<and>
      (sv_Name (cf_Service c) \<noteq> '''' \<and> cdb_Host (cf_Database c) \<noteq> '''' \<and> cdb_Name (cf_Database c) \<noteq> '''' \<and> cdb_User (cf_Database c) \<noteq> '''') \<and>
      (0 < sv_Port (cf_Service c) \<and> sv_Port (cf_Service c) \<le> 65535) \<and>
      (0 < cdb_Port (cf_Database c) \<and> cdb_Port (cf_Database c) \<le> 65535) \<and>
      0 < cjw_ExpirationTime (cf_JWT c) \<and> 6 \<le> cse_PasswordMinLength (cf_Security c)" for c
    by (auto simp: ValidateConfig_def not_le not_less)
  show ?thesis
    unfolding valid LoadConfig_def load_Service_def load_Database_def load_JWT_def load_Security_def
    by (simp add: texts secret upper getEnvInt_def getEnvDuration_def read_env_setting setting_conj)
qed

text \<open>No service calls the validation, so all of them start from an empty environment, with an empty secret.\<close>

lemma defaults_need_secret: "ValidateConfig (LoadConfig pf Map.empty) = Some SecretRequired"
  by (simp add: ValidateConfig_def LoadConfig_def load_Service_def load_Database_def load_JWT_def getEnv_def getEnvInt_def read_env_def)

section \<open>The geofence of a service\<close>

definition located :: "(IP \<Rightarrow> string option) option \<Rightarrow> Request \<Rightarrow> string" where
  "located provider r =
     (let c = ToUpper (rq_Header r ''CF-IPCountry'') in
      if c \<noteq> '''' then c
      else case Option.bind (geo_parseIP (clientIP r None)) (\<lambda>ip. Option.bind provider (\<lambda>f. f ip)) of
        None \<Rightarrow> '''' | Some c \<Rightarrow> ToUpper c)"

lemma fence_follows_settings:
  "Geolocation (service_geo provider (LoadConfig pf env)) r = UnavailableForLegalReasons \<longleftrightarrow>
     located provider r \<noteq> '''' \<and>
     located provider r \<notin> ToUpper ` set (split_on CHR '','' (getEnv env ''TENANT_ALLOWED_COUNTRIES'' ''KE,UG,TZ,NG,ZA''))"
  by (auto simp: Geolocation_def service_geo_def LoadConfig_def load_Tenant_def located_def Let_def split: option.splits)

text \<open>
  Setting the list to nothing does not open the service: the list then names one country without a
  name, and every located request is refused.
\<close>

lemma empty_list_fences_everybody:
  assumes "env ''TENANT_ALLOWED_COUNTRIES'' = Some ''''" "located provider r \<noteq> ''''"
  shows "Geolocation (service_geo provider (LoadConfig pf env)) r = UnavailableForLegalReasons"
  using assms by (simp add: fence_follows_settings getEnv_def)

text \<open>A space after a comma belongs to the name of the country, which then is never the country of a request from there.\<close>

lemma spaces_in_the_list:
  assumes "env ''TENANT_ALLOWED_COUNTRIES'' = Some ''KE, UG''" "located provider r = ''UG''"
  shows "Geolocation (service_geo provider (LoadConfig pf env)) r = UnavailableForLegalReasons"
  using assms by (simp add: fence_follows_settings getEnv_def to_upper_def)

section \<open>The limits of a service\<close>

lemma default_limits:
  "service_limits ''wallet'' (LoadConfig pf Map.empty) =
     \<lparr>UserRequestsPerWindow = 2000, UserWindow = Minute, IPRequestsPerWindow = 1000, IPWindow = Minute,
      GlobalRequestsPerWindow = 10000, GlobalWindow = Minute, UserPrefix = ''rate_limit:wallet:user:'',
      IPPrefix = ''rate_limit:wallet:ip:'', GlobalPrefix = ''rate_limit:wallet:global:''\<rparr>"
  by (simp add: service_limits_def LoadConfig_def load_Security_def getEnvInt_def getEnvDuration_def read_env_def wrap_int_def)

text \<open>A limit that is not positive is accepted and refuses everything.\<close>

lemma no_limit_refuses_all:
  assumes "env ''SECURITY_RATE_LIMIT_REQUESTS'' = Some ''0''" "text_ip a = Some n"
  shows "\<exists>R' x. CheckIPLimit text_ip (service_limits service (LoadConfig pf env)) si srv now R a = (R', Some x) \<and> \<not> lr_Allowed x"
proof -
  have "Atoi ''0'' = Some 0" by code_simp
  then have "IPRequestsPerWindow (service_limits service (LoadConfig pf env)) = 0"
    using assms(1) by (simp add: service_limits_def LoadConfig_def load_Security_def getEnvInt_def read_env_def)
  then show ?thesis using assms(2) by (simp add: CheckIPLimit_def checkLimit_def lua_check_def Let_def split: prod.split)
qed

text \<open>The origins the services allow by default are none: see \<open>star_allows_nobody\<close>.\<close>

lemma default_origins:
  assumes "env ''SECURITY_CORS_ALLOWED_ORIGINS'' = None" "wq_Header r ''Origin'' \<noteq> ''*''"
  shows "cors_headers (service_cors (LoadConfig pf env)) r Map.empty ''Access-Control-Allow-Origin'' = None"
  using assms by (intro star_allows_nobody) (simp_all add: service_cors_def LoadConfig_def load_Security_def getEnv_def)

end
