(* ===== verification/JsonText.thy ===== *)
theory JsonText
  imports Json
begin

text \<open>
  What \<open>Marshal\<close> writes is read back: every value whose numbers are literals is what \<open>Unmarshal\<close> makes
  of its own text. Escapes, numbers and separators are handled one by one.
\<close>

section \<open>Texts\<close>

lemma hex_char_value: "d < 16 \<Longrightarrow> hex_digit_value (hex_char d) = Some d"
  by (auto simp: hex_digit_value_def hex_char_def Let_def)

lemma hex_zero: "hex_digit_value CHR ''0'' = Some 0"
  by (simp add: hex_digit_value_def)

lemma control_chars:
  "char_of (8 :: nat) = CHR 0x08" "char_of (9 :: nat) = CHR 0x09" "char_of (10 :: nat) = CHR 0x0A"
  "char_of (12 :: nat) = CHR 0x0C" "char_of (13 :: nat) = CHR 0x0D"
  by code_simp+

lemma escaped_control:
  "c \<in> {CHR 0x08, CHR 0x09, CHR 0x0A, CHR 0x0C, CHR 0x0D} \<Longrightarrow>
   parse_string (escape_char c @ r) = map_option (\<lambda>(u, v). (c # u, v)) (parse_string r)"
  by (auto simp: escape_char_def control_chars)

lemma of_char_control:
  "(of_char c :: nat) \<in> {8, 9, 10, 12, 13} \<Longrightarrow> c \<in> {CHR 0x08, CHR 0x09, CHR 0x0A, CHR 0x0C, CHR 0x0D}"
proof -
  assume "(of_char c :: nat) \<in> {8, 9, 10, 12, 13}"
  then have "char_of (of_char c :: nat) \<in> char_of ` {8, 9, 10, 12, 13 :: nat}" by (rule imageI)
  then show ?thesis by (simp add: control_chars)
qed

lemma parse_string_escaped:
  "parse_string (escape_char c @ r) = map_option (\<lambda>(u, v). (c # u, v)) (parse_string r)"
proof (cases "(of_char c :: nat) \<in> {8, 9, 10, 12, 13}")
  case True
  then show ?thesis by (intro escaped_control of_char_control)
next
  case False
  have h: "char_of (16 * (of_char c div 16) + of_char c mod 16 :: nat) = c" by (simp add: mult.commute)
  have b: "(of_char c :: nat) < 256" by simp
  then have "(of_char c :: nat) div 16 < 16" by (simp add: less_mult_imp_div_less)
  then show ?thesis
    using False h by (auto simp: escape_char_def Let_def hex_char_value hex_zero)
qed

lemma parse_string_quoted: "parse_string (concat (map escape_char s) @ CHR 0x22 # t) = Some (s, t)"
  by (induction s) (simp_all add: parse_string_escaped)

section \<open>Numbers\<close>

text \<open>What may follow a value: the end, or a character that continues no number.\<close>

definition ends :: "string \<Rightarrow> bool" where
  "ends t \<longleftrightarrow> (case t of [] \<Rightarrow> True | c # _ \<Rightarrow> c \<in> {CHR '','', CHR '']'', CHR ''}''})"

lemma ends_cases: "ends t \<Longrightarrow> t = [] \<or> (\<exists>c u. t = c # u \<and> \<not> is_digit c \<and> c \<notin> {CHR ''.'', CHR ''e'', CHR ''E'', CHR ''+'', CHR ''-''})"
  by (auto simp: ends_def is_digit_def split: list.splits)

lemma digits_of_append:
  assumes "digits_of s = Some (d, r)" "ends t"
  shows "digits_of (s @ t) = Some (d, r @ t)"
proof -
  have t: "takeWhile is_digit t = []" using ends_cases [OF assms(2)] by auto
  have "takeWhile is_digit (s @ t) = takeWhile is_digit s"
    using t by (cases "\<forall>c \<in> set s. is_digit c") (auto simp: takeWhile_append takeWhile_eq_all_conv [THEN iffD2])
  moreover have "length (takeWhile is_digit s) \<le> length s" by (rule length_takeWhile_le)
  ultimately show ?thesis using assms(1) by (auto simp: digits_of_def Let_def split: if_splits)
qed

lemma parse_fraction_append:
  assumes "parse_fraction s = Some (f, r)" "ends t"
  shows "parse_fraction (s @ t) = Some (f, r @ t)"
proof (cases s)
  case Nil
  then show ?thesis using assms ends_cases [OF assms(2)] by (auto simp: parse_fraction_def)
next
  case (Cons c u)
  then show ?thesis using assms(1) digits_of_append [OF _ assms(2)]
    by (auto simp: parse_fraction_def split: if_splits)
qed

lemma parse_exponent_append:
  assumes "parse_exponent s = Some (f, r)" "ends t"
  shows "parse_exponent (s @ t) = Some (f, r @ t)"
proof (cases s)
  case Nil
  then show ?thesis using assms ends_cases [OF assms(2)] by (auto simp: parse_exponent_def)
next
  case (Cons c u)
  show ?thesis
  proof (cases u)
    case Nil
    then show ?thesis using assms(1) Cons by (auto simp: parse_exponent_def split: if_splits)
  next
    case (Cons g v)
    then show ?thesis using assms(1) \<open>s = c # u\<close> digits_of_append [OF _ assms(2)] digits_of_append [OF _ assms(2), of "g # v"]
      by (auto simp: parse_exponent_def split: if_splits)
  qed
qed

lemma parse_number_append:
  assumes "parse_number s = Some (x, r)" "ends t"
  shows "parse_number (s @ t) = Some (x, r @ t)"
proof -
  define sg where "sg = (case s of c # r \<Rightarrow> if c = CHR ''-'' then ([c], r) else ([], s) | [] \<Rightarrow> ([], s))"
  obtain sign s1 where s1: "sg = (sign, s1)" by (cases sg)
  have n2: "s \<noteq> []" using assms(1) by (auto simp: parse_number_def)
  from assms(1) have n: "s1 \<noteq> []" by (auto simp: parse_number_def sg_def [symmetric] s1)
  then obtain c u where c: "s1 = c # u" by (cases s1) auto
  have sg': "(case s @ t of c # r \<Rightarrow> if c = CHR ''-'' then ([c], r) else ([], s @ t) | [] \<Rightarrow> ([], s @ t)) = (sign, s1 @ t)"
    using s1 n2 by (cases s) (auto simp: sg_def split: if_splits)
  define ip where "ip = (if c = CHR ''0'' then Some ([c], u) else digits_of (c # u))"
  obtain i s2 f s3 e where parts: "ip = Some (i, s2)" "parse_fraction s2 = Some (f, s3)" "parse_exponent s3 = Some (e, r)"
    and x: "x = sign @ i @ f @ e"
    using assms(1) by (auto simp: parse_number_def sg_def [symmetric] s1 c ip_def Let_def split: option.splits)
  have "(if c = CHR ''0'' then Some ([c], u @ t) else digits_of (c # u @ t)) = Some (i, s2 @ t)"
    using parts(1) digits_of_append [OF _ assms(2), of "c # u"] by (auto simp: ip_def split: if_splits)
  then show ?thesis
    using parse_fraction_append [OF parts(2) assms(2)] parse_exponent_append [OF parts(3) assms(2)] x
    by (simp add: parse_number_def sg' c Let_def)
qed

section \<open>Values\<close>

fun literal_numbers :: "json \<Rightarrow> bool" where
  "literal_numbers (JNum s) = (parse_number s = Some (s, []))"
| "literal_numbers (JArr xs) = list_all literal_numbers xs"
| "literal_numbers (JObj ms) = list_all (\<lambda>(k, v). literal_numbers v) ms"
| "literal_numbers _ = True"

lemma number_start:
  assumes "parse_number s = Some (x, r)"
  shows "\<exists>c u. s = c # u \<and> (c = CHR ''-'' \<or> is_digit c)"
  using assms by (auto simp: parse_number_def digits_of_def Let_def is_digit_def split: list.splits if_splits)

lemma number_char:
  assumes "c = CHR ''-'' \<or> is_digit c"
  shows "\<not> json_space c" "c \<notin> {CHR '']'', CHR ''}'', CHR ''{'', CHR ''['', CHR 0x22, CHR ''t'', CHR ''f'', CHR ''n''}"
  using assms by (auto simp: json_space_def is_digit_def)

lemma text_start:
  assumes "literal_numbers j"
  shows "\<exists>c u. json_text j = c # u \<and> \<not> json_space c \<and> c \<noteq> CHR '']'' \<and> c \<noteq> CHR ''}''"
proof (cases j)
  case (JNum s)
  obtain c u where "s = c # u" "c = CHR ''-'' \<or> is_digit c" using assms JNum number_start [of s s "[]"] by auto
  then show ?thesis using JNum number_char by simp
qed (auto simp: json_space_def quoted_def)

lemma parse_value_number:
  assumes "parse_number s = Some (s, [])" "ends t"
  shows "parse_value (Suc n) (s @ t) = Some (JNum s, t)"
proof -
  obtain c u where s: "s = c # u" "c = CHR ''-'' \<or> is_digit c" using number_start [OF assms(1)] by blast
  then show ?thesis using number_char [OF s(2)] parse_number_append [OF assms] by (simp add: s(1) HasPrefix_def)
qed

lemma ends_list [simp]: "ends []" "ends (CHR '','' # t)" "ends (CHR '']'' # t)" "ends (CHR ''}'' # t)"
  by (simp_all add: ends_def)

lemma ends_skip: "ends t \<Longrightarrow> skip_ws t = t"
  by (auto simp: ends_def json_space_def split: list.splits)

text \<open>The elements of an array and the members of an object, given that each value is read back.\<close>

lemma parse_elems_text:
  assumes "xs \<noteq> []"
    and "\<And>x k t. x \<in> set xs \<Longrightarrow> length (json_text x) \<le> k \<Longrightarrow> ends t \<Longrightarrow> parse_value k (json_text x @ t) = Some (x, t)"
    and "length (sep_by '','' (map json_text xs)) < n"
  shows "parse_elems n (sep_by '','' (map json_text xs) @ CHR '']'' # t) = Some (xs, t)"
  using assms
proof (induction xs arbitrary: n)
  case (Cons x xs)
  obtain k where n: "n = Suc k" using Cons.prems(3) by (cases n) auto
  show ?case
  proof (cases xs)
    case Nil
    have "parse_value k (json_text x @ CHR '']'' # t) = Some (x, CHR '']'' # t)"
      using Cons.prems(2) [of x k] Cons.prems(3) n Nil by simp
    then show ?thesis by (simp add: n Nil json_space_def)
  next
    case (Cons y ys)
    let ?r = "sep_by '','' (map json_text xs) @ CHR '']'' # t"
    have e: "sep_by '','' (json_text x # map json_text xs) = json_text x @ CHR '','' # sep_by '','' (map json_text xs)"
      by (simp add: Cons)
    have "parse_value k (json_text x @ CHR '','' # ?r) = Some (x, CHR '','' # ?r)"
      using Cons.prems(2) [of x k] Cons.prems(3) n e by simp
    moreover have "parse_elems k ?r = Some (xs, t)"
      using Cons.IH [of k] Cons.prems(2,3) n e \<open>xs = y # ys\<close> by simp
    ultimately show ?thesis by (simp add: n e json_space_def del: sep_by.simps)
  qed
qed simp

definition member_text :: "string \<times> json \<Rightarrow> string" where
  "member_text m = quoted (fst m) @ '':'' @ json_text (snd m)"

lemma parse_members_text:
  assumes "ms \<noteq> []"
    and "\<And>m k t. m \<in> set ms \<Longrightarrow> length (json_text (snd m)) \<le> k \<Longrightarrow> ends t \<Longrightarrow>
      parse_value k (json_text (snd m) @ t) = Some (snd m, t)"
    and "length (sep_by '','' (map member_text ms)) < n"
  shows "parse_members n (sep_by '','' (map member_text ms) @ CHR ''}'' # t) = Some (ms, t)"
  using assms
proof (induction ms arbitrary: n)
  case (Cons m ms)
  obtain k where n: "n = Suc k" using Cons.prems(3) by (cases n) auto
  have q: "member_text m @ r = CHR 0x22 # concat (map escape_char (fst m)) @ CHR 0x22 # CHR '':'' # json_text (snd m) @ r" for r
    by (simp add: member_text_def quoted_def)
  have l: "length (json_text (snd m)) < length (member_text m)" by (simp add: member_text_def)
  show ?case
  proof (cases ms)
    case Nil
    have "parse_value k (json_text (snd m) @ CHR ''}'' # t) = Some (snd m, CHR ''}'' # t)"
      using Cons.prems(2) [of m k] Cons.prems(3) n Nil l by simp
    then show ?thesis by (simp add: n Nil q json_space_def parse_string_quoted del: parse_string.simps)
  next
    case (Cons y ys)
    let ?r = "sep_by '','' (map member_text ms) @ CHR ''}'' # t"
    have e: "sep_by '','' (member_text m # map member_text ms) = member_text m @ CHR '','' # sep_by '','' (map member_text ms)"
      by (simp add: Cons)
    have "parse_value k (json_text (snd m) @ CHR '','' # ?r) = Some (snd m, CHR '','' # ?r)"
      using Cons.prems(2) [of m k] Cons.prems(3) n e l by simp
    moreover have "parse_members k ?r = Some (ms, t)"
      using Cons.IH [of k] Cons.prems(2,3) n e \<open>ms = y # ys\<close> by simp
    ultimately show ?thesis
      by (simp add: n e q json_space_def parse_string_quoted del: sep_by.simps parse_string.simps)
  qed
qed simp

lemma object_text: "json_text (JObj ms) = ''{'' @ sep_by '','' (map member_text ms) @ ''}''"
  by (simp add: member_text_def [abs_def] case_prod_unfold)

lemma parse_value_text:
  "literal_numbers j \<Longrightarrow> length (json_text j) \<le> n \<Longrightarrow> ends t \<Longrightarrow> parse_value n (json_text j @ t) = Some (j, t)"
proof (induction j arbitrary: n t)
  case (JNum s)
  then obtain k where "n = Suc k" using number_start [of s s "[]"] by (cases n) auto
  then show ?case using JNum parse_value_number [of s t k] by simp
next
  case (JStr s)
  then obtain k where "n = Suc k" by (cases n) (auto simp: quoted_def)
  then show ?case by (simp add: quoted_def json_space_def parse_string_quoted del: parse_string.simps)
next
  case (JArr xs)
  then obtain k where n: "n = Suc k" by (cases n) auto
  show ?case
  proof (cases xs)
    case Nil
    then show ?thesis by (simp add: n json_space_def)
  next
    case (Cons x ys)
    obtain c u where c: "json_text x = c # u" "\<not> json_space c" "c \<noteq> CHR '']''"
      using text_start [of x] JArr.prems(1) Cons by auto
    obtain r where r: "sep_by '','' (map json_text xs) = c # r"
      using sep_by_cons [of "'',''" "json_text x" "map json_text ys"] c(1) Cons by auto
    have "parse_elems k (sep_by '','' (map json_text xs) @ CHR '']'' # t) = Some (xs, t)"
      by (rule parse_elems_text) (use JArr n Cons in \<open>auto simp: list_all_iff\<close>)
    then show ?thesis using c(2,3) by (simp add: n r json_space_def)
  qed
next
  case (JObj ms)
  then obtain k where n: "n = Suc k" by (cases n) auto
  show ?case
  proof (cases ms)
    case Nil
    then show ?thesis by (simp add: n json_space_def)
  next
    case (Cons m ys)
    obtain r where r: "sep_by '','' (map member_text ms) = CHR 0x22 # r"
      using sep_by_cons [of "'',''" "member_text m" "map member_text ys"] Cons by (auto simp: member_text_def quoted_def)
    have "parse_members k (sep_by '','' (map member_text ms) @ CHR ''}'' # t) = Some (ms, t)"
    proof (rule parse_members_text)
      show "ms \<noteq> []" using Cons by simp
      show "length (sep_by '','' (map member_text ms)) < k" using JObj.prems(2) n by (simp add: object_text del: json_text.simps)
      show "parse_value i (json_text (snd p) @ u) = Some (snd p, u)"
        if "p \<in> set ms" "length (json_text (snd p)) \<le> i" "ends u" for p i u
        using JObj.IH [of p "snd p" i u] JObj.prems(1) that by (cases p) (auto simp: list_all_iff)
    qed
    then show ?thesis by (simp add: n r object_text json_space_def del: json_text.simps)
  qed
next
  case JNull
  then obtain k where n: "n = Suc k" by (cases n) auto
  show ?case by (simp add: n json_space_def HasPrefix_def)
next
  case (JBool b)
  then obtain k where n: "n = Suc k" by (cases n) (auto split: if_splits)
  show ?case by (cases b) (simp_all add: n json_space_def HasPrefix_def)
qed

lemma json_round_trip:
  assumes "literal_numbers j"
  shows "parse_json (json_text j) = Some j"
  using parse_value_text [OF assms, of "Suc (2 * length (json_text j))" "[]"] by (simp add: parse_json_def del: parse_value.simps)

end
