(* ===== verification/Events.thy ===== *)
theory Events
  imports JsonText
begin

text \<open>
  The event bus (\<open>internal/infrastructure/events/bus.go\<close>) and the websocket hub
  (\<open>internal/infrastructure/websocket/hub.go\<close>). NATS is third-party code: connecting, sending and
  subscribing are arguments, over a type \<open>'c\<close> of connections; \<open>js\<close> says whether JetStream is used.
  \<open>fmt\<close> and \<open>parse\<close> are how \<open>encoding/json\<close> writes and reads a time. A payload is the value it is the
  text of, and \<open>None\<close> is one \<open>Marshal\<close> refuses.
\<close>

section \<open>Envelopes\<close>

record Envelope =
  ev_ID :: string
  ev_Subject :: string
  ev_OccurredAt :: time
  ev_Producer :: string
  ev_Payload :: "json option"

definition envelope_json :: "(time \<Rightarrow> string option) \<Rightarrow> Envelope \<Rightarrow> json option" where
  "envelope_json fmt e =
     map_option (\<lambda>t. JObj
       [(''id'', JStr (ev_ID e)), (''subject'', JStr (ev_Subject e)), (''occurred_at'', JStr t),
        (''producer'', JStr (ev_Producer e)), (''payload'', case ev_Payload e of None \<Rightarrow> JNull | Some p \<Rightarrow> p)])
       (fmt (ev_OccurredAt e))"

text \<open>
  Reading one into a fresh envelope: names of fields are compared without case, a null leaves a field as
  it is, and a value of another type is an error of the whole.
\<close>

definition text_field :: "json \<Rightarrow> (string \<Rightarrow> Envelope) \<Rightarrow> Envelope \<Rightarrow> Envelope option" where
  "text_field v f e = (case v of JStr x \<Rightarrow> Some (f x) | JNull \<Rightarrow> Some e | _ \<Rightarrow> None)"

definition read_member :: "(string \<Rightarrow> time option) \<Rightarrow> string \<times> json \<Rightarrow> Envelope \<Rightarrow> Envelope option" where
  "read_member parse m e =
     (case m of (k, v) \<Rightarrow>
        let named = (\<lambda>n. map to_upper k = map to_upper n) in
        if named ''id'' then text_field v (\<lambda>x. e\<lparr>ev_ID := x\<rparr>) e
        else if named ''subject'' then text_field v (\<lambda>x. e\<lparr>ev_Subject := x\<rparr>) e
        else if named ''occurred_at'' then
          (case v of
             JStr x \<Rightarrow> map_option (\<lambda>t. e\<lparr>ev_OccurredAt := t\<rparr>) (parse x)
           | JNull \<Rightarrow> Some e
           | _ \<Rightarrow> None)
        else if named ''producer'' then text_field v (\<lambda>x. e\<lparr>ev_Producer := x\<rparr>) e
        else if named ''payload'' then Some (e\<lparr>ev_Payload := Some v\<rparr>)
        else Some e)"

fun read_members :: "(string \<Rightarrow> time option) \<Rightarrow> (string \<times> json) list \<Rightarrow> Envelope \<Rightarrow> Envelope option" where
  "read_members parse [] e = Some e"
| "read_members parse (m # ms) e = Option.bind (read_member parse m e) (read_members parse ms)"

definition no_envelope :: Envelope where
  "no_envelope = \<lparr>ev_ID = '''', ev_Subject = '''', ev_OccurredAt = zero_time, ev_Producer = '''', ev_Payload = None\<rparr>"

definition read_envelope :: "(string \<Rightarrow> time option) \<Rightarrow> string \<Rightarrow> Envelope option" where
  "read_envelope parse data =
     (case parse_json data of
        Some (JObj ms) \<Rightarrow> read_members parse ms no_envelope
      | Some JNull \<Rightarrow> Some no_envelope
      | _ \<Rightarrow> None)"

section \<open>The bus\<close>

record 'c NATSBus =
  nb_conn :: 'c
  nb_producer :: string
  nb_js :: bool

datatype bus_error = UrlRequired | ConnectError | JetStreamError | MarshalPayload | MarshalEnvelope | SendError | SubscribeError

text \<open>The one option there is switches to JetStream; when it fails, the connection is drained.\<close>

definition Connect :: "(string \<Rightarrow> 'c option) \<Rightarrow> ('c \<Rightarrow> bool) \<Rightarrow> string \<Rightarrow> string \<Rightarrow> bool \<Rightarrow> bus_error + 'c NATSBus" where
  "Connect connect jetstream url producer withJS =
     (if url = '''' then Inl UrlRequired
      else
        (case connect url of
           None \<Rightarrow> Inl ConnectError
         | Some c \<Rightarrow>
             if withJS \<and> \<not> jetstream c then Inl JetStreamError
             else Inr \<lparr>nb_conn = c, nb_producer = producer, nb_js = withJS\<rparr>))"

definition Publish ::
  "('c \<Rightarrow> bool \<Rightarrow> string \<Rightarrow> string \<Rightarrow> 'c \<times> bool) \<Rightarrow> (time \<Rightarrow> string option) \<Rightarrow> string \<Rightarrow> time \<Rightarrow> 'c NATSBus \<Rightarrow> string \<Rightarrow>
     json option \<Rightarrow> 'c NATSBus \<times> bus_error option" where
  "Publish send fmt inbox now b subject payload =
     (case payload of
        None \<Rightarrow> (b, Some MarshalPayload)
      | Some raw \<Rightarrow>
          (case envelope_json fmt \<lparr>ev_ID = inbox, ev_Subject = subject, ev_OccurredAt = now, ev_Producer = nb_producer b, ev_Payload = Some raw\<rparr> of
             None \<Rightarrow> (b, Some MarshalEnvelope)
           | Some env \<Rightarrow>
               (case send (nb_conn b) (nb_js b) subject (json_text env) of
                  (c, ok) \<Rightarrow> (b\<lparr>nb_conn := c\<rparr>, if ok then None else Some SendError))))"

text \<open>What a subscription calls: a message that is no envelope is passed over, and the handler's error is dropped.\<close>

definition wrap :: "(string \<Rightarrow> time option) \<Rightarrow> (Envelope \<Rightarrow> 's \<Rightarrow> 's \<times> bool) \<Rightarrow> string \<Rightarrow> 's \<Rightarrow> 's" where
  "wrap parse handler data s = (case read_envelope parse data of None \<Rightarrow> s | Some env \<Rightarrow> fst (handler env s))"

definition Subscribe ::
  "('c \<Rightarrow> bool \<Rightarrow> string \<Rightarrow> (string \<Rightarrow> 's \<Rightarrow> 's) \<Rightarrow> 'c option) \<Rightarrow> (string \<Rightarrow> time option) \<Rightarrow> 'c NATSBus \<Rightarrow> string \<Rightarrow>
     (Envelope \<Rightarrow> 's \<Rightarrow> 's \<times> bool) \<Rightarrow> bus_error + 'c NATSBus" where
  "Subscribe subscribe parse b subject handler =
     (case subscribe (nb_conn b) (nb_js b) subject (wrap parse handler) of
        None \<Rightarrow> Inl SubscribeError
      | Some c \<Rightarrow> Inr (b\<lparr>nb_conn := c\<rparr>))"

lemma read_envelope_text:
  assumes "envelope_json fmt e = Some j" "ev_Payload e = Some p" "literal_numbers p"
    and "\<And>x. fmt (ev_OccurredAt e) = Some x \<Longrightarrow> parse x = Some (ev_OccurredAt e)"
  shows "read_envelope parse (json_text j) = Some e"
proof -
  obtain x where x: "fmt (ev_OccurredAt e) = Some x" and j: "j = JObj
       [(''id'', JStr (ev_ID e)), (''subject'', JStr (ev_Subject e)), (''occurred_at'', JStr x),
        (''producer'', JStr (ev_Producer e)), (''payload'', p)]"
    using assms(1,2) by (auto simp: envelope_json_def)
  have "literal_numbers j" using assms(3) by (simp add: j)
  from json_round_trip [OF this] show ?thesis
    using assms(2) assms(4) [OF x]
    by (simp add: read_envelope_def j no_envelope_def read_member_def text_field_def to_upper_def Let_def del: json_text.simps)
qed

text \<open>C1: an event arrives as it was published. Whatever the value of the payload and whatever characters
  the texts contain, what is sent is one message on the subject, and every subscriber who gets it calls
  its handler once, with the envelope that was published: its identifier, subject, producer and time, and
  the payload. The result of a publication is that of the connection.\<close>

theorem event_round_trip:
  assumes "literal_numbers payload" "fmt now = Some x" "parse x = Some now"
    and "Publish send fmt inbox now b subject (Some payload) = (b', e)"
  shows "\<exists>data. (nb_conn b', e = None) = send (nb_conn b) (nb_js b) subject data \<and>
    (\<forall>handler (s :: 's). wrap parse handler data s =
       fst (handler \<lparr>ev_ID = inbox, ev_Subject = subject, ev_OccurredAt = now, ev_Producer = nb_producer b, ev_Payload = Some payload\<rparr> s))"
proof -
  let ?e = "\<lparr>ev_ID = inbox, ev_Subject = subject, ev_OccurredAt = now, ev_Producer = nb_producer b, ev_Payload = Some payload\<rparr>"
  obtain j where j: "envelope_json fmt ?e = Some j" using assms(2) by (simp add: envelope_json_def)
  have "read_envelope parse (json_text j) = Some ?e"
    by (rule read_envelope_text [OF j]) (use assms(1-3) in simp_all)
  moreover have "(nb_conn b', e = None) = send (nb_conn b) (nb_js b) subject (json_text j)"
    using assms(4) j by (auto simp: Publish_def split: prod.splits if_splits)
  ultimately show ?thesis by (intro exI [of _ "json_text j"]) (simp add: wrap_def)
qed

text \<open>The witness: a bet of two selections, over a connection that keeps what was sent.\<close>

definition sample_payload :: json where
  "sample_payload = JObj [(''bet_id'', JStr ''<7>''), (''odds'', JArr [JNum ''2.50'', JNum ''1e2''])]"

definition keep_sent :: "(string \<times> string) list \<Rightarrow> bool \<Rightarrow> string \<Rightarrow> string \<Rightarrow> (string \<times> string) list \<times> bool" where
  "keep_sent c js subject data = (c @ [(subject, data)], True)"

lemma sample_payload_literal: "literal_numbers sample_payload"
  by code_simp

lemma event_round_trip_witness:
  "\<exists>data. nb_conn (fst (Publish keep_sent (\<lambda>t. Some (show_nat (nat t))) ''_INBOX.1'' 5 \<lparr>nb_conn = [], nb_producer = ''games'', nb_js = False\<rparr>
        ''bet.placed'' (Some sample_payload))) = [(''bet.placed'', data)] \<and>
     wrap (\<lambda>x. Some 5) (\<lambda>e s. (s @ [ev_Payload e], False)) data [] = [Some sample_payload]"
proof -
  let ?b = "\<lparr>nb_conn = [], nb_producer = ''games'', nb_js = False\<rparr>"
  obtain b' e where p: "Publish keep_sent (\<lambda>t. Some (show_nat (nat t))) ''_INBOX.1'' 5 ?b ''bet.placed'' (Some sample_payload) = (b', e)"
    by (rule prod.exhaust)
  show ?thesis
    using event_round_trip [where 's = "json option list" and parse = "\<lambda>x. Some 5", OF sample_payload_literal refl refl p]
    by (auto simp: p keep_sent_def)
qed

text \<open>The four letters \<open>null\<close> are an envelope: the handler is called with an empty one.\<close>

lemma null_is_an_event: "wrap parse handler ''null'' s = fst (handler no_envelope s)"
proof -
  have "parse_json ''null'' = Some JNull" by code_simp
  then show ?thesis by (simp add: wrap_def read_envelope_def)
qed

text \<open>A handler that fails is not told apart from one that succeeds: nothing is delivered again.\<close>

lemma failures_forgotten:
  "wrap parse (\<lambda>e s. (fst (handler e s), True)) data s = wrap parse handler data s"
  by (simp add: wrap_def split: option.split)

section \<open>The hub\<close>

text \<open>Clients are pointers: two clients with the same identifier are different.\<close>

record Client =
  hc_ptr :: nat
  hc_id :: string

datatype hub_event = Registered Client | Unregistered Client | Broadcasted string

type_synonym Hub = "Client list"

text \<open>One turn of the loop in \<open>Run\<close>; sending to a client is a line in the log, which is left out.\<close>

fun hub_turn :: "hub_event \<Rightarrow> Hub \<Rightarrow> Hub" where
  "hub_turn (Registered c) h = List.insert c h"
| "hub_turn (Unregistered c) h = (if c \<in> set h then removeAll c h else h)"
| "hub_turn (Broadcasted m) h = h"

definition GetActivePlayerCount :: "Hub \<Rightarrow> uuid \<Rightarrow> int" where
  "GetActivePlayerCount h gameID = int (length h)"

definition BroadcastGameState :: "'a \<Rightarrow> Hub \<Rightarrow> Hub" where
  "BroadcastGameState state h = h"

definition NewClient :: "nat \<Rightarrow> string \<Rightarrow> Client" where
  "NewClient ptr uid = \<lparr>hc_ptr = ptr, hc_id = uid\<rparr>"

lemma hub_turn_distinct: "distinct h \<Longrightarrow> distinct (hub_turn e h)"
  by (cases e) (auto simp: distinct_removeAll)

text \<open>
  After any run of the loop the clients are those whose last event was their registration, each once; the
  number of players is the same for every game, and creating a client does not register it.
\<close>

definition last_registered :: "hub_event list \<Rightarrow> Client \<Rightarrow> bool" where
  "last_registered es c =
     (case filter (\<lambda>e. e = Registered c \<or> e = Unregistered c) (rev es) of [] \<Rightarrow> False | e # _ \<Rightarrow> e = Registered c)"

lemma hub_run:
  "set (fold hub_turn es []) = {c. last_registered es c} \<and> distinct (fold hub_turn es [])"
proof (induction es rule: rev_induct)
  case (snoc e es)
  have "c \<in> set (hub_turn e (fold hub_turn es [])) \<longleftrightarrow> last_registered (es @ [e]) c" for c
    using snoc.IH by (cases e) (auto simp: last_registered_def)
  then show ?case using snoc.IH hub_turn_distinct by auto
qed (simp add: last_registered_def)

lemma players_of_any_game: "GetActivePlayerCount h g = GetActivePlayerCount h g'"
  by (simp add: GetActivePlayerCount_def)

end
