(* ===== verification/Admin.thy ===== *)
theory Admin
  imports Strconv Json Transport
begin

text \<open>
  Administration: the service (\<open>internal/admin/service.go\<close>) and its endpoints
  (\<open>internal/transport/http/admin.go\<close>, \<open>admin_users.go\<close>, \<open>admin_metrics.go\<close>). The service has no store,
  only a bus on which it announces what was asked of it. \<open>query\<close> is the query of the request, with the
  empty text for a parameter that is missing, \<open>parse_date\<close> is \<open>time.Parse\<close> with \<open>RFC3339\<close>, the decoders of
  bodies are arguments; the sample figures of the dashboard, which are constants, are left out.
\<close>

section \<open>Requests and answers\<close>

record UserStats =
  au_UserID :: string
  au_Username :: string
  au_TotalBets :: int
  au_TotalVolume :: decimal
  au_TotalRevenue :: decimal
  au_WinRate :: decimal
  au_LastActive :: time
  au_Status :: string

record AdminMetrics =
  am_TotalAdmins :: int
  am_ActiveAdmins :: int
  am_TotalActions :: int
  am_ActionsPerHour :: decimal
  am_LastActivity :: time
  am_SystemLoad :: decimal
  am_ResponseTime :: duration

record TransactionStats =
  as_Type :: string
  as_Count :: int
  as_Amount :: decimal
  as_Average :: decimal

record UserManagementRequest =
  mq_Page :: int
  mq_PageSize :: int
  mq_Limit :: int
  mq_Offset :: int
  mq_Search :: string
  mq_Status :: string
  mq_SortBy :: string
  mq_SortDir :: string

record UserActionRequest =
  ua_UserID :: string
  ua_Action :: string
  ua_Reason :: string

record BettingMetricsRequest =
  bq_Period :: string
  bq_TimeRange :: string
  bq_From :: "time option"
  bq_FromDate :: "time option"
  bq_To :: "time option"
  bq_ToDate :: "time option"

record FinancialReportRequest =
  fq_Period :: string
  fq_Format :: string
  fq_ReportType :: string
  fq_TimeRange :: string
  fq_From :: "time option"
  fq_FromDate :: "time option"
  fq_To :: "time option"
  fq_ToDate :: "time option"

record AuditLogRequest =
  lq_Page :: int
  lq_PageSize :: int
  lq_Limit :: int
  lq_Offset :: int
  lq_UserID :: string
  lq_From :: "time option"
  lq_FromDate :: "time option"
  lq_To :: "time option"
  lq_ToDate :: "time option"
  lq_Action :: string
  lq_User :: string

datatype admin_event =
    DashboardAccessed
  | UserAccessed UserStats
  | MetricsAccessed AdminMetrics
  | StatusUpdated string string time
  | UserSuspended string string time
  | TransactionsAccessed "TransactionStats list"

text \<open>\<open>None\<close> is a service without a bus; what the bus answers is only logged.\<close>

type_synonym admin_service = "admin_event list option"

datatype admin_data =
    UsersPage int int int
  | LogsPage int int int
  | BettingReport int decimal string
  | FinancialReport decimal decimal string string
  | HealthReport string duration int rat
  | ConfigReport "(string \<times> json) list"
  | DashboardReport
  | DetailsReport UserStats
  | UserActionDone string string
  | ConfigUpdated string "(string \<times> json) list"

datatype admin_error = UnreadableBody

type_synonym admin_http = "(admin_error, admin_data) answer"

section \<open>The service\<close>

definition publishAdminEvent :: "admin_event \<Rightarrow> admin_service \<Rightarrow> admin_service" where
  "publishAdminEvent e S = map_option (\<lambda>es. es @ [e]) S"

definition GetDashboardData :: "admin_service \<Rightarrow> admin_service \<times> admin_data" where
  "GetDashboardData S = (publishAdminEvent DashboardAccessed S, DashboardReport)"

definition GetUserDetails :: "time \<Rightarrow> string \<Rightarrow> admin_service \<Rightarrow> admin_service \<times> UserStats" where
  "GetUserDetails now userID S =
     (let user = \<lparr>au_UserID = userID, au_Username = ''john_doe'', au_TotalBets = 150, au_TotalVolume = 5000, au_TotalRevenue = 250,
            au_WinRate = 45 / 100, au_LastActive = now - 2 * Hour, au_Status = ''Active''\<rparr>
      in (publishAdminEvent (UserAccessed user) S, user))"

definition GetSystemMetrics :: "time \<Rightarrow> admin_service \<Rightarrow> admin_service \<times> AdminMetrics" where
  "GetSystemMetrics now S =
     (let metrics = \<lparr>am_TotalAdmins = 5, am_ActiveAdmins = 3, am_TotalActions = 1250, am_ActionsPerHour = 525 / 10,
            am_LastActivity = now - 5 * Minute, am_SystemLoad = 65 / 100, am_ResponseTime = 150 * Millisecond\<rparr>
      in (publishAdminEvent (MetricsAccessed metrics) S, metrics))"

definition UpdateUserStatus :: "time \<Rightarrow> string \<Rightarrow> string \<Rightarrow> admin_service \<Rightarrow> admin_service" where
  "UpdateUserStatus now userID status S = publishAdminEvent (StatusUpdated userID status now) S"

definition SuspendUser :: "time \<Rightarrow> string \<Rightarrow> string \<Rightarrow> admin_service \<Rightarrow> admin_service" where
  "SuspendUser now userID reason S = publishAdminEvent (UserSuspended userID reason now) S"

definition GetTransactionHistory :: "int \<Rightarrow> admin_service \<Rightarrow> admin_service \<times> TransactionStats list" where
  "GetTransactionHistory limit S =
     (let transactions =
            [\<lparr>as_Type = ''Deposit'', as_Count = 150, as_Amount = 15000, as_Average = 100\<rparr>,
             \<lparr>as_Type = ''Withdrawal'', as_Count = 75, as_Amount = 7500, as_Average = 100\<rparr>,
             \<lparr>as_Type = ''Bet'', as_Count = 500, as_Amount = 25000, as_Average = 50\<rparr>]
      in (publishAdminEvent (TransactionsAccessed transactions) S, transactions))"

definition GetUserManagementData :: "UserManagementRequest \<Rightarrow> admin_data" where
  "GetUserManagementData req = UsersPage 0 (mq_Page req) (mq_PageSize req)"

definition PerformUserAction :: "UserActionRequest \<Rightarrow> admin_service \<Rightarrow> admin_service" where
  "PerformUserAction req S = S"

definition GetBettingMetrics :: "BettingMetricsRequest \<Rightarrow> admin_data" where
  "GetBettingMetrics req = BettingReport 0 0 (bq_Period req)"

definition GetFinancialReport :: "FinancialReportRequest \<Rightarrow> admin_data" where
  "GetFinancialReport req = FinancialReport 0 0 (fq_Period req) (fq_Format req)"

definition GetSystemHealth :: admin_data where
  "GetSystemHealth = HealthReport ''healthy'' 0 0 0"

definition GetSystemConfig :: admin_data where
  "GetSystemConfig = ConfigReport []"

definition UpdateSystemConfig :: "(string \<times> json) list \<Rightarrow> admin_service \<Rightarrow> admin_service" where
  "UpdateSystemConfig config S = S"

definition GetAuditLogs :: "AuditLogRequest \<Rightarrow> admin_data" where
  "GetAuditLogs req = LogsPage 0 (lq_Page req) (lq_PageSize req)"

section \<open>The endpoints\<close>

text \<open>Numbers and dates of a query: what is missing or cannot be read is the default.\<close>

definition query_number :: "(string \<Rightarrow> string) \<Rightarrow> string \<Rightarrow> (int \<Rightarrow> bool) \<Rightarrow> int \<Rightarrow> int" where
  "query_number query k P d =
     (if query k \<noteq> '''' then (case Atoi (query k) of Some v \<Rightarrow> if P v then v else d | None \<Rightarrow> d) else d)"

definition query_date :: "(string \<Rightarrow> time option) \<Rightarrow> (string \<Rightarrow> string) \<Rightarrow> string \<Rightarrow> time option" where
  "query_date parse_date query k = (if query k \<noteq> '''' then parse_date (query k) else None)"

definition http_GetDashboardData :: "admin_service \<Rightarrow> admin_service \<times> admin_http" where
  "http_GetDashboardData S = (case GetDashboardData S of (S', d) \<Rightarrow> (S', WriteJSON d 200))"

definition http_GetSystemHealth :: admin_http where
  "http_GetSystemHealth = WriteJSON GetSystemHealth 200"

definition http_GetSystemConfig :: admin_http where
  "http_GetSystemConfig = WriteJSON GetSystemConfig 200"

definition http_UpdateSystemConfig :: "(string \<times> json) list option \<Rightarrow> admin_service \<Rightarrow> admin_service \<times> admin_http" where
  "http_UpdateSystemConfig body S =
     (case body of
        None \<Rightarrow> (S, WriteError (Some UnreadableBody) ''Invalid request body'' 400)
      | Some config \<Rightarrow>
          (UpdateSystemConfig config S, WriteJSON (ConfigUpdated ''System configuration updated successfully'' config) 200))"

definition http_GetAuditLogs :: "(string \<Rightarrow> time option) \<Rightarrow> (string \<Rightarrow> string) \<Rightarrow> admin_http" where
  "http_GetAuditLogs parse_date query =
     WriteJSON (GetAuditLogs
       \<lparr>lq_Page = 0, lq_PageSize = 0,
        lq_Limit = query_number query ''limit'' (\<lambda>n. n > 0) 50, lq_Offset = query_number query ''offset'' (\<lambda>n. n \<ge> 0) 0,
        lq_UserID = query ''user_id'',
        lq_From = None, lq_FromDate = query_date parse_date query ''from_date'',
        lq_To = None, lq_ToDate = query_date parse_date query ''to_date'',
        lq_Action = query ''action'', lq_User = ''''\<rparr>) 200"

definition http_GetUserManagementData :: "(string \<Rightarrow> string) \<Rightarrow> admin_http" where
  "http_GetUserManagementData query =
     WriteJSON (GetUserManagementData
       \<lparr>mq_Page = 0, mq_PageSize = 0,
        mq_Limit = query_number query ''limit'' (\<lambda>n. n > 0) 20, mq_Offset = query_number query ''offset'' (\<lambda>n. n \<ge> 0) 0,
        mq_Search = query ''search'', mq_Status = query ''status'', mq_SortBy = query ''sort_by'', mq_SortDir = query ''sort_dir''\<rparr>) 200"

definition http_GetUserDetails :: "time \<Rightarrow> string \<Rightarrow> admin_service \<Rightarrow> admin_service \<times> admin_http" where
  "http_GetUserDetails now url S =
     (let path = TrimPrefix url ''/api/admin/users/'' in
      if path = '''' then (S, WriteError None ''User ID is required'' 400)
      else (case GetUserDetails now path S of (S', user) \<Rightarrow> (S', WriteJSON (DetailsReport user) 200)))"

definition http_PerformUserAction :: "UserActionRequest option \<Rightarrow> admin_service \<Rightarrow> admin_service \<times> admin_http" where
  "http_PerformUserAction body S =
     (case body of
        None \<Rightarrow> (S, WriteError (Some UnreadableBody) ''Invalid request body'' 400)
      | Some req \<Rightarrow>
          if ua_UserID req = '''' \<or> ua_Action req = '''' then (S, WriteError None ''User ID and action are required'' 400)
          else (PerformUserAction req S, WriteJSON (UserActionDone ''User action completed successfully'' (ua_UserID req)) 200))"

definition http_GetBettingMetrics :: "(string \<Rightarrow> time option) \<Rightarrow> (string \<Rightarrow> string) \<Rightarrow> admin_http" where
  "http_GetBettingMetrics parse_date query =
     WriteJSON (GetBettingMetrics
       \<lparr>bq_Period = '''', bq_TimeRange = query ''time_range'', bq_From = None, bq_FromDate = query_date parse_date query ''from_date'',
        bq_To = None, bq_ToDate = query_date parse_date query ''to_date''\<rparr>) 200"

definition http_GetFinancialReports :: "(string \<Rightarrow> time option) \<Rightarrow> (string \<Rightarrow> string) \<Rightarrow> admin_http" where
  "http_GetFinancialReports parse_date query =
     WriteJSON (GetFinancialReport
       \<lparr>fq_Period = '''', fq_Format = '''', fq_ReportType = query ''report_type'', fq_TimeRange = query ''time_range'',
        fq_From = None, fq_FromDate = query_date parse_date query ''from_date'',
        fq_To = None, fq_ToDate = query_date parse_date query ''to_date''\<rparr>) 200"

section \<open>Routes\<close>

datatype admin_endpoint =
    AdDashboard | AdHealth | AdConfig | AdConfigUpdate | AdLogs | AdUsers | AdDetails | AdAction | AdBetting | AdFinancial

definition admin_routes :: "(string \<times> admin_endpoint) list" where
  "admin_routes =
     [(''/api/admin/dashboard'', AdDashboard),
      (''/api/admin/system/health'', AdHealth),
      (''/api/admin/system/config'', AdConfig),
      (''/api/admin/system/config/update'', AdConfigUpdate),
      (''/api/admin/audit/logs'', AdLogs)]"

definition admin_user_routes :: "(string \<times> admin_endpoint) list" where
  "admin_user_routes =
     [(''/api/admin/users'', AdUsers), (''/api/admin/users/'', AdDetails), (''/api/admin/users/action'', AdAction)]"

definition admin_metrics_routes :: "(string \<times> admin_endpoint) list" where
  "admin_metrics_routes = [(''/api/admin/betting/metrics'', AdBetting), (''/api/admin/financial/reports'', AdFinancial)]"

record admin_decoders =
  ad_config :: "string \<Rightarrow> (string \<times> json) list option"
  ad_action :: "string \<Rightarrow> UserActionRequest option"

definition serve_admin ::
  "admin_decoders \<Rightarrow> (string \<Rightarrow> time option) \<Rightarrow> time \<Rightarrow> string \<Rightarrow> (string \<Rightarrow> string) \<Rightarrow> string \<Rightarrow> admin_service \<Rightarrow>
     admin_service \<times> admin_http" where
  "serve_admin J parse_date now path query body S =
     (case mux_match (admin_routes @ admin_user_routes @ admin_metrics_routes) path of
        SlashRedirect \<Rightarrow> (S, Redirected)
      | NoRoute \<Rightarrow> (S, PageNotFound)
      | Handled h \<Rightarrow>
          (case h of
             AdDashboard \<Rightarrow> http_GetDashboardData S
           | AdHealth \<Rightarrow> (S, http_GetSystemHealth)
           | AdConfig \<Rightarrow> (S, http_GetSystemConfig)
           | AdConfigUpdate \<Rightarrow> http_UpdateSystemConfig (ad_config J body) S
           | AdLogs \<Rightarrow> (S, http_GetAuditLogs parse_date query)
           | AdUsers \<Rightarrow> (S, http_GetUserManagementData query)
           | AdDetails \<Rightarrow> http_GetUserDetails now path S
           | AdAction \<Rightarrow> http_PerformUserAction (ad_action J body) S
           | AdBetting \<Rightarrow> (S, http_GetBettingMetrics parse_date query)
           | AdFinancial \<Rightarrow> (S, http_GetFinancialReports parse_date query)))"

section \<open>What an administrator gets\<close>

text \<open>
  Whatever page of the players or of the audit log is asked for, page 0 with a limit of 0 is answered:
  the endpoints fill in limit and offset, the service reads page and page size.
\<close>

lemma admin_paging_ignored:
  "http_GetUserManagementData query = Answered 200 (UsersPage 0 0 0)"
  "http_GetAuditLogs parse_date query = Answered 200 (LogsPage 0 0 0)"
  by (simp_all add: http_GetUserManagementData_def http_GetAuditLogs_def GetUserManagementData_def GetAuditLogs_def WriteJSON_def)

text \<open>The period of a report is never passed on: the endpoints fill in the range, the service reads the period.\<close>

lemma admin_periods_ignored:
  "http_GetBettingMetrics parse_date query = Answered 200 (BettingReport 0 0 '''')"
  "http_GetFinancialReports parse_date query = Answered 200 (FinancialReport 0 0 '''' '''')"
  by (simp_all add: http_GetBettingMetrics_def http_GetFinancialReports_def GetBettingMetrics_def GetFinancialReport_def WriteJSON_def)

text \<open>
  Banning a player, or setting the configuration, is confirmed and has no effect: over HTTP the service
  changes only by announcing that its pages were looked at.
\<close>

lemma admin_actions_ignored:
  assumes "ad_action J body = Some req" "ua_UserID req \<noteq> ''''" "ua_Action req \<noteq> ''''"
  shows "serve_admin J parse_date now ''/api/admin/users/action'' query body S =
    (S, Answered 200 (UserActionDone ''User action completed successfully'' (ua_UserID req)))"
  using assms by (simp add: serve_admin_def mux_match_def admin_routes_def admin_user_routes_def http_PerformUserAction_def
      PerformUserAction_def WriteJSON_def)

definition looked_at :: "admin_event \<Rightarrow> bool" where
  "looked_at e \<longleftrightarrow> (case e of DashboardAccessed \<Rightarrow> True | UserAccessed _ \<Rightarrow> True | _ \<Rightarrow> False)"

lemma admin_only_announces:
  assumes "serve_admin J parse_date now path query body S = (S', a)"
  shows "S' = S \<or> (\<exists>es e. S = Some es \<and> S' = Some (es @ [e]) \<and> looked_at e)"
  using assms
  by (cases S)
    (auto simp: serve_admin_def http_GetDashboardData_def GetDashboardData_def http_UpdateSystemConfig_def UpdateSystemConfig_def
      http_GetUserDetails_def GetUserDetails_def http_PerformUserAction_def PerformUserAction_def publishAdminEvent_def
      looked_at_def Let_def split: route.splits admin_endpoint.splits option.splits if_splits)

text \<open>Every identifier is a player, and every player is active and called the same.\<close>

lemma everybody_is_john:
  assumes "path \<noteq> ''''"
  shows "\<exists>S' u. http_GetUserDetails now (''/api/admin/users/'' @ path) S = (S', Answered 200 (DetailsReport u)) \<and>
    au_UserID u = path \<and> au_Username u = ''john_doe'' \<and> au_Status u = ''Active''"
proof -
  have "TrimPrefix (''/api/admin/users/'' @ path) ''/api/admin/users/'' = path" by (rule TrimPrefix_append)
  then show ?thesis using assms by (simp add: http_GetUserDetails_def GetUserDetails_def WriteJSON_def Let_def)
qed

text \<open>An action without a player is not refused: the answer to it panics.\<close>

lemma missing_action_panics:
  "ad_action J body = Some req \<Longrightarrow> ua_UserID req = '''' \<Longrightarrow> snd (http_PerformUserAction (ad_action J body) S) = Panicked"
  by (simp add: http_PerformUserAction_def WriteError_def)

end
